(* ===== verification/Prelude.thy ===== *)
theory Prelude
  imports Main "HOL-Library.Word"
begin

text \<open>
  Shared vocabulary of the development.

  \<^item> identifiers, clock readings and 64-bit integers;
  \<^item> SQL row operations: a table is the list of its rows, a guarded
    \<open>UPDATE ... WHERE\<close> is \<open>update_where\<close>, the command tag's row count is
    \<open>rows_affected\<close> and a single-row \<open>SELECT\<close> is \<open>select_one\<close>;
  \<^item> the interface of a keyed row update and of a guarded status flip, which
    the stores of the program implement many times over.
\<close>

section \<open>Types\<close>

text \<open>UUIDs are opaque keys; the zero key is \<open>uuid.Nil\<close>. A clock reading is a
  number of nanoseconds since the Unix epoch, a duration a number of nanoseconds.\<close>

type_synonym uid = nat
type_synonym time = int
type_synonym duration = int
type_synonym i64 = "64 word"

abbreviation (input) nil_uid :: uid where "nil_uid \<equiv> 0"

named_theorems store_simps "unfolding rules of the store operations"
named_theorems frame_simps "what an operation leaves unchanged"

section \<open>Durations\<close>

definition second :: duration where "second = 1000000000"
definition minute :: duration where "minute = 60 * second"
definition hour :: duration where "hour = 60 * minute"

section \<open>SQL row operations\<close>

definition update_where :: "('r \<Rightarrow> bool) \<Rightarrow> ('r \<Rightarrow> 'r) \<Rightarrow> 'r list \<Rightarrow> 'r list" where
  "update_where P f rows = map (\<lambda>r. if P r then f r else r) rows"

definition rows_affected :: "('r \<Rightarrow> bool) \<Rightarrow> 'r list \<Rightarrow> nat" where
  "rows_affected P rows = length (filter P rows)"

definition select_one :: "('r \<Rightarrow> bool) \<Rightarrow> 'r list \<Rightarrow> 'r option" where
  "select_one P rows = find P rows"

definition by_key :: "('r \<Rightarrow> uid) \<Rightarrow> uid \<Rightarrow> 'r list \<Rightarrow> 'r option" where
  "by_key key k rows = find (\<lambda>r. key r = k) rows"

lemma by_key_Nil [simp]: "by_key key k [] = None"
  by (simp add: by_key_def)

lemma by_key_Cons [simp]:
  "by_key key k (r # rs) = (if key r = k then Some r else by_key key k rs)"
  by (simp add: by_key_def)

lemma by_key_Some: "by_key key k rows = Some r \<Longrightarrow> r \<in> set rows \<and> key r = k"
  by (induction rows) (auto split: if_splits)

lemma by_key_None_iff: "by_key key k rows = None \<longleftrightarrow> k \<notin> key ` set rows"
  by (induction rows) auto

lemma by_key_distinct:
  "distinct (map key rows) \<Longrightarrow> r \<in> set rows \<Longrightarrow> by_key key (key r) rows = Some r"
  by (induction rows) auto

lemma by_key_append:
  "by_key key k (xs @ ys) = (case by_key key k xs of Some r \<Rightarrow> Some r | None \<Rightarrow> by_key key k ys)"
  by (induction xs) auto

lemma update_where_Nil [simp]: "update_where P f [] = []"
  by (simp add: update_where_def)

lemma update_where_Cons [simp]:
  "update_where P f (r # rs) = (if P r then f r else r) # update_where P f rs"
  by (simp add: update_where_def)

lemma update_where_append [simp]:
  "update_where P f (xs @ ys) = update_where P f xs @ update_where P f ys"
  by (simp add: update_where_def)

lemma length_update_where [simp]: "length (update_where P f rows) = length rows"
  by (simp add: update_where_def)

lemma set_update_where: "set (update_where P f rows) = (\<lambda>r. if P r then f r else r) ` set rows"
  by (simp add: update_where_def)

lemma update_where_none: "\<forall>r \<in> set rows. \<not> P r \<Longrightarrow> update_where P f rows = rows"
  by (induction rows) auto

lemma rows_affected_Nil [simp]: "rows_affected P [] = 0"
  by (simp add: rows_affected_def)

lemma rows_affected_Cons [simp]:
  "rows_affected P (r # rs) = (if P r then Suc (rows_affected P rs) else rows_affected P rs)"
  by (simp add: rows_affected_def)

lemma rows_affected_zero: "rows_affected P rows = 0 \<longleftrightarrow> (\<forall>r \<in> set rows. \<not> P r)"
  by (induction rows) auto

lemma rows_affected_none: "rows_affected P rows = 0 \<Longrightarrow> update_where P f rows = rows"
  by (simp add: rows_affected_zero update_where_none)

lemma map_update_where_same:
  "(\<And>r. g (f r) = g r) \<Longrightarrow> map g (update_where P f rows) = map g rows"
  by (induction rows) auto

lemma list_all_update_where:
  "list_all Q rows \<Longrightarrow> (\<And>r. Q r \<Longrightarrow> P r \<Longrightarrow> Q (f r)) \<Longrightarrow> list_all Q (update_where P f rows)"
  by (induction rows) auto

section \<open>Keyed updates and guarded status flips\<close>

text \<open>
  Every store of the program changes rows with
  \<open>UPDATE t SET ... WHERE id = $1 AND status IN (...)\<close> and reads the affected row
  count. \<open>row_update\<close> states that the assignment keeps the key;
  \<open>status_flip\<close> that it sets the status column; \<open>once_flip\<close> that the guard
  excludes the status it sets, so the flip can win only once.
\<close>

definition flip_guard ::
    "('r \<Rightarrow> uid) \<Rightarrow> ('r \<Rightarrow> 's) \<Rightarrow> ('s \<Rightarrow> bool) \<Rightarrow> uid \<Rightarrow> 'r \<Rightarrow> bool" where
  "flip_guard key status src k r \<longleftrightarrow> key r = k \<and> src (status r)"

locale row_update =
  fixes key :: "'r \<Rightarrow> uid"
    and assign :: "'r \<Rightarrow> 'r"
  assumes key_assign: "key (assign r) = key r"
begin

lemma keys_kept: "map key (update_where P assign rows) = map key rows"
  by (rule map_update_where_same) (rule key_assign)

lemma distinct_kept: "distinct (map key (update_where P assign rows)) = distinct (map key rows)"
  by (simp add: keys_kept)

lemma lookup_update:
  "by_key key k (update_where P assign rows) =
    map_option (\<lambda>r. if P r then assign r else r) (by_key key k rows)"
  by (induction rows) (auto simp: key_assign)

lemma lookup_other:
  assumes "\<And>r. P r \<Longrightarrow> key r = k'" and "k \<noteq> k'"
  shows "by_key key k (update_where P assign rows) = by_key key k rows"
proof (cases "by_key key k rows")
  case None
  then show ?thesis by (simp add: lookup_update)
next
  case (Some r)
  then have "key r = k" by (auto dest: by_key_Some)
  with assms have "\<not> P r" by blast
  with Some show ?thesis by (simp add: lookup_update)
qed

lemma lookup_exists:
  "(by_key key k (update_where P assign rows) = None) = (by_key key k rows = None)"
  by (simp add: lookup_update)

end

locale status_flip = row_update key assign
  for key :: "'r \<Rightarrow> uid" and assign :: "'r \<Rightarrow> 'r" +
  fixes status :: "'r \<Rightarrow> 's"
    and src :: "'s \<Rightarrow> bool"
    and dst :: 's
  assumes status_assign: "status (assign r) = dst"
begin

lemma flip_hit:
  assumes "by_key key k rows = Some r" and "src (status r)"
  shows "by_key key k (update_where (flip_guard key status src k) assign rows) = Some (assign r)"
  using assms by (auto simp: lookup_update flip_guard_def dest: by_key_Some)

lemma flip_miss:
  assumes "by_key key k rows = Some r" and "\<not> src (status r)"
  shows "by_key key k (update_where (flip_guard key status src k) assign rows) = Some r"
  using assms by (simp add: lookup_update flip_guard_def)

lemma flip_other:
  assumes "k \<noteq> k'"
  shows "by_key key k (update_where (flip_guard key status src k') assign rows) = by_key key k rows"
  by (rule lookup_other [of _ k']) (auto simp: flip_guard_def assms)

lemma affected_pos:
  assumes "by_key key k rows = Some r" and "src (status r)"
  shows "0 < rows_affected (flip_guard key status src k) rows"
  using assms by (induction rows) (auto simp: flip_guard_def split: if_splits)

lemma affected_zero_distinct:
  assumes "distinct (map key rows)" and "by_key key k rows = Some r" and "\<not> src (status r)"
  shows "rows_affected (flip_guard key status src k) rows = 0"
proof -
  have "\<not> flip_guard key status src k q" if "q \<in> set rows" for q
  proof
    assume "flip_guard key status src k q"
    then have "key q = k" "src (status q)" by (auto simp: flip_guard_def)
    with that assms(1) have "by_key key k rows = Some q" by (auto dest: by_key_distinct)
    with assms(2,3) \<open>src (status q)\<close> show False by simp
  qed
  then show ?thesis by (simp add: rows_affected_zero)
qed

lemma affected_missing: "by_key key k rows = None \<Longrightarrow> rows_affected (flip_guard key status src k) rows = 0"
  by (induction rows) (auto simp: flip_guard_def split: if_splits)

lemma status_after:
  assumes "by_key key k (update_where (flip_guard key status src k) assign rows) = Some r'"
    and "by_key key k rows = Some r" and "status r' \<noteq> status r"
  shows "status r' = dst \<and> src (status r)"
  using assms by (auto simp: lookup_update flip_guard_def status_assign split: if_splits)

end

locale once_flip = status_flip key assign status src dst
  for key :: "'r \<Rightarrow> uid" and assign :: "'r \<Rightarrow> 'r"
    and status :: "'r \<Rightarrow> 's" and src :: "'s \<Rightarrow> bool" and dst :: 's +
  assumes once: "\<not> src dst"
begin

lemma flip_once:
  "rows_affected (flip_guard key status src k)
     (update_where (flip_guard key status src k) assign rows) = 0"
  by (induction rows) (auto simp: flip_guard_def key_assign status_assign once)

lemma flip_idem:
  "update_where (flip_guard key status src k) assign
     (update_where (flip_guard key status src k) assign rows)
   = update_where (flip_guard key status src k) assign rows"
  by (rule rows_affected_none) (rule flip_once)

end

section \<open>Fallible steps on a state\<close>

text \<open>A call that may fail returns the state it left and a value or an error; \<open>andThen\<close>
  is Go's \<open>x, err := f(); if err != nil { return err }\<close>.\<close>

definition andThen :: "'s \<times> ('e + 'a) \<Rightarrow> ('s \<Rightarrow> 'a \<Rightarrow> 's \<times> ('e + 'b)) \<Rightarrow> 's \<times> ('e + 'b)" where
  "andThen r f = (case r of (s, Inl e) \<Rightarrow> (s, Inl e) | (s, Inr a) \<Rightarrow> f s a)"

lemma andThen_Inl [simp]: "andThen (s, Inl e) f = (s, Inl e)"
  by (simp add: andThen_def)

lemma andThen_Inr [simp]: "andThen (s, Inr a) f = f s a"
  by (simp add: andThen_def)

lemma andThen_InrD:
  "andThen r f = (s', Inr b) \<Longrightarrow> \<exists>s a. r = (s, Inr a) \<and> f s a = (s', Inr b)"
  by (cases r; cases "snd r") auto

text \<open>A property of the state that every step keeps is kept by the sequence.\<close>

lemma andThen_fst:
  "P (fst r) \<Longrightarrow> (\<And>s a. r = (s, Inr a) \<Longrightarrow> P s \<Longrightarrow> P (fst (f s a))) \<Longrightarrow> P (fst (andThen r f))"
  by (cases r; cases "snd r") auto

section \<open>Chains of checks\<close>

text \<open>A validation is a chain of early returns: a check answers its error or None, \<open>also_err\<close>
  is the next check, \<open>first_err\<close> a loop of checks.\<close>

fun first_err :: "('a \<Rightarrow> 'e option) \<Rightarrow> 'a list \<Rightarrow> 'e option" where
  "first_err f [] = None"
| "first_err f (x # xs) = (case f x of Some e \<Rightarrow> Some e | None \<Rightarrow> first_err f xs)"

definition also_err :: "'e option \<Rightarrow> 'e option \<Rightarrow> 'e option" where
  "also_err a b = (case a of Some e \<Rightarrow> Some e | None \<Rightarrow> b)"

definition err_unless :: "bool \<Rightarrow> 'e \<Rightarrow> 'e option" where
  "err_unless ok e = (if ok then None else Some e)"

lemma first_err_None: "first_err f xs = None \<longleftrightarrow> (\<forall>x \<in> set xs. f x = None)"
  by (induction xs) (auto split: option.splits)

lemma also_err_None: "also_err a b = None \<longleftrightarrow> a = None \<and> b = None"
  by (simp add: also_err_def split: option.splits)

lemma err_unless_None: "err_unless ok e = None \<longleftrightarrow> ok"
  by (simp add: err_unless_def)

lemmas checks_None = also_err_None first_err_None err_unless_None

section \<open>Rows that are used up\<close>

text \<open>A challenge, a token or a key is a row with a secret key and a mark; statements mark rows or append one
  with a new key. A key whose rows are all marked stays so.\<close>

definition spent_key :: "('r \<Rightarrow> 'k) \<Rightarrow> ('r \<Rightarrow> bool) \<Rightarrow> 'k \<Rightarrow> 'r list \<Rightarrow> bool" where
  "spent_key key used k rows \<longleftrightarrow> k \<in> set (map key rows) \<and> list_all (\<lambda>r. key r = k \<longrightarrow> used r) rows"

definition spend_step :: "('r \<Rightarrow> 'k) \<Rightarrow> ('r \<Rightarrow> 'r) \<Rightarrow> 'r list \<Rightarrow> 'r list \<Rightarrow> bool" where
  "spend_step key mark rows rows' \<longleftrightarrow> rows' = rows \<or> (\<exists>P. rows' = update_where P mark rows)
    \<or> (\<exists>r. rows' = rows @ [r] \<and> key r \<notin> key ` set rows)"

lemma spend_refl: "spend_step key mark rows rows"
  by (simp add: spend_step_def)

lemma spend_mark: "spend_step key mark rows (update_where P mark rows)"
  unfolding spend_step_def by blast

lemma spend_append: "key r \<notin> key ` set rows \<Longrightarrow> spend_step key mark rows (rows @ [r])"
  unfolding spend_step_def by blast

locale spendable =
  fixes key :: "'r \<Rightarrow> 'k"
    and used :: "'r \<Rightarrow> bool"
    and mark :: "'r \<Rightarrow> 'r"
  assumes key_mark: "key (mark r) = key r"
    and used_mark: "used (mark r)"
begin

lemma marked_keys: "map key (update_where P mark rows) = map key rows"
  by (rule map_update_where_same) (rule key_mark)

lemma spend_distinct: "distinct (map key rows) \<Longrightarrow> spend_step key mark rows rows' \<Longrightarrow> distinct (map key rows')"
  unfolding spend_step_def by (elim disjE exE conjE) (simp_all add: marked_keys)

lemma spent_kept:
  assumes sp: "spent_key key used k rows" and "spend_step key mark rows rows'"
  shows "spent_key key used k rows'"
  using assms(2) unfolding spend_step_def
proof (elim disjE exE conjE)
  fix P assume "rows' = update_where P mark rows"
  then show ?thesis using sp by (auto simp: spent_key_def marked_keys list_all_iff set_update_where used_mark key_mark simp del: set_map)
next
  fix r assume "rows' = rows @ [r]" and "key r \<notin> key ` set rows"
  then show ?thesis using sp by (auto simp: spent_key_def)
qed (use sp in simp)

lemma mark_spends:
  assumes "x \<in> set rows" and "P x \<or> used x" and "distinct (map key rows)"
  shows "spent_key key used (key x) (update_where P mark rows)"
proof -
  have same: "y = x" if "y \<in> set rows" "key y = key x" for y
    using that assms(1,3) unfolding distinct_map by (metis inj_onD)
  have "key x \<in> set (map key rows)" using assms(1) by simp
  moreover have "used y" if "y \<in> set (update_where P mark rows)" "key y = key x" for y
    using that same assms(2) by (auto simp: set_update_where key_mark used_mark)
  ultimately show ?thesis by (simp add: spent_key_def list_all_iff marked_keys del: set_map)
qed

end

end
