(* ===== verification/JobQueue.thy ===== *)
theory JobQueue
  imports Prelude
begin

text \<open>
  The agent job queue, \<open>internal/jobs/store.go\<close>: the \<open>jobs\<close> table as a list of
  rows, every statement of the store as a function on it, and the queue as a step
  relation. One \<open>UPDATE\<close> or \<open>INSERT\<close> is one step: PostgreSQL runs it atomically
  (the \<open>FOR UPDATE SKIP LOCKED\<close> subselect of the claim included), so concurrent agents
  are interleavings of these steps. \<open>now\<close> is the statement's \<open>now()\<close>. Payloads and
  results are JSON texts; \<open>None\<close> stands for a value \<open>json.Marshal\<close> refuses.
\<close>

section \<open>Data\<close>

datatype job_type =
    TypeProvisionWebsite | TypeDeleteWebsite | TypeInstallRuntime | TypeRemoveRuntime
  | TypeCreateDatabase | TypeDeleteDatabase | TypeIssueCertificate | TypeVerifyDomain
  | TypeDeployWebsite | TypeRollbackWebsite | TypeCloneStaging | TypePromoteStaging
  | TypeCreateBackup | TypeRestoreBackup | TypeDBTools | TypeInstallWP | TypeInstallLaravel
  | TypeSiteCommand | TypeSyncCrontab | TypeBuildApp | TypeStartApp | TypeStopApp
  | TypeRestartApp | TypeAppStatus | TypeAppLogs | TypeInstallExtension | TypeRemoveExtension
  | TypeDetectSoftware | TypeSiteUsage | TypeSyncFTPAccounts | TypeSyncDNSZone
  | TypeSuspendWebsite | TypeResumeWebsite | TypeEnforceLimits | TypeRecalcBandwidth
  | TypeRestartService | TypeNamed string

datatype job_status = StatusPending | StatusRunning | StatusSuccess | StatusFailed

record job =
  job_id :: uid
  job_server :: uid
  job_website :: "uid option"
  job_type_of :: job_type
  job_status :: job_status
  job_payload :: string
  job_result :: string
  job_error :: string
  job_progress :: int
  job_step :: string
  job_attempts :: nat
  job_max :: nat
  job_key :: "string option"
  job_claimed_at :: "time option"
  job_lease :: "time option"
  job_finished_at :: "time option"
  job_created_at :: time
  job_visible_after :: time

text \<open>The tables the store reads: jobs, servers with their maintenance flag, and the
  server of each website. \<open>q_next\<close> stands for \<open>gen_random_uuid()\<close>.\<close>

record queue =
  q_jobs :: "job list"
  q_servers :: "(uid \<times> bool) list"
  q_sites :: "(uid \<times> uid) list"
  q_next :: uid

datatype job_err = JobNotFound | JobMarshal | JobForeignKey

section \<open>Durations of the store\<close>

definition backoff :: "duration \<Rightarrow> duration" where
  "backoff unit = (if unit = 0 then 30 * second else unit)"

definition leaseFor :: "job_type \<Rightarrow> duration" where
  "leaseFor t =
    (if t \<in> {TypeInstallRuntime, TypeRemoveRuntime, TypeInstallExtension, TypeRemoveExtension,
             TypeInstallWP, TypeDBTools, TypeCreateBackup, TypeRestoreBackup, TypeBuildApp,
             TypeCloneStaging, TypePromoteStaging}
     then 30 * minute else 10 * minute)"

function backoff_loop :: "int \<Rightarrow> int \<Rightarrow> duration \<Rightarrow> duration" where
  "backoff_loop i attempts d =
    (if i < attempts \<and> d < 15 * minute then backoff_loop (i + 1) attempts (d * 2) else d)"
  by pat_completeness auto
termination by (relation "measure (\<lambda>(i, attempts, d). nat (attempts - i))") auto

declare backoff_loop.simps [simp del]

definition backoffFor :: "int \<Rightarrow> duration" where
  "backoffFor attempts =
    (let d = backoff_loop 1 attempts (30 * second)
     in if d > 15 * minute then 15 * minute else d)"

text \<open>The lease written by the claim statement is a \<open>CASE\<close> of the SQL, over the type names.\<close>

definition claim_lease :: "job_type \<Rightarrow> duration" where
  "claim_lease t =
    (if t \<in> {TypeInstallRuntime, TypeRemoveRuntime, TypeInstallExtension, TypeRemoveExtension,
             TypeInstallWP, TypeInstallLaravel, TypeDBTools, TypeCreateBackup, TypeRestoreBackup,
             TypeBuildApp, TypeSiteCommand, TypeCloneStaging, TypePromoteStaging}
     then 30 * minute else 10 * minute)"

section \<open>Enqueueing\<close>

definition job_live :: "job \<Rightarrow> bool" where
  "job_live j \<longleftrightarrow> job_status j = StatusPending \<or> job_status j = StatusRunning"

text \<open>The partial unique index \<open>idx_jobs_idempotency_active\<close>.\<close>

definition key_conflict :: "string \<Rightarrow> job \<Rightarrow> bool" where
  "key_conflict k j \<longleftrightarrow> job_key j = Some k \<and> job_live j"

definition new_job :: "uid \<Rightarrow> time \<Rightarrow> uid \<Rightarrow> uid option \<Rightarrow> job_type \<Rightarrow> string \<Rightarrow> string option \<Rightarrow> job" where
  "new_job i now srv site t payload key =
    \<lparr>job_id = i, job_server = srv, job_website = site, job_type_of = t,
     job_status = StatusPending, job_payload = payload, job_result = ''{}'', job_error = [],
     job_progress = 0, job_step = [], job_attempts = 0, job_max = 3, job_key = key,
     job_claimed_at = None, job_lease = None, job_finished_at = None, job_created_at = now,
     job_visible_after = now\<rparr>"

definition refs_ok :: "queue \<Rightarrow> uid \<Rightarrow> uid option \<Rightarrow> bool" where
  "refs_ok q srv site \<longleftrightarrow> srv \<in> fst ` set (q_servers q)
    \<and> (case site of None \<Rightarrow> True | Some w \<Rightarrow> w \<in> fst ` set (q_sites q))"

definition insert_job ::
    "queue \<Rightarrow> time \<Rightarrow> uid \<Rightarrow> uid option \<Rightarrow> job_type \<Rightarrow> string \<Rightarrow> string option \<Rightarrow> queue \<times> (job_err + job)" where
  "insert_job q now srv site t payload key =
    (if \<not> refs_ok q srv site then (q, Inl JobForeignKey)
     else let j = new_job (q_next q) now srv site t payload key
          in (q\<lparr>q_jobs := q_jobs q @ [j], q_next := q_next q + 1\<rparr>, Inr j))"

definition EnqueueIdempotent ::
    "queue \<Rightarrow> time \<Rightarrow> uid \<Rightarrow> uid option \<Rightarrow> job_type \<Rightarrow> string option \<Rightarrow> string \<Rightarrow> queue \<times> (job_err + job)" where
  "EnqueueIdempotent q now srv site t payload key =
    (case payload of
       None \<Rightarrow> (q, Inl JobMarshal)
     | Some js \<Rightarrow>
         if key = [] then insert_job q now srv site t js None
         else (case select_one (key_conflict key) (q_jobs q) of
                 Some j \<Rightarrow>
                   (q\<lparr>q_jobs := update_where (\<lambda>r. job_id r = job_id j)
                        (\<lambda>r. r\<lparr>job_payload := js\<rparr>) (q_jobs q)\<rparr>,
                    Inr (j\<lparr>job_payload := js\<rparr>))
               | None \<Rightarrow> insert_job q now srv site t js (Some key)))"

definition Enqueue ::
    "queue \<Rightarrow> time \<Rightarrow> uid \<Rightarrow> uid option \<Rightarrow> job_type \<Rightarrow> string option \<Rightarrow> queue \<times> (job_err + job)" where
  "Enqueue q now srv site t payload = EnqueueIdempotent q now srv site t payload []"

definition EnqueueForWebsite ::
    "queue \<Rightarrow> time \<Rightarrow> uid \<Rightarrow> job_type \<Rightarrow> string option \<Rightarrow> queue \<times> (job_err + job)" where
  "EnqueueForWebsite q now site t payload =
    (case map_of (q_sites q) site of
       None \<Rightarrow> (q, Inl JobNotFound)
     | Some srv \<Rightarrow> Enqueue q now srv (Some site) t payload)"

section \<open>Claiming, reporting, reaping\<close>

definition claimable :: "queue \<Rightarrow> time \<Rightarrow> uid \<Rightarrow> job \<Rightarrow> bool" where
  "claimable q now srv j \<longleftrightarrow> job_server j = srv \<and> job_status j = StatusPending
    \<and> map_of (q_servers q) srv = Some False \<and> job_visible_after j \<le> now"

definition claim_row :: "time \<Rightarrow> job \<Rightarrow> job" where
  "claim_row now j = j\<lparr>job_status := StatusRunning, job_claimed_at := Some now,
     job_attempts := job_attempts j + 1, job_lease := Some (now + claim_lease (job_type_of j))\<rparr>"

definition oldest :: "job list \<Rightarrow> job option" where
  "oldest js = (case sort_key job_created_at js of [] \<Rightarrow> None | j # _ \<Rightarrow> Some j)"

definition ClaimNext :: "queue \<Rightarrow> time \<Rightarrow> uid \<Rightarrow> queue \<times> job option" where
  "ClaimNext q now srv =
    (case oldest (filter (claimable q now srv) (q_jobs q)) of
       None \<Rightarrow> (q, None)
     | Some j \<Rightarrow>
         (q\<lparr>q_jobs := update_where (\<lambda>r. job_id r = job_id j) (claim_row now) (q_jobs q)\<rparr>,
          Some (claim_row now j)))"

definition success_row :: "time \<Rightarrow> string \<Rightarrow> job \<Rightarrow> job" where
  "success_row now res j = j\<lparr>job_status := StatusSuccess, job_result := res, job_error := [],
     job_finished_at := Some now, job_lease := None\<rparr>"

definition retry_row :: "duration \<Rightarrow> time \<Rightarrow> string \<Rightarrow> job \<Rightarrow> job" where
  "retry_row unit now msg j = j\<lparr>job_error := msg,
     job_status := (if job_attempts j < job_max j then StatusPending else StatusFailed),
     job_finished_at := (if job_attempts j \<ge> job_max j then Some now else None),
     job_lease := None,
     job_visible_after := (if job_attempts j < job_max j
        then now + int (job_attempts j) * backoff unit else now)\<rparr>"

definition running_with_id :: "uid \<Rightarrow> job \<Rightarrow> bool" where
  "running_with_id i j \<longleftrightarrow> job_id j = i \<and> job_status j = StatusRunning"

text \<open>\<open>result\<close> is \<open>None\<close> for a nil result, \<open>Some m\<close> for the outcome \<open>m\<close> of
  marshalling it.\<close>

definition ReportResult ::
    "duration \<Rightarrow> queue \<Rightarrow> time \<Rightarrow> uid \<Rightarrow> bool \<Rightarrow> string option option \<Rightarrow> string \<Rightarrow> queue \<times> (job_err + job)" where
  "ReportResult unit q now i success result msg =
    (case (case result of None \<Rightarrow> Some ''{}'' | Some m \<Rightarrow> m) of
       None \<Rightarrow> (q, Inl JobMarshal)
     | Some js \<Rightarrow>
         let row = (if success then success_row now js else retry_row unit now msg)
         in case select_one (running_with_id i) (q_jobs q) of
              None \<Rightarrow> (q, Inl JobNotFound)
            | Some j \<Rightarrow> (q\<lparr>q_jobs := update_where (running_with_id i) row (q_jobs q)\<rparr>, Inr (row j)))"

definition lease_expired :: "time \<Rightarrow> job \<Rightarrow> bool" where
  "lease_expired now j \<longleftrightarrow> job_status j = StatusRunning
    \<and> (case job_lease j of None \<Rightarrow> False | Some l \<Rightarrow> l < now)"

definition lease_error :: string where
  "lease_error = ''lease expired (agent did not report in time)''"

definition ReapExpiredLeases :: "duration \<Rightarrow> queue \<Rightarrow> time \<Rightarrow> queue \<times> job list" where
  "ReapExpiredLeases unit q now =
    (q\<lparr>q_jobs := update_where (lease_expired now) (retry_row unit now lease_error) (q_jobs q)\<rparr>,
     map (retry_row unit now lease_error) (filter (lease_expired now) (q_jobs q)))"

section \<open>Reads and bookkeeping\<close>

definition GetByID :: "queue \<Rightarrow> uid \<Rightarrow> job_err + job" where
  "GetByID q i = (case by_key job_id i (q_jobs q) of None \<Rightarrow> Inl JobNotFound | Some j \<Rightarrow> Inr j)"

definition newest_first :: "job list \<Rightarrow> job list" where
  "newest_first js = sort_key (\<lambda>j. - job_created_at j) js"

definition clamp_limit :: "int \<Rightarrow> int \<Rightarrow> int \<Rightarrow> nat" where
  "clamp_limit dflt most n = nat (if n \<le> 0 \<or> n > most then dflt else n)"

definition ListForWebsite :: "queue \<Rightarrow> uid \<Rightarrow> int \<Rightarrow> job list" where
  "ListForWebsite q site lim =
    take (clamp_limit 20 100 lim) (newest_first (filter (\<lambda>j. job_website j = Some site) (q_jobs q)))"

definition ScrubResult :: "queue \<Rightarrow> uid \<Rightarrow> queue" where
  "ScrubResult q i = q\<lparr>q_jobs := update_where (\<lambda>r. job_id r = i)
     (\<lambda>r. r\<lparr>job_result := ''{\"scrubbed\": true}''\<rparr>) (q_jobs q)\<rparr>"

text \<open>\<open>status\<close> is the already parsed filter: \<open>None\<close> for the empty string.\<close>

definition ListByStatus :: "queue \<Rightarrow> job_status option \<Rightarrow> int \<Rightarrow> job list" where
  "ListByStatus q status lim =
    take (clamp_limit 50 200 lim)
      (newest_first (filter (\<lambda>j. case status of None \<Rightarrow> True | Some s \<Rightarrow> job_status j = s) (q_jobs q)))"

definition UpdateProgress :: "queue \<Rightarrow> uid \<Rightarrow> int \<Rightarrow> string \<Rightarrow> queue" where
  "UpdateProgress q i progress stage =
    (let p = (if progress < 0 then 0 else progress);
         p' = (if p > 100 then 100 else p)
     in q\<lparr>q_jobs := update_where (\<lambda>r. job_id r = i)
          (\<lambda>r. r\<lparr>job_progress := p', job_step := stage\<rparr>) (q_jobs q)\<rparr>)"

definition ListRecentForServer :: "queue \<Rightarrow> uid \<Rightarrow> job_type list \<Rightarrow> int \<Rightarrow> job list" where
  "ListRecentForServer q srv types lim =
    take (clamp_limit 30 100 lim)
      (newest_first (filter (\<lambda>j. job_server j = srv \<and> (types = [] \<or> job_type_of j \<in> set types)) (q_jobs q)))"

section \<open>Administration and retention\<close>

text \<open>The administrator's retry and cancel handlers (\<open>api/phase6_adminview.go\<close>) read the
  job with one statement and update it with another: \<open>q0\<close> is the queue the first one
  saw, \<open>q\<close> the one the second one changes. The unique index makes the requeueing
  statement fail when another live job has taken the key.\<close>

datatype admin_err = AdmNotFound | AdmConflict | AdmInternal
datatype retry_ok = Requeued | Reenqueued uid

definition failed_with_id :: "uid \<Rightarrow> job \<Rightarrow> bool" where
  "failed_with_id i j \<longleftrightarrow> job_id j = i \<and> job_status j = StatusFailed"

definition pending_with_id :: "uid \<Rightarrow> job \<Rightarrow> bool" where
  "pending_with_id i j \<longleftrightarrow> job_id j = i \<and> job_status j = StatusPending"

definition requeue_row :: "time \<Rightarrow> job \<Rightarrow> job" where
  "requeue_row now j = j\<lparr>job_status := StatusPending, job_attempts := 0, job_error := [],
     job_result := ''{}'', job_finished_at := None, job_claimed_at := None, job_lease := None,
     job_visible_after := now\<rparr>"

definition key_taken :: "job list \<Rightarrow> job \<Rightarrow> bool" where
  "key_taken rows j \<longleftrightarrow> (case job_key j of None \<Rightarrow> False | Some k \<Rightarrow> list_ex (key_conflict k) rows)"

definition requeue_failed :: "queue \<Rightarrow> time \<Rightarrow> uid \<Rightarrow> queue \<times> (admin_err + retry_ok)" where
  "requeue_failed q now i =
    (if list_ex (\<lambda>j. failed_with_id i j \<and> key_taken (q_jobs q) j) (q_jobs q) then (q, Inl AdmInternal)
     else if rows_affected (failed_with_id i) (q_jobs q) = 0 then (q, Inl AdmConflict)
     else (q\<lparr>q_jobs := update_where (failed_with_id i) (requeue_row now) (q_jobs q)\<rparr>, Inr Requeued))"

definition retryJob :: "queue \<Rightarrow> queue \<Rightarrow> time \<Rightarrow> uid \<Rightarrow> queue \<times> (admin_err + retry_ok)" where
  "retryJob q0 q now i =
    (case GetByID q0 i of
       Inl _ \<Rightarrow> (q, Inl AdmNotFound)
     | Inr j \<Rightarrow>
         (case job_status j of
            StatusFailed \<Rightarrow> requeue_failed q now i
          | StatusSuccess \<Rightarrow>
              (case Enqueue q now (job_server j) (job_website j) (job_type_of j) (Some (job_payload j)) of
                 (q', Inl _) \<Rightarrow> (q', Inl AdmInternal)
               | (q', Inr fresh) \<Rightarrow> (q', Inr (Reenqueued (job_id fresh))))
          | _ \<Rightarrow> (q, Inl AdmConflict)))"

definition cancel_row :: "time \<Rightarrow> job \<Rightarrow> job" where
  "cancel_row now j = j\<lparr>job_status := StatusFailed, job_error := ''cancelled by administrator'',
     job_finished_at := Some now, job_lease := None\<rparr>"

definition cancelJob :: "queue \<Rightarrow> queue \<Rightarrow> time \<Rightarrow> uid \<Rightarrow> queue \<times> (admin_err + unit)" where
  "cancelJob q0 q now i =
    (case GetByID q0 i of
       Inl _ \<Rightarrow> (q, Inl AdmNotFound)
     | Inr j \<Rightarrow>
         if job_status j \<noteq> StatusPending then (q, Inl AdmConflict)
         else if rows_affected (pending_with_id i) (q_jobs q) = 0 then (q, Inl AdmConflict)
         else (q\<lparr>q_jobs := update_where (pending_with_id i) (cancel_row now) (q_jobs q)\<rparr>, Inr ()))"

text \<open>\<open>retention\<close> is the retention interval subtracted from \<open>now()\<close>.\<close>

definition prunable :: "duration \<Rightarrow> time \<Rightarrow> job \<Rightarrow> bool" where
  "prunable retention now j \<longleftrightarrow> job_created_at j < now - retention
    \<and> (job_status j = StatusSuccess \<or> job_status j = StatusFailed)"

definition pruneOldJobs :: "duration \<Rightarrow> queue \<Rightarrow> time \<Rightarrow> queue" where
  "pruneOldJobs retention q now = q\<lparr>q_jobs := filter (\<lambda>j. \<not> prunable retention now j) (q_jobs q)\<rparr>"

section \<open>Row updates of the store\<close>

interpretation jp: row_update job_id "\<lambda>r. r\<lparr>job_payload := js\<rparr>" for js
  by unfold_locales simp

interpretation js: row_update job_id "\<lambda>r. r\<lparr>job_result := res\<rparr>" for res
  by unfold_locales simp

interpretation jg: row_update job_id "\<lambda>r. r\<lparr>job_progress := p, job_step := st\<rparr>" for p st
  by unfold_locales simp

interpretation jc: status_flip job_id "claim_row now" job_status "\<lambda>s. s = StatusPending" StatusRunning for now
  by unfold_locales (simp_all add: claim_row_def)

interpretation jq: once_flip job_id "requeue_row now" job_status "\<lambda>s. s = StatusFailed" StatusPending for now
  by unfold_locales (simp_all add: requeue_row_def)

interpretation jx: once_flip job_id "cancel_row now" job_status "\<lambda>s. s = StatusPending" StatusFailed for now
  by unfold_locales (simp_all add: cancel_row_def)

interpretation jr: row_update job_id "retry_row unit now msg" for unit now msg
  by unfold_locales (simp add: retry_row_def)

interpretation jo: once_flip job_id "success_row now res" job_status "\<lambda>s. s = StatusRunning" StatusSuccess for now res
  by unfold_locales (simp_all add: success_row_def)

lemma running_flip: "running_with_id i = flip_guard job_id job_status (\<lambda>s. s = StatusRunning) i"
  by (rule ext) (simp add: running_with_id_def flip_guard_def)

lemma select_none_iff: "select_one P rows = None \<longleftrightarrow> (\<forall>r \<in> set rows. \<not> P r)"
  by (auto simp: select_one_def find_None_iff)

lemma select_someD: "select_one P rows = Some r \<Longrightarrow> r \<in> set rows \<and> P r"
  by (auto simp: select_one_def find_Some_iff)

lemma oldest_None [simp]: "oldest js = None \<longleftrightarrow> js = []"
  by (auto simp: oldest_def split: list.splits dest: arg_cong [where f = length])

lemma oldest_Nil [simp]: "oldest [] = None"
  by (simp add: oldest_def)

lemma oldest_Some:
  assumes "oldest js = Some j"
  shows "j \<in> set js" and "\<And>k. k \<in> set js \<Longrightarrow> job_created_at j \<le> job_created_at k"
proof -
  obtain ks where ks: "sort_key job_created_at js = j # ks"
    using assms by (auto simp: oldest_def split: list.splits)
  have "sorted (map job_created_at (j # ks))" unfolding ks [symmetric] by simp
  moreover have set: "set js = insert j (set ks)" unfolding set_sort [of job_created_at js, symmetric] ks by simp
  ultimately show "j \<in> set js" and "\<And>k. k \<in> set js \<Longrightarrow> job_created_at j \<le> job_created_at k"
    by auto
qed

section \<open>Well-formed queues\<close>

definition job_ok :: "job \<Rightarrow> bool" where
  "job_ok j \<longleftrightarrow> job_max j = 3 \<and> job_attempts j \<le> job_max j \<and> (case job_status j of
       StatusPending \<Rightarrow> job_attempts j < job_max j \<and> job_lease j = None \<and> job_finished_at j = None
     | StatusRunning \<Rightarrow> 0 < job_attempts j \<and> job_lease j \<noteq> None \<and> job_claimed_at j \<noteq> None
         \<and> job_finished_at j = None
     | StatusSuccess \<Rightarrow> 0 < job_attempts j \<and> job_lease j = None \<and> job_finished_at j \<noteq> None
     | StatusFailed \<Rightarrow> job_lease j = None \<and> job_finished_at j \<noteq> None)
   \<and> 0 \<le> job_progress j \<and> job_progress j \<le> 100"

definition live_keys :: "job list \<Rightarrow> string list" where
  "live_keys rows = map (\<lambda>j. the (job_key j)) (filter (\<lambda>j. job_live j \<and> job_key j \<noteq> None) rows)"

definition queue_ok :: "queue \<Rightarrow> bool" where
  "queue_ok q \<longleftrightarrow> distinct (map job_id (q_jobs q)) \<and> list_all (\<lambda>j. job_id j < q_next q) (q_jobs q)
    \<and> list_all job_ok (q_jobs q) \<and> distinct (live_keys (q_jobs q))"

lemma job_ok_payload [simp]: "job_ok (j\<lparr>job_payload := js\<rparr>) = job_ok j"
  by (simp add: job_ok_def cong: job_status.case_cong)

lemma job_ok_result [simp]: "job_ok (j\<lparr>job_result := js\<rparr>) = job_ok j"
  by (simp add: job_ok_def cong: job_status.case_cong)

lemma job_ok_progress [simp]:
  "job_ok j \<Longrightarrow> 0 \<le> p \<Longrightarrow> p \<le> 100 \<Longrightarrow> job_ok (j\<lparr>job_progress := p, job_step := st\<rparr>)"
  by (auto simp: job_ok_def split: job_status.splits)

lemma live_keys_Nil [simp]: "live_keys [] = []" by (simp add: live_keys_def)

lemma live_keys_Cons [simp]:
  "live_keys (j # rows) =
    (if job_live j \<and> job_key j \<noteq> None then the (job_key j) # live_keys rows else live_keys rows)"
  by (simp add: live_keys_def)

lemma live_keys_append [simp]: "live_keys (xs @ ys) = live_keys xs @ live_keys ys"
  by (simp add: live_keys_def)

lemma set_live_keys: "k \<in> set (live_keys rows) \<longleftrightarrow> (\<exists>j \<in> set rows. key_conflict k j)"
  by (induction rows) (auto simp: key_conflict_def)

lemma live_keys_update:
  assumes "\<And>j. job_key (f j) = job_key j"
    and "\<And>j. j \<in> set rows \<Longrightarrow> P j \<Longrightarrow> job_live (f j) \<Longrightarrow> job_live j"
  shows "set (live_keys (update_where P f rows)) \<subseteq> set (live_keys rows)
    \<and> (distinct (live_keys rows) \<longrightarrow> distinct (live_keys (update_where P f rows)))"
  using assms(2) by (induction rows) (auto simp: assms(1))

lemma queue_ok_update:
  assumes "queue_ok q" and "\<And>j. job_id (f j) = job_id j" and "\<And>j. job_key (f j) = job_key j"
    and "\<And>j. j \<in> set (q_jobs q) \<Longrightarrow> P j \<Longrightarrow> job_live (f j) \<Longrightarrow> job_live j"
    and "\<And>j. j \<in> set (q_jobs q) \<Longrightarrow> job_ok j \<Longrightarrow> P j \<Longrightarrow> job_ok (f j)"
  shows "queue_ok (q\<lparr>q_jobs := update_where P f (q_jobs q)\<rparr>)"
proof -
  have "list_all job_ok (update_where P f (q_jobs q))"
    using assms(1,5) by (auto simp: queue_ok_def list_all_iff set_update_where)
  moreover have "list_all (\<lambda>j. job_id j < q_next q) (update_where P f (q_jobs q))"
    using assms(1) by (intro list_all_update_where) (auto simp: queue_ok_def assms(2))
  ultimately show ?thesis
    using assms(1) live_keys_update [of f "q_jobs q" P, OF assms(3,4)]
    by (simp add: queue_ok_def map_update_where_same assms(2))
qed

lemma insert_job_ok:
  assumes "queue_ok q" and "key = None \<or> (\<exists>k. key = Some k \<and> select_one (key_conflict k) (q_jobs q) = None)"
  shows "queue_ok (fst (insert_job q now srv site t payload key))"
  using assms
  by (auto simp: insert_job_def queue_ok_def new_job_def Let_def job_ok_def list_all_iff set_live_keys
      select_none_iff job_live_def intro: less_SucI)

lemma enqueue_ok: "queue_ok q \<Longrightarrow> queue_ok (fst (EnqueueIdempotent q now srv site t payload key))"
proof -
  assume ok: "queue_ok q"
  have upd: "queue_ok (q\<lparr>q_jobs := update_where P (\<lambda>r. r\<lparr>job_payload := js\<rparr>) (q_jobs q)\<rparr>)" for P js
    using ok by (rule queue_ok_update) (simp_all add: job_live_def)
  show ?thesis
    by (auto simp: EnqueueIdempotent_def ok upd insert_job_ok split: option.splits)
qed

lemma claim_row_ok:
  "job_ok j \<Longrightarrow> job_status j = StatusPending \<Longrightarrow> job_ok (claim_row now j)"
  by (simp add: job_ok_def claim_row_def)

lemma retry_row_ok:
  "job_ok j \<Longrightarrow> job_status j = StatusRunning \<Longrightarrow> job_ok (retry_row unit now msg j)"
  by (auto simp: job_ok_def retry_row_def)

lemma success_row_ok:
  "job_ok j \<Longrightarrow> job_status j = StatusRunning \<Longrightarrow> job_ok (success_row now res j)"
  by (simp add: job_ok_def success_row_def)

lemma claim_pick:
  assumes "oldest (filter (claimable q now srv) (q_jobs q)) = Some j"
  shows "j \<in> set (q_jobs q)" and "claimable q now srv j"
  using oldest_Some(1) [OF assms] by auto

lemma same_id_same_row:
  "queue_ok q \<Longrightarrow> j \<in> set (q_jobs q) \<Longrightarrow> r \<in> set (q_jobs q) \<Longrightarrow> job_id r = job_id j \<Longrightarrow> r = j"
  by (auto simp: queue_ok_def distinct_map dest: inj_onD)

lemma claim_ok: "queue_ok q \<Longrightarrow> queue_ok (fst (ClaimNext q now srv))"
proof (cases "oldest (filter (claimable q now srv) (q_jobs q))")
  case (Some j)
  assume ok: "queue_ok q"
  note j = claim_pick [OF Some]
  have same: "r = j" if "r \<in> set (q_jobs q)" "job_id r = job_id j" for r
    using same_id_same_row [OF ok j(1) that] .
  have "queue_ok (q\<lparr>q_jobs := update_where (\<lambda>r. job_id r = job_id j) (claim_row now) (q_jobs q)\<rparr>)"
    using ok by (rule queue_ok_update)
      (use j(2) in \<open>auto dest!: same simp: claimable_def job_live_def claim_row_ok\<close>, simp_all add: claim_row_def)
  with Some show ?thesis by (simp add: ClaimNext_def)
qed (simp add: ClaimNext_def)

lemma report_ok: "queue_ok q \<Longrightarrow> queue_ok (fst (ReportResult unit q now i success result msg))"
proof -
  assume ok: "queue_ok q"
  have "queue_ok (q\<lparr>q_jobs := update_where (running_with_id i) (success_row now js) (q_jobs q)\<rparr>)" for js
    using ok by (rule queue_ok_update)
      (simp_all add: running_with_id_def success_row_ok job_live_def, simp_all add: success_row_def)
  moreover have "queue_ok (q\<lparr>q_jobs := update_where (running_with_id i) (retry_row unit now msg) (q_jobs q)\<rparr>)"
    using ok by (rule queue_ok_update)
      (simp_all add: running_with_id_def retry_row_ok job_live_def, simp_all add: retry_row_def)
  ultimately show ?thesis using ok by (auto simp: ReportResult_def Let_def split: option.splits)
qed

lemma reap_ok: "queue_ok q \<Longrightarrow> queue_ok (fst (ReapExpiredLeases unit q now))"
  unfolding ReapExpiredLeases_def fst_conv
  by (erule queue_ok_update)
    (simp_all add: lease_expired_def retry_row_ok job_live_def, simp_all add: retry_row_def)

lemma scrub_ok: "queue_ok q \<Longrightarrow> queue_ok (ScrubResult q i)"
  unfolding ScrubResult_def
  by (erule queue_ok_update) (simp_all add: job_live_def)

lemma progress_ok: "queue_ok q \<Longrightarrow> queue_ok (UpdateProgress q i p st)"
  unfolding UpdateProgress_def Let_def
  by (erule queue_ok_update) (simp_all add: job_live_def)

lemma key_taken_iff: "key_taken rows j \<longleftrightarrow> (\<exists>k. job_key j = Some k \<and> k \<in> set (live_keys rows))"
  by (auto simp: key_taken_def list_ex_iff set_live_keys split: option.splits)

text \<open>Requeueing brings one dead row back to life; the check of the unique index is what
  keeps the live keys distinct.\<close>

lemma requeue_other_key:
  assumes "distinct (map job_id rows)" and "j \<in> set rows" and "failed_with_id i j"
    and "job_key j = None \<or> the (job_key j) \<notin> set (live_keys rows)"
    and "distinct (live_keys rows)"
  shows "distinct (live_keys (update_where (failed_with_id i) (requeue_row now) rows))
    \<and> set (live_keys (update_where (failed_with_id i) (requeue_row now) rows))
        \<subseteq> set (live_keys rows) \<union> set_option (job_key j)"
  using assms
proof (induction rows)
  case (Cons r rows)
  have rest: "update_where (failed_with_id i) (requeue_row now) rows = rows" if "job_id r = i"
  proof (rule update_where_none, intro ballI notI)
    fix x assume "x \<in> set rows" "failed_with_id i x"
    with Cons.prems(1) that show False by (auto simp: failed_with_id_def) (metis imageI)
  qed
  have live: "\<not> job_live r" "job_live (requeue_row now r)" if "failed_with_id i r"
    using that by (auto simp: failed_with_id_def job_live_def requeue_row_def)
  have key: "job_key (requeue_row now r) = job_key r" by (simp add: requeue_row_def)
  show ?case
  proof (cases "j = r")
    case True
    with Cons.prems(3) have "job_id r = i" by (simp add: failed_with_id_def)
    with True Cons.prems rest live key show ?thesis by (auto split: if_splits)
  next
    case False
    with Cons.prems(1,2,3) have "\<not> failed_with_id i r" "j \<in> set rows" by (auto simp: failed_with_id_def)
    with Cons show ?thesis by (cases "job_key j") (auto split: if_splits)
  qed
qed simp

lemma requeue_row_ok: "job_ok j \<Longrightarrow> job_ok (requeue_row now j)"
  by (simp add: job_ok_def requeue_row_def)

lemma requeue_ok: "queue_ok q \<Longrightarrow> queue_ok (fst (requeue_failed q now i))"
proof (cases "list_ex (\<lambda>j. failed_with_id i j \<and> key_taken (q_jobs q) j) (q_jobs q)
    \<or> rows_affected (failed_with_id i) (q_jobs q) = 0")
  case False
  assume ok: "queue_ok q"
  from False obtain j where j: "j \<in> set (q_jobs q)" "failed_with_id i j" "\<not> key_taken (q_jobs q) j"
    by (auto simp: rows_affected_zero list_ex_iff)
  have "distinct (live_keys (update_where (failed_with_id i) (requeue_row now) (q_jobs q)))"
    using requeue_other_key [OF _ j(1,2)] ok j(3)
    by (cases "job_key j") (auto simp: queue_ok_def key_taken_iff)
  moreover have "list_all job_ok (update_where (failed_with_id i) (requeue_row now) (q_jobs q))"
    using ok by (intro list_all_update_where) (auto simp: queue_ok_def requeue_row_ok)
  moreover have "list_all (\<lambda>j. job_id j < q_next q) (update_where (failed_with_id i) (requeue_row now) (q_jobs q))"
    using ok by (intro list_all_update_where) (auto simp: queue_ok_def jq.key_assign)
  ultimately show ?thesis
    using ok False by (simp add: requeue_failed_def queue_ok_def jq.distinct_kept)
qed (auto simp: requeue_failed_def)

lemma retry_ok: "queue_ok q \<Longrightarrow> queue_ok (fst (retryJob q0 q now i))"
  using enqueue_ok [of q now]
  by (auto simp: retryJob_def requeue_ok Enqueue_def split: sum.splits job_status.splits prod.splits)
    (metis fst_conv)+

lemma cancel_ok: "queue_ok q \<Longrightarrow> queue_ok (fst (cancelJob q0 q now i))"
proof -
  assume ok: "queue_ok q"
  have "queue_ok (q\<lparr>q_jobs := update_where (pending_with_id i) (cancel_row now) (q_jobs q)\<rparr>)"
    using ok by (rule queue_ok_update)
      (auto simp: cancel_row_def pending_with_id_def job_live_def job_ok_def)
  then show ?thesis by (simp add: cancelJob_def ok split: sum.splits)
qed

lemma live_keys_filter:
  "set (live_keys (filter P rows)) \<subseteq> set (live_keys rows)
    \<and> (distinct (live_keys rows) \<longrightarrow> distinct (live_keys (filter P rows)))"
  by (induction rows) auto

lemma prune_ok: "queue_ok q \<Longrightarrow> queue_ok (pruneOldJobs retention q now)"
  using live_keys_filter [of "\<lambda>j. \<not> prunable retention now j" "q_jobs q"]
  by (auto simp: pruneOldJobs_def queue_ok_def list_all_iff distinct_map_filter)

section \<open>The queue as a transition system\<close>

text \<open>One step is one store operation. Its labels say which identifiers it hands to an
  agent and which finished jobs an administrator puts back; \<open>queue_run\<close> collects the
  labels of an execution.\<close>

datatype queue_label = Handed uid | Restarted uid

inductive queue_step :: "duration \<Rightarrow> queue \<Rightarrow> queue_label list \<Rightarrow> queue \<Rightarrow> bool" for unit where
  step_enqueue: "EnqueueIdempotent q now srv site t payload key = (q', r) \<Longrightarrow> queue_step unit q [] q'"
| step_claim: "ClaimNext q now srv = (q', Some j) \<Longrightarrow> queue_step unit q [Handed (job_id j)] q'"
| step_idle: "ClaimNext q now srv = (q', None) \<Longrightarrow> queue_step unit q [] q'"
| step_report: "ReportResult unit q now i success result msg = (q', r) \<Longrightarrow> queue_step unit q [] q'"
| step_reap: "ReapExpiredLeases unit q now = (q', js) \<Longrightarrow> queue_step unit q [] q'"
| step_scrub: "ScrubResult q i = q' \<Longrightarrow> queue_step unit q [] q'"
| step_progress: "UpdateProgress q i p st = q' \<Longrightarrow> queue_step unit q [] q'"
| step_restart: "retryJob q0 q now i = (q', Inr Requeued) \<Longrightarrow> queue_step unit q [Restarted i] q'"
| step_retry: "retryJob q0 q now i = (q', r) \<Longrightarrow> r \<noteq> Inr Requeued \<Longrightarrow> queue_step unit q [] q'"
| step_cancel: "cancelJob q0 q now i = (q', r) \<Longrightarrow> queue_step unit q [] q'"
| step_prune: "pruneOldJobs retention q now = q' \<Longrightarrow> queue_step unit q [] q'"
| step_maintenance: "q' = q\<lparr>q_servers := svs\<rparr> \<Longrightarrow> queue_step unit q [] q'"

inductive_cases queue_stepE: "queue_step unit q l q'"

inductive queue_run :: "duration \<Rightarrow> queue \<Rightarrow> queue_label list \<Rightarrow> queue \<Rightarrow> bool" for unit where
  qrun_refl: "queue_run unit q [] q"
| qrun_step: "queue_run unit q ls q' \<Longrightarrow> queue_step unit q' l q'' \<Longrightarrow> queue_run unit q (ls @ l) q''"

lemma queue_step_ok: "queue_step unit q l q' \<Longrightarrow> queue_ok q \<Longrightarrow> queue_ok q'"
proof (induction rule: queue_step.induct)
  case step_enqueue then show ?case using enqueue_ok by (metis fst_conv)
next
  case step_claim then show ?case using claim_ok by (metis fst_conv)
next
  case step_idle then show ?case using claim_ok by (metis fst_conv)
next
  case step_report then show ?case using report_ok by (metis fst_conv)
next
  case step_reap then show ?case using reap_ok by (metis fst_conv)
next
  case step_restart then show ?case using retry_ok by (metis fst_conv)
next
  case step_retry then show ?case using retry_ok by (metis fst_conv)
next
  case step_cancel then show ?case using cancel_ok by (metis fst_conv)
next
  case step_maintenance then show ?case by (simp add: queue_ok_def)
qed (auto simp: scrub_ok progress_ok prune_ok)

lemma queue_run_ok: "queue_run unit q ls q' \<Longrightarrow> queue_ok q \<Longrightarrow> queue_ok q'"
  by (induction rule: queue_run.induct) (auto intro: queue_step_ok)

text \<open>How much of its three attempts an identifier has used; a pruned identifier never
  comes back and counts as exhausted.\<close>

definition spent :: "queue \<Rightarrow> uid \<Rightarrow> nat" where
  "spent q i = (case by_key job_id i (q_jobs q) of
     None \<Rightarrow> if i < q_next q then 3 else 0 | Some j \<Rightarrow> job_attempts j)"

lemma spent_bound: "queue_ok q \<Longrightarrow> spent q i \<le> 3"
  by (auto simp: spent_def queue_ok_def list_all_iff job_ok_def dest!: by_key_Some split: option.splits)

lemma spent_update:
  assumes "\<And>j. job_id (f j) = job_id j" and "\<And>j. job_attempts (f j) = job_attempts j"
  shows "spent (q\<lparr>q_jobs := update_where P f (q_jobs q)\<rparr>) i = spent q i"
  using assms
  by (auto simp: spent_def row_update.lookup_update [OF row_update.intro, of job_id f] split: option.splits)

lemma fresh_key: "queue_ok q \<Longrightarrow> by_key job_id (q_next q) (q_jobs q) = None"
  by (auto simp: queue_ok_def list_all_iff by_key_None_iff)

lemma spent_enqueue:
  assumes "queue_ok q"
  shows "spent (fst (EnqueueIdempotent q now srv site t payload key)) i = spent q i"
proof -
  have ins: "spent (fst (insert_job q now srv site t js k)) i = spent q i" for js k
    using fresh_key [OF assms]
    by (auto simp: insert_job_def spent_def by_key_append new_job_def Let_def split: option.splits)
  have upd: "spent (q\<lparr>q_jobs := update_where P (\<lambda>r. r\<lparr>job_payload := js\<rparr>) (q_jobs q)\<rparr>) i
      = spent q i" for P js
    by (rule spent_update) simp_all
  show ?thesis by (simp add: EnqueueIdempotent_def ins upd split: option.splits)
qed

lemma claim_result:
  assumes "queue_ok q" and "ClaimNext q now srv = (q', Some j)"
  obtains r where "r \<in> set (q_jobs q)" "claimable q now srv r" "j = claim_row now r"
    "\<And>k. k \<in> set (q_jobs q) \<Longrightarrow> claimable q now srv k \<Longrightarrow> job_created_at r \<le> job_created_at k"
    "q' = q\<lparr>q_jobs := update_where (\<lambda>k. job_id k = job_id r) (claim_row now) (q_jobs q)\<rparr>"
    "by_key job_id (job_id j) (q_jobs q) = Some r" "by_key job_id (job_id j) (q_jobs q') = Some j"
proof -
  from assms(2) obtain r where r: "oldest (filter (claimable q now srv) (q_jobs q)) = Some r"
    "j = claim_row now r" "q' = q\<lparr>q_jobs := update_where (\<lambda>k. job_id k = job_id r) (claim_row now) (q_jobs q)\<rparr>"
    by (auto simp: ClaimNext_def split: option.splits)
  have id: "job_id j = job_id r" by (simp add: r(2) claim_row_def)
  have old: "by_key job_id (job_id j) (q_jobs q) = Some r"
    using assms(1) claim_pick(1) [OF r(1)] by (simp add: id queue_ok_def by_key_distinct)
  then have new: "by_key job_id (job_id j) (q_jobs q') = Some j"
    by (simp add: r(3) jc.lookup_update id) (simp add: r(2))
  show thesis
    by (rule that [OF claim_pick [OF r(1)] r(2) _ r(3) old new]) (use oldest_Some(2) [OF r(1)] in auto)
qed

lemma spent_claim:
  assumes "queue_ok q" and "ClaimNext q now srv = (q', Some j)"
  shows "spent q' i = spent q i + count_list [Handed (job_id j)] (Handed i)"
  using assms
proof (rule claim_result)
  fix r assume r: "j = claim_row now r" "by_key job_id (job_id j) (q_jobs q) = Some r"
    "by_key job_id (job_id j) (q_jobs q') = Some j"
    "q' = q\<lparr>q_jobs := update_where (\<lambda>k. job_id k = job_id r) (claim_row now) (q_jobs q)\<rparr>"
  have id: "job_id j = job_id r" by (simp add: r(1) claim_row_def)
  show ?thesis
  proof (cases "i = job_id j")
    case True
    with r(2,3) show ?thesis by (simp add: spent_def) (simp add: r(1) claim_row_def)
  next
    case False
    then have "by_key job_id i (q_jobs q') = by_key job_id i (q_jobs q)"
      using jc.lookup_other [of "\<lambda>k. job_id k = job_id r" "job_id r" i] by (simp add: r(4) id)
    with False show ?thesis by (simp add: spent_def r(4))
  qed
qed

lemma spent_report: "spent (fst (ReportResult unit q now n success result msg)) i = spent q i"
proof -
  have "spent (q\<lparr>q_jobs := update_where P (success_row now js) (q_jobs q)\<rparr>) i = spent q i"
    "spent (q\<lparr>q_jobs := update_where P (retry_row unit now msg) (q_jobs q)\<rparr>) i = spent q i" for P js
    by (rule spent_update; simp add: success_row_def retry_row_def)+
  then show ?thesis by (auto simp: ReportResult_def Let_def split: option.splits)
qed

lemma spent_restart:
  assumes "queue_ok q" and "retryJob q0 q now n = (q', Inr Requeued)"
  shows "spent q i \<le> spent q' i + 3 * count_list [Restarted n] (Restarted i)"
proof -
  have q': "q' = q\<lparr>q_jobs := update_where (failed_with_id n) (requeue_row now) (q_jobs q)\<rparr>"
    using assms(2) by (auto simp: retryJob_def requeue_failed_def
        split: sum.splits job_status.splits prod.splits if_splits)
  show ?thesis
  proof (cases "i = n")
    case True
    with spent_bound [OF assms(1), of i] show ?thesis by simp
  next
    case False
    then have "by_key job_id i (q_jobs q') = by_key job_id i (q_jobs q)"
      using jq.lookup_other [of "failed_with_id n" n i] by (simp add: q' failed_with_id_def)
    with False show ?thesis by (simp add: spent_def q')
  qed
qed

lemma spent_retry:
  assumes "queue_ok q" and "retryJob q0 q now n = (q', r)" and "r \<noteq> Inr Requeued"
  shows "spent q' i = spent q i"
proof (cases "q' = q")
  case False
  then have "\<exists>(j::job) r'. Enqueue q now (job_server j) (job_website j) (job_type_of j) (Some (job_payload j)) = (q', r')"
    using assms(2,3) by (auto simp: retryJob_def requeue_failed_def
        split: sum.splits job_status.splits prod.splits if_splits)
  then obtain j :: job where "q' = fst (Enqueue q now (job_server j) (job_website j) (job_type_of j) (Some (job_payload j)))"
    by (metis fst_conv)
  then show ?thesis by (simp add: Enqueue_def spent_enqueue [OF assms(1)])
qed simp

lemma spent_prune:
  assumes "queue_ok q" shows "spent q i \<le> spent (pruneOldJobs retention q now) i"
proof (cases "by_key job_id i (q_jobs (pruneOldJobs retention q now))")
  case None
  then show ?thesis
    using spent_bound [OF assms, of i] assms
    by (auto simp: spent_def pruneOldJobs_def queue_ok_def list_all_iff dest!: by_key_Some split: option.splits)
next
  case (Some j)
  then have "j \<in> set (q_jobs q)" "job_id j = i" by (auto simp: pruneOldJobs_def dest!: by_key_Some)
  with assms have "by_key job_id i (q_jobs q) = Some j" by (auto simp: queue_ok_def dest: by_key_distinct)
  with Some show ?thesis by (simp add: spent_def)
qed

lemma spent_step:
  assumes "queue_step unit q l q'" and "queue_ok q"
  shows "spent q i + count_list l (Handed i) \<le> spent q' i + 3 * count_list l (Restarted i)"
  using assms
proof (induction rule: queue_step.induct)
  case (step_enqueue q now srv site t payload key q' r)
  then show ?case using spent_enqueue [of q now srv site t payload key i] by simp
next
  case step_claim
  then show ?case by (simp add: spent_claim)
next
  case (step_report q now i' success result msg q' r)
  then show ?case using spent_report [of unit q now i' success result msg i] by simp
next
  case (step_reap q now q' js)
  then have "q' = q\<lparr>q_jobs := update_where (lease_expired now) (retry_row unit now lease_error) (q_jobs q)\<rparr>"
    by (auto simp: ReapExpiredLeases_def)
  then show ?case by (simp add: spent_update retry_row_def)
next
  case (step_idle q now srv q')
  then show ?case by (auto simp: ClaimNext_def split: option.splits)
next
  case step_restart
  then show ?case using spent_restart by simp
next
  case step_retry
  then show ?case by (simp add: spent_retry)
next
  case (step_cancel q0 q now n q' r)
  have "spent (q\<lparr>q_jobs := update_where (pending_with_id n) (cancel_row now) (q_jobs q)\<rparr>) i = spent q i"
    by (rule spent_update) (simp_all add: cancel_row_def)
  with step_cancel show ?case by (auto simp: cancelJob_def split: sum.splits if_splits)
next
  case step_prune
  then show ?case using spent_prune by auto
next
  case (step_scrub q n q')
  then have "spent q' i = spent q i"
    unfolding ScrubResult_def by (auto intro!: spent_update)
  then show ?case by simp
next
  case (step_progress q n p st q')
  then have "spent q' i = spent q i"
    unfolding UpdateProgress_def Let_def by (auto intro!: spent_update)
  then show ?case by simp
next
  case step_maintenance
  then show ?case by (simp add: spent_def)
qed

lemma count_list_app: "count_list (xs @ ys) x = count_list xs x + count_list ys x"
  by (induction xs) auto

lemma spent_run:
  "queue_run unit q ls q' \<Longrightarrow> queue_ok q \<Longrightarrow>
    spent q i + count_list ls (Handed i) \<le> spent q' i + 3 * count_list ls (Restarted i)"
proof (induction rule: queue_run.induct)
  case (qrun_step q ls q' l q'')
  then show ?case using spent_step [OF qrun_step(2) queue_run_ok [OF qrun_step(1)], of i]
    by (simp add: count_list_app)
qed simp

section \<open>Properties\<close>

definition empty_queue :: "(uid \<times> bool) list \<Rightarrow> (uid \<times> uid) list \<Rightarrow> queue" where
  "empty_queue svs sites = \<lparr>q_jobs = [], q_servers = svs, q_sites = sites, q_next = 1\<rparr>"

lemma empty_queue_ok: "queue_ok (empty_queue svs sites)"
  by (simp add: queue_ok_def empty_queue_def)

text \<open>C1: Whatever agents, callers and administrators do, in any interleaving of enqueues,
  claims, reports, lease reaping, retries, cancellations, pruning and maintenance changes, a
  job is handed to an agent at most three times (its \<open>max_attempts\<close>) plus three times for
  each time an administrator restarts it, and the table stays well formed: unique
  identifiers, one live job per idempotency key, a lease on exactly the running jobs, a
  finish time on exactly the finished ones.\<close>

theorem job_claims_bounded:
  assumes "queue_run unit (empty_queue svs sites) ls q"
  shows "count_list ls (Handed i) \<le> 3 + 3 * count_list ls (Restarted i) \<and> queue_ok q"
proof -
  have ok: "queue_ok q" using queue_run_ok [OF assms empty_queue_ok] .
  with spent_run [OF assms empty_queue_ok, of i] spent_bound [OF ok, of i] show ?thesis by simp
qed

lemma job_claims_bounded_witness:
  "queue_run 0 (empty_queue [(7, False)] []) [Handed 1]
      (fst (ClaimNext (fst (Enqueue (empty_queue [(7, False)] []) 0 7 None TypeBuildApp (Some ''{}''))) 5 7))
    \<and> count_list [Handed 1] (Handed (1::uid)) \<le> 3 + 3 * count_list [Handed 1] (Restarted 1)"
proof -
  let ?q0 = "empty_queue [(7, False)] []"
  let ?q1 = "fst (Enqueue ?q0 0 7 None TypeBuildApp (Some ''{}''))"
  have "queue_step 0 ?q0 [] ?q1" unfolding Enqueue_def by (rule step_enqueue) (rule prod.collapse [symmetric])
  then have "queue_run 0 ?q0 ([] @ []) ?q1" by (rule qrun_step [OF qrun_refl])
  moreover have "ClaimNext ?q1 5 7 = (fst (ClaimNext ?q1 5 7), Some (the (snd (ClaimNext ?q1 5 7))))"
    by code_simp
  from step_claim [OF this] have "queue_step 0 ?q1 [Handed (job_id (the (snd (ClaimNext ?q1 5 7))))] (fst (ClaimNext ?q1 5 7))" .
  moreover have "job_id (the (snd (ClaimNext ?q1 5 7))) = 1" by code_simp
  ultimately have "queue_run 0 ?q0 ([] @ [Handed 1]) (fst (ClaimNext ?q1 5 7))"
    by (intro qrun_step [of _ _ "[]" ?q1]) simp_all
  then show ?thesis using job_claims_bounded [of 0 "[(7, False)]" "[]" "[Handed 1]" _ 1] by simp
qed

lemma claim_not_again:
  assumes "queue_ok q" and "by_key job_id i (q_jobs q) = Some r" and "job_status r \<noteq> StatusPending"
    and "ClaimNext q now srv = (q', Some j)"
  shows "job_id j \<noteq> i"
proof (rule claim_result [OF assms(1,4)])
  fix k assume k: "claimable q now srv k" "by_key job_id (job_id j) (q_jobs q) = Some k"
  show ?thesis
  proof
    assume "job_id j = i"
    with k(2) assms(2) have "k = r" by simp
    with k(1) assms(3) show False by (simp add: claimable_def)
  qed
qed



lemma running_unique:
  assumes "queue_ok q" and "by_key job_id i (q_jobs q) = Some j" and "job_status j = StatusRunning"
  shows "select_one (running_with_id i) (q_jobs q) = Some j"
proof (cases "select_one (running_with_id i) (q_jobs q)")
  case None
  with assms(2,3) show ?thesis by (auto simp: select_none_iff running_with_id_def dest: by_key_Some)
next
  case (Some r)
  have "r = j"
    using same_id_same_row [OF assms(1), of j r] select_someD [OF Some] by_key_Some [OF assms(2)]
    by (auto simp: running_with_id_def)
  with Some show ?thesis by simp
qed

lemma not_running_none:
  assumes "queue_ok q" and "by_key job_id i (q_jobs q) = Some j" and "job_status j \<noteq> StatusRunning"
  shows "select_one (running_with_id i) (q_jobs q) = None"
  using assms jo.affected_zero_distinct [of "q_jobs q" i j]
  by (simp add: select_none_iff running_flip rows_affected_zero queue_ok_def)

lemma report_not_running:
  assumes "queue_ok q" and "by_key job_id i (q_jobs q) = Some j" and "job_status j \<noteq> StatusRunning"
  shows "ReportResult unit q now i success None msg = (q, Inl JobNotFound)"
  by (simp add: ReportResult_def not_running_none [OF assms] Let_def)

text \<open>Reporting a running job settles it exactly once. A success is final; a failure
  puts the job back, invisible to claims for \<open>attempts\<close> backoff units, or fails it for
  good on its last attempt; and a second report of either kind changes nothing and answers
  "job not found".\<close>

theorem report_settles:
  assumes "queue_ok q" and "by_key job_id i (q_jobs q) = Some j" and "job_status j = StatusRunning"
    and "ReportResult unit q now i success None msg = (q', r)"
  shows "\<exists>j'. r = Inr j' \<and> by_key job_id i (q_jobs q') = Some j'
    \<and> (if success then job_status j' = StatusSuccess
        else if job_attempts j = 3 then job_status j' = StatusFailed
        else job_status j' = StatusPending
          \<and> (\<forall>t < now + int (job_attempts j) * backoff unit. \<not> claimable q' t (job_server j) j'))
    \<and> ReportResult unit q' later i success' None msg' = (q', Inl JobNotFound)"
proof -
  let ?row = "if success then success_row now ''{}'' else retry_row unit now msg"
  have sel: "select_one (running_with_id i) (q_jobs q) = Some j"
    by (rule running_unique [OF assms(1,2,3)])
  have ok': "queue_ok q'" using report_ok [OF assms(1), of unit now i success None msg] assms(4) by simp
  have id: "job_id (?row k) = job_id k" for k by (simp add: success_row_def retry_row_def)
  have q': "q' = q\<lparr>q_jobs := update_where (running_with_id i) ?row (q_jobs q)\<rparr>" and r: "r = Inr (?row j)"
    using assms(4) sel by (auto simp: ReportResult_def Let_def)
  have "running_with_id i j" using select_someD [OF sel] by simp
  then have row: "by_key job_id i (q_jobs q') = Some (?row j)"
    using row_update.lookup_update [OF row_update.intro, of job_id ?row] id assms(2) by (simp add: q')
  have "job_max j = 3" "job_attempts j \<le> 3"
    using assms(1) by_key_Some [OF assms(2)] by (auto simp: queue_ok_def list_all_iff job_ok_def)
  then have "if success then job_status (?row j) = StatusSuccess
      else if job_attempts j = 3 then job_status (?row j) = StatusFailed
      else job_status (?row j) = StatusPending
        \<and> (\<forall>t < now + int (job_attempts j) * backoff unit. \<not> claimable q' t (job_server j) (?row j))"
    by (simp add: success_row_def retry_row_def claimable_def)
  moreover have "ReportResult unit q' later i success' None msg' = (q', Inl JobNotFound)"
    by (rule report_not_running [OF ok' row]) (simp add: success_row_def retry_row_def)
  ultimately show ?thesis using r row by blast
qed

lemma report_settles_witness:
  "snd (ReportResult 0 (fst (ReportResult 0 (fst (ClaimNext
     (fst (Enqueue (empty_queue [(7, False)] []) 0 7 None TypeBuildApp (Some ''{}''))) 5 7)) 9 1 False None ''x''))
       10 1 True None []) = Inl JobNotFound"
proof -
  let ?q1 = "fst (Enqueue (empty_queue [(7, False)] []) 0 7 None TypeBuildApp (Some ''{}''))"
  let ?q2 = "fst (ClaimNext ?q1 5 7)"
  let ?r = "ReportResult 0 ?q2 9 1 False None ''x''"
  have "queue_ok ?q2" unfolding Enqueue_def by (intro claim_ok enqueue_ok empty_queue_ok)
  moreover have "by_key job_id 1 (q_jobs ?q2) = Some (the (by_key job_id 1 (q_jobs ?q2)))" by code_simp
  moreover have "job_status (the (by_key job_id 1 (q_jobs ?q2))) = StatusRunning" by code_simp
  moreover have "?r = (fst ?r, snd ?r)" by simp
  ultimately have "ReportResult 0 (fst ?r) 10 1 True None [] = (fst ?r, Inl JobNotFound)"
    using report_settles by blast
  then show ?thesis by (simp del: One_nat_def)
qed

lemma enqueue_live_reuse:
  assumes "queue_ok q" and "key \<noteq> []" and "by_key job_id i (q_jobs q) = Some j" and "key_conflict key j"
  shows "select_one (key_conflict key) (q_jobs q) = Some j"
proof (cases "select_one (key_conflict key) (q_jobs q)")
  case None
  with assms(3,4) show ?thesis by (auto simp: select_none_iff dest: by_key_Some)
next
  case (Some r)
  have one: "\<And>a b. a \<in> set rows \<Longrightarrow> b \<in> set rows \<Longrightarrow> key_conflict key a \<Longrightarrow> key_conflict key b
      \<Longrightarrow> distinct (live_keys rows) \<Longrightarrow> a = b" for rows
  proof (induction rows)
    case (Cons x rows)
    have "key_conflict key x \<Longrightarrow> \<not> (\<exists>y \<in> set rows. key_conflict key y)"
      using Cons.prems(5) by (simp add: set_live_keys [symmetric]) (simp add: key_conflict_def)
    with Cons show ?case by (auto split: if_splits)
  qed simp
  have "r = j"
    using one select_someD [OF Some] by_key_Some [OF assms(3)] assms(1,4) by (auto simp: queue_ok_def)
  with Some show ?thesis by simp
qed

text \<open>Enqueueing under an idempotency key that a pending or running job holds never
  adds a job: the holder is returned, with the new payload, and every other row is
  untouched.\<close>

theorem enqueue_idempotent:
  assumes "queue_ok q" and "key \<noteq> []" and "by_key job_id i (q_jobs q) = Some j"
    and "key_conflict key j" and "EnqueueIdempotent q now srv site t (Some js) key = (q', r)"
  shows "r = Inr (j\<lparr>job_payload := js\<rparr>) \<and> length (q_jobs q') = length (q_jobs q)
    \<and> q_next q' = q_next q
    \<and> (\<forall>k. by_key job_id k (q_jobs q') =
         (if k = i then Some (j\<lparr>job_payload := js\<rparr>) else by_key job_id k (q_jobs q)))"
proof -
  have sel: "select_one (key_conflict key) (q_jobs q) = Some j"
    by (rule enqueue_live_reuse [OF assms(1-4)])
  have id: "job_id j = i" using by_key_Some [OF assms(3)] by simp
  have q': "q' = q\<lparr>q_jobs := update_where (\<lambda>r. job_id r = i) (\<lambda>r. r\<lparr>job_payload := js\<rparr>) (q_jobs q)\<rparr>"
    and r: "r = Inr (j\<lparr>job_payload := js\<rparr>)"
    using assms(2,5) sel id by (auto simp: EnqueueIdempotent_def)
  have "by_key job_id k (q_jobs q') =
         (if k = i then Some (j\<lparr>job_payload := js\<rparr>) else by_key job_id k (q_jobs q))" for k
    using jp.lookup_other [of "\<lambda>r. job_id r = i" i k] assms(3) id
    by (cases "k = i") (simp_all add: q' jp.lookup_update)
  with r show ?thesis by (simp add: q')
qed

lemma enqueue_idempotent_witness:
  "length (q_jobs (fst (EnqueueIdempotent
     (fst (EnqueueIdempotent (empty_queue [(7, False)] []) 0 7 None TypeBuildApp (Some ''a'') ''k''))
     1 7 None TypeBuildApp (Some ''b'') ''k''))) = 1"
proof -
  let ?q1 = "fst (EnqueueIdempotent (empty_queue [(7, False)] []) 0 7 None TypeBuildApp (Some ''a'') ''k'')"
  let ?r = "EnqueueIdempotent ?q1 1 7 None TypeBuildApp (Some ''b'') ''k''"
  have "queue_ok ?q1" by (intro enqueue_ok empty_queue_ok)
  moreover have "''k'' \<noteq> []" by simp
  moreover have "by_key job_id 1 (q_jobs ?q1) = Some (the (by_key job_id 1 (q_jobs ?q1)))" by code_simp
  moreover have "key_conflict ''k'' (the (by_key job_id 1 (q_jobs ?q1)))" by code_simp
  moreover have "?r = (fst ?r, snd ?r)" by simp
  ultimately have "length (q_jobs (fst ?r)) = length (q_jobs ?q1)"
    using enqueue_idempotent by blast
  moreover have "length (q_jobs ?q1) = 1" by code_simp
  ultimately show ?thesis by simp
qed

section \<open>Reaping and backoff\<close>

lemma reap_clears: "list_all (\<lambda>j. \<not> lease_expired now j) (q_jobs (fst (ReapExpiredLeases unit q now)))"
  by (auto simp: ReapExpiredLeases_def list_all_iff set_update_where lease_expired_def retry_row_def)

lemma reap_others:
  "by_key job_id i (q_jobs q) = Some j \<Longrightarrow> \<not> lease_expired now j \<Longrightarrow>
    by_key job_id i (q_jobs (fst (ReapExpiredLeases unit q now))) = Some j"
  by (simp add: ReapExpiredLeases_def jr.lookup_update)

lemma backoff_loop_bounds:
  "0 < d \<Longrightarrow> d \<le> backoff_loop i n d \<and> (d < 30 * minute \<longrightarrow> backoff_loop i n d < 30 * minute)"
proof (induction i n d rule: backoff_loop.induct)
  case (1 i n d)
  then show ?case by (subst (1 2) backoff_loop.simps) (auto simp: minute_def second_def)
qed

lemma backoffFor_bounds: "30 * second \<le> backoffFor n \<and> backoffFor n \<le> 15 * minute"
  using backoff_loop_bounds [of "30 * second" 1 n] by (auto simp: backoffFor_def Let_def minute_def second_def)

lemma backoffFor_values:
  "map backoffFor [0, 1, 2, 3, 4, 5, 6, 100] =
    map (\<lambda>k. k * second) [30, 30, 60, 120, 240, 480, 900, 900]"
  by code_simp

end
