(* ===== verification/GoStrings.thy ===== *)
theory GoStrings
  imports Prelude
begin

text \<open>
  The functions of Go's \<open>strings\<close>, \<open>strconv\<close> and \<open>fmt\<close> packages the program uses.
  A Go string is its byte sequence, here a \<open>string\<close> (a list of 8-bit characters).
  White space is Unicode white space in its UTF-8 encoding, as in
  \<open>strings.TrimSpace\<close> and \<open>strings.Fields\<close>. \<open>to_lower\<close> maps the ASCII
  letters; bytes outside ASCII are left unchanged.
\<close>

section \<open>Bytes\<close>

abbreviation byte :: "char \<Rightarrow> nat" where "byte c \<equiv> of_char c"

definition is_digit :: "char \<Rightarrow> bool" where
  "is_digit c \<longleftrightarrow> 48 \<le> byte c \<and> byte c \<le> 57"

definition is_lower :: "char \<Rightarrow> bool" where
  "is_lower c \<longleftrightarrow> 97 \<le> byte c \<and> byte c \<le> 122"

definition is_upper :: "char \<Rightarrow> bool" where
  "is_upper c \<longleftrightarrow> 65 \<le> byte c \<and> byte c \<le> 90"

definition lower_char :: "char \<Rightarrow> char" where
  "lower_char c = (if is_upper c then char_of (byte c + 32) else c)"

definition to_lower :: "string \<Rightarrow> string" where
  "to_lower s = map lower_char s"

definition upper_char :: "char \<Rightarrow> char" where
  "upper_char c = (if is_lower c then char_of (byte c - 32) else c)"

section \<open>Prefixes, suffixes, substrings\<close>

fun has_prefix :: "string \<Rightarrow> string \<Rightarrow> bool" where
  "has_prefix s [] = True"
| "has_prefix [] (p # ps) = False"
| "has_prefix (c # s) (p # ps) = (c = p \<and> has_prefix s ps)"

definition has_suffix :: "string \<Rightarrow> string \<Rightarrow> bool" where
  "has_suffix s p = has_prefix (rev s) (rev p)"

definition trim_prefix :: "string \<Rightarrow> string \<Rightarrow> string" where
  "trim_prefix s p = (if has_prefix s p then drop (length p) s else s)"

definition trim_suffix :: "string \<Rightarrow> string \<Rightarrow> string" where
  "trim_suffix s p = (if has_suffix s p then take (length s - length p) s else s)"

text \<open>\<open>strings.Trim(s, "/")\<close>.\<close>

definition trim_slashes :: "string \<Rightarrow> string" where
  "trim_slashes s = rev (dropWhile (\<lambda>c. c = CHR ''/'') (rev (dropWhile (\<lambda>c. c = CHR ''/'') s)))"

fun contains :: "string \<Rightarrow> string \<Rightarrow> bool" where
  "contains [] p = (p = [])"
| "contains (c # s) p = (has_prefix (c # s) p \<or> contains s p)"

text \<open>\<open>strings.Index\<close>: where a substring begins first.\<close>

fun find_sub :: "string \<Rightarrow> string \<Rightarrow> nat option" where
  "find_sub pat [] = (if pat = [] then Some 0 else None)"
| "find_sub pat (c # s) = (if has_prefix (c # s) pat then Some 0 else map_option Suc (find_sub pat s))"

definition contains_any :: "string \<Rightarrow> string \<Rightarrow> bool" where
  "contains_any s cs = list_ex (\<lambda>c. c \<in> set cs) s"

text \<open>\<open>strings.Split(s, sep)\<close> for a one-byte separator: never empty.\<close>

fun split_on :: "char \<Rightarrow> string \<Rightarrow> string list" where
  "split_on d [] = [[]]"
| "split_on d (c # s) =
     (if c = d then [] # split_on d s
      else (case split_on d s of [] \<Rightarrow> [[c]] | w # ws \<Rightarrow> (c # w) # ws))"

fun join_with :: "string \<Rightarrow> string list \<Rightarrow> string" where
  "join_with sep [] = []"
| "join_with sep [w] = w"
| "join_with sep (w # v # ws) = w @ sep @ join_with sep (v # ws)"

section \<open>White space\<close>

text \<open>The UTF-8 encodings of the code points of \<open>unicode.IsSpace\<close>.\<close>

definition space_seqs :: "string list" where
  "space_seqs =
    [[CHR 0x09], [CHR 0x0A], [CHR 0x0B], [CHR 0x0C],
     [CHR 0x0D], [CHR 0x20],
     [CHR 0xC2, CHR 0x85], [CHR 0xC2, CHR 0xA0],
     [CHR 0xE1, CHR 0x9A, CHR 0x80],
     [CHR 0xE2, CHR 0x80, CHR 0x80], [CHR 0xE2, CHR 0x80, CHR 0x81],
     [CHR 0xE2, CHR 0x80, CHR 0x82], [CHR 0xE2, CHR 0x80, CHR 0x83],
     [CHR 0xE2, CHR 0x80, CHR 0x84], [CHR 0xE2, CHR 0x80, CHR 0x85],
     [CHR 0xE2, CHR 0x80, CHR 0x86], [CHR 0xE2, CHR 0x80, CHR 0x87],
     [CHR 0xE2, CHR 0x80, CHR 0x88], [CHR 0xE2, CHR 0x80, CHR 0x89],
     [CHR 0xE2, CHR 0x80, CHR 0x8A], [CHR 0xE2, CHR 0x80, CHR 0xA8],
     [CHR 0xE2, CHR 0x80, CHR 0xA9], [CHR 0xE2, CHR 0x80, CHR 0xAF],
     [CHR 0xE2, CHR 0x81, CHR 0x9F], [CHR 0xE3, CHR 0x80, CHR 0x80]]"

text \<open>The length in bytes of the white space character a string starts with, 0 if none.\<close>

definition space_len :: "string \<Rightarrow> nat" where
  "space_len s = (case find (has_prefix s) space_seqs of None \<Rightarrow> 0 | Some p \<Rightarrow> length p)"

definition space_len_end :: "string \<Rightarrow> nat" where
  "space_len_end s = (case find (has_suffix s) space_seqs of None \<Rightarrow> 0 | Some p \<Rightarrow> length p)"

lemma has_prefix_length: "has_prefix s p \<Longrightarrow> length p \<le> length s"
  by (induction s p rule: has_prefix.induct) auto

lemma has_prefix_iff: "has_prefix s p \<longleftrightarrow> (\<exists>t. s = p @ t)"
  by (induction s p rule: has_prefix.induct) auto

lemma has_suffix_iff: "has_suffix s p \<longleftrightarrow> (\<exists>t. s = t @ p)"
proof
  assume "has_suffix s p"
  then obtain t where "rev s = rev p @ t" by (auto simp: has_suffix_def has_prefix_iff)
  then have "rev (rev s) = rev (rev p @ t)" by (rule arg_cong)
  then show "\<exists>t. s = t @ p" by simp
next
  assume "\<exists>t. s = t @ p"
  then show "has_suffix s p" by (auto simp: has_suffix_def has_prefix_iff)
qed

lemma trim_suffix_append [simp]: "trim_suffix (s @ p) p = s"
  by (auto simp: trim_suffix_def has_suffix_iff)

lemma trim_prefix_append [simp]: "trim_prefix (p @ s) p = s"
  by (auto simp: trim_prefix_def has_prefix_iff)

lemma space_seqs_nonempty: "p \<in> set space_seqs \<Longrightarrow> p \<noteq> []"
  by (auto simp: space_seqs_def)

lemma space_len_le: "space_len s \<le> length s"
  by (auto simp: space_len_def find_Some_iff dest!: has_prefix_length split: option.splits)

lemma space_len_end_le: "space_len_end s \<le> length s"
  by (auto simp: space_len_end_def find_Some_iff has_suffix_def dest!: has_prefix_length
      split: option.splits)

lemma space_len_Nil [simp]: "space_len [] = 0"
  using space_len_le [of "[]"] by simp

lemma space_len_end_Nil [simp]: "space_len_end [] = 0"
  using space_len_end_le [of "[]"] by simp

lemma space_drop_less: "0 < space_len s \<Longrightarrow> length s - space_len s < length s"
  using space_len_le [of s] by simp

lemma space_take_less: "0 < space_len_end s \<Longrightarrow> length s - space_len_end s < length s"
  using space_len_end_le [of s] by simp

function trim_left :: "string \<Rightarrow> string" where
  "trim_left s = (if space_len s = 0 then s else trim_left (drop (space_len s) s))"
  by pat_completeness auto
termination
  by (relation "measure length") (simp_all add: space_drop_less)

function trim_right :: "string \<Rightarrow> string" where
  "trim_right s = (if space_len_end s = 0 then s else trim_right (take (length s - space_len_end s) s))"
  by pat_completeness auto
termination
  by (relation "measure length") (simp_all add: space_take_less)

declare trim_left.simps [simp del] trim_right.simps [simp del]

definition trim_space :: "string \<Rightarrow> string" where
  "trim_space s = trim_right (trim_left s)"

text \<open>\<open>strings.Fields\<close>: the maximal runs of bytes between white space.\<close>

function fields_aux :: "string \<Rightarrow> string \<Rightarrow> string list" where
  "fields_aux w s =
     (if s = [] then (if w = [] then [] else [rev w])
      else if space_len s = 0 then fields_aux (hd s # w) (tl s)
      else (if w = [] then [] else [rev w]) @ fields_aux [] (drop (space_len s) s))"
  by pat_completeness auto
termination
  by (relation "measure (\<lambda>(w, s). length s)") auto

declare fields_aux.simps [simp del]

definition fields :: "string \<Rightarrow> string list" where
  "fields s = fields_aux [] s"

section \<open>Numbers\<close>

definition digit_char :: "nat \<Rightarrow> char" where
  "digit_char d = char_of (48 + d)"

fun nat_str :: "nat \<Rightarrow> string" where
  "nat_str n = (if n < 10 then [digit_char n] else nat_str (n div 10) @ [digit_char (n mod 10)])"

declare nat_str.simps [simp del]

definition int_str :: "int \<Rightarrow> string" where
  "int_str i = (if i < 0 then CHR ''-'' # nat_str (nat (- i)) else nat_str (nat i))"

fun digits_val :: "nat \<Rightarrow> string \<Rightarrow> nat" where
  "digits_val acc [] = acc"
| "digits_val acc (c # s) = digits_val (10 * acc + (byte c - 48)) s"

definition all_digits :: "string \<Rightarrow> bool" where
  "all_digits s \<longleftrightarrow> s \<noteq> [] \<and> list_all is_digit s"

text \<open>\<open>strconv.ParseInt(s, 10, 64)\<close> (and \<open>strconv.Atoi\<close>): None is the error.\<close>

definition in_int64 :: "int \<Rightarrow> bool" where
  "in_int64 i \<longleftrightarrow> - (2 ^ 63) \<le> i \<and> i < 2 ^ 63"

definition parse_int :: "string \<Rightarrow> int option" where
  "parse_int s =
     (let (neg, ds) = (case s of [] \<Rightarrow> (False, [])
                       | c # r \<Rightarrow> if c = CHR ''-'' then (True, r)
                                  else if c = CHR ''+'' then (False, r) else (False, s))
      in if all_digits ds
         then (let i = (if neg then - int (digits_val 0 ds) else int (digits_val 0 ds))
               in if in_int64 i then Some i else None)
         else None)"

text \<open>\<open>fmt.Sscanf(s, "%d", &n)\<close>: leading white space (a newline is an error), an
  optional sign, the longest run of digits; the rest of the input is ignored.\<close>

function skip_space :: "string \<Rightarrow> string option" where
  "skip_space s =
     (if has_prefix s [CHR 0x0A] then None
      else if space_len s = 0 then Some s
      else skip_space (drop (space_len s) s))"
  by pat_completeness auto
termination
  by (relation "measure length") (simp_all add: space_drop_less)

declare skip_space.simps [simp del]

definition sscanf_d :: "string \<Rightarrow> int option" where
  "sscanf_d s =
     (case skip_space s of
        None \<Rightarrow> None
      | Some t \<Rightarrow>
          (let (sg, r) = (case t of [] \<Rightarrow> ([], []) | c # q \<Rightarrow>
                            if c = CHR ''-'' \<or> c = CHR ''+'' then ([c], q) else ([], t));
               ds = takeWhile is_digit r
           in if ds = [] then None else parse_int (sg @ ds)))"

section \<open>Lemmas\<close>

lemma byte_values:
  "byte c = 9 \<longleftrightarrow> c = CHR 0x09" "byte c = 10 \<longleftrightarrow> c = CHR 0x0A" "byte c = 11 \<longleftrightarrow> c = CHR 0x0B"
  "byte c = 12 \<longleftrightarrow> c = CHR 0x0C" "byte c = 13 \<longleftrightarrow> c = CHR 0x0D" "byte c = 32 \<longleftrightarrow> c = CHR '' ''"
  by (auto simp: of_char_eq_iff [symmetric, where ?'a = nat])

lemma byte_digit_char: "d < 10 \<Longrightarrow> byte (digit_char d) = 48 + d"
  by (simp add: digit_char_def of_char_of)

lemma is_digit_digit_char [simp]: "d < 10 \<Longrightarrow> is_digit (digit_char d)"
  by (simp add: is_digit_def byte_digit_char)

lemma digits_val_append: "digits_val acc (s @ t) = digits_val (digits_val acc s) t"
  by (induction s arbitrary: acc) auto

lemma all_digits_nat_str: "all_digits (nat_str n)"
proof (induction n rule: nat_str.induct)
  case (1 n)
  then show ?case
    by (subst nat_str.simps) (auto simp: all_digits_def)
qed

lemma digits_val_nat_str [simp]: "digits_val 0 (nat_str n) = n"
proof (induction n rule: nat_str.induct)
  case (1 n)
  then show ?case
    by (subst nat_str.simps) (auto simp: digits_val_append byte_digit_char)
qed

lemma nat_str_nonempty [simp]: "nat_str n \<noteq> []"
  using all_digits_nat_str by (simp add: all_digits_def)

lemma is_digit_not_sign: "is_digit c \<Longrightarrow> c \<noteq> CHR ''-'' \<and> c \<noteq> CHR ''+''"
  by (auto simp: is_digit_def)

text \<open>Printing with \<open>%d\<close> and parsing back with \<open>strconv.ParseInt\<close>.\<close>

lemma parse_int_int_str: "in_int64 i \<Longrightarrow> parse_int (int_str i) = Some i"
proof -
  assume i: "in_int64 i"
  have d: "all_digits (nat_str n)" for n by (rule all_digits_nat_str)
  have hd: "\<exists>c r. nat_str n = c # r \<and> is_digit c" for n
    using d [of n] by (cases "nat_str n") (auto simp: all_digits_def)
  show ?thesis
  proof (cases "i < 0")
    case True
    with i d show ?thesis by (simp add: parse_int_def int_str_def)
  next
    case False
    obtain c r where cr: "nat_str (nat i) = c # r" "is_digit c" using hd by blast
    then have "c \<noteq> CHR ''-''" "c \<noteq> CHR ''+''" by (auto dest: is_digit_not_sign)
    with cr False i d [of "nat i"] digits_val_nat_str [of "nat i"] show ?thesis
      by (simp add: parse_int_def int_str_def del: digits_val_nat_str)
  qed
qed

lemma parse_int_range: "parse_int s = Some i \<Longrightarrow> in_int64 i"
  by (auto simp: parse_int_def Let_def split: prod.splits if_splits)

lemma split_on_nonempty [simp]: "split_on d s \<noteq> []"
  by (induction s) (auto split: list.splits)

lemma split_on_Cons:
  "split_on d (c # s) =
    (if c = d then [] # split_on d s else (c # hd (split_on d s)) # tl (split_on d s))"
  by (cases "split_on d s") auto

lemma split_on_no_sep: "w \<in> set (split_on d s) \<Longrightarrow> d \<notin> set w"
proof (induction s arbitrary: w)
  case Nil
  then show ?case by simp
next
  case (Cons c s)
  then show ?case
    by (cases "split_on d s") (auto split: if_splits)
qed

lemma split_on_subset: "w \<in> set (split_on d s) \<Longrightarrow> set w \<subseteq> set s"
proof (induction s arbitrary: w)
  case Nil
  then show ?case by simp
next
  case (Cons c s)
  then show ?case
    by (cases "split_on d s") (fastforce split: if_splits)+
qed

text \<open>\<open>strings.Join\<close> undoes \<open>strings.Split\<close>.\<close>

lemma join_split: "join_with [d] (split_on d s) = s"
proof (induction s)
  case Nil
  then show ?case by simp
next
  case (Cons c s)
  then show ?case
    by (cases "split_on d s"; cases "tl (split_on d s)") auto
qed

lemma trim_left_suffix: "\<exists>p. s = p @ trim_left s"
proof (induction s rule: trim_left.induct)
  case (1 s)
  show ?case
  proof (cases "space_len s = 0")
    case True
    then show ?thesis by (simp add: trim_left.simps [of s])
  next
    case False
    with 1 obtain p where "drop (space_len s) s = p @ trim_left (drop (space_len s) s)" by blast
    then have "s = (take (space_len s) s @ p) @ trim_left (drop (space_len s) s)"
      by (metis append.assoc append_take_drop_id)
    with False show ?thesis by (metis trim_left.simps)
  qed
qed

lemma trim_right_prefix: "\<exists>p. s = trim_right s @ p"
proof (induction s rule: trim_right.induct)
  case (1 s)
  show ?case
  proof (cases "space_len_end s = 0")
    case True
    then show ?thesis by (simp add: trim_right.simps [of s])
  next
    case False
    let ?t = "take (length s - space_len_end s) s"
    from False 1 obtain p where "?t = trim_right ?t @ p" by blast
    then have "s = trim_right ?t @ (p @ drop (length s - space_len_end s) s)"
      by (metis append.assoc append_take_drop_id)
    with False show ?thesis by (metis trim_right.simps)
  qed
qed

lemma set_trim_space: "set (trim_space s) \<subseteq> set s"
proof -
  obtain p q where "s = p @ trim_left s" "trim_left s = trim_right (trim_left s) @ q"
    using trim_left_suffix trim_right_prefix by blast
  then show ?thesis unfolding trim_space_def by (metis Un_iff set_append subsetI)
qed

lemma trim_left_idem: "space_len (trim_left s) = 0"
  by (induction s rule: trim_left.induct) (subst trim_left.simps, simp)

lemma trim_right_idem: "space_len_end (trim_right s) = 0"
  by (induction s rule: trim_right.induct) (subst trim_right.simps, simp)

text \<open>ASCII white space bytes.\<close>

definition ascii_space :: "char \<Rightarrow> bool" where
  "ascii_space c \<longleftrightarrow> byte c \<in> {9, 10, 11, 12, 13, 32}"

lemma ascii_space_len: "ascii_space c \<Longrightarrow> 0 < space_len (c # s)"
proof -
  assume "ascii_space c"
  then have "c \<in> {CHR 0x09, CHR 0x0A, CHR 0x0B, CHR 0x0C, CHR 0x0D, CHR '' ''}"
    by (simp add: ascii_space_def byte_values)
  then have "[c] \<in> set space_seqs" by (auto simp: space_seqs_def)
  moreover have "has_prefix (c # s) [c]" by simp
  ultimately have "find (has_prefix (c # s)) space_seqs \<noteq> None"
    by (auto simp: find_None_iff)
  then obtain p where "find (has_prefix (c # s)) space_seqs = Some p" by blast
  moreover from this have "p \<in> set space_seqs" by (auto simp: find_Some_iff)
  ultimately show ?thesis by (auto simp: space_len_def dest: space_seqs_nonempty)
qed

text \<open>Printable ASCII is not white space.\<close>

definition graph :: "char \<Rightarrow> bool" where
  "graph c \<longleftrightarrow> 32 < byte c \<and> byte c < 128"

lemma space_seqs_ends:
  "list_all (\<lambda>p. p \<noteq> [] \<and> \<not> graph (hd p) \<and> \<not> graph (last p)) space_seqs"
  by (simp add: space_seqs_def graph_def)

lemma space_len_graph: "graph c \<Longrightarrow> space_len (c # s) = 0"
proof -
  assume c: "graph c"
  have "\<not> has_prefix (c # s) p" if "p \<in> set space_seqs" for p
  proof -
    have "p \<noteq> []" "\<not> graph (hd p)" using that space_seqs_ends by (auto simp: list_all_iff)
    with c show ?thesis by (cases p) auto
  qed
  then have "find (has_prefix (c # s)) space_seqs = None" by (auto simp: find_None_iff)
  then show ?thesis by (simp add: space_len_def)
qed

lemma space_len_end_graph: "s \<noteq> [] \<Longrightarrow> graph (last s) \<Longrightarrow> space_len_end s = 0"
proof -
  assume c: "s \<noteq> []" "graph (last s)"
  have "\<not> has_suffix s p" if "p \<in> set space_seqs" for p
    using that space_seqs_ends c by (auto simp: list_all_iff has_suffix_iff)
  then have "find (has_suffix s) space_seqs = None" by (auto simp: find_None_iff)
  then show ?thesis by (simp add: space_len_end_def)
qed

lemma space_len_blank: "space_len (CHR '' '' # s) = 1"
  by (simp add: space_len_def space_seqs_def)

lemma trim_graph: "s \<noteq> [] \<Longrightarrow> graph (hd s) \<Longrightarrow> graph (last s) \<Longrightarrow> trim_space s = s"
  by (cases s) (simp_all add: trim_space_def trim_left.simps trim_right.simps space_len_graph space_len_end_graph)

text \<open>Fields of a line of printable ASCII words separated by single blanks.\<close>

lemma fields_word:
  "u \<noteq> [] \<or> w \<noteq> [] \<Longrightarrow> list_all graph w \<Longrightarrow> fields_aux u w = [rev u @ w]"
  "list_all graph w \<Longrightarrow> u \<noteq> [] \<or> w \<noteq> [] \<Longrightarrow>
    fields_aux u (w @ CHR '' '' # s) = (rev u @ w) # fields_aux [] s"
  by (induction w arbitrary: u)
    (auto simp: fields_aux.simps [of _ "_ # _"] fields_aux.simps [of _ "[]"] space_len_graph space_len_blank)

lemma fields_join:
  "ws \<noteq> [] \<Longrightarrow> \<forall>w \<in> set ws. w \<noteq> [] \<and> list_all graph w \<Longrightarrow> fields (join_with [CHR '' ''] ws) = ws"
proof (induction ws)
  case (Cons w ws)
  then show ?case by (cases ws) (simp_all add: fields_def fields_word)
qed simp

lemma fields_aux_chars:
  "f \<in> set (fields_aux w s) \<Longrightarrow> set f \<subseteq> set w \<union> set s"
proof (induction w s rule: fields_aux.induct)
  case (1 w s)
  from 1(3) show ?case
  proof (subst (asm) fields_aux.simps, goal_cases)
    case 1
    show ?case
    proof (cases "s = []")
      case True
      with 1 show ?thesis by (auto split: if_splits)
    next
      case s: False
      show ?thesis
      proof (cases "space_len s = 0")
        case True
        with 1 s "1.IH"(1) have "set f \<subseteq> set (hd s # w) \<union> set (tl s)" by simp
        with s show ?thesis by (cases s) auto
      next
        case False
        with 1 s "1.IH"(2) show ?thesis
          by (auto split: if_splits dest!: in_set_dropD)
      qed
    qed
  qed
qed

end
