(* ===== verification/WebsiteStore.thy ===== *)
theory WebsiteStore
  imports JobQueue GoStrings
begin

text \<open>
  The \<open>websites\<close> table, \<open>internal/websites/store.go\<close> and the status flips of
  \<open>internal/websites/lifecycle.go\<close>. A store is the list of its rows and the next
  \<open>gen_random_uuid()\<close>; the CHECK constraints of the migrations that a statement can
  violate are the error \<open>SiteConstraint\<close>. Encrypted blobs, JSON documents and the CPU
  reading (a float that is only stored) are opaque texts. \<open>us\<close> is
  \<open>uuid.UUID.String\<close>, a function of the third-party package.
\<close>

section \<open>Data\<close>

datatype site_status =
    SitePending | SiteProvisioning | SiteReady | SiteFailed
  | SiteDeleting | SiteDeleted | SiteSuspended | SiteTerminated

datatype site_runtime = RuntimeStatic | RuntimePHP | RuntimeNode | RuntimePython | RuntimeGo

record website =
  site_id :: uid
  site_org :: uid
  site_server :: uid
  site_name :: string
  site_domain :: string
  site_runtime :: site_runtime
  site_runtime_version :: string
  site_web_server :: string
  site_backend_port :: int
  site_docroot_suffix :: string
  site_deploy_web_dir :: string
  site_deploy_auto_build :: bool
  site_app_startup :: string
  site_app_build :: string
  site_app_port :: int
  site_app_desired :: string
  site_app_env :: "string option"
  site_usage_cpu :: string
  site_usage_memory :: int
  site_usage_disk :: int
  site_usage_procs :: int
  site_usage_sampled :: "time option"
  site_status :: site_status
  site_unix_user :: string
  site_document_root :: string
  site_error :: string
  site_is_staging :: bool
  site_staging_of :: "uid option"
  site_suspension_reason :: "string option"
  site_suspended_at :: "time option"
  site_suspension_meta :: "string option"
  site_terminated_at :: "time option"
  site_termination_reason :: "string option"
  site_bandwidth_limit :: "int option"
  site_created_by :: uid
  site_backup_schedule :: string
  site_backup_retention :: int
  site_repo_url :: string
  site_branch :: string
  site_deploy_token :: "string option"
  site_last_backup :: "time option"
  site_provisioned_at :: "time option"
  site_created_at :: time
  site_updated_at :: time

record sites =
  s_rows :: "website list"
  s_next :: uid

datatype site_err = SiteNotFound | SiteNameTaken | SiteConstraint | SiteMarkReadyBlocked

section \<open>Derived names\<close>

definition unixUserFor :: "(uid \<Rightarrow> string) \<Rightarrow> uid \<Rightarrow> string \<Rightarrow> string" where
  "unixUserFor us org name =
    (let o' = us org;
         o8 = (if length o' > 8 then take 8 o' else o');
         full = ''ep-'' @ o8 @ ''-'' @ name
     in if length full > 32 then take 32 full else full)"

definition DocumentRootFor :: "(uid \<Rightarrow> string) \<Rightarrow> uid \<Rightarrow> string" where
  "DocumentRootFor us i = ''/srv/epicpanel/websites/'' @ us i @ ''/public''"

section \<open>Inserting\<close>

text \<open>The CHECK on the name: \<open>^[a-z0-9][a-z0-9-]{0,61}[a-z0-9]$\<close>.\<close>

definition name_char :: "char \<Rightarrow> bool" where
  "name_char c \<longleftrightarrow> is_lower c \<or> is_digit c"

definition site_name_ok :: "string \<Rightarrow> bool" where
  "site_name_ok n \<longleftrightarrow> 2 \<le> length n \<and> length n \<le> 63 \<and> name_char (hd n) \<and> name_char (last n)
    \<and> list_all (\<lambda>c. name_char c \<or> c = CHR ''-'') n"

definition web_server_ok :: "string \<Rightarrow> bool" where
  "web_server_ok w \<longleftrightarrow> w \<in> {''nginx'', ''nginx,apache'', ''nginx,openlitespeed'', ''apache'',
     ''openlitespeed'', ''none''}"

definition new_site ::
    "uid \<Rightarrow> time \<Rightarrow> uid \<Rightarrow> uid \<Rightarrow> uid \<Rightarrow> string \<Rightarrow> string \<Rightarrow> site_runtime \<Rightarrow> string \<Rightarrow> string \<Rightarrow> string \<Rightarrow> website" where
  "new_site i now org srv by name pd rt ver ws user =
    \<lparr>site_id = i, site_org = org, site_server = srv, site_name = name, site_domain = pd,
     site_runtime = rt, site_runtime_version = ver, site_web_server = ws, site_backend_port = 0,
     site_docroot_suffix = [], site_deploy_web_dir = [], site_deploy_auto_build = False,
     site_app_startup = [], site_app_build = [], site_app_port = 0, site_app_desired = ''stopped'',
     site_app_env = None, site_usage_cpu = ''0'', site_usage_memory = 0, site_usage_disk = 0,
     site_usage_procs = 0, site_usage_sampled = None, site_status = SitePending,
     site_unix_user = user, site_document_root = [], site_error = [], site_is_staging = False,
     site_staging_of = None, site_suspension_reason = None, site_suspended_at = None,
     site_suspension_meta = None, site_terminated_at = None, site_termination_reason = None,
     site_bandwidth_limit = None, site_created_by = by, site_backup_schedule = ''off'',
     site_backup_retention = 5, site_repo_url = [], site_branch = [], site_deploy_token = None,
     site_last_backup = None, site_provisioned_at = None, site_created_at = now,
     site_updated_at = now\<rparr>"

definition insert_site :: "sites \<Rightarrow> website \<Rightarrow> sites \<times> (site_err + website)" where
  "insert_site s w =
    (if \<not> site_name_ok (site_name w) \<or> \<not> web_server_ok (site_web_server w) then (s, Inl SiteConstraint)
     else if list_ex (\<lambda>r. site_server r = site_server w \<and> site_name r = site_name w) (s_rows s)
     then (s, Inl SiteNameTaken)
     else (s\<lparr>s_rows := s_rows s @ [w], s_next := s_next s + 1\<rparr>, Inr w))"

definition Create ::
    "(uid \<Rightarrow> string) \<Rightarrow> sites \<Rightarrow> time \<Rightarrow> uid \<Rightarrow> uid \<Rightarrow> uid \<Rightarrow> string \<Rightarrow> string \<Rightarrow> site_runtime \<Rightarrow> string \<Rightarrow> string
      \<Rightarrow> sites \<times> (site_err + website \<times> string)" where
  "Create us s now org srv by name pd rt ver ws =
    (let ws' = (if ws = [] then ''nginx'' else ws);
         user = unixUserFor us org name
     in case insert_site s (new_site (s_next s) now org srv by name pd rt ver ws' user) of
          (s', Inl e) \<Rightarrow> (s', Inl e)
        | (s', Inr w) \<Rightarrow> (s', Inr (w, user)))"

definition staging_name :: "string \<Rightarrow> string" where
  "staging_name n = (let n' = n @ ''-staging'' in if length n' > 63 then take 63 n' else n')"

definition CreateStagingCopy ::
    "(uid \<Rightarrow> string) \<Rightarrow> sites \<Rightarrow> time \<Rightarrow> uid \<Rightarrow> website \<Rightarrow> uid \<Rightarrow> sites \<times> (site_err + website)" where
  "CreateStagingCopy us s now org orig by =
    (let name = staging_name (site_name orig)
     in insert_site s ((new_site (s_next s) now org (site_server orig) by name [] (site_runtime orig)
          (site_runtime_version orig) (site_web_server orig) (unixUserFor us org name))
          \<lparr>site_is_staging := True, site_staging_of := Some (site_id orig)\<rparr>))"

section \<open>Reading\<close>

definition SiteByID :: "sites \<Rightarrow> uid \<Rightarrow> uid \<Rightarrow> site_err + website" where
  "SiteByID s org i =
    (case select_one (\<lambda>w. site_id w = i \<and> site_org w = org) (s_rows s) of
       None \<Rightarrow> Inl SiteNotFound | Some w \<Rightarrow> Inr w)"

definition GetByIDAny :: "sites \<Rightarrow> uid \<Rightarrow> site_err + website" where
  "GetByIDAny s i = (case by_key site_id i (s_rows s) of None \<Rightarrow> Inl SiteNotFound | Some w \<Rightarrow> Inr w)"

definition ListForOrg :: "sites \<Rightarrow> uid \<Rightarrow> website list" where
  "ListForOrg s org = sort_key site_created_at (filter (\<lambda>w. site_org w = org) (s_rows s))"

definition GetAppEnv :: "sites \<Rightarrow> uid \<Rightarrow> site_err + string option" where
  "GetAppEnv s i = (case by_key site_id i (s_rows s) of
     None \<Rightarrow> Inl SiteNotFound | Some w \<Rightarrow> Inr (site_app_env w))"

definition port_owner :: "website \<Rightarrow> bool" where
  "port_owner w \<longleftrightarrow> site_status w \<noteq> SiteDeleted \<and> site_status w \<noteq> SiteDeleting"

definition UsedAppPorts :: "sites \<Rightarrow> uid \<Rightarrow> int list" where
  "UsedAppPorts s srv = map site_app_port
    (filter (\<lambda>w. site_server w = srv \<and> site_app_port w > 0 \<and> port_owner w) (s_rows s))"

definition UsedBackendPorts :: "sites \<Rightarrow> uid \<Rightarrow> int list" where
  "UsedBackendPorts s srv = map site_backend_port
    (filter (\<lambda>w. site_server w = srv \<and> site_backend_port w > 0 \<and> port_owner w) (s_rows s))"

definition ListPendingForRuntime :: "sites \<Rightarrow> uid \<Rightarrow> site_runtime \<Rightarrow> string \<Rightarrow> website list" where
  "ListPendingForRuntime s srv rt ver = sort_key site_created_at
    (filter (\<lambda>w. site_server w = srv \<and> site_runtime w = rt \<and> site_runtime_version w = ver
        \<and> site_status w = SitePending) (s_rows s))"

text \<open>\<open>ORDER BY usage_sampled_at NULLS FIRST\<close>.\<close>

definition nulls_first :: "website list \<Rightarrow> website list" where
  "nulls_first ws = filter (\<lambda>w. site_usage_sampled w = None) ws
     @ sort_key (\<lambda>w. the (site_usage_sampled w)) (filter (\<lambda>w. site_usage_sampled w \<noteq> None) ws)"

definition StaleUsage :: "sites \<Rightarrow> time \<Rightarrow> duration \<Rightarrow> nat \<Rightarrow> website list" where
  "StaleUsage s now age lim = take lim (nulls_first
    (filter (\<lambda>w. site_status w = SiteReady
       \<and> (case site_usage_sampled w of None \<Rightarrow> True | Some t \<Rightarrow> t < now - age)) (s_rows s)))"

definition ReadyForLimits :: "sites \<Rightarrow> nat \<Rightarrow> website list" where
  "ReadyForLimits s lim = take lim (nulls_first (filter (\<lambda>w. site_status w = SiteReady) (s_rows s)))"

definition ListReadyForServing :: "sites \<Rightarrow> nat \<Rightarrow> website list" where
  "ListReadyForServing s lim = take lim (sort_key site_updated_at
    (filter (\<lambda>w. site_status w = SiteReady \<and> site_terminated_at w = None) (s_rows s)))"

section \<open>Column updates\<close>

text \<open>\<open>UPDATE websites SET ..., updated_at = now() WHERE id = $1\<close>, with the
  affected-row check every setter ends with.\<close>

definition set_where ::
    "(website \<Rightarrow> bool) \<Rightarrow> (website \<Rightarrow> website) \<Rightarrow> sites \<Rightarrow> sites \<times> (site_err + unit)" where
  "set_where P f s =
    (if rows_affected P (s_rows s) = 0 then (s, Inl SiteNotFound)
     else (s\<lparr>s_rows := update_where P f (s_rows s)\<rparr>, Inr ()))"

definition has_site_id :: "uid \<Rightarrow> website \<Rightarrow> bool" where
  "has_site_id i w \<longleftrightarrow> site_id w = i"

definition SetBandwidthLimitMB :: "sites \<Rightarrow> time \<Rightarrow> uid \<Rightarrow> int option \<Rightarrow> sites \<times> (site_err + unit)" where
  "SetBandwidthLimitMB s now i v = set_where (has_site_id i)
     (\<lambda>w. w\<lparr>site_bandwidth_limit := v, site_updated_at := now\<rparr>) s"

definition SetStatus :: "sites \<Rightarrow> time \<Rightarrow> uid \<Rightarrow> site_status \<Rightarrow> string \<Rightarrow> sites \<times> (site_err + unit)" where
  "SetStatus s now i st msg = set_where (has_site_id i)
     (\<lambda>w. w\<lparr>site_status := st, site_error := msg, site_updated_at := now\<rparr>) s"

definition SetRuntimeVersion :: "sites \<Rightarrow> time \<Rightarrow> uid \<Rightarrow> string \<Rightarrow> sites \<times> (site_err + unit)" where
  "SetRuntimeVersion s now i v = set_where (has_site_id i)
     (\<lambda>w. w\<lparr>site_runtime_version := v, site_updated_at := now\<rparr>) s"

definition SetRuntime :: "sites \<Rightarrow> time \<Rightarrow> uid \<Rightarrow> site_runtime \<Rightarrow> sites \<times> (site_err + unit)" where
  "SetRuntime s now i rt = set_where (has_site_id i)
     (\<lambda>w. w\<lparr>site_runtime := rt, site_updated_at := now\<rparr>) s"

definition SetWebServer :: "sites \<Rightarrow> time \<Rightarrow> uid \<Rightarrow> string \<Rightarrow> sites \<times> (site_err + unit)" where
  "SetWebServer s now i ws =
    (if rows_affected (has_site_id i) (s_rows s) \<noteq> 0 \<and> \<not> web_server_ok ws then (s, Inl SiteConstraint)
     else set_where (has_site_id i) (\<lambda>w. w\<lparr>site_web_server := ws, site_updated_at := now\<rparr>) s)"

definition SetBackendPort :: "sites \<Rightarrow> time \<Rightarrow> uid \<Rightarrow> int \<Rightarrow> sites \<times> (site_err + unit)" where
  "SetBackendPort s now i p = set_where (has_site_id i)
     (\<lambda>w. w\<lparr>site_backend_port := p, site_updated_at := now\<rparr>) s"

definition SetAppConfig :: "sites \<Rightarrow> time \<Rightarrow> uid \<Rightarrow> string \<Rightarrow> string \<Rightarrow> string \<Rightarrow> sites \<times> (site_err + unit)" where
  "SetAppConfig s now i startup build desired =
    (if rows_affected (has_site_id i) (s_rows s) \<noteq> 0 \<and> desired \<noteq> ''running'' \<and> desired \<noteq> ''stopped''
     then (s, Inl SiteConstraint)
     else set_where (has_site_id i) (\<lambda>w. w\<lparr>site_app_startup := startup, site_app_build := build,
       site_app_desired := desired, site_updated_at := now\<rparr>) s)"

definition SetAppPort :: "sites \<Rightarrow> time \<Rightarrow> uid \<Rightarrow> int \<Rightarrow> sites \<times> (site_err + unit)" where
  "SetAppPort s now i p = set_where (has_site_id i)
     (\<lambda>w. w\<lparr>site_app_port := p, site_updated_at := now\<rparr>) s"

definition SetAppEnv :: "sites \<Rightarrow> time \<Rightarrow> uid \<Rightarrow> string option \<Rightarrow> sites \<times> (site_err + unit)" where
  "SetAppEnv s now i env =
    (case env of None \<Rightarrow> (s, Inr ())
     | Some e \<Rightarrow> set_where (has_site_id i)
         (\<lambda>w. w\<lparr>site_app_env := Some e, site_updated_at := now\<rparr>) s)"

definition StoreUsage :: "sites \<Rightarrow> time \<Rightarrow> uid \<Rightarrow> string \<Rightarrow> int \<Rightarrow> int \<Rightarrow> int \<Rightarrow> sites \<times> (site_err + unit)" where
  "StoreUsage s now i cpu mem disk procs = set_where (has_site_id i)
     (\<lambda>w. w\<lparr>site_usage_cpu := cpu, site_usage_memory := mem, site_usage_disk := disk,
        site_usage_procs := procs, site_usage_sampled := Some now, site_updated_at := now\<rparr>) s"

definition SetDocrootSuffix :: "sites \<Rightarrow> time \<Rightarrow> uid \<Rightarrow> string \<Rightarrow> sites \<times> (site_err + unit)" where
  "SetDocrootSuffix s now i suf = set_where (has_site_id i)
     (\<lambda>w. w\<lparr>site_docroot_suffix := suf, site_updated_at := now\<rparr>) s"

definition SetServingDocroot :: "sites \<Rightarrow> time \<Rightarrow> uid \<Rightarrow> string \<Rightarrow> string \<Rightarrow> sites \<times> (site_err + unit)" where
  "SetServingDocroot s now i suf root = set_where (has_site_id i)
     (\<lambda>w. w\<lparr>site_docroot_suffix := suf, site_document_root := root, site_updated_at := now\<rparr>) s"

text \<open>The second statement of \<open>SetDeployConfig\<close> writes the token without touching
  \<open>updated_at\<close>.\<close>

definition SetDeployConfig ::
    "sites \<Rightarrow> time \<Rightarrow> uid \<Rightarrow> string \<Rightarrow> string \<Rightarrow> string option \<Rightarrow> string \<Rightarrow> bool \<Rightarrow> sites \<times> (site_err + unit)" where
  "SetDeployConfig s now i url branch token dir auto =
    (case set_where (has_site_id i) (\<lambda>w. w\<lparr>site_repo_url := url, site_branch := branch,
        site_deploy_web_dir := dir, site_deploy_auto_build := auto, site_updated_at := now\<rparr>) s of
       (s', Inl e) \<Rightarrow> (s', Inl e)
     | (s', Inr _) \<Rightarrow>
         (case token of None \<Rightarrow> (s', Inr ())
          | Some t \<Rightarrow> (s'\<lparr>s_rows := update_where (has_site_id i)
               (\<lambda>w. w\<lparr>site_deploy_token := Some t\<rparr>) (s_rows s')\<rparr>, Inr ())))"

definition TouchLastBackup :: "sites \<Rightarrow> time \<Rightarrow> uid \<Rightarrow> sites" where
  "TouchLastBackup s now i = s\<lparr>s_rows := update_where (has_site_id i)
     (\<lambda>w. w\<lparr>site_last_backup := Some now, site_updated_at := now\<rparr>) (s_rows s)\<rparr>"

definition SetBackupSchedule :: "sites \<Rightarrow> time \<Rightarrow> uid \<Rightarrow> string \<Rightarrow> int \<Rightarrow> sites \<times> (site_err + unit)" where
  "SetBackupSchedule s now i sched ret =
    (if rows_affected (has_site_id i) (s_rows s) \<noteq> 0
        \<and> (sched \<notin> {''off'', ''daily'', ''weekly''} \<or> ret < 1 \<or> 30 < ret)
     then (s, Inl SiteConstraint)
     else set_where (has_site_id i) (\<lambda>w. w\<lparr>site_backup_schedule := sched,
       site_backup_retention := ret, site_updated_at := now\<rparr>) s)"

section \<open>Deleting\<close>

text \<open>The foreign key \<open>staging_of REFERENCES websites ON DELETE SET NULL\<close> detaches the
  staging copies of a deleted site.\<close>

definition delete_site_where :: "(website \<Rightarrow> bool) \<Rightarrow> sites \<Rightarrow> sites \<times> (site_err + unit)" where
  "delete_site_where P s =
    (if rows_affected P (s_rows s) = 0 then (s, Inl SiteNotFound)
     else let gone = map site_id (filter P (s_rows s));
              kept = filter (\<lambda>w. \<not> P w) (s_rows s)
          in (s\<lparr>s_rows := map (\<lambda>w. case site_staging_of w of None \<Rightarrow> w
                 | Some p \<Rightarrow> if p \<in> set gone then w\<lparr>site_staging_of := None\<rparr> else w) kept\<rparr>,
              Inr ()))"

definition DeleteSite :: "sites \<Rightarrow> uid \<Rightarrow> uid \<Rightarrow> sites \<times> (site_err + unit)" where
  "DeleteSite s org i = delete_site_where (\<lambda>w. site_id w = i \<and> site_org w = org) s"

definition DeleteByServer :: "sites \<Rightarrow> uid \<Rightarrow> uid \<Rightarrow> sites \<times> (site_err + unit)" where
  "DeleteByServer s srv i = delete_site_where (\<lambda>w. site_id w = i \<and> site_server w = srv) s"

section \<open>Guarded status flips\<close>

definition suspendable :: "site_status \<Rightarrow> bool" where
  "suspendable st \<longleftrightarrow> st = SiteReady \<or> st = SiteFailed \<or> st = SiteSuspended"

definition readyable :: "site_status \<Rightarrow> bool" where
  "readyable st \<longleftrightarrow> st \<noteq> SiteDeleting \<and> st \<noteq> SiteDeleted \<and> st \<noteq> SiteSuspended \<and> st \<noteq> SiteTerminated"

definition suspend_reasons :: "string list" where
  "suspend_reasons = [''manual'', ''bandwidth_exhausted'', ''abuse'', ''payment'', ''admin'', ''system'', ''attack'']"

definition ready_row :: "time \<Rightarrow> string \<Rightarrow> string \<Rightarrow> website \<Rightarrow> website" where
  "ready_row now user root w = w\<lparr>site_status := SiteReady, site_unix_user := user,
     site_document_root := root, site_provisioned_at := Some now, site_error := [],
     site_updated_at := now\<rparr>"

definition suspend_row :: "time \<Rightarrow> string \<Rightarrow> string option \<Rightarrow> website \<Rightarrow> website" where
  "suspend_row now reason meta w = w\<lparr>site_status := SiteSuspended,
     site_suspension_reason := Some reason, site_suspended_at := Some now,
     site_suspension_meta := meta, site_updated_at := now\<rparr>"

definition resume_row :: "time \<Rightarrow> website \<Rightarrow> website" where
  "resume_row now w = w\<lparr>site_status := SiteReady, site_error := [], site_suspension_reason := None,
     site_suspended_at := None, site_suspension_meta := None, site_updated_at := now\<rparr>"

definition terminate_row :: "time \<Rightarrow> string \<Rightarrow> website \<Rightarrow> website" where
  "terminate_row now reason w = w\<lparr>site_status := SiteTerminated, site_terminated_at := Some now,
     site_termination_reason := Some reason, site_suspension_reason := None,
     site_suspension_meta := None, site_updated_at := now\<rparr>"

abbreviation site_flip :: "(site_status \<Rightarrow> bool) \<Rightarrow> uid \<Rightarrow> website \<Rightarrow> bool" where
  "site_flip \<equiv> flip_guard site_id site_status"

definition MarkReady :: "sites \<Rightarrow> time \<Rightarrow> uid \<Rightarrow> string \<Rightarrow> string \<Rightarrow> sites \<times> (site_err + unit)" where
  "MarkReady s now i user root =
    (let P = site_flip readyable i in
     if rows_affected P (s_rows s) = 0
     then (case by_key site_id i (s_rows s) of
             None \<Rightarrow> (s, Inl SiteNotFound)
           | Some w \<Rightarrow> if site_status w = SiteSuspended then (s, Inr ()) else (s, Inl SiteMarkReadyBlocked))
     else (s\<lparr>s_rows := update_where P (ready_row now user root) (s_rows s)\<rparr>, Inr ()))"

definition MarkSuspended :: "sites \<Rightarrow> time \<Rightarrow> uid \<Rightarrow> string \<Rightarrow> string option \<Rightarrow> sites \<times> (site_err + unit)" where
  "MarkSuspended s now i reason meta =
    (let reason' = (if reason = [] then ''manual'' else reason);
         P = site_flip suspendable i
     in if rows_affected P (s_rows s) \<noteq> 0 \<and> reason' \<notin> set suspend_reasons then (s, Inl SiteConstraint)
        else set_where P (suspend_row now reason' meta) s)"

definition MarkResumed :: "sites \<Rightarrow> time \<Rightarrow> uid \<Rightarrow> sites \<times> (site_err + unit)" where
  "MarkResumed s now i = set_where (site_flip (\<lambda>st. st = SiteSuspended) i) (resume_row now) s"

definition MarkTerminated :: "sites \<Rightarrow> time \<Rightarrow> uid \<Rightarrow> string \<Rightarrow> sites \<times> (site_err + unit)" where
  "MarkTerminated s now i reason = set_where (site_flip suspendable i) (terminate_row now reason) s"

section \<open>The flips as instances of the guarded-flip interface\<close>

interpretation wready: status_flip site_id "ready_row now user root" site_status readyable SiteReady
  for now user root
  by unfold_locales (simp_all add: ready_row_def)

interpretation wsusp: status_flip site_id "suspend_row now reason meta" site_status suspendable SiteSuspended
  for now reason meta
  by unfold_locales (simp_all add: suspend_row_def)

interpretation wres: once_flip site_id "resume_row now" site_status "\<lambda>st. st = SiteSuspended" SiteReady
  for now
  by unfold_locales (simp_all add: resume_row_def)

interpretation wterm: once_flip site_id "terminate_row now reason" site_status suspendable SiteTerminated
  for now reason
  by unfold_locales (simp_all add: terminate_row_def suspendable_def)

definition status_of :: "sites \<Rightarrow> uid \<Rightarrow> site_status option" where
  "status_of s i = map_option site_status (by_key site_id i (s_rows s))"

definition sites_ok :: "sites \<Rightarrow> bool" where
  "sites_ok s \<longleftrightarrow> distinct (map site_id (s_rows s)) \<and> list_all (\<lambda>w. site_id w < s_next s) (s_rows s)"

lemma set_where_lookup:
  assumes "\<And>w. site_id (f w) = site_id w"
  shows "by_key site_id k (s_rows (fst (set_where P f s))) =
    map_option (\<lambda>w. if P w then f w else w) (by_key site_id k (s_rows s))"
proof (cases "rows_affected P (s_rows s) = 0")
  case True
  then have "\<forall>w \<in> set (s_rows s). \<not> P w" by (simp add: rows_affected_zero)
  then have "map_option (\<lambda>w. if P w then f w else w) (by_key site_id k (s_rows s)) = by_key site_id k (s_rows s)"
    by (cases "by_key site_id k (s_rows s)") (auto dest: by_key_Some)
  with True show ?thesis by (simp add: set_where_def)
next
  case False
  then show ?thesis
    using row_update.lookup_update [OF row_update.intro, of site_id f] assms by (simp add: set_where_def)
qed

lemma set_where_ok:
  assumes "\<And>w. site_id (f w) = site_id w" and "sites_ok s"
  shows "sites_ok (fst (set_where P f s))"
proof -
  have "list_all (\<lambda>w. site_id w < s_next s) (update_where P f (s_rows s))"
    using assms by (intro list_all_update_where) (auto simp: sites_ok_def)
  with assms show ?thesis by (simp add: set_where_def sites_ok_def map_update_where_same)
qed

lemma set_status_lookup:
  "by_key site_id k (s_rows (fst (SetStatus s now i st msg))) =
    map_option (\<lambda>w. if site_id w = i then w\<lparr>site_status := st, site_error := msg, site_updated_at := now\<rparr> else w)
      (by_key site_id k (s_rows s))"
  by (simp add: SetStatus_def set_where_lookup has_site_id_def)

lemma status_of_SetStatus [simp]:
  "status_of (fst (SetStatus s now i st msg)) k =
    (if k = i \<and> status_of s i \<noteq> None then Some st else status_of s k)"
proof (cases "by_key site_id k (s_rows s)")
  case None
  then show ?thesis by (auto simp: status_of_def set_status_lookup)
next
  case (Some w)
  then have "site_id w = k" by (auto dest: by_key_Some)
  with Some show ?thesis by (cases "k = i") (simp_all add: status_of_def set_status_lookup)
qed

text \<open>What a guarded flip does to the status of every row.\<close>

lemma status_of_flip:
  assumes "\<And>w. site_id (f w) = site_id w" and "\<And>w. site_status (f w) = dst"
  shows "status_of (fst (set_where (site_flip src i) f s)) k =
    (case status_of s k of None \<Rightarrow> None | Some st \<Rightarrow> Some (if k = i \<and> src st then dst else st))"
proof (cases "by_key site_id k (s_rows s)")
  case None
  then show ?thesis by (simp add: status_of_def set_where_lookup [OF assms(1)])
next
  case (Some w)
  then have "site_id w = k" by (auto dest: by_key_Some)
  with Some show ?thesis
    by (simp add: status_of_def set_where_lookup [OF assms(1)] flip_guard_def assms(2))
qed

lemma status_of_suspended:
  "reason = [] \<or> reason \<in> set suspend_reasons \<Longrightarrow>
    status_of (fst (MarkSuspended s now i reason meta)) k =
    (case status_of s k of None \<Rightarrow> None
     | Some st \<Rightarrow> Some (if k = i \<and> suspendable st then SiteSuspended else st))"
  by (auto simp: MarkSuspended_def Let_def suspend_reasons_def intro!: status_of_flip
      wsusp.key_assign wsusp.status_assign)

lemma status_of_resumed:
  "status_of (fst (MarkResumed s now i)) k =
    (case status_of s k of None \<Rightarrow> None
     | Some st \<Rightarrow> Some (if k = i \<and> st = SiteSuspended then SiteReady else st))"
  unfolding MarkResumed_def by (rule status_of_flip) (rule wres.key_assign wres.status_assign)+

lemma status_of_terminated:
  "status_of (fst (MarkTerminated s now i reason)) k =
    (case status_of s k of None \<Rightarrow> None
     | Some st \<Rightarrow> Some (if k = i \<and> suspendable st then SiteTerminated else st))"
  unfolding MarkTerminated_def by (rule status_of_flip) (rule wterm.key_assign wterm.status_assign)+

lemma MarkReady_fst:
  "fst (MarkReady s now i user root) = fst (set_where (site_flip readyable i) (ready_row now user root) s)"
  by (auto simp: MarkReady_def set_where_def Let_def split: option.splits)

lemma status_of_ready:
  "status_of (fst (MarkReady s now i user root)) k =
    (case status_of s k of None \<Rightarrow> None
     | Some st \<Rightarrow> Some (if k = i \<and> readyable st then SiteReady else st))"
  unfolding MarkReady_fst by (rule status_of_flip) (rule wready.key_assign wready.status_assign)+

end
