(* ===== verification/WebsiteLifecycle.thy ===== *)
theory WebsiteLifecycle
  imports WebsiteStore
begin

text \<open>
  The website lifecycle: the handlers that enqueue lifecycle jobs
  (\<open>internal/websites/handler.go\<close>, \<open>config_handler.go\<close>) and the agent endpoints that
  claim and report them and move the website
  (\<open>internal/websites/agent_endpoints.go\<close>). The control plane's state is the job queue
  and the website table. JSON coding of job payloads, \<open>uuid.UUID.String\<close>, the
  desired-state builder and the resume guard are fields of an environment; audit entries,
  bus events and the other subsystems that listen to job outcomes are left out.
\<close>

section \<open>State and environment\<close>

record panel =
  p_queue :: queue
  p_sites :: sites

datatype wire =
    WireProvision website uid string
  | WireApp website "string option"
  | WireSuspend uid string string
  | WireResume uid
  | WireTerminate uid string

record env =
  env_us :: "uid \<Rightarrow> string"
  env_encode :: "wire \<Rightarrow> string option"
  env_buildable :: "website \<Rightarrow> bool"
  env_dec_provision :: "string \<Rightarrow> string \<times> string"
  env_dec_suspend :: "string \<Rightarrow> string \<times> string option"
  env_dec_terminate :: "string \<Rightarrow> string"
  env_dec_runtime :: "string \<Rightarrow> (site_runtime \<times> string) option"
  env_dec_laravel :: "string \<Rightarrow> string option"
  env_resume_guard :: "website \<Rightarrow> bool \<Rightarrow> bool"

datatype http_err = HttpValidation | HttpNotFound | HttpConflict | HttpInternal

definition TypeTerminateWebsite :: job_type where
  "TypeTerminateWebsite = TypeNamed ''terminate_website''"

text \<open>The queue's foreign keys look at the website table.\<close>

definition sync :: "panel \<Rightarrow> queue" where
  "sync p = (p_queue p)\<lparr>q_sites := map (\<lambda>w. (site_id w, site_server w)) (s_rows (p_sites p))\<rparr>"

definition enqueue ::
    "panel \<Rightarrow> time \<Rightarrow> uid \<Rightarrow> uid option \<Rightarrow> job_type \<Rightarrow> string option \<Rightarrow> string \<Rightarrow> panel \<times> (job_err + job)" where
  "enqueue p now srv site t payload key =
    (let r = EnqueueIdempotent (sync p) now srv site t payload key
     in (p\<lparr>p_queue := fst r\<rparr>, snd r))"

definition UserSuspensionReasons :: "string list" where
  "UserSuspensionReasons = [''manual'', ''abuse'', ''admin'', ''system'', ''payment'']"

definition EffectiveReason :: "string \<Rightarrow> string" where
  "EffectiveReason r = (if r = [] then ''manual'' else r)"

definition isAppRuntime :: "site_runtime \<Rightarrow> bool" where
  "isAppRuntime rt \<longleftrightarrow> rt = RuntimeNode \<or> rt = RuntimePython \<or> rt = RuntimeGo"

section \<open>Handlers that enqueue\<close>

definition buildDesiredPayload :: "env \<Rightarrow> website \<Rightarrow> uid \<Rightarrow> string \<Rightarrow> wire option" where
  "buildDesiredPayload e w org ver = (if env_buildable e w then Some (WireProvision w org ver) else None)"

definition websiteFromPath :: "panel \<Rightarrow> uid \<Rightarrow> uid \<Rightarrow> http_err + website" where
  "websiteFromPath p org i = (case SiteByID (p_sites p) org i of Inl _ \<Rightarrow> Inl HttpNotFound | Inr w \<Rightarrow> Inr w)"

definition job_reply :: "panel \<times> (job_err + job) \<Rightarrow> panel \<times> (http_err + uid)" where
  "job_reply r = (case r of (p, Inl _) \<Rightarrow> (p, Inl HttpInternal) | (p, Inr j) \<Rightarrow> (p, Inr (job_id j)))"

definition enqueueLifecycle ::
    "env \<Rightarrow> panel \<Rightarrow> time \<Rightarrow> uid \<Rightarrow> uid \<Rightarrow> job_type \<Rightarrow> string \<Rightarrow> site_status \<Rightarrow> string \<Rightarrow> string \<Rightarrow> bool
      \<Rightarrow> panel \<times> (http_err + uid)" where
  "enqueueLifecycle e p now org i t idem_prefix expect reason message force =
    (case websiteFromPath p org i of
       Inl err \<Rightarrow> (p, Inl err)
     | Inr w \<Rightarrow>
         if site_status w \<noteq> expect then (p, Inl HttpConflict)
         else if t = TypeResumeWebsite \<and> \<not> env_resume_guard e w force then (p, Inl HttpConflict)
         else let payload = (if t = TypeSuspendWebsite then WireSuspend (site_id w) reason message
                             else WireResume (site_id w))
              in job_reply (enqueue p now (site_server w) (Some (site_id w)) t (env_encode e payload)
                   (idem_prefix @ env_us e (site_id w))))"

text \<open>\<open>body\<close> is \<open>None\<close> for a malformed JSON body; an absent body decodes to empty
  fields.\<close>

definition Suspend ::
    "env \<Rightarrow> panel \<Rightarrow> time \<Rightarrow> uid \<Rightarrow> uid \<Rightarrow> (string \<times> string) option \<Rightarrow> panel \<times> (http_err + uid)" where
  "Suspend e p now org i body =
    (case body of
       None \<Rightarrow> (p, Inl HttpValidation)
     | Some (r, message) \<Rightarrow>
         if r \<noteq> [] \<and> r \<notin> set UserSuspensionReasons then (p, Inl HttpValidation)
         else enqueueLifecycle e p now org i TypeSuspendWebsite ''suspend_'' SiteReady
                (if r = [] then ''manual'' else r) message False)"

definition Resume :: "env \<Rightarrow> panel \<Rightarrow> time \<Rightarrow> uid \<Rightarrow> uid \<Rightarrow> bool option \<Rightarrow> panel \<times> (http_err + uid)" where
  "Resume e p now org i body =
    (case body of
       None \<Rightarrow> (p, Inl HttpValidation)
     | Some force \<Rightarrow> enqueueLifecycle e p now org i TypeResumeWebsite ''resume_'' SiteSuspended [] [] force)"

definition Terminate ::
    "env \<Rightarrow> panel \<Rightarrow> time \<Rightarrow> uid \<Rightarrow> uid \<Rightarrow> (string \<times> bool) option \<Rightarrow> panel \<times> (http_err + uid)" where
  "Terminate e p now org i body =
    (case body of
       None \<Rightarrow> (p, Inl HttpValidation)
     | Some (reason, confirm) \<Rightarrow>
         if \<not> confirm then (p, Inl HttpValidation)
         else case websiteFromPath p org i of
                Inl err \<Rightarrow> (p, Inl err)
              | Inr w \<Rightarrow>
                  if site_status w \<noteq> SiteReady \<and> site_status w \<noteq> SiteFailed \<and> site_status w \<noteq> SiteSuspended
                  then (p, Inl HttpConflict)
                  else job_reply (enqueue p now (site_server w) (Some (site_id w)) TypeTerminateWebsite
                         (env_encode e (WireTerminate (site_id w) reason)) (''terminate_'' @ env_us e (site_id w))))"

definition set_deleting :: "panel \<Rightarrow> time \<Rightarrow> uid \<Rightarrow> panel \<times> (http_err + unit)" where
  "set_deleting p now i =
    (case SetStatus (p_sites p) now i SiteDeleting [] of
       (s, Inl _) \<Rightarrow> (p\<lparr>p_sites := s\<rparr>, Inl HttpInternal)
     | (s, Inr _) \<Rightarrow> (p\<lparr>p_sites := s\<rparr>, Inr ()))"

definition Purge :: "env \<Rightarrow> panel \<Rightarrow> time \<Rightarrow> uid \<Rightarrow> uid \<Rightarrow> bool option \<Rightarrow> panel \<times> (http_err + uid)" where
  "Purge e p now org i body =
    (case body of
       None \<Rightarrow> (p, Inl HttpValidation)
     | Some confirm \<Rightarrow>
         if \<not> confirm then (p, Inl HttpValidation)
         else case websiteFromPath p org i of
                Inl err \<Rightarrow> (p, Inl err)
              | Inr w \<Rightarrow>
                  if site_status w \<noteq> SiteTerminated then (p, Inl HttpConflict)
                  else case buildDesiredPayload e w org (site_runtime_version w) of
                         None \<Rightarrow> (p, Inl HttpInternal)
                       | Some d \<Rightarrow>
                           (case job_reply (enqueue p now (site_server w) (Some (site_id w)) TypeDeleteWebsite
                                   (env_encode e d) (''purge_'' @ env_us e (site_id w))) of
                              (p', Inl err) \<Rightarrow> (p', Inl err)
                            | (p', Inr j) \<Rightarrow>
                                (case set_deleting p' now (site_id w) of
                                   (p'', Inl err) \<Rightarrow> (p'', Inl err)
                                 | (p'', Inr _) \<Rightarrow> (p'', Inr j))))"

definition Delete :: "env \<Rightarrow> panel \<Rightarrow> time \<Rightarrow> uid \<Rightarrow> uid \<Rightarrow> panel \<times> (http_err + unit)" where
  "Delete e p now org i =
    (case websiteFromPath p org i of
       Inl err \<Rightarrow> (p, Inl err)
     | Inr w \<Rightarrow>
         if site_status w = SiteDeleted then (p, Inl HttpConflict)
         else if site_status w = SiteDeleting then (p, Inl HttpConflict)
         else if site_status w = SiteTerminated then (p, Inl HttpConflict)
         else case buildDesiredPayload e w org (site_runtime_version w) of
                None \<Rightarrow> (p, Inl HttpInternal)
              | Some d \<Rightarrow>
                  (case enqueue p now (site_server w) (Some (site_id w)) TypeDeleteWebsite (env_encode e d) [] of
                     (p', Inl _) \<Rightarrow> (p', Inl HttpInternal)
                   | (p', Inr _) \<Rightarrow> set_deleting p' now (site_id w)))"

definition Reconcile :: "env \<Rightarrow> panel \<Rightarrow> time \<Rightarrow> uid \<Rightarrow> uid \<Rightarrow> panel \<times> (http_err + uid)" where
  "Reconcile e p now org i =
    (case websiteFromPath p org i of
       Inl err \<Rightarrow> (p, Inl err)
     | Inr w \<Rightarrow>
         (case buildDesiredPayload e w org (site_runtime_version w) of
            None \<Rightarrow> (p, Inl HttpInternal)
          | Some d \<Rightarrow>
              job_reply (enqueue p now (site_server w) (Some (site_id w)) TypeProvisionWebsite
                (env_encode e d) (''provision_website_'' @ env_us e (site_id w)))))"

section \<open>App jobs and pending sites\<close>

definition buildAppSpec :: "panel \<Rightarrow> website \<Rightarrow> wire option" where
  "buildAppSpec p w =
    (case GetAppEnv (p_sites p) (site_id w) of Inl _ \<Rightarrow> None | Inr blob \<Rightarrow> Some (WireApp w blob))"

definition enqueueBuildApp :: "env \<Rightarrow> panel \<Rightarrow> time \<Rightarrow> website \<Rightarrow> panel" where
  "enqueueBuildApp e p now w =
    (case buildAppSpec p w of
       None \<Rightarrow> p
     | Some spec \<Rightarrow> fst (enqueue p now (site_server w) (Some (site_id w)) TypeBuildApp (env_encode e spec)
                       (''build_app_'' @ env_us e (site_id w))))"

definition enqueueStartApp :: "env \<Rightarrow> panel \<Rightarrow> time \<Rightarrow> website \<Rightarrow> panel" where
  "enqueueStartApp e p now w =
    (case buildAppSpec p w of
       None \<Rightarrow> p
     | Some spec \<Rightarrow> fst (enqueue p now (site_server w) (Some (site_id w)) TypeStartApp (env_encode e spec) []))"

definition provisionPendingSite :: "env \<Rightarrow> time \<Rightarrow> panel \<Rightarrow> website \<Rightarrow> panel" where
  "provisionPendingSite e now p w =
    (case buildDesiredPayload e w (site_org w) (site_runtime_version w) of
       None \<Rightarrow> p
     | Some d \<Rightarrow> fst (enqueue p now (site_server w) (Some (site_id w)) TypeProvisionWebsite
                    (env_encode e d) (''provision_website_'' @ env_us e (site_id w))))"

section \<open>Agent endpoints\<close>

definition AgentClaim :: "panel \<Rightarrow> time \<Rightarrow> uid \<Rightarrow> panel \<times> job option" where
  "AgentClaim p now srv =
    (case ClaimNext (p_queue p) now srv of
       (q, None) \<Rightarrow> (p\<lparr>p_queue := q\<rparr>, None)
     | (q, Some j) \<Rightarrow>
         (case (job_type_of j = TypeProvisionWebsite, job_website j) of
            (True, Some w) \<Rightarrow>
              (p\<lparr>p_queue := q, p_sites := fst (SetStatus (p_sites p) now w SiteProvisioning [])\<rparr>, Some j)
          | _ \<Rightarrow> (p\<lparr>p_queue := q\<rparr>, Some j)))"

definition AgentProgress :: "panel \<Rightarrow> uid \<Rightarrow> uid \<Rightarrow> int \<Rightarrow> string \<Rightarrow> panel \<times> (http_err + unit)" where
  "AgentProgress p srv i progress stage =
    (case GetByID (p_queue p) i of
       Inl _ \<Rightarrow> (p, Inl HttpNotFound)
     | Inr j \<Rightarrow>
         if job_server j \<noteq> srv then (p, Inl HttpNotFound)
         else (p\<lparr>p_queue := UpdateProgress (p_queue p) i progress
                   (if length stage > 300 then take 300 stage else stage)\<rparr>, Inr ()))"

text \<open>\<open>ON DELETE SET NULL\<close>: the jobs of a removed site lose their website.\<close>

definition detach_jobs :: "queue \<Rightarrow> sites \<Rightarrow> queue" where
  "detach_jobs q s = q\<lparr>q_jobs := map (\<lambda>j. case job_website j of None \<Rightarrow> j
      | Some w \<Rightarrow> if w \<in> set (map site_id (s_rows s)) then j else j\<lparr>job_website := None\<rparr>) (q_jobs q)\<rparr>"

definition remove_site :: "panel \<Rightarrow> uid \<Rightarrow> uid \<Rightarrow> panel" where
  "remove_site p srv w =
    (let s = fst (DeleteByServer (p_sites p) srv w)
     in p\<lparr>p_sites := s, p_queue := detach_jobs (p_queue p) s\<rparr>)"

definition chain_app ::
    "(panel \<Rightarrow> website \<Rightarrow> panel) \<Rightarrow> panel \<Rightarrow> uid \<Rightarrow> panel" where
  "chain_app go p w =
    (case GetByIDAny (p_sites p) w of
       Inl _ \<Rightarrow> p
     | Inr ws \<Rightarrow> if isAppRuntime (site_runtime ws) \<and> site_app_desired ws = ''running'' then go p ws else p)"

definition ApplyWebsiteTransition :: "env \<Rightarrow> time \<Rightarrow> panel \<Rightarrow> job \<Rightarrow> string \<Rightarrow> panel" where
  "ApplyWebsiteTransition e now p j result =
    (case job_website j of
       None \<Rightarrow> p
     | Some w \<Rightarrow>
         if job_type_of j = TypeProvisionWebsite then
           (if job_status j = StatusSuccess then
              (let (user, root) = env_dec_provision e result;
                   p' = p\<lparr>p_sites := fst (MarkReady (p_sites p) now w user root)\<rparr>
               in chain_app (\<lambda>p ws. enqueueBuildApp e p now ws) p' w)
            else if job_status j = StatusFailed then
              p\<lparr>p_sites := fst (SetStatus (p_sites p) now w SiteFailed (job_error j))\<rparr>
            else p)
         else if job_type_of j = TypeBuildApp then
           (if job_status j = StatusSuccess then chain_app (\<lambda>p ws. enqueueStartApp e p now ws) p w else p)
         else if job_type_of j = TypeInstallRuntime then
           (if job_status j = StatusSuccess then
              (case env_dec_runtime e (job_payload j) of
                 None \<Rightarrow> p
               | Some (rt, ver) \<Rightarrow>
                   foldl (provisionPendingSite e now) p
                     (ListPendingForRuntime (p_sites p) (job_server j) rt ver))
            else p)
         else if job_type_of j = TypeDeleteWebsite then
           (if job_status j = StatusSuccess then remove_site p (job_server j) w
            else if job_status j = StatusFailed then
              p\<lparr>p_sites := fst (SetStatus (p_sites p) now w SiteFailed (job_error j))\<rparr>
            else p)
         else if job_type_of j = TypeSuspendWebsite then
           (if job_status j = StatusSuccess then
              (let (r, meta) = env_dec_suspend e (job_payload j)
               in p\<lparr>p_sites := fst (MarkSuspended (p_sites p) now w (EffectiveReason r) meta)\<rparr>)
            else p)
         else if job_type_of j = TypeResumeWebsite then
           (if job_status j = StatusSuccess then p\<lparr>p_sites := fst (MarkResumed (p_sites p) now w)\<rparr> else p)
         else if job_type_of j = TypeTerminateWebsite then
           (if job_status j = StatusSuccess then
              p\<lparr>p_sites := fst (MarkTerminated (p_sites p) now w (env_dec_terminate e (job_payload j)))\<rparr>
            else p)
         else if job_type_of j = TypeInstallLaravel then
           (if job_status j = StatusSuccess then
              (case env_dec_laravel e result of
                 None \<Rightarrow> p
               | Some root \<Rightarrow>
                   if has_prefix root ''/srv/epicpanel/websites/''
                   then p\<lparr>p_sites := fst (SetServingDocroot (p_sites p) now w ''app/public'' root)\<rparr>
                   else p)
            else p)
         else p)"

text \<open>\<open>result\<close> is the raw JSON of the request, empty when the field is absent: it is
  never a nil interface, so an absent result is stored as \<open>null\<close>.\<close>

definition AgentResult ::
    "env \<Rightarrow> duration \<Rightarrow> panel \<Rightarrow> time \<Rightarrow> uid \<Rightarrow> uid \<Rightarrow> bool \<Rightarrow> string \<Rightarrow> string \<Rightarrow> panel \<times> (http_err + job)" where
  "AgentResult e unit p now srv i success result msg =
    (case GetByID (p_queue p) i of
       Inl _ \<Rightarrow> (p, Inl HttpNotFound)
     | Inr j \<Rightarrow>
         if job_server j \<noteq> srv then (p, Inl HttpNotFound)
         else case ReportResult unit (p_queue p) now i success
                     (Some (Some (if result = [] then ''null'' else result))) msg of
                (q, Inl JobNotFound) \<Rightarrow> (p\<lparr>p_queue := q\<rparr>, Inl HttpConflict)
              | (q, Inl _) \<Rightarrow> (p\<lparr>p_queue := q\<rparr>, Inl HttpInternal)
              | (q, Inr j') \<Rightarrow> (ApplyWebsiteTransition e now (p\<lparr>p_queue := q\<rparr>) j' result, Inr j'))"

section \<open>Frame lemmas\<close>

lemma enqueue_sites [simp]: "p_sites (fst (enqueue p now srv site t payload key)) = p_sites p"
  by (simp add: enqueue_def Let_def)

lemma enqueueBuildApp_sites [simp]: "p_sites (enqueueBuildApp e p now w) = p_sites p"
  by (simp add: enqueueBuildApp_def split: option.splits)

lemma enqueueStartApp_sites [simp]: "p_sites (enqueueStartApp e p now w) = p_sites p"
  by (simp add: enqueueStartApp_def split: option.splits)

lemma provisionPendingSite_sites [simp]: "p_sites (provisionPendingSite e now p w) = p_sites p"
  by (simp add: provisionPendingSite_def split: option.splits)

lemma provision_all_sites [simp]: "p_sites (foldl (provisionPendingSite e now) p ws) = p_sites p"
  by (induction ws arbitrary: p) simp_all

lemma chain_app_sites [simp]:
  "(\<And>p ws. p_sites (go p ws) = p_sites p) \<Longrightarrow> p_sites (chain_app go p w) = p_sites p"
  by (simp add: chain_app_def split: sum.splits)

lemma report_row_same:
  assumes "queue_ok q" and "GetByID q i = Inr j" and "ReportResult unit q now i success r msg = (q', Inr j')"
  shows "job_type_of j' = job_type_of j \<and> job_website j' = job_website j
    \<and> job_payload j' = job_payload j \<and> job_server j' = job_server j
    \<and> (success \<longrightarrow> job_status j' = StatusSuccess) \<and> (\<not> success \<longrightarrow> job_status j' \<noteq> StatusSuccess)"
proof -
  from assms(3) obtain k js where k: "select_one (running_with_id i) (q_jobs q) = Some k"
    and j': "j' = (if success then success_row now js else retry_row unit now msg) k"
    by (auto simp: ReportResult_def Let_def split: option.splits)
  from assms(2) have j: "by_key job_id i (q_jobs q) = Some j"
    by (auto simp: GetByID_def split: option.splits)
  have "k = j"
    using same_id_same_row [OF assms(1), of j k] select_someD [OF k] by_key_Some [OF j]
    by (auto simp: running_with_id_def)
  then show ?thesis by (simp add: j' success_row_def retry_row_def)
qed

lemma AgentResult_cases:
  assumes "AgentResult e unit p now srv i success result msg = (p', r)"
  obtains (err) x where "r = Inl x" "p_sites p' = p_sites p"
  | (settled) q j j' m where "GetByID (p_queue p) i = Inr j" "job_server j = srv"
      "ReportResult unit (p_queue p) now i success (Some (Some m)) msg = (q, Inr j')" "r = Inr j'"
      "p' = ApplyWebsiteTransition e now (p\<lparr>p_queue := q\<rparr>) j' result"
proof (cases "GetByID (p_queue p) i")
  case (Inl x)
  with assms err show thesis by (auto simp: AgentResult_def)
next
  case (Inr j)
  show thesis
  proof (cases "job_server j = srv")
    case False
    with assms Inr err show thesis by (auto simp: AgentResult_def)
  next
    case True
    let ?r = "ReportResult unit (p_queue p) now i success
      (Some (Some (if result = [] then ''null'' else result))) msg"
    show thesis
    proof (cases "snd ?r")
      case (Inl x)
      with assms Inr True err show thesis
        by (cases ?r; cases x) (auto simp: AgentResult_def)
    next
      case (Inr j')
      then obtain q where "?r = (q, Inr j')" by (cases ?r) simp
      with assms \<open>GetByID (p_queue p) i = Inr j\<close> True settled show thesis
        by (auto simp: AgentResult_def)
    qed
  qed
qed

lemma enqueue_sites_eq: "enqueue p now srv site t payload key = (p', r) \<Longrightarrow> p_sites p' = p_sites p"
  by (auto simp: enqueue_def Let_def)

lemma websiteFromPath_site:
  assumes "sites_ok (p_sites p)" and "websiteFromPath p org i = Inr w"
  shows "by_key site_id i (s_rows (p_sites p)) = Some w \<and> site_id w = i \<and> site_org w = org"
proof -
  from assms(2) have w: "w \<in> set (s_rows (p_sites p))" "site_id w = i" "site_org w = org"
    by (auto simp: websiteFromPath_def SiteByID_def dest!: select_someD split: sum.splits option.splits)
  with assms(1) show ?thesis by (auto simp: sites_ok_def dest: by_key_distinct)
qed

lemma set_deleting_status:
  assumes "set_deleting p now i = (p', Inr u)" and "status_of (p_sites p) i = Some st"
  shows "status_of (p_sites p') i = Some SiteDeleting"
proof -
  have "p_sites p' = fst (SetStatus (p_sites p) now i SiteDeleting [])"
    using assms(1) by (auto simp: set_deleting_def split: prod.splits sum.splits)
  with assms(2) show ?thesis by simp
qed

lemma enqueue_set_deleting:
  "enqueue p now srv site t payload key = (p1, x) \<Longrightarrow> set_deleting p1 now i = (p2, Inr u) \<Longrightarrow>
    status_of (p_sites p) i = Some st \<Longrightarrow> status_of (p_sites p2) i = Some SiteDeleting"
  by (metis enqueue_sites_eq set_deleting_status)

lemma AgentClaim_queue:
  "AgentClaim p now srv = (p', r) \<Longrightarrow> ClaimNext (p_queue p) now srv = (p_queue p', r)"
  by (auto simp: AgentClaim_def split: prod.splits option.splits bool.splits)

section \<open>A concrete control plane\<close>

text \<open>One server, one website in a chosen status, and a trivial coding of payloads: the
  inputs at which the properties below are exercised.\<close>

definition sample_env :: env where
  "sample_env = \<lparr>env_us = nat_str, env_encode = (\<lambda>d. Some ''{}''), env_buildable = (\<lambda>w. True),
     env_dec_provision = (\<lambda>r. (''u'', ''/r'')), env_dec_suspend = (\<lambda>r. ([], None)),
     env_dec_terminate = (\<lambda>r. []), env_dec_runtime = (\<lambda>r. None), env_dec_laravel = (\<lambda>r. None),
     env_resume_guard = (\<lambda>w f. True)\<rparr>"

definition sample_panel :: "site_status \<Rightarrow> panel" where
  "sample_panel st = \<lparr>p_queue = empty_queue [(7, False)] [],
     p_sites = \<lparr>s_rows = [(new_site 1 0 3 7 9 ''ab'' [] RuntimePHP ''8.3'' ''nginx'' ''u'')\<lparr>site_status := st\<rparr>],
                s_next = 2\<rparr>\<rparr>"

lemma sample_panel_ok: "queue_ok (p_queue (sample_panel st)) \<and> sites_ok (p_sites (sample_panel st))"
  by (simp add: sample_panel_def empty_queue_ok sites_ok_def new_site_def)

lemma enqueue_queue_ok:
  assumes "queue_ok (p_queue p)" shows "queue_ok (p_queue (fst (enqueue p now srv site t payload key)))"
proof -
  have "queue_ok (sync p)" using assms by (simp add: sync_def queue_ok_def)
  then show ?thesis by (simp add: enqueue_def Let_def enqueue_ok)
qed

lemma job_reply_fst [simp]: "fst (job_reply r) = fst r"
  by (cases r) (auto simp: job_reply_def split: sum.splits)

lemma Reconcile_ok: "queue_ok (p_queue p) \<Longrightarrow> queue_ok (p_queue (fst (Reconcile e p now org i)))"
  by (simp add: Reconcile_def enqueue_queue_ok split: sum.splits option.splits)

lemma Suspend_ok: "queue_ok (p_queue p) \<Longrightarrow> queue_ok (p_queue (fst (Suspend e p now org i body)))"
  by (simp add: Suspend_def enqueueLifecycle_def enqueue_queue_ok Let_def split: sum.splits option.splits)

lemma AgentClaim_ok: "queue_ok (p_queue p) \<Longrightarrow> queue_ok (p_queue (fst (AgentClaim p now srv)))"
  using claim_ok [of "p_queue p" now srv] AgentClaim_queue [of p now srv]
  by (metis fst_conv prod.collapse)

section \<open>Properties\<close>

definition lifecycle_edge :: "job_type \<Rightarrow> site_status \<Rightarrow> site_status \<Rightarrow> bool" where
  "lifecycle_edge t st st' \<longleftrightarrow>
    t = TypeSuspendWebsite \<and> suspendable st \<and> st' = SiteSuspended
    \<or> t = TypeResumeWebsite \<and> st = SiteSuspended \<and> st' = SiteReady
    \<or> t = TypeTerminateWebsite \<and> suspendable st \<and> st' = SiteTerminated"

lemma apply_lifecycle:
  assumes "job_type_of j \<in> {TypeSuspendWebsite, TypeResumeWebsite, TypeTerminateWebsite}"
    and "status_of (p_sites p) k = Some st"
  shows "\<exists>st'. status_of (p_sites (ApplyWebsiteTransition e now p j result)) k = Some st'
    \<and> (st' = st \<or> job_website j = Some k \<and> job_status j = StatusSuccess
        \<and> lifecycle_edge (job_type_of j) st st')"
proof (cases "job_website j")
  case None
  with assms(2) show ?thesis by (simp add: ApplyWebsiteTransition_def)
next
  case (Some w)
  have susp: "\<exists>st'. status_of (fst (MarkSuspended (p_sites p) now w r meta)) k = Some st'
      \<and> (st' = st \<or> w = k \<and> suspendable st \<and> st' = SiteSuspended)" for r meta
  proof (cases "r = [] \<or> r \<in> set suspend_reasons")
    case True
    with assms(2) show ?thesis by (auto simp: status_of_suspended)
  next
    case False
    then have "fst (MarkSuspended (p_sites p) now w r meta) = p_sites p"
      by (auto simp: MarkSuspended_def Let_def set_where_def)
    with assms(2) show ?thesis by simp
  qed
  show ?thesis
    using assms Some susp
    by (auto simp: ApplyWebsiteTransition_def lifecycle_edge_def TypeTerminateWebsite_def
        status_of_resumed status_of_terminated split: prod.splits)
qed

text \<open>C3: The outcome of a suspend, resume or terminate job moves only the job's own
  website, only on success, and only along the guarded edges: ready or failed or suspended
  to suspended, suspended to ready, ready or failed or suspended to terminated. In
  particular a deleting, deleted or terminated website stays what it is.\<close>

theorem lifecycle_outcome_edges:
  assumes "queue_ok (p_queue p)" and "GetByID (p_queue p) i = Inr j"
    and "job_type_of j \<in> {TypeSuspendWebsite, TypeResumeWebsite, TypeTerminateWebsite}"
    and "status_of (p_sites p) k = Some st"
    and "AgentResult e unit p now srv i success result msg = (p', r)"
  shows "\<exists>st'. status_of (p_sites p') k = Some st'
    \<and> (st' = st \<or> job_website j = Some k \<and> success \<and> lifecycle_edge (job_type_of j) st st')"
  using assms(5)
proof (cases rule: AgentResult_cases)
  case err
  with assms(4) show ?thesis by simp
next
  case (settled q j0 j' m)
  note same = report_row_same [OF assms(1) settled(1,3)]
  from settled(1) assms(2) have "j0 = j" by simp
  with same assms(3) have "job_type_of j' \<in> {TypeSuspendWebsite, TypeResumeWebsite, TypeTerminateWebsite}"
    by simp
  from apply_lifecycle [OF this, of "p\<lparr>p_queue := q\<rparr>" k st e now result] assms(4) settled(5) same \<open>j0 = j\<close>
  show ?thesis by auto
qed

lemma lifecycle_outcome_edges_witness:
  "\<exists>st'. status_of (p_sites (fst (AgentResult sample_env 0
      (fst (AgentClaim (fst (Suspend sample_env (sample_panel SiteReady) 0 3 1 (Some ([], [])))) 1 7)) 2 7 1 True [] [])))
      1 = Some st' \<and> (st' = SiteReady \<or> lifecycle_edge TypeSuspendWebsite SiteReady st')"
proof -
  let ?start = "fst (Suspend sample_env (sample_panel SiteReady) 0 3 1 (Some ([], [])))"
  let ?p = "fst (AgentClaim ?start 1 7)"
  let ?j = "case GetByID (p_queue ?p) 1 of Inr j \<Rightarrow> j"
  let ?r = "AgentResult sample_env 0 ?p 2 7 1 True [] []"
  have ok: "queue_ok (p_queue ?p)" using sample_panel_ok by (intro AgentClaim_ok Suspend_ok) simp
  have get: "GetByID (p_queue ?p) 1 = Inr ?j" by code_simp
  have ty: "job_type_of ?j = TypeSuspendWebsite" by code_simp
  then have "job_type_of ?j \<in> {TypeSuspendWebsite, TypeResumeWebsite, TypeTerminateWebsite}" by simp
  moreover have "status_of (p_sites ?p) 1 = Some SiteReady" by code_simp
  moreover have "?r = (fst ?r, snd ?r)" by simp
  ultimately show ?thesis using lifecycle_outcome_edges [OF ok get] unfolding ty by blast
qed

lemma apply_provision_success:
  assumes "job_type_of j = TypeProvisionWebsite" and "job_website j = Some w" and "job_status j = StatusSuccess"
    and "status_of (p_sites p) w = Some st" and "readyable st"
  shows "status_of (p_sites (ApplyWebsiteTransition e now p j result)) w = Some SiteReady"
  using assms by (simp add: ApplyWebsiteTransition_def status_of_ready split: prod.splits)

lemma claim_provision_status:
  assumes "AgentClaim p now srv = (p', Some j)" and "job_type_of j = TypeProvisionWebsite"
    and "job_website j = Some w" and "status_of (p_sites p) w \<noteq> None"
  shows "status_of (p_sites p') w = Some SiteProvisioning"
  using assms by (auto simp: AgentClaim_def split: prod.splits option.splits bool.splits)

text \<open>C4: Claiming a provision job overwrites the website's status whatever it is, so the
  guard of \<open>MarkReady\<close> ("never resurrects a deleting, deleted or terminated site and
  leaves a suspended site suspended") never meets it: a suspended, terminated or deleting
  website is ready again once an agent has claimed a provision job of it and reported
  success.\<close>

theorem provision_revives:
  assumes "queue_ok (p_queue p)" and "status_of (p_sites p) w = Some st"
    and "AgentClaim p now srv = (p1, Some j)"
    and "job_type_of j = TypeProvisionWebsite" and "job_website j = Some w"
    and "AgentResult e unit p1 later srv (job_id j) True result msg = (p2, Inr j')"
  shows "status_of (p_sites p1) w = Some SiteProvisioning \<and> status_of (p_sites p2) w = Some SiteReady"
proof -
  have claim: "ClaimNext (p_queue p) now srv = (p_queue p1, Some j)" by (rule AgentClaim_queue) (rule assms)
  have ok: "queue_ok (p_queue p1)" using claim_ok [OF assms(1), of now srv] claim by simp
  have prov: "status_of (p_sites p1) w = Some SiteProvisioning"
    using assms by (intro claim_provision_status) auto
  have get: "GetByID (p_queue p1) (job_id j) = Inr j"
    by (rule claim_result [OF assms(1) claim]) (simp add: GetByID_def)
  from assms(6) show ?thesis
  proof (cases rule: AgentResult_cases)
    case (settled q j0 j1 m)
    from settled(1) get have "j0 = j" by simp
    with report_row_same [OF ok settled(1,3)] assms(4,5)
    have "job_type_of j1 = TypeProvisionWebsite" "job_website j1 = Some w" "job_status j1 = StatusSuccess"
      by simp_all
    then have "status_of (p_sites p2) w = Some SiteReady"
      unfolding settled(5) using prov
      by (intro apply_provision_success [of _ _ _ SiteProvisioning]) (simp_all add: readyable_def)
    with prov show ?thesis by simp
  qed simp
qed

lemma provision_revives_witness:
  "status_of (p_sites (fst (AgentResult sample_env 0
      (fst (AgentClaim (fst (Reconcile sample_env (sample_panel SiteSuspended) 0 3 1)) 1 7)) 2 7 1 True [] [])))
      1 = Some SiteReady"
proof -
  let ?start = "fst (Reconcile sample_env (sample_panel SiteSuspended) 0 3 1)"
  let ?p = "fst (AgentClaim ?start 1 7)"
  let ?j = "the (snd (AgentClaim ?start 1 7))"
  let ?r = "AgentResult sample_env 0 ?p 2 7 (job_id ?j) True [] []"
  have ok: "queue_ok (p_queue ?start)" using sample_panel_ok by (intro Reconcile_ok) simp
  have st: "status_of (p_sites ?start) 1 = Some SiteSuspended" by code_simp
  have cl: "AgentClaim ?start 1 7 = (?p, Some ?j)" by code_simp
  have ty: "job_type_of ?j = TypeProvisionWebsite" and ws: "job_website ?j = Some 1" by code_simp+
  have res: "?r = (fst ?r, Inr (case snd ?r of Inr j \<Rightarrow> j))" by code_simp
  have "job_id ?j = 1" by code_simp
  with provision_revives [OF ok st cl ty ws res] show ?thesis by simp
qed



text \<open>The "dedicated" system user of a website depends only on its organisation and the
  first twenty characters of its name, so a staging copy of a website whose name is that
  long runs as the same system user as the production website.\<close>

theorem staging_shares_user:
  assumes "length (us org) = 36" and "20 \<le> length (site_name w)"
    and "site_unix_user w = unixUserFor us org (site_name w)"
    and "CreateStagingCopy us s now org w by = (s', Inr copy)"
  shows "site_unix_user copy = site_unix_user w \<and> site_id copy = s_next s \<and> site_status copy = SitePending"
proof -
  have cut: "unixUserFor us org n = take 32 (''ep-'' @ take 8 (us org) @ ''-'' @ take 20 n)" for n
    using assms(1) by (auto simp: unixUserFor_def Let_def)
  have "take 20 (staging_name (site_name w)) = take 20 (site_name w)"
    using assms(2) by (simp add: staging_name_def Let_def)
  with cut have "unixUserFor us org (staging_name (site_name w)) = unixUserFor us org (site_name w)" by simp
  moreover have "copy = (new_site (s_next s) now org (site_server w) by (staging_name (site_name w)) [] (site_runtime w)
      (site_runtime_version w) (site_web_server w) (unixUserFor us org (staging_name (site_name w))))
        \<lparr>site_is_staging := True, site_staging_of := Some (site_id w)\<rparr>"
    using assms(4) by (auto simp: CreateStagingCopy_def insert_site_def Let_def split: if_splits)
  ultimately show ?thesis using assms(3) by (simp add: new_site_def)
qed

lemma staging_shares_user_witness:
  "let us = (\<lambda>i. replicate 36 (CHR ''a''));
       n = ''shop-of-the-town-hall'';
       w = new_site 1 0 3 7 9 n [] RuntimePHP ''8.3'' ''nginx'' (unixUserFor us 3 n);
       r = CreateStagingCopy us \<lparr>s_rows = [w], s_next = 2\<rparr> 5 3 w 9
   in (case snd r of Inr copy \<Rightarrow> site_unix_user copy = site_unix_user w | Inl _ \<Rightarrow> False)"
proof -
  let ?us = "\<lambda>i::uid. replicate 36 (CHR ''a'')"
  let ?n = "''shop-of-the-town-hall''"
  let ?w = "new_site 1 0 3 7 9 ?n [] RuntimePHP ''8.3'' ''nginx'' (unixUserFor ?us 3 ?n)"
  let ?r = "CreateStagingCopy ?us \<lparr>s_rows = [?w], s_next = 2\<rparr> 5 3 ?w 9"
  have "isl (snd ?r) = False" by code_simp
  then obtain s' c where r: "?r = (s', Inr c)" by (cases ?r; cases "snd ?r") simp_all
  have len: "length (?us 3) = 36" "20 \<le> length (site_name ?w)" by code_simp+
  have user: "site_unix_user ?w = unixUserFor ?us 3 (site_name ?w)" by code_simp
  have "site_unix_user c = site_unix_user ?w"
    using staging_shares_user [of ?us 3 ?w, OF len user r] by (rule conjunct1)
  then show ?thesis unfolding Let_def r by (simp only: snd_conv sum.case)
qed

end
