(* ===== verification/GoNet.thy ===== *)
theory GoNet
  imports GoStrings
begin

text \<open>
  The functions of Go's \<open>net\<close> package the program uses: \<open>net.ParseIP\<close> and
  \<open>net.ParseCIDR\<close> on the syntax of \<open>netip.ParseAddr\<close> (dotted quads without leading
  zeros; eight groups of hex digits, one \<open>::\<close>, an embedded dotted quad at the end; zones are
  refused by both callers), and the decoding of a string into code points that \<open>range\<close>
  performs.
\<close>

section \<open>Addresses\<close>

datatype netip = IPv4 "nat list" | IPv6 "nat list"

definition octet :: "string \<Rightarrow> nat option" where
  "octet s = (if all_digits s \<and> (length s = 1 \<or> hd s \<noteq> CHR ''0'') \<and> length s \<le> 3 \<and> digits_val 0 s \<le> 255
              then Some (digits_val 0 s) else None)"

definition parse_ipv4 :: "string \<Rightarrow> nat list option" where
  "parse_ipv4 s = (let parts = split_on (CHR ''.'') s in
     if length parts = 4 \<and> list_all (\<lambda>p. octet p \<noteq> None) parts then Some (map (the \<circ> octet) parts) else None)"

definition is_hex :: "char \<Rightarrow> bool" where
  "is_hex c \<longleftrightarrow> is_digit c \<or> (97 \<le> byte c \<and> byte c \<le> 102) \<or> (65 \<le> byte c \<and> byte c \<le> 70)"

definition hex_digit :: "char \<Rightarrow> nat" where
  "hex_digit c = (if is_digit c then byte c - 48 else if 97 \<le> byte c then byte c - 87 else byte c - 55)"

definition hex_val :: "string \<Rightarrow> nat" where
  "hex_val s = foldl (\<lambda>a c. 16 * a + hex_digit c) 0 s"

text \<open>\<open>v6_groups acc ell s\<close> is the loop over the groups: \<open>acc\<close> the bytes so far, \<open>ell\<close> the
  place of the \<open>::\<close>. The result is the state after the loop, all of \<open>s\<close> being consumed.\<close>

function v6_groups :: "nat list \<Rightarrow> nat option \<Rightarrow> string \<Rightarrow> (nat list \<times> nat option) option" where
  "v6_groups acc ell s =
    (if 16 \<le> length acc then (if s = [] then Some (acc, ell) else None)
     else
       let hex = takeWhile is_hex s; rest = drop (length hex) s in
       if hex = [] \<or> 4 < length hex then None
       else if rest \<noteq> [] \<and> hd rest = CHR ''.'' then
         (if ell = None \<and> length acc \<noteq> 12 \<or> 16 < length acc + 4 then None
          else case parse_ipv4 s of None \<Rightarrow> None | Some q \<Rightarrow> Some (acc @ q, ell))
       else
         let acc' = acc @ [hex_val hex div 256, hex_val hex mod 256] in
         if rest = [] then Some (acc', ell)
         else if hd rest \<noteq> CHR '':'' \<or> tl rest = [] then None
         else if hd (tl rest) = CHR '':'' then
           (if ell \<noteq> None then None
            else if tl (tl rest) = [] then Some (acc', Some (length acc'))
            else v6_groups acc' (Some (length acc')) (tl (tl rest)))
         else v6_groups acc' ell (tl rest))"
  by pat_completeness auto
termination
  by (relation "measure (\<lambda>(acc, ell, s). 16 - length acc)") auto

declare v6_groups.simps [simp del]

definition expand :: "nat list \<times> nat option \<Rightarrow> nat list option" where
  "expand r = (case r of (acc, ell) \<Rightarrow>
     if length acc < 16
     then (case ell of None \<Rightarrow> None
             | Some k \<Rightarrow> Some (take k acc @ replicate (16 - length acc) 0 @ drop k acc))
     else if ell \<noteq> None then None else Some acc)"

definition parse_ipv6 :: "string \<Rightarrow> nat list option" where
  "parse_ipv6 s =
    (if CHR ''%'' \<in> set s then None
     else if has_prefix s ''::'' then
       (if drop 2 s = [] then Some (replicate 16 0)
        else case v6_groups [] (Some 0) (drop 2 s) of None \<Rightarrow> None | Some r \<Rightarrow> expand r)
     else case v6_groups [] None s of None \<Rightarrow> None | Some r \<Rightarrow> expand r)"

text \<open>\<open>netip.ParseAddr\<close> without zones: the first of \<open>.\<close>, \<open>:\<close> and \<open>%\<close> decides.\<close>

definition ParseIP :: "string \<Rightarrow> netip option" where
  "ParseIP s =
    (case dropWhile (\<lambda>c. c \<notin> {CHR ''.'', CHR '':'', CHR ''%''}) s of
       [] \<Rightarrow> None
     | c # _ \<Rightarrow> if c = CHR ''.'' then map_option IPv4 (parse_ipv4 s)
                else if c = CHR '':'' then map_option IPv6 (parse_ipv6 s) else None)"

definition To4 :: "netip \<Rightarrow> nat list option" where
  "To4 a = (case a of IPv4 q \<Rightarrow> Some q
     | IPv6 b \<Rightarrow> if take 12 b = replicate 10 0 @ [255, 255] then Some (drop 12 b) else None)"

definition bit_len :: "netip \<Rightarrow> nat" where
  "bit_len a = (case a of IPv4 _ \<Rightarrow> 32 | IPv6 _ \<Rightarrow> 128)"

text \<open>\<open>net.ParseCIDR\<close>; only whether it parses matters to its callers.\<close>

definition ParseCIDR :: "string \<Rightarrow> (netip \<times> nat) option" where
  "ParseCIDR s =
    (case dropWhile (\<lambda>c. c \<noteq> CHR ''/'') s of
       [] \<Rightarrow> None
     | _ # bits \<Rightarrow>
         (case ParseIP (takeWhile (\<lambda>c. c \<noteq> CHR ''/'') s) of
            None \<Rightarrow> None
          | Some a \<Rightarrow> if all_digits bits \<and> digits_val 0 bits \<le> bit_len a then Some (a, digits_val 0 bits)
                      else None))"

section \<open>Code points\<close>

definition cont :: "char \<Rightarrow> bool" where
  "cont c \<longleftrightarrow> 128 \<le> byte c \<and> byte c < 192"

text \<open>\<open>utf8.DecodeRuneInString\<close>: the code point and its width; an ill-formed byte is
  U+FFFD of width one.\<close>

definition decode_rune :: "string \<Rightarrow> nat \<times> nat" where
  "decode_rune s =
    (case s of
       [] \<Rightarrow> (65533, 0)
     | a # t \<Rightarrow>
         (let x = byte a; c1 = (t \<noteq> [] \<and> cont (t ! 0)); c2 = (c1 \<and> 1 < length t \<and> cont (t ! 1));
              c3 = (c2 \<and> 2 < length t \<and> cont (t ! 2)); y = byte (t ! 0); z = byte (t ! 1); w = byte (t ! 2) in
          if x < 128 then (x, 1)
          else if 194 \<le> x \<and> x < 224 \<and> c1 then (64 * (x - 192) + (y - 128), 2)
          else if 224 \<le> x \<and> x < 240 \<and> c2 \<and> (x = 224 \<longrightarrow> 160 \<le> y) \<and> (x = 237 \<longrightarrow> y < 160)
            then (4096 * (x - 224) + 64 * (y - 128) + (z - 128), 3)
          else if 240 \<le> x \<and> x < 245 \<and> c3 \<and> (x = 240 \<longrightarrow> 144 \<le> y) \<and> (x = 244 \<longrightarrow> y < 144)
            then (262144 * (x - 240) + 4096 * (y - 128) + 64 * (z - 128) + (w - 128), 4)
          else (65533, 1)))"

lemma decode_rune_width: "s \<noteq> [] \<Longrightarrow> 0 < snd (decode_rune s)"
  by (auto simp: decode_rune_def Let_def split: list.splits)

function runes :: "string \<Rightarrow> nat list" where
  "runes s = (if s = [] then [] else fst (decode_rune s) # runes (drop (snd (decode_rune s)) s))"
  by pat_completeness auto
termination
  by (relation "measure length") (auto simp: decode_rune_width)

declare runes.simps [simp del]

text \<open>\<open>strings.ToLower\<close> as far as it can yield ASCII: besides the ASCII letters, the Kelvin sign
  (U+212A) maps to \<open>k\<close> and the dotted capital I (U+0130) to \<open>i\<close>; every other letter outside
  ASCII maps to one outside ASCII and is left as it is.\<close>

fun ToLower :: "string \<Rightarrow> string" where
  "ToLower [] = []"
| "ToLower (c # s) =
    (if byte c = 226 \<and> map byte (take 2 s) = [132, 170] then CHR ''k'' # ToLower (drop 2 s)
     else if byte c = 196 \<and> map byte (take 1 s) = [176] then CHR ''i'' # ToLower (drop 1 s)
     else lower_char c # ToLower s)"

text \<open>\<open>strings.ToUpper\<close> likewise: the dotless i (U+0131) maps to \<open>I\<close> and the long s (U+017F) to \<open>S\<close>.\<close>

fun ToUpper :: "string \<Rightarrow> string" where
  "ToUpper [] = []"
| "ToUpper (c # s) =
    (if byte c = 196 \<and> map byte (take 1 s) = [177] then CHR ''I'' # ToUpper (drop 1 s)
     else if byte c = 197 \<and> map byte (take 1 s) = [191] then CHR ''S'' # ToUpper (drop 1 s)
     else upper_char c # ToUpper s)"

section \<open>The characters of an address\<close>

definition ip_char :: "char \<Rightarrow> bool" where
  "ip_char c \<longleftrightarrow> is_hex c \<or> c = CHR ''.'' \<or> c = CHR '':''"

lemma digits_ip_char: "all_digits s \<Longrightarrow> list_all ip_char s"
  by (auto simp: all_digits_def list_all_iff ip_char_def is_hex_def)

lemma split_on_chars: "set s \<subseteq> {d} \<union> \<Union> (set (map set (split_on d s)))"
proof (induction s)
  case Nil
  then show ?case by simp
next
  case (Cons c s)
  obtain p ps where ps: "split_on d s = p # ps" by (cases "split_on d s") auto
  with Cons show ?case by (auto simp: split_on_Cons)
qed

lemma parse_ipv4_chars: "parse_ipv4 s = Some q \<Longrightarrow> list_all ip_char s"
proof -
  assume "parse_ipv4 s = Some q"
  then have parts: "list_all (\<lambda>p. octet p \<noteq> None) (split_on (CHR ''.'') s)"
    by (auto simp: parse_ipv4_def Let_def split: if_splits)
  have "ip_char c" if "c \<in> set s" for c
  proof -
    from that split_on_chars [of s "CHR ''.''"] consider "c = CHR ''.''"
      | p where "p \<in> set (split_on (CHR ''.'') s)" "c \<in> set p" by auto
    then show ?thesis
    proof cases
      case 1
      then show ?thesis by (simp add: ip_char_def)
    next
      case 2
      with parts have "all_digits p" by (auto simp: list_all_iff octet_def split: if_splits)
      with 2 digits_ip_char show ?thesis by (auto simp: list_all_iff)
    qed
  qed
  then show ?thesis by (simp add: list_all_iff)
qed

lemma take_drop_chars: "list_all P (takeWhile Q s) \<Longrightarrow> list_all P (drop (length (takeWhile Q s)) s) \<Longrightarrow> list_all P s"
  by (metis append_take_drop_id list_all_append takeWhile_eq_take)

lemma v6_groups_chars: "v6_groups acc ell s = Some r \<Longrightarrow> list_all ip_char s"
proof (induction acc ell s rule: v6_groups.induct)
  case (1 acc ell s)
  let ?hex = "takeWhile is_hex s"
  let ?rest = "drop (length ?hex) s"
  have hex: "list_all ip_char ?hex" by (auto simp: list_all_iff ip_char_def dest: set_takeWhileD)
  show ?case
  proof (cases "16 \<le> length acc \<or> ?rest = [] \<or> hd ?rest = CHR ''.''")
    case True
    then show ?thesis
      using "1.prems" hex take_drop_chars [OF hex] parse_ipv4_chars
      by (subst (asm) v6_groups.simps) (auto simp: Let_def split: if_splits option.splits)
  next
    case False
    then have sep: "hd ?rest = CHR '':''" "tl ?rest \<noteq> []"
      using "1.prems" by (subst (asm) v6_groups.simps, auto simp: Let_def split: if_splits)+
    have rest: "?rest = CHR '':'' # tl ?rest" using sep False by (metis list.collapse)
    have "list_all ip_char (tl ?rest)"
    proof (cases "hd (tl ?rest) = CHR '':''")
      case colon: True
      have two: "tl ?rest = CHR '':'' # tl (tl ?rest)" using colon sep by (metis list.collapse)
      have "tl (tl ?rest) = [] \<or> list_all ip_char (tl (tl ?rest))"
        using "1.prems" False sep colon "1.IH"(1) [OF _ refl refl]
        by (subst (asm) v6_groups.simps) (auto simp: Let_def split: if_splits)
      then show ?thesis by (subst two) (auto simp: ip_char_def)
    next
      case no: False
      then show ?thesis
        using "1.prems" False sep "1.IH"(2) [OF _ refl refl]
        by (subst (asm) v6_groups.simps) (auto simp: Let_def split: if_splits)
    qed
    then have "list_all ip_char ?rest" by (subst rest) (simp add: ip_char_def)
    then show ?thesis by (rule take_drop_chars [OF hex])
  qed
qed

lemma ParseIP_chars: "ParseIP s = Some a \<Longrightarrow> list_all ip_char s"
proof -
  assume p: "ParseIP s = Some a"
  have "list_all ip_char s" if "has_prefix s ''::''" "v6_groups [] (Some 0) (drop 2 s) = Some r" for r
    using that v6_groups_chars [OF that(2)] by (auto simp: has_prefix_iff ip_char_def)
  moreover have "list_all ip_char s" if "has_prefix s ''::''" "drop 2 s = []"
    using that by (auto simp: has_prefix_iff ip_char_def)
  ultimately show ?thesis
    using p parse_ipv4_chars v6_groups_chars
    by (auto simp: ParseIP_def parse_ipv6_def split: list.splits if_splits option.splits)
qed

lemma ParseCIDR_chars: "ParseCIDR s = Some a \<Longrightarrow> list_all (\<lambda>c. ip_char c \<or> c = CHR ''/'') s"
proof -
  assume c: "ParseCIDR s = Some a"
  let ?ip = "takeWhile (\<lambda>c. c \<noteq> CHR ''/'') s"
  from c obtain bits b where d: "dropWhile (\<lambda>c. c \<noteq> CHR ''/'') s = CHR ''/'' # bits"
    and p: "ParseIP ?ip = Some b" "all_digits bits"
    by (auto simp: ParseCIDR_def split: list.splits option.splits if_splits)
      (metis (mono_tags, lifting) hd_dropWhile list.distinct(1) list.sel(1))
  have "list_all ip_char ?ip" "list_all ip_char bits"
    using ParseIP_chars [OF p(1)] digits_ip_char [OF p(2)] by auto
  then have "list_all (\<lambda>c. ip_char c \<or> c = CHR ''/'') (?ip @ CHR ''/'' # bits)"
    by (auto simp: list_all_iff)
  then show ?thesis using takeWhile_dropWhile_id [of "\<lambda>c. c \<noteq> CHR ''/''" s] d by metis
qed

section \<open>White space around a value\<close>

lemma space_seqs_lead: "list_all (\<lambda>p. \<not> cont (hd p) \<and> list_all cont (tl p)) space_seqs"
  by (simp add: space_seqs_def cont_def)

lemma has_prefix_append: "has_prefix s p \<Longrightarrow> has_prefix (s @ t) p"
  by (auto simp: has_prefix_iff)

lemma find_space: "find (has_prefix s) space_seqs = None \<longleftrightarrow> space_len s = 0"
proof -
  have "length p \<noteq> 0" if "find (has_prefix s) space_seqs = Some p" for p
  proof -
    have "p \<in> set space_seqs" using that by (auto simp: find_Some_iff)
    then show ?thesis using space_seqs_nonempty by blast
  qed
  then show ?thesis by (auto simp: space_len_def split: option.splits)
qed

lemma space_len_prefix: "space_len (s @ t) = 0 \<Longrightarrow> space_len s = 0"
  unfolding find_space [symmetric] by (auto simp: find_None_iff dest: has_prefix_append)

lemma trim_left_done: "space_len s = 0 \<Longrightarrow> trim_left s = s"
  by (simp add: trim_left.simps)

lemma trim_right_done: "space_len_end s = 0 \<Longrightarrow> trim_right s = s"
  by (simp add: trim_right.simps)

lemma trim_space_idem: "trim_space (trim_space s) = trim_space s"
proof -
  obtain p where "trim_left s = trim_right (trim_left s) @ p" using trim_right_prefix by blast
  then have "space_len (trim_right (trim_left s)) = 0"
    using trim_left_idem [of s] space_len_prefix by metis
  then show ?thesis by (simp add: trim_space_def trim_left_done trim_right_done trim_right_idem)
qed

lemma length_trim_space: "length (trim_space s) \<le> length s"
proof -
  obtain p q where "s = p @ trim_left s" "trim_left s = trim_right (trim_left s) @ q"
    using trim_left_suffix trim_right_prefix by blast
  then have "length (trim_right (trim_left s)) \<le> length (trim_left s)" "length (trim_left s) \<le> length s"
    by (metis length_append le_add1) (metis \<open>s = p @ trim_left s\<close> length_append le_add2)
  then show ?thesis by (simp add: trim_space_def)
qed

text \<open>A white space sequence is never cut by the end of a text that is followed by white space:
  its later bytes are continuation bytes.\<close>

lemma space_prefix_append:
  assumes "s \<noteq> []" and "sp \<in> set space_seqs" and "p \<in> set space_seqs"
  shows "has_prefix (s @ sp) p \<longleftrightarrow> has_prefix s p"
proof
  assume "has_prefix (s @ sp) p"
  then obtain t where t: "s @ sp = p @ t" by (auto simp: has_prefix_iff)
  show "has_prefix s p"
  proof (cases "length p \<le> length s")
    case True
    then show ?thesis using t by (auto simp: has_prefix_iff append_eq_append_conv2)
  next
    case False
    then obtain q where q: "p = s @ q" "sp = q @ t" "q \<noteq> []"
      using t by (auto simp: append_eq_append_conv2)
    then have "hd q \<in> set (tl p)" using assms(1) by (cases s; cases q) auto
    then have "cont (hd sp)" using q assms(3) space_seqs_lead by (auto simp: list_all_iff)
    then show ?thesis using assms(2) space_seqs_lead by (auto simp: list_all_iff)
  qed
qed (rule has_prefix_append)

lemma space_len_append:
  assumes "s \<noteq> []" and "sp \<in> set space_seqs"
  shows "space_len (s @ sp) = space_len s"
proof -
  have "find (has_prefix (s @ sp)) ps = find (has_prefix s) ps" if "set ps \<subseteq> set space_seqs" for ps
    using that space_prefix_append [OF assms] by (induction ps) auto
  then show ?thesis by (simp add: space_len_def)
qed

lemma space_seq_len:
  assumes "sp \<in> set space_seqs"
  shows "space_len sp = length sp"
proof -
  have "list_all (\<lambda>p. space_len p = length p) space_seqs" by code_simp
  then show ?thesis using assms by (simp add: list_all_iff)
qed

lemma fields_aux_space: "sp \<in> set space_seqs \<Longrightarrow> fields_aux w (s @ sp) = fields_aux w s"
proof (induction w s rule: fields_aux.induct)
  case (1 w s)
  show ?case
  proof (cases "s = []")
    case True
    then show ?thesis
      using 1(3) space_seqs_nonempty [OF 1(3)] space_seq_len [OF 1(3)]
      by (simp add: fields_aux.simps [of w sp] fields_aux.simps [of _ "[]"])
  next
    case False
    then have "space_len (s @ sp) = space_len s" using 1(3) space_len_append by simp
    moreover have "drop (space_len s) (s @ sp) = drop (space_len s) s @ sp" using space_len_le [of s] by simp
    ultimately show ?thesis
      using 1 False by (simp add: fields_aux.simps [of w "s @ sp"] fields_aux.simps [of w s])
  qed
qed

lemma fields_trim_right: "fields_aux [] (trim_right s) = fields_aux [] s"
proof (induction s rule: trim_right.induct)
  case (1 s)
  show ?case
  proof (cases "space_len_end s = 0")
    case True
    then show ?thesis by (simp add: trim_right_done)
  next
    case False
    then obtain sp where sp: "find (has_suffix s) space_seqs = Some sp" "space_len_end s = length sp"
      by (auto simp: space_len_end_def split: option.splits)
    then obtain t where t: "s = t @ sp" "sp \<in> set space_seqs" by (auto simp: find_Some_iff has_suffix_iff)
    then have "take (length s - space_len_end s) s = t" using sp(2) by simp
    then have "trim_right s = trim_right t" using False by (simp only: trim_right.simps [of s] if_False)
    moreover have "fields_aux [] (trim_right t) = fields_aux [] t" using 1 [OF False] \<open>take _ s = t\<close> by simp
    ultimately show ?thesis using t fields_aux_space [OF t(2), of "[]" t] by simp
  qed
qed

lemma fields_trim_left: "fields_aux [] (trim_left s) = fields_aux [] s"
proof (induction s rule: trim_left.induct)
  case (1 s)
  show ?case
  proof (cases "space_len s = 0")
    case False
    then have "s \<noteq> []" by auto
    then show ?thesis using 1 [OF False] False by (simp add: trim_left.simps [of s] fields_aux.simps [of "[]" s])
  qed (simp add: trim_left_done)
qed

lemma fields_trim_space: "GoStrings.fields (trim_space s) = GoStrings.fields s"
  unfolding GoStrings.fields_def trim_space_def fields_trim_right fields_trim_left ..

end
