(* ===== verification/DnsRecords.thy ===== *)
theory DnsRecords
  imports GoNet
begin

text \<open>
  Zone and record validation of the control plane (\<open>dns/validate.go\<close>): host names, owner names
  relative to a zone and the values of the record types. A check answers its error message or
  None; the arguments the source formats into a message are left out of it.
\<close>

section \<open>Host names\<close>

definition dot :: string where "dot = ''.''"

definition NormalizeHostname :: "string \<Rightarrow> string" where
  "NormalizeHostname s = trim_suffix (ToLower (trim_space s)) dot"

definition host_char :: "char \<Rightarrow> bool" where
  "host_char c \<longleftrightarrow> is_lower c \<or> is_digit c \<or> c = CHR ''-''"

definition host_label :: "string \<Rightarrow> string option" where
  "host_label l =
    also_err (err_unless (l \<noteq> []) ''hostname has an empty label'')
   (also_err (err_unless (length l \<le> 63) ''hostname label exceeds 63 characters'')
   (also_err (err_unless (\<not> has_prefix l ''-'' \<and> \<not> has_suffix l ''-'') ''hostname label may not start or end with a hyphen'')
     (err_unless (list_all host_char l) ''hostname label contains invalid character'')))"

definition ValidateHostname :: "string \<Rightarrow> string option" where
  "ValidateHostname s =
    (let h = NormalizeHostname s; labels = split_on CHR ''.'' h in
     also_err (err_unless (h \<noteq> []) ''hostname is empty'')
    (also_err (err_unless (length h \<le> 253) ''hostname exceeds 253 characters'')
    (also_err (err_unless (2 \<le> length labels) ''hostname must have at least two labels'')
      (first_err host_label labels))))"

definition ValidateZone :: "string \<Rightarrow> string option" where
  "ValidateZone domain = ValidateHostname domain"

text \<open>The pattern of the domain columns (and of \<open>domains/handler.go\<close>): labels of letters, digits and inner hyphens.\<close>

definition domain_check :: "string \<Rightarrow> bool" where
  "domain_check s \<longleftrightarrow>
    (let labels = split_on CHR ''.'' s; alnum = (\<lambda>c. is_lower c \<or> is_digit c) in
     2 \<le> length labels \<and> list_all (\<lambda>l. l \<noteq> [] \<and> alnum (hd l) \<and> alnum (last l) \<and> list_all host_char l) labels)"

section \<open>Values\<close>

definition MaxRecordsPerZone :: nat where "MaxRecordsPerZone = 100"
definition minTTL :: int where "minTTL = 60"
definition maxTTL :: int where "maxTTL = 604800"

definition in_bounds :: "int \<Rightarrow> int \<Rightarrow> int option \<Rightarrow> bool" where
  "in_bounds lo hi n = (case n of None \<Rightarrow> False | Some i \<Rightarrow> lo \<le> i \<and> i \<le> hi)"

definition is_ipv4 :: "string \<Rightarrow> bool" where
  "is_ipv4 v = (case ParseIP v of None \<Rightarrow> False | Some ip \<Rightarrow> To4 ip \<noteq> None \<and> CHR '':'' \<notin> set v)"

definition is_ipv6 :: "string \<Rightarrow> bool" where
  "is_ipv6 v = (case ParseIP v of None \<Rightarrow> False | Some ip \<Rightarrow> To4 ip = None \<and> CHR ''%'' \<notin> set v)"

definition line_break :: string where "line_break = [CHR 0x0A, CHR 0x0D]"

definition txt_error :: "string \<Rightarrow> string option" where
  "txt_error v =
    also_err (err_unless (v \<noteq> []) ''TXT record value is empty'')
   (also_err (err_unless (\<not> contains_any v line_break) ''TXT record may not contain newlines'')
     (err_unless (length v \<le> 255) ''TXT record exceeds 255 characters''))"

text \<open>\<open>host_ok\<close> is the host name check of the caller.\<close>

definition srv_error :: "(string \<Rightarrow> bool) \<Rightarrow> string \<Rightarrow> string option" where
  "srv_error host_ok v =
    (case fields v of
       [weight, port, target] \<Rightarrow>
         also_err (err_unless (in_bounds 0 65535 (parse_int weight) \<and> in_bounds 0 65535 (parse_int port))
             ''SRV weight and port must be 0-65535'')
           (err_unless (host_ok target) ''SRV target must be a hostname'')
     | _ \<Rightarrow> Some ''SRV value must be weight port target'')"

definition caa_tags :: "string list" where "caa_tags = [''issue'', ''issuewild'', ''iodef'']"

definition caa_error :: "string \<Rightarrow> string option" where
  "caa_error v =
    (case fields v of
       [flag, tag, val] \<Rightarrow>
         also_err (err_unless (in_bounds 0 255 (parse_int flag)) ''CAA flag must be 0-255'')
        (also_err (err_unless (tag \<in> set caa_tags) ''CAA tag must be issue, issuewild or iodef'')
          (err_unless (val \<noteq> []) ''CAA value part is empty''))
     | _ \<Rightarrow> Some ''CAA value must be flag tag value'')"

definition is_host :: "string \<Rightarrow> bool" where
  "is_host v \<longleftrightarrow> ValidateHostname v = None"

definition value_error :: "string \<Rightarrow> string \<Rightarrow> string \<Rightarrow> int \<Rightarrow> string option" where
  "value_error typ name v priority =
    (if typ = ''A'' then err_unless (is_ipv4 v) ''A record requires a valid IPv4 address''
     else if typ = ''AAAA'' then err_unless (is_ipv6 v) ''AAAA record requires a valid IPv6 address''
     else if typ = ''CNAME'' then
       also_err (err_unless (name \<noteq> ''@'') ''CNAME is not allowed at the zone apex'')
         (err_unless (is_host v) ''CNAME target must be a hostname'')
     else if typ = ''MX'' then
       also_err (err_unless (is_host v) ''MX target must be a hostname'')
         (err_unless (0 \<le> priority \<and> priority \<le> 65535) ''MX priority must be 0-65535'')
     else if typ = ''TXT'' then txt_error v
     else if typ = ''NS'' then err_unless (is_host v) ''NS target must be a hostname''
     else if typ = ''SRV'' then srv_error is_host v
     else if typ = ''CAA'' then caa_error v
     else Some ''unsupported record type'')"

definition ValidateRecord :: "string \<Rightarrow> string \<Rightarrow> string \<Rightarrow> int \<Rightarrow> int \<Rightarrow> string option" where
  "ValidateRecord typ name v ttl priority =
    also_err (err_unless (minTTL \<le> ttl \<and> ttl \<le> maxTTL) ''ttl must be between 60 and 604800'')
   (also_err (value_error typ name v priority)
     (err_unless (typ \<in> {''MX'', ''SRV''} \<or> priority = 0) ''priority is only valid on MX and SRV records''))"

section \<open>Owner names\<close>

definition isRecordLabelChar :: "char \<Rightarrow> bool" where
  "isRecordLabelChar c \<longleftrightarrow> is_lower c \<or> is_digit c \<or> c = CHR ''-'' \<or> c = CHR ''_''"

definition commonTLDs :: "string list" where
  "commonTLDs =
    [''com'', ''net'', ''org'', ''io'', ''dev'', ''app'', ''co'', ''uk'', ''de'', ''fr'', ''nl'', ''eu'', ''us'', ''ca'',
     ''au'', ''xyz'', ''info'', ''biz'', ''online'', ''site'', ''store'', ''tech'', ''cloud'', ''me'', ''tv'', ''ai'']"

definition name_label :: "string \<Rightarrow> string option" where
  "name_label l =
    also_err (err_unless (l \<noteq> []) ''record name has an empty label'')
   (also_err (err_unless (length l \<le> 63) ''record name label exceeds 63 characters'')
     (err_unless (list_all isRecordLabelChar l) ''record name label contains invalid character''))"

text \<open>The labels of a name left of the zone: the paste guard, then each label.\<close>

definition labels_error :: "string list \<Rightarrow> bool \<Rightarrow> string \<Rightarrow> string option" where
  "labels_error tlds wildcard n =
    (let labels = split_on CHR ''.'' n in
     also_err (err_unless (wildcard \<or> length labels \<le> 1 \<or> last labels \<notin> set tlds)
        ''record name must be @, a label under the zone, or a hostname under it'')
       (first_err name_label labels))"

definition wildcard_form :: "string \<Rightarrow> bool" where
  "wildcard_form n \<longleftrightarrow> has_prefix n ''*.'' \<and> CHR ''*'' \<notin> set (trim_prefix n ''*.'')"

definition ValidateRecordName :: "string \<Rightarrow> string \<Rightarrow> string + string" where
  "ValidateRecordName name zone =
    (let n0 = NormalizeHostname name; wildcard = CHR ''*'' \<in> set n0 in
     if n0 = ''@'' \<or> n0 = [] then Inr ''@''
     else if wildcard \<and> \<not> wildcard_form n0 then Inl ''wildcard is only allowed as the leftmost label''
     else
       let n1 = (if wildcard then trim_prefix n0 ''*.'' else n0) in
       if n1 = zone then (if wildcard then Inl ''wildcard cannot cover the zone apex; use *.<zone>'' else Inr ''@'')
       else
         let n = trim_suffix n1 (dot @ zone) in
         case labels_error commonTLDs wildcard n of
           Some e \<Rightarrow> Inl e
         | None \<Rightarrow>
             if 253 < length n + length zone + 1 then Inl ''record name exceeds 253 characters inside the zone''
             else Inr (if wildcard then ''*.'' @ n else n))"

section \<open>Names made of plain characters\<close>

definition plain_char :: "char \<Rightarrow> bool" where
  "plain_char c \<longleftrightarrow> graph c \<and> \<not> is_upper c"

lemma plain_chars:
  "isRecordLabelChar c \<Longrightarrow> plain_char c" "host_char c \<Longrightarrow> plain_char c" "plain_char CHR ''.''" "plain_char CHR ''*''"
  "plain_char CHR ''@''"
  by (auto simp: plain_char_def isRecordLabelChar_def host_char_def graph_def is_lower_def is_digit_def is_upper_def)

lemma ToLower_plain: "list_all plain_char s \<Longrightarrow> ToLower s = s"
  by (induction s) (auto simp: plain_char_def graph_def lower_char_def)

lemma trim_space_graph: "list_all graph s \<Longrightarrow> trim_space s = s"
proof (cases "s = []")
  case True
  then show ?thesis by (simp add: trim_space_def trim_left_done trim_right_done)
next
  case False
  then show "list_all graph s \<Longrightarrow> ?thesis" by (simp add: trim_graph list_all_iff)
qed

lemma trim_space_plain: "list_all plain_char s \<Longrightarrow> trim_space s = s"
  by (rule trim_space_graph) (auto simp: plain_char_def list_all_iff)

lemma trim_dot: "last s \<noteq> CHR ''.'' \<Longrightarrow> trim_suffix s dot = s"
  by (auto simp: trim_suffix_def dot_def has_suffix_iff)

lemma normalize_plain:
  assumes "list_all plain_char s" and "last s \<noteq> CHR ''.''"
  shows "trim_suffix (ToLower (trim_space s)) dot = s"
  using assms by (simp add: trim_space_plain ToLower_plain trim_dot)

lemma split_snoc: "split_on d (s @ [d]) = split_on d s @ [[]]"
  by (induction s) (auto split: list.splits)

lemma split_last: "s \<noteq> [] \<Longrightarrow> last s = d \<Longrightarrow> [] \<in> set (split_on d s)"
  using split_snoc [of d "butlast s"] append_butlast_last_id [of s] by auto

text \<open>What the labels of an accepted name are made of.\<close>

lemma labels_chars:
  assumes "\<forall>l \<in> set (split_on CHR ''.'' n). l \<noteq> [] \<and> list_all P l"
  shows "list_all (\<lambda>c. P c \<or> c = CHR ''.'') n" and "n \<noteq> []" and "last n \<noteq> CHR ''.''"
proof -
  show "list_all (\<lambda>c. P c \<or> c = CHR ''.'') n"
    using assms split_on_chars [of n "CHR ''.''"] by (fastforce simp: list_all_iff)
  show "n \<noteq> []" using assms by auto
  then show "last n \<noteq> CHR ''.''" using split_last [of n "CHR ''.''"] assms by blast
qed

lemma name_label_None: "name_label l = None \<longleftrightarrow> l \<noteq> [] \<and> length l \<le> 63 \<and> list_all isRecordLabelChar l"
  by (auto simp: name_label_def checks_None)

lemma labels_None:
  assumes "labels_error tlds w n = None"
  shows "list_all (\<lambda>c. isRecordLabelChar c \<or> c = CHR ''.'') n" and "n \<noteq> []" and "last n \<noteq> CHR ''.''"
proof -
  have "\<forall>l \<in> set (split_on CHR ''.'' n). l \<noteq> [] \<and> list_all isRecordLabelChar l"
    using assms by (simp add: labels_error_def Let_def checks_None name_label_None del: split_on.simps)
  from labels_chars [OF this]
  show "list_all (\<lambda>c. isRecordLabelChar c \<or> c = CHR ''.'') n" and "n \<noteq> []" and "last n \<noteq> CHR ''.''" .
qed

lemma labels_plain: "labels_error tlds w n = None \<Longrightarrow> list_all plain_char n"
  by (drule labels_None(1)) (auto simp: list_all_iff plain_chars)

lemma host_label_None:
  "host_label l = None \<longleftrightarrow> l \<noteq> [] \<and> length l \<le> 63 \<and> hd l \<noteq> CHR ''-'' \<and> last l \<noteq> CHR ''-'' \<and> list_all host_char l"
proof (cases l)
  case (Cons c s)
  have "has_suffix l ''-'' \<longleftrightarrow> last l = CHR ''-''"
    using Cons append_butlast_last_id [of l] by (metis has_suffix_iff last_snoc list.simps(3))
  then show ?thesis using Cons by (auto simp: host_label_def checks_None)
qed (simp add: host_label_def checks_None)

lemma ValidateHostname_None:
  "ValidateHostname s = None \<longleftrightarrow>
    length (NormalizeHostname s) \<le> 253 \<and> 2 \<le> length (split_on CHR ''.'' (NormalizeHostname s)) \<and>
    (\<forall>l \<in> set (split_on CHR ''.'' (NormalizeHostname s)). host_label l = None)"
proof -
  have "NormalizeHostname s \<noteq> []" if "2 \<le> length (split_on CHR ''.'' (NormalizeHostname s))"
    using that by auto
  then show ?thesis by (auto simp: ValidateHostname_def Let_def checks_None)
qed

text \<open>A name the control plane stores: the apex, or labels with perhaps a leading wildcard.\<close>

lemma stored_name:
  assumes "ValidateRecordName nm zone = Inr r" and "r \<noteq> ''@''"
  obtains w n where "r = (if w then ''*.'' @ n else n)" and "labels_error commonTLDs w n = None"
    and "length n + length zone + 1 \<le> 253"
proof -
  define w where "w = (CHR ''*'' \<in> set (NormalizeHostname nm))"
  define n where "n = trim_suffix (if w then trim_prefix (NormalizeHostname nm) ''*.'' else NormalizeHostname nm) (dot @ zone)"
  have "labels_error commonTLDs w n = None \<and> length n + length zone + 1 \<le> 253 \<and> r = (if w then ''*.'' @ n else n)"
    using assms unfolding ValidateRecordName_def Let_def w_def [symmetric] n_def [symmetric]
    by (simp split: option.splits if_splits)
  then show thesis using that by blast
qed

text \<open>The condition under which a stored name keeps its meaning when it is read again: it does not
  end in the zone's own domain (\<open>a.foo.zone.foo.zone\<close> is stored as \<open>a.foo.zone\<close>), its last label
  is not one of \<open>guarded\<close> and, a wildcard included, it is short enough.\<close>

definition settled_name :: "string list \<Rightarrow> string \<Rightarrow> string \<Rightarrow> bool" where
  "settled_name guarded zone r \<longleftrightarrow>
    (let n = trim_prefix r ''*.'' in
     n \<noteq> zone \<and> \<not> has_suffix n (dot @ zone) \<and> length r + length zone + 1 \<le> 253
     \<and> (has_prefix r ''*.'' \<or> length (split_on CHR ''.'' n) \<le> 1 \<or> last (split_on CHR ''.'' n) \<notin> set guarded))"

lemma labels_no_star: "labels_error tlds w n = None \<Longrightarrow> CHR ''*'' \<notin> set n \<and> CHR ''@'' \<notin> set n"
  by (drule labels_None(1)) (auto simp: list_all_iff isRecordLabelChar_def is_lower_def is_digit_def)

lemma labels_no_wild: "labels_error tlds w n = None \<Longrightarrow> \<not> has_prefix n ''*.''"
  by (drule labels_no_star) (auto simp: has_prefix_iff)

lemma name_normal:
  assumes "labels_error tlds w n = None"
  shows "trim_suffix (ToLower (trim_space (if w then ''*.'' @ n else n))) dot = (if w then ''*.'' @ n else n)"
proof -
  have n: "list_all plain_char n" "n \<noteq> []" "last n \<noteq> CHR ''.''"
    using labels_plain [OF assms] labels_None(2,3) [OF assms] .
  then show ?thesis by (intro normalize_plain) (auto simp: plain_chars)
qed

end
