(* ===== verification/DnsZoneFile.thy ===== *)
theory DnsZoneFile
  imports DnsRecords "HOL-Library.List_Lexorder" "HOL-Library.Product_Lexorder" "HOL-Library.Char_ord" "HOL-Library.Multiset"
begin

text \<open>
  The agent's side of a zone (\<open>agent/dns_zone_ops.go\<close>): validation of the payload of a
  \<open>sync_dns_zone\<close> job and the rendering of the zone file. A line of the file is one element of
  \<open>zone_lines\<close>; \<open>renderDNSZoneFile\<close> joins them. A reader of zone files states what the file says.
\<close>

section \<open>Payload\<close>

record zone_payload =
  zp_domain :: string
  zp_ttl :: int
  zp_primary :: string
  zp_admin :: string
  zp_refresh :: int
  zp_retry :: int
  zp_expire :: int
  zp_minimum :: int
  zp_serial :: int

record record_payload =
  rp_name :: string
  rp_type :: string
  rp_value :: string
  rp_ttl :: int
  rp_priority :: int

section \<open>Validation\<close>

definition dnsZoneMinTTL :: int where "dnsZoneMinTTL = 60"
definition dnsZoneMaxTTL :: int where "dnsZoneMaxTTL = 7 * 24 * 3600"

definition agent_label :: "string \<Rightarrow> bool" where
  "agent_label l \<longleftrightarrow> l \<noteq> [] \<and> length l \<le> 63 \<and> hd l \<noteq> CHR ''-'' \<and> last l \<noteq> CHR ''-'' \<and> list_all host_char l"

definition dnsZoneValidHostname :: "string \<Rightarrow> bool \<Rightarrow> bool" where
  "dnsZoneValidHostname s two \<longleftrightarrow>
    (let h = trim_suffix (ToLower (trim_space s)) dot; labels = split_on CHR ''.'' h in
     h \<noteq> [] \<and> length h \<le> 253 \<and> (two \<longrightarrow> 2 \<le> length labels) \<and> list_all agent_label labels)"

definition dnsZoneValidateZoneHeader :: "zone_payload \<Rightarrow> string option" where
  "dnsZoneValidateZoneHeader z =
    also_err (err_unless (dnsZoneValidHostname (zp_domain z) True) ''zone domain is not a valid hostname'')
   (also_err (err_unless (dnsZoneMinTTL \<le> zp_ttl z \<and> zp_ttl z \<le> dnsZoneMaxTTL) ''zone ttl must be between 60 and 604800'')
   (also_err (err_unless (dnsZoneValidHostname (zp_primary z) False) ''soa primary ns is not a valid hostname'')
   (also_err (err_unless (dnsZoneValidHostname (zp_admin z) False) ''soa admin email is not a valid hostname form'')
   (also_err (first_err (\<lambda>v. err_unless (0 < v) ''soa timer must be positive'')
                [zp_refresh z, zp_retry z, zp_expire z, zp_minimum z])
     (err_unless (0 \<le> zp_serial z) ''soa serial must not be negative'')))))"

definition dnsZoneRecordTypes :: "string list" where
  "dnsZoneRecordTypes = [''A'', ''AAAA'', ''CNAME'', ''MX'', ''TXT'', ''NS'', ''SRV'', ''CAA'']"

definition dnsZoneCommonTLDs :: "string list" where
  "dnsZoneCommonTLDs =
    [''com'', ''net'', ''org'', ''io'', ''dev'', ''app'', ''co'', ''uk'', ''de'', ''fr'', ''nl'', ''eu'', ''us'', ''ca'',
     ''au'', ''xyz'', ''info'', ''biz'', ''online'', ''site'', ''store'', ''tech'', ''cloud'', ''me'', ''tv'', ''ai'', ''test'']"

definition dnsZoneNormalizeRecordName :: "string \<Rightarrow> string \<Rightarrow> string + string" where
  "dnsZoneNormalizeRecordName name domain =
    (let n0 = trim_suffix (ToLower (trim_space name)) dot; wildcard = CHR ''*'' \<in> set n0 in
     if n0 = [] \<or> n0 = ''@'' then Inr ''@''
     else if wildcard \<and> \<not> wildcard_form n0 then Inl ''wildcard is only allowed as the leftmost label''
     else
       let n1 = (if wildcard then trim_prefix n0 ''*.'' else n0) in
       if n1 = domain then (if wildcard then Inl ''wildcard cannot cover the zone apex'' else Inr ''@'')
       else
         let n = trim_suffix n1 (dot @ domain) in
         if n = [] then Inr ''@''
         else case labels_error dnsZoneCommonTLDs wildcard n of
           Some e \<Rightarrow> Inl e
         | None \<Rightarrow>
             let full = (if wildcard then ''*.'' @ n else n) in
             if 253 < length full + length domain + 1 then Inl ''record name exceeds 253 characters inside the zone''
             else Inr full)"

definition agent_host :: "string \<Rightarrow> bool" where
  "agent_host v \<longleftrightarrow> dnsZoneValidHostname v False"

definition dnsZoneValidateRecordValue :: "string \<Rightarrow> string \<Rightarrow> string \<Rightarrow> int \<Rightarrow> string option" where
  "dnsZoneValidateRecordValue typ name raw priority =
    (let v = trim_space raw in
     also_err
      (if typ = ''A'' then err_unless (is_ipv4 v) ''A record requires a valid IPv4 address''
       else if typ = ''AAAA'' then err_unless (is_ipv6 v) ''AAAA record requires a valid IPv6 address''
       else if typ = ''CNAME'' then
         also_err (err_unless (name \<noteq> ''@'') ''CNAME is not allowed at the zone apex'')
           (err_unless (agent_host v) ''CNAME target must be a hostname'')
       else if typ = ''MX'' then
         also_err (err_unless (agent_host v) ''MX target must be a hostname'')
           (err_unless (0 \<le> priority \<and> priority \<le> 65535) ''MX priority must be 0-65535'')
       else if typ = ''TXT'' then txt_error v
       else if typ = ''NS'' then err_unless (agent_host v) ''NS target must be a hostname''
       else if typ = ''SRV'' then
         also_err (srv_error agent_host v) (err_unless (0 \<le> priority \<and> priority \<le> 65535) ''SRV priority must be 0-65535'')
       else if typ = ''CAA'' then caa_error v
       else None)
      (err_unless (typ \<in> {''MX'', ''SRV''} \<or> priority = 0) ''priority is only valid on MX and SRV records''))"

text \<open>The loop over the records: each is normalized in place; \<open>seen\<close> holds the keys so far.\<close>

definition record_key :: "record_payload \<Rightarrow> string" where
  "record_key r = rp_name r @ ''|'' @ rp_type r @ ''|'' @ rp_value r"

definition normalize_record :: "string \<Rightarrow> record_payload \<Rightarrow> string + record_payload" where
  "normalize_record domain r =
    (case dnsZoneNormalizeRecordName (rp_name r) domain of
       Inl e \<Rightarrow> Inl e
     | Inr name \<Rightarrow> Inr (r\<lparr>rp_name := name, rp_type := ToUpper (trim_space (rp_type r))\<rparr>))"

definition record_error :: "string list \<Rightarrow> record_payload \<Rightarrow> string option" where
  "record_error seen r =
    also_err (err_unless (rp_type r \<in> set dnsZoneRecordTypes) ''unsupported type'')
   (also_err (err_unless (dnsZoneMinTTL \<le> rp_ttl r \<and> rp_ttl r \<le> dnsZoneMaxTTL) ''ttl must be between 60 and 604800'')
   (also_err (err_unless (record_key r \<notin> set seen) ''duplicate'')
     (dnsZoneValidateRecordValue (rp_type r) (rp_name r) (rp_value r) (rp_priority r))))"

fun validate_records :: "string \<Rightarrow> string list \<Rightarrow> record_payload list \<Rightarrow> string + record_payload list" where
  "validate_records domain seen [] = Inr []"
| "validate_records domain seen (r # rs) =
    (case normalize_record domain r of
       Inl e \<Rightarrow> Inl e
     | Inr r' \<Rightarrow>
         (case record_error seen r' of
            Some e \<Rightarrow> Inl e
          | None \<Rightarrow>
              (case validate_records domain (record_key r' # seen) rs of
                 Inl e \<Rightarrow> Inl e
               | Inr rs' \<Rightarrow> Inr (r' # rs'))))"

definition dnsZoneValidateRecords :: "string \<Rightarrow> record_payload list \<Rightarrow> string + record_payload list" where
  "dnsZoneValidateRecords domain rs = validate_records domain [] rs"

section \<open>Rendering\<close>

definition dnsZoneFQDN :: "string \<Rightarrow> string" where
  "dnsZoneFQDN s = trim_suffix (trim_space s) dot @ dot"

definition quote_char :: "char \<Rightarrow> string" where
  "quote_char c = (if c = CHR 0x5C then [CHR 0x5C, CHR 0x5C] else if c = CHR 0x22 then [CHR 0x5C, CHR 0x22] else [c])"

definition dnsZoneQuoteTXT :: "string \<Rightarrow> string" where
  "dnsZoneQuoteTXT v = CHR 0x22 # concat (map quote_char v) @ [CHR 0x22]"

text \<open>\<open>strings.Trim(s, "\"")\<close>.\<close>

definition trim_quotes :: "string \<Rightarrow> string" where
  "trim_quotes s = rev (dropWhile (\<lambda>c. c = CHR 0x22) (rev (dropWhile (\<lambda>c. c = CHR 0x22) s)))"

text \<open>None stands for the error of an unknown type and, for SRV and CAA, for the panic of an index
  out of range.\<close>

definition dnsZoneRenderRDATA :: "record_payload \<Rightarrow> string option" where
  "dnsZoneRenderRDATA r =
    (let v = rp_value r in
     if rp_type r \<in> {''A'', ''AAAA''} then Some v
     else if rp_type r \<in> {''CNAME'', ''NS''} then Some (dnsZoneFQDN v)
     else if rp_type r = ''MX'' then Some (int_str (rp_priority r) @ '' '' @ dnsZoneFQDN v)
     else if rp_type r = ''SRV'' then
       (case GoStrings.fields v of
          weight # port # target # _ \<Rightarrow>
            Some (int_str (rp_priority r) @ '' '' @ weight @ '' '' @ port @ '' '' @ dnsZoneFQDN target)
        | _ \<Rightarrow> None)
     else if rp_type r = ''TXT'' then Some (dnsZoneQuoteTXT v)
     else if rp_type r = ''CAA'' then
       (case GoStrings.fields v of
          flag # tag # val # _ \<Rightarrow> Some (flag @ '' '' @ tag @ '' '' @ dnsZoneQuoteTXT (trim_quotes val))
        | _ \<Rightarrow> None)
     else None)"

definition dnsZoneSortName :: "string \<Rightarrow> string" where
  "dnsZoneSortName name = (if name = ''@'' then [] else name)"

definition sort_records :: "record_payload list \<Rightarrow> record_payload list" where
  "sort_records rs = sort_key (\<lambda>r. (dnsZoneSortName (rp_name r), rp_type r, rp_value r)) rs"

definition nl :: char where "nl = CHR 0x0A"
definition tb :: char where "tb = CHR 0x09"

definition header_lines :: "zone_payload \<Rightarrow> string list" where
  "header_lines z =
    [''; managed by EpicPanel - do not edit'',
     ''; zone '' @ zp_domain z @ '' serial '' @ int_str (zp_serial z),
     ''$ORIGIN '' @ zp_domain z @ dot,
     ''$TTL '' @ int_str (zp_ttl z),
     ''@'' @ [tb] @ ''IN'' @ [tb] @ ''SOA'' @ [tb] @ dnsZoneFQDN (zp_primary z) @ '' '' @ dnsZoneFQDN (zp_admin z) @ '' ('',
     [tb, tb] @ int_str (zp_serial z) @ [tb] @ ''; serial'',
     [tb, tb] @ int_str (zp_refresh z) @ [tb] @ ''; refresh'',
     [tb, tb] @ int_str (zp_retry z) @ [tb] @ ''; retry'',
     [tb, tb] @ int_str (zp_expire z) @ [tb] @ ''; expire'',
     [tb, tb] @ int_str (zp_minimum z) @ [tb] @ ''; minimum'',
     [tb] @ '')'']"

definition record_line :: "record_payload \<Rightarrow> string option" where
  "record_line r =
    map_option (\<lambda>rdata. rp_name r @ [tb] @ int_str (rp_ttl r) @ [tb] @ ''IN'' @ [tb] @ rp_type r @ [tb] @ rdata)
      (dnsZoneRenderRDATA r)"

definition renderDNSZoneFile :: "zone_payload \<Rightarrow> record_payload list \<Rightarrow> string option" where
  "renderDNSZoneFile z rs =
    (if list_all (\<lambda>r. record_line r \<noteq> None) (sort_records rs)
     then Some (concat (map (\<lambda>l. l @ [nl]) (header_lines z @ List.map_filter record_line (sort_records rs))))
     else None)"

section \<open>What the control plane accepts, the agent accepts\<close>

lemma tlds_test: "dnsZoneCommonTLDs = commonTLDs @ [''test'']"
  by (simp add: dnsZoneCommonTLDs_def commonTLDs_def)

lemma agent_name_agrees:
  assumes "ValidateRecordName nm zone = Inr r" and "r \<noteq> ''@''" and "settled_name [''test''] zone r"
  shows "dnsZoneNormalizeRecordName r zone = Inr r"
proof -
  obtain w n where r: "r = (if w then ''*.'' @ n else n)" and l: "labels_error commonTLDs w n = None"
    using stored_name [OF assms(1,2)] by blast
  have n0: "trim_suffix (ToLower (trim_space r)) dot = r" using name_normal [OF l] r by simp
  have star: "CHR ''*'' \<in> set r \<longleftrightarrow> w" using labels_no_star [OF l] r by simp
  have ne: "n \<noteq> []" using labels_None(2) [OF l] .
  have n1: "(if w then trim_prefix r ''*.'' else r) = n" using r by (simp add: trim_prefix_def)
  have tp: "trim_prefix r ''*.'' = n" using r labels_no_wild [OF l] by (simp add: trim_prefix_def)
  have wild: "w \<Longrightarrow> wildcard_form r" using r labels_no_star [OF l] by (simp add: wildcard_form_def trim_prefix_def)
  have s: "n \<noteq> zone" "\<not> has_suffix n (dot @ zone)" "length r + length zone + 1 \<le> 253"
      "w \<or> length (split_on CHR ''.'' n) \<le> 1 \<or> last (split_on CHR ''.'' n) \<noteq> ''test''"
    using assms(3) r labels_no_wild [OF l] unfolding settled_name_def Let_def tp by auto
  then have t: "trim_suffix n (dot @ zone) = n" by (simp add: trim_suffix_def)
  have "labels_error dnsZoneCommonTLDs w n = None"
    using l s(4) by (auto simp: labels_error_def Let_def checks_None tlds_test)
  moreover have "r \<noteq> []" using ne r by simp
  ultimately show ?thesis
    using assms(2) wild s(1,3) ne
    unfolding dnsZoneNormalizeRecordName_def Let_def n0 star n1 t r [symmetric] by simp
qed

lemma agent_label_host: "agent_label l \<longleftrightarrow> host_label l = None"
  by (auto simp: agent_label_def host_label_None)

lemma valid_hostname_iff: "dnsZoneValidHostname s True \<longleftrightarrow> is_host s"
proof -
  have "NormalizeHostname s \<noteq> []" if "2 \<le> length (split_on CHR ''.'' (NormalizeHostname s))"
    using that by auto
  then show ?thesis
    unfolding is_host_def ValidateHostname_None dnsZoneValidHostname_def Let_def list_all_iff agent_label_host
    by (auto simp: NormalizeHostname_def)
qed

lemma valid_hostname_weaken: "dnsZoneValidHostname s True \<Longrightarrow> dnsZoneValidHostname s False"
  by (auto simp: dnsZoneValidHostname_def Let_def)

lemma valid_hostname_trim: "dnsZoneValidHostname (trim_space s) b = dnsZoneValidHostname s b"
  by (simp add: dnsZoneValidHostname_def trim_space_idem)

lemma host_agent: "is_host v \<Longrightarrow> agent_host v" "is_host v \<Longrightarrow> agent_host (trim_space v)"
  by (simp_all add: agent_host_def valid_hostname_trim valid_hostname_iff valid_hostname_weaken)

lemma srv_weaken: "srv_error is_host v = None \<Longrightarrow> srv_error agent_host v = None"
  by (auto simp: srv_error_def checks_None host_agent split: list.splits)

lemma ip_graph: "ip_char c \<Longrightarrow> graph c"
  by (auto simp: ip_char_def graph_def is_hex_def is_digit_def)

lemma ip_trim: "is_ipv4 v \<Longrightarrow> trim_space v = v" "is_ipv6 v \<Longrightarrow> trim_space v = v"
proof -
  have "trim_space v = v" if "ParseIP v = Some ip" for ip
    using ParseIP_chars [OF that] by (intro trim_space_graph) (auto simp: list_all_iff ip_graph)
  then show "is_ipv4 v \<Longrightarrow> trim_space v = v" "is_ipv6 v \<Longrightarrow> trim_space v = v"
    by (auto simp: is_ipv4_def is_ipv6_def split: option.splits)
qed

lemma txt_trim: "txt_error v = None \<Longrightarrow> trim_space v \<noteq> [] \<Longrightarrow> txt_error (trim_space v) = None"
  using set_trim_space [of v] length_trim_space [of v]
  by (auto simp: txt_error_def checks_None contains_any_def list_ex_iff)

text \<open>Two values pass the control plane and not the agent: a text of white space only, and a
  priority of an SRV record outside 16 bits.\<close>

definition agent_takes :: "string \<Rightarrow> string \<Rightarrow> int \<Rightarrow> bool" where
  "agent_takes typ v priority \<longleftrightarrow>
    (typ = ''TXT'' \<longrightarrow> trim_space v \<noteq> []) \<and> (typ = ''SRV'' \<longrightarrow> 0 \<le> priority \<and> priority \<le> 65535)"

lemma agent_value_agrees:
  assumes "ValidateRecord typ n v ttl priority = None" and "agent_takes typ v priority"
  shows "dnsZoneValidateRecordValue typ n v priority = None"
proof -
  have v: "value_error typ n v priority = None" and p: "typ \<in> {''MX'', ''SRV''} \<or> priority = 0"
    using assms(1) by (auto simp: ValidateRecord_def checks_None)
  have "srv_error agent_host (trim_space v) = None" if "srv_error is_host v = None"
    using srv_weaken [OF that] by (simp add: srv_error_def fields_trim_space)
  moreover have "caa_error (trim_space v) = caa_error v" by (simp add: caa_error_def fields_trim_space)
  ultimately show ?thesis
    using v p assms(2) ip_trim [of v] txt_trim [of v] host_agent(2) [of v]
    unfolding value_error_def dnsZoneValidateRecordValue_def agent_takes_def Let_def checks_None
    by (simp add: checks_None split: if_splits)
qed

lemma value_type: "ValidateRecord typ n v ttl priority = None \<Longrightarrow> typ \<in> set dnsZoneRecordTypes"
  by (auto simp: ValidateRecord_def value_error_def dnsZoneRecordTypes_def checks_None split: if_splits)

section \<open>The order of the records does not matter\<close>

lemma normalized_nonempty: "dnsZoneNormalizeRecordName name domain = Inr n \<Longrightarrow> n \<noteq> []"
  by (auto simp: dnsZoneNormalizeRecordName_def Let_def split: if_splits option.splits)

lemma validated_records:
  assumes "validate_records domain seen rs = Inr out"
  shows "map Inr out = map (normalize_record domain) rs" and "distinct (map record_key out)"
    and "\<forall>r \<in> set out. record_key r \<notin> set seen \<and> rp_name r \<noteq> []"
  using assms
proof (induction rs arbitrary: seen out)
  case (Cons r rs)
  case 1
  then show ?case using Cons.IH(1) by (auto split: sum.splits option.splits)
next
  case (Cons r rs)
  case 2
  then show ?case using Cons.IH(2,3) by (fastforce split: sum.splits option.splits)
next
  case (Cons r rs)
  case 3
  then show ?case
    using Cons.IH(3) by (fastforce simp: record_error_def normalize_record_def checks_None
        dest: normalized_nonempty split: sum.splits option.splits)
qed simp_all

definition sort_value :: "record_payload \<Rightarrow> string \<times> string \<times> string" where
  "sort_value r = (dnsZoneSortName (rp_name r), rp_type r, rp_value r)"

lemma sort_value_inj:
  assumes "distinct (map record_key rs)" and "\<forall>r \<in> set rs. rp_name r \<noteq> []"
  shows "inj_on sort_value (set rs)"
proof (rule inj_onI)
  fix r s assume rs: "r \<in> set rs" "s \<in> set rs" "sort_value r = sort_value s"
  have "rp_name r = rp_name s" "rp_type r = rp_type s" "rp_value r = rp_value s"
    using rs assms(2) by (auto simp: sort_value_def dnsZoneSortName_def split: if_splits)
  then have "record_key r = record_key s" by (simp add: record_key_def)
  then show "r = s" using assms(1) rs(1,2) by (auto simp: distinct_map dest: inj_onD)
qed

lemma filter_one: "distinct xs \<Longrightarrow> k \<in> set xs \<Longrightarrow> filter (\<lambda>x. x = k) xs = [k]"
proof (induction xs)
  case (Cons x xs)
  then show ?case by (auto simp: filter_empty_conv)
qed simp

lemma sort_records_mset:
  assumes "mset rs = mset rs'" and "distinct (map record_key rs)" and "\<forall>r \<in> set rs. rp_name r \<noteq> []"
  shows "sort_records rs = sort_records rs'"
proof -
  have s: "set rs = set rs'" using assms(1) by (rule mset_eq_setD)
  have d: "distinct rs" "distinct rs'" using assms(1,2) by (auto simp: distinct_map dest: mset_eq_imp_distinct_iff)
  have "filter (\<lambda>x. sort_value k = sort_value x) xs = [k]" if "k \<in> set rs" "distinct xs" "set xs = set rs" for k xs
  proof -
    have "filter (\<lambda>x. sort_value k = sort_value x) xs = filter (\<lambda>x. x = k) xs"
      using sort_value_inj [OF assms(2,3)] that by (intro filter_cong) (auto dest: inj_onD)
    also have "\<dots> = [k]" using that by (simp add: filter_one)
    finally show ?thesis .
  qed
  note same = this
  have "sort_key sort_value rs = sort_key sort_value rs'"
  proof (rule properties_for_sort_key)
    show "mset (sort_key sort_value rs') = mset rs" using assms(1) by simp
    show "sorted (map sort_value (sort_key sort_value rs'))" by simp
  next
    fix k assume "k \<in> set (sort_key sort_value rs')"
    then show "filter (\<lambda>x. sort_value k = sort_value x) (sort_key sort_value rs') = filter (\<lambda>x. sort_value k = sort_value x) rs"
      using same [of k "sort_key sort_value rs'"] same [of k rs] s d by simp
  qed
  then show ?thesis by (simp add: sort_records_def sort_value_def [abs_def])
qed

lemma validated_mset:
  assumes "validate_records domain seen rs = Inr out"
  shows "mset out = image_mset (\<lambda>r. projr (normalize_record domain r)) (mset rs)"
proof -
  have "out = map projr (map Inr out :: (string + record_payload) list)" by (simp add: comp_def)
  also have "\<dots> = map (\<lambda>r. projr (normalize_record domain r)) rs"
    by (simp only: validated_records(1) [OF assms] map_map comp_def)
  finally have "mset out = mset (map (\<lambda>r. projr (normalize_record domain r)) rs)" by (rule arg_cong)
  then show ?thesis by simp
qed

text \<open>The zone file depends only on the set of records: two payloads that list the same records
  in different orders, both accepted, are rendered to the same file, byte for byte, so publishing
  an unchanged zone again is recognised as unchanged.\<close>

theorem render_order_independent:
  assumes "dnsZoneValidateRecords domain rs = Inr a" and "dnsZoneValidateRecords domain rs' = Inr b"
    and "mset rs = mset rs'"
  shows "renderDNSZoneFile z a = renderDNSZoneFile z b"
proof -
  note v = assms(1,2) [unfolded dnsZoneValidateRecords_def]
  have "mset a = mset b" using validated_mset [OF v(1)] validated_mset [OF v(2)] assms(3) by simp
  then have "sort_records a = sort_records b"
    using sort_records_mset validated_records(2,3) [OF v(1)] by blast
  then show ?thesis by (simp add: renderDNSZoneFile_def)
qed

definition sample_zone :: zone_payload where
  "sample_zone = \<lparr>zp_domain = ''epic.io'', zp_ttl = 3600, zp_primary = ''ns1.epic.io.'', zp_admin = ''hostmaster.epic.io.'',
     zp_refresh = 7200, zp_retry = 1800, zp_expire = 1209600, zp_minimum = 86400, zp_serial = 7\<rparr>"

definition sample_a :: record_payload where
  "sample_a = \<lparr>rp_name = ''www'', rp_type = ''A'', rp_value = ''192.0.2.1'', rp_ttl = 300, rp_priority = 0\<rparr>"

definition sample_txt :: record_payload where
  "sample_txt = \<lparr>rp_name = ''@'', rp_type = ''TXT'', rp_value = ''v=spf1 -all'', rp_ttl = 300, rp_priority = 0\<rparr>"

lemma render_order_independent_witness:
  "renderDNSZoneFile sample_zone [sample_a, sample_txt] = renderDNSZoneFile sample_zone [sample_txt, sample_a]"
proof -
  have "dnsZoneValidateRecords ''epic.io'' [sample_a, sample_txt] = Inr [sample_a, sample_txt]" by code_simp
  moreover have "dnsZoneValidateRecords ''epic.io'' [sample_txt, sample_a] = Inr [sample_txt, sample_a]" by code_simp
  ultimately show ?thesis by (rule render_order_independent) simp
qed

section \<open>Reading a zone file\<close>

text \<open>What a line of a zone file says: owner, TTL, type and data; the quotes of a text are undone.\<close>

fun unquote :: "string \<Rightarrow> string option" where
  "unquote [] = None"
| "unquote (c # s) =
    (if c = CHR 0x22 then (if s = [] then Some [] else None)
     else if c = CHR 0x5C then (case s of [] \<Rightarrow> None | d # t \<Rightarrow> map_option (Cons d) (unquote t))
     else map_option (Cons c) (unquote s))"

definition cut :: "string \<Rightarrow> string \<times> string" where
  "cut s = (takeWhile (\<lambda>c. c \<noteq> tb) s, drop 1 (dropWhile (\<lambda>c. c \<noteq> tb) s))"

definition read_line :: "string \<Rightarrow> (string \<times> int \<times> string \<times> string) option" where
  "read_line l =
    (let (name, r1) = cut l; (ttl, r2) = cut r1; (cls, r3) = cut r2; (typ, rdata) = cut r3 in
     case (parse_int ttl, if typ = ''TXT'' then unquote (drop 1 rdata) else Some rdata) of
       (Some t, Some v) \<Rightarrow> if cls = ''IN'' then Some (name, t, typ, v) else None
     | _ \<Rightarrow> None)"

definition says :: "record_payload \<Rightarrow> string \<times> int \<times> string \<times> string" where
  "says r = (rp_name r, rp_ttl r, rp_type r, if rp_type r = ''TXT'' then rp_value r else the (dnsZoneRenderRDATA r))"

text \<open>The zone of a file: its origin, its default TTL, its records.\<close>

definition read_zone :: "string \<Rightarrow> string \<times> int option \<times> (string \<times> int \<times> string \<times> string) option list" where
  "read_zone file =
    (let ls = butlast (split_on nl file) in
     (drop (length ''$ORIGIN '') (ls ! 2), parse_int (drop (length ''$TTL '') (ls ! 3)), map read_line (drop 11 ls)))"

lemma unquote_quote: "unquote (concat (map quote_char v) @ [CHR 0x22]) = Some v"
  by (induction v) (auto simp: quote_char_def)

lemma cut_field: "tb \<notin> set a \<Longrightarrow> cut (a @ tb # b) = (a, b)"
  by (induction a) (auto simp: cut_def)

text \<open>Control characters do not enter through the fields of a record.\<close>

definition control :: "char \<Rightarrow> bool" where
  "control c \<longleftrightarrow> c = nl \<or> c = tb"

lemma control_graph: "graph c \<Longrightarrow> \<not> control c"
  by (auto simp: control_def graph_def nl_def tb_def)

lemma control_byte: "control c \<longleftrightarrow> byte c = 9 \<or> byte c = 10"
  by (auto simp: control_def nl_def tb_def byte_values)

lemma digit_of_nat_str: "c \<in> set (nat_str n) \<Longrightarrow> is_digit c"
  using all_digits_nat_str [of n] by (simp add: all_digits_def list_all_iff)

lemma control_int: "control c \<Longrightarrow> c \<notin> set (int_str i)"
  using digit_of_nat_str [of c] by (auto simp: int_str_def control_byte is_digit_def)

lemma control_drop:
  assumes "c \<in> set s" and "map byte (take k s) = bs" and "byte c \<notin> set bs"
  shows "c \<in> set (drop k s)"
proof -
  have "c \<notin> set (take k s)" using assms(2,3) by force
  then show ?thesis using assms(1) append_take_drop_id [of k s] by (metis Un_iff set_append)
qed

lemma control_lower:
  assumes "control c"
  shows "c \<in> set s \<Longrightarrow> c \<in> set (ToLower s)"
proof (induction s rule: ToLower.induct)
  case (2 x s)
  have c: "byte c = 9 \<or> byte c = 10" using assms by (simp add: control_byte)
  consider (kelvin) "byte x = 226 \<and> map byte (take 2 s) = [132, 170]"
    | (dotted) "\<not> (byte x = 226 \<and> map byte (take 2 s) = [132, 170])" "byte x = 196 \<and> map byte (take 1 s) = [176]"
    | (other) "\<not> (byte x = 226 \<and> map byte (take 2 s) = [132, 170])" "\<not> (byte x = 196 \<and> map byte (take 1 s) = [176])"
    by blast
  then show ?case
  proof cases
    case kelvin
    then have "c \<in> set (drop 2 s)" using 2(4) c by (intro control_drop [of c s 2 "[132, 170]"]) auto
    then show ?thesis using kelvin 2(1) by simp
  next
    case dotted
    then have "c \<in> set (drop 1 s)" using 2(4) c by (intro control_drop [of c s 1 "[176]"]) auto
    then show ?thesis using dotted 2(2) by simp
  next
    case other
    then show ?thesis using 2(3,4) c by (auto simp: lower_char_def is_upper_def)
  qed
qed simp

lemma set_trim_suffix: "set s \<subseteq> set (trim_suffix s p) \<union> set p"
  by (auto simp: trim_suffix_def has_suffix_iff)

lemma control_dot: "control c \<Longrightarrow> c \<notin> set dot"
  by (auto simp: control_byte dot_def)

lemma control_label: "host_char c \<or> c = CHR ''.'' \<Longrightarrow> \<not> control c"
  by (auto simp: control_byte host_char_def is_lower_def is_digit_def)

lemma control_host:
  assumes "dnsZoneValidHostname v b" and "control c"
  shows "c \<notin> set (dnsZoneFQDN v)"
proof
  let ?h = "trim_suffix (ToLower (trim_space v)) dot"
  assume "c \<in> set (dnsZoneFQDN v)"
  then have "c \<in> set (trim_space v)"
    using control_dot [OF assms(2)]
    by (auto simp: dnsZoneFQDN_def trim_suffix_def dest: in_set_takeD split: if_splits)
  then have "c \<in> set (ToLower (trim_space v))" by (rule control_lower [OF assms(2)])
  then have c: "c \<in> set ?h" using control_dot [OF assms(2)] set_trim_suffix [of "ToLower (trim_space v)" dot] by blast
  have "\<forall>l \<in> set (split_on CHR ''.'' ?h). l \<noteq> [] \<and> list_all host_char l"
    using assms(1) by (simp add: dnsZoneValidHostname_def Let_def agent_label_def list_all_iff)
  from labels_chars(1) [OF this] have "host_char c \<or> c = CHR ''.''" using c by (simp add: list_all_iff)
  then show False using assms(2) control_label by blast
qed

lemma fields_no_space:
  "ascii_space c \<Longrightarrow> c \<notin> set w \<Longrightarrow> f \<in> set (fields_aux w s) \<Longrightarrow> c \<notin> set f"
proof (induction w s rule: fields_aux.induct)
  case (1 w s)
  show ?case
  proof (cases "s = []")
    case True
    then show ?thesis using 1(3-5) by (auto simp: fields_aux.simps [of w "[]"] split: if_splits)
  next
    case s: False
    show ?thesis
    proof (cases "space_len s = 0")
      case True
      then have "hd s \<noteq> c" using ascii_space_len [of c "tl s"] s 1(3) by (cases s) auto
      then show ?thesis using 1 s True by (auto simp: fields_aux.simps [of w s])
    next
      case False
      then show ?thesis using 1 s by (auto simp: fields_aux.simps [of w s] split: if_splits)
    qed
  qed
qed

lemma control_fields: "control c \<Longrightarrow> f \<in> set (GoStrings.fields s) \<Longrightarrow> c \<notin> set f"
  unfolding GoStrings.fields_def
  by (rule fields_no_space) (auto simp: control_def ascii_space_def byte_values nl_def tb_def)

lemma control_quote: "control c \<Longrightarrow> c \<notin> set v \<Longrightarrow> c \<notin> set (dnsZoneQuoteTXT v)"
  by (auto simp: dnsZoneQuoteTXT_def quote_char_def control_def nl_def tb_def split: if_splits)

lemma control_nl: "control nl" "control tb"
  by (simp_all add: control_def)

lemma rdata_one_line:
  assumes "ValidateRecord (rp_type r) n (rp_value r) ttl p = None"
  shows "\<exists>d. dnsZoneRenderRDATA r = Some d \<and> nl \<notin> set d"
proof -
  have v: "value_error (rp_type r) n (rp_value r) p = None" using assms by (simp add: ValidateRecord_def checks_None)
  have host: "nl \<notin> set (dnsZoneFQDN h)" if "is_host h" for h
    using control_host [OF valid_hostname_iff [THEN iffD2, OF that] control_nl(1)] .
  have int: "nl \<notin> set (int_str i)" for i using control_int [OF control_nl(1)] .
  have field: "nl \<notin> set f" if "f \<in> set (GoStrings.fields (rp_value r))" for f
    using control_fields [OF control_nl(1) that] .
  have blank: "nl \<noteq> CHR '' ''" by (simp add: nl_def)
  have ip: "nl \<notin> set x" if "ParseIP x = Some a" for x a
    using ParseIP_chars [OF that] control_graph [OF ip_graph] control_nl(1) by (auto simp: list_all_iff)
  consider "rp_type r \<in> {''A'', ''AAAA''}" | "rp_type r \<in> {''CNAME'', ''NS'', ''MX''}" | "rp_type r = ''TXT''"
    | "rp_type r = ''SRV''" | "rp_type r = ''CAA''"
    using value_type [OF assms] by (auto simp: dnsZoneRecordTypes_def)
  then show ?thesis
  proof cases
    case 1
    then have "\<exists>a. ParseIP (rp_value r) = Some a"
      using v by (auto simp: value_error_def err_unless_None is_ipv4_def is_ipv6_def split: option.splits)
    then show ?thesis using 1 ip by (auto simp: dnsZoneRenderRDATA_def)
  next
    case 2
    then have "is_host (rp_value r)" using v by (auto simp: value_error_def checks_None)
    then show ?thesis using 2 host int blank by (auto simp: dnsZoneRenderRDATA_def)
  next
    case 3
    then have "nl \<notin> set (rp_value r)"
      using v by (auto simp: value_error_def txt_error_def checks_None contains_any_def list_ex_iff line_break_def nl_def)
    then show ?thesis using 3 control_quote [OF control_nl(1)] by (simp add: dnsZoneRenderRDATA_def)
  next
    case 4
    then have "srv_error is_host (rp_value r) = None" using v by (simp add: value_error_def)
    then obtain w q t where f: "GoStrings.fields (rp_value r) = [w, q, t]" and "is_host t"
      by (auto simp: srv_error_def checks_None split: list.splits)
    then show ?thesis using 4 field host int blank by (auto simp: dnsZoneRenderRDATA_def)
  next
    case 5
    then have "caa_error (rp_value r) = None" using v by (simp add: value_error_def)
    then obtain w q t where f: "GoStrings.fields (rp_value r) = [w, q, t]"
      by (auto simp: caa_error_def checks_None split: list.splits)
    have "set (trim_quotes t) \<subseteq> set t" by (auto simp: trim_quotes_def dest!: set_dropWhileD)
    then have "nl \<notin> set (trim_quotes t)" using field f by auto
    then show ?thesis using 5 f field blank control_quote [OF control_nl(1)] by (auto simp: dnsZoneRenderRDATA_def)
  qed
qed

lemma type_plain: "typ \<in> set dnsZoneRecordTypes \<Longrightarrow> control c \<Longrightarrow> c \<notin> set typ"
  by (auto simp: dnsZoneRecordTypes_def control_byte)

lemma line_reads:
  assumes "ValidateRecord (rp_type r) (rp_name r) (rp_value r) (rp_ttl r) (rp_priority r) = None"
    and "\<forall>c \<in> set (rp_name r). \<not> control c"
  shows "\<exists>l. record_line r = Some l \<and> nl \<notin> set l \<and> read_line l = Some (says r)"
proof -
  obtain d where d: "dnsZoneRenderRDATA r = Some d" "nl \<notin> set d" using rdata_one_line [OF assms(1)] by blast
  define l where "l = rp_name r @ [tb] @ int_str (rp_ttl r) @ [tb] @ ''IN'' @ [tb] @ rp_type r @ [tb] @ d"
  have ty: "tb \<notin> set (rp_type r)" "nl \<notin> set (rp_type r)"
    using type_plain [OF value_type [OF assms(1)]] control_nl by blast+
  have name: "tb \<notin> set (rp_name r)" "nl \<notin> set (rp_name r)" using assms(2) control_nl by blast+
  have int: "tb \<notin> set (int_str (rp_ttl r))" "nl \<notin> set (int_str (rp_ttl r))" using control_int control_nl by blast+
  have IN: "tb \<notin> set ''IN''" "nl \<notin> set ''IN''" "nl \<noteq> tb" by (simp_all add: tb_def nl_def)
  have "in_int64 (rp_ttl r)"
    using assms(1) by (auto simp: ValidateRecord_def checks_None minTTL_def maxTTL_def in_int64_def)
  then have ttl: "parse_int (int_str (rp_ttl r)) = Some (rp_ttl r)" by (rule parse_int_int_str)
  have "cut l = (rp_name r, int_str (rp_ttl r) @ tb # ''IN'' @ tb # rp_type r @ tb # d)"
    using cut_field [OF name(1)] by (simp add: l_def)
  moreover have "cut (int_str (rp_ttl r) @ tb # ''IN'' @ tb # rp_type r @ tb # d) = (int_str (rp_ttl r), ''IN'' @ tb # rp_type r @ tb # d)"
    by (rule cut_field [OF int(1)])
  moreover have "cut (''IN'' @ tb # rp_type r @ tb # d) = (''IN'', rp_type r @ tb # d)" by (rule cut_field [OF IN(1)])
  moreover have "cut (rp_type r @ tb # d) = (rp_type r, d)" by (rule cut_field [OF ty(1)])
  moreover have "d = dnsZoneQuoteTXT (rp_value r)" if "rp_type r = ''TXT''"
    using d(1) that by (simp add: dnsZoneRenderRDATA_def)
  ultimately have "read_line l = Some (says r)"
    using ttl d(1) by (simp add: read_line_def says_def unquote_quote dnsZoneQuoteTXT_def del: append.simps)
  moreover have "record_line r = Some l" using d(1) by (simp add: record_line_def l_def)
  moreover have "nl \<notin> set l" using d(2) ty name int IN by (simp add: l_def)
  ultimately show ?thesis by blast
qed

lemma split_lines:
  assumes "\<forall>l \<in> set ls. nl \<notin> set l"
  shows "split_on nl (concat (map (\<lambda>l. l @ [nl]) ls)) = ls @ [[]]"
proof -
  have one: "split_on nl (l @ nl # t) = l # split_on nl t" if "nl \<notin> set l" for l t
    using that by (induction l) auto
  show ?thesis using assms by (induction ls) (simp_all add: one)
qed

lemma header_one_line:
  assumes "dnsZoneValidateZoneHeader z = None" and "\<forall>c \<in> set (zp_domain z). \<not> control c"
  shows "\<forall>l \<in> set (header_lines z). nl \<notin> set l"
proof -
  have "nl \<notin> set (dnsZoneFQDN (zp_primary z))" "nl \<notin> set (dnsZoneFQDN (zp_admin z))"
    using assms(1) control_host [OF _ control_nl(1)] by (auto simp: dnsZoneValidateZoneHeader_def checks_None)
  moreover have "nl \<notin> set (zp_domain z)" using assms(2) control_nl(1) by blast
  ultimately show ?thesis
    using control_int [OF control_nl(1)] by (auto simp: header_lines_def nl_def tb_def dot_def)
qed

lemma map_filter_all:
  "\<forall>r \<in> set rs. \<exists>l. f r = Some l \<and> Q l \<and> g l = h r \<Longrightarrow>
    map g (List.map_filter f rs) = map h rs \<and> (\<forall>l \<in> set (List.map_filter f rs). Q l)"
  by (induction rs) (auto simp: List.map_filter_def)

lemma zone_reads:
  assumes "dnsZoneValidateZoneHeader z = None" and "\<forall>c \<in> set (zp_domain z). \<not> control c"
    and "\<forall>r \<in> set rs. ValidateRecord (rp_type r) (rp_name r) (rp_value r) (rp_ttl r) (rp_priority r) = None
           \<and> (\<forall>c \<in> set (rp_name r). \<not> control c)"
  shows "map_option read_zone (renderDNSZoneFile z rs)
    = Some (zp_domain z @ dot, Some (zp_ttl z), map (Some \<circ> says) (sort_records rs))"
proof -
  have rec: "\<exists>l. record_line r = Some l \<and> nl \<notin> set l \<and> read_line l = Some (says r)" if "r \<in> set (sort_records rs)" for r
    using that assms(3) line_reads by (simp add: sort_records_def)
  define ls where "ls = List.map_filter record_line (sort_records rs)"
  have ls: "map read_line ls = map (Some \<circ> says) (sort_records rs) \<and> (\<forall>l \<in> set ls. nl \<notin> set l)"
    unfolding ls_def using rec map_filter_all [of "sort_records rs" record_line "\<lambda>l. nl \<notin> set l" read_line "Some \<circ> says"] by simp
  have "list_all (\<lambda>r. record_line r \<noteq> None) (sort_records rs)" using rec by (fastforce simp: list_all_iff)
  then have content: "renderDNSZoneFile z rs = Some (concat (map (\<lambda>l. l @ [nl]) (header_lines z @ ls)))"
    by (simp add: renderDNSZoneFile_def ls_def)
  have "split_on nl (concat (map (\<lambda>l. l @ [nl]) (header_lines z @ ls))) = (header_lines z @ ls) @ [[]]"
    using header_one_line [OF assms(1,2)] ls by (intro split_lines) auto
  moreover have "in_int64 (zp_ttl z)"
    using assms(1) by (auto simp: dnsZoneValidateZoneHeader_def checks_None dnsZoneMinTTL_def dnsZoneMaxTTL_def in_int64_def)
  then have "parse_int (int_str (zp_ttl z)) = Some (zp_ttl z)" by (rule parse_int_int_str)
  ultimately show ?thesis
    using ls content by (simp add: read_zone_def header_lines_def)
qed

section \<open>From the stored zone to the file\<close>

text \<open>\<open>syncDNSZone\<close> up to the content of the file; None is a refused payload.\<close>

definition sync_content :: "zone_payload \<Rightarrow> record_payload list \<Rightarrow> string option" where
  "sync_content z rs =
    (case dnsZoneValidateZoneHeader z of
       Some _ \<Rightarrow> None
     | None \<Rightarrow> (case dnsZoneValidateRecords (zp_domain z) rs of Inl _ \<Rightarrow> None | Inr rs' \<Rightarrow> renderDNSZoneFile z rs'))"

lemma bar_inj: "CHR ''|'' \<notin> set a \<Longrightarrow> CHR ''|'' \<notin> set b \<Longrightarrow> a @ CHR ''|'' # x = b @ CHR ''|'' # y \<longleftrightarrow> a = b \<and> x = y"
proof (induction a arbitrary: b)
  case Nil
  then show ?case by (cases b) auto
next
  case (Cons c a)
  then show ?case by (cases b) auto
qed

lemma record_key_inj:
  assumes "CHR ''|'' \<notin> set (rp_name r) \<union> set (rp_name s)" and "rp_type r \<in> set dnsZoneRecordTypes" and "rp_type s \<in> set dnsZoneRecordTypes"
  shows "record_key r = record_key s \<longleftrightarrow> rp_name r = rp_name s \<and> rp_type r = rp_type s \<and> rp_value r = rp_value s"
proof -
  have "CHR ''|'' \<notin> set (rp_type r)" "CHR ''|'' \<notin> set (rp_type s)" using assms(2,3) by (auto simp: dnsZoneRecordTypes_def)
  then show ?thesis using assms(1) by (simp add: record_key_def bar_inj)
qed

lemma record_error_seen: "record_error seen r = None \<longleftrightarrow> record_error [] r = None \<and> record_key r \<notin> set seen"
  by (auto simp: record_error_def checks_None)

lemma validate_accepts:
  assumes "\<forall>r \<in> set rs. normalize_record domain r = Inr r \<and> record_error [] r = None"
    and "distinct (map record_key rs)" and "\<forall>r \<in> set rs. record_key r \<notin> set seen"
  shows "validate_records domain seen rs = Inr rs"
  using assms
proof (induction rs arbitrary: seen)
  case (Cons r rs)
  have "record_error seen r = None" using Cons.prems record_error_seen [of seen r] by simp
  moreover have "validate_records domain (record_key r # seen) rs = Inr rs"
    using Cons.prems by (intro Cons.IH) (auto simp: image_iff)
  ultimately show ?case using Cons.prems(1) by simp
qed simp

lemma types_normal: "ty \<in> set dnsZoneRecordTypes \<Longrightarrow> ToUpper (trim_space ty) = ty"
proof -
  have "list_all (\<lambda>ty. ToUpper (trim_space ty) = ty) dnsZoneRecordTypes" by code_simp
  then show "ty \<in> set dnsZoneRecordTypes \<Longrightarrow> ?thesis" by (simp add: list_all_iff)
qed

lemma apex_normal: "dnsZoneNormalizeRecordName ''@'' domain = Inr ''@''"
proof -
  have "trim_suffix (ToLower (trim_space ''@'')) dot = ''@''" by code_simp
  then show ?thesis by (simp add: dnsZoneNormalizeRecordName_def Let_def)
qed

text \<open>What a stored record must satisfy so that the agent takes it under the same name.\<close>

definition publishable :: "string \<Rightarrow> record_payload \<Rightarrow> bool" where
  "publishable domain r \<longleftrightarrow>
    (\<exists>nm. ValidateRecordName nm domain = Inr (rp_name r))
    \<and> ValidateRecord (rp_type r) (rp_name r) (rp_value r) (rp_ttl r) (rp_priority r) = None
    \<and> agent_takes (rp_type r) (rp_value r) (rp_priority r)
    \<and> (rp_name r = ''@'' \<or> settled_name [''test''] domain (rp_name r))"

lemma stored_name_chars:
  assumes "ValidateRecordName nm domain = Inr r"
  shows "list_all plain_char r" and "CHR ''|'' \<notin> set r" and "\<forall>c \<in> set r. \<not> control c"
proof -
  have name: "list_all (\<lambda>c. isRecordLabelChar c \<or> c \<in> {CHR ''.'', CHR ''*'', CHR ''@''}) r"
  proof (cases "r = ''@''")
    case False
    then obtain w n where r: "r = (if w then ''*.'' @ n else n)" and l: "labels_error commonTLDs w n = None"
      using stored_name [OF assms] by metis
    then show ?thesis using labels_None(1) [OF l] by (auto simp: list_all_iff)
  qed simp
  then show p: "list_all plain_char r" by (auto simp: list_all_iff plain_chars)
  show "CHR ''|'' \<notin> set r"
    using name by (auto simp: list_all_iff isRecordLabelChar_def is_lower_def is_digit_def)
  show "\<forall>c \<in> set r. \<not> control c" using p control_graph by (auto simp: list_all_iff plain_char_def)
qed

lemma publishable_accepted:
  assumes "publishable domain r"
  shows "normalize_record domain r = Inr r \<and> record_error [] r = None"
proof -
  have ty: "rp_type r \<in> set dnsZoneRecordTypes" using assms value_type by (auto simp: publishable_def)
  have "dnsZoneNormalizeRecordName (rp_name r) domain = Inr (rp_name r)"
    using assms agent_name_agrees [of _ domain "rp_name r"] apex_normal by (cases "rp_name r = ''@''") (auto simp: publishable_def)
  moreover have "dnsZoneMinTTL \<le> rp_ttl r \<and> rp_ttl r \<le> dnsZoneMaxTTL"
    using assms by (auto simp: publishable_def ValidateRecord_def checks_None minTTL_def maxTTL_def dnsZoneMinTTL_def dnsZoneMaxTTL_def)
  moreover have "dnsZoneValidateRecordValue (rp_type r) (rp_name r) (rp_value r) (rp_priority r) = None"
    using assms agent_value_agrees by (auto simp: publishable_def)
  ultimately show ?thesis
    using ty types_normal by (simp add: normalize_record_def record_error_def checks_None)
qed

lemma sync_reads:
  assumes "dnsZoneValidateZoneHeader z = None" and "\<forall>c \<in> set (zp_domain z). \<not> control c"
    and "\<forall>r \<in> set rs. publishable (zp_domain z) r" and "distinct (map (\<lambda>r. (rp_name r, rp_type r, rp_value r)) rs)"
  shows "map_option read_zone (sync_content z rs) = Some (zp_domain z @ dot, Some (zp_ttl z), map (Some \<circ> says) (sort_records rs))"
proof -
  have "inj_on record_key (set rs)"
  proof (rule inj_onI)
    fix r s assume rs: "r \<in> set rs" "s \<in> set rs" "record_key r = record_key s"
    have "CHR ''|'' \<notin> set (rp_name r) \<union> set (rp_name s)" "rp_type r \<in> set dnsZoneRecordTypes" "rp_type s \<in> set dnsZoneRecordTypes"
      using assms(3) rs stored_name_chars(2) value_type by (auto simp: publishable_def)
    then have "(rp_name r, rp_type r, rp_value r) = (rp_name s, rp_type s, rp_value s)" using record_key_inj rs(3) by simp
    then show "r = s" using assms(4) rs(1,2) by (auto simp: distinct_map dest: inj_onD)
  qed
  then have "distinct (map record_key rs)" using assms(4) by (simp add: distinct_map)
  then have "dnsZoneValidateRecords (zp_domain z) rs = Inr rs"
    unfolding dnsZoneValidateRecords_def using assms(3) publishable_accepted by (intro validate_accepts) auto
  moreover have "map_option read_zone (renderDNSZoneFile z rs) = Some (zp_domain z @ dot, Some (zp_ttl z), map (Some \<circ> says) (sort_records rs))"
    using assms(1-3) stored_name_chars(3) by (intro zone_reads) (auto simp: publishable_def)
  ultimately show ?thesis using assms(1) by (simp add: sync_content_def)
qed

end
