(* ===== verification/DnsStore.thy ===== *)
theory DnsStore
  imports WebsiteLifecycle DnsZoneFile
begin

text \<open>
  DNS zones and records of the control plane: the statements of \<open>dns/store.go\<close> and the handlers
  of \<open>dns/handler.go\<close>. The tables are lists of rows (migration \<open>0024\<close>: unique domains, unique
  \<open>(zone, name, type, value)\<close>, records deleted with their zone, 32-bit priorities). A publish
  enqueues the payload the agent renders (\<open>DnsZoneFile\<close>).
\<close>

section \<open>Rows\<close>

record zone =
  zn_id :: uid
  zn_site :: uid
  zn_org :: uid
  zn_domain :: string
  zn_ttl :: int
  zn_primary :: string
  zn_admin :: string
  zn_refresh :: int
  zn_retry :: int
  zn_expire :: int
  zn_minimum :: int
  zn_serial :: int
  zn_active :: bool
  zn_created :: time
  zn_updated :: time

record rrow =
  rr_id :: uid
  rr_zone :: uid
  rr_name :: string
  rr_type :: string
  rr_value :: string
  rr_ttl :: int
  rr_priority :: int
  rr_created :: time
  rr_updated :: time

record dns_db =
  d_zones :: "zone list"
  d_records :: "rrow list"
  d_next :: uid

datatype dns_err =
    ZoneNotFound | ZoneTaken | ZoneBadDomain | ZoneNotOwner | CNAMEConflict | ZoneTooMany
  | DnsRefused string | DnsSql

section \<open>Zones\<close>

definition new_zone :: "uid \<Rightarrow> time \<Rightarrow> uid \<Rightarrow> uid \<Rightarrow> string \<Rightarrow> int \<Rightarrow> zone" where
  "new_zone i now org site domain ttl =
    \<lparr>zn_id = i, zn_site = site, zn_org = org, zn_domain = domain, zn_ttl = ttl,
     zn_primary = ''ns1.'' @ domain @ dot, zn_admin = ''hostmaster.'' @ domain @ dot,
     zn_refresh = 7200, zn_retry = 1800, zn_expire = 1209600, zn_minimum = 86400, zn_serial = 1,
     zn_active = True, zn_created = now, zn_updated = now\<rparr>"

text \<open>\<open>check\<close> is the injected \<open>DomainChecker\<close>; None is its error.\<close>

definition CreateZoneRow ::
    "(uid \<Rightarrow> string \<Rightarrow> bool option) \<Rightarrow> dns_db \<Rightarrow> time \<Rightarrow> uid \<Rightarrow> uid \<Rightarrow> string \<Rightarrow> int \<Rightarrow> dns_db \<times> (dns_err + zone)" where
  "CreateZoneRow check d now org site domain0 ttl0 =
    (let domain = NormalizeHostname domain0; ttl = (if ttl0 = 0 then 3600 else ttl0) in
     if ValidateZone domain \<noteq> None then (d, Inl ZoneBadDomain)
     else if ttl < minTTL \<or> maxTTL < ttl then (d, Inl (DnsRefused ''ttl must be between 60 and 604800''))
     else case check site domain of
            None \<Rightarrow> (d, Inl DnsSql)
          | Some False \<Rightarrow> (d, Inl ZoneNotOwner)
          | Some True \<Rightarrow>
              if \<not> domain_check domain then (d, Inl DnsSql)
              else if list_ex (\<lambda>z. zn_domain z = domain) (d_zones d) then (d, Inl ZoneTaken)
              else let z = new_zone (d_next d) now org site domain ttl
                   in (d\<lparr>d_zones := d_zones d @ [z], d_next := d_next d + 1\<rparr>, Inr z))"

definition GetZone :: "dns_db \<Rightarrow> uid \<Rightarrow> uid \<Rightarrow> dns_err + zone" where
  "GetZone d org i =
    (case select_one (\<lambda>z. zn_id z = i \<and> zn_org z = org) (d_zones d) of None \<Rightarrow> Inl ZoneNotFound | Some z \<Rightarrow> Inr z)"

definition GetZoneByID :: "dns_db \<Rightarrow> uid \<Rightarrow> dns_err + zone" where
  "GetZoneByID d i = (case by_key zn_id i (d_zones d) of None \<Rightarrow> Inl ZoneNotFound | Some z \<Rightarrow> Inr z)"

definition GetZoneByDomain :: "dns_db \<Rightarrow> string \<Rightarrow> dns_err + zone" where
  "GetZoneByDomain d domain =
    (case select_one (\<lambda>z. zn_domain z = NormalizeHostname domain) (d_zones d) of
       None \<Rightarrow> Inl ZoneNotFound | Some z \<Rightarrow> Inr z)"

definition ListZones :: "dns_db \<Rightarrow> uid \<Rightarrow> uid \<Rightarrow> zone list" where
  "ListZones d org site =
    sort_key zn_created (filter (\<lambda>z. zn_org z = org \<and> zn_site z = site) (d_zones d))"

definition DeleteZoneRow :: "dns_db \<Rightarrow> uid \<Rightarrow> uid \<Rightarrow> dns_db \<times> (dns_err + unit)" where
  "DeleteZoneRow d org i =
    (if rows_affected (\<lambda>z. zn_id z = i \<and> zn_org z = org) (d_zones d) = 0 then (d, Inl ZoneNotFound)
     else (d\<lparr>d_zones := filter (\<lambda>z. \<not> (zn_id z = i \<and> zn_org z = org)) (d_zones d),
             d_records := filter (\<lambda>r. rr_zone r \<noteq> i) (d_records d)\<rparr>, Inr ()))"

text \<open>\<open>EXTRACT(epoch FROM now())::bigint\<close> rounds to the nearest second.\<close>

definition epoch_seconds :: "time \<Rightarrow> int" where
  "epoch_seconds now = (now + second div 2) div second"

definition TouchSerial :: "dns_db \<Rightarrow> time \<Rightarrow> uid \<Rightarrow> dns_db" where
  "TouchSerial d now i =
    d\<lparr>d_zones := update_where (\<lambda>z. zn_id z = i) (\<lambda>z. z\<lparr>zn_serial := epoch_seconds now, zn_updated := now\<rparr>) (d_zones d)\<rparr>"

section \<open>Records\<close>

definition ListRecordsForZone :: "dns_db \<Rightarrow> uid \<Rightarrow> rrow list" where
  "ListRecordsForZone d i = sort_key (\<lambda>r. (rr_name r, rr_type r)) (filter (\<lambda>r. rr_zone r = i) (d_records d))"

definition GetRecord :: "dns_db \<Rightarrow> uid \<Rightarrow> uid \<Rightarrow> dns_err + rrow \<times> zone" where
  "GetRecord d org i =
    (case by_key rr_id i (d_records d) of
       None \<Rightarrow> Inl ZoneNotFound
     | Some r \<Rightarrow> (case GetZoneByID d (rr_zone r) of
                    Inl e \<Rightarrow> Inl e
                  | Inr z \<Rightarrow> if zn_org z = org then Inr (r, z) else Inl ZoneNotFound))"

definition checkCNAMEExclusivity :: "dns_db \<Rightarrow> uid \<Rightarrow> string \<Rightarrow> string \<Rightarrow> uid \<Rightarrow> dns_err option" where
  "checkCNAMEExclusivity d i name typ exclude =
    err_unless (\<not> list_ex (\<lambda>r. rr_zone r = i \<and> rr_name r = name \<and> rr_id r \<noteq> exclude
                              \<and> (typ = ''CNAME'' \<or> rr_type r = ''CNAME'')) (d_records d)) CNAMEConflict"

definition same_row :: "uid \<Rightarrow> string \<Rightarrow> string \<Rightarrow> string \<Rightarrow> rrow \<Rightarrow> bool" where
  "same_row i name typ v r \<longleftrightarrow> rr_zone r = i \<and> rr_name r = name \<and> rr_type r = typ \<and> rr_value r = v"

definition fits_int4 :: "int \<Rightarrow> bool" where
  "fits_int4 n \<longleftrightarrow> - (2 ^ 31) \<le> n \<and> n < 2 ^ 31"

text \<open>\<open>UpsertRecord\<close> is not one transaction: its queries (\<open>upsert_checks\<close>) and its writes
  (\<open>upsert_write\<close>) can be separated by the statements of another request.\<close>

definition upsert_checks ::
    "dns_db \<Rightarrow> zone \<Rightarrow> string \<Rightarrow> string \<Rightarrow> string \<Rightarrow> int \<Rightarrow> int \<Rightarrow> dns_err + string" where
  "upsert_checks d z name typ v ttl priority =
    (if \<not> zn_active z then Inl (DnsRefused ''zone is disabled'')
     else case ValidateRecordName name (zn_domain z) of
       Inl e \<Rightarrow> Inl (DnsRefused e)
     | Inr n \<Rightarrow>
         (case also_err (map_option DnsRefused (ValidateRecord typ n v ttl priority))
               (also_err (checkCNAMEExclusivity d (zn_id z) n typ nil_uid)
                  (err_unless (rows_affected (\<lambda>r. rr_zone r = zn_id z) (d_records d) < MaxRecordsPerZone) ZoneTooMany)) of
            Some e \<Rightarrow> Inl e
          | None \<Rightarrow> Inr n))"

definition upsert_write ::
    "dns_db \<Rightarrow> time \<Rightarrow> uid \<Rightarrow> string \<Rightarrow> string \<Rightarrow> string \<Rightarrow> int \<Rightarrow> int \<Rightarrow> dns_db \<times> (dns_err + rrow)" where
  "upsert_write d now i n typ v ttl priority =
    (if \<not> fits_int4 priority \<or> by_key zn_id i (d_zones d) = None then (d, Inl DnsSql)
     else case select_one (same_row i n typ v) (d_records d) of
       Some r \<Rightarrow>
         (let upd = (\<lambda>r. r\<lparr>rr_ttl := ttl, rr_priority := priority, rr_updated := now\<rparr>) in
          (TouchSerial (d\<lparr>d_records := update_where (same_row i n typ v) upd (d_records d)\<rparr>) now i, Inr (upd r)))
     | None \<Rightarrow>
         (let r = \<lparr>rr_id = d_next d, rr_zone = i, rr_name = n, rr_type = typ, rr_value = v, rr_ttl = ttl,
                   rr_priority = priority, rr_created = now, rr_updated = now\<rparr> in
          (TouchSerial (d\<lparr>d_records := d_records d @ [r], d_next := d_next d + 1\<rparr>) now i, Inr r)))"

definition UpsertRecord ::
    "dns_db \<Rightarrow> time \<Rightarrow> zone \<Rightarrow> string \<Rightarrow> string \<Rightarrow> string \<Rightarrow> int \<Rightarrow> int \<Rightarrow> dns_db \<times> (dns_err + rrow)" where
  "UpsertRecord d now z name typ v ttl priority =
    (case upsert_checks d z name typ v ttl priority of
       Inl e \<Rightarrow> (d, Inl e)
     | Inr n \<Rightarrow> upsert_write d now (zn_id z) n typ v ttl priority)"

definition UpdateRecordRow ::
    "dns_db \<Rightarrow> time \<Rightarrow> rrow \<Rightarrow> string \<Rightarrow> int \<Rightarrow> int \<Rightarrow> dns_db \<times> (dns_err + rrow)" where
  "UpdateRecordRow d now r v ttl priority =
    (case ValidateRecord (rr_type r) (rr_name r) v ttl priority of
       Some e \<Rightarrow> (d, Inl (DnsRefused e))
     | None \<Rightarrow>
         if \<not> fits_int4 priority then (d, Inl DnsSql)
         else case by_key rr_id (rr_id r) (d_records d) of
           None \<Rightarrow> (d, Inl DnsSql)
         | Some old \<Rightarrow>
             if list_ex (\<lambda>s. rr_id s \<noteq> rr_id r \<and> same_row (rr_zone old) (rr_name old) (rr_type old) v s) (d_records d)
             then (d, Inl DnsSql)
             else let upd = (\<lambda>r. r\<lparr>rr_value := v, rr_ttl := ttl, rr_priority := priority, rr_updated := now\<rparr>) in
               (TouchSerial (d\<lparr>d_records := update_where (\<lambda>s. rr_id s = rr_id r) upd (d_records d)\<rparr>) now (rr_zone r),
                Inr (upd old)))"

definition DeleteRecordRow :: "dns_db \<Rightarrow> time \<Rightarrow> uid \<Rightarrow> uid \<Rightarrow> dns_db \<times> (dns_err + unit)" where
  "DeleteRecordRow d now org i =
    (case GetRecord d org i of
       Inl e \<Rightarrow> (d, Inl e)
     | Inr (r, z) \<Rightarrow>
         (TouchSerial (d\<lparr>d_records := filter (\<lambda>s. rr_id s \<noteq> rr_id r) (d_records d)\<rparr>) now (rr_zone r), Inr ()))"

section \<open>Handlers\<close>

definition record_reply :: "dns_err \<Rightarrow> http_err" where
  "record_reply e =
    (case e of CNAMEConflict \<Rightarrow> HttpConflict | ZoneTooMany \<Rightarrow> HttpConflict | ZoneNotFound \<Rightarrow> HttpNotFound
     | _ \<Rightarrow> HttpValidation)"

definition lookup_reply :: "dns_err \<Rightarrow> http_err" where
  "lookup_reply e = (if e = ZoneNotFound then HttpNotFound else HttpInternal)"

definition ShowZone :: "panel \<Rightarrow> dns_db \<Rightarrow> uid \<Rightarrow> uid \<Rightarrow> http_err + zone \<times> rrow list" where
  "ShowZone p d org site =
    (case websiteFromPath p org site of
       Inl e \<Rightarrow> Inl e
     | Inr w \<Rightarrow> (case ListZones d org (site_id w) of
                    [] \<Rightarrow> Inl HttpNotFound
                  | z # _ \<Rightarrow> Inr (z, ListRecordsForZone d (zn_id z))))"

definition CreateZone ::
    "(uid \<Rightarrow> string \<Rightarrow> bool option) option \<Rightarrow> panel \<Rightarrow> dns_db \<Rightarrow> time \<Rightarrow> uid \<Rightarrow> uid \<Rightarrow> (string \<times> int) option
      \<Rightarrow> dns_db \<times> (http_err + zone)" where
  "CreateZone check p d now org site body =
    (case websiteFromPath p org site of
       Inl e \<Rightarrow> (d, Inl e)
     | Inr w \<Rightarrow>
         (case (body, check) of
            (None, _) \<Rightarrow> (d, Inl HttpValidation)
          | (_, None) \<Rightarrow> (d, Inl HttpInternal)
          | (Some (domain, ttl), Some chk) \<Rightarrow>
              (case CreateZoneRow chk d now org (site_id w) domain ttl of
                 (d', Inr z) \<Rightarrow> (d', Inr z)
               | (d', Inl ZoneBadDomain) \<Rightarrow> (d', Inl HttpValidation)
               | (d', Inl ZoneTaken) \<Rightarrow> (d', Inl HttpConflict)
               | (d', Inl ZoneNotOwner) \<Rightarrow> (d', Inl HttpValidation)
               | (d', Inl _) \<Rightarrow> (d', Inl HttpInternal))))"

definition DeleteZone :: "dns_db \<Rightarrow> uid \<Rightarrow> uid \<Rightarrow> dns_db \<times> (http_err + unit)" where
  "DeleteZone d org i =
    (case GetZone d org i of
       Inl e \<Rightarrow> (d, Inl (lookup_reply e))
     | Inr z \<Rightarrow> (case DeleteZoneRow d org i of (d', Inl _) \<Rightarrow> (d', Inl HttpInternal) | (d', Inr _) \<Rightarrow> (d', Inr ())))"

definition CreateRecord ::
    "dns_db \<Rightarrow> time \<Rightarrow> uid \<Rightarrow> uid \<Rightarrow> (string \<times> string \<times> string \<times> int \<times> int) option \<Rightarrow> dns_db \<times> (http_err + rrow)" where
  "CreateRecord d now org i body =
    (case GetZone d org i of
       Inl e \<Rightarrow> (d, Inl (lookup_reply e))
     | Inr z \<Rightarrow>
         (case body of
            None \<Rightarrow> (d, Inl HttpValidation)
          | Some (name, typ, v, ttl, priority) \<Rightarrow>
              (case UpsertRecord d now z name (ToUpper (trim_space typ)) v (if ttl = 0 then 3600 else ttl) priority of
                 (d', Inl e) \<Rightarrow> (d', Inl (record_reply e))
               | (d', Inr r) \<Rightarrow> (d', Inr r))))"

definition UpdateRecord ::
    "dns_db \<Rightarrow> time \<Rightarrow> uid \<Rightarrow> uid \<Rightarrow> (string \<times> int \<times> int) option \<Rightarrow> dns_db \<times> (http_err + rrow)" where
  "UpdateRecord d now org i body =
    (case GetRecord d org i of
       Inl e \<Rightarrow> (d, Inl (lookup_reply e))
     | Inr (r, z) \<Rightarrow>
         (case body of
            None \<Rightarrow> (d, Inl HttpValidation)
          | Some (v, ttl, priority) \<Rightarrow>
              (case UpdateRecordRow d now r v ttl priority of
                 (d', Inl e) \<Rightarrow> (d', Inl (record_reply e))
               | (d', Inr s) \<Rightarrow> (d', Inr s))))"

definition DeleteRecord :: "dns_db \<Rightarrow> time \<Rightarrow> uid \<Rightarrow> uid \<Rightarrow> dns_db \<times> (http_err + unit)" where
  "DeleteRecord d now org i =
    (case DeleteRecordRow d now org i of
       (d', Inl e) \<Rightarrow> (d', Inl (lookup_reply e))
     | (d', Inr _) \<Rightarrow> (d', Inr ()))"

text \<open>The payload of a publish: the zone header and all records. \<open>encode\<close> is \<open>json.Marshal\<close> of
  it, \<open>us\<close> the text of a UUID.\<close>

definition zone_file :: "zone \<Rightarrow> zone_payload" where
  "zone_file z =
    \<lparr>zp_domain = zn_domain z, zp_ttl = zn_ttl z, zp_primary = zn_primary z, zp_admin = zn_admin z,
     zp_refresh = zn_refresh z, zp_retry = zn_retry z, zp_expire = zn_expire z, zp_minimum = zn_minimum z,
     zp_serial = zn_serial z\<rparr>"

definition record_file :: "rrow \<Rightarrow> record_payload" where
  "record_file r =
    \<lparr>rp_name = rr_name r, rp_type = rr_type r, rp_value = rr_value r, rp_ttl = rr_ttl r, rp_priority = rr_priority r\<rparr>"

definition PublishZone ::
    "(uid \<Rightarrow> string) \<Rightarrow> (uid \<times> zone_payload \<times> record_payload list \<Rightarrow> string option) \<Rightarrow> panel \<Rightarrow> dns_db \<Rightarrow> time \<Rightarrow> uid \<Rightarrow> uid
      \<Rightarrow> panel \<times> (http_err + uid)" where
  "PublishZone us encode p d now org i =
    (case GetZone d org i of
       Inl e \<Rightarrow> (p, Inl (lookup_reply e))
     | Inr z \<Rightarrow>
         (case GetByIDAny (p_sites p) (zn_site z) of
            Inl _ \<Rightarrow> (p, Inl HttpInternal)
          | Inr w \<Rightarrow>
              job_reply (enqueue p now (site_server w) (Some (zn_site z)) TypeSyncDNSZone
                (encode (zn_site z, zone_file z, map record_file (ListRecordsForZone d (zn_id z))))
                (''dnszone_'' @ us (zn_id z) @ ''_'' @ int_str (zn_serial z)))))"

section \<open>What the tables hold\<close>

definition zone_ok :: "zone \<Rightarrow> bool" where
  "zone_ok z \<longleftrightarrow> domain_check (zn_domain z) \<and> is_host (zn_domain z) \<and> minTTL \<le> zn_ttl z \<and> zn_ttl z \<le> maxTTL
    \<and> zn_primary z = ''ns1.'' @ zn_domain z @ dot \<and> zn_admin z = ''hostmaster.'' @ zn_domain z @ dot
    \<and> 0 < zn_refresh z \<and> 0 < zn_retry z \<and> 0 < zn_expire z \<and> 0 < zn_minimum z \<and> 0 \<le> zn_serial z"

definition zone_names :: "zone list \<Rightarrow> (uid \<times> string) list" where
  "zone_names zs = map (\<lambda>z. (zn_id z, zn_domain z)) zs"

definition record_ok :: "(uid \<times> string) list \<Rightarrow> rrow \<Rightarrow> bool" where
  "record_ok names r \<longleftrightarrow>
    (\<exists>domain nm. (rr_zone r, domain) \<in> set names \<and> ValidateRecordName nm domain = Inr (rr_name r))
    \<and> ValidateRecord (rr_type r) (rr_name r) (rr_value r) (rr_ttl r) (rr_priority r) = None"

definition row_key :: "rrow \<Rightarrow> uid \<times> string \<times> string \<times> string" where
  "row_key r = (rr_zone r, rr_name r, rr_type r, rr_value r)"

definition shape :: "rrow \<Rightarrow> uid \<times> uid \<times> string \<times> string" where
  "shape r = (rr_id r, rr_zone r, rr_name r, rr_type r)"

text \<open>A CNAME stands alone at its name.\<close>

definition cname_alone :: "(uid \<times> uid \<times> string \<times> string) set \<Rightarrow> bool" where
  "cname_alone S \<longleftrightarrow>
    (\<forall>i zn nm j ty. (i, zn, nm, ''CNAME'') \<in> S \<longrightarrow> (j, zn, nm, ty) \<in> S \<longrightarrow> i = j)"

lemma cname_alone_subset: "cname_alone S \<Longrightarrow> T \<subseteq> S \<Longrightarrow> cname_alone T"
  unfolding cname_alone_def by blast

lemma cname_alone_insert:
  assumes "cname_alone S" and "\<forall>i ty'. (i, zn, nm, ty') \<in> S \<longrightarrow> ty' \<noteq> ''CNAME'' \<and> ty \<noteq> ''CNAME''"
  shows "cname_alone (insert (k, zn, nm, ty) S)"
  unfolding cname_alone_def
proof (intro allI impI)
  fix i z' n' j t assume "(i, z', n', ''CNAME'') \<in> insert (k, zn, nm, ty) S" "(j, z', n', t) \<in> insert (k, zn, nm, ty) S"
  then show "i = j" using assms unfolding cname_alone_def by blast
qed

definition zones_ok :: "zone list \<Rightarrow> uid \<Rightarrow> bool" where
  "zones_ok zs n \<longleftrightarrow> distinct (map zn_id zs) \<and> distinct (map zn_domain zs) \<and> (\<forall>z \<in> set zs. zone_ok z \<and> zn_id z < n)"

definition records_ok :: "(uid \<times> string) list \<Rightarrow> rrow list \<Rightarrow> uid \<Rightarrow> bool" where
  "records_ok names rs n \<longleftrightarrow> distinct (map rr_id rs) \<and> distinct (map row_key rs)
    \<and> (\<forall>r \<in> set rs. record_ok names r \<and> rr_id r \<noteq> nil_uid \<and> rr_id r < n)
    \<and> cname_alone (set (map shape rs)) \<and> (\<forall>i. rows_affected (\<lambda>r. rr_zone r = i) rs \<le> MaxRecordsPerZone)"

definition dns_ok :: "dns_db \<Rightarrow> bool" where
  "dns_ok d \<longleftrightarrow> zones_ok (d_zones d) (d_next d) \<and> records_ok (zone_names (d_zones d)) (d_records d) (d_next d)
    \<and> d_next d \<noteq> nil_uid"

section \<open>The operations keep it\<close>

lemma touch_names [simp]: "zone_names (update_where P (\<lambda>z. z\<lparr>zn_serial := s, zn_updated := t\<rparr>) zs) = zone_names zs"
  unfolding zone_names_def by (rule map_update_where_same) simp

lemma touch_zones:
  assumes "zones_ok zs n" and "0 \<le> s"
  shows "zones_ok (update_where P (\<lambda>z. z\<lparr>zn_serial := s, zn_updated := t\<rparr>) zs) n"
proof -
  let ?f = "\<lambda>z. z\<lparr>zn_serial := s, zn_updated := t\<rparr>"
  have "map zn_id (update_where P ?f zs) = map zn_id zs" "map zn_domain (update_where P ?f zs) = map zn_domain zs"
    by (rule map_update_where_same, simp)+
  then show ?thesis using assms by (auto simp: zones_ok_def set_update_where zone_ok_def)
qed

lemma epoch_nonneg: "0 \<le> now \<Longrightarrow> 0 \<le> epoch_seconds now"
  by (simp add: epoch_seconds_def second_def)

lemma touch_ok: "dns_ok d \<Longrightarrow> 0 \<le> now \<Longrightarrow> dns_ok (TouchSerial d now i)"
  by (simp add: dns_ok_def TouchSerial_def touch_zones epoch_nonneg)

lemma rows_affected_update_where: "(\<And>r. P (f r) = P r) \<Longrightarrow> rows_affected P (update_where Q f rs) = rows_affected P rs"
  by (induction rs) auto

lemma rows_affected_filter: "rows_affected P (filter Q rs) \<le> rows_affected P rs"
  by (induction rs) auto

text \<open>Rows are removed, changed in place or added.\<close>

lemma records_filter:
  assumes "records_ok names rs n"
  shows "records_ok names (filter P rs) n"
proof -
  have "rows_affected (\<lambda>r. rr_zone r = i) (filter P rs) \<le> MaxRecordsPerZone" for i
    using assms by (intro order_trans [OF rows_affected_filter]) (simp add: records_ok_def)
  moreover have "cname_alone (set (map shape (filter P rs)))"
    using assms by (auto simp: records_ok_def elim: cname_alone_subset)
  ultimately show ?thesis using assms by (simp add: records_ok_def distinct_map_filter)
qed

lemma records_update:
  assumes "records_ok names rs n" and "\<And>r. shape (f r) = shape r" and "\<And>r. row_key (f r) = row_key r \<or> distinct (map row_key (update_where P f rs))"
    and "\<And>r. r \<in> set rs \<Longrightarrow> P r \<Longrightarrow> record_ok names (f r)"
  shows "records_ok names (update_where P f rs) n"
proof -
  have i: "rr_id (f r) = rr_id r" "rr_zone (f r) = rr_zone r" for r using assms(2) [of r] by (simp_all add: shape_def)
  have "map rr_id (update_where P f rs) = map rr_id rs" "map shape (update_where P f rs) = map shape rs"
    by (rule map_update_where_same, simp add: i assms(2))+
  moreover have "distinct (map row_key (update_where P f rs))"
  proof (cases "\<forall>r. row_key (f r) = row_key r")
    case True
    then have "map row_key (update_where P f rs) = map row_key rs" by (intro map_update_where_same) simp
    then show ?thesis using assms(1) by (simp add: records_ok_def)
  qed (use assms(3) in blast)
  ultimately show ?thesis
    using assms(1,4) i by (auto simp: records_ok_def set_update_where rows_affected_update_where)
qed

lemma records_add:
  assumes "records_ok names rs n" and "record_ok names r" and "rr_id r = n" and "n \<noteq> nil_uid"
    and "row_key r \<notin> row_key ` set rs" and "rows_affected (\<lambda>s. rr_zone s = rr_zone r) rs < MaxRecordsPerZone"
    and "\<forall>s \<in> set rs. rr_zone s = rr_zone r \<and> rr_name s = rr_name r \<longrightarrow> rr_type s \<noteq> ''CNAME'' \<and> rr_type r \<noteq> ''CNAME''"
  shows "records_ok names (rs @ [r]) (n + 1)"
proof -
  have "rows_affected P (rs @ [r]) = rows_affected P rs + (if P r then 1 else 0)" for P
    by (induction rs) auto
  moreover have "rr_id s \<noteq> n" if "s \<in> set rs" for s using assms(1) that by (auto simp: records_ok_def)
  moreover have "cname_alone (insert (shape r) (set (map shape rs)))"
    unfolding shape_def [of r] using assms(1,7) by (intro cname_alone_insert) (auto simp: records_ok_def shape_def)
  ultimately show ?thesis
    using assms(1-6) by (auto simp: records_ok_def less_Suc_eq)
qed


lemma records_zones:
  "records_ok names rs n \<Longrightarrow> n \<le> n' \<Longrightarrow> set names \<subseteq> set names' \<Longrightarrow> records_ok names' rs n'"
  by (fastforce simp: records_ok_def record_ok_def)

text \<open>A domain that passes the CHECK is in normal form.\<close>

lemma domain_check_plain:
  assumes "domain_check s"
  shows "list_all plain_char s" and "s \<noteq> []" and "last s \<noteq> CHR ''.''" and "NormalizeHostname s = s"
    and "\<forall>c \<in> set s. \<not> control c"
proof -
  have l: "\<forall>l \<in> set (split_on CHR ''.'' s). l \<noteq> [] \<and> list_all host_char l"
    using assms by (simp add: domain_check_def Let_def list_all_iff)
  show p: "list_all plain_char s"
    using labels_chars(1) [OF l] by (auto simp: list_all_iff plain_chars)
  show e: "s \<noteq> []" "last s \<noteq> CHR ''.''" using labels_chars(2,3) [OF l] .
  show "NormalizeHostname s = s" using normalize_plain [OF p e(2)] by (simp add: NormalizeHostname_def)
  show "\<forall>c \<in> set s. \<not> control c" using p control_graph by (auto simp: list_all_iff plain_char_def)
qed

lemma create_zone_ok:
  assumes "dns_ok d"
  shows "dns_ok (fst (CreateZoneRow check d now org site domain ttl))"
proof (cases "CreateZoneRow check d now org site domain ttl")
  case (Pair d' r)
  let ?dom = "NormalizeHostname domain" and ?ttl = "if ttl = 0 then 3600 else ttl"
  let ?z = "new_zone (d_next d) now org site ?dom ?ttl"
  show ?thesis
  proof (cases "d' = d")
    case False
    then have c: "d' = d\<lparr>d_zones := d_zones d @ [?z], d_next := d_next d + 1\<rparr>" "ValidateZone ?dom = None"
        "minTTL \<le> ?ttl" "?ttl \<le> maxTTL" "domain_check ?dom" "\<forall>z \<in> set (d_zones d). zn_domain z \<noteq> ?dom"
      using Pair by (auto simp: CreateZoneRow_def Let_def list_ex_iff split: if_splits option.splits bool.splits)
    have "zone_ok ?z" using c(2-5) by (simp add: zone_ok_def new_zone_def ValidateZone_def is_host_def)
    then have "zones_ok (d_zones d @ [?z]) (d_next d + 1)"
      using assms c(6) by (fastforce simp: dns_ok_def zones_ok_def new_zone_def less_Suc_eq)
    moreover have "records_ok (zone_names (d_zones d @ [?z])) (d_records d) (d_next d + 1)"
      using assms by (auto simp: dns_ok_def zone_names_def intro: records_zones)
    ultimately show ?thesis using Pair c(1) assms by (simp add: dns_ok_def)
  qed (use assms Pair in simp)
qed

lemma delete_zone_ok:
  assumes "dns_ok d"
  shows "dns_ok (fst (DeleteZoneRow d org i))"
proof -
  let ?P = "\<lambda>z. zn_id z = i \<and> zn_org z = org"
  show ?thesis
  proof (cases "rows_affected ?P (d_zones d) = 0")
    case False
    have z: "zones_ok (filter (\<lambda>z. \<not> ?P z) (d_zones d)) (d_next d)"
      using assms by (auto simp: dns_ok_def zones_ok_def distinct_map_filter)
    have "records_ok (zone_names (filter (\<lambda>z. \<not> ?P z) (d_zones d))) (filter (\<lambda>r. rr_zone r \<noteq> i) (d_records d)) (d_next d)"
    proof -
      have "records_ok (zone_names (d_zones d)) (filter (\<lambda>r. rr_zone r \<noteq> i) (d_records d)) (d_next d)"
        using assms records_filter by (simp add: dns_ok_def)
      moreover have "record_ok (zone_names (filter (\<lambda>z. \<not> ?P z) (d_zones d))) r"
        if "record_ok (zone_names (d_zones d)) r" "rr_zone r \<noteq> i" for r
        using that by (fastforce simp: record_ok_def zone_names_def)
      ultimately show ?thesis by (simp add: records_ok_def)
    qed
    then show ?thesis using z assms False by (simp add: DeleteZoneRow_def dns_ok_def)
  qed (use assms in \<open>simp add: DeleteZoneRow_def\<close>)
qed


lemma touch_records:
  assumes "zones_ok (d_zones d) n" and "records_ok (zone_names (d_zones d)) rs n" and "n \<noteq> nil_uid" and "0 \<le> now"
  shows "dns_ok (TouchSerial (d\<lparr>d_records := rs, d_next := n\<rparr>) now i)"
  using assms by (intro touch_ok) (simp_all add: dns_ok_def)

lemma upsert_write_cases:
  obtains (fails) "fst (upsert_write d now i n ty v ttl priority) = d"
    | (updates) "fst (upsert_write d now i n ty v ttl priority) =
        TouchSerial (d\<lparr>d_records := update_where (same_row i n ty v)
           (\<lambda>r. r\<lparr>rr_ttl := ttl, rr_priority := priority, rr_updated := now\<rparr>) (d_records d)\<rparr>) now i"
    | (adds) r where "fst (upsert_write d now i n ty v ttl priority) =
        TouchSerial (d\<lparr>d_records := d_records d @ [r], d_next := d_next d + 1\<rparr>) now i"
        "r = \<lparr>rr_id = d_next d, rr_zone = i, rr_name = n, rr_type = ty, rr_value = v, rr_ttl = ttl,
              rr_priority = priority, rr_created = now, rr_updated = now\<rparr>"
        "\<forall>s \<in> set (d_records d). \<not> same_row i n ty v s"
proof (cases "\<not> fits_int4 priority \<or> by_key zn_id i (d_zones d) = None")
  case True
  then show ?thesis by (intro fails) (simp add: upsert_write_def)
next
  case False
  show ?thesis
  proof (cases "find (same_row i n ty v) (d_records d)")
    case None
    then have "\<forall>s \<in> set (d_records d). \<not> same_row i n ty v s" by (auto simp: find_None_iff)
    then show ?thesis using False None by (intro adds [OF _ refl]) (auto simp: upsert_write_def select_one_def Let_def)
  next
    case (Some r)
    then show ?thesis using False by (intro updates) (auto simp: upsert_write_def select_one_def Let_def)
  qed
qed

lemma upsert_ok:
  assumes ok: "dns_ok d" and z: "z \<in> set (d_zones d)" and now: "0 \<le> now"
  shows "dns_ok (fst (UpsertRecord d now z name ty v ttl priority))"
proof (cases "upsert_checks d z name ty v ttl priority")
  case (Inl e)
  then show ?thesis using ok by (simp add: UpsertRecord_def)
next
  case (Inr n)
  let ?i = "zn_id z"
  have checks: "ValidateRecordName name (zn_domain z) = Inr n" "ValidateRecord ty n v ttl priority = None"
      "checkCNAMEExclusivity d ?i n ty nil_uid = None"
      "rows_affected (\<lambda>r. rr_zone r = ?i) (d_records d) < MaxRecordsPerZone"
    using Inr by (auto simp: upsert_checks_def checks_None split: if_splits sum.splits option.splits)
  have d: "zones_ok (d_zones d) (d_next d)" "records_ok (zone_names (d_zones d)) (d_records d) (d_next d)"
      "d_next d \<noteq> nil_uid" using ok by (simp_all add: dns_ok_def)
  have pos: "\<forall>s \<in> set (d_records d). rr_id s \<noteq> nil_uid" using d(2) by (auto simp: records_ok_def)
  have rec: "record_ok (zone_names (d_zones d)) r"
    if "rr_zone r = ?i" "rr_name r = n" "rr_type r = ty" "rr_value r = v" "rr_ttl r = ttl" "rr_priority r = priority" for r
    using that checks(1,2) z by (auto simp: record_ok_def zone_names_def)
  have "dns_ok (fst (upsert_write d now ?i n ty v ttl priority))"
  proof (cases rule: upsert_write_cases [of d now ?i n ty v ttl priority])
    case updates
    have "records_ok (zone_names (d_zones d)) (update_where (same_row ?i n ty v)
        (\<lambda>r. r\<lparr>rr_ttl := ttl, rr_priority := priority, rr_updated := now\<rparr>) (d_records d)) (d_next d)"
      using d(2) by (rule records_update) (auto simp: shape_def row_key_def same_row_def intro!: rec)
    then show ?thesis using updates touch_records [OF d(1) _ d(3) now] by simp
  next
    case (adds r)
    have "records_ok (zone_names (d_zones d)) (d_records d @ [r]) (d_next d + 1)"
    proof (rule records_add [OF d(2)])
      show "row_key r \<notin> row_key ` set (d_records d)"
        using adds(2,3) by (auto simp: row_key_def same_row_def)
      show "\<forall>s \<in> set (d_records d). rr_zone s = rr_zone r \<and> rr_name s = rr_name r \<longrightarrow> rr_type s \<noteq> ''CNAME'' \<and> rr_type r \<noteq> ''CNAME''"
        using checks(3) adds(2) pos by (auto simp: checkCNAMEExclusivity_def checks_None list_ex_iff)
    qed (use adds(2) rec checks(4) d(3) in simp_all)
    moreover have "zones_ok (d_zones d) (d_next d + 1)" using d(1) by (auto simp: zones_ok_def)
    ultimately show ?thesis using adds(1) touch_records [of d "d_next d + 1"] now by simp
  qed (use ok in simp)
  then show ?thesis using Inr by (simp add: UpsertRecord_def)
qed

lemma update_record_ok:
  assumes ok: "dns_ok d" and r: "by_key rr_id (rr_id r) (d_records d) = Some r" and now: "0 \<le> now"
  shows "dns_ok (fst (UpdateRecordRow d now r v ttl priority))"
proof (cases "fst (UpdateRecordRow d now r v ttl priority) = d")
  case False
  let ?f = "\<lambda>r. r\<lparr>rr_value := v, rr_ttl := ttl, rr_priority := priority, rr_updated := now\<rparr>"
  let ?P = "\<lambda>s. rr_id s = rr_id r"
  have d: "zones_ok (d_zones d) (d_next d)" "records_ok (zone_names (d_zones d)) (d_records d) (d_next d)"
      "d_next d \<noteq> nil_uid" using ok by (simp_all add: dns_ok_def)
  have u: "ValidateRecord (rr_type r) (rr_name r) v ttl priority = None"
      "\<forall>s \<in> set (d_records d). rr_id s \<noteq> rr_id r \<longrightarrow> \<not> same_row (rr_zone r) (rr_name r) (rr_type r) v s"
      "fst (UpdateRecordRow d now r v ttl priority) = TouchSerial (d\<lparr>d_records := update_where ?P ?f (d_records d)\<rparr>) now (rr_zone r)"
    using False r by (auto simp: UpdateRecordRow_def Let_def list_ex_iff split: option.splits if_splits)
  have only: "s = r" if "s \<in> set (d_records d)" "rr_id s = rr_id r" for s
    using d(2) that by_key_Some [OF r] by (auto simp: records_ok_def distinct_map dest: inj_onD)
  have keys: "distinct (map row_key (update_where ?P ?f (d_records d)))"
  proof -
    have "inj_on row_key (set (update_where ?P ?f (d_records d)))"
    proof (rule inj_onI)
      fix x y assume xy: "x \<in> set (update_where ?P ?f (d_records d))" "y \<in> set (update_where ?P ?f (d_records d))" "row_key x = row_key y"
      have clash: "a = b" if "a \<in> set (d_records d)" "b \<in> set (d_records d)" "rr_id a \<noteq> rr_id r" "rr_id b \<noteq> rr_id r" "row_key a = row_key b" for a b
        using that d(2) by (auto simp: records_ok_def distinct_map dest: inj_onD)
      obtain a b where ab: "a \<in> set (d_records d)" "b \<in> set (d_records d)"
          "x = (if ?P a then ?f a else a)" "y = (if ?P b then ?f b else b)"
        using xy(1,2) by (auto simp: set_update_where)
      have moved: "row_key (?f r) \<noteq> row_key c" if "c \<in> set (d_records d)" "\<not> ?P c" for c
        using u(2) that by (auto simp: row_key_def same_row_def)
      show "x = y"
      proof (cases "?P a"; cases "?P b")
        assume "?P a" "?P b"
        then show ?thesis using ab only by metis
      next
        assume "?P a" "\<not> ?P b"
        then show ?thesis using ab xy(3) only [of a] moved [of b] by simp
      next
        assume "\<not> ?P a" "?P b"
        then show ?thesis using ab xy(3) only [of b] moved [of a] by simp
      next
        assume "\<not> ?P a" "\<not> ?P b"
        then show ?thesis using ab xy(3) clash [of a b] by simp
      qed
    qed
    moreover have "distinct (update_where ?P ?f (d_records d))"
    proof -
      have "map rr_id (update_where ?P ?f (d_records d)) = map rr_id (d_records d)" by (rule map_update_where_same) simp
      then have "distinct (map rr_id (update_where ?P ?f (d_records d)))" using d(2) by (simp add: records_ok_def)
      then show ?thesis by (simp add: distinct_map)
    qed
    ultimately show ?thesis by (simp add: distinct_map)
  qed
  have "records_ok (zone_names (d_zones d)) (update_where ?P ?f (d_records d)) (d_next d)"
  proof (rule records_update [OF d(2)])
    show "record_ok (zone_names (d_zones d)) (?f s)" if "s \<in> set (d_records d)" "rr_id s = rr_id r" for s
      using only [OF that] u(1) d(2) that(1) by (auto simp: records_ok_def record_ok_def)
  qed (use keys in \<open>auto simp: shape_def\<close>)
  then show ?thesis using u(3) touch_records [OF d(1) _ d(3) now] by simp
qed (use ok in simp)

lemma delete_record_ok:
  assumes "dns_ok d" and "0 \<le> now"
  shows "dns_ok (fst (DeleteRecordRow d now org i))"
proof (cases "GetRecord d org i")
  case (Inr rz)
  obtain r z where rz: "rz = (r, z)" by fastforce
  have d: "zones_ok (d_zones d) (d_next d)" "records_ok (zone_names (d_zones d)) (d_records d) (d_next d)"
      "d_next d \<noteq> nil_uid" using assms(1) by (simp_all add: dns_ok_def)
  then show ?thesis
    using Inr rz touch_records [OF d(1) records_filter [OF d(2)] d(3) assms(2)] by (simp add: DeleteRecordRow_def)
qed (use assms in \<open>simp add: DeleteRecordRow_def\<close>)

lemma GetZone_Inr: "GetZone d org i = Inr z \<Longrightarrow> z \<in> set (d_zones d) \<and> zn_id z = i \<and> zn_org z = org"
  by (auto simp: GetZone_def select_one_def find_Some_iff split: option.splits)

lemma GetRecord_Inr: "GetRecord d org i = Inr (r, z) \<Longrightarrow> by_key rr_id (rr_id r) (d_records d) = Some r"
  using by_key_Some [of rr_id i "d_records d"] by (auto simp: GetRecord_def split: option.splits sum.splits if_splits)

text \<open>The requests of the customers: each is one step of the tables.\<close>

inductive dns_step :: "dns_db \<Rightarrow> dns_db \<Rightarrow> bool" where
  created: "dns_step d (fst (CreateZone check p d now org site body))"
| dropped: "dns_step d (fst (DeleteZone d org i))"
| recorded: "0 \<le> now \<Longrightarrow> dns_step d (fst (CreateRecord d now org i body_record))"
| changed: "0 \<le> now \<Longrightarrow> dns_step d (fst (UpdateRecord d now org i body_value))"
| removed: "0 \<le> now \<Longrightarrow> dns_step d (fst (DeleteRecord d now org i))"

definition empty_dns :: dns_db where
  "empty_dns = \<lparr>d_zones = [], d_records = [], d_next = 1\<rparr>"

lemma dns_step_ok: "dns_step d d' \<Longrightarrow> dns_ok d \<Longrightarrow> dns_ok d'"
proof (induction rule: dns_step.induct)
  case (created d check p now org site body)
  then have "dns_ok (fst (CreateZoneRow chk d now org i domain ttl))" for chk i domain ttl by (rule create_zone_ok)
  then show ?case using created
    by (auto simp: CreateZone_def split: sum.splits option.splits prod.splits dns_err.splits) (metis fst_conv)+
next
  case (dropped d org i)
  then show ?case using delete_zone_ok [of d org i]
    by (auto simp: DeleteZone_def split: sum.splits prod.splits)
next
  case (recorded now d org i body_record)
  then show ?case using upsert_ok [OF recorded(2) _ recorded(1)]
    by (auto simp: CreateRecord_def dest: GetZone_Inr split: sum.splits option.splits prod.splits) (metis GetZone_Inr fst_conv)+
next
  case (changed now d org i body_value)
  then show ?case using update_record_ok [OF changed(2) _ changed(1)]
    by (auto simp: UpdateRecord_def split: sum.splits option.splits prod.splits) (metis GetRecord_Inr fst_conv)+
next
  case (removed now d org i)
  then show ?case using delete_record_ok [OF removed(2,1), of org i]
    by (auto simp: DeleteRecord_def split: sum.splits prod.splits)
qed

lemma empty_dns_ok: "dns_ok empty_dns"
  by (simp add: empty_dns_def dns_ok_def zones_ok_def records_ok_def zone_names_def cname_alone_def)

lemma dns_reachable: "dns_step\<^sup>*\<^sup>* empty_dns d \<Longrightarrow> dns_ok d"
  by (induction rule: rtranclp_induct) (auto intro: empty_dns_ok dns_step_ok)

text \<open>C19: The DNS tables stay sound under any sequence of requests: every stored zone and record is
  one the validation accepts, zone domains and \<open>(zone, name, type, value)\<close> are unique, a CNAME
  stands alone at its name and no zone has more than a hundred records.\<close>

theorem dns_tables_sound: "dns_step\<^sup>*\<^sup>* empty_dns d \<Longrightarrow> dns_ok d"
  by (rule dns_reachable)

definition sample_created :: dns_db where
  "sample_created = fst (CreateZone (Some (\<lambda>_ _. Some True)) (sample_panel SiteReady) empty_dns 0 3 1 (Some (''epic.io'', 0)))"

definition sample_dns :: dns_db where
  "sample_dns = fst (CreateRecord (fst (CreateRecord sample_created 0 3 1 (Some (''www.epic.io'', ''a'', ''192.0.2.1'', 0, 0))))
     0 3 1 (Some (''@'', ''TXT'', ''v=spf1 -all'', 300, 0)))"

lemma sample_dns_reached: "dns_step\<^sup>*\<^sup>* empty_dns sample_dns"
proof -
  let ?d = "fst (CreateRecord sample_created 0 3 1 (Some (''www.epic.io'', ''a'', ''192.0.2.1'', 0, 0)))"
  have c: "dns_step empty_dns sample_created" unfolding sample_created_def by (rule dns_step.created)
  have a: "dns_step sample_created ?d" by (rule dns_step.recorded) simp
  have b: "dns_step ?d sample_dns" unfolding sample_dns_def by (rule dns_step.recorded) simp
  show ?thesis using converse_rtranclp_into_rtranclp [of dns_step, OF c] converse_rtranclp_into_rtranclp [of dns_step, OF a r_into_rtranclp [of dns_step, OF b]] .
qed

lemma dns_tables_sound_witness: "dns_ok sample_dns \<and> map rr_name (d_records sample_dns) = [''www'', ''@'']"
proof
  show "dns_ok sample_dns" using sample_dns_reached by (rule dns_tables_sound)
  show "map rr_name (d_records sample_dns) = [''www'', ''@'']" by code_simp
qed

section \<open>Publishing\<close>

lemma host_labels:
  assumes "domain_check s" and "is_host s" and "agent_label l" and "list_all plain_char l" and "CHR ''.'' \<notin> set l"
    and "length l + 1 + length s \<le> 253"
  shows "dnsZoneValidHostname (l @ CHR ''.'' # s @ dot) False"
proof -
  note s = domain_check_plain [OF assms(1)]
  have p: "list_all plain_char (l @ CHR ''.'' # s @ dot)" using assms(4) s(1) by (simp add: plain_chars dot_def)
  have "trim_suffix ((l @ CHR ''.'' # s) @ dot) dot = l @ CHR ''.'' # s" by (rule trim_suffix_append)
  then have h: "trim_suffix (ToLower (trim_space (l @ CHR ''.'' # s @ dot))) dot = l @ CHR ''.'' # s"
    using p by (simp add: trim_space_plain ToLower_plain)
  have "split_on CHR ''.'' (l @ CHR ''.'' # s) = l # split_on CHR ''.'' s"
    using assms(5) by (induction l) auto
  moreover have "list_all agent_label (split_on CHR ''.'' s)"
    using assms(2) s(4) by (simp add: is_host_def ValidateHostname_None agent_label_host list_all_iff)
  ultimately show ?thesis using assms(3,6) unfolding dnsZoneValidHostname_def h Let_def by simp
qed

lemma header_accepted:
  assumes "zone_ok z" and "length (zn_domain z) \<le> 242"
  shows "dnsZoneValidateZoneHeader (zone_file z) = None"
proof -
  have z: "domain_check (zn_domain z)" "is_host (zn_domain z)" using assms(1) by (simp_all add: zone_ok_def)
  have "agent_label ''ns1''" "agent_label ''hostmaster''" "list_all plain_char ''ns1''" "list_all plain_char ''hostmaster''"
    by code_simp+
  then have "dnsZoneValidHostname (''ns1'' @ CHR ''.'' # zn_domain z @ dot) False"
      "dnsZoneValidHostname (''hostmaster'' @ CHR ''.'' # zn_domain z @ dot) False"
    using assms(2) by (intro host_labels [OF z]; simp)+
  then show ?thesis
    using assms(1) valid_hostname_iff
    by (simp add: dnsZoneValidateZoneHeader_def zone_file_def checks_None err_unless_def zone_ok_def minTTL_def maxTTL_def
        dnsZoneMinTTL_def dnsZoneMaxTTL_def)
qed

lemma stored_publishable:
  assumes "dns_ok d" and "z \<in> set (d_zones d)" and "r \<in> set (d_records d)" and "rr_zone r = zn_id z"
    and "agent_takes (rr_type r) (rr_value r) (rr_priority r)"
    and "rr_name r = ''@'' \<or> settled_name [''test''] (zn_domain z) (rr_name r)"
  shows "publishable (zn_domain z) (record_file r)"
proof -
  have r: "record_ok (zone_names (d_zones d)) r" "distinct (map zn_id (d_zones d))"
    using assms(1,3) by (auto simp: dns_ok_def records_ok_def zones_ok_def)
  then obtain y nm where y: "y \<in> set (d_zones d)" "zn_id y = rr_zone r" "ValidateRecordName nm (zn_domain y) = Inr (rr_name r)"
    by (auto simp: record_ok_def zone_names_def)
  have "y = z" using r(2) y(1,2) assms(2,4) by (auto simp: distinct_map dest: inj_onD)
  then show ?thesis using y(3) r(1) assms(5,6) by (auto simp: publishable_def record_file_def record_ok_def)
qed



text \<open>Requests that overlap defeat the CNAME rule: when the queries of two upserts at the same
  new name, one of them a CNAME, both run before either writes, both pass, and afterwards the
  tables hold a CNAME next to another record.\<close>

theorem racing_upserts_break_cname:
  assumes "dns_ok d" and "z \<in> set (d_zones d)"
    and "upsert_checks d z name ''CNAME'' v ttl 0 = Inr n" and "upsert_checks d z name ty w ttl' 0 = Inr n" and "ty \<noteq> ''CNAME''"
  shows "\<not> dns_ok (fst (upsert_write (fst (upsert_write d now (zn_id z) n ''CNAME'' v ttl 0)) now' (zn_id z) n ty w ttl' 0))"
proof -
  let ?i = "zn_id z"
  have free: "\<forall>s \<in> set (d_records d). rr_zone s = ?i \<longrightarrow> rr_name s \<noteq> n"
    using assms(1,3) by (auto simp: upsert_checks_def checks_None checkCNAMEExclusivity_def list_ex_iff dns_ok_def records_ok_def
        split: if_splits sum.splits option.splits)
  have zone: "by_key zn_id ?i (d_zones d) \<noteq> None" using assms(2) by (auto simp: by_key_None_iff)
  have fits: "fits_int4 0" by (simp add: fits_int4_def)
  define r where "r = \<lparr>rr_id = d_next d, rr_zone = ?i, rr_name = n, rr_type = ''CNAME'', rr_value = v, rr_ttl = ttl,
    rr_priority = 0, rr_created = now, rr_updated = now\<rparr>"
  define d1 where "d1 = fst (upsert_write d now ?i n ''CNAME'' v ttl 0)"
  have none: "find (same_row ?i n t u) (d_records d) = None" for t u using free by (auto simp: find_None_iff same_row_def)
  have d1: "d1 = TouchSerial (d\<lparr>d_records := d_records d @ [r], d_next := d_next d + 1\<rparr>) now ?i"
    using zone fits none by (auto simp: d1_def upsert_write_def select_one_def Let_def r_def)
  have "map zn_id (d_zones d1) = map zn_id (d_zones d)"
    unfolding d1 TouchSerial_def by simp (rule map_update_where_same, simp)
  then have "zn_id ` set (d_zones d1) = zn_id ` set (d_zones d)" by (metis list.set_map)
  then have "by_key zn_id ?i (d_zones d1) \<noteq> None" using zone by (simp add: by_key_None_iff)
  moreover have "find (same_row ?i n ty w) (d_records d1) = None"
  proof -
    have "\<not> same_row ?i n ty w r" using assms(5) by (simp add: same_row_def r_def)
    moreover have "\<forall>s \<in> set (d_records d). \<not> same_row ?i n ty w s" using free by (auto simp: same_row_def)
    ultimately show ?thesis by (auto simp: d1 TouchSerial_def find_None_iff)
  qed
  ultimately have "\<exists>s. rr_id s = d_next d1 \<and> rr_zone s = ?i \<and> rr_name s = n
      \<and> d_records (fst (upsert_write d1 now' ?i n ty w ttl' 0)) = d_records d1 @ [s]"
    using fits by (auto simp: upsert_write_def select_one_def Let_def TouchSerial_def)
  then obtain s where s: "rr_id s = d_next d1" "rr_zone s = ?i" "rr_name s = n"
      "d_records (fst (upsert_write d1 now' ?i n ty w ttl' 0)) = d_records d1 @ [s]" by blast
  have "r \<in> set (d_records d1)" "rr_id r \<noteq> rr_id s" by (simp_all add: d1 TouchSerial_def r_def s(1))
  then have "\<not> cname_alone (set (map shape (d_records d1 @ [s])))"
  proof -
    have "shape r = (rr_id r, ?i, n, ''CNAME'')" "shape s = (rr_id s, ?i, n, rr_type s)"
      using s(2,3) by (simp_all add: shape_def r_def)
    then have "(rr_id r, ?i, n, ''CNAME'') \<in> set (map shape (d_records d1 @ [s]))"
        "(rr_id s, ?i, n, rr_type s) \<in> set (map shape (d_records d1 @ [s]))"
      using \<open>r \<in> set (d_records d1)\<close> by (force, simp)
    then show ?thesis using \<open>rr_id r \<noteq> rr_id s\<close> unfolding cname_alone_def by blast
  qed
  then show ?thesis using s(4) by (simp add: dns_ok_def records_ok_def d1_def)
qed

lemma racing_upserts_break_cname_witness:
  "\<not> dns_ok (fst (upsert_write (fst (upsert_write sample_created 0 1 ''www'' ''CNAME'' ''epic.io'' 300 0)) 0 1 ''www'' ''A'' ''192.0.2.1'' 300 0))"
proof -
  let ?z = "hd (d_zones sample_created)"
  have "dns_ok sample_created"
    unfolding sample_created_def by (rule dns_step_ok [OF dns_step.created empty_dns_ok])
  moreover have "zn_id ?z = 1" "?z \<in> set (d_zones sample_created)" by code_simp+
  moreover have "upsert_checks sample_created ?z ''www'' ''CNAME'' ''epic.io'' 300 0 = Inr ''www''"
      "upsert_checks sample_created ?z ''www'' ''A'' ''192.0.2.1'' 300 0 = Inr ''www''" by code_simp+
  ultimately show ?thesis using racing_upserts_break_cname by fastforce
qed

end
