(* ===== verification/GoUrl.thy ===== *)
theory GoUrl
  imports GoNet
begin

text \<open>
  What the program uses of Go's \<open>net/url\<close>: whether \<open>url.Parse\<close> accepts a text, and the scheme and
  the host it finds. The path, the query, the user and the fragment are checked, not kept.
\<close>

section \<open>Cutting strings\<close>

definition Cut :: "char \<Rightarrow> string \<Rightarrow> string \<times> string" where
  "Cut c s = (takeWhile (\<lambda>x. x \<noteq> c) s, drop 1 (dropWhile (\<lambda>x. x \<noteq> c) s))"

text \<open>What stands before and from the last \<open>c\<close> (\<open>strings.LastIndex\<close>).\<close>

definition last_from :: "char \<Rightarrow> string \<Rightarrow> string" where
  "last_from c s = c # rev (takeWhile (\<lambda>x. x \<noteq> c) (rev s))"

definition last_before :: "char \<Rightarrow> string \<Rightarrow> string" where
  "last_before c s = take (length s - length (last_from c s)) s"

section \<open>Escapes\<close>

datatype url_mode = UrlPlain | UrlHost | UrlZone

definition url_alnum :: "char \<Rightarrow> bool" where
  "url_alnum c \<longleftrightarrow> is_lower c \<or> is_upper c \<or> is_digit c"

text \<open>\<open>shouldEscape\<close> in the host and zone modes.\<close>

definition host_escapes :: "char \<Rightarrow> bool" where
  "host_escapes c \<longleftrightarrow> \<not> url_alnum c
    \<and> c \<notin> set (''-_.~!$&()*+,;=:[]<>'' @ [CHR 0x27, CHR 0x22])"

definition hex_pair :: "char \<Rightarrow> char \<Rightarrow> nat" where
  "hex_pair a b = 16 * hex_digit a + hex_digit b"

definition escape_ok :: "url_mode \<Rightarrow> char \<Rightarrow> char \<Rightarrow> bool" where
  "escape_ok m a b \<longleftrightarrow> is_hex a \<and> is_hex b \<and>
    (case m of
       UrlPlain \<Rightarrow> True
     | UrlHost \<Rightarrow> 8 \<le> hex_digit a \<or> (a = CHR ''2'' \<and> b = CHR ''5'')
     | UrlZone \<Rightarrow> (a = CHR ''2'' \<and> b = CHR ''5'') \<or> hex_pair a b = 32 \<or> \<not> host_escapes (char_of (hex_pair a b)))"

fun unescape :: "url_mode \<Rightarrow> string \<Rightarrow> string option" where
  "unescape m [] = Some []"
| "unescape m (c # s) =
    (if c = CHR ''%'' then
       (case s of
          a # b # r \<Rightarrow> if escape_ok m a b then map_option ((#) (char_of (hex_pair a b))) (unescape m r) else None
        | _ \<Rightarrow> None)
     else if m \<noteq> UrlPlain \<and> of_char c < (128::nat) \<and> host_escapes c then None
     else map_option ((#) c) (unescape m s))"

section \<open>Parsing\<close>

definition ctl_byte :: "char \<Rightarrow> bool" where
  "ctl_byte c \<longleftrightarrow> of_char c < (32::nat) \<or> of_char c = (127::nat)"

text \<open>None is the error of a text that starts with a colon.\<close>

definition getScheme :: "string \<Rightarrow> (string \<times> string) option" where
  "getScheme raw =
    (let p = takeWhile (\<lambda>c. url_alnum c \<or> c \<in> set ''+-.'') raw
     in case drop (length p) raw of
          [] \<Rightarrow> Some ([], raw)
        | c # rest \<Rightarrow>
            if c \<noteq> CHR '':'' then Some ([], raw)
            else if p = [] then None
            else if is_lower (hd p) \<or> is_upper (hd p) then Some (p, rest)
            else Some ([], raw))"

definition validOptionalPort :: "string \<Rightarrow> bool" where
  "validOptionalPort port \<longleftrightarrow> port = [] \<or> (hd port = CHR '':'' \<and> list_all is_digit (tl port))"

definition parseHost :: "string \<Rightarrow> string option" where
  "parseHost host =
    (if has_prefix host ''['' then
       (if CHR '']'' \<notin> set host then None
        else let inner = last_before CHR '']'' host; i = length inner in
          if \<not> validOptionalPort (drop (i + 1) host) then None
          else case find_sub ''%25'' inner of
            None \<Rightarrow> unescape UrlHost host
          | Some z \<Rightarrow>
              (case (unescape UrlHost (take z host), unescape UrlZone (drop z inner), unescape UrlHost (drop i host)) of
                 (Some h1, Some h2, Some h3) \<Rightarrow> Some (h1 @ h2 @ h3)
               | _ \<Rightarrow> None))
     else if CHR '':'' \<in> set host \<and> \<not> validOptionalPort (last_from CHR '':'' host) then None
     else unescape UrlHost host)"

definition validUserinfo :: "string \<Rightarrow> bool" where
  "validUserinfo s \<longleftrightarrow> list_all (\<lambda>c. url_alnum c \<or> c \<in> set (''-._:~!$&()*+,;=%@'' @ [CHR 0x27])) s"

definition parseAuthority :: "string \<Rightarrow> string option" where
  "parseAuthority a =
    (if CHR ''@'' \<notin> set a then parseHost a
     else case parseHost (drop 1 (last_from CHR ''@'' a)) of
       None \<Rightarrow> None
     | Some h \<Rightarrow>
         let user = last_before CHR ''@'' a; (name, password) = Cut CHR '':'' user
         in if validUserinfo user \<and> unescape UrlPlain name \<noteq> None \<and> unescape UrlPlain password \<noteq> None
            then Some h else None)"

definition url_rest :: "string \<Rightarrow> string" where
  "url_rest rest = fst (Cut CHR ''?'' rest)"

text \<open>\<open>parse\<close>: the scheme and the host of the part before the fragment.\<close>

definition url_parse :: "string \<Rightarrow> (string \<times> string) option" where
  "url_parse u =
    (if list_ex ctl_byte u then None
     else if u = ''*'' then Some ([], [])
     else case getScheme u of
       None \<Rightarrow> None
     | Some (s, r) \<Rightarrow>
         (let scheme = to_lower s; rest = url_rest r in
          if \<not> has_prefix rest ''/'' \<and> scheme \<noteq> [] then Some (scheme, [])
          else if \<not> has_prefix rest ''/'' \<and> CHR '':'' \<in> set (fst (Cut CHR ''/'' rest)) then None
          else if (scheme \<noteq> [] \<or> \<not> has_prefix rest ''///'') \<and> has_prefix rest ''//'' then
            (let body = drop 2 rest; authority = takeWhile (\<lambda>c. c \<noteq> CHR ''/'') body in
             case parseAuthority authority of
               None \<Rightarrow> None
             | Some h \<Rightarrow> if unescape UrlPlain (drop (length authority) body) = None then None else Some (scheme, h))
          else if unescape UrlPlain rest = None then None
          else Some (scheme, [])))"

definition Parse :: "string \<Rightarrow> (string \<times> string) option" where
  "Parse raw =
    (let (u, frag) = Cut CHR ''#'' raw
     in case url_parse u of
          None \<Rightarrow> None
        | Some r \<Rightarrow> if unescape UrlPlain frag = None then None else Some r)"

section \<open>Lemmas\<close>

lemma Cut_append: "c \<notin> set s \<Longrightarrow> Cut c (s @ c # t) = (s, t)"
proof -
  assume "c \<notin> set s"
  then have "\<forall>x \<in> set s. x \<noteq> c" by blast
  then show ?thesis by (simp add: Cut_def)
qed

end
