(* ===== verification/Domains.thy ===== *)
theory Domains
  imports WebsiteLifecycle DnsRecords GoUrl
begin

text \<open>
  Domains, certificates and redirects of websites: the statements of \<open>domains/store.go\<close> and
  \<open>domains/redirects.go\<close> over the tables of the migrations \<open>0007\<close> and \<open>0025\<close> (unique names,
  checked patterns, rows deleted with their website). \<open>OnSSLEvent\<close> is a log of the events it
  received. The website rows a statement joins are read from the website table.
\<close>

section \<open>Rows\<close>

datatype domain_kind = KindPrimary | KindAlias
datatype ssl_mode = SSLNone | SSLSelfSigned | SSLLetsEnc
datatype ssl_state = SSLStatePending | SSLStateIssuing | SSLStateActive | SSLStateFailed

record domain_row =
  dm_id :: uid
  dm_org :: uid
  dm_site :: uid
  dm_name :: string
  dm_kind :: domain_kind
  dm_mode :: ssl_mode
  dm_state :: ssl_state
  dm_issued :: "time option"
  dm_expires :: "time option"
  dm_error :: string
  dm_verified :: "time option"
  dm_matches :: "bool option"
  dm_docroot :: string
  dm_created :: time
  dm_updated :: time

record redirect_row =
  fw_id :: uid
  fw_site :: uid
  fw_org :: uid
  fw_from :: string
  fw_to :: string
  fw_status :: int
  fw_enabled :: bool
  fw_created :: time
  fw_updated :: time

datatype ssl_event = RenewalStarted string ssl_mode | SslIssued string time | SslFailed string string

record domain_db =
  dd_domains :: "domain_row list"
  dd_redirects :: "redirect_row list"
  dd_next :: uid
  dd_events :: "ssl_event list"

datatype domain_err =
    DomainNotFound | DomainTaken | RedirectNotFound | RedirectTaken | RedirectTooMany
  | RedirectRefused string | DomainSql

definition emitSSLEvent :: "domain_db \<Rightarrow> ssl_event \<Rightarrow> domain_db" where
  "emitSSLEvent d e = d\<lparr>dd_events := dd_events d @ [e]\<rparr>"

section \<open>Domains\<close>

definition new_domain :: "uid \<Rightarrow> time \<Rightarrow> uid \<Rightarrow> uid \<Rightarrow> string \<Rightarrow> domain_kind \<Rightarrow> domain_row" where
  "new_domain i now org site name kind =
    \<lparr>dm_id = i, dm_org = org, dm_site = site, dm_name = name, dm_kind = kind, dm_mode = SSLNone,
     dm_state = SSLStatePending, dm_issued = None, dm_expires = None, dm_error = [],
     dm_verified = None, dm_matches = None, dm_docroot = [], dm_created = now, dm_updated = now\<rparr>"

definition CreateDomain ::
    "domain_db \<Rightarrow> time \<Rightarrow> uid \<Rightarrow> uid \<Rightarrow> string \<Rightarrow> domain_kind \<Rightarrow> domain_db \<times> (domain_err + domain_row)" where
  "CreateDomain d now org site name kind =
    (if \<not> domain_check name then (d, Inl DomainSql)
     else if list_ex (\<lambda>r. dm_name r = name) (dd_domains d) then (d, Inl DomainTaken)
     else let r = new_domain (dd_next d) now org site name kind
          in (d\<lparr>dd_domains := dd_domains d @ [r], dd_next := dd_next d + 1\<rparr>, Inr r))"

text \<open>A single-row \<open>UPDATE ... WHERE id = $1\<close> with its row count.\<close>

definition set_domain ::
    "domain_db \<Rightarrow> uid \<Rightarrow> (domain_row \<Rightarrow> domain_row) \<Rightarrow> domain_db \<times> (domain_err + unit)" where
  "set_domain d i f =
    (if by_key dm_id i (dd_domains d) = None then (d, Inl DomainNotFound)
     else (d\<lparr>dd_domains := update_where (\<lambda>r. dm_id r = i) f (dd_domains d)\<rparr>, Inr ()))"

definition SetDomainDocroot :: "domain_db \<Rightarrow> time \<Rightarrow> uid \<Rightarrow> string \<Rightarrow> domain_db \<times> (domain_err + unit)" where
  "SetDomainDocroot d now i suffix = set_domain d i (\<lambda>r. r\<lparr>dm_docroot := suffix, dm_updated := now\<rparr>)"

definition GetDomain :: "domain_db \<Rightarrow> uid \<Rightarrow> uid \<Rightarrow> domain_err + domain_row" where
  "GetDomain d org i =
    (case select_one (\<lambda>r. dm_id r = i \<and> dm_org r = org) (dd_domains d) of
       None \<Rightarrow> Inl DomainNotFound | Some r \<Rightarrow> Inr r)"

definition GetDomainAny :: "domain_db \<Rightarrow> uid \<Rightarrow> domain_err + domain_row" where
  "GetDomainAny d i = (case by_key dm_id i (dd_domains d) of None \<Rightarrow> Inl DomainNotFound | Some r \<Rightarrow> Inr r)"

definition ListDomains :: "domain_db \<Rightarrow> uid \<Rightarrow> domain_row list" where
  "ListDomains d site = sort_key dm_created (filter (\<lambda>r. dm_site r = site \<and> dm_kind r = KindPrimary) (dd_domains d))
     @ sort_key dm_created (filter (\<lambda>r. dm_site r = site \<and> dm_kind r \<noteq> KindPrimary) (dd_domains d))"

definition DeleteDomainRow :: "domain_db \<Rightarrow> uid \<Rightarrow> uid \<Rightarrow> domain_db \<times> (domain_err + unit)" where
  "DeleteDomainRow d org i =
    (let hit = (\<lambda>r. dm_id r = i \<and> dm_org r = org \<and> dm_kind r = KindAlias) in
     if rows_affected hit (dd_domains d) = 0 then (d, Inl DomainNotFound)
     else (d\<lparr>dd_domains := filter (\<lambda>r. \<not> hit r) (dd_domains d)\<rparr>, Inr ()))"

definition mode_state :: "ssl_mode \<Rightarrow> ssl_state" where
  "mode_state m = (if m = SSLNone then SSLStatePending else SSLStateIssuing)"

definition SetSSLMode ::
    "domain_db \<Rightarrow> time \<Rightarrow> uid \<Rightarrow> ssl_mode \<Rightarrow> domain_db \<times> (domain_err + domain_row)" where
  "SetSSLMode d now i m =
    (case GetDomainAny d i of
       Inl e \<Rightarrow> (d, Inl e)
     | Inr prev \<Rightarrow>
         (let upd = (\<lambda>r. r\<lparr>dm_mode := m, dm_state := mode_state m, dm_error := [], dm_updated := now\<rparr>);
              d' = fst (set_domain d i upd)
          in (if dm_state prev = SSLStateActive \<and> mode_state m = SSLStateIssuing
              then emitSSLEvent d' (RenewalStarted (dm_name prev) m) else d', Inr (upd prev))))"

definition MarkSSLActive :: "domain_db \<Rightarrow> time \<Rightarrow> uid \<Rightarrow> time \<Rightarrow> domain_db \<times> (domain_err + unit)" where
  "MarkSSLActive d now i expires =
    set_domain d i (\<lambda>r. r\<lparr>dm_state := SSLStateActive, dm_issued := Some now, dm_expires := Some expires,
                        dm_error := [], dm_updated := now\<rparr>)"

definition MarkSSLFailed :: "domain_db \<Rightarrow> time \<Rightarrow> uid \<Rightarrow> string \<Rightarrow> domain_db \<times> (domain_err + unit)" where
  "MarkSSLFailed d now i msg =
    set_domain d i (\<lambda>r. r\<lparr>dm_state := SSLStateFailed, dm_error := msg, dm_updated := now\<rparr>)"

definition MarkDNSVerified :: "domain_db \<Rightarrow> time \<Rightarrow> uid \<Rightarrow> bool \<Rightarrow> domain_db \<times> (domain_err + unit)" where
  "MarkDNSVerified d now i ok =
    set_domain d i (\<lambda>r. r\<lparr>dm_verified := Some now, dm_matches := Some ok, dm_updated := now\<rparr>)"

definition expiring :: "time \<Rightarrow> duration \<Rightarrow> domain_row \<Rightarrow> bool" where
  "expiring now horizon r \<longleftrightarrow> dm_mode r = SSLLetsEnc \<and> dm_state r = SSLStateActive
    \<and> (case dm_expires r of None \<Rightarrow> False | Some t \<Rightarrow> t < now + horizon)"

definition ExpiringForRenewal :: "domain_db \<Rightarrow> time \<Rightarrow> duration \<Rightarrow> nat \<Rightarrow> domain_row list" where
  "ExpiringForRenewal d now horizon lim =
    take lim (sort_key (\<lambda>r. the (dm_expires r)) (filter (expiring now horizon) (dd_domains d)))"

definition stuck_failed :: "domain_row \<Rightarrow> bool" where
  "stuck_failed r \<longleftrightarrow> dm_mode r = SSLLetsEnc \<and> dm_state r = SSLStateFailed"

definition ListFailedForRetry :: "domain_db \<Rightarrow> nat \<Rightarrow> domain_row list" where
  "ListFailedForRetry d lim = take lim (sort_key dm_updated (filter stuck_failed (dd_domains d)))"

definition CountByWebsite :: "domain_db \<Rightarrow> uid \<Rightarrow> nat" where
  "CountByWebsite d site = rows_affected (\<lambda>r. dm_site r = site) (dd_domains d)"

text \<open>What the agent serves of a domain; empty paths when no certificate is active.\<close>

record serving_domain =
  sd_name :: string
  sd_mode :: ssl_mode
  sd_cert :: string
  sd_key :: string
  sd_docroot :: string

definition serving_of :: "domain_row \<Rightarrow> serving_domain" where
  "serving_of r =
    (let active = (dm_state r = SSLStateActive \<and> dm_mode r \<noteq> SSLNone); dir = ''/etc/epicpanel/ssl/'' @ dm_name r in
     \<lparr>sd_name = dm_name r, sd_mode = dm_mode r,
      sd_cert = (if active then dir @ ''/fullchain.pem'' else []),
      sd_key = (if active then dir @ ''/privkey.pem'' else []), sd_docroot = dm_docroot r\<rparr>)"

definition ListForWebsiteServing :: "domain_db \<Rightarrow> uid \<Rightarrow> serving_domain list" where
  "ListForWebsiteServing d site = map serving_of (ListDomains d site)"

section \<open>Outcomes of domain jobs\<close>

text \<open>The JSON decoders: \<open>cd_cert\<close> is None for a malformed payload or domain id, \<open>cd_after\<close> the
  expiry of a result (Go's zero time when it has none).\<close>

record ssl_codec =
  cd_cert :: "string \<Rightarrow> (uid \<times> string) option"
  cd_after :: "string \<Rightarrow> time"
  cd_dns :: "string \<Rightarrow> uid option"
  cd_matches :: "string \<Rightarrow> bool"

definition ApplyDomainOutcome :: "ssl_codec \<Rightarrow> domain_db \<Rightarrow> time \<Rightarrow> job \<Rightarrow> string \<Rightarrow> domain_db \<times> uid" where
  "ApplyDomainOutcome c d now j result =
    (if job_type_of j = TypeIssueCertificate then
       (case cd_cert c (job_payload j) of
          None \<Rightarrow> (d, nil_uid)
        | Some (i, name) \<Rightarrow>
            if job_status j = StatusSuccess then
              (let after = cd_after c result; d' = fst (MarkSSLActive d now i after) in
               case GetDomainAny d' i of
                 Inl _ \<Rightarrow> (d', nil_uid)
               | Inr r \<Rightarrow> (emitSSLEvent d' (SslIssued (dm_name r) after), dm_site r))
            else if job_status j = StatusFailed then
              (emitSSLEvent (fst (MarkSSLFailed d now i (job_error j))) (SslFailed name (job_error j)), nil_uid)
            else (d, nil_uid))
     else if job_type_of j = TypeVerifyDomain then
       (case cd_dns c (job_payload j) of
          None \<Rightarrow> (d, nil_uid)
        | Some i \<Rightarrow>
            if job_status j = StatusSuccess then (fst (MarkDNSVerified d now i (cd_matches c result)), nil_uid)
            else (d, nil_uid))
     else (d, nil_uid))"

section \<open>Redirects\<close>

definition normalizeDomain :: "string \<Rightarrow> string" where
  "normalizeDomain s = trim_suffix (ToLower (trim_space s)) ''.''"

definition isHostname :: "string \<Rightarrow> bool" where
  "isHostname s \<longleftrightarrow> length s \<le> 253 \<and> domain_check s"

definition maxRedirectsPerWebsite :: nat where "maxRedirectsPerWebsite = 20"

definition redirect_statuses :: "int list" where "redirect_statuses = [301, 302, 307, 308]"

definition ValidateRedirectToURL :: "string \<Rightarrow> string option" where
  "ValidateRedirectToURL raw =
    (case Parse raw of
       None \<Rightarrow> Some ''to_url is not a valid URL''
     | Some (scheme, host) \<Rightarrow>
         also_err (err_unless (scheme = ''http'' \<or> scheme = ''https'') ''to_url must use the http or https scheme'')
           (err_unless (host \<noteq> []) ''to_url must be an absolute URL with a host''))"

text \<open>The count of the domains of the site that carry the name, or of all of them when the name is
  the site's primary domain.\<close>

definition domainOwnedByWebsite :: "sites \<Rightarrow> domain_db \<Rightarrow> uid \<Rightarrow> string \<Rightarrow> bool" where
  "domainOwnedByWebsite s d site name \<longleftrightarrow>
    0 < rows_affected (\<lambda>r. dm_site r = site \<and>
      (dm_name r = name \<or> (case by_key site_id site (s_rows s) of None \<Rightarrow> False | Some w \<Rightarrow> site_domain w = name))) (dd_domains d)"

definition redirect_checks ::
    "sites \<Rightarrow> domain_db \<Rightarrow> uid \<Rightarrow> string \<Rightarrow> string \<Rightarrow> int \<Rightarrow> domain_err option" where
  "redirect_checks s d site from to status =
    also_err (err_unless (isHostname from) (RedirectRefused ''from_domain is not a valid hostname''))
    (also_err (err_unless (status \<in> set redirect_statuses) (RedirectRefused ''status_code must be one of 301, 302, 307, 308''))
    (also_err (map_option RedirectRefused (ValidateRedirectToURL to))
    (also_err (err_unless (domainOwnedByWebsite s d site from) (RedirectRefused ''from_domain must be attached to this website''))
      (err_unless (rows_affected (\<lambda>r. fw_site r = site) (dd_redirects d) < maxRedirectsPerWebsite) RedirectTooMany))))"

definition CreateRedirect ::
    "sites \<Rightarrow> domain_db \<Rightarrow> time \<Rightarrow> uid \<Rightarrow> uid \<Rightarrow> string \<Rightarrow> string \<Rightarrow> int \<Rightarrow> domain_db \<times> (domain_err + redirect_row)" where
  "CreateRedirect s d now org site from0 to status0 =
    (let from = normalizeDomain from0; status = (if status0 = 0 then 301 else status0) in
     case redirect_checks s d site from to status of
       Some e \<Rightarrow> (d, Inl e)
     | None \<Rightarrow>
         if list_ex (\<lambda>r. fw_from r = from) (dd_redirects d) then (d, Inl RedirectTaken)
         else let r = \<lparr>fw_id = dd_next d, fw_site = site, fw_org = org, fw_from = from, fw_to = to, fw_status = status,
                       fw_enabled = True, fw_created = now, fw_updated = now\<rparr>
              in (d\<lparr>dd_redirects := dd_redirects d @ [r], dd_next := dd_next d + 1\<rparr>, Inr r))"

definition ListRedirects :: "domain_db \<Rightarrow> uid \<Rightarrow> uid \<Rightarrow> redirect_row list" where
  "ListRedirects d org site =
    sort_key fw_created (filter (\<lambda>r. fw_site r = site \<and> fw_org r = org) (dd_redirects d))"

definition RedirectTargetsForWebsite :: "domain_db \<Rightarrow> uid \<Rightarrow> (string \<times> string \<times> int) list" where
  "RedirectTargetsForWebsite d site =
    map (\<lambda>r. (fw_from r, fw_to r, fw_status r))
      (sort_key fw_created (filter (\<lambda>r. fw_site r = site \<and> fw_enabled r) (dd_redirects d)))"

definition listRedirectsAny :: "domain_db \<Rightarrow> uid \<Rightarrow> redirect_row list" where
  "listRedirectsAny d site = sort_key fw_created (filter (\<lambda>r. fw_site r = site) (dd_redirects d))"

definition GetRedirect :: "domain_db \<Rightarrow> uid \<Rightarrow> uid \<Rightarrow> domain_err + redirect_row" where
  "GetRedirect d org i =
    (case select_one (\<lambda>r. fw_id r = i \<and> fw_org r = org) (dd_redirects d) of
       None \<Rightarrow> Inl RedirectNotFound | Some r \<Rightarrow> Inr r)"

text \<open>The patch: target, status, enabled; None leaves a column alone.\<close>

definition UpdateRedirect ::
    "domain_db \<Rightarrow> time \<Rightarrow> redirect_row \<Rightarrow> string option \<Rightarrow> int option \<Rightarrow> bool option \<Rightarrow> domain_db \<times> (domain_err + redirect_row)" where
  "UpdateRedirect d now r to status enabled =
    (case also_err (case to of None \<Rightarrow> None | Some u \<Rightarrow> map_option RedirectRefused (ValidateRedirectToURL u))
            (case status of None \<Rightarrow> None | Some s \<Rightarrow>
               err_unless (s \<in> set redirect_statuses) (RedirectRefused ''status_code must be one of 301, 302, 307, 308'')) of
       Some e \<Rightarrow> (d, Inl e)
     | None \<Rightarrow>
         (let upd = (\<lambda>x. x\<lparr>fw_to := case_option (fw_to r) id to, fw_status := case_option (fw_status r) id status,
                         fw_enabled := case_option (fw_enabled x) id enabled, fw_updated := now\<rparr>)
          in case by_key fw_id (fw_id r) (dd_redirects d) of
               None \<Rightarrow> (d, Inl DomainSql)
             | Some old \<Rightarrow>
                 (d\<lparr>dd_redirects := update_where (\<lambda>x. fw_id x = fw_id r) upd (dd_redirects d)\<rparr>, Inr (upd old))))"

definition DeleteRedirectRow :: "domain_db \<Rightarrow> uid \<Rightarrow> uid \<Rightarrow> domain_db \<times> (domain_err + unit)" where
  "DeleteRedirectRow d org i =
    (let hit = (\<lambda>r. fw_id r = i \<and> fw_org r = org) in
     if rows_affected hit (dd_redirects d) = 0 then (d, Inl RedirectNotFound)
     else (d\<lparr>dd_redirects := filter (\<lambda>r. \<not> hit r) (dd_redirects d)\<rparr>, Inr ()))"

text \<open>\<open>ON DELETE CASCADE\<close>: the rows of a removed website go with it.\<close>

definition drop_website :: "domain_db \<Rightarrow> uid \<Rightarrow> domain_db" where
  "drop_website d site = d\<lparr>dd_domains := filter (\<lambda>r. dm_site r \<noteq> site) (dd_domains d),
     dd_redirects := filter (\<lambda>r. fw_site r \<noteq> site) (dd_redirects d)\<rparr>"

end
