(* ===== verification/DomainServing.thy ===== *)
theory DomainServing
  imports Domains
begin

text \<open>
  What the agent is told to serve: the desired state of a website, as the website handlers build it
  (\<open>buildDesiredPayload\<close>, \<open>websites/handler.go\<close>) and as the serving reconcile builds it
  (\<open>reconcileWebsiteServing\<close>, \<open>api/server.go\<close>), and the handlers and scheduler scans that change
  domains, certificates and redirects (\<open>domains/handler.go\<close>, \<open>domains/redirects_handler.go\<close>,
  \<open>api/scheduler.go\<close>). The other stores a payload reads (site configuration, packages, PHP
  settings, applications), the JSON and base64 encoders are fields of an environment. Audit
  entries and log lines are left out.
\<close>

section \<open>Desired state\<close>

record desired =
  ds_site :: uid
  ds_org :: string
  ds_name :: string
  ds_user :: string
  ds_runtime :: string
  ds_version :: string
  ds_server :: string
  ds_port :: int
  ds_suffix :: string
  ds_web_dir :: string
  ds_auto_build :: bool
  ds_primary :: string
  ds_rewrite :: string
  ds_config :: "string option"
  ds_domains :: "serving_domain list"
  ds_redirects :: "(string \<times> string \<times> int) list"
  ds_fpm_memory :: int
  ds_fpm_children :: int
  ds_startup :: string
  ds_build :: string
  ds_app_port :: int
  ds_app_env :: string
  ds_php :: "(string \<times> string) list"
  ds_timeout :: int

datatype domain_wire = WireCert uid string ssl_mode | WireVerify uid string

text \<open>\<open>sv_config\<close>, \<open>sv_app\<close>, \<open>sv_package\<close>, \<open>sv_perk\<close>, \<open>sv_php\<close> read the stores of the site
  configuration (rewrite rules and document), the applications (port), the organization's package
  and the free-perk package (memory limit), the PHP settings; None is an error or a missing row.\<close>

record serving_env =
  sv_us :: "uid \<Rightarrow> string"
  sv_encode :: "desired \<Rightarrow> string option"
  sv_encode_job :: "domain_wire \<Rightarrow> string option"
  sv_b64 :: "string \<Rightarrow> string"
  sv_config :: "uid \<Rightarrow> (string \<times> string option) option"
  sv_app :: "uid \<Rightarrow> int option"
  sv_free_perk :: "uid \<Rightarrow> bool"
  sv_perk :: "int option"
  sv_package :: "uid \<Rightarrow> int option"
  sv_php :: "uid \<Rightarrow> (string \<times> string) list option"

record domain_world =
  dw_panel :: panel
  dw_db :: domain_db

definition runtime_text :: "site_runtime \<Rightarrow> string" where
  "runtime_text r = (case r of RuntimeStatic \<Rightarrow> ''static'' | RuntimePHP \<Rightarrow> ''php'' | RuntimeNode \<Rightarrow> ''node''
     | RuntimePython \<Rightarrow> ''python'' | RuntimeGo \<Rightarrow> ''go'')"

text \<open>Memory ceiling and children of the pool for a package's memory limit.\<close>

definition PoolLimitsFor :: "int \<Rightarrow> int \<times> int" where
  "PoolLimitsFor ram =
    (if ram \<le> 0 then (0, 0)
     else (max 16 (min 256 ram), min 100 (max 1 (ram div 32))))"

definition ForPackage :: "int \<Rightarrow> int \<times> int" where
  "ForPackage ram = (if ram \<le> 0 then (0, 0) else PoolLimitsFor ram)"

definition requestTimeoutFor :: "(string \<times> string) list \<Rightarrow> int" where
  "requestTimeoutFor settings =
    (case map_of settings ''max_execution_time'' of
       None \<Rightarrow> 300
     | Some raw \<Rightarrow> (case parse_int (trim_space raw) of
                      None \<Rightarrow> 300
                    | Some n \<Rightarrow> if n \<le> 0 then 0 else sint (word_of_int (n + 60) :: i64)))"

text \<open>The columns both builders copy from the website row.\<close>

definition site_desired :: "serving_env \<Rightarrow> website \<Rightarrow> uid \<Rightarrow> string \<Rightarrow> string \<Rightarrow> desired" where
  "site_desired v w org user ver =
    \<lparr>ds_site = site_id w, ds_org = sv_us v org, ds_name = site_name w, ds_user = user,
     ds_runtime = runtime_text (site_runtime w), ds_version = ver, ds_server = site_web_server w,
     ds_port = site_backend_port w, ds_suffix = site_docroot_suffix w, ds_web_dir = site_deploy_web_dir w,
     ds_auto_build = site_deploy_auto_build w, ds_primary = site_domain w, ds_rewrite = [], ds_config = None,
     ds_domains = [], ds_redirects = [], ds_fpm_memory = 0, ds_fpm_children = 0, ds_startup = [], ds_build = [],
     ds_app_port = 0, ds_app_env = [], ds_php = [], ds_timeout = 0\<rparr>"

definition with_app :: "serving_env \<Rightarrow> sites \<Rightarrow> website \<Rightarrow> desired \<Rightarrow> desired" where
  "with_app v s w p =
    (if isAppRuntime (site_runtime w) then
       p\<lparr>ds_startup := site_app_startup w, ds_build := site_app_build w, ds_app_port := site_app_port w,
         ds_app_env := (case GetAppEnv s (site_id w) of
            Inr (Some blob) \<Rightarrow> if blob = [] then [] else sv_b64 v blob | _ \<Rightarrow> [])\<rparr>
     else p)"

definition with_config :: "serving_env \<Rightarrow> website \<Rightarrow> desired \<Rightarrow> desired" where
  "with_config v w p =
    (case sv_config v (site_id w) of None \<Rightarrow> p | Some (rules, doc) \<Rightarrow> p\<lparr>ds_rewrite := rules, ds_config := doc\<rparr>)"

definition with_domains :: "domain_db \<Rightarrow> website \<Rightarrow> desired \<Rightarrow> desired" where
  "with_domains d w p = p\<lparr>ds_domains := ListForWebsiteServing d (site_id w)\<rparr>"

definition with_redirects :: "domain_db \<Rightarrow> website \<Rightarrow> desired \<Rightarrow> desired" where
  "with_redirects d w p = p\<lparr>ds_redirects := RedirectTargetsForWebsite d (site_id w)\<rparr>"

definition pool_package :: "serving_env \<Rightarrow> website \<Rightarrow> uid \<Rightarrow> int option" where
  "pool_package v w org =
    (case (sv_free_perk v (site_id w), sv_perk v) of (True, Some ram) \<Rightarrow> Some ram | _ \<Rightarrow> sv_package v org)"

definition with_limits :: "serving_env \<Rightarrow> website \<Rightarrow> uid \<Rightarrow> desired \<Rightarrow> desired" where
  "with_limits v w org p =
    (case pool_package v w org of
       None \<Rightarrow> p
     | Some ram \<Rightarrow> p\<lparr>ds_fpm_memory := fst (ForPackage ram), ds_fpm_children := snd (ForPackage ram)\<rparr>)"

definition with_app_port :: "serving_env \<Rightarrow> website \<Rightarrow> desired \<Rightarrow> desired" where
  "with_app_port v w p = (case sv_app v (site_id w) of None \<Rightarrow> p | Some port \<Rightarrow> p\<lparr>ds_app_port := port\<rparr>)"

definition with_php :: "serving_env \<Rightarrow> website \<Rightarrow> desired \<Rightarrow> desired" where
  "with_php v w p =
    (if site_runtime w \<noteq> RuntimePHP then p
     else case sv_php v (site_id w) of
       None \<Rightarrow> p
     | Some settings \<Rightarrow> p\<lparr>ds_php := settings, ds_timeout := requestTimeoutFor settings\<rparr>)"

text \<open>The builder of the website handlers.\<close>

definition desired_payload ::
    "serving_env \<Rightarrow> sites \<Rightarrow> domain_db \<Rightarrow> website \<Rightarrow> uid \<Rightarrow> string \<Rightarrow> string \<Rightarrow> desired" where
  "desired_payload v s d w org user ver =
    with_php v w (with_app_port v w (with_limits v w org
      (with_redirects d w (with_domains d w (with_config v w
        (with_app v s w (site_desired v w org user ver)))))))"

text \<open>The builder of the serving reconcile.\<close>

definition reconcile_payload :: "serving_env \<Rightarrow> domain_db \<Rightarrow> website \<Rightarrow> uid \<Rightarrow> desired" where
  "reconcile_payload v d w org =
    with_redirects d w (with_domains d w (with_app_port v w (with_config v w
      (site_desired v w org (site_unix_user w) (site_runtime_version w)))))"

definition provision_key :: "serving_env \<Rightarrow> uid \<Rightarrow> string" where
  "provision_key v i = ''provision_website_'' @ sv_us v i"

definition reconcileWebsiteServing ::
    "serving_env \<Rightarrow> time \<Rightarrow> domain_world \<Rightarrow> uid \<Rightarrow> uid \<Rightarrow> uid \<Rightarrow> domain_world" where
  "reconcileWebsiteServing v now w i org srv =
    (case SiteByID (p_sites (dw_panel w)) org i of
       Inl _ \<Rightarrow> w
     | Inr ws \<Rightarrow>
         if site_status ws \<noteq> SiteReady \<and> site_status ws \<noteq> SiteFailed then w
         else w\<lparr>dw_panel := fst (enqueue (dw_panel w) now srv (Some (site_id ws)) TypeProvisionWebsite
                  (sv_encode v (reconcile_payload v (dw_db w) ws org)) (provision_key v (site_id ws)))\<rparr>)"

definition notifyChanged :: "serving_env \<Rightarrow> time \<Rightarrow> domain_world \<Rightarrow> uid \<Rightarrow> website \<Rightarrow> domain_world" where
  "notifyChanged v now w org ws = reconcileWebsiteServing v now w (site_id ws) org (site_server ws)"

text \<open>Look the website up without its organization, then notify.\<close>

definition notify_site :: "serving_env \<Rightarrow> time \<Rightarrow> domain_world \<Rightarrow> uid \<Rightarrow> uid \<Rightarrow> domain_world" where
  "notify_site v now w org i =
    (case GetByIDAny (p_sites (dw_panel w)) i of Inl _ \<Rightarrow> w | Inr ws \<Rightarrow> notifyChanged v now w org ws)"

section \<open>Domain handlers\<close>

definition maxAliasesPerWebsite :: nat where "maxAliasesPerWebsite = 20"

definition suffix_of :: "string \<Rightarrow> string" where
  "suffix_of raw = trim_slashes (trim_space raw)"

definition short_relative :: "string \<Rightarrow> bool" where
  "short_relative s \<longleftrightarrow> \<not> contains s ''..'' \<and> length (filter (\<lambda>c. c = CHR ''/'') s) \<le> 3 \<and> length s \<le> 100"

definition validDocrootRe :: "string \<Rightarrow> bool" where
  "validDocrootRe s \<longleftrightarrow> s \<noteq> [] \<and> list_all (\<lambda>c. url_alnum c \<or> c \<in> set ''._/-'') s"

definition domain_kind_of :: "string \<Rightarrow> domain_kind option" where
  "domain_kind_of k = map_of [([], KindAlias), (''primary'', KindPrimary), (''alias'', KindAlias)] k"

definition ssl_mode_of :: "string \<Rightarrow> ssl_mode option" where
  "ssl_mode_of m = map_of [(''none'', SSLNone), (''selfsigned'', SSLSelfSigned), (''letsencrypt'', SSLLetsEnc)] m"

definition site_for_change :: "domain_world \<Rightarrow> uid \<Rightarrow> uid \<Rightarrow> http_err + website" where
  "site_for_change w org i =
    (case websiteFromPath (dw_panel w) org i of
       Inl e \<Rightarrow> Inl e
     | Inr ws \<Rightarrow> if site_status ws = SiteDeleting \<or> site_status ws = SiteDeleted then Inl HttpConflict else Inr ws)"

text \<open>The checks of the new domain, in the order of the handler; the row is inserted before its
  docroot is looked at, and removed again when the docroot is refused.\<close>

definition add_checks :: "domain_db \<Rightarrow> uid \<Rightarrow> string \<Rightarrow> string \<Rightarrow> http_err + domain_kind" where
  "add_checks d site name kind =
    (if 253 < length name \<or> \<not> domain_check name then Inl HttpValidation
     else case domain_kind_of kind of
       None \<Rightarrow> Inl HttpValidation
     | Some KindPrimary \<Rightarrow> Inl HttpConflict
     | Some KindAlias \<Rightarrow> if maxAliasesPerWebsite \<le> CountByWebsite d site then Inl HttpConflict else Inr KindAlias)"

definition AddDomain ::
    "serving_env \<Rightarrow> domain_world \<Rightarrow> time \<Rightarrow> uid \<Rightarrow> uid \<Rightarrow> (string \<times> string \<times> string) option
      \<Rightarrow> domain_world \<times> (http_err + domain_row)" where
  "AddDomain v w now org site body =
    (case site_for_change w org site of
       Inl e \<Rightarrow> (w, Inl e)
     | Inr ws \<Rightarrow>
         (case body of
            None \<Rightarrow> (w, Inl HttpValidation)
          | Some (name0, kind0, raw) \<Rightarrow>
              (let name = ToLower (trim_space name0); suffix = suffix_of raw in
               case add_checks (dw_db w) (site_id ws) name kind0 of
                 Inl e \<Rightarrow> (w, Inl e)
               | Inr kind \<Rightarrow>
                   (case CreateDomain (dw_db w) now org (site_id ws) name kind of
                      (d, Inl DomainTaken) \<Rightarrow> (w\<lparr>dw_db := d\<rparr>, Inl HttpConflict)
                    | (d, Inl _) \<Rightarrow> (w\<lparr>dw_db := d\<rparr>, Inl HttpInternal)
                    | (d, Inr r) \<Rightarrow>
                        if suffix \<noteq> [] \<and> \<not> (validDocrootRe suffix \<and> short_relative suffix) then
                          (w\<lparr>dw_db := fst (DeleteDomainRow d org (dm_id r))\<rparr>, Inl HttpValidation)
                        else let d' = (if suffix = [] then d else fst (SetDomainDocroot d now (dm_id r) suffix))
                             in (notifyChanged v now (w\<lparr>dw_db := d'\<rparr>) org ws, Inr r)))))"

definition RemoveDomain ::
    "serving_env \<Rightarrow> domain_world \<Rightarrow> time \<Rightarrow> uid \<Rightarrow> uid \<Rightarrow> uid \<Rightarrow> domain_world \<times> (http_err + unit)" where
  "RemoveDomain v w now org site i =
    (case websiteFromPath (dw_panel w) org site of
       Inl e \<Rightarrow> (w, Inl e)
     | Inr ws \<Rightarrow>
         (case GetDomain (dw_db w) org i of
            Inl _ \<Rightarrow> (w, Inl HttpNotFound)
          | Inr r \<Rightarrow>
              if dm_site r \<noteq> site_id ws then (w, Inl HttpNotFound)
              else case DeleteDomainRow (dw_db w) org i of
                (d, Inl _) \<Rightarrow> (w\<lparr>dw_db := d\<rparr>, Inl HttpConflict)
              | (d, Inr _) \<Rightarrow> (notifyChanged v now (w\<lparr>dw_db := d\<rparr>) org ws, Inr ())))"

definition UpdateDomain ::
    "serving_env \<Rightarrow> domain_world \<Rightarrow> time \<Rightarrow> uid \<Rightarrow> uid \<Rightarrow> string option \<Rightarrow> domain_world \<times> (http_err + unit)" where
  "UpdateDomain v w now org i body =
    (case GetDomain (dw_db w) org i of
       Inl _ \<Rightarrow> (w, Inl HttpNotFound)
     | Inr r \<Rightarrow>
         (case body of
            None \<Rightarrow> (w, Inl HttpValidation)
          | Some raw \<Rightarrow>
              (let suffix = suffix_of raw in
               if suffix \<noteq> [] \<and> \<not> short_relative suffix then (w, Inl HttpValidation)
               else case SetDomainDocroot (dw_db w) now i suffix of
                 (d, Inl _) \<Rightarrow> (w\<lparr>dw_db := d\<rparr>, Inl HttpInternal)
               | (d, Inr _) \<Rightarrow> (notify_site v now (w\<lparr>dw_db := d\<rparr>) org (dm_site r), Inr ()))))"

definition enqueue_for_site ::
    "panel \<Rightarrow> time \<Rightarrow> uid \<Rightarrow> job_type \<Rightarrow> string option \<Rightarrow> panel \<times> (job_err + job)" where
  "enqueue_for_site p now site t payload =
    (let r = EnqueueForWebsite (sync p) now site t payload in (p\<lparr>p_queue := fst r\<rparr>, snd r))"

text \<open>The reconcile is enqueued before the issuance: the jobs of a server run in order.\<close>

definition SetSSL ::
    "serving_env \<Rightarrow> domain_world \<Rightarrow> time \<Rightarrow> uid \<Rightarrow> uid \<Rightarrow> string option \<Rightarrow> domain_world \<times> (http_err + domain_row)" where
  "SetSSL v w now org i body =
    (case GetDomain (dw_db w) org i of
       Inl _ \<Rightarrow> (w, Inl HttpNotFound)
     | Inr r \<Rightarrow>
         (case Option.bind body ssl_mode_of of
            None \<Rightarrow> (w, Inl HttpValidation)
          | Some m \<Rightarrow>
              (case SetSSLMode (dw_db w) now i m of
                 (d, Inl _) \<Rightarrow> (w\<lparr>dw_db := d\<rparr>, Inl HttpInternal)
               | (d, Inr u) \<Rightarrow>
                   (let w' = notify_site v now (w\<lparr>dw_db := d\<rparr>) org (dm_site r) in
                    if m = SSLNone then (w', Inr u)
                    else case enqueue_for_site (dw_panel w') now (dm_site u) TypeIssueCertificate
                                (sv_encode_job v (WireCert (dm_id u) (dm_name u) m)) of
                      (p, Inl _) \<Rightarrow> (w'\<lparr>dw_panel := p\<rparr>, Inl HttpInternal)
                    | (p, Inr _) \<Rightarrow> (w'\<lparr>dw_panel := p\<rparr>, Inr u)))))"

definition VerifyDNS ::
    "serving_env \<Rightarrow> domain_world \<Rightarrow> time \<Rightarrow> uid \<Rightarrow> uid \<Rightarrow> domain_world \<times> (http_err + unit)" where
  "VerifyDNS v w now org i =
    (case GetDomain (dw_db w) org i of
       Inl _ \<Rightarrow> (w, Inl HttpNotFound)
     | Inr r \<Rightarrow>
         (case enqueue_for_site (dw_panel w) now (dm_site r) TypeVerifyDomain
                 (sv_encode_job v (WireVerify (dm_id r) (dm_name r))) of
            (p, Inl _) \<Rightarrow> (w\<lparr>dw_panel := p\<rparr>, Inl HttpInternal)
          | (p, Inr _) \<Rightarrow> (w\<lparr>dw_panel := p\<rparr>, Inr ())))"

section \<open>Redirect handlers\<close>

definition redirect_reply :: "domain_err \<Rightarrow> http_err" where
  "redirect_reply e = (case e of RedirectTaken \<Rightarrow> HttpConflict | RedirectTooMany \<Rightarrow> HttpConflict
     | RedirectNotFound \<Rightarrow> HttpNotFound | _ \<Rightarrow> HttpValidation)"

definition AddRedirect ::
    "serving_env \<Rightarrow> domain_world \<Rightarrow> time \<Rightarrow> uid \<Rightarrow> uid \<Rightarrow> (string \<times> string \<times> int) option
      \<Rightarrow> domain_world \<times> (http_err + redirect_row)" where
  "AddRedirect v w now org site body =
    (case site_for_change w org site of
       Inl e \<Rightarrow> (w, Inl e)
     | Inr ws \<Rightarrow>
         (case body of
            None \<Rightarrow> (w, Inl HttpValidation)
          | Some (from, to, status) \<Rightarrow>
              (case CreateRedirect (p_sites (dw_panel w)) (dw_db w) now org (site_id ws) from to status of
                 (d, Inl e) \<Rightarrow> (w\<lparr>dw_db := d\<rparr>, Inl (redirect_reply e))
               | (d, Inr r) \<Rightarrow> (notifyChanged v now (w\<lparr>dw_db := d\<rparr>) org ws, Inr r))))"

definition PatchRedirect ::
    "serving_env \<Rightarrow> domain_world \<Rightarrow> time \<Rightarrow> uid \<Rightarrow> uid \<Rightarrow> (string option \<times> int option \<times> bool option) option
      \<Rightarrow> domain_world \<times> (http_err + redirect_row)" where
  "PatchRedirect v w now org i body =
    (case GetRedirect (dw_db w) org i of
       Inl _ \<Rightarrow> (w, Inl HttpNotFound)
     | Inr r \<Rightarrow>
         (case body of
            None \<Rightarrow> (w, Inl HttpValidation)
          | Some (to, status, enabled) \<Rightarrow>
              (case UpdateRedirect (dw_db w) now r to status enabled of
                 (d, Inl e) \<Rightarrow> (w\<lparr>dw_db := d\<rparr>, Inl (redirect_reply e))
               | (d, Inr u) \<Rightarrow> (notify_site v now (w\<lparr>dw_db := d\<rparr>) org (fw_site u), Inr u))))"

definition RemoveRedirect ::
    "serving_env \<Rightarrow> domain_world \<Rightarrow> time \<Rightarrow> uid \<Rightarrow> uid \<Rightarrow> domain_world \<times> (http_err + unit)" where
  "RemoveRedirect v w now org i =
    (case GetRedirect (dw_db w) org i of
       Inl _ \<Rightarrow> (w, Inl HttpNotFound)
     | Inr r \<Rightarrow>
         (case DeleteRedirectRow (dw_db w) org i of
            (d, Inl _) \<Rightarrow> (w\<lparr>dw_db := d\<rparr>, Inl HttpNotFound)
          | (d, Inr _) \<Rightarrow> (notify_site v now (w\<lparr>dw_db := d\<rparr>) org (fw_site r), Inr ())))"

section \<open>Scheduler and job outcomes\<close>

definition renewalHorizon :: duration where "renewalHorizon = 30 * 24 * hour"
definition renewalBatch :: nat where "renewalBatch = 100"
definition reconcileBatch :: nat where "reconcileBatch = 500"

text \<open>Enqueue the issuance, then flip the domain to issuing; a domain whose job is refused stays.\<close>

definition reissue :: "serving_env \<Rightarrow> time \<Rightarrow> domain_world \<Rightarrow> domain_row \<Rightarrow> domain_world" where
  "reissue v now w r =
    (case enqueue_for_site (dw_panel w) now (dm_site r) TypeIssueCertificate
            (sv_encode_job v (WireCert (dm_id r) (dm_name r) (dm_mode r))) of
       (p, Inl _) \<Rightarrow> w\<lparr>dw_panel := p\<rparr>
     | (p, Inr _) \<Rightarrow> w\<lparr>dw_panel := p, dw_db := fst (SetSSLMode (dw_db w) now (dm_id r) (dm_mode r))\<rparr>)"

definition enqueueRenewals :: "serving_env \<Rightarrow> time \<Rightarrow> domain_world \<Rightarrow> domain_world" where
  "enqueueRenewals v now w =
    foldl (reissue v now) w (ExpiringForRenewal (dw_db w) now renewalHorizon renewalBatch)"

definition retryFailedIssuances :: "serving_env \<Rightarrow> time \<Rightarrow> domain_world \<Rightarrow> domain_world" where
  "retryFailedIssuances v now w = foldl (reissue v now) w (ListFailedForRetry (dw_db w) renewalBatch)"

definition reconcileAllServing :: "serving_env \<Rightarrow> time \<Rightarrow> domain_world \<Rightarrow> domain_world" where
  "reconcileAllServing v now w =
    foldl (\<lambda>w ws. reconcileWebsiteServing v now w (site_id ws) (site_org ws) (site_server ws)) w
      (ListReadyForServing (p_sites (dw_panel w)) reconcileBatch)"

text \<open>The part of the outcome hook (\<open>OnJobFinished\<close>) that concerns domains.\<close>

definition domain_outcome ::
    "serving_env \<Rightarrow> ssl_codec \<Rightarrow> time \<Rightarrow> domain_world \<Rightarrow> job \<Rightarrow> string \<Rightarrow> domain_world" where
  "domain_outcome v c now w j result =
    (case ApplyDomainOutcome c (dw_db w) now j result of
       (d, site) \<Rightarrow>
         let w' = w\<lparr>dw_db := d\<rparr> in
         if site = nil_uid then w'
         else case GetByIDAny (p_sites (dw_panel w)) site of
                Inl _ \<Rightarrow> w'
              | Inr ws \<Rightarrow> reconcileWebsiteServing v now w' (site_id ws) (site_org ws) (site_server ws))"

end
