(* ===== verification/DomainProperties.thy ===== *)
theory DomainProperties
  imports DomainServing
begin

text \<open>
  The properties of domains, certificates and redirects: what the two tables always hold, which
  vhost a certificate job finds, what renewals do to a served certificate, and where the serving
  reconcile and the redirects of removed domains go wrong.
\<close>

section \<open>What the tables hold\<close>

definition domain_ok :: "domain_row \<Rightarrow> bool" where
  "domain_ok r \<longleftrightarrow> domain_check (dm_name r) \<and> (dm_docroot r = [] \<or> short_relative (dm_docroot r))
    \<and> (dm_state r = SSLStateIssuing \<longrightarrow> dm_mode r \<noteq> SSLNone)
    \<and> (dm_state r = SSLStateActive \<longrightarrow> dm_issued r \<noteq> None \<and> dm_expires r \<noteq> None)"

definition redirect_ok :: "redirect_row \<Rightarrow> bool" where
  "redirect_ok r \<longleftrightarrow> isHostname (fw_from r) \<and> fw_status r \<in> set redirect_statuses \<and> ValidateRedirectToURL (fw_to r) = None"

definition domains_ok :: "domain_db \<Rightarrow> bool" where
  "domains_ok d \<longleftrightarrow> list_all (\<lambda>r. dm_id r < dd_next d \<and> domain_ok r) (dd_domains d)
    \<and> distinct (map dm_id (dd_domains d)) \<and> distinct (map dm_name (dd_domains d))"

definition redirects_ok :: "domain_db \<Rightarrow> bool" where
  "redirects_ok d \<longleftrightarrow> list_all (\<lambda>r. fw_id r < dd_next d \<and> redirect_ok r) (dd_redirects d)
    \<and> distinct (map fw_id (dd_redirects d)) \<and> distinct (map fw_from (dd_redirects d))"

definition domain_db_ok :: "domain_db \<Rightarrow> bool" where
  "domain_db_ok d \<longleftrightarrow> domains_ok d \<and> redirects_ok d"

text \<open>The steps of the control plane on these tables: the handlers, the registration of a site's
  primary domain, the scans, the outcomes of jobs, the removal of a site, and anything that
  happens to the queue and the websites in between.\<close>

inductive domain_step :: "serving_env \<Rightarrow> ssl_codec \<Rightarrow> domain_world \<Rightarrow> domain_world \<Rightarrow> bool" for v c where
  primary: "domain_step v c w (w\<lparr>dw_db := fst (CreateDomain (dw_db w) now org site name KindPrimary)\<rparr>)"
| add: "domain_step v c w (fst (AddDomain v w now org site body))"
| remove: "domain_step v c w (fst (RemoveDomain v w now org site i))"
| docroot: "domain_step v c w (fst (UpdateDomain v w now org i suffix))"
| ssl: "domain_step v c w (fst (SetSSL v w now org i mode))"
| verify: "domain_step v c w (fst (VerifyDNS v w now org i))"
| redirect: "domain_step v c w (fst (AddRedirect v w now org site target))"
| patch: "domain_step v c w (fst (PatchRedirect v w now org i change))"
| unredirect: "domain_step v c w (fst (RemoveRedirect v w now org i))"
| renew: "domain_step v c w (enqueueRenewals v now w)"
| retry: "domain_step v c w (retryFailedIssuances v now w)"
| sweep: "domain_step v c w (reconcileAllServing v now w)"
| outcome: "domain_step v c w (domain_outcome v c now w j result)"
| cascade: "domain_step v c w (w\<lparr>dw_db := drop_website (dw_db w) site\<rparr>)"
| other: "domain_step v c w (w\<lparr>dw_panel := p\<rparr>)"

definition empty_domains :: domain_db where
  "empty_domains = \<lparr>dd_domains = [], dd_redirects = [], dd_next = 1, dd_events = []\<rparr>"

section \<open>Operations keep the tables sound\<close>

lemma emit_ok [simp]: "domain_db_ok (emitSSLEvent d e) = domain_db_ok d"
  by (simp add: domain_db_ok_def domains_ok_def redirects_ok_def emitSSLEvent_def)

lemma distinct_filter: "distinct (map f xs) \<Longrightarrow> distinct (map f (filter P xs))"
  by (induction xs) auto

lemma drop_domains_ok: "domain_db_ok d \<Longrightarrow> domain_db_ok (d\<lparr>dd_domains := filter P (dd_domains d)\<rparr>)"
  by (auto simp: domain_db_ok_def domains_ok_def redirects_ok_def list_all_iff intro: distinct_filter)

lemma drop_redirects_ok: "domain_db_ok d \<Longrightarrow> domain_db_ok (d\<lparr>dd_redirects := filter P (dd_redirects d)\<rparr>)"
  by (auto simp: domain_db_ok_def domains_ok_def redirects_ok_def list_all_iff intro: distinct_filter)

lemma change_domains_ok:
  assumes "domain_db_ok d" and "\<And>r. dm_id (f r) = dm_id r" and "\<And>r. dm_name (f r) = dm_name r"
    and "\<And>r. domain_ok r \<Longrightarrow> domain_ok (f r)"
  shows "domain_db_ok (d\<lparr>dd_domains := update_where P f (dd_domains d)\<rparr>)"
  using assms
  by (auto simp: domain_db_ok_def domains_ok_def redirects_ok_def map_update_where_same intro!: list_all_update_where)

lemma set_domain_ok:
  assumes "domain_db_ok d" and "\<And>r. dm_id (f r) = dm_id r" and "\<And>r. dm_name (f r) = dm_name r"
    and "\<And>r. domain_ok r \<Longrightarrow> domain_ok (f r)"
  shows "domain_db_ok (fst (set_domain d i f))"
  using assms change_domains_ok [of d f] by (simp add: set_domain_def)

lemma create_domain_ok:
  assumes "domain_db_ok d"
  shows "domain_db_ok (fst (CreateDomain d now org site name kind))"
proof -
  have "domain_ok (new_domain i now org site name kind)" if "domain_check name" for i
    using that by (simp add: domain_ok_def new_domain_def)
  with assms show ?thesis
    by (auto simp: CreateDomain_def domain_db_ok_def domains_ok_def redirects_ok_def new_domain_def
        Let_def list_all_iff list_ex_iff)
qed

lemma mark_active_ok: "domain_db_ok d \<Longrightarrow> domain_db_ok (fst (MarkSSLActive d now i t))"
  unfolding MarkSSLActive_def by (rule set_domain_ok) (auto simp: domain_ok_def)

lemma mark_failed_ok: "domain_db_ok d \<Longrightarrow> domain_db_ok (fst (MarkSSLFailed d now i m))"
  unfolding MarkSSLFailed_def by (rule set_domain_ok) (auto simp: domain_ok_def)

lemma mark_dns_ok: "domain_db_ok d \<Longrightarrow> domain_db_ok (fst (MarkDNSVerified d now i b))"
  unfolding MarkDNSVerified_def by (rule set_domain_ok) (auto simp: domain_ok_def)

lemma set_mode_ok: "domain_db_ok d \<Longrightarrow> domain_db_ok (fst (SetSSLMode d now i m))"
proof -
  assume ok: "domain_db_ok d"
  have "domain_db_ok (fst (set_domain d i (\<lambda>r. r\<lparr>dm_mode := m, dm_state := mode_state m, dm_error := [], dm_updated := now\<rparr>)))"
    using ok by (rule set_domain_ok) (auto simp: domain_ok_def mode_state_def split: if_splits)
  with ok show ?thesis by (auto simp: SetSSLMode_def Let_def split: sum.splits)
qed

lemma set_docroot_ok:
  "domain_db_ok d \<Longrightarrow> s = [] \<or> short_relative s \<Longrightarrow> domain_db_ok (fst (SetDomainDocroot d now i s))"
  unfolding SetDomainDocroot_def by (rule set_domain_ok) (auto simp: domain_ok_def)

lemma delete_domain_ok: "domain_db_ok d \<Longrightarrow> domain_db_ok (fst (DeleteDomainRow d org i))"
  by (simp add: DeleteDomainRow_def Let_def drop_domains_ok)

lemma delete_redirect_ok: "domain_db_ok d \<Longrightarrow> domain_db_ok (fst (DeleteRedirectRow d org i))"
  by (simp add: DeleteRedirectRow_def Let_def drop_redirects_ok)

lemma drop_website_ok: "domain_db_ok d \<Longrightarrow> domain_db_ok (drop_website d site)"
  using drop_redirects_ok [OF drop_domains_ok] by (simp add: drop_website_def)

lemma create_redirect_ok:
  assumes "domain_db_ok d"
  shows "domain_db_ok (fst (CreateRedirect s d now org site from to status))"
proof (cases "redirect_checks s d site (normalizeDomain from) to (if status = 0 then 301 else status)")
  case (Some e)
  with assms show ?thesis by (simp add: CreateRedirect_def Let_def)
next
  case None
  then have "isHostname (normalizeDomain from)" "(if status = 0 then 301 else status) \<in> set redirect_statuses"
      "ValidateRedirectToURL to = None"
    by (simp_all add: redirect_checks_def checks_None)
  then have row: "redirect_ok \<lparr>fw_id = i, fw_site = site, fw_org = org, fw_from = normalizeDomain from, fw_to = to,
      fw_status = (if status = 0 then 301 else status), fw_enabled = True, fw_created = now, fw_updated = now\<rparr>" for i
    by (simp add: redirect_ok_def)
  have "domain_db_ok (d\<lparr>dd_redirects := dd_redirects d @ [r], dd_next := dd_next d + 1\<rparr>)"
    if "redirect_ok r" "fw_id r = dd_next d" "\<not> list_ex (\<lambda>x. fw_from x = fw_from r) (dd_redirects d)" for r
    using assms that
    by (auto simp: domain_db_ok_def domains_ok_def redirects_ok_def list_all_iff list_ex_iff)
  from this [OF row] None assms show ?thesis by (simp add: CreateRedirect_def Let_def)
qed


lemma update_redirect_ok:
  assumes "domain_db_ok d" and "r \<in> set (dd_redirects d)"
  shows "domain_db_ok (fst (UpdateRedirect d now r to status enabled))"
proof (cases "also_err (case to of None \<Rightarrow> None | Some u \<Rightarrow> map_option RedirectRefused (ValidateRedirectToURL u))
            (case status of None \<Rightarrow> None | Some s \<Rightarrow>
               err_unless (s \<in> set redirect_statuses) (RedirectRefused ''status_code must be one of 301, 302, 307, 308''))")
  case (Some e)
  with assms show ?thesis by (simp add: UpdateRedirect_def)
next
  case None
  have "redirect_ok r" using assms by (auto simp: domain_db_ok_def redirects_ok_def list_all_iff)
  with None have "redirect_ok (x\<lparr>fw_to := case_option (fw_to r) id to, fw_status := case_option (fw_status r) id status,
      fw_enabled := case_option (fw_enabled x) id enabled, fw_updated := now\<rparr>)" if "redirect_ok x" for x
    using that by (auto simp: redirect_ok_def checks_None split: option.splits)
  then have "list_all (\<lambda>r. fw_id r < dd_next d \<and> redirect_ok r) (update_where (\<lambda>x. fw_id x = fw_id r)
      (\<lambda>x. x\<lparr>fw_to := case_option (fw_to r) id to, fw_status := case_option (fw_status r) id status,
         fw_enabled := case_option (fw_enabled x) id enabled, fw_updated := now\<rparr>) (dd_redirects d))"
    using assms(1) by (auto simp: domain_db_ok_def redirects_ok_def intro!: list_all_update_where)
  with None assms(1) show ?thesis
    by (simp add: UpdateRedirect_def Let_def domain_db_ok_def domains_ok_def redirects_ok_def map_update_where_same
        split: option.splits)
qed

section \<open>Handlers keep the tables sound\<close>

lemma reconcile_db [simp]: "dw_db (reconcileWebsiteServing v now w i org srv) = dw_db w"
  by (simp add: reconcileWebsiteServing_def split: sum.splits)

lemma notify_db [simp]: "dw_db (notifyChanged v now w org ws) = dw_db w"
  by (simp add: notifyChanged_def)

lemma notify_site_db [simp]: "dw_db (notify_site v now w org i) = dw_db w"
  by (simp add: notify_site_def split: sum.splits)

lemma reissue_ok: "domain_db_ok (dw_db w) \<Longrightarrow> domain_db_ok (dw_db (reissue v now w r))"
  by (simp add: reissue_def set_mode_ok split: prod.splits sum.splits)

lemma reissue_all_ok: "domain_db_ok (dw_db w) \<Longrightarrow> domain_db_ok (dw_db (foldl (reissue v now) w rs))"
  by (induction rs arbitrary: w) (simp_all add: reissue_ok)

lemma sweep_db [simp]:
  "dw_db (foldl (\<lambda>w ws. reconcileWebsiteServing v now w (site_id ws) (site_org ws) (site_server ws)) w l) = dw_db w"
  by (induction l arbitrary: w) simp_all

lemma outcome_ok: "domain_db_ok d \<Longrightarrow> domain_db_ok (fst (ApplyDomainOutcome c d now j result))"
  by (simp add: ApplyDomainOutcome_def Let_def mark_active_ok mark_failed_ok mark_dns_ok split: option.splits sum.splits)

lemma add_domain_ok: "domain_db_ok (dw_db w) \<Longrightarrow> domain_db_ok (dw_db (fst (AddDomain v w now org site body)))"
proof -
  assume ok: "domain_db_ok (dw_db w)"
  have created: "domain_db_ok d" if "CreateDomain (dw_db w) now org i name k = (d, x)" for i name k d x
    using create_domain_ok [OF ok, of now org i name k] that by simp
  show ?thesis
    using ok by (auto simp: AddDomain_def Let_def delete_domain_ok set_docroot_ok created
        split: sum.splits option.splits prod.splits domain_err.splits)
qed

lemma GetRedirect_Inr: "GetRedirect d org i = Inr r \<Longrightarrow> r \<in> set (dd_redirects d) \<and> fw_id r = i \<and> fw_org r = org"
  by (auto simp: GetRedirect_def select_one_def find_Some_iff in_set_conv_nth split: option.splits)

lemma GetDomain_Inr: "GetDomain d org i = Inr r \<Longrightarrow> r \<in> set (dd_domains d) \<and> dm_id r = i \<and> dm_org r = org"
  by (auto simp: GetDomain_def select_one_def find_Some_iff in_set_conv_nth split: option.splits)

lemma remove_domain_ok: "domain_db_ok (dw_db w) \<Longrightarrow> domain_db_ok (dw_db (fst (RemoveDomain v w now org site i)))"
  using delete_domain_ok [of "dw_db w" org i]
  by (auto simp: RemoveDomain_def split: sum.splits prod.splits)

lemma update_domain_ok: "domain_db_ok (dw_db w) \<Longrightarrow> domain_db_ok (dw_db (fst (UpdateDomain v w now org i body)))"
proof -
  assume ok: "domain_db_ok (dw_db w)"
  have set: "domain_db_ok d" if "SetDomainDocroot (dw_db w) now i s = (d, x)" "s \<noteq> [] \<longrightarrow> short_relative s" for s d x
    using set_docroot_ok [OF ok, of s now i] that by auto
  show ?thesis
    using ok by (auto simp: UpdateDomain_def Let_def intro: set split: sum.splits prod.splits option.splits)
qed

lemma set_ssl_ok: "domain_db_ok (dw_db w) \<Longrightarrow> domain_db_ok (dw_db (fst (SetSSL v w now org i body)))"
proof -
  assume ok: "domain_db_ok (dw_db w)"
  have set: "domain_db_ok d" if "SetSSLMode (dw_db w) now i m = (d, x)" for m d x
    using set_mode_ok [OF ok, of now i m] that by simp
  show ?thesis
    using ok by (auto simp: SetSSL_def Let_def set split: sum.splits prod.splits option.splits)
qed

lemma verify_ok: "domain_db_ok (dw_db w) \<Longrightarrow> domain_db_ok (dw_db (fst (VerifyDNS v w now org i)))"
  by (auto simp: VerifyDNS_def split: sum.splits prod.splits)

lemma add_redirect_ok: "domain_db_ok (dw_db w) \<Longrightarrow> domain_db_ok (dw_db (fst (AddRedirect v w now org site body)))"
proof -
  assume ok: "domain_db_ok (dw_db w)"
  have made: "domain_db_ok d" if "CreateRedirect s (dw_db w) now org i f t n = (d, x)" for s i f t n d x
    using create_redirect_ok [OF ok, of s now org i f t n] that by simp
  show ?thesis
    using ok by (auto simp: AddRedirect_def made split: sum.splits prod.splits option.splits)
qed

lemma patch_redirect_ok: "domain_db_ok (dw_db w) \<Longrightarrow> domain_db_ok (dw_db (fst (PatchRedirect v w now org i body)))"
proof -
  assume ok: "domain_db_ok (dw_db w)"
  have set: "domain_db_ok d" if "UpdateRedirect (dw_db w) now r t s e = (d, x)" "GetRedirect (dw_db w) org i = Inr r" for r t s e d x
    using update_redirect_ok [OF ok, of r now t s e] GetRedirect_Inr [OF that(2)] that(1) by simp
  show ?thesis
    using ok set by (auto simp: PatchRedirect_def split: sum.splits prod.splits option.splits)
qed

lemma remove_redirect_ok: "domain_db_ok (dw_db w) \<Longrightarrow> domain_db_ok (dw_db (fst (RemoveRedirect v w now org i)))"
  using delete_redirect_ok [of "dw_db w" org i]
  by (auto simp: RemoveRedirect_def split: sum.splits prod.splits)

lemma domain_outcome_ok: "domain_db_ok (dw_db w) \<Longrightarrow> domain_db_ok (dw_db (domain_outcome v c now w j result))"
  using outcome_ok [of "dw_db w" c now j result]
  by (auto simp: domain_outcome_def Let_def split: prod.splits sum.splits)

lemma domain_step_ok: "domain_step v c w w' \<Longrightarrow> domain_db_ok (dw_db w) \<Longrightarrow> domain_db_ok (dw_db w')"
  by (induction rule: domain_step.induct)
    (simp_all add: create_domain_ok add_domain_ok remove_domain_ok update_domain_ok set_ssl_ok verify_ok
      add_redirect_ok patch_redirect_ok remove_redirect_ok enqueueRenewals_def retryFailedIssuances_def
      reconcileAllServing_def reissue_all_ok domain_outcome_ok drop_website_ok)

lemma empty_domains_ok: "domain_db_ok empty_domains"
  by (simp add: domain_db_ok_def domains_ok_def redirects_ok_def empty_domains_def)

lemma domain_steps_ok: "(domain_step v c)\<^sup>*\<^sup>* w w' \<Longrightarrow> domain_db_ok (dw_db w) \<Longrightarrow> domain_db_ok (dw_db w')"
  by (induction rule: rtranclp_induct) (auto intro: domain_step_ok)

section \<open>A concrete control plane\<close>

definition sample_serving :: serving_env where
  "sample_serving = \<lparr>sv_us = nat_str, sv_encode = (\<lambda>p. Some (concat (map sd_cert (ds_domains p)))),
     sv_encode_job = (\<lambda>j. Some (case j of WireCert i n m \<Rightarrow> n | WireVerify i n \<Rightarrow> n)), sv_b64 = id,
     sv_config = (\<lambda>i. None), sv_app = (\<lambda>i. None), sv_free_perk = (\<lambda>i. False), sv_perk = None,
     sv_package = (\<lambda>i. Some 1024), sv_php = (\<lambda>i. None)\<rparr>"

definition sample_codec :: ssl_codec where
  "sample_codec = \<lparr>cd_cert = (\<lambda>s. Some (1, s)), cd_after = (\<lambda>s. 90 * 24 * hour), cd_dns = (\<lambda>s. Some 1), cd_matches = (\<lambda>s. True)\<rparr>"

text \<open>A ready site with its primary domain, an alias and a redirect of the alias.\<close>

definition sample_world :: domain_world where
  "sample_world =
    (let w0 = \<lparr>dw_panel = sample_panel SiteReady, dw_db = empty_domains\<rparr>;
         w1 = w0\<lparr>dw_db := fst (CreateDomain (dw_db w0) 0 3 1 ''a.com'' KindPrimary)\<rparr>;
         w2 = fst (AddDomain sample_serving w1 1 3 1 (Some (''b.com'', ''alias'', [])));
         w3 = fst (AddRedirect sample_serving w2 2 3 1 (Some (''b.com'', ''https://a.com/'', 301)))
     in w3)"

definition sample_alias :: domain_row where
  "sample_alias = (new_domain 2 1 3 1 ''b.com'' KindAlias)"

definition sample_redirect :: redirect_row where
  "sample_redirect = \<lparr>fw_id = 3, fw_site = 1, fw_org = 3, fw_from = ''b.com'', fw_to = ''https://a.com/'', fw_status = 301,
     fw_enabled = True, fw_created = 2, fw_updated = 2\<rparr>"

lemma sample_world_db:
  "dw_db sample_world = \<lparr>dd_domains = [new_domain 1 0 3 1 ''a.com'' KindPrimary, sample_alias],
     dd_redirects = [sample_redirect], dd_next = 4, dd_events = []\<rparr>"
  by code_simp

lemma sample_world_reached:
  "(domain_step sample_serving sample_codec)\<^sup>*\<^sup>* \<lparr>dw_panel = sample_panel SiteReady, dw_db = empty_domains\<rparr> sample_world"
  unfolding sample_world_def Let_def
  by (rule rtranclp.rtrancl_into_rtrancl, rule rtranclp.rtrancl_into_rtrancl, rule r_into_rtranclp,
      rule domain_step.primary, rule domain_step.add, rule domain_step.redirect)

lemma sample_world_ok: "domain_db_ok (dw_db sample_world)"
  using domain_steps_ok [OF sample_world_reached] by (simp add: empty_domains_ok)

section \<open>The tables\<close>

lemma ListDomains_set: "set (ListDomains d site) = {r \<in> set (dd_domains d). dm_site r = site}"
  by (auto simp: ListDomains_def)

lemma ListDomains_names:
  assumes "domains_ok d"
  shows "distinct (map dm_name (ListDomains d site))"
proof -
  have inj: "inj_on dm_name (set (dd_domains d))" and d: "distinct (dd_domains d)"
    using assms by (auto simp: domains_ok_def distinct_map)
  have "distinct (ListDomains d site)"
    using d by (auto simp: ListDomains_def)
  moreover have "inj_on dm_name (set (ListDomains d site))"
    using inj by (rule inj_on_subset) (auto simp: ListDomains_set)
  ultimately show ?thesis by (simp add: distinct_map)
qed

lemma serving_names: "map sd_name (ListForWebsiteServing d site) = map dm_name (ListDomains d site)"
  by (simp add: ListForWebsiteServing_def serving_of_def Let_def comp_def)

lemma served_names_disjoint:
  assumes "domains_ok d" and "a \<noteq> b"
  shows "set (map dm_name (ListDomains d a)) \<inter> set (map dm_name (ListDomains d b)) = {}"
proof -
  have "inj_on dm_name (set (dd_domains d))" using assms(1) by (auto simp: domains_ok_def distinct_map)
  with assms(2) show ?thesis by (auto simp: ListDomains_set inj_on_def)
qed

text \<open>C16: After any sequence of the panel's steps on domains, the lists of domains it tells the agents
  to serve name every domain at most once: never twice for a site, never for two sites.\<close>

theorem domain_served_once:
  assumes "(domain_step v c)\<^sup>*\<^sup>* \<lparr>dw_panel = p, dw_db = empty_domains\<rparr> w" and "distinct sites"
  shows "distinct (map sd_name (concat (map (ListForWebsiteServing (dw_db w)) sites)))"
proof -
  have ok: "domains_ok (dw_db w)"
    using domain_steps_ok [OF assms(1)] empty_domains_ok by (simp add: domain_db_ok_def)
  from assms(2) show ?thesis
  proof (induction sites)
    case (Cons a sites)
    have "set (map sd_name (concat (map (ListForWebsiteServing (dw_db w)) sites)))
        = (\<Union>b \<in> set sites. set (map dm_name (ListDomains (dw_db w) b)))"
      unfolding serving_names [symmetric] by auto
    moreover have "set (map dm_name (ListDomains (dw_db w) a)) \<inter> set (map dm_name (ListDomains (dw_db w) b)) = {}"
      if "b \<in> set sites" for b
      using Cons.prems that by (intro served_names_disjoint [OF ok]) auto
    ultimately have "set (map dm_name (ListDomains (dw_db w) a))
        \<inter> set (map sd_name (concat (map (ListForWebsiteServing (dw_db w)) sites))) = {}" by blast
    with Cons ListDomains_names [OF ok, of a] show ?case
      by (simp only: list.map concat.simps map_append distinct_append serving_names distinct.simps simp_thms)
  qed simp
qed

lemma domain_served_once_witness:
  "distinct (map sd_name (concat (map (ListForWebsiteServing (dw_db sample_world)) [1, 2])))"
  by (rule domain_served_once [OF sample_world_reached]) simp

section \<open>The desired state\<close>

text \<open>The payload of the serving reconcile is the payload of the website handlers with the pool
  limits of the package, the PHP settings, the request timeout and the application's commands and
  environment erased, and the application's port only kept when the application store knows it.\<close>

theorem reconcile_payload_partial:
  "reconcile_payload v d w org =
    (desired_payload v s d w org (site_unix_user w) (site_runtime_version w))
      \<lparr>ds_fpm_memory := 0, ds_fpm_children := 0, ds_php := [], ds_timeout := 0, ds_startup := [], ds_build := [],
       ds_app_env := [], ds_app_port := (case sv_app v (site_id w) of None \<Rightarrow> 0 | Some port \<Rightarrow> port)\<rparr>"
  by (simp add: reconcile_payload_def desired_payload_def with_php_def with_app_port_def with_limits_def
      with_redirects_def with_domains_def with_config_def with_app_def site_desired_def split: option.splits)

section \<open>Jobs for a site\<close>

lemma map_of_sites: "map_of (map (\<lambda>w. (site_id w, site_server w)) ws) i = map_option site_server (by_key site_id i ws)"
  by (induction ws) auto

definition reachable_site :: "panel \<Rightarrow> uid \<Rightarrow> website \<Rightarrow> bool" where
  "reachable_site p i ws \<longleftrightarrow> by_key site_id i (s_rows (p_sites p)) = Some ws \<and> site_server ws \<in> fst ` set (q_servers (p_queue p))"

lemma reachable_refs:
  assumes "reachable_site p i ws"
  shows "refs_ok (sync p) (site_server ws) (Some i)"
proof -
  from assms have "ws \<in> set (s_rows (p_sites p))" "site_id ws = i"
    by (auto simp: reachable_site_def dest: by_key_Some)
  then show ?thesis using assms by (auto simp: refs_ok_def sync_def reachable_site_def image_iff)
qed

lemma enqueue_for_site_new:
  assumes "reachable_site p i ws"
  shows "\<exists>p' j. enqueue_for_site p now i t (Some js) = (p', Inr j) \<and> p_sites p' = p_sites p
    \<and> q_servers (p_queue p') = q_servers (p_queue p) \<and> q_jobs (p_queue p') = q_jobs (p_queue p) @ [j]
    \<and> job_type_of j = t \<and> job_website j = Some i \<and> job_payload j = js \<and> job_server j = site_server ws
    \<and> job_created_at j = now \<and> job_status j = StatusPending"
  using assms reachable_refs [OF assms]
  by (simp add: enqueue_for_site_def EnqueueForWebsite_def Enqueue_def EnqueueIdempotent_def insert_job_def Let_def
      new_job_def reachable_site_def sync_def map_of_sites)

lemma enqueue_keyed_new:
  assumes "reachable_site p i ws" and "\<not> list_ex (key_conflict k) (q_jobs (p_queue p))" and "k \<noteq> []"
  shows "\<exists>j. p_sites (fst (enqueue p now (site_server ws) (Some i) t (Some js) k)) = p_sites p
    \<and> q_servers (p_queue (fst (enqueue p now (site_server ws) (Some i) t (Some js) k))) = q_servers (p_queue p)
    \<and> q_jobs (p_queue (fst (enqueue p now (site_server ws) (Some i) t (Some js) k))) = q_jobs (p_queue p) @ [j]
    \<and> job_type_of j = t \<and> job_payload j = js \<and> job_server j = site_server ws \<and> job_created_at j = now
    \<and> job_status j = StatusPending"
proof -
  have "select_one (key_conflict k) (q_jobs (p_queue p)) = None"
    using assms(2) by (auto simp: select_none_iff list_ex_iff)
  then show ?thesis
    using assms(3) reachable_refs [OF assms(1)]
    by (simp add: enqueue_def EnqueueIdempotent_def insert_job_def Let_def new_job_def sync_def)
qed

lemma live_key_unique:
  "distinct (live_keys rows) \<Longrightarrow> x \<in> set rows \<Longrightarrow> y \<in> set rows \<Longrightarrow> key_conflict k x \<Longrightarrow> key_conflict k y \<Longrightarrow> x = y"
proof (induction rows)
  case (Cons r rows)
  have "k \<notin> set (live_keys rows)" if "key_conflict k r"
    using Cons.prems(1) that by (auto simp: key_conflict_def)
  with Cons show ?case by (auto simp: set_live_keys split: if_splits)
qed simp

lemma select_keyed:
  assumes "distinct (map key rows)" and "by_key key k rows = Some r" and "Q r"
  shows "select_one (\<lambda>x. key x = k \<and> Q x) rows = Some r"
  using assms by (induction rows) (auto simp: select_one_def split: if_splits dest: by_key_Some)

lemma keyed_select:
  assumes "distinct (map key rows)" and "select_one (\<lambda>x. key x = k \<and> Q x) rows = Some r"
  shows "by_key key k rows = Some r"
proof -
  from assms(2) have "r \<in> set rows" "key r = k" by (auto dest: select_someD)
  with by_key_distinct [OF assms(1), of r] show ?thesis by simp
qed

lemma site_lookup:
  "sites_ok s \<Longrightarrow> by_key site_id i (s_rows s) = Some ws \<Longrightarrow> site_org ws = org \<Longrightarrow> SiteByID s org i = Inr ws"
  using select_keyed [of site_id "s_rows s" i ws "\<lambda>w. site_org w = org"] by (simp add: SiteByID_def sites_ok_def)

lemma notify_site_new:
  assumes "sites_ok (p_sites (dw_panel w))" and "reachable_site (dw_panel w) i ws"
    and "site_org ws = org" and "site_status ws = SiteReady"
    and "\<not> list_ex (key_conflict (provision_key v i)) (q_jobs (p_queue (dw_panel w)))"
    and "sv_encode v (reconcile_payload v (dw_db w) ws org) = Some js"
  shows "\<exists>a. q_jobs (p_queue (dw_panel (notify_site v now w org i))) = q_jobs (p_queue (dw_panel w)) @ [a]
    \<and> job_type_of a = TypeProvisionWebsite \<and> job_payload a = js \<and> job_server a = site_server ws
    \<and> job_created_at a = now \<and> job_status a = StatusPending
    \<and> reachable_site (dw_panel (notify_site v now w org i)) i ws"
proof -
  have i: "by_key site_id i (s_rows (p_sites (dw_panel w))) = Some ws" "site_id ws = i"
    using assms(2) by (auto simp: reachable_site_def dest: by_key_Some)
  have "provision_key v i \<noteq> []" by (simp add: provision_key_def)
  from enqueue_keyed_new [OF assms(2,5) this, of now TypeProvisionWebsite js]
  show ?thesis
    using i assms(2,4,6) site_lookup [OF assms(1) i(1) assms(3)]
    by (auto simp: notify_site_def notifyChanged_def reconcileWebsiteServing_def GetByIDAny_def reachable_site_def)
qed

lemma SetSSLMode_Inr:
  assumes "domain_db_ok d" and "GetDomain d org i = Inr r" and "SetSSLMode d now i m = (d', Inr u)"
  shows "dm_site u = dm_site r \<and> dm_mode u = m \<and> dm_id u = i \<and> dm_name u = dm_name r"
proof -
  have "by_key dm_id i (dd_domains d) = Some r"
    using assms(1,2) keyed_select [of dm_id "dd_domains d" i "\<lambda>x. dm_org x = org" r]
    by (auto simp: domain_db_ok_def domains_ok_def GetDomain_def split: option.splits)
  with assms(3) by_key_Some [of dm_id i "dd_domains d" r] show ?thesis
    by (auto simp: SetSSLMode_def GetDomainAny_def Let_def)
qed

lemma SetSSL_Inr:
  assumes "GetDomain (dw_db w) org i = Inr r" and "SetSSL v w now org i (Some mode) = (w', Inr u)" and "mode \<noteq> ''none''"
  obtains m d p j where "ssl_mode_of mode = Some m" "m \<noteq> SSLNone" "SetSSLMode (dw_db w) now i m = (d, Inr u)"
    "enqueue_for_site (dw_panel (notify_site v now (w\<lparr>dw_db := d\<rparr>) org (dm_site r))) now (dm_site u) TypeIssueCertificate
       (sv_encode_job v (WireCert (dm_id u) (dm_name u) m)) = (p, Inr j)"
    "dw_panel w' = p" "dw_db w' = d"
proof -
  from assms(1,2) obtain m where m: "ssl_mode_of mode = Some m" by (auto simp: SetSSL_def split: option.splits)
  with assms(3) have ne: "m \<noteq> SSLNone" by (auto simp: ssl_mode_of_def split: if_splits)
  show thesis
    using assms(1,2) m ne that [of m] by (auto simp: SetSSL_def Let_def split: prod.splits sum.splits)
qed

text \<open>Setting a certificate mode on a ready site that no provision job is under way for enqueues, in
  this order and on the same server, a provision job with the state after the change and the
  issuance job: the vhost that answers the challenge is rendered first.\<close>

theorem vhost_before_certificate:
  assumes "sites_ok (p_sites (dw_panel w))" and "domain_db_ok (dw_db w)" and "reachable_site (dw_panel w) (dm_site r) ws"
    and "site_org ws = org" and "site_status ws = SiteReady" and "GetDomain (dw_db w) org i = Inr r"
    and "\<not> list_ex (key_conflict (provision_key v (dm_site r))) (q_jobs (p_queue (dw_panel w)))"
    and "SetSSL v w now org i (Some mode) = (w', Inr u)" and "mode \<noteq> ''none''"
    and "sv_encode v (reconcile_payload v (dw_db w') ws org) = Some js"
  shows "\<exists>a b. q_jobs (p_queue (dw_panel w')) = q_jobs (p_queue (dw_panel w)) @ [a, b]
    \<and> job_type_of a = TypeProvisionWebsite \<and> job_payload a = js
    \<and> job_type_of b = TypeIssueCertificate \<and> sv_encode_job v (WireCert i (dm_name r) (dm_mode u)) = Some (job_payload b)
    \<and> job_server a = job_server b \<and> job_created_at a = job_created_at b
    \<and> job_status a = StatusPending \<and> job_status b = StatusPending"
proof (rule SetSSL_Inr [OF assms(6,8,9)])
  fix m d p j
  assume m: "SetSSLMode (dw_db w) now i m = (d, Inr u)" and w': "dw_panel w' = p" "dw_db w' = d"
    and enq: "enqueue_for_site (dw_panel (notify_site v now (w\<lparr>dw_db := d\<rparr>) org (dm_site r))) now (dm_site u)
      TypeIssueCertificate (sv_encode_job v (WireCert (dm_id u) (dm_name u) m)) = (p, Inr j)"
  note u = SetSSLMode_Inr [OF assms(2,6) m]
  obtain a where a: "q_jobs (p_queue (dw_panel (notify_site v now (w\<lparr>dw_db := d\<rparr>) org (dm_site r)))) = q_jobs (p_queue (dw_panel w)) @ [a]"
    "job_type_of a = TypeProvisionWebsite" "job_payload a = js" "job_server a = site_server ws" "job_created_at a = now"
    "job_status a = StatusPending" "reachable_site (dw_panel (notify_site v now (w\<lparr>dw_db := d\<rparr>) org (dm_site r))) (dm_site r) ws"
    using notify_site_new [of "w\<lparr>dw_db := d\<rparr>" "dm_site r" ws org v js now] assms(1,3,4,5,7,10) w'(2) by auto
  obtain jt where jt: "sv_encode_job v (WireCert i (dm_name r) m) = Some jt"
    using enq by (auto simp: enqueue_for_site_def EnqueueForWebsite_def Enqueue_def EnqueueIdempotent_def Let_def u
        split: option.splits prod.splits)
  show ?thesis
    using enqueue_for_site_new [OF a(7), of now TypeIssueCertificate jt] enq a(1-6) u jt w'(1) by auto
qed

lemma vhost_before_certificate_witness:
  "\<exists>a b. q_jobs (p_queue (dw_panel (fst (SetSSL sample_serving (sample_world\<lparr>dw_panel := sample_panel SiteReady\<rparr>) 5 3 2
      (Some ''letsencrypt''))))) = [a, b] \<and> job_type_of a = TypeProvisionWebsite \<and> job_type_of b = TypeIssueCertificate"
proof -
  let ?w = "sample_world\<lparr>dw_panel := sample_panel SiteReady\<rparr>"
  let ?r = "SetSSL sample_serving ?w 5 3 2 (Some ''letsencrypt'')"
  let ?ws = "(new_site 1 0 3 7 9 ''ab'' [] RuntimePHP ''8.3'' ''nginx'' ''u'')\<lparr>site_status := SiteReady\<rparr>"
  have db: "domain_db_ok (dw_db ?w)" using sample_world_ok by simp
  have sites: "sites_ok (p_sites (dw_panel ?w))" using sample_panel_ok by simp
  have site: "reachable_site (dw_panel ?w) (dm_site sample_alias) ?ws" by code_simp
  have got: "GetDomain (dw_db ?w) 3 2 = Inr sample_alias" by code_simp
  have idle: "\<not> list_ex (key_conflict (provision_key sample_serving (dm_site sample_alias))) (q_jobs (p_queue (dw_panel ?w)))"
    by code_simp
  have set: "?r = (fst ?r, Inr (sample_alias\<lparr>dm_mode := SSLLetsEnc, dm_state := SSLStateIssuing, dm_updated := 5\<rparr>))" by code_simp
  have enc: "sv_encode sample_serving (reconcile_payload sample_serving (dw_db (fst ?r)) ?ws 3) = Some []" by code_simp
  have "site_org ?ws = 3" "site_status ?ws = SiteReady" by (simp_all add: new_site_def)
  from vhost_before_certificate [OF sites db site this got idle set _ enc] show ?thesis
    by (auto simp: sample_panel_def empty_queue_def)
qed

lemma claim_running:
  assumes "queue_ok q" and "ClaimNext q now srv = (q', Some j)"
  shows "queue_ok q' \<and> j \<in> set (q_jobs q') \<and> job_status j = StatusRunning"
proof (rule claim_result [OF assms])
  fix r assume "j = claim_row now r" "by_key job_id (job_id j) (q_jobs q') = Some j"
  then have "j \<in> set (q_jobs q') \<and> job_status j = StatusRunning"
    using by_key_Some [of job_id "job_id j" "q_jobs q'" j] by (auto simp: claim_row_def)
  then show ?thesis using claim_ok [OF assms(1), of now srv] assms(2) by simp
qed

lemma running_key_alone:
  assumes "queue_ok q" and "j \<in> set (q_jobs q)" and "job_status j = StatusRunning" and "job_key j = Some k"
  shows "list_all (\<lambda>x. job_key x = Some k \<longrightarrow> job_status x \<noteq> StatusPending) (q_jobs q)"
proof -
  have "x = j" if "x \<in> set (q_jobs q)" "job_key x = Some k" "job_status x = StatusPending" for x
    using assms that live_key_unique [of "q_jobs q" x j k] by (auto simp: queue_ok_def key_conflict_def job_live_def)
  with assms(3) show ?thesis by (auto simp: list_all_iff)
qed

lemma provisioning_after_claim:
  assumes "AgentClaim p now srv = (p', Some j)" and "job_type_of j = TypeProvisionWebsite" and "job_website j = Some i"
    and "SiteByID (p_sites p') org i = Inr ws"
  shows "site_status ws = SiteProvisioning"
proof -
  have "p_sites p' = fst (SetStatus (p_sites p) now i SiteProvisioning [])"
    using assms(1-3) by (auto simp: AgentClaim_def split: prod.splits option.splits bool.splits)
  moreover have "site_status x = SiteProvisioning" if "x \<in> set (s_rows (fst (SetStatus s now i SiteProvisioning [])))" "site_id x = i" for x s
  proof (cases "rows_affected (has_site_id i) (s_rows s) = 0")
    case True
    then have "x \<in> set (s_rows s)" using that(1) by (simp add: SetStatus_def set_where_def)
    with True that(2) show ?thesis by (simp add: rows_affected_zero has_site_id_def)
  next
    case False
    then have "x \<in> (\<lambda>w. if has_site_id i w then w\<lparr>site_status := SiteProvisioning, site_error := [], site_updated_at := now\<rparr> else w)
        ` set (s_rows s)"
      using that(1) by (simp add: SetStatus_def set_where_def set_update_where)
    then obtain w where "x = (if has_site_id i w then w\<lparr>site_status := SiteProvisioning, site_error := [], site_updated_at := now\<rparr> else w)"
      by (rule imageE)
    with that(2) show ?thesis by (simp add: has_site_id_def split: if_splits)
  qed
  ultimately show ?thesis
    using assms(4) by (auto simp: SiteByID_def split: option.splits dest!: select_someD)
qed

lemma AddDomain_Inr:
  assumes "AddDomain v w now org site body = (w', Inr r)"
  obtains ws d where "websiteFromPath (dw_panel w) org site = Inr ws" "w' = notifyChanged v now (w\<lparr>dw_db := d\<rparr>) org ws"
    "dm_site r = site_id ws"
  using assms
  by (auto simp: AddDomain_def Let_def site_for_change_def CreateDomain_def new_domain_def
      split: sum.splits option.splits prod.splits if_splits domain_err.splits)

text \<open>C25: A domain added while the site's provision job is running is accepted, and nothing tells the agent:
  no job is enqueued for it, and no pending job is left that could carry the new state. The vhost
  keeps missing the domain until something else touches the site.\<close>

theorem change_while_provisioning_unserved:
  assumes "queue_ok (p_queue p0)" and "AgentClaim p0 t srv = (p, Some j)"
    and "job_type_of j = TypeProvisionWebsite" and "job_website j = Some site" and "job_key j = Some (provision_key v site)"
    and "AddDomain v \<lparr>dw_panel = p, dw_db = d\<rparr> now org site body = (w', Inr r)"
  shows "dw_panel w' = p
    \<and> list_all (\<lambda>x. job_key x = Some (provision_key v site) \<longrightarrow> job_status x \<noteq> StatusPending) (q_jobs (p_queue (dw_panel w')))"
proof (rule AddDomain_Inr [OF assms(6)])
  fix ws d'
  assume ws: "websiteFromPath (dw_panel \<lparr>dw_panel = p, dw_db = d\<rparr>) org site = Inr ws"
    and w': "w' = notifyChanged v now (\<lparr>dw_panel = p, dw_db = d\<rparr>\<lparr>dw_db := d'\<rparr>) org ws"
  from ws have site: "SiteByID (p_sites p) org site = Inr ws" by (auto simp: websiteFromPath_def split: sum.splits)
  then have id: "site_id ws = site" by (auto simp: SiteByID_def split: option.splits dest!: select_someD)
  have "dw_panel w' = p"
    using provisioning_after_claim [OF assms(2-4) site] site
    by (simp add: w' notifyChanged_def reconcileWebsiteServing_def id)
  moreover have "ClaimNext (p_queue p0) t srv = (p_queue p, Some j)" by (rule AgentClaim_queue [OF assms(2)])
  ultimately show ?thesis
    using running_key_alone [of "p_queue p" j] claim_running [OF assms(1)] assms(5) by blast
qed

definition busy_panel :: "panel \<times> job option" where
  "busy_panel = AgentClaim (dw_panel (reconcileWebsiteServing sample_serving 3 sample_world 1 3 7)) 4 7"

lemma change_while_provisioning_unserved_witness:
  "dw_panel (fst (AddDomain sample_serving \<lparr>dw_panel = fst busy_panel, dw_db = dw_db sample_world\<rparr> 5 3 1
     (Some (''c.com'', ''alias'', [])))) = fst busy_panel"
proof -
  let ?p0 = "dw_panel (reconcileWebsiteServing sample_serving 3 sample_world 1 3 7)"
  let ?r = "AddDomain sample_serving \<lparr>dw_panel = fst busy_panel, dw_db = dw_db sample_world\<rparr> 5 3 1 (Some (''c.com'', ''alias'', []))"
  let ?j = "the (snd busy_panel)"
  have ok: "queue_ok (p_queue ?p0)" by code_simp
  have claim: "AgentClaim ?p0 4 7 = (fst busy_panel, Some ?j)" by code_simp
  have kind: "job_type_of ?j = TypeProvisionWebsite" and web: "job_website ?j = Some 1"
    and key: "job_key ?j = Some (provision_key sample_serving 1)" by code_simp+
  have added: "?r = (fst ?r, Inr (new_domain 4 5 3 1 ''c.com'' KindAlias))" by code_simp
  from change_while_provisioning_unserved [OF ok claim kind web key added] show ?thesis by simp
qed

section \<open>Redirects of removed domains\<close>

lemma RemoveDomain_Inr:
  assumes "domain_db_ok (dw_db w)" and "GetDomain (dw_db w) org i = Inr r" and "RemoveDomain v w now org site i = (w', Inr ())"
  shows "set (dd_domains (dw_db w')) = {x \<in> set (dd_domains (dw_db w)). dm_id x \<noteq> i} \<and> dd_redirects (dw_db w') = dd_redirects (dw_db w)"
proof -
  let ?hit = "\<lambda>r. dm_id r = i \<and> dm_org r = org \<and> dm_kind r = KindAlias"
  have db: "dw_db w' = (dw_db w)\<lparr>dd_domains := filter (\<lambda>r. \<not> ?hit r) (dd_domains (dw_db w))\<rparr>"
    and hit: "rows_affected ?hit (dd_domains (dw_db w)) \<noteq> 0"
    using assms(2,3) by (auto simp: RemoveDomain_def DeleteDomainRow_def Let_def split: sum.splits if_splits prod.splits)
  from hit obtain x where x: "x \<in> set (dd_domains (dw_db w))" "?hit x" by (auto simp: rows_affected_zero)
  have "y = x" if "y \<in> set (dd_domains (dw_db w))" "dm_id y = i" for y
    using assms(1) that x by (auto simp: domain_db_ok_def domains_ok_def distinct_map dest: inj_onD)
  with x(2) have "?hit y \<longleftrightarrow> dm_id y = i" if "y \<in> set (dd_domains (dw_db w))" for y using that by auto
  then show ?thesis by (auto simp: db)
qed

text \<open>Removing an alias of a website leaves its redirect in place: the website keeps telling its agent
  to answer for the removed name, and any other website can attach the name now.\<close>

theorem redirect_outlives_domain:
  assumes "domain_db_ok (dw_db w)" and "GetDomain (dw_db w) org i = Inr r"
    and "RemoveDomain v w now org site i = (w', Inr ())"
    and "f \<in> set (dd_redirects (dw_db w))" and "fw_from f = dm_name r" and "fw_enabled f"
  shows "(dm_name r, fw_to f, fw_status f) \<in> set (RedirectTargetsForWebsite (dw_db w') (fw_site f))
    \<and> (\<exists>r'. snd (CreateDomain (dw_db w') later org' other (dm_name r) KindAlias) = Inr r')"
proof -
  note removed = RemoveDomain_Inr [OF assms(1-3)]
  note r = GetDomain_Inr [OF assms(2)]
  have "(dm_name r, fw_to f, fw_status f) \<in> set (RedirectTargetsForWebsite (dw_db w') (fw_site f))"
    using assms(4-6) removed by (auto simp: RedirectTargetsForWebsite_def image_iff)
  moreover have "dm_name x \<noteq> dm_name r" if "x \<in> set (dd_domains (dw_db w'))" for x
    using assms(1) that r removed by (auto simp: domain_db_ok_def domains_ok_def distinct_map dest: inj_onD)
  then have "\<not> list_ex (\<lambda>x. dm_name x = dm_name r) (dd_domains (dw_db w'))" by (auto simp: list_ex_iff)
  moreover have "domain_check (dm_name r)"
    using assms(1) r by (auto simp: domain_db_ok_def domains_ok_def domain_ok_def list_all_iff)
  ultimately show ?thesis by (simp add: CreateDomain_def Let_def)
qed

lemma redirect_outlives_domain_witness:
  "(''b.com'', ''https://a.com/'', 301)
      \<in> set (RedirectTargetsForWebsite (dw_db (fst (RemoveDomain sample_serving sample_world 9 3 1 2))) 1)"
proof -
  let ?r = "RemoveDomain sample_serving sample_world 9 3 1 2"
  have "GetDomain (dw_db sample_world) 3 2 = Inr sample_alias" "?r = (fst ?r, Inr ())" by code_simp+
  moreover have "sample_redirect \<in> set (dd_redirects (dw_db sample_world))" by (simp add: sample_world_db)
  moreover have "fw_from sample_redirect = dm_name sample_alias" "fw_enabled sample_redirect" by code_simp+
  ultimately have "(dm_name sample_alias, fw_to sample_redirect, fw_status sample_redirect)
      \<in> set (RedirectTargetsForWebsite (dw_db (fst ?r)) (fw_site sample_redirect))"
    using redirect_outlives_domain [OF sample_world_ok] by blast
  moreover have "dm_name sample_alias = ''b.com''" "fw_to sample_redirect = ''https://a.com/''"
      "fw_status sample_redirect = 301" "fw_site sample_redirect = 1" by code_simp+
  ultimately show ?thesis by simp
qed

section \<open>Renewals\<close>

lemma name_unique:
  assumes "domain_db_ok d" and "x \<in> set (dd_domains d)" and "y \<in> set (dd_domains d)" and "dm_name x = dm_name y"
  shows "x = y"
proof -
  have "inj_on dm_name (set (dd_domains d))" using assms(1) by (simp add: domain_db_ok_def domains_ok_def distinct_map)
  then show ?thesis using assms(4,2,3) by (rule inj_onD)
qed

definition same_names :: "domain_db \<Rightarrow> domain_db \<Rightarrow> bool" where
  "same_names d d' \<longleftrightarrow> map (\<lambda>r. (dm_id r, dm_name r, dm_site r)) (dd_domains d') = map (\<lambda>r. (dm_id r, dm_name r, dm_site r)) (dd_domains d)"

lemma SetSSLMode_domains:
  "dd_domains (fst (SetSSLMode d now i m)) =
    update_where (\<lambda>r. dm_id r = i) (\<lambda>r. r\<lparr>dm_mode := m, dm_state := mode_state m, dm_error := [], dm_updated := now\<rparr>) (dd_domains d)"
proof (cases "by_key dm_id i (dd_domains d)")
  case None
  then have "\<forall>r \<in> set (dd_domains d). dm_id r \<noteq> i" by (auto simp: by_key_None_iff)
  with None show ?thesis by (simp add: SetSSLMode_def GetDomainAny_def update_where_none)
qed (simp add: SetSSLMode_def GetDomainAny_def Let_def set_domain_def emitSSLEvent_def)

lemma SetSSLMode_names: "same_names d (fst (SetSSLMode d now i m))"
  unfolding same_names_def SetSSLMode_domains by (rule map_update_where_same) simp

lemma same_names_trans: "same_names a b \<Longrightarrow> same_names b c \<Longrightarrow> same_names a c"
  by (simp add: same_names_def)

text \<open>The identifiers under which every row is issuing.\<close>

definition issuing :: "domain_db \<Rightarrow> uid set" where
  "issuing d = {i. \<forall>x \<in> set (dd_domains d). dm_id x = i \<longrightarrow> dm_state x = SSLStateIssuing}"

lemma SetSSLMode_issuing: "m \<noteq> SSLNone \<Longrightarrow> insert i (issuing d) \<subseteq> issuing (fst (SetSSLMode d now i m))"
proof (rule subsetI, unfold issuing_def mem_Collect_eq, intro ballI impI)
  fix k x
  assume m: "m \<noteq> SSLNone" and k: "k \<in> insert i {i. \<forall>x \<in> set (dd_domains d). dm_id x = i \<longrightarrow> dm_state x = SSLStateIssuing}"
    and x: "x \<in> set (dd_domains (fst (SetSSLMode d now i m)))" "dm_id x = k"
  let ?f = "\<lambda>r. r\<lparr>dm_mode := m, dm_state := mode_state m, dm_error := [], dm_updated := now\<rparr>"
  from x(1) obtain y where y: "y \<in> set (dd_domains d)" "x = (if dm_id y = i then ?f y else y)"
    unfolding SetSSLMode_domains set_update_where by (rule imageE)
  show "dm_state x = SSLStateIssuing"
  proof (cases "dm_id y = i")
    case True
    with m y(2) show ?thesis by (simp add: mode_state_def)
  next
    case False
    with y(2) have "x = y" by simp
    with False k x(2) y(1) show ?thesis by auto
  qed
qed

definition cert_job :: "serving_env \<Rightarrow> domain_row \<Rightarrow> job_type \<times> uid option \<times> string option" where
  "cert_job v r = (TypeIssueCertificate, Some (dm_site r), sv_encode_job v (WireCert (dm_id r) (dm_name r) (dm_mode r)))"

definition job_view :: "job \<Rightarrow> job_type \<times> uid option \<times> string option" where
  "job_view j = (job_type_of j, job_website j, Some (job_payload j))"

lemma reissue_one:
  assumes "reachable_site (dw_panel w) (dm_site r) ws" and "sv_encode_job v (WireCert (dm_id r) (dm_name r) (dm_mode r)) = Some js"
  shows "\<exists>j. q_jobs (p_queue (dw_panel (reissue v now w r))) = q_jobs (p_queue (dw_panel w)) @ [j] \<and> job_view j = cert_job v r
    \<and> dw_db (reissue v now w r) = fst (SetSSLMode (dw_db w) now (dm_id r) (dm_mode r))
    \<and> (\<forall>i ws. reachable_site (dw_panel (reissue v now w r)) i ws = reachable_site (dw_panel w) i ws)"
  using enqueue_for_site_new [OF assms(1), of now TypeIssueCertificate js] assms(2)
  by (auto simp: reissue_def cert_job_def job_view_def reachable_site_def)

lemma reissue_run:
  assumes "\<forall>r \<in> set rs. \<exists>ws. reachable_site (dw_panel w) (dm_site r) ws" and "\<forall>x. sv_encode_job v x \<noteq> None"
    and "\<forall>r \<in> set rs. dm_mode r \<noteq> SSLNone"
  shows "(\<exists>js. q_jobs (p_queue (dw_panel (foldl (reissue v now) w rs))) = q_jobs (p_queue (dw_panel w)) @ js
      \<and> map job_view js = map (cert_job v) rs)
    \<and> same_names (dw_db w) (dw_db (foldl (reissue v now) w rs))
    \<and> issuing (dw_db w) \<union> dm_id ` set rs \<subseteq> issuing (dw_db (foldl (reissue v now) w rs))"
  using assms
proof (induction rs arbitrary: w)
  case Nil
  then show ?case by (auto simp: same_names_def)
next
  case (Cons r rs)
  let ?w = "reissue v now w r"
  obtain ws where ws: "reachable_site (dw_panel w) (dm_site r) ws" using Cons.prems(1) by auto
  obtain js where js: "sv_encode_job v (WireCert (dm_id r) (dm_name r) (dm_mode r)) = Some js"
    using Cons.prems(2) by blast
  obtain j where j: "q_jobs (p_queue (dw_panel ?w)) = q_jobs (p_queue (dw_panel w)) @ [j]" "job_view j = cert_job v r"
      "dw_db ?w = fst (SetSSLMode (dw_db w) now (dm_id r) (dm_mode r))"
      "\<forall>i ws. reachable_site (dw_panel ?w) i ws = reachable_site (dw_panel w) i ws"
    using reissue_one [OF ws js, of now] by blast
  have "\<forall>r \<in> set rs. \<exists>ws. reachable_site (dw_panel ?w) (dm_site r) ws" "\<forall>r \<in> set rs. dm_mode r \<noteq> SSLNone"
    using Cons.prems(1,3) j(4) by auto
  from Cons.IH [OF this(1) Cons.prems(2) this(2)] obtain js' where rest:
      "q_jobs (p_queue (dw_panel (foldl (reissue v now) ?w rs))) = q_jobs (p_queue (dw_panel ?w)) @ js'"
      "map job_view js' = map (cert_job v) rs" "same_names (dw_db ?w) (dw_db (foldl (reissue v now) ?w rs))"
      "issuing (dw_db ?w) \<union> dm_id ` set rs \<subseteq> issuing (dw_db (foldl (reissue v now) ?w rs))" by blast
  have "map job_view (j # js') = map (cert_job v) (r # rs)" using j(2) rest(2) by simp
  moreover have "q_jobs (p_queue (dw_panel (foldl (reissue v now) w (r # rs)))) = q_jobs (p_queue (dw_panel w)) @ (j # js')"
    using rest(1) j(1) by simp
  moreover have "same_names (dw_db w) (dw_db (foldl (reissue v now) w (r # rs)))"
    using SetSSLMode_names [of "dw_db w" now "dm_id r" "dm_mode r"] rest(3) j(3) by (simp add: same_names_trans)
  moreover have "insert (dm_id r) (issuing (dw_db w)) \<subseteq> issuing (dw_db ?w)"
    using Cons.prems(3) j(3) SetSSLMode_issuing [of "dm_mode r"] by simp
  then have "issuing (dw_db w) \<union> dm_id ` set (r # rs) \<subseteq> issuing (dw_db (foldl (reissue v now) w (r # rs)))"
    using rest(4) by auto
  ultimately show ?case by blast
qed

lemma due_mode: "r \<in> set (ExpiringForRenewal d now h n) \<Longrightarrow> r \<in> set (dd_domains d) \<and> expiring now h r"
  by (auto simp: ExpiringForRenewal_def dest!: in_set_takeD)

text \<open>The renewal scan enqueues exactly one issuance per domain that is due, for its site and with its
  payload, in the order of expiry, and no later scan finds one of these domains before their job
  has been answered.\<close>

theorem renewal_scan_once:
  assumes "\<forall>r \<in> set (ExpiringForRenewal (dw_db w) now renewalHorizon renewalBatch). \<exists>ws. reachable_site (dw_panel w) (dm_site r) ws"
    and "\<forall>x. sv_encode_job v x \<noteq> None"
  shows "(\<exists>js. q_jobs (p_queue (dw_panel (enqueueRenewals v now w))) = q_jobs (p_queue (dw_panel w)) @ js
      \<and> map job_view js = map (cert_job v) (ExpiringForRenewal (dw_db w) now renewalHorizon renewalBatch))
    \<and> dm_id ` set (ExpiringForRenewal (dw_db (enqueueRenewals v now w)) later h n)
        \<inter> dm_id ` set (ExpiringForRenewal (dw_db w) now renewalHorizon renewalBatch) = {}"
proof -
  let ?due = "ExpiringForRenewal (dw_db w) now renewalHorizon renewalBatch"
  have "\<forall>r \<in> set ?due. dm_mode r \<noteq> SSLNone" by (auto simp: expiring_def dest!: due_mode)
  note run = reissue_run [OF assms this, of now]
  have "dm_state x = SSLStateActive" "x \<in> set (dd_domains (dw_db (enqueueRenewals v now w)))"
    if "x \<in> set (ExpiringForRenewal (dw_db (enqueueRenewals v now w)) later h n)" for x
    using due_mode [OF that] by (simp_all add: expiring_def)
  then have "dm_id x \<notin> issuing (dw_db (enqueueRenewals v now w))"
    if "x \<in> set (ExpiringForRenewal (dw_db (enqueueRenewals v now w)) later h n)" for x
    using that by (force simp: issuing_def)
  then show ?thesis using run by (auto simp: enqueueRenewals_def)
qed

text \<open>C24: While a renewal is under way the site is told to serve the domain without the certificate it
  has: a certificate path served before the scan (the certificate is still valid) is gone after it.\<close>

theorem renewal_drops_certificate:
  assumes "domain_db_ok (dw_db w)" and "r \<in> set (ExpiringForRenewal (dw_db w) now renewalHorizon renewalBatch)"
    and "\<forall>r \<in> set (ExpiringForRenewal (dw_db w) now renewalHorizon renewalBatch). \<exists>ws. reachable_site (dw_panel w) (dm_site r) ws"
    and "\<forall>x. sv_encode_job v x \<noteq> None"
  shows "sd_cert (serving_of r) \<noteq> [] \<and> serving_of r \<in> set (ListForWebsiteServing (dw_db w) (dm_site r))
    \<and> (\<exists>s \<in> set (ListForWebsiteServing (dw_db (enqueueRenewals v now w)) (dm_site r)). sd_name s = dm_name r)
    \<and> (\<forall>s \<in> set (ListForWebsiteServing (dw_db (enqueueRenewals v now w)) (dm_site r)). sd_name s = dm_name r \<longrightarrow> sd_cert s = [])"
proof -
  let ?d = "dw_db (enqueueRenewals v now w)"
  have r: "r \<in> set (dd_domains (dw_db w))" "expiring now renewalHorizon r" using due_mode [OF assms(2)] by auto
  then have before: "sd_cert (serving_of r) \<noteq> []" "serving_of r \<in> set (ListForWebsiteServing (dw_db w) (dm_site r))"
    by (auto simp: expiring_def serving_of_def Let_def ListForWebsiteServing_def ListDomains_set)
  have "\<forall>r \<in> set (ExpiringForRenewal (dw_db w) now renewalHorizon renewalBatch). dm_mode r \<noteq> SSLNone"
    by (auto simp: expiring_def dest!: due_mode)
  from reissue_run [OF assms(3,4) this, of now] assms(2)
  have names: "same_names (dw_db w) ?d" and iss: "dm_id r \<in> issuing ?d" by (auto simp: enqueueRenewals_def)
  have img: "(\<lambda>r. (dm_id r, dm_name r, dm_site r)) ` set (dd_domains ?d) = (\<lambda>r. (dm_id r, dm_name r, dm_site r)) ` set (dd_domains (dw_db w))"
    using arg_cong [of _ _ set, OF names [unfolded same_names_def]] by simp
  have "(dm_id r, dm_name r, dm_site r) \<in> (\<lambda>r. (dm_id r, dm_name r, dm_site r)) ` set (dd_domains ?d)"
    unfolding img using r(1) by (rule imageI)
  then obtain y where y: "y \<in> set (dd_domains ?d)" "dm_id y = dm_id r" "dm_name y = dm_name r" "dm_site y = dm_site r"
    by auto
  have ok: "domain_db_ok ?d" using assms(1) by (simp add: enqueueRenewals_def reissue_all_ok)
  have "dm_state x = SSLStateIssuing" if "x \<in> set (dd_domains ?d)" "dm_name x = dm_name r" for x
  proof -
    have "x = y" using that y(3) by (intro name_unique [OF ok _ y(1)]) simp_all
    then show ?thesis using iss y(1,2) by (simp add: issuing_def)
  qed
  then have "\<forall>s \<in> set (ListForWebsiteServing ?d (dm_site r)). sd_name s = dm_name r \<longrightarrow> sd_cert s = []"
    by (auto simp: ListForWebsiteServing_def ListDomains_set serving_of_def Let_def)
  moreover have "\<exists>s \<in> set (ListForWebsiteServing ?d (dm_site r)). sd_name s = dm_name r"
    using y by (auto simp: ListForWebsiteServing_def ListDomains_set serving_of_def Let_def)
  ultimately show ?thesis using before by blast
qed

text \<open>The sample alias with an active certificate that expires in ten days.\<close>

definition sample_due :: domain_world where
  "sample_due = sample_world\<lparr>dw_db := fst (MarkSSLActive (fst (SetSSLMode (dw_db sample_world) 6 2 SSLLetsEnc)) 7 2 (10 * 24 * hour))\<rparr>"

definition due_alias :: domain_row where
  "due_alias = sample_alias\<lparr>dm_mode := SSLLetsEnc, dm_state := SSLStateActive, dm_issued := Some 7,
     dm_expires := Some (10 * 24 * hour), dm_updated := 7\<rparr>"

lemma sample_due_list: "ExpiringForRenewal (dw_db sample_due) 8 renewalHorizon renewalBatch = [due_alias]"
  by code_simp

lemma sample_due_site:
  "\<forall>r \<in> set (ExpiringForRenewal (dw_db sample_due) 8 renewalHorizon renewalBatch). \<exists>ws. reachable_site (dw_panel sample_due) (dm_site r) ws"
proof -
  have "reachable_site (dw_panel sample_due) (dm_site due_alias)
      ((new_site 1 0 3 7 9 ''ab'' [] RuntimePHP ''8.3'' ''nginx'' ''u'')\<lparr>site_status := SiteReady\<rparr>)" by code_simp
  then show ?thesis unfolding sample_due_list by auto
qed

lemma sample_encodes: "\<forall>x. sv_encode_job sample_serving x \<noteq> None"
  by (simp add: sample_serving_def)

lemma renewal_scan_once_witness:
  "dm_id ` set (ExpiringForRenewal (dw_db (enqueueRenewals sample_serving 8 sample_due)) 9 renewalHorizon 5) \<inter> {2} = {}"
proof -
  have "dm_id ` set (ExpiringForRenewal (dw_db sample_due) 8 renewalHorizon renewalBatch) = {2}"
    by (simp add: sample_due_list due_alias_def sample_alias_def new_domain_def)
  with renewal_scan_once [OF sample_due_site sample_encodes, of 9 renewalHorizon 5] show ?thesis by simp
qed

lemma renewal_drops_certificate_witness:
  "filter (\<lambda>s. sd_name s = ''b.com'' \<and> sd_cert s \<noteq> []) (ListForWebsiteServing (dw_db (enqueueRenewals sample_serving 8 sample_due)) 1) = []"
proof -
  have ok: "domain_db_ok (dw_db sample_due)"
    unfolding sample_due_def using sample_world_ok by (simp add: mark_active_ok set_mode_ok)
  have due: "due_alias \<in> set (ExpiringForRenewal (dw_db sample_due) 8 renewalHorizon renewalBatch)" by (simp add: sample_due_list)
  have "dm_site due_alias = 1" "dm_name due_alias = ''b.com''" by (simp_all add: due_alias_def sample_alias_def new_domain_def)
  with renewal_drops_certificate [OF ok due sample_due_site sample_encodes] show ?thesis by (auto simp: filter_empty_conv)
qed

text \<open>C17: Every row of the two tables keeps to its type after any sequence of steps: unique identifiers and
  names, names that match the pattern of the columns, docroot suffixes that are short and never climb
  with \<open>..\<close>, no issuance under way without a certificate mode, both dates on every active
  certificate; redirects with a host name as source, a redirect status and an absolute http(s) target.\<close>

theorem domain_rows_typed:
  assumes "(domain_step v c)\<^sup>*\<^sup>* \<lparr>dw_panel = p, dw_db = empty_domains\<rparr> w"
  shows "domain_db_ok (dw_db w)"
  using domain_steps_ok [OF assms] by (simp add: empty_domains_ok)

lemma domain_rows_typed_witness: "domain_db_ok (dw_db sample_world)"
  by (rule domain_rows_typed [OF sample_world_reached])

end
