(* ===== verification/NginxSnippet.thy ===== *)
theory NginxSnippet
  imports GoNet
begin

text \<open>
  User-written nginx directives, \<open>internal/nginxcfg\<close>: the statement parser and the variable
  and proxy-target checks (\<open>parse.go\<close>), the directive registry (\<open>registry.go\<close>) and the
  argument schemas (\<open>validate.go\<close>). Both the control plane and the agent run this code. The
  regular expressions are written out as the scanners they describe; error messages keep
  the offending line and the reason.
\<close>

section \<open>Errors and statements\<close>

datatype cfg_err =
    Friendly string string
  | UnexpectedClose nat
  | Unterminated
  | BadSize string
  | PortTaken int
  | Invalid string
  | Within string cfg_err

record stmt =
  st_text :: string
  st_open :: bool
  st_shut :: bool

definition plain :: "stmt \<Rightarrow> bool" where
  "plain s \<longleftrightarrow> \<not> st_open s \<and> \<not> st_shut s"

text \<open>\<open>\s\<close> of a regular expression.\<close>

definition re_space :: "char \<Rightarrow> bool" where
  "re_space c \<longleftrightarrow> byte c \<in> {9, 10, 12, 13, 32}"

definition re_name :: "char \<Rightarrow> bool" where
  "re_name c \<longleftrightarrow> is_lower c \<or> is_digit c \<or> c = CHR ''_''"

text \<open>The rest of \<open>ifOpenRe\<close> from the operator on.\<close>

definition if_value :: "string \<Rightarrow> bool" where
  "if_value r =
    (let v = dropWhile re_space r; val = takeWhile (\<lambda>c. \<not> re_space c \<and> c \<noteq> CHR '')'') v;
         w = dropWhile re_space (drop (length val) v)
     in val \<noteq> [] \<and> (case w of [] \<Rightarrow> False | c # t \<Rightarrow> c = CHR '')'' \<and> dropWhile re_space t = ''{''))"

definition if_ops :: "string list" where
  "if_ops = [''='', ''!='', ''~'', ''~*'', ''!~'', ''!~*'']"

text \<open>\<open>ifOpenRe.FindStringSubmatch\<close>: the variable's name.\<close>

definition if_open :: "string \<Rightarrow> string option" where
  "if_open line =
    (if \<not> has_prefix line ''if'' then None
     else case dropWhile re_space (drop 2 line) of
       [] \<Rightarrow> None
     | p # r \<Rightarrow>
         if p \<noteq> CHR ''('' then None
         else case dropWhile re_space r of
           [] \<Rightarrow> None
         | d # s \<Rightarrow>
             let name = takeWhile re_name s; rest = dropWhile re_space (drop (length name) s) in
             if d = CHR ''$'' \<and> name \<noteq> [] \<and>
                list_ex (\<lambda>op. has_prefix rest op \<and> if_value (drop (length op) rest)) if_ops
             then Some name else None)"

definition dash :: string where
  "dash = [CHR 0xE2, CHR 0x80, CHR 0x94]"

definition restrictedHint :: "(string \<times> string) list" where
  "restrictedHint =
    [(''include'', ''include is platform-managed; snippets are validated and rendered by EpicPanel directly''),
     (''root'', ''the document root is managed by EpicPanel (site settings control it)''),
     (''alias'', ''alias can expose files outside your site and is not allowed''),
     (''listen'', ''listening sockets are platform-managed''),
     (''server_name'', ''domains are managed in the Domains section of the site''),
     (''fastcgi_pass'', ''the PHP handler is platform-managed; PHP settings live in the PHP section''),
     (''location'', ''Detected a location block. Use the Locations tab '' @ dash @
        '' enter the path there and EpicPanel generates the location block automatically''),
     (''access_log'', ''logging (and bandwidth accounting) is platform-managed''),
     (''error_log'', ''logging is platform-managed; site logs are available in the Logs section''),
     (''auth_request'', ''auth_request can chain request handling and is not allowed''),
     (''upstream'', ''upstream blocks are platform-managed; proxy directly to a loopback address''),
     (''map'', ''map blocks live in the http context and are platform-managed''),
     (''perl'', ''embedded interpreters are not available''),
     (''perl_set'', ''embedded interpreters are not available''),
     (''js_content'', ''njs scripting is not available''),
     (''js_set'', ''njs scripting is not available''),
     (''daemon'', ''nginx process control is platform-managed'')]"

definition hint_for :: "string \<Rightarrow> string" where
  "hint_for name = (case map_of restrictedHint name of None \<Rightarrow> [] | Some h \<Rightarrow> h)"

definition structural :: string where
  "structural = ''{};`''"

definition emit :: "stmt \<Rightarrow> cfg_err + stmt list \<Rightarrow> cfg_err + stmt list" where
  "emit s r = (case r of Inl e \<Rightarrow> Inl e | Inr ss \<Rightarrow> Inr (s # ss))"

fun parse_lines :: "nat \<Rightarrow> nat \<Rightarrow> string list \<Rightarrow> cfg_err + stmt list" where
  "parse_lines i depth [] = (if depth \<noteq> 0 then Inl Unterminated else Inr [])"
| "parse_lines i depth (raw # ls) =
    (let line = trim_space raw in
     if line = [] \<or> has_prefix line ''#'' then parse_lines (i + 1) depth ls
     else if line = ''}'' then
       (if depth = 0 then Inl (UnexpectedClose (i + 1))
        else emit \<lparr>st_text = ''}'', st_open = False, st_shut = True\<rparr> (parse_lines (i + 1) (depth - 1) ls))
     else if has_suffix line ''{'' then
       (if if_open line = None then
          (if hd (GoStrings.fields line) = ''location'' then Inl (Friendly line (hint_for ''location''))
           else Inl (Friendly line ''only `if ($var op value) {` blocks are supported''))
        else emit \<lparr>st_text = line, st_open = True, st_shut = False\<rparr> (parse_lines (i + 1) (depth + 1) ls))
     else if contains_any line structural then
       Inl (Friendly line ''structural characters ; { } and backticks are not allowed in directive lines'')
     else emit \<lparr>st_text = line, st_open = False, st_shut = False\<rparr> (parse_lines (i + 1) depth ls))"

definition newline :: char where
  "newline = CHR 0x0A"

definition tab :: char where
  "tab = CHR 0x09"

definition ParseSnippet :: "string \<Rightarrow> cfg_err + stmt list" where
  "ParseSnippet text = parse_lines 0 0 (split_on newline text)"

section \<open>Rendering\<close>

text \<open>The depth is a natural number: a parsed snippet never closes more than it opened.\<close>

fun indent_from :: "string \<Rightarrow> nat \<Rightarrow> stmt list \<Rightarrow> string" where
  "indent_from base depth [] = []"
| "indent_from base depth (s # ss) =
    (if st_shut s then
       base @ replicate (depth - 1) tab @ ''}'' @ [newline] @ indent_from base (depth - 1) ss
     else if st_open s then
       base @ replicate depth tab @ st_text s @ [newline] @ indent_from base (depth + 1) ss
     else base @ replicate depth tab @ st_text s @ '';'' @ [newline] @ indent_from base depth ss)"

definition IndentSnippet :: "stmt list \<Rightarrow> string \<Rightarrow> string" where
  "IndentSnippet ss base = indent_from base 0 ss"

definition TerminateLine :: "string \<Rightarrow> string" where
  "TerminateLine line = (if line = ''}'' \<or> has_suffix line ''{'' then line else line @ '';'')"

section \<open>Variables\<close>

definition isIdentChar :: "nat \<Rightarrow> bool" where
  "isIdentChar c \<longleftrightarrow> c = 95 \<or> (48 \<le> c \<and> c \<le> 57) \<or> (97 \<le> c \<and> c \<le> 122) \<or> (65 \<le> c \<and> c \<le> 90)"

definition safe_vars :: "string list" where
  "safe_vars = [''uri'', ''args'', ''query_string'', ''request_uri'', ''host'', ''scheme'', ''request_method'',
     ''remote_addr'', ''https'', ''server_port'', ''request_filename'', ''is_args'']"

definition varRefRe :: "string \<Rightarrow> bool" where
  "varRefRe name \<longleftrightarrow> (name \<noteq> [] \<and> is_digit (hd name)) \<or> list_ex (has_prefix name) safe_vars
     \<or> (has_prefix name ''http_'' \<and> 5 < length name \<and> re_name (name ! 5))"

text \<open>The scan of \<open>validateVarToken\<close>. After a \<open>$\<close> that no identifier follows, the loop's own
  increment skips one more byte.\<close>

function var_scan :: "string \<Rightarrow> string \<Rightarrow> cfg_err option" where
  "var_scan token s =
    (case s of
       [] \<Rightarrow> None
     | c # r \<Rightarrow>
         if c \<noteq> CHR ''$'' then var_scan token r
         else
           let name = takeWhile (\<lambda>c. isIdentChar (byte c)) r in
           if name = [] then var_scan token (drop 1 r)
           else if has_prefix name ''epicpanel'' then
             Some (Friendly token ''references a platform-reserved variable'')
           else if \<not> varRefRe name then
             Some (Friendly token (''references an unsupported variable $'' @ name))
           else var_scan token (drop (length name) r))"
  by pat_completeness auto
termination
  by (relation "measure (\<lambda>(token, s). length s)") auto

declare var_scan.simps [simp del]

definition validateVarToken :: "string \<Rightarrow> cfg_err option" where
  "validateVarToken token = var_scan token token"

definition checkVarRefs :: "string \<Rightarrow> bool" where
  "checkVarRefs token \<longleftrightarrow> validateVarToken token = None"

section \<open>Proxy targets\<close>

record site_rules =
  ru_php :: bool
  ru_proxy :: bool
  ru_own :: "int list"
  ru_owner :: "(int \<Rightarrow> string) option"
  ru_max :: int

definition ownsPort :: "site_rules \<Rightarrow> int \<Rightarrow> bool" where
  "ownsPort rules port \<longleftrightarrow> port \<in> set (ru_own rules)"

definition loopbackHosts :: "string list" where
  "loopbackHosts = [''127.0.0.1'', ''localhost'', ''[::1]'']"

text \<open>\<open>strings.LastIndex\<close> of a byte: what is before and after it.\<close>

definition cut_last :: "char \<Rightarrow> string \<Rightarrow> (string \<times> string) option" where
  "cut_last d s = (if d \<notin> set s then None
     else Some (rev (tl (dropWhile (\<lambda>c. c \<noteq> d) (rev s))), rev (takeWhile (\<lambda>c. c \<noteq> d) (rev s))))"

definition proxy_forbidden :: string where
  "proxy_forbidden = ''$;{}'' @ [CHR 0x22, CHR 0x27] @ ''`''"

definition ValidateProxyTarget :: "string \<Rightarrow> site_rules \<Rightarrow> cfg_err + int" where
  "ValidateProxyTarget arg rules =
    (if contains_any arg proxy_forbidden \<or> contains arg ''@'' then
       Inl (Friendly arg ''proxy target contains unsupported characters'')
     else
       let rest = trim_prefix (trim_prefix arg ''http://'') ''https://'' in
       if rest = arg then Inl (Friendly arg ''proxy target must be an http(s) URL'')
       else
         let hostPort = takeWhile (\<lambda>c. c \<noteq> CHR ''/'') rest;
             split = (if has_suffix hostPort '']'' then None else cut_last (CHR '':'') hostPort);
             host = (case split of None \<Rightarrow> hostPort | Some (h, p) \<Rightarrow> h);
             port = (case split of None \<Rightarrow> Some 0 | Some (h, p) \<Rightarrow>
                       (case sscanf_d p of None \<Rightarrow> None
                        | Some n \<Rightarrow> if n \<le> 0 \<or> 65535 < n then None else Some n))
         in case port of
              None \<Rightarrow> Inl (Friendly arg ''proxy target port is invalid'')
            | Some n \<Rightarrow>
                if ToLower host \<notin> set loopbackHosts then
                  Inl (Friendly arg ''proxy targets must be loopback (127.0.0.1) addresses'')
                else case ru_owner rules of
                       None \<Rightarrow> Inr n
                     | Some owner \<Rightarrow> if owner n \<noteq> [] \<and> \<not> ownsPort rules n then Inl (PortTaken n) else Inr n)"

section \<open>What the parser guarantees\<close>

fun balanced :: "nat \<Rightarrow> stmt list \<Rightarrow> bool" where
  "balanced d [] \<longleftrightarrow> d = 0"
| "balanced d (s # ss) \<longleftrightarrow>
    (if st_shut s then 0 < d \<and> balanced (d - 1) ss
     else if st_open s then balanced (d + 1) ss else balanced d ss)"

text \<open>The text of a line: trimmed, not blank, not a comment, on one line.\<close>

definition line_ok :: "string \<Rightarrow> bool" where
  "line_ok l \<longleftrightarrow> trim_space l = l \<and> l \<noteq> [] \<and> \<not> has_prefix l ''#'' \<and> newline \<notin> set l"

definition plain_ok :: "string \<Rightarrow> bool" where
  "plain_ok l \<longleftrightarrow> line_ok l \<and> \<not> contains_any l structural"

definition stmt_ok :: "stmt \<Rightarrow> bool" where
  "stmt_ok s \<longleftrightarrow> line_ok (st_text s) \<and>
    (if st_shut s then st_text s = ''}'' \<and> \<not> st_open s
     else if st_open s then has_suffix (st_text s) ''{'' \<and> if_open (st_text s) \<noteq> None
     else \<not> contains_any (st_text s) structural)"

lemma emit_Inr: "emit s r = Inr ss \<longleftrightarrow> (\<exists>ts. r = Inr ts \<and> ss = s # ts)"
  by (auto simp: emit_def split: sum.splits)

lemma space_len_zero: "space_len s = 0 \<longleftrightarrow> (\<forall>p \<in> set space_seqs. \<not> has_prefix s p)"
  using space_seqs_nonempty by (auto simp: space_len_def find_None_iff find_Some_iff split: option.splits)

lemma trim_left_fix: "space_len s = 0 \<Longrightarrow> trim_left s = s"
  by (subst trim_left.simps) simp

lemma trim_right_fix: "space_len_end s = 0 \<Longrightarrow> trim_right s = s"
  by (subst trim_right.simps) simp

lemma not_suffix: "\<not> contains_any l structural \<Longrightarrow> l \<noteq> ''}'' \<and> \<not> has_suffix l ''{''"
proof -
  have "CHR ''}'' \<in> set structural" "CHR ''{'' \<in> set structural" by (simp_all add: structural_def)
  then show "\<not> contains_any l structural \<Longrightarrow> l \<noteq> ''}'' \<and> \<not> has_suffix l ''{''"
    by (auto simp: contains_any_def has_suffix_iff list_ex_iff)
qed

lemma stmt_ok_intros:
  "line_ok ''}'' \<Longrightarrow> stmt_ok \<lparr>st_text = ''}'', st_open = False, st_shut = True\<rparr>"
  "line_ok l \<Longrightarrow> has_suffix l ''{'' \<Longrightarrow> if_open l = Some y \<Longrightarrow>
    stmt_ok \<lparr>st_text = l, st_open = True, st_shut = False\<rparr>"
  "line_ok l \<Longrightarrow> \<not> contains_any l structural \<Longrightarrow> stmt_ok \<lparr>st_text = l, st_open = False, st_shut = False\<rparr>"
  by (simp_all add: stmt_ok_def)

lemma parse_lines_sound:
  "parse_lines i d ls = Inr ss \<Longrightarrow> \<forall>l \<in> set ls. newline \<notin> set l \<Longrightarrow> balanced d ss \<and> list_all stmt_ok ss"
proof (induction i d ls arbitrary: ss rule: parse_lines.induct)
  case (1 i d)
  then show ?case by (auto split: if_splits)
next
  case (2 i d raw ls)
  let ?l = "trim_space raw"
  have rest: "\<forall>l \<in> set ls. newline \<notin> set l" using 2(6) by simp
  have l: "line_ok ?l" if "?l \<noteq> []" "\<not> has_prefix ?l ''#''"
    using that 2(6) set_trim_space [of raw] by (auto simp: line_ok_def trim_space_idem)
  consider (skip) "?l = [] \<or> has_prefix ?l ''#''"
    | (closes) "?l \<noteq> []" "\<not> has_prefix ?l ''#''" "?l = ''}''"
    | (opens) "?l \<noteq> []" "\<not> has_prefix ?l ''#''" "?l \<noteq> ''}''" "has_suffix ?l ''{''"
    | (simple) "?l \<noteq> []" "\<not> has_prefix ?l ''#''" "?l \<noteq> ''}''" "\<not> has_suffix ?l ''{''" by blast
  then show ?case
  proof cases
    case skip
    then show ?thesis using 2(1) [OF refl _ _ rest] 2(5) by (simp add: Let_def)
  next
    case closes
    then show ?thesis using 2(2) [OF refl _ _ _ _ rest] 2(5) l [OF closes(1,2)] closes
      by (auto simp: Let_def emit_Inr split: if_splits intro: stmt_ok_intros)
  next
    case opens
    then show ?thesis using 2(3) [OF refl _ _ _ _ _ rest] 2(5) l [OF opens(1,2)] opens
      by (auto simp: Let_def emit_Inr split: if_splits intro: stmt_ok_intros)
  next
    case simple
    then show ?thesis using 2(4) [OF refl _ _ _ _ _ rest] 2(5) l [OF simple(1,2)] simple
      by (auto simp: Let_def emit_Inr split: if_splits intro: stmt_ok_intros)
  qed
qed

lemma parse_lines_complete:
  "balanced d ss \<Longrightarrow> list_all stmt_ok ss \<Longrightarrow> parse_lines i d (map st_text ss) = Inr ss"
proof (induction ss arbitrary: i d)
  case Nil
  then show ?case by simp
next
  case (Cons s ss)
  have ok: "stmt_ok s" "trim_space (st_text s) = st_text s" "st_text s \<noteq> []" "\<not> has_prefix (st_text s) ''#''"
    using Cons.prems by (auto simp: stmt_ok_def line_ok_def)
  consider (closes) "st_shut s" | (opens) "st_open s" "\<not> st_shut s" | (simple) "\<not> st_open s" "\<not> st_shut s" by blast
  then show ?case
  proof cases
    case closes
    then have "s = \<lparr>st_text = ''}'', st_open = False, st_shut = True\<rparr>" using ok by (auto simp: stmt_ok_def)
    then show ?thesis using Cons closes ok by (simp add: emit_Inr)
  next
    case opens
    then have "s = \<lparr>st_text = st_text s, st_open = True, st_shut = False\<rparr>" "st_text s \<noteq> ''}''"
      using ok by (auto simp: stmt_ok_def has_suffix_def)
    then show ?thesis using Cons opens ok by (auto simp: Let_def emit_Inr stmt_ok_def)
  next
    case simple
    then have "s = \<lparr>st_text = st_text s, st_open = False, st_shut = False\<rparr>" "st_text s \<noteq> ''}''"
      "\<not> has_suffix (st_text s) ''{''" "\<not> contains_any (st_text s) structural"
      using ok not_suffix by (auto simp: stmt_ok_def)
    then show ?thesis using Cons simple ok by (auto simp: Let_def emit_Inr)
  qed
qed

lemma split_join:
  "ws \<noteq> [] \<Longrightarrow> \<forall>w \<in> set ws. d \<notin> set w \<Longrightarrow> split_on d (join_with [d] ws) = ws"
proof (induction ws)
  case (Cons w ws)
  have last: "split_on d w = [w]" if "d \<notin> set w" for w
    using that by (induction w) auto
  have more: "split_on d (w @ d # s) = w # split_on d s" if "d \<notin> set w" for w s
    using that by (induction w) (auto simp: split_on_Cons)
  show ?case using Cons last [of w] more [of w] by (cases ws) auto
qed simp

lemma parse_joined:
  assumes "balanced 0 ss" and "list_all stmt_ok ss"
  shows "ParseSnippet (join_with [newline] (map st_text ss)) = Inr ss"
proof (cases "ss = []")
  case True
  then show ?thesis by (simp add: ParseSnippet_def trim_space_def trim_left_fix trim_right_fix)
next
  case False
  then have "split_on newline (join_with [newline] (map st_text ss)) = map st_text ss"
    using assms(2) by (intro split_join) (auto simp: list_all_iff stmt_ok_def line_ok_def)
  then show ?thesis using parse_lines_complete [OF assms] by (simp add: ParseSnippet_def)
qed

lemma parse_sound: "ParseSnippet text = Inr ss \<Longrightarrow> balanced 0 ss \<and> list_all stmt_ok ss"
  using parse_lines_sound [of 0 0 "split_on newline text"] split_on_no_sep [of _ newline "text"]
  by (auto simp: ParseSnippet_def)

text \<open>Rendering and parsing agree. The agent joins the texts of parsed statements with
  newlines and parses them again before it renders a vhost; whatever snippet a customer
  wrote, the second parse gives back exactly the statements of the first.\<close>

theorem snippet_reparses:
  assumes "ParseSnippet text = Inr ss"
  shows "ParseSnippet (join_with [newline] (map st_text ss)) = Inr ss"
  using parse_joined parse_sound [OF assms] by blast

lemma snippet_reparses_witness:
  "let ss = [\<lparr>st_text = ''if ($uri ~ ^/a) {'', st_open = True, st_shut = False\<rparr>,
             \<lparr>st_text = ''return 403'', st_open = False, st_shut = False\<rparr>,
             \<lparr>st_text = ''}'', st_open = False, st_shut = True\<rparr>]
   in ParseSnippet (join_with [newline] [''if ($uri ~ ^/a) {'', ''return 403'', ''}'']) = Inr ss"
proof -
  let ?ss = "[\<lparr>st_text = ''if ($uri ~ ^/a) {'', st_open = True, st_shut = False\<rparr>,
             \<lparr>st_text = ''return 403'', st_open = False, st_shut = False\<rparr>,
             \<lparr>st_text = ''}'', st_open = False, st_shut = True\<rparr>]"
  have "ParseSnippet (join_with [newline] [''# deny'', ''if ($uri ~ ^/a) {'', tab # ''return 403 '', ''}'']) = Inr ?ss"
    by code_simp
  then show ?thesis using snippet_reparses [of _ ?ss] by simp
qed

end
