(* ===== verification/NginxValidate.thy ===== *)
theory NginxValidate
  imports NginxSnippet
begin

text \<open>
  The directive registry and the argument schemas, \<open>internal/nginxcfg/registry.go\<close> and
  \<open>validate.go\<close>: which directive a customer may write in which context, with which
  arguments. A context is the bit mask of the code.
\<close>

section \<open>Contexts and the registry\<close>

unbundle bit_operations_syntax

type_synonym ctx = "8 word"

definition CtxServer :: ctx where "CtxServer = 1"
definition CtxLocation :: ctx where "CtxLocation = 2"
definition CtxIf :: ctx where "CtxIf = 4"

definition Has :: "ctx \<Rightarrow> ctx \<Rightarrow> bool" where
  "Has c other \<longleftrightarrow> c AND other \<noteq> 0"

definition ctx_name :: "ctx \<Rightarrow> string" where
  "ctx_name c = (if c = CtxServer then ''server'' else if c = CtxLocation then ''location''
                 else if c = CtxIf then ''if'' else ''server/location'')"

datatype level = LevelUser | LevelRestricted

record directive =
  d_contexts :: ctx
  d_level :: level

abbreviation any_ctx :: ctx where "any_ctx \<equiv> CtxServer OR CtxLocation OR CtxIf"
abbreviation no_if :: ctx where "no_if \<equiv> CtxServer OR CtxLocation"

definition user :: "ctx \<Rightarrow> string \<Rightarrow> string \<times> directive" where
  "user c name = (name, \<lparr>d_contexts = c, d_level = LevelUser\<rparr>)"

definition restricted :: "string \<Rightarrow> string \<times> directive" where
  "restricted name = (name, \<lparr>d_contexts = 0, d_level = LevelRestricted\<rparr>)"

definition directive_registry :: "(string \<times> directive) list" where
  "directive_registry =
    map (user any_ctx) [''rewrite'', ''return'', ''set'', ''break''] @
    map (user no_if) [''if'', ''try_files'', ''add_header'', ''expires'', ''index'', ''autoindex'',
      ''error_page'', ''client_max_body_size'', ''client_body_buffer_size'', ''allow'', ''deny'', ''satisfy'',
      ''auth_basic'', ''auth_basic_user_file''] @
    [user (CtxLocation OR CtxIf) ''proxy_pass''] @
    map (user no_if) [''proxy_set_header'', ''proxy_http_version'', ''proxy_read_timeout'',
      ''proxy_send_timeout'', ''proxy_connect_timeout'', ''proxy_buffering'', ''proxy_redirect''] @
    map restricted [''include'', ''root'', ''alias'', ''listen'', ''server_name'', ''location'',
      ''fastcgi_pass'', ''uwsgi_pass'', ''scgi_pass'', ''grpc_pass'', ''auth_request'', ''access_log'',
      ''error_log'', ''upstream'', ''map'', ''perl'', ''perl_set'', ''js_content'', ''js_set'', ''daemon'']"

definition Lookup :: "string \<Rightarrow> directive option" where
  "Lookup name = map_of directive_registry name"

section \<open>Argument shapes\<close>

definition maxBody :: "site_rules \<Rightarrow> int" where
  "maxBody rules = (if 0 < ru_max rules then ru_max rules else 4 * 2 ^ 30)"

text \<open>\<open>^\d+[units]?$\<close>: the digits and what follows them.\<close>

definition num_unit :: "string \<Rightarrow> string \<Rightarrow> bool" where
  "num_unit units s =
    (let ds = takeWhile is_digit s; r = drop (length ds) s
     in ds \<noteq> [] \<and> (r = [] \<or> (length r = 1 \<and> hd r \<in> set units)))"

definition sizeRe :: "string \<Rightarrow> bool" where
  "sizeRe = num_unit ''kKmMgG''"

definition timeRe :: "string \<Rightarrow> bool" where
  "timeRe = num_unit ''hmsd''"

definition expiresRe :: "string \<Rightarrow> bool" where
  "expiresRe s \<longleftrightarrow> (s \<noteq> [] \<and> hd s = CHR ''@'' \<and> all_digits (tl s)) \<or> s \<in> {''epoch'', ''max'', ''off''}
     \<or> (num_unit ''hmsdwy'' s \<and> \<not> all_digits s)"

definition headerNameRe :: "string \<Rightarrow> bool" where
  "headerNameRe s \<longleftrightarrow> s \<noteq> [] \<and> list_all (\<lambda>c. is_lower c \<or> is_upper c \<or> is_digit c \<or> c = CHR ''-'') s"

definition uri_char :: "char \<Rightarrow> bool" where
  "uri_char c \<longleftrightarrow> is_lower c \<or> is_upper c \<or> is_digit c \<or> c \<in> set ''._/~!$&*+,;=:@%-'' \<or> byte c = 39"

definition uriPathRe :: "string \<Rightarrow> bool" where
  "uriPathRe s \<longleftrightarrow> s \<noteq> [] \<and> hd s = CHR ''/'' \<and> list_all uri_char (tl s)"

definition isStatusCode :: "string \<Rightarrow> bool" where
  "isStatusCode s \<longleftrightarrow> (case parse_int s of None \<Rightarrow> False | Some n \<Rightarrow> 300 \<le> n \<and> n \<le> 599)"

text \<open>The multiplication is on 64-bit signed integers.\<close>

definition ParseSizeBytes :: "string \<Rightarrow> cfg_err + int" where
  "ParseSizeBytes s =
    (if \<not> sizeRe s then Inl (BadSize s)
     else
       let unit = ToLower [last s];
           (mult, num) = (if unit = ''k'' then (1024, butlast s) else if unit = ''m'' then (1024 * 1024, butlast s)
                          else if unit = ''g'' then (1024 * 1024 * 1024, butlast s) else (1, s))
       in case parse_int num of None \<Rightarrow> Inl (BadSize s) | Some n \<Rightarrow> Inr (sint (word_of_int (n * mult) :: i64)))"

definition validateIPArg :: "string \<Rightarrow> cfg_err option" where
  "validateIPArg arg =
    (if arg = ''all'' then None
     else if contains arg '':'' then
       (if ParseCIDR arg \<noteq> None then None
        else if ParseIP arg \<noteq> None \<and> 2 \<le> length (filter (\<lambda>c. c = CHR '':'') arg) then None
        else Some (Friendly arg ''not a valid IPv6 address or CIDR''))
     else if ParseCIDR arg \<noteq> None then None
     else if (case ParseIP arg of None \<Rightarrow> False | Some a \<Rightarrow> To4 a \<noteq> None) then None
     else Some (Friendly arg ''not a valid IP address or CIDR''))"

definition path_forbidden :: string where
  "path_forbidden = '';{}'' @ [CHR 0x22, CHR 0x27] @ ''`$ '' @ [tab]"

definition isSiteRelativePath :: "string \<Rightarrow> bool" where
  "isSiteRelativePath p \<longleftrightarrow>
    \<not> (p = [] \<or> has_prefix p ''/'' \<or> contains p ''..'' \<or> contains_any p path_forbidden)
    \<and> (contains p ''.'' \<or> contains p ''/'' \<or> 0 < length p)"

definition require :: "bool \<Rightarrow> string \<Rightarrow> string \<Rightarrow> cfg_err option" where
  "require ok line reason = (if ok then None else Some (Friendly line reason))"

section \<open>Schemas\<close>

definition set_schema :: "string list \<Rightarrow> string \<Rightarrow> cfg_err option" where
  "set_schema args line =
    (if length args \<noteq> 2 then Some (Friendly line ''set takes a variable and a value'')
     else let v = args ! 0 in
       if \<not> has_prefix v ''$'' \<or> has_prefix v ''$epicpanel'' \<or> length v < 2
       then Some (Friendly line ''set target variable is not allowed'')
       else if \<not> list_all (\<lambda>c. isIdentChar (c mod 256)) (runes (tl v))
       then Some (Friendly line ''set target variable name is invalid'')
       else validateVarToken (args ! 1))"

definition return_schema :: "string list \<Rightarrow> string \<Rightarrow> cfg_err option" where
  "return_schema args line =
    (if length args < 1 \<or> 2 < length args
     then Some (Friendly line ''return takes a status code (and optionally a URI, text or URL)'')
     else if length args = 2
     then require (case parse_int (args ! 0) of None \<Rightarrow> False | Some n \<Rightarrow> 100 \<le> n \<and> n \<le> 999) line
            ''return code must be 100-999''
     else require ((length (args ! 0) = 3 \<and> isStatusCode (args ! 0)) \<or> has_prefix (args ! 0) ''http'') line
            ''return needs a code (optionally with a text/URL) or a URL'')"

definition error_page_schema :: "string list \<Rightarrow> string \<Rightarrow> cfg_err option" where
  "error_page_schema args line =
    (if length args < 2 then Some (Friendly line ''error_page takes status codes and a URI'')
     else also_err (first_err (\<lambda>a. require (isStatusCode a) line (a @ '' is not a status code'')) (butlast args))
       (let uri = last args in
        require (uriPathRe uri \<and> \<not> contains uri ''..'' \<and> checkVarRefs uri) line
          ''error_page URI must be an internal path like /404.html''))"

definition size_schema :: "string \<Rightarrow> string list \<Rightarrow> string \<Rightarrow> site_rules \<Rightarrow> cfg_err option" where
  "size_schema name args line rules =
    (if length args \<noteq> 1 then Some (Friendly line (name @ '' takes one size value''))
     else case ParseSizeBytes (args ! 0) of
            Inl e \<Rightarrow> Some e
          | Inr n \<Rightarrow> require (name \<noteq> ''client_max_body_size'' \<or> n \<le> maxBody rules) line
                       ''client_max_body_size exceeds the maximum allowed (4g)'')"

definition arg_schema :: "string \<Rightarrow> string list \<Rightarrow> string \<Rightarrow> site_rules \<Rightarrow> cfg_err option" where
  "arg_schema name args line rules =
    (if name = ''break'' then require (args = []) line ''break takes no arguments''
     else if name = ''rewrite'' then
       (if length args < 2 \<or> 3 < length args
        then Some (Friendly line ''rewrite takes a regex, a replacement and an optional flag'')
        else if \<not> checkVarRefs (args ! 1) then Some (Friendly line ''replacement references an unsupported variable'')
        else require (length args \<noteq> 3 \<or> args ! 2 \<in> {''last'', ''break'', ''redirect'', ''permanent''}) line
               ''rewrite flag must be last, break, redirect or permanent'')
     else if name = ''return'' then return_schema args line
     else if name = ''set'' then set_schema args line
     else if name = ''try_files'' then
       (if args = [] then Some (Friendly line ''try_files needs at least one target'')
        else require (list_all checkVarRefs args) line ''try_files references an unsupported variable'')
     else if name = ''add_header'' then
       (if length args < 2 \<or> 3 < length args
        then Some (Friendly line ''add_header takes a header name, a value and optionally always'')
        else if \<not> headerNameRe (args ! 0) then Some (Friendly line ''invalid header name'')
        else require (length args \<noteq> 3 \<or> args ! 2 = ''always'') line ''third add_header argument must be always'')
     else if name = ''expires'' then
       require (length args = 1 \<and> expiresRe (args ! 0)) line ''expires takes a time (30d), @epoch, epoch, max or off''
     else if name = ''autoindex'' then
       require (length args = 1 \<and> args ! 0 \<in> {''on'', ''off''}) line ''autoindex takes on or off''
     else if name = ''index'' then require (args \<noteq> []) line ''index needs at least one file name''
     else if name = ''error_page'' then error_page_schema args line
     else if name = ''client_max_body_size'' \<or> name = ''client_body_buffer_size'' then size_schema name args line rules
     else if name = ''allow'' \<or> name = ''deny'' then
       (if length args \<noteq> 1 then Some (Friendly line (name @ '' takes one address, CIDR or all''))
        else validateIPArg (args ! 0))
     else if name = ''satisfy'' then
       require (length args = 1 \<and> args ! 0 \<in> {''all'', ''any''}) line ''satisfy takes all or any''
     else if name = ''auth_basic'' then require (length args = 1) line ''auth_basic takes off or a single-word realm''
     else if name = ''auth_basic_user_file'' then
       require (length args = 1 \<and> isSiteRelativePath (args ! 0)) line
         ''auth_basic_user_file must be a relative path (EpicPanel places it inside your site directory)''
     else if name = ''proxy_pass'' then
       (if length args \<noteq> 1 then Some (Friendly line ''proxy_pass takes one URL'')
        else case ValidateProxyTarget (args ! 0) rules of Inl e \<Rightarrow> Some e | Inr _ \<Rightarrow> None)
     else if name = ''proxy_http_version'' then
       require (length args = 1 \<and> args ! 0 \<in> {''1.0'', ''1.1''}) line ''proxy_http_version takes 1.0 or 1.1''
     else if name \<in> {''proxy_read_timeout'', ''proxy_send_timeout'', ''proxy_connect_timeout''} then
       require (length args = 1 \<and> timeRe (args ! 0)) line (name @ '' takes a time value like 60s'')
     else if name = ''proxy_buffering'' then
       require (length args = 1 \<and> args ! 0 \<in> {''on'', ''off''}) line ''proxy_buffering takes on or off''
     else if name = ''proxy_redirect'' then
       require (length args = 1 \<and> args ! 0 \<in> {''off'', ''default''}) line ''proxy_redirect takes off or default here''
     else if name = ''proxy_set_header'' then
       (if length args \<noteq> 2 then Some (Friendly line ''proxy_set_header takes a header name and a value'')
        else if \<not> headerNameRe (args ! 0) \<and> args ! 0 \<noteq> ''Upgrade'' \<and> args ! 0 \<noteq> ''Connection''
        then Some (Friendly line ''invalid header name'')
        else require (checkVarRefs (args ! 1)) line ''value references an unsupported variable'')
     else None)"

definition validateArgs :: "string \<Rightarrow> string list \<Rightarrow> string \<Rightarrow> site_rules \<Rightarrow> cfg_err option" where
  "validateArgs name args line rules = also_err (arg_schema name args line rules) (first_err validateVarToken args)"

definition validateDirectiveLine :: "string \<Rightarrow> ctx \<Rightarrow> site_rules \<Rightarrow> cfg_err option" where
  "validateDirectiveLine line c rules =
    (case GoStrings.fields line of
       [] \<Rightarrow> None
     | w # args \<Rightarrow>
         let name = ToLower w in
         case Lookup name of
           None \<Rightarrow> Some (Friendly line ''unknown directive'')
         | Some d \<Rightarrow>
             if d_level d \<noteq> LevelUser then
               Some (Friendly line (if hint_for name = [] then name @ '' is platform-managed'' else hint_for name))
             else if \<not> Has (d_contexts d) c then
               Some (Friendly line (name @ '' is not valid in '' @ ctx_name c @ '' context''))
             else validateArgs name args line rules)"

fun validate_stmts :: "ctx \<Rightarrow> site_rules \<Rightarrow> ctx \<Rightarrow> stmt list \<Rightarrow> cfg_err option" where
  "validate_stmts c rules inner [] = None"
| "validate_stmts c rules inner (s # ss) =
    (if st_shut s then validate_stmts c rules c ss
     else if st_open s then
       (if \<not> Has c (CtxServer OR CtxLocation) then
          Some (Friendly (st_text s) ''if blocks are not valid in this context'')
        else (case if_open (st_text s) of
                None \<Rightarrow> Some (Friendly (st_text s) ''if condition references an unsupported variable'')
              | Some v \<Rightarrow> if \<not> checkVarRefs (''$'' @ v)
                          then Some (Friendly (st_text s) ''if condition references an unsupported variable'')
                          else validate_stmts c rules CtxIf ss))
     else also_err (validateDirectiveLine (st_text s) inner rules) (validate_stmts c rules inner ss))"

definition ValidateSnippet :: "string \<Rightarrow> ctx \<Rightarrow> site_rules \<Rightarrow> cfg_err option" where
  "ValidateSnippet text c rules =
    (case ParseSnippet text of Inl e \<Rightarrow> Some e | Inr ss \<Rightarrow> validate_stmts c rules c ss)"

section \<open>What validation guarantees\<close>

text \<open>A reference to a reserved variable: \<open>$epicpanel\<close> at a place that no other \<open>$\<close>
  precedes.\<close>

definition reserved_ref :: "string \<Rightarrow> bool" where
  "reserved_ref a \<longleftrightarrow> (\<exists>p r. a = p @ ''$epicpanel'' @ r \<and> (p = [] \<or> last p \<noteq> CHR ''$''))"

lemma ident_dollar: "\<not> isIdentChar (byte (CHR ''$''))"
  by (simp add: isIdentChar_def)

lemma ident_epicpanel: "list_all (\<lambda>c. isIdentChar (byte c)) ''epicpanel''"
  by (simp add: isIdentChar_def)

lemma take_ident: "takeWhile P (x @ d # y) = takeWhile P x \<and> drop (length (takeWhile P x)) (x @ d # y) =
    drop (length (takeWhile P x)) x @ d # y" if "\<not> P d"
  using that by (induction x) auto

lemma var_scan_reserved:
  "var_scan token s = None \<Longrightarrow> s = p @ ''$epicpanel'' @ r \<Longrightarrow> p \<noteq> [] \<and> last p = CHR ''$''"
proof (induction token s arbitrary: p r rule: var_scan.induct)
  case (1 token s)
  let ?id = "\<lambda>c. isIdentChar (byte c)"
  show ?case
  proof (cases p)
    case Nil
    then have s: "s = CHR ''$'' # ''epicpanel'' @ r" using "1.prems"(2) by simp
    have "has_prefix (takeWhile ?id (''epicpanel'' @ r)) ''epicpanel''"
      using ident_epicpanel by (simp add: has_prefix_iff)
    then show ?thesis using "1.prems"(1) unfolding s
      by (subst (asm) var_scan.simps) (auto simp: Let_def split: if_splits)
  next
    case (Cons c q)
    then have s: "s = c # q @ ''$epicpanel'' @ r" using "1.prems"(2) by simp
    show ?thesis
    proof (cases "c = CHR ''$''")
      case False
      then have "var_scan token (q @ ''$epicpanel'' @ r) = None"
        using "1.prems"(1) unfolding s by (subst (asm) var_scan.simps) simp
      then have "q \<noteq> [] \<and> last q = CHR ''$''" using "1.IH"(1) [OF s False] by blast
      then show ?thesis using Cons by simp
    next
      case dollar: True
      let ?tail = "q @ ''$epicpanel'' @ r"
      have id: "takeWhile ?id ?tail = takeWhile ?id q"
        "drop (length (takeWhile ?id q)) ?tail = drop (length (takeWhile ?id q)) q @ ''$epicpanel'' @ r"
        using take_ident [of ?id "CHR ''$''" q "''epicpanel'' @ r"] ident_dollar by auto
      show ?thesis
      proof (cases "takeWhile ?id q = []")
        case True
        have next1: "var_scan token (drop 1 ?tail) = None"
          using "1.prems"(1) dollar id True unfolding s by (subst (asm) var_scan.simps) (simp add: Let_def)
        show ?thesis
        proof (cases q)
          case Nil
          then show ?thesis using Cons dollar by simp
        next
          case (Cons d q')
          then have "q' \<noteq> [] \<and> last q' = CHR ''$''"
            using "1.IH"(2) [OF s _ refl, of q' r] dollar next1 True id by simp
          then show ?thesis using \<open>p = c # q\<close> Cons by simp
        qed
      next
        case False
        have next2: "var_scan token (drop (length (takeWhile ?id q)) q @ ''$epicpanel'' @ r) = None"
          and ok: "\<not> has_prefix (takeWhile ?id q) ''epicpanel''" "varRefRe (takeWhile ?id q)"
          using "1.prems"(1) dollar id False unfolding s
          by (subst (asm) var_scan.simps, simp add: Let_def split: if_splits)+
        have "drop (length (takeWhile ?id q)) q \<noteq> [] \<and> last (drop (length (takeWhile ?id q)) q) = CHR ''$''"
        proof (rule "1.IH"(3) [OF s _ refl])
          show "\<not> c \<noteq> CHR ''$''" using dollar by simp
          show "takeWhile ?id ?tail \<noteq> []" "\<not> has_prefix (takeWhile ?id ?tail) ''epicpanel''"
            "\<not> \<not> varRefRe (takeWhile ?id ?tail)"
            using False ok by (simp_all only: id) simp_all
          show "var_scan token (drop (length (takeWhile ?id ?tail)) ?tail) = None"
            "drop (length (takeWhile ?id ?tail)) ?tail = drop (length (takeWhile ?id q)) q @ ''$epicpanel'' @ r"
            using next2 by (simp_all only: id)
        qed
        then have "q \<noteq> [] \<and> last q = CHR ''$''"
          using last_drop [of "length (takeWhile ?id q)" q] by auto
        then show ?thesis using Cons by simp
      qed
    qed
  qed
qed

lemma no_reserved: "validateVarToken a = None \<Longrightarrow> \<not> reserved_ref a"
  using var_scan_reserved [of a a] by (auto simp: validateVarToken_def reserved_ref_def)

lemma no_dollar: "CHR ''$'' \<notin> set n \<Longrightarrow> var_scan t n = None"
  by (induction n) (subst var_scan.simps, simp, subst var_scan.simps, auto)

text \<open>The byte after such a \<open>$\<close> is not looked at.\<close>

lemma double_dollar: "CHR ''$'' \<notin> set n \<Longrightarrow> validateVarToken (''$$'' @ n) = None"
  using no_dollar ident_dollar unfolding validateVarToken_def by (subst var_scan.simps) (simp add: Let_def)

text \<open>A directive a customer may write in the context, with no reserved variable in it.\<close>

definition allowed_in :: "ctx \<Rightarrow> string \<Rightarrow> bool" where
  "allowed_in c line \<longleftrightarrow>
    (case GoStrings.fields line of
       [] \<Rightarrow> True
     | w # args \<Rightarrow> (case Lookup (ToLower w) of
                      None \<Rightarrow> False
                    | Some d \<Rightarrow> d_level d = LevelUser \<and> Has (d_contexts d) c)
                 \<and> (\<forall>a \<in> set args. \<not> reserved_ref a))"

lemma directive_allowed: "validateDirectiveLine line c rules = None \<Longrightarrow> allowed_in c line"
  using no_reserved
  by (auto simp: validateDirectiveLine_def allowed_in_def validateArgs_def also_err_None first_err_None Let_def
      split: list.splits option.splits if_splits)

lemma validate_stmts_allowed:
  "validate_stmts c rules inner ss = None \<Longrightarrow> inner = c \<or> inner = CtxIf \<Longrightarrow>
    \<forall>s \<in> set ss. plain s \<longrightarrow> allowed_in c (st_text s) \<or> allowed_in CtxIf (st_text s)"
proof (induction c rules inner ss rule: validate_stmts.induct)
  case (2 c rules inner s ss)
  then show ?case
    using directive_allowed
    by (auto simp: plain_def also_err_None split: if_splits option.splits)
qed simp

text \<open>C13: An accepted snippet is confined. Its blocks balance, so it cannot close the block it is
  rendered in; every directive line is free of \<open>{ } ; `\<close>, names a registry directive that
  customers may use in the context or in an \<open>if\<close> block, and passes no reference to a
  reserved \<open>$epicpanel\<close> variable (unless another \<open>$\<close> stands right before it).\<close>

theorem accepted_snippet_confined:
  assumes "ValidateSnippet text c rules = None"
  shows "\<exists>ss. ParseSnippet text = Inr ss \<and> balanced 0 ss \<and>
    (\<forall>s \<in> set ss. plain s \<longrightarrow> \<not> contains_any (st_text s) structural \<and>
       (allowed_in c (st_text s) \<or> allowed_in CtxIf (st_text s)))"
proof -
  obtain ss where ss: "ParseSnippet text = Inr ss" "validate_stmts c rules c ss = None"
    using assms by (auto simp: ValidateSnippet_def split: sum.splits)
  then show ?thesis
    using parse_sound [OF ss(1)] validate_stmts_allowed [OF ss(2)]
    by (auto simp: list_all_iff stmt_ok_def plain_def)
qed

definition demo_rules :: site_rules where
  "demo_rules = \<lparr>ru_php = False, ru_proxy = False, ru_own = [], ru_owner = None, ru_max = 0\<rparr>"

lemma accepted_snippet_confined_witness:
  "\<exists>ss. ParseSnippet (join_with [newline] [''if ($uri ~ ^/a) {'', ''return 403'', ''}'', ''add_header X-A $host'']) = Inr ss
    \<and> balanced 0 ss \<and> (\<forall>s \<in> set ss. plain s \<longrightarrow> \<not> contains_any (st_text s) structural \<and>
       (allowed_in CtxServer (st_text s) \<or> allowed_in CtxIf (st_text s)))"
proof -
  have "ValidateSnippet (join_with [newline] [''if ($uri ~ ^/a) {'', ''return 403'', ''}'', ''add_header X-A $host''])
      CtxServer demo_rules = None"
    by code_simp
  then show ?thesis by (rule accepted_snippet_confined)
qed

text \<open>The cap on the body size can be passed. \<open>ParseSizeBytes\<close> multiplies in 64 bits without a
  check, so a large enough number of gigabytes wraps around to a small or negative size:
  the directive is accepted under every limit, and the text nginx then reads is the huge
  one.\<close>

theorem size_cap_wraps:
  assumes "k < 2 ^ 29"
  shows "validateArgs ''client_max_body_size'' [nat_str (2 ^ 34 * k + 2 ^ 33) @ ''g''] line rules = None"
proof -
  define m where "m = 2 ^ 34 * k + 2 ^ 33"
  define ds where "ds = nat_str m"
  have digits: "all_digits ds" "\<forall>c \<in> set ds. is_digit c"
    using all_digits_nat_str [of m] by (auto simp: ds_def all_digits_def list_all_iff)
  have "in_int64 (int m)" using assms by (simp add: in_int64_def m_def)
  then have num: "parse_int ds = Some (int m)"
    using parse_int_int_str [of "int m"] by (simp add: int_str_def ds_def)
  have "takeWhile is_digit (ds @ ''g'') = ds" "\<not> is_digit (CHR ''g'')"
    using digits by (auto simp: is_digit_def takeWhile_append2)
  then have size: "sizeRe (ds @ ''g'')" using digits by (simp add: sizeRe_def num_unit_def all_digits_def)
  have unit: "ToLower ''g'' = ''g''" by code_simp
  have "int m * (1024 * 1024 * 1024) = 2 ^ 63 + 2 ^ 64 * int k" by (simp add: m_def algebra_simps)
  then have "(word_of_int (int m * (1024 * 1024 * 1024)) :: i64) = word_of_int (2 ^ 63)"
    by (simp only: word_of_int_eq_iff take_bit_eq_mod) simp
  then have "ParseSizeBytes (ds @ ''g'') = Inr (sint (word_of_int (2 ^ 63) :: i64))"
    using size num unit by (simp add: ParseSizeBytes_def)
  then have "ParseSizeBytes (ds @ ''g'') = Inr (- (2 ^ 63))" by simp
  moreover have "- (2 ^ 63) \<le> maxBody rules" by (simp add: maxBody_def)
  moreover have "CHR ''$'' \<notin> set (ds @ ''g'')" using digits by (auto simp: is_digit_def)
  ultimately show ?thesis
    unfolding validateArgs_def also_err_None ds_def [symmetric] m_def [symmetric]
    by (simp add: arg_schema_def size_schema_def require_def validateVarToken_def no_dollar)
qed

lemma size_cap_wraps_witness:
  "validateArgs ''client_max_body_size'' [nat_str (2 ^ 33) @ ''g''] [] demo_rules = None"
  using size_cap_wraps [of 0 "[]" demo_rules] by simp

end
