(* ===== verification/NginxSite.thy ===== *)
theory NginxSite
  imports NginxValidate
begin

text \<open>
  The structured customisation of a site, \<open>internal/nginxcfg/model.go\<close>,
  \<open>config_validate.go\<close> and \<open>render.go\<close>: the control plane validates a whole document
  (\<open>ValidateSiteConfig\<close>), the agent validates section by section and keeps what passes
  (\<open>BuildUserLayer\<close>), and the vhost renderer of \<open>internal/agent/nginx.go\<close> turns the layer
  into text (\<open>renderUserLayer\<close>).
\<close>

section \<open>The document\<close>

record root_location =
  rl_try :: string
  rl_extra :: string

record custom_location =
  loc_id :: string
  loc_kind :: string
  loc_match :: string
  loc_body :: string

record header_rule =
  hr_name :: string
  hr_value :: string
  hr_always :: bool

record ip_access =
  ia_rules :: "(string \<times> string) list"
  ia_default :: string

record error_page =
  ep_status :: int
  ep_uri :: string

record asset_caching =
  ac_classes :: "string list"
  ac_expires :: string

record path_redirect =
  rd_from :: string
  rd_to :: string
  rd_code :: int

record site_config =
  sc_schema :: int
  sc_server :: string
  sc_root :: "root_location option"
  sc_locations :: "custom_location list"
  sc_headers :: "header_rule list"
  sc_ip :: "ip_access option"
  sc_errors :: "error_page list"
  sc_max :: string
  sc_caching :: "asset_caching option"
  sc_redirects :: "path_redirect list"

definition KindPrefix :: string where "KindPrefix = ''prefix''"
definition KindExact :: string where "KindExact = ''exact''"
definition KindRegex :: string where "KindRegex = ''regex''"
definition KindRegexNoCase :: string where "KindRegexNoCase = ''regex_nocase''"

definition AssetClasses :: "(string \<times> string list) list" where
  "AssetClasses =
    [(''css'', [''css'']), (''js'', [''js'', ''mjs'']),
     (''img'', [''png'', ''jpg'', ''jpeg'', ''gif'', ''svg'', ''webp'', ''avif'', ''ico'']),
     (''fonts'', [''woff'', ''woff2'', ''ttf'', ''otf'', ''eot'']),
     (''media'', [''mp4'', ''webm'', ''mp3'', ''ogg'', ''wav''])]"

section \<open>Validation of the parts\<close>

definition quotes :: string where
  "quotes = [CHR 0x22, CHR 0x27, CHR 0x60]"

definition matchTokenRe :: "string \<Rightarrow> bool" where
  "matchTokenRe s \<longleftrightarrow> s \<noteq> [] \<and> list_all (\<lambda>c. \<not> re_space c \<and> c \<notin> set ('';{}'' @ quotes)) s"

fun var_free :: "string \<Rightarrow> bool" where
  "var_free [] = True"
| "var_free (c # s) = (\<not> (c = CHR ''$'' \<and> s \<noteq> [] \<and> isIdentChar (byte (hd s))) \<and> var_free s)"

definition validateMatcher :: "string \<Rightarrow> bool" where
  "validateMatcher m \<longleftrightarrow> matchTokenRe m \<and> var_free m"

definition managedExactLocations :: "(string \<times> string) list" where
  "managedExactLocations =
    [(''/epicpanel-busy.html'', ''the busy page of the panel is platform-managed''),
     (''/epicpanel-notfound.html'', ''the not-found page of the panel is platform-managed'')]"

definition invalid_unless :: "bool \<Rightarrow> string \<Rightarrow> cfg_err option" where
  "invalid_unless ok msg = (if ok then None else Some (Invalid msg))"

definition managed_conflict :: "site_rules \<Rightarrow> custom_location \<Rightarrow> cfg_err option" where
  "managed_conflict rules l =
    (if loc_kind l = KindPrefix then
       also_err (invalid_unless (loc_match l \<noteq> ''/'') ''conflicts with the managed default location'')
         (invalid_unless (\<not> has_prefix (loc_match l) ''/.well-known/acme-challenge'')
            ''conflicts with the certificate-challenge location'')
     else if loc_kind l = KindExact then
       (case map_of managedExactLocations (loc_match l) of None \<Rightarrow> None | Some why \<Rightarrow> Some (Invalid why))
     else if loc_kind l = KindRegex \<or> loc_kind l = KindRegexNoCase then
       also_err (invalid_unless (\<not> (ru_php rules \<and> has_suffix (loc_match l) (CHR 0x5C # ''.php$'')))
           ''conflicts with the managed PHP handler'')
         (invalid_unless (\<not> contains (loc_match l) [CHR ''/'', CHR 0x5C, CHR ''.''])
            ''conflicts with the managed dotfile-deny location'')
     else None)"

definition validateAgainstManaged :: "custom_location list \<Rightarrow> site_rules \<Rightarrow> cfg_err option" where
  "validateAgainstManaged ls rules = first_err (managed_conflict rules) ls"

definition within :: "string \<Rightarrow> cfg_err option \<Rightarrow> cfg_err option" where
  "within where r = map_option (Within where) r"

definition no_rules :: site_rules where
  "no_rules = \<lparr>ru_php = False, ru_proxy = False, ru_own = [], ru_owner = None, ru_max = 0\<rparr>"

definition validateRootLocation :: "root_location \<Rightarrow> site_rules \<Rightarrow> cfg_err option" where
  "validateRootLocation root rules =
    also_err
      (if rl_try root = [] then None
       else also_err (invalid_unless (\<not> ru_proxy rules) ''try_files cannot be set while the site proxies'')
              (validateArgs ''try_files'' (GoStrings.fields (rl_try root)) (''try_files '' @ rl_try root) no_rules))
      (if rl_extra root = [] then None
       else within ''root location extras'' (ValidateSnippet (rl_extra root) CtxLocation rules))"

definition validateCustomLocation :: "custom_location \<Rightarrow> site_rules \<Rightarrow> cfg_err option" where
  "validateCustomLocation l rules =
    also_err (invalid_unless (loc_id l \<noteq> []) ''custom location is missing an id'')
    (also_err
      (if loc_kind l = KindPrefix \<or> loc_kind l = KindExact then
         invalid_unless (has_prefix (loc_match l) ''/'' \<and> validateMatcher (loc_match l))
           ''prefix/exact matchers must be a URI path like /api/''
       else if loc_kind l = KindRegex \<or> loc_kind l = KindRegexNoCase then
         invalid_unless (validateMatcher (loc_match l)) ''regex matcher must be a single token''
       else Some (Invalid ''unsupported kind''))
      (within (''location '' @ loc_match l) (ValidateSnippet (loc_body l) CtxLocation rules)))"

definition header_forbidden :: string where
  "header_forbidden = quotes @ '';{}'' @ [CHR 0x0D, newline, tab]"

definition validateHeader :: "header_rule \<Rightarrow> cfg_err option" where
  "validateHeader h =
    also_err (invalid_unless (headerNameRe (hr_name h)) ''not a valid header name'')
      (invalid_unless (hr_value h \<noteq> [] \<and> \<not> contains_any (hr_value h) header_forbidden) ''header has an invalid value'')"

definition validateIPAccess :: "ip_access \<Rightarrow> cfg_err option" where
  "validateIPAccess ip =
    also_err (invalid_unless (ia_default ip \<in> {''allow'', ''deny''}) ''IP access default must be allow or deny'')
      (first_err (\<lambda>(cidr, action).
          also_err (invalid_unless (action \<in> {''allow'', ''deny''}) ''IP rule action must be allow or deny'')
            (validateIPArg cidr)) (ia_rules ip))"

definition validateAssetCaching :: "asset_caching \<Rightarrow> cfg_err option" where
  "validateAssetCaching ac =
    also_err (invalid_unless (ac_classes ac \<noteq> []) ''asset caching needs at least one asset class'')
    (also_err (invalid_unless (list_all (\<lambda>c. map_of AssetClasses c \<noteq> None) (ac_classes ac)) ''unknown asset class'')
      (invalid_unless (expiresRe (ac_expires ac) \<and> ac_expires ac \<notin> {''off'', ''epoch''})
         ''asset caching expires must be a time like 30d or 7d''))"

definition path_chars :: string where
  "path_chars = [CHR '' '', tab] @ '';{}'' @ quotes"

definition validateRedirect :: "path_redirect \<Rightarrow> cfg_err option" where
  "validateRedirect rd =
    also_err (invalid_unless (rd_code rd \<in> {301, 302, 307, 308}) ''redirect code must be 301, 302, 307 or 308'')
    (also_err (invalid_unless (rd_from rd \<noteq> [] \<and> rd_to rd \<noteq> []) ''redirect needs a from path and a to target'')
    (also_err
      (if has_prefix (rd_from rd) ''^''
       then invalid_unless (matchTokenRe (rd_from rd)) ''redirect from-pattern must be a single regex token''
       else invalid_unless (has_prefix (rd_from rd) ''/'' \<and> \<not> contains_any (rd_from rd) (path_chars @ ''$''))
              ''redirect from must be a path like /old-path'')
    (also_err
      (invalid_unless (has_prefix (rd_to rd) ''/'' \<or> has_prefix (rd_to rd) ''http://'' \<or> has_prefix (rd_to rd) ''https://'')
         ''redirect to must be a path or absolute URL'')
    (also_err (invalid_unless (\<not> contains_any (rd_to rd) path_chars) ''redirect to must be a single token'')
      (invalid_unless (checkVarRefs (rd_to rd)) ''redirect to references an unsupported variable'')))))"

section \<open>The caching pattern\<close>

fun str_less :: "string \<Rightarrow> string \<Rightarrow> bool" where
  "str_less s [] = False"
| "str_less [] (d # t) = True"
| "str_less (c # s) (d # t) = (byte c < byte d \<or> (c = d \<and> str_less s t))"

fun ins :: "string \<Rightarrow> string list \<Rightarrow> string list" where
  "ins x [] = [x]"
| "ins x (y # ys) = (if str_less x y then x # y # ys else y # ins x ys)"

definition sortStrings :: "string list \<Rightarrow> string list" where
  "sortStrings xs = foldl (\<lambda>acc x. ins x acc) [] xs"

text \<open>The extensions are collected in a set; its iteration order is lost by the sorting.\<close>

definition extensions :: "asset_caching \<Rightarrow> string list" where
  "extensions ac = remdups (concat (map (\<lambda>c. case map_of AssetClasses c of None \<Rightarrow> [] | Some es \<Rightarrow> es) (ac_classes ac)))"

definition assetCachingRegex :: "asset_caching \<Rightarrow> string" where
  "assetCachingRegex ac = [CHR 0x5C] @ ''.('' @ join_with ''|'' (sortStrings (extensions ac)) @ '')$''"

section \<open>Validation of a document\<close>

definition loc_key :: "custom_location \<Rightarrow> string" where
  "loc_key l = loc_kind l @ '' '' @ loc_match l"

fun validate_locations :: "site_rules \<Rightarrow> string list \<Rightarrow> custom_location list \<Rightarrow> cfg_err option" where
  "validate_locations rules seen [] = None"
| "validate_locations rules seen (l # ls) =
    also_err (validateCustomLocation l rules)
      (if loc_key l \<in> set seen then Some (Invalid ''duplicate location'')
       else validate_locations rules (loc_key l # seen) ls)"

definition validate_caching :: "site_config \<Rightarrow> cfg_err option" where
  "validate_caching cfg =
    (case sc_caching cfg of
       None \<Rightarrow> None
     | Some ac \<Rightarrow> also_err (validateAssetCaching ac)
         (invalid_unless (KindRegexNoCase @ '' '' @ assetCachingRegex ac \<notin> loc_key ` set (sc_locations cfg))
            ''asset caching conflicts with a custom location''))"

definition error_page_ok :: "error_page \<Rightarrow> bool" where
  "error_page_ok ep \<longleftrightarrow> isStatusCode (int_str (ep_status ep)) \<and> uriPathRe (ep_uri ep) \<and> \<not> contains (ep_uri ep) ''..''"

definition validate_size :: "site_config \<Rightarrow> site_rules \<Rightarrow> cfg_err option" where
  "validate_size cfg rules =
    (if sc_max cfg = [] then None
     else case ParseSizeBytes (sc_max cfg) of
            Inl e \<Rightarrow> Some e
          | Inr n \<Rightarrow> invalid_unless (n \<le> maxBody rules) ''client_max_body_size exceeds the maximum allowed (4g)'')"

definition ValidateSiteConfig :: "site_config \<Rightarrow> site_rules \<Rightarrow> cfg_err option" where
  "ValidateSiteConfig cfg rules =
    also_err (invalid_unless (sc_schema cfg = 2 \<or> sc_schema cfg = 0) ''unsupported config schema'')
    (also_err (within ''server directives'' (ValidateSnippet (sc_server cfg) CtxServer rules))
    (also_err (case sc_root cfg of None \<Rightarrow> None | Some root \<Rightarrow> validateRootLocation root rules)
    (also_err (validate_locations rules [] (sc_locations cfg))
    (also_err (validate_caching cfg)
    (also_err (first_err validateHeader (sc_headers cfg))
    (also_err (case sc_ip cfg of None \<Rightarrow> None | Some ip \<Rightarrow> validateIPAccess ip)
    (also_err (first_err (\<lambda>ep. invalid_unless (error_page_ok ep) ''error page'') (sc_errors cfg))
    (also_err (validate_size cfg rules)
    (also_err (first_err validateRedirect (sc_redirects cfg))
      (validateAgainstManaged (sc_locations cfg) rules))))))))))"

end
