(* ===== verification/NginxRender.thy ===== *)
theory NginxRender
  imports NginxSite
begin

text \<open>
  From the document to the vhost: \<open>BuildUserLayer\<close> (\<open>internal/nginxcfg/render.go\<close>) and the
  user section of the vhost renderer, \<open>renderUserLayer\<close> with its helpers in
  \<open>internal/agent/nginx.go\<close>. What is dropped is reported by section and error.
\<close>

section \<open>The user layer\<close>

record user_layer =
  ul_server :: "string list"
  ul_try :: string
  ul_root :: "string list"
  ul_proxy :: "string list"
  ul_locs :: "(string \<times> string list) list"
  ul_codes :: "int list"
  ul_max :: string

type_synonym drops = "(string \<times> cfg_err) list"

definition quoteIfNeeded :: "string \<Rightarrow> string" where
  "quoteIfNeeded v = (if contains_any v [CHR '' '', tab] then CHR 0x22 # v @ [CHR 0x22] else v)"

definition regex_meta :: string where
  "regex_meta = ''.*+?()[]{}^$|'' @ [CHR 0x5C]"

text \<open>The loop over code points escapes single bytes; the others are copied.\<close>

definition regexpQuote :: "string \<Rightarrow> string" where
  "regexpQuote s = concat (map (\<lambda>c. if c \<in> set regex_meta then [CHR 0x5C, c] else [c]) s)"

definition header_line :: "header_rule \<Rightarrow> string" where
  "header_line h = ''add_header '' @ hr_name h @ '' '' @ quoteIfNeeded (hr_value h) @ (if hr_always h then '' always'' else [])"

definition redirect_line :: "path_redirect \<Rightarrow> string" where
  "redirect_line rd =
    ''rewrite '' @ (if has_prefix (rd_from rd) ''^'' then rd_from rd else ''^'' @ regexpQuote (rd_from rd)) @ '' '' @ rd_to rd
      @ '' '' @ (if rd_code rd = 301 \<or> rd_code rd = 308 then ''permanent'' else ''redirect'')"

definition error_page_line :: "error_page \<Rightarrow> string" where
  "error_page_line ep = ''error_page '' @ int_str (ep_status ep) @ '' '' @ ep_uri ep"

definition ip_lines :: "ip_access \<Rightarrow> string list" where
  "ip_lines ip = map (\<lambda>(cidr, action). action @ '' '' @ cidr) (ia_rules ip) @ [ia_default ip @ '' all'']"

text \<open>A loop that renders the entries that pass and drops the others.\<close>

definition keep_valid :: "string \<Rightarrow> ('a \<Rightarrow> cfg_err option) \<Rightarrow> ('a \<Rightarrow> 'b) \<Rightarrow> 'a list \<Rightarrow> 'b list \<times> drops" where
  "keep_valid name check render xs =
    (map render (filter (\<lambda>x. check x = None) xs),
     concat (map (\<lambda>x. case check x of None \<Rightarrow> [] | Some e \<Rightarrow> [(name, e)]) xs))"

definition layer_max :: "site_config \<Rightarrow> string \<times> drops" where
  "layer_max cfg =
    (if sc_max cfg = [] then ([], [])
     else case ParseSizeBytes (sc_max cfg) of
            Inl e \<Rightarrow> ([], [(''client_max_body_size'', e)]) | Inr _ \<Rightarrow> (sc_max cfg, []))"

definition layer_ip :: "site_config \<Rightarrow> string list \<times> drops" where
  "layer_ip cfg =
    (case sc_ip cfg of
       None \<Rightarrow> ([], [])
     | Some ip \<Rightarrow> (case validateIPAccess ip of None \<Rightarrow> (ip_lines ip, []) | Some e \<Rightarrow> ([], [(''ip_access'', e)])))"

definition layer_errors :: "site_config \<Rightarrow> string list \<times> drops" where
  "layer_errors cfg = keep_valid ''error_pages'' (\<lambda>ep. invalid_unless (error_page_ok ep) ''invalid rule'')
     error_page_line (sc_errors cfg)"

definition layer_snippet :: "site_config \<Rightarrow> site_rules \<Rightarrow> string list \<times> drops" where
  "layer_snippet cfg rules =
    (case ParseSnippet (sc_server cfg) of
       Inl e \<Rightarrow> ([], [(''server_directives'', e)])
     | Inr ss \<Rightarrow> (case ValidateSnippet (sc_server cfg) CtxServer rules of
                   Some e \<Rightarrow> ([], [(''server_directives'', e)]) | None \<Rightarrow> (map st_text ss, [])))"

definition proxySafeDirectives :: "string list" where
  "proxySafeDirectives = [''add_header'', ''allow'', ''deny'', ''expires'', ''client_max_body_size'',
     ''proxy_read_timeout'', ''proxy_send_timeout'', ''proxy_connect_timeout'', ''proxy_buffering'',
     ''proxy_set_header'']"

definition proxy_safe :: "stmt \<Rightarrow> bool" where
  "proxy_safe s \<longleftrightarrow> plain s \<and> ToLower (hd (GoStrings.fields (st_text s))) \<in> set proxySafeDirectives"

text \<open>The overrides of the root location: \<open>try_files\<close>, lines in file mode, lines in proxy
  mode.\<close>

definition layer_root :: "site_config \<Rightarrow> site_rules \<Rightarrow> (string \<times> string list \<times> string list) \<times> drops" where
  "layer_root cfg rules =
    (case sc_root cfg of
       None \<Rightarrow> (([], [], []), [])
     | Some root \<Rightarrow>
         (case validateRootLocation root rules of
            Some e \<Rightarrow> (([], [], []), [(''root_location'', e)])
          | None \<Rightarrow>
              let ss = (if rl_extra root = [] then []
                        else case ParseSnippet (rl_extra root) of Inl _ \<Rightarrow> [] | Inr ss \<Rightarrow> ss)
              in ((rl_try root,
                   if ru_proxy rules then [] else map st_text ss,
                   if ru_proxy rules then map st_text (filter proxy_safe ss) else []), [])))"

definition modifier :: "string \<Rightarrow> string" where
  "modifier kind = (case map_of [(KindPrefix, []), (KindExact, ''=''), (KindRegex, ''~''), (KindRegexNoCase, ''~*'')] kind of
     None \<Rightarrow> [] | Some m \<Rightarrow> m)"

definition location_block :: "custom_location \<Rightarrow> string \<times> string list" where
  "location_block l =
    (let m = modifier (loc_kind l) in
     (if m = [] then ''location '' @ loc_match l @ '' {'' else ''location '' @ m @ '' '' @ loc_match l @ '' {'',
      case ParseSnippet (loc_body l) of Inl _ \<Rightarrow> [] | Inr ss \<Rightarrow> map st_text ss))"

fun layer_locations ::
    "site_rules \<Rightarrow> string list \<Rightarrow> custom_location list \<Rightarrow> (string \<times> string list) list \<times> drops \<times> string list" where
  "layer_locations rules seen [] = ([], [], seen)"
| "layer_locations rules seen (l # ls) =
    (let section = ''location '' @ loc_match l;
         err = also_err (validateCustomLocation l rules) (also_err (validateAgainstManaged [l] rules)
                 (if loc_key l \<in> set seen then Some (Invalid ''duplicate location'') else None))
     in case err of
          Some e \<Rightarrow> (case layer_locations rules seen ls of (bs, ds, sn) \<Rightarrow> (bs, (section, e) # ds, sn))
        | None \<Rightarrow> (case layer_locations rules (loc_key l # seen) ls of
                    (bs, ds, sn) \<Rightarrow> (location_block l # bs, ds, sn)))"

definition layer_caching :: "site_config \<Rightarrow> string list \<Rightarrow> (string \<times> string list) list \<times> drops" where
  "layer_caching cfg seen =
    (case sc_caching cfg of
       None \<Rightarrow> ([], [])
     | Some ac \<Rightarrow>
         (case validateAssetCaching ac of
            Some e \<Rightarrow> ([], [(''asset_caching'', e)])
          | None \<Rightarrow> let pattern = assetCachingRegex ac in
              if KindRegexNoCase @ '' '' @ pattern \<in> set seen then ([], [])
              else ([(''location ~* '' @ pattern @ '' {'', [''expires '' @ ac_expires ac])], [])))"

definition empty_layer :: user_layer where
  "empty_layer = \<lparr>ul_server = [], ul_try = [], ul_root = [], ul_proxy = [], ul_locs = [], ul_codes = [], ul_max = []\<rparr>"

definition BuildUserLayer :: "site_config option \<Rightarrow> site_rules \<Rightarrow> user_layer \<times> drops" where
  "BuildUserLayer doc rules =
    (case doc of
       None \<Rightarrow> (empty_layer, [])
     | Some cfg \<Rightarrow>
         let size = layer_max cfg; headers = keep_valid ''headers'' validateHeader header_line (sc_headers cfg);
             ip = layer_ip cfg; errors = layer_errors cfg;
             redirects = keep_valid ''redirects'' validateRedirect redirect_line (sc_redirects cfg);
             snippet = layer_snippet cfg rules; root = layer_root cfg rules;
             locs = layer_locations rules [] (sc_locations cfg); caching = layer_caching cfg (snd (snd locs))
         in (\<lparr>ul_server = fst headers @ fst ip @ fst errors @ fst redirects @ fst snippet,
              ul_try = fst (fst root), ul_root = fst (snd (fst root)), ul_proxy = snd (snd (fst root)),
              ul_locs = fst locs @ fst caching,
              ul_codes = map ep_status (filter error_page_ok (sc_errors cfg)), ul_max = fst size\<rparr>,
             snd size @ snd headers @ snd ip @ snd errors @ snd redirects @ snd snippet @ snd root
               @ fst (snd locs) @ snd caching))"

section \<open>The user section of a vhost\<close>

definition lines_text :: "string list \<Rightarrow> string" where
  "lines_text ls = join_with [newline] ls"

text \<open>The server-level directives. When the joined lines do not parse, nothing is rendered.\<close>

definition server_body :: "user_layer \<Rightarrow> string" where
  "server_body layer =
    (if ul_server layer = [] then []
     else case ParseSnippet (lines_text (ul_server layer)) of
            Inl _ \<Rightarrow> [] | Inr ss \<Rightarrow> IndentSnippet ss [tab, tab])"

definition location_text :: "string \<times> string list \<Rightarrow> string" where
  "location_text b =
    [newline, tab] @ fst b @ [newline] @
    (case ParseSnippet (lines_text (snd b)) of
       Inr ss \<Rightarrow> IndentSnippet ss [tab, tab]
     | Inl _ \<Rightarrow> concat (map (\<lambda>l. [tab, tab] @ TerminateLine l @ [newline]) (snd b))) @
    tab # ''}'' @ [newline]"

definition renderUserLayer :: "site_config option \<Rightarrow> string \<Rightarrow> user_layer \<Rightarrow> string" where
  "renderUserLayer doc proxyPass layer =
    (if doc = None then []
     else
       let capped = ul_max layer \<noteq> [] \<and> proxyPass = [];
           body = (if capped then tab # ''client_max_body_size '' @ ul_max layer @ '';'' @ [newline] else [])
             @ server_body layer @ concat (map location_text (ul_locs layer))
       in if capped \<or> ul_server layer \<noteq> [] \<or> ul_locs layer \<noteq> []
          then [newline, tab] @ ''# EPICPANEL USER CONFIG '' @ dash @ '' validated (ADR-068)'' @ [newline] @ body
            @ tab # ''# END EPICPANEL USER CONFIG'' @ [newline]
          else [])"

definition tryFilesFor :: "user_layer \<Rightarrow> string" where
  "tryFilesFor layer = (if ul_try layer \<noteq> [] then ul_try layer else ''$uri $uri/ =404'')"

definition indentExtras :: "string list \<Rightarrow> string" where
  "indentExtras ls = concat (map (\<lambda>l. [tab, tab] @ TerminateLine l @ [newline]) ls)"

section \<open>Lines\<close>

lemma split_on_app: "d \<notin> set w \<Longrightarrow> split_on d (w @ d # s) = w # split_on d s"
  by (induction w) (auto simp: split_on_Cons)

lemma split_on_snoc: "split_on d (s @ d # t) = split_on d s @ split_on d t"
proof (induction s)
  case (Cons c s)
  then show ?case by (simp add: split_on_Cons del: split_on.simps)
qed simp

lemma split_on_lines: "ws \<noteq> [] \<Longrightarrow> split_on d (join_with [d] ws) = concat (map (split_on d) ws)"
proof (induction ws)
  case (Cons w ws)
  then show ?case by (cases ws) (simp_all add: split_on_snoc)
qed simp

lemma parse_lines_trim: "parse_lines i d (map trim_space ls) = parse_lines i d ls"
  by (induction ls arbitrary: i d) (simp_all add: trim_space_idem Let_def)

text \<open>A line the parser refuses makes the whole text fail.\<close>

definition refused :: "string \<Rightarrow> bool" where
  "refused l \<longleftrightarrow> trim_space l = l \<and> l \<noteq> [] \<and> \<not> has_prefix l ''#'' \<and> l \<noteq> ''}'' \<and> \<not> has_suffix l ''{''
    \<and> contains_any l structural"

lemma parse_refused: "l \<in> set ls \<Longrightarrow> refused l \<Longrightarrow> isl (parse_lines i d ls)"
proof (induction i d ls rule: parse_lines.induct)
  case (2 i d raw ls)
  have emit: "isl r \<Longrightarrow> isl (emit s r)" for s r by (cases r) (auto simp: emit_def)
  consider "raw = l" | "l \<in> set ls" using 2(5) by auto
  then show ?case
  proof cases
    case 1
    then show ?thesis using 2(6) by (auto simp: refused_def Let_def)
  next
    case 2
    note * = 2
    show ?thesis
      using "2.IH" * 2 \<open>refused l\<close> emit by (auto simp: Let_def)
  qed
qed simp

lemma trim_right_headed: "graph c \<Longrightarrow> \<exists>u. trim_right (c # t) = c # u"
proof (induction "c # t" arbitrary: t rule: trim_right.induct)
  case 1
  let ?n = "space_len_end (c # t)"
  show ?case
  proof (cases "?n = 0")
    case True
    then show ?thesis by (subst trim_right.simps) auto
  next
    case False
    then obtain p where f: "find (has_suffix (c # t)) space_seqs = Some p" "?n = length p"
      by (auto simp: space_len_end_def split: option.splits)
    then have p: "p \<in> set space_seqs" "has_suffix (c # t) p" "?n = length p"
      using find_Some_iff [of "has_suffix (c # t)" space_seqs p] by auto
    have "length p \<le> length t"
    proof (rule ccontr)
      assume "\<not> length p \<le> length t"
      then have "p = c # t" using p(2) by (auto simp: has_suffix_iff Cons_eq_append_conv)
      then show False using p(1) space_seqs_ends \<open>graph c\<close> by (auto simp: list_all_iff)
    qed
    then have "take (length (c # t) - ?n) (c # t) = c # take (length t - ?n) t"
      using p(3) by (simp add: take_Cons' Suc_diff_le)
    then show ?thesis using 1 False by (subst trim_right.simps) simp
  qed
qed

lemma trim_headed: "graph c \<Longrightarrow> \<exists>u. trim_space (c # t) = c # u"
  using trim_right_headed by (simp add: trim_space_def trim_left_fix space_len_graph)

text \<open>A rendered line: it starts with a printable character other than \<open>#\<close> and holds no
  structural character and no line break.\<close>

definition rendered :: "string \<Rightarrow> bool" where
  "rendered l \<longleftrightarrow> l \<noteq> [] \<and> graph (hd l) \<and> hd l \<noteq> CHR ''#'' \<and> newline \<notin> set l \<and> \<not> contains_any l structural"

definition plain_stmt :: "string \<Rightarrow> stmt" where
  "plain_stmt l = \<lparr>st_text = l, st_open = False, st_shut = False\<rparr>"

lemma rendered_stmt: "rendered l \<Longrightarrow> stmt_ok (plain_stmt (trim_space l))"
proof -
  assume l: "rendered l"
  then obtain c t where ct: "l = c # t" "graph c" "c \<noteq> CHR ''#''" by (cases l) (auto simp: rendered_def)
  then obtain u where "trim_space l = c # u" using trim_headed by blast
  then have "line_ok (trim_space l)"
    using l ct set_trim_space [of l] unfolding line_ok_def trim_space_idem by (auto simp: rendered_def)
  moreover have "\<not> contains_any (trim_space l) structural"
    using l set_trim_space [of l] by (auto simp: rendered_def contains_any_def list_ex_iff)
  ultimately show ?thesis by (simp add: stmt_ok_def plain_stmt_def)
qed

lemma balanced_plain: "balanced 0 (map (plain_stmt \<circ> f) ls @ ss) = balanced 0 ss"
  by (induction ls) (simp_all add: plain_stmt_def)

lemma parse_rendered:
  assumes "list_all rendered ls" and "balanced 0 ss" and "list_all stmt_ok ss" and "ls @ map st_text ss \<noteq> []"
  shows "ParseSnippet (lines_text (ls @ map st_text ss)) = Inr (map (plain_stmt \<circ> trim_space) ls @ ss)"
proof -
  let ?all = "ls @ map st_text ss" and ?ss = "map (plain_stmt \<circ> trim_space) ls @ ss"
  have "split_on newline (lines_text ?all) = ?all"
    unfolding lines_text_def using assms
    by (intro split_join) (auto simp: list_all_iff rendered_def stmt_ok_def line_ok_def)
  moreover have "map trim_space ?all = map st_text ?ss"
    using assms(3) by (auto simp: list_all_iff stmt_ok_def line_ok_def plain_stmt_def)
  moreover have "balanced 0 ?ss" "list_all stmt_ok ?ss"
    using assms by (auto simp: balanced_plain list_all_iff rendered_stmt)
  then have "parse_lines 0 0 (map st_text ?ss) = Inr ?ss" by (rule parse_lines_complete)
  ultimately show ?thesis
    unfolding ParseSnippet_def by (metis parse_lines_trim)
qed

section \<open>What validation says about the rendered lines\<close>

lemma invalid_unless_None [simp]: "invalid_unless ok msg = None \<longleftrightarrow> ok"
  by (simp add: invalid_unless_def)

lemma within_None [simp]: "within w r = None \<longleftrightarrow> r = None"
  by (simp add: within_def)

lemmas checks = also_err_None first_err_None invalid_unless_None within_None

lemma keep_valid_all:
  "\<forall>x \<in> set xs. check x = None \<Longrightarrow> keep_valid name check render xs = (map render xs, [])"
  by (simp add: keep_valid_def)

text \<open>Characters that may stand anywhere in a rendered line, and the words a line may
  start with.\<close>

definition bad_chars :: string where
  "bad_chars = newline # structural"

definition harmless :: "string \<Rightarrow> bool" where
  "harmless s \<longleftrightarrow> \<not> contains_any s bad_chars"

definition lead :: "string \<Rightarrow> bool" where
  "lead w \<longleftrightarrow> w \<noteq> [] \<and> graph (hd w) \<and> hd w \<noteq> CHR ''#'' \<and> harmless w"

lemma harmless_append [simp]: "harmless (s @ t) \<longleftrightarrow> harmless s \<and> harmless t"
  by (simp add: harmless_def contains_any_def)

lemma harmless_allowed:
  "list_all P s \<Longrightarrow> list_all (\<lambda>c. \<not> P c) bad_chars \<Longrightarrow> harmless s"
  by (auto simp: harmless_def contains_any_def list_all_iff list_ex_iff)

lemma harmless_forbidden:
  "\<not> contains_any s F \<Longrightarrow> list_all (\<lambda>c. c \<in> set F) bad_chars \<Longrightarrow> harmless s"
  by (auto simp: harmless_def contains_any_def list_all_iff list_ex_iff)

lemma rendered_lead: "lead w \<Longrightarrow> harmless r \<Longrightarrow> rendered (w @ r)"
  by (auto simp: lead_def rendered_def harmless_def contains_any_def bad_chars_def list_ex_iff)

lemma leads:
  "lead ''add_header ''" "lead ''allow''" "lead ''deny''" "lead ''error_page ''" "lead ''rewrite ''"
  by code_simp+

lemma harmless_Nil [simp]: "harmless []"
  by (simp add: harmless_def contains_any_def)

lemma harmless_Cons [simp]:
  "harmless (c # s) \<longleftrightarrow> c \<notin> {CHR 0x0A, CHR ''{'', CHR ''}'', CHR '';'', CHR 0x60} \<and> harmless s"
  by (auto simp: harmless_def contains_any_def bad_chars_def newline_def structural_def)

lemma header_rendered:
  assumes "validateHeader h = None" shows "rendered (header_line h)"
proof -
  have ok: "headerNameRe (hr_name h)" "\<not> contains_any (hr_value h) header_forbidden"
    using assms by (simp_all add: validateHeader_def checks)
  have "list_all (\<lambda>c. \<not> (is_lower c \<or> is_upper c \<or> is_digit c \<or> c = CHR ''-'')) bad_chars"
    "list_all (\<lambda>c. c \<in> set header_forbidden) bad_chars" by code_simp+
  then have "harmless (hr_name h)" "harmless (hr_value h)"
    using ok harmless_allowed harmless_forbidden by (auto simp: headerNameRe_def)
  moreover have "harmless (quoteIfNeeded v)" if "harmless v" for v
    using that by (simp add: quoteIfNeeded_def)
  ultimately show ?thesis
    unfolding header_line_def by (intro rendered_lead leads) simp
qed

lemma ip_arg_harmless:
  assumes "validateIPArg a = None" shows "harmless a"
proof -
  have bad: "list_all (\<lambda>c. \<not> (ip_char c \<or> c = CHR ''/'')) bad_chars" by code_simp
  consider "a = ''all''" | "ParseCIDR a \<noteq> None" | "ParseIP a \<noteq> None"
    using assms by (auto simp: validateIPArg_def split: if_splits option.splits)
  then show ?thesis
  proof cases
    case 1
    then show ?thesis by simp
  next
    case 2
    then show ?thesis using harmless_allowed [OF ParseCIDR_chars bad] by auto
  next
    case 3
    then obtain x where "ParseIP a = Some x" by auto
    then have "list_all (\<lambda>c. ip_char c \<or> c = CHR ''/'') a" using ParseIP_chars by (fastforce simp: list_all_iff)
    then show ?thesis using harmless_allowed bad by blast
  qed
qed

lemma ip_rendered:
  assumes "validateIPAccess ip = None" shows "list_all rendered (ip_lines ip)"
proof -
  have act: "rendered (a @ r)" if "a \<in> {''allow'', ''deny''}" "harmless r" for a r
    using that rendered_lead leads by blast
  have "rendered (action @ '' '' @ cidr)" if "(cidr, action) \<in> set (ia_rules ip)" for cidr action
  proof -
    have "action \<in> {''allow'', ''deny''}" "validateIPArg cidr = None"
      using assms that by (auto simp: validateIPAccess_def checks)
    then show ?thesis using ip_arg_harmless by (intro act) auto
  qed
  moreover have "ia_default ip \<in> {''allow'', ''deny''}"
    using assms by (auto simp: validateIPAccess_def checks)
  then have "rendered (ia_default ip @ '' all'')" by (rule act) simp
  ultimately show ?thesis unfolding ip_lines_def by (auto simp: list_all_iff)
qed

lemma nat_str_harmless: "harmless (nat_str k)"
  using all_digits_nat_str [of k] by (intro harmless_allowed [of is_digit]) (simp add: all_digits_def, code_simp)

lemma int_str_harmless: "harmless (int_str n)"
  using nat_str_harmless by (simp add: int_str_def)

lemma error_page_rendered:
  assumes "error_page_ok ep" and "CHR '';'' \<notin> set (ep_uri ep)" shows "rendered (error_page_line ep)"
proof -
  have "list_all (\<lambda>c. \<not> (uri_char c \<and> c \<noteq> CHR '';'')) bad_chars" "uri_char (CHR ''/'')" by code_simp+
  moreover have "list_all (\<lambda>c. uri_char c \<and> c \<noteq> CHR '';'') (ep_uri ep)"
    using assms \<open>uri_char (CHR ''/'')\<close>
    by (cases "ep_uri ep") (auto simp: error_page_ok_def uriPathRe_def list_all_iff)
  ultimately have "harmless (ep_uri ep)" using harmless_allowed by blast
  then show ?thesis
    unfolding error_page_line_def using int_str_harmless by (intro rendered_lead leads) simp
qed

lemma regexpQuote_harmless: "harmless f \<Longrightarrow> harmless (regexpQuote f)"
  by (induction f) (simp_all add: regexpQuote_def)

lemma redirect_rendered:
  assumes "validateRedirect rd = None" and "newline \<notin> set (rd_from rd) \<union> set (rd_to rd)"
  shows "rendered (redirect_line rd)"
proof -
  have sets: "list_all (\<lambda>c. c \<in> set (newline # path_chars)) bad_chars"
    "list_all (\<lambda>c. c \<in> set (newline # path_chars @ ''$'')) bad_chars"
    "list_all (\<lambda>c. \<not> (\<not> re_space c \<and> c \<notin> set ('';{}'' @ quotes))) bad_chars" by code_simp+
  have ok: "\<not> contains_any (rd_to rd) path_chars"
    "if has_prefix (rd_from rd) ''^'' then matchTokenRe (rd_from rd)
     else \<not> contains_any (rd_from rd) (path_chars @ ''$'')"
    using assms(1) by (auto simp: validateRedirect_def checks split: if_splits)
  have no_nl: "\<not> contains_any s (newline # F)" if "\<not> contains_any s F" "newline \<notin> set s" for s F
    using that by (auto simp: contains_any_def list_ex_iff)
  have "harmless (rd_to rd)"
    using ok(1) assms(2) by (intro harmless_forbidden [OF no_nl sets(1)]) auto
  moreover have "harmless (rd_from rd)"
  proof (cases "has_prefix (rd_from rd) ''^''")
    case True
    then have "list_all (\<lambda>c. \<not> re_space c \<and> c \<notin> set ('';{}'' @ quotes)) (rd_from rd)"
      using ok(2) by (simp add: matchTokenRe_def del: set_append)
    then show ?thesis using sets(3) by (rule harmless_allowed)
  next
    case False
    then show ?thesis using ok(2) assms(2) by (intro harmless_forbidden [OF no_nl sets(2)]) auto
  qed
  ultimately show ?thesis
    unfolding redirect_line_def using regexpQuote_harmless by (intro rendered_lead leads) simp
qed

lemma layer_locations_all:
  "validate_locations rules seen ls = None \<Longrightarrow> validateAgainstManaged ls rules = None \<Longrightarrow>
    fst (snd (layer_locations rules seen ls)) = []"
proof (induction ls arbitrary: seen)
  case (Cons l ls)
  have now: "also_err (validateCustomLocation l rules) (also_err (validateAgainstManaged [l] rules)
      (if loc_key l \<in> set seen then Some (Invalid ''duplicate location'') else None)) = None"
    and rest: "validate_locations rules (loc_key l # seen) ls = None" "validateAgainstManaged ls rules = None"
    using Cons.prems
    by (auto simp: checks validateAgainstManaged_def simp del: first_err.simps split: if_splits)
  show ?case
    using Cons.IH [OF rest] by (simp only: layer_locations.simps Let_def now) (auto split: prod.splits)
qed simp

section \<open>Save time and render time\<close>

lemma valid_chain:
  assumes "ValidateSiteConfig cfg rules = None"
  shows "ValidateSnippet (sc_server cfg) CtxServer rules = None"
    and "\<And>root. sc_root cfg = Some root \<Longrightarrow> validateRootLocation root rules = None"
    and "validate_locations rules [] (sc_locations cfg) = None" and "validate_caching cfg = None"
    and "\<forall>h \<in> set (sc_headers cfg). validateHeader h = None"
    and "\<And>ip. sc_ip cfg = Some ip \<Longrightarrow> validateIPAccess ip = None"
    and "\<forall>ep \<in> set (sc_errors cfg). error_page_ok ep" and "validate_size cfg rules = None"
    and "\<forall>rd \<in> set (sc_redirects cfg). validateRedirect rd = None"
    and "validateAgainstManaged (sc_locations cfg) rules = None"
  using assms unfolding ValidateSiteConfig_def by (simp_all add: checks)

text \<open>What a valid document contributes to the server level.\<close>

definition structured_lines :: "site_config \<Rightarrow> string list" where
  "structured_lines cfg = map header_line (sc_headers cfg)
     @ (case sc_ip cfg of None \<Rightarrow> [] | Some ip \<Rightarrow> ip_lines ip)
     @ map error_page_line (sc_errors cfg) @ map redirect_line (sc_redirects cfg)"

lemma valid_layer:
  assumes "ValidateSiteConfig cfg rules = None"
  shows "\<exists>ss. ParseSnippet (sc_server cfg) = Inr ss
    \<and> ul_server (fst (BuildUserLayer (Some cfg) rules)) = structured_lines cfg @ map st_text ss
    \<and> snd (BuildUserLayer (Some cfg) rules) = []"
proof -
  note v = valid_chain [OF assms]
  obtain ss where ss: "ParseSnippet (sc_server cfg) = Inr ss"
    using v(1) by (auto simp: ValidateSnippet_def split: sum.splits)
  have parts: "keep_valid ''headers'' validateHeader header_line (sc_headers cfg) = (map header_line (sc_headers cfg), [])"
    "layer_errors cfg = (map error_page_line (sc_errors cfg), [])"
    "keep_valid ''redirects'' validateRedirect redirect_line (sc_redirects cfg) = (map redirect_line (sc_redirects cfg), [])"
    using v(5,7,9) by (simp_all add: layer_errors_def keep_valid_all)
  have ip: "layer_ip cfg = ((case sc_ip cfg of None \<Rightarrow> [] | Some ip \<Rightarrow> ip_lines ip), [])"
    using v(6) by (auto simp: layer_ip_def split: option.splits)
  have snip: "layer_snippet cfg rules = (map st_text ss, [])" using ss v(1) by (simp add: layer_snippet_def)
  have root: "snd (layer_root cfg rules) = []"
    using v(2) by (auto simp: layer_root_def Let_def split: option.splits)
  have locs: "fst (snd (layer_locations rules [] (sc_locations cfg))) = []"
    using layer_locations_all v(3,10) by blast
  have cache: "snd (layer_caching cfg sn) = []" for sn
    using v(4) by (auto simp: layer_caching_def validate_caching_def checks Let_def split: option.splits)
  have size: "snd (layer_max cfg) = []"
    using v(8) by (auto simp: layer_max_def validate_size_def split: sum.splits if_splits)
  show ?thesis
    using ss by (simp add: BuildUserLayer_def Let_def parts ip snip root locs cache size structured_lines_def)
qed


definition blank_config :: site_config where
  "blank_config = \<lparr>sc_schema = 2, sc_server = [], sc_root = None, sc_locations = [], sc_headers = [],
     sc_ip = None, sc_errors = [], sc_max = [], sc_caching = None, sc_redirects = []\<rparr>"

definition guarded_config :: site_config where
  "guarded_config = blank_config\<lparr>sc_ip := Some \<lparr>ia_rules = [(''10.0.0.0/8'', ''allow'')], ia_default = ''deny''\<rparr>\<rparr>"


text \<open>One error page can switch off the access rules. An error page URI may hold a \<open>;\<close>, which
  the parser of the rendered lines refuses; the agent then renders none of the server lines
  and reports nothing dropped. A valid document with such a page is served without its
  \<open>allow\<close>/\<open>deny\<close> list, its headers and its redirects.\<close>

theorem semicolon_drops_server_lines:
  assumes "ValidateSiteConfig cfg rules = None" and "ep \<in> set (sc_errors cfg)" and "CHR '';'' \<in> set (ep_uri ep)"
  shows "snd (BuildUserLayer (Some cfg) rules) = [] \<and> server_body (fst (BuildUserLayer (Some cfg) rules)) = []"
proof -
  obtain ss where "ParseSnippet (sc_server cfg) = Inr ss" and l: "snd (BuildUserLayer (Some cfg) rules) = []"
    "ul_server (fst (BuildUserLayer (Some cfg) rules)) = structured_lines cfg @ map st_text ss"
    using valid_layer [OF assms(1)] by blast
  let ?line = "error_page_line ep" and ?ls = "structured_lines cfg @ map st_text ss"
  have ok: "error_page_ok ep" using valid_chain(7) [OF assms(1)] assms(2) by blast
  have uri: "list_all uri_char (ep_uri ep)" "ep_uri ep \<noteq> []"
    using ok by (cases "ep_uri ep", auto simp: error_page_ok_def uriPathRe_def uri_char_def)
  have nots: "\<not> uri_char (CHR ''{'')" "\<not> uri_char newline" by code_simp+
  have printable: "uri_char c \<Longrightarrow> graph c" for c
    by (auto simp: uri_char_def is_lower_def is_upper_def is_digit_def graph_def)
  have "uri_char (last (ep_uri ep))" using uri by (simp add: list_all_iff)
  then have last: "last ?line = last (ep_uri ep)" "graph (last (ep_uri ep))" "last (ep_uri ep) \<noteq> CHR ''{''"
    using uri(2) nots printable by (auto simp: error_page_line_def)
  have no_nl: "newline \<notin> set (ep_uri ep)" using uri(1) nots(2) by (auto simp: list_all_iff)
  have "trim_space ?line = ?line"
    using last by (intro trim_graph) (simp_all add: error_page_line_def graph_def)
  moreover have "\<not> has_suffix ?line ''{''" using last by (metis has_suffix_iff last_snoc)
  moreover have "contains_any ?line structural"
    using assms(3) by (auto simp: error_page_line_def contains_any_def list_ex_iff structural_def)
  moreover have "?line \<noteq> []" "\<not> has_prefix ?line ''#''" "?line \<noteq> ''}''" by (simp_all add: error_page_line_def)
  ultimately have "refused ?line" by (simp add: refused_def)
  moreover have "?line \<in> set (split_on newline (lines_text ?ls))"
  proof -
    have "newline \<notin> set ?line"
      using no_nl int_str_harmless [of "ep_status ep"]
      by (auto simp: error_page_line_def newline_def harmless_def contains_any_def list_ex_iff bad_chars_def)
    then have "split_on newline ?line = [?line]" using split_join [of "[?line]" newline] by simp
    moreover have "?line \<in> set ?ls" using assms(2) by (simp add: structured_lines_def)
    moreover have "w \<in> set (concat (map (split_on newline) ls))" if "split_on newline w = [w]" "w \<in> set ls" for w ls
      using that by force
    ultimately have "?line \<in> set (concat (map (split_on newline) ?ls))" by blast
    moreover have "?ls \<noteq> []" using \<open>?line \<in> set ?ls\<close> by force
    ultimately show ?thesis unfolding lines_text_def using split_on_lines by metis
  qed
  ultimately have "isl (ParseSnippet (lines_text ?ls))" unfolding ParseSnippet_def by (intro parse_refused)
  then show ?thesis using l by (auto simp: server_body_def isl_def)
qed

lemma semicolon_drops_server_lines_witness:
  "snd (BuildUserLayer (Some (guarded_config\<lparr>sc_errors := [\<lparr>ep_status = 404, ep_uri = ''/a;b''\<rparr>]\<rparr>)) demo_rules) = []
   \<and> server_body (fst (BuildUserLayer (Some (guarded_config\<lparr>sc_errors := [\<lparr>ep_status = 404, ep_uri = ''/a;b''\<rparr>]\<rparr>)) demo_rules)) = []"
proof -
  let ?cfg = "guarded_config\<lparr>sc_errors := [\<lparr>ep_status = 404, ep_uri = ''/a;b''\<rparr>]\<rparr>"
  have "ValidateSiteConfig ?cfg demo_rules = None" by code_simp
  then show ?thesis using semicolon_drops_server_lines [of ?cfg demo_rules "hd (sc_errors ?cfg)"] by simp
qed

text \<open>A document whose one redirect carries another directive in its target: line breaks and
  a carriage return, which nginx reads as white space, are not refused there.\<close>

definition carriage_return :: char where
  "carriage_return = CHR 0x0D"

definition smuggling :: "string \<Rightarrow> string \<Rightarrow> site_config" where
  "smuggling name arg = blank_config\<lparr>sc_redirects := [\<lparr>rd_from = ''/old'',
     rd_to = ''/x'' @ [newline] @ name @ [carriage_return] @ arg @ [newline] @ ''index'', rd_code = 301\<rparr>]\<rparr>"

definition token_chars :: "string \<Rightarrow> bool" where
  "token_chars w \<longleftrightarrow> w \<noteq> [] \<and> list_all (\<lambda>c. graph c \<and> c \<notin> set (''$;{}'' @ quotes)) w"



end
