(* ===== verification/GoPath.thy ===== *)
theory GoPath
  imports GoStrings
begin

text \<open>
  What the program uses of Go's \<open>path/filepath\<close> on Unix: \<open>Clean\<close> and \<open>Join\<close>, over the components
  of a path.
\<close>

section \<open>Definitions\<close>

text \<open>The components still to read, on top of those kept so far (the last one first).\<close>

fun clean_parts :: "bool \<Rightarrow> string list \<Rightarrow> string list \<Rightarrow> string list" where
  "clean_parts rooted acc [] = rev acc"
| "clean_parts rooted acc (p # ps) =
    (if p = [] \<or> p = ''.'' then clean_parts rooted acc ps
     else if p = ''..'' then
       (if acc \<noteq> [] \<and> hd acc \<noteq> ''..'' then clean_parts rooted (tl acc) ps
        else if rooted then clean_parts rooted acc ps
        else clean_parts rooted (p # acc) ps)
     else clean_parts rooted (p # acc) ps)"

definition Clean :: "string \<Rightarrow> string" where
  "Clean path =
    (let rooted = has_prefix path ''/''; s = join_with ''/'' (clean_parts rooted [] (split_on CHR ''/'' path))
     in if rooted then CHR ''/'' # s else if s = [] then ''.'' else s)"

definition Join :: "string list \<Rightarrow> string" where
  "Join elems = (case filter (\<lambda>e. e \<noteq> []) elems of [] \<Rightarrow> [] | es \<Rightarrow> Clean (join_with ''/'' es))"

section \<open>Normal components\<close>

definition normal_part :: "string \<Rightarrow> bool" where
  "normal_part p \<longleftrightarrow> p \<noteq> [] \<and> p \<noteq> ''.'' \<and> p \<noteq> ''..'' \<and> CHR ''/'' \<notin> set p"

lemma clean_rooted_normal:
  assumes "list_all normal_part acc" and "\<forall>p \<in> set ps. CHR ''/'' \<notin> set p"
  shows "list_all normal_part (clean_parts True acc ps)"
  using assms
proof (induction True acc ps rule: clean_parts.induct)
  case (2 acc p ps)
  have "list_all normal_part (tl acc)" using "2.prems"(1) by (cases acc) auto
  then show ?case using 2 by (auto simp: normal_part_def)
qed (simp add: list_all_iff)

lemma clean_normal: "list_all normal_part ps \<Longrightarrow> clean_parts r acc ps = rev acc @ ps"
  by (induction ps arbitrary: acc) (auto simp: normal_part_def)

lemma clean_prefix_normal: "list_all normal_part xs \<Longrightarrow> clean_parts r acc (xs @ ys) = clean_parts r (rev xs @ acc) ys"
  by (induction xs arbitrary: acc) (auto simp: normal_part_def)

text \<open>An absolute path in normal form: a slash before each of its components.\<close>

definition abs_path :: "string list \<Rightarrow> string" where
  "abs_path ps = concat (map (\<lambda>p. CHR ''/'' # p) ps)"

lemma abs_path_join: "ps \<noteq> [] \<Longrightarrow> abs_path ps = CHR ''/'' # join_with ''/'' ps"
proof (induction ps)
  case (Cons p ps)
  then show ?case by (cases ps) (simp_all add: abs_path_def)
qed simp

lemma split_abs_path:
  assumes "list_all normal_part ps" and "ps \<noteq> []"
  shows "split_on CHR ''/'' (abs_path ps) = [] # ps"
proof -
  have app: "split_on d (w @ d # s) = w # split_on d s" and one: "split_on d w = [w]" if "d \<notin> set w" for d :: char and w s
    using that by (induction w) (auto simp: split_on_Cons)
  have "split_on CHR ''/'' (p @ abs_path qs) = p # qs" if "normal_part p" "list_all normal_part qs" for p qs
    using that
  proof (induction qs arbitrary: p)
    case Nil
    then show ?case using one [of "CHR ''/''" p] by (simp add: abs_path_def normal_part_def)
  next
    case (Cons q qs)
    have "abs_path (q # qs) = CHR ''/'' # q @ abs_path qs" by (simp add: abs_path_def)
    with Cons show ?case using app [of "CHR ''/''" p "q @ abs_path qs"] by (simp add: normal_part_def)
  qed
  with assms show ?thesis by (cases ps) (auto simp: abs_path_def)
qed

lemma Clean_abs:
  assumes "list_all normal_part ps" and "ps \<noteq> []"
  shows "Clean (abs_path ps) = abs_path ps"
proof -
  have "has_prefix (abs_path ps) ''/''" using assms(2) by (cases ps) (simp_all add: abs_path_def)
  then show ?thesis
    using clean_normal [OF assms(1), of True "[]"] abs_path_join [OF assms(2)]
    unfolding Clean_def Let_def split_abs_path [OF assms] by simp
qed

text \<open>Cleaning a rooted path gives the root or a path of normal components.\<close>

lemma Clean_rooted: "\<exists>ps. list_all normal_part ps \<and> Clean (CHR ''/'' # s) = (if ps = [] then ''/'' else abs_path ps)"
proof -
  let ?ps = "clean_parts True [] (split_on CHR ''/'' (CHR ''/'' # s))"
  have "\<forall>p \<in> set (split_on CHR ''/'' (CHR ''/'' # s)). CHR ''/'' \<notin> set p"
    using split_on_no_sep by blast
  then have "list_all normal_part ?ps" by (intro clean_rooted_normal) simp_all
  moreover have "Clean (CHR ''/'' # s) = (if ?ps = [] then ''/'' else abs_path ?ps)"
    using abs_path_join [of ?ps] by (simp add: Clean_def Let_def del: split_on.simps)
  ultimately show ?thesis by blast
qed

end
