(* ===== verification/NginxVhost.thy ===== *)
theory NginxVhost
  imports NginxRender GoPath
begin

text \<open>
  The vhost of a website on the agent: \<open>RenderVhost\<close> and the stubs of \<open>internal/agent/nginx.go\<close>,
  and the checks of \<open>internal/agent/webserver.go\<close> on redirects and legacy rewrite lines. A vhost is
  a list of server blocks, and its text is the concatenation of their texts. \<open>on_disk\<close> is the
  \<open>os.Stat\<close> of a certificate. The values of the stub page and the test-only path overrides other
  than the ACME, log and accounting paths are left out; so are log lines.
\<close>

section \<open>The specification of a vhost\<close>

record vhost_domain =
  vd_name :: string
  vd_mode :: string
  vd_cert :: string
  vd_key :: string
  vd_suffix :: string

type_synonym redirect_rule = "string \<times> string \<times> int"

record vhost =
  vh_site :: string
  vh_root :: string
  vh_socket :: string
  vh_rewrite :: string
  vh_config :: "site_config option"
  vh_proxy :: string
  vh_backend :: int
  vh_redirects :: "redirect_rule list"
  vh_suspended :: bool
  vh_quota :: bool
  vh_terminated :: bool
  vh_stub :: string
  vh_acme :: string
  vh_logs :: string
  vh_bw :: string
  vh_domains :: "vhost_domain list"

definition bwLogPath :: string where "bwLogPath = ''/var/log/epicpanel/bandwidth.log''"
definition acmeWebroot :: string where "acmeWebroot = ''/var/www/_acme-challenge''"
definition default_pages :: string where "default_pages = ''/srv/epicpanel/default_pages''"
definition websites_dir :: string where "websites_dir = ''/srv/epicpanel/websites''"

definition acmeWebrootPath :: "vhost \<Rightarrow> string" where
  "acmeWebrootPath v = (if vh_acme v \<noteq> [] then vh_acme v else acmeWebroot)"

definition logsBasePath :: "vhost \<Rightarrow> string" where
  "logsBasePath v = (if vh_logs v \<noteq> [] then vh_logs v else websites_dir)"

section \<open>Checks\<close>

definition validDomainName :: "string \<Rightarrow> bool" where
  "validDomainName s \<longleftrightarrow> 3 \<le> length s \<and> length s \<le> 253
    \<and> list_all (\<lambda>c. is_lower c \<or> is_digit c \<or> c = CHR ''-'' \<or> c = CHR ''.'') s"

text \<open>\<open>ok_uuid\<close> is \<open>uuid.Parse\<close>.\<close>

definition validateVhostSpec :: "(string \<Rightarrow> bool) \<Rightarrow> vhost \<Rightarrow> bool" where
  "validateVhostSpec ok_uuid v \<longleftrightarrow> ok_uuid (vh_site v) \<and> has_prefix (vh_root v) (websites_dir @ ''/'')
    \<and> list_all (\<lambda>d. validDomainName (vd_name d)) (vh_domains v)"

definition unsafe_target :: string where
  "unsafe_target = '' `;{}$#'' @ [CHR 0x09, CHR 0x0D, CHR 0x0A, CHR 0x22, CHR 0x27, CHR 0x5C]"

definition validRedirectTarget :: "string \<Rightarrow> bool" where
  "validRedirectTarget s \<longleftrightarrow> s \<noteq> [] \<and> length s \<le> 2000
    \<and> (has_prefix s ''http://'' \<or> has_prefix s ''https://'' \<or> has_prefix s ''/'')
    \<and> \<not> contains_any s unsafe_target"

definition keep_redirect :: "redirect_rule \<Rightarrow> redirect_rule option" where
  "keep_redirect r =
    (case r of (from, to, status0) \<Rightarrow>
       let status = (if status0 = 0 then 301 else status0) in
       if status \<in> {301, 302, 307, 308} \<and> validDomainName from \<and> validRedirectTarget to
       then Some (from, to, status) else None)"

definition normalizeRedirects :: "redirect_rule list \<Rightarrow> redirect_rule list" where
  "normalizeRedirects rs = List.map_filter keep_redirect rs"

section \<open>Legacy rewrite lines\<close>

definition nginxRewriteTokens :: "string list" where
  "nginxRewriteTokens = [''rewrite'', ''if'', ''return'', ''set'', ''break'', ''expires'', ''add_header'', ''try_files'',
     ''autoindex'', ''deny'', ''allow'', ''error_page'', ''client_max_body_size'', ''client_body_buffer_size'', ''index'',
     ''satisfy'', ''auth_basic'', ''auth_basic_user_file'']"

definition smuggled_tokens :: "string list" where
  "smuggled_tokens = ['';'', ''{'', ''}'', ''`'', ''proxy_pass'', ''fastcgi_pass'', ''include'', ''root '', ''alias '', ''daemon'',
     ''error_log'', ''access_log'', ''listen '', ''server_name'', ''location '']"

text \<open>The agent's pattern of well-known variables; it is anchored at its start only.\<close>

definition agentVarRefRe :: "string \<Rightarrow> bool" where
  "agentVarRefRe s \<longleftrightarrow> (s \<noteq> [] \<and> is_digit (hd s))
    \<or> list_ex (has_prefix s) [''uri'', ''args'', ''query_string'', ''request_uri'', ''host'', ''scheme'', ''request_method'',
        ''remote_addr'', ''https'', ''server_port'']
    \<or> (has_prefix s ''http_'' \<and> (case drop 5 s of [] \<Rightarrow> False | c # _ \<Rightarrow> is_lower c \<or> is_digit c \<or> c = CHR ''_''))"

definition lineHasSmuggledDirective :: "string \<Rightarrow> bool" where
  "lineHasSmuggledDirective line \<longleftrightarrow> list_ex (contains line) smuggled_tokens
    \<or> list_ex (\<lambda>seg. seg = [] \<or> \<not> agentVarRefRe seg) (tl (split_on CHR ''$'' line))"

definition sanitizeRewriteLine :: "string list \<Rightarrow> string \<Rightarrow> string" where
  "sanitizeRewriteLine tokens raw =
    (let line = trim_space raw; ws = GoStrings.fields line in
     if line = [] \<or> has_prefix line ''#'' \<or> has_prefix line ''}'' then []
     else if ws = [] then []
     else if ToLower (hd ws) \<notin> set tokens \<or> lineHasSmuggledDirective line then []
     else line)"

definition renderRewriteRules :: "vhost \<Rightarrow> string" where
  "renderRewriteRules v =
    (let rules = trim_space (vh_rewrite v) in
     if vh_config v \<noteq> None \<or> rules = [] then []
     else [newline, tab] @ ''# user rewrite rules / custom directives (EpicPanel managed)'' @ [newline]
       @ concat (map (\<lambda>raw. let line = sanitizeRewriteLine nginxRewriteTokens raw in
                   if line = [] then [] else tab # line @ [newline]) (split_on newline rules)))"

section \<open>Managed locations\<close>

definition line :: "nat \<Rightarrow> string \<Rightarrow> string" where
  "line n s = replicate n tab @ s @ [newline]"

definition renderSiteIDLines :: "string \<Rightarrow> string \<Rightarrow> string" where
  "renderSiteIDLines site path =
    line 1 (''set $epicpanel_site_id '' @ [CHR 0x22] @ site @ [CHR 0x22] @ '';'') @
    line 1 (''access_log '' @ path @ '' epicpanel_bandwidth;'')"

definition renderSiteIDLinesFor :: "vhost \<Rightarrow> string" where
  "renderSiteIDLinesFor v = renderSiteIDLines (vh_site v) (if vh_bw v \<noteq> [] then vh_bw v else bwLogPath)"

definition wsMapVar :: "string \<Rightarrow> string" where
  "wsMapVar site = ''ep_ws_'' @ map (\<lambda>c. if c = CHR ''-'' then CHR ''_'' else c) site"

definition renderWSMap :: "string \<Rightarrow> string" where
  "renderWSMap site =
    line 0 (''map $http_upgrade $'' @ wsMapVar site @ '' {'') @ line 1 ''default upgrade;'' @
    line 1 ([CHR 0x27, CHR 0x27] @ ''      close;'') @ line 0 ''}'' @ [newline]"

definition page_location :: "string \<Rightarrow> string" where
  "page_location page =
    line 1 (''location = /'' @ page @ '' {'') @ line 2 (''root '' @ default_pages @ '';'') @ line 2 ''internal;'' @ line 1 ''}''"

definition errorPagesSection :: "int list \<Rightarrow> string" where
  "errorPagesSection codes =
    [newline] @ page_location ''epicpanel-busy.html'' @ [newline] @ page_location ''epicpanel-notfound.html'' @ [newline] @
    tab # (if 404 \<in> set codes then [] else line 0 ''error_page 404 /epicpanel-notfound.html;'') @
    (if 502 \<notin> set codes \<and> 504 \<notin> set codes then line 0 ''error_page 502 504 /epicpanel-busy.html;''
     else if 504 \<notin> set codes then line 0 ''error_page 504 /epicpanel-busy.html;''
     else if 502 \<notin> set codes then line 0 ''error_page 502 /epicpanel-busy.html;'' else [])"

definition root_section :: "vhost \<Rightarrow> user_layer \<Rightarrow> string" where
  "root_section v layer =
    (if vh_proxy v \<noteq> [] then []
     else line 1 (''root '' @ vh_root v @ '';'') @ line 1 ''index index.php index.html index.htm;'' @ [newline] @
       line 1 ''location / {'' @ line 2 (''try_files '' @ tryFilesFor layer @ '';'') @ indentExtras (ul_root layer) @
       line 1 ''}'' @ [newline])"

definition php_section :: "vhost \<Rightarrow> string" where
  "php_section v =
    (if vh_proxy v \<noteq> [] \<or> vh_socket v = [] then []
     else [newline] @ line 1 (''location ~ '' @ [CHR 0x5C] @ ''.php$ {'') @ line 2 ''include snippets/fastcgi-php.conf;'' @
       line 2 (''fastcgi_pass unix:'' @ vh_socket v @ '';'') @ line 1 ''}'')"

definition proxy_section :: "vhost \<Rightarrow> user_layer \<Rightarrow> string" where
  "proxy_section v layer =
    (if vh_proxy v = [] then []
     else [newline] @ line 1 ''location / {'' @ line 2 (''proxy_pass '' @ vh_proxy v @ '';'') @ line 2 ''proxy_http_version 1.1;'' @
       line 2 ''proxy_set_header Upgrade $http_upgrade;'' @
       line 2 (''proxy_set_header Connection $'' @ wsMapVar (vh_site v) @ '';'') @ line 2 ''proxy_set_header Host $host;'' @
       line 2 ''proxy_set_header X-Real-IP $remote_addr;'' @
       line 2 ''proxy_set_header X-Forwarded-For $proxy_add_x_forwarded_for;'' @
       line 2 ''proxy_set_header X-Forwarded-Proto $scheme;'' @ line 2 ''proxy_set_header X-Forwarded-Host $host;'' @
       line 2 ''proxy_connect_timeout 15s;'' @ line 2 ''proxy_send_timeout 300s;'' @ line 2 ''proxy_read_timeout 300s;'' @
       line 2 ''proxy_buffering off;'' @
       line 2 (''client_max_body_size '' @ (if ul_max layer \<noteq> [] then ul_max layer else ''100m'') @ '';'') @
       indentExtras (ul_proxy layer) @ line 1 ''}'')"

definition commonLocations :: "vhost \<Rightarrow> user_layer \<Rightarrow> string" where
  "commonLocations v layer =
    line 1 (root_section v layer) @
    line 1 (''access_log '' @ logsBasePath v @ ''/'' @ vh_site v @ ''/logs/nginx-access.log;'') @
    line 1 (''error_log '' @ logsBasePath v @ ''/'' @ vh_site v @ ''/logs/nginx-error.log;'') @ [newline] @
    line 1 (renderSiteIDLinesFor v) @
    line 1 ''location ^~ /.well-known/acme-challenge/ {'' @ line 2 (''root '' @ acmeWebrootPath v @ '';'') @ line 1 ''}'' @
    line 0 (errorPagesSection (ul_codes layer)) @
    line 1 (''location ~ /'' @ [CHR 0x5C] @ ''. {'') @ line 2 ''deny all;'' @ line 1 ''}'' @
    line 0 (proxy_section v layer @ php_section v)"

definition userLayer :: "vhost \<Rightarrow> user_layer" where
  "userLayer v = fst (BuildUserLayer (vh_config v)
     \<lparr>ru_php = (vh_socket v \<noteq> []), ru_proxy = (vh_proxy v \<noteq> []), ru_own = [], ru_owner = None, ru_max = 0\<rparr>)"

text \<open>What the plain and the TLS block of a docroot share.\<close>

definition common_text :: "vhost \<Rightarrow> string" where
  "common_text v = commonLocations v (userLayer v) @ renderUserLayer (vh_config v) (vh_proxy v) (userLayer v) @ renderRewriteRules v"

section \<open>Docroots and groups\<close>

definition docrootFor :: "vhost \<Rightarrow> string \<Rightarrow> string" where
  "docrootFor v suffix =
    (if suffix = [] then vh_root v
     else let rel = trim_prefix (Clean (CHR ''/'' # suffix)) ''/'' in
       if rel = [] \<or> rel = ''.'' \<or> has_prefix rel ''..'' then vh_root v
       else Join [trim_suffix (vh_root v) ''/public'', rel])"

text \<open>\<open>os.Stat\<close> decides whether the certificate is there.\<close>

definition SecuredDomains :: "(string \<Rightarrow> bool) \<Rightarrow> vhost \<Rightarrow> vhost_domain list" where
  "SecuredDomains on_disk v =
    filter (\<lambda>d. vd_mode d \<noteq> ''none'' \<and> vd_cert d \<noteq> [] \<and> vd_key d \<noteq> [] \<and> on_disk (vd_cert d)) (vh_domains v)"

definition lower_in :: "string \<Rightarrow> string list \<Rightarrow> bool" where
  "lower_in name names \<longleftrightarrow> ToLower name \<in> set (map ToLower names)"

record vgroup =
  g_root :: string
  g_names :: "string list"
  g_secured :: "vhost_domain list"

fun add_to_group :: "string \<Rightarrow> string \<Rightarrow> vhost_domain list \<Rightarrow> vgroup list \<Rightarrow> vgroup list" where
  "add_to_group root name secs [] = [\<lparr>g_root = root, g_names = [name], g_secured = secs\<rparr>]"
| "add_to_group root name secs (g # gs) =
    (if g_root g = root then g\<lparr>g_names := g_names g @ [name], g_secured := g_secured g @ secs\<rparr> # gs
     else g # add_to_group root name secs gs)"

text \<open>Every domain without a redirect of its own joins the group of its docroot; the secured
  domains of its name (\<open>EqualFold\<close>: compared in lower case) join with it.\<close>

definition group_step :: "vhost \<Rightarrow> string list \<Rightarrow> vhost_domain list \<Rightarrow> vgroup list \<Rightarrow> vhost_domain \<Rightarrow> vgroup list" where
  "group_step v redirected secured gs d =
    (if lower_in (vd_name d) redirected then gs
     else add_to_group (docrootFor v (vd_suffix d)) (vd_name d)
       (filter (\<lambda>s. ToLower (vd_name s) = ToLower (vd_name d)) secured) gs)"

definition groups :: "vhost \<Rightarrow> string list \<Rightarrow> vhost_domain list \<Rightarrow> vgroup list" where
  "groups v redirected secured = foldl (group_step v redirected secured) [] (vh_domains v)"

section \<open>Server blocks\<close>

datatype server_block =
    RedirectBlock redirect_rule
  | PlainBlock "string list" string
  | UpgradeBlock "string list"
  | TlsBlock "string list" string string string

definition server_head :: "string \<Rightarrow> string list \<Rightarrow> string" where
  "server_head listen names =
    line 0 ''server {'' @ line 1 (''listen '' @ listen @ '';'') @ line 1 (''server_name '' @ join_with '' '' names @ '';'') @ [newline]"

definition block_text :: "vhost \<Rightarrow> server_block \<Rightarrow> string" where
  "block_text v b =
    (case b of
       RedirectBlock (from, to, status) \<Rightarrow>
         server_head ''80'' [from] @ renderSiteIDLinesFor v @ line 1 (''return '' @ int_str status @ '' '' @ to @ '';'')
     | PlainBlock names common \<Rightarrow> server_head ''80'' names @ common
     | UpgradeBlock names \<Rightarrow>
         server_head ''80'' names @ renderSiteIDLinesFor v @
         line 1 ''location ^~ /.well-known/acme-challenge/ {'' @ line 2 (''root '' @ acmeWebroot @ '';'') @ line 1 ''}'' @ [newline] @
         line 1 ''location / {'' @ line 2 ''return 301 https://$host$request_uri;'' @ line 1 ''}''
     | TlsBlock names cert key common \<Rightarrow>
         server_head ''443 ssl'' names @ line 1 (''ssl_certificate '' @ cert @ '';'') @
         line 1 (''ssl_certificate_key '' @ key @ '';'') @ line 1 ''ssl_protocols TLSv1.2 TLSv1.3;'' @ [newline] @ common)
    @ line 0 ''}'' @ [newline]"

definition group_blocks :: "vhost \<Rightarrow> string list \<Rightarrow> vgroup \<Rightarrow> server_block list" where
  "group_blocks v secured g =
    (let common = common_text (v\<lparr>vh_root := g_root g, vh_acme := []\<rparr>);
         plain = filter (\<lambda>n. \<not> lower_in n secured) (g_names g); tls = filter (\<lambda>n. lower_in n secured) (g_names g)
     in (if plain = [] then [] else [PlainBlock plain common]) @
        (case g_secured g of
           [] \<Rightarrow> []
         | first # _ \<Rightarrow> [UpgradeBlock tls, TlsBlock tls (vd_cert first) (vd_key first) common]))"

definition vhost_blocks :: "(string \<Rightarrow> bool) \<Rightarrow> vhost \<Rightarrow> server_block list" where
  "vhost_blocks on_disk v =
    (let redirects = normalizeRedirects (vh_redirects v); secured = SecuredDomains on_disk v
     in map RedirectBlock redirects @
        concat (map (group_blocks v (map vd_name secured)) (groups v (map fst redirects) secured)))"

section \<open>Stubs\<close>

definition bandwidthStubPage :: string where "bandwidthStubPage = ''bandwidth_exhausted.html''"

definition stub_page :: "vhost \<Rightarrow> string \<times> string" where
  "stub_page v =
    (if vh_terminated v then (''terminated.html'', default_pages)
     else if vh_stub v = [] then (''suspended.html'', default_pages)
     else (vh_stub v, if vh_stub v = bandwidthStubPage then Join [websites_dir, vh_site v, ''pages''] else default_pages))"

definition renderVhostStub :: "vhost \<Rightarrow> int \<Rightarrow> string" where
  "renderVhostStub v status0 =
    (let (page, root) = stub_page v; status = (if vh_terminated v then 410 else status0);
         logs = logsBasePath v @ ''/'' @ vh_site v @ ''/logs'' in
     if vh_domains v = [] then []
     else line 0 (''# managed by EpicPanel '' @ dash @ '' website '' @ vh_site v @ '' (stub '' @ int_str status @ '') '' @ dash @ '' DO NOT EDIT'') @
       server_head ''80'' (map vd_name (vh_domains v)) @ renderSiteIDLines (vh_site v) bwLogPath @
       line 1 (''access_log '' @ logs @ ''/nginx-access.log;'') @ line 1 (''error_log '' @ logs @ ''/nginx-error.log;'') @ [newline] @
       line 1 (''return '' @ int_str status @ '';'') @ line 1 (''error_page '' @ int_str status @ '' /'' @ page @ '';'') @
       line 1 (''location = /'' @ page @ '' {'') @ line 2 (''root '' @ root @ '';'') @ line 2 ''internal;'' @
       line 2 (''add_header Cache-Control '' @ [CHR 0x22] @ ''no-store'' @ [CHR 0x22] @ '' always;'') @ line 1 ''}'' @ line 0 ''}'')"

definition renderVhostSuspended :: "vhost \<Rightarrow> string" where
  "renderVhostSuspended v = (if vh_domains v = [] then [] else renderVhostStub v 503)"

definition renderVhostQuotaExceeded :: "vhost \<Rightarrow> string" where
  "renderVhostQuotaExceeded v =
    (let logs = Join [websites_dir, vh_site v, ''logs''] in
     if vh_domains v = [] then []
     else line 1 (''# managed by EpicPanel '' @ dash @ '' website '' @ vh_site v @ '' (quota exceeded) '' @ dash @ '' DO NOT EDIT'') @
       line 1 ''server {'' @ line 2 ''listen 80;'' @ line 2 (''server_name '' @ join_with '' '' (map vd_name (vh_domains v)) @ '';'') @ [newline] @
       renderSiteIDLines (vh_site v) bwLogPath @
       line 2 (''access_log '' @ logs @ ''/nginx-access.log;'') @ line 2 (''error_log '' @ logs @ ''/nginx-error.log;'') @ [newline] @
       line 2 ''return 509;'' @ line 2 ''error_page 509 /quota_exceeded.html;'' @ line 2 ''location = /quota_exceeded.html {'' @
       line 3 (''root '' @ default_pages @ '';'') @ line 3 ''internal;'' @ line 2 ''}'' @ line 1 ''}'')"

section \<open>The vhost\<close>

definition RenderVhost :: "(string \<Rightarrow> bool) \<Rightarrow> vhost \<Rightarrow> string" where
  "RenderVhost on_disk v =
    (if vh_terminated v then renderVhostStub v 410
     else if vh_suspended v then renderVhostSuspended v
     else if vh_quota v then renderVhostQuotaExceeded v
     else line 0 (''# managed by EpicPanel '' @ dash @ '' website '' @ vh_site v @ '' '' @ dash @ '' DO NOT EDIT'') @
       (if vh_proxy v = [] then [] else renderWSMap (vh_site v)) @
       concat (map (block_text v) (vhost_blocks on_disk v)))"

end
