(* ===== verification/PortAlloc.thy ===== *)
theory PortAlloc
  imports WebsiteStore
begin

text \<open>
  Private backend ports: the ranges of \<open>internal/ports/ports.go\<close> and the allocator of
  \<open>internal/websites/portalloc.go\<close>. The environment variables are a function, the probe
  of the loopback interface (\<open>net.DialTimeout\<close>) is a predicate \<open>free\<close>, and
  \<open>load_fails\<close> says that reading the allocated ports failed.
\<close>

section \<open>Ranges\<close>

record range =
  r_min :: int
  r_max :: int

definition Contains :: "range \<Rightarrow> int \<Rightarrow> bool" where
  "Contains r p \<longleftrightarrow> r_min r \<le> p \<and> p \<le> r_max r"

definition defaultApache :: range where "defaultApache = \<lparr>r_min = 6600, r_max = 6999\<rparr>"
definition defaultOLS :: range where "defaultOLS = \<lparr>r_min = 7100, r_max = 7499\<rparr>"
definition defaultApp :: range where "defaultApp = \<lparr>r_min = 8100, r_max = 8499\<rparr>"

fun cut_at :: "char \<Rightarrow> string \<Rightarrow> (string \<times> string) option" where
  "cut_at d [] = None"
| "cut_at d (c # cs) = (if c = d then Some ([], cs)
     else map_option (\<lambda>(a, b). (c # a, b)) (cut_at d cs))"

text \<open>\<open>parse\<close>; \<open>strings.SplitN(v, "-", 2)\<close> cuts at the first dash.\<close>

definition parse_range :: "string \<Rightarrow> range \<Rightarrow> range" where
  "parse_range env_value fallback =
    (let v = trim_space env_value in
     if v = [] then fallback
     else case cut_at (CHR ''-'') v of
            None \<Rightarrow> fallback
          | Some (a, b) \<Rightarrow>
              (case (parse_int (trim_space a), parse_int (trim_space b)) of
                 (Some lo, Some hi) \<Rightarrow>
                   if lo < 1024 \<or> hi > 65535 \<or> lo > hi then fallback
                   else \<lparr>r_min = lo, r_max = hi\<rparr>
               | _ \<Rightarrow> fallback))"

definition Apache :: "(string \<Rightarrow> string) \<Rightarrow> range" where
  "Apache getenv = parse_range (getenv ''EPICPANEL_APACHE_PORT_RANGE'') defaultApache"

definition OLS :: "(string \<Rightarrow> string) \<Rightarrow> range" where
  "OLS getenv = parse_range (getenv ''EPICPANEL_OLS_PORT_RANGE'') defaultOLS"

definition App :: "(string \<Rightarrow> string) \<Rightarrow> range" where
  "App getenv = parse_range (getenv ''EPICPANEL_APP_PORT_RANGE'') defaultApp"

definition first_port :: "(int \<Rightarrow> bool) \<Rightarrow> range \<Rightarrow> int option" where
  "first_port ok r = find ok [r_min r..r_max r]"

definition Allocates :: "range \<Rightarrow> int list \<Rightarrow> int" where
  "Allocates r used = (case first_port (\<lambda>p. p \<notin> set used) r of None \<Rightarrow> 0 | Some p \<Rightarrow> p)"

section \<open>The allocator\<close>

datatype alloc_mode = ModeApache | ModeOpenlitespeed | ModeApp | ModeOther string

datatype alloc_err = UnknownBackend | LoadPorts | PersistPort | NoFreePort

definition mode_range :: "(string \<Rightarrow> string) \<Rightarrow> alloc_mode \<Rightarrow> range option" where
  "mode_range getenv m = (case m of
     ModeApache \<Rightarrow> Some (Apache getenv) | ModeOpenlitespeed \<Rightarrow> Some (OLS getenv)
   | ModeApp \<Rightarrow> Some (App getenv) | ModeOther _ \<Rightarrow> None)"

definition mode_used :: "alloc_mode \<Rightarrow> sites \<Rightarrow> uid \<Rightarrow> int list" where
  "mode_used m s srv = (if m = ModeApp then UsedAppPorts s srv else UsedBackendPorts s srv)"

definition mode_set :: "alloc_mode \<Rightarrow> sites \<Rightarrow> time \<Rightarrow> uid \<Rightarrow> int \<Rightarrow> sites \<times> (site_err + unit)" where
  "mode_set m s now w p = (if m = ModeApp then SetAppPort s now w p else SetBackendPort s now w p)"

text \<open>The loop of \<open>allocate\<close> skips used and busy ports and returns at the first one
  left, whether or not it can be persisted.\<close>

definition allocate ::
    "(int \<Rightarrow> bool) \<Rightarrow> alloc_mode \<Rightarrow> sites \<Rightarrow> time \<Rightarrow> uid \<Rightarrow> range \<Rightarrow> int list \<Rightarrow> sites \<times> (alloc_err + int)" where
  "allocate free m s now w r used =
    (case first_port (\<lambda>p. p \<notin> set used \<and> free p) r of
       None \<Rightarrow> (s, Inl NoFreePort)
     | Some p \<Rightarrow>
         (case mode_set m s now w p of
            (s', Inl _) \<Rightarrow> (s', Inl PersistPort)
          | (s', Inr _) \<Rightarrow> (s', Inr p)))"

definition AllocateFor ::
    "(string \<Rightarrow> string) \<Rightarrow> (int \<Rightarrow> bool) \<Rightarrow> bool \<Rightarrow> sites \<Rightarrow> time \<Rightarrow> uid \<Rightarrow> uid \<Rightarrow> alloc_mode \<Rightarrow> int
      \<Rightarrow> sites \<times> (alloc_err + int)" where
  "AllocateFor getenv free load_fails s now srv w m existing =
    (case mode_range getenv m of
       None \<Rightarrow> (s, Inl UnknownBackend)
     | Some r \<Rightarrow>
         let used = mode_used m s srv in
         if existing > 0 \<and> Contains r existing \<and> load_fails then (s, Inr existing)
         else if existing > 0 \<and> Contains r existing \<and> existing \<notin> set used then (s, Inr existing)
         else if load_fails then (s, Inl LoadPorts)
         else allocate free m s now w r used)"

section \<open>Lemmas\<close>

definition range_ok :: "range \<Rightarrow> bool" where
  "range_ok r \<longleftrightarrow> 1024 \<le> r_min r \<and> r_min r \<le> r_max r \<and> r_max r \<le> 65535"

lemma parse_range_ok: "range_ok fallback \<Longrightarrow> range_ok (parse_range v fallback)"
  by (auto simp: parse_range_def range_ok_def Let_def split: option.splits)

lemma mode_range_ok: "mode_range getenv m = Some r \<Longrightarrow> range_ok r"
  by (auto simp: mode_range_def Apache_def OLS_def App_def intro!: parse_range_ok split: alloc_mode.splits)
    (simp_all add: range_ok_def defaultApache_def defaultOLS_def defaultApp_def)

lemma first_port_Some:
  "first_port ok r = Some p \<longleftrightarrow>
    ok p \<and> Contains r p \<and> (\<forall>k. r_min r \<le> k \<and> k < p \<longrightarrow> \<not> ok k)" (is "?l \<longleftrightarrow> ?r")
proof
  assume ?l
  then obtain n where n: "n < length [r_min r..r_max r]" "ok ([r_min r..r_max r] ! n)"
    "p = [r_min r..r_max r] ! n" "\<forall>j<n. \<not> ok ([r_min r..r_max r] ! j)"
    by (auto simp: first_port_def find_Some_iff)
  have nth: "[r_min r..r_max r] ! j = r_min r + int j" if "j \<le> n" for j
    using that n(1) by (intro nth_upto) simp
  have "\<not> ok k" if "r_min r \<le> k" "k < p" for k
  proof -
    have "nat (k - r_min r) < n" using that n(3) nth [of n] by simp
    with n(4) have "\<not> ok ([r_min r..r_max r] ! nat (k - r_min r))" by blast
    moreover have "[r_min r..r_max r] ! nat (k - r_min r) = k"
      using nth [of "nat (k - r_min r)"] \<open>nat (k - r_min r) < n\<close> that(1) by simp
    ultimately show ?thesis by simp
  qed
  moreover have "Contains r p"
    using n(1) n(3) nth [of n] by (simp add: Contains_def)
  ultimately show ?r using n(2,3) by auto
next
  assume R: ?r
  let ?n = "nat (p - r_min r)"
  have "?n < length [r_min r..r_max r]" using R by (auto simp: Contains_def)
  moreover have nth: "[r_min r..r_max r] ! j = r_min r + int j" if "j \<le> ?n" for j
    using that R by (intro nth_upto) (auto simp: Contains_def)
  ultimately show ?l
    using R unfolding first_port_def find_Some_iff
    by (intro exI [of _ ?n]) (auto simp: Contains_def nth)
qed

lemma set_where_found:
  "by_key site_id i (s_rows s) = Some w \<Longrightarrow>
    set_where (has_site_id i) f s = (s\<lparr>s_rows := update_where (has_site_id i) f (s_rows s)\<rparr>, Inr ())"
  by (auto simp: set_where_def rows_affected_zero has_site_id_def dest: by_key_Some)

definition site_port :: "alloc_mode \<Rightarrow> website \<Rightarrow> int" where
  "site_port m w = (if m = ModeApp then site_app_port w else site_backend_port w)"

lemma set_mode_used:
  "set (mode_used m s srv) =
    {site_port m w |w. w \<in> set (s_rows s) \<and> site_server w = srv \<and> site_port m w > 0 \<and> port_owner w}"
  by (auto simp: mode_used_def UsedAppPorts_def UsedBackendPorts_def site_port_def)

text \<open>A freshly allocated port lies in the configured range (so it is never
  privileged and never 80 or 443), nothing listens on it, no live website of the server
  holds it, it is the lowest such port, and it is persisted on the website.\<close>

theorem allocated_port_sound:
  assumes "by_key site_id w (s_rows s) = Some ws" and "mode_range getenv m = Some r"
    and "AllocateFor getenv free False s now srv w m 0 = (s', Inr p)"
  shows "Contains r p \<and> 1024 \<le> p \<and> p \<le> 65535 \<and> free p \<and> p \<notin> set (mode_used m s srv)
    \<and> map_option (site_port m) (by_key site_id w (s_rows s')) = Some p
    \<and> (\<forall>q. r_min r \<le> q \<and> q < p \<longrightarrow> q \<in> set (mode_used m s srv) \<or> \<not> free q)"
proof -
  from assms(2,3) have alloc: "allocate free m s now w r (mode_used m s srv) = (s', Inr p)"
    by (simp add: AllocateFor_def Let_def)
  then have fp: "first_port (\<lambda>p. p \<notin> set (mode_used m s srv) \<and> free p) r = Some p"
    by (auto simp: allocate_def split: option.splits prod.splits sum.splits)
  with alloc have "mode_set m s now w p = (s', Inr ())"
    by (auto simp: allocate_def split: prod.splits sum.splits)
  then have "s' = fst (mode_set m s now w p)" by simp
  then have port: "map_option (site_port m) (by_key site_id w (s_rows s')) = Some p"
    using assms(1) by_key_Some [OF assms(1)]
    by (auto simp: mode_set_def SetAppPort_def SetBackendPort_def set_where_lookup has_site_id_def site_port_def)
  have "range_ok r" by (rule mode_range_ok) (rule assms)
  with fp port show ?thesis unfolding first_port_Some by (auto simp: range_ok_def Contains_def)
qed

definition sample_sites :: sites where
  "sample_sites = \<lparr>s_rows = [(new_site 1 0 3 7 9 ''ab'' [] RuntimePHP ''8.3'' ''nginx,apache'' ''u'')
     \<lparr>site_backend_port := 6600, site_status := SiteReady\<rparr>], s_next = 2\<rparr>"

lemma allocated_port_sound_witness:
  "snd (AllocateFor (\<lambda>_. []) (\<lambda>p. p \<noteq> 6601) False sample_sites 5 7 1 ModeApache 0) = Inr 6602
    \<and> Contains (Apache (\<lambda>_. [])) 6602"
proof -
  let ?r = "AllocateFor (\<lambda>_. []) (\<lambda>p. p \<noteq> 6601) False sample_sites 5 7 1 ModeApache 0"
  have "\<not> isl (snd ?r)" by code_simp
  then obtain s' p where r: "?r = (s', Inr p)" by (cases ?r; cases "snd ?r") simp_all
  have "snd ?r = Inr 6602" by code_simp
  with r have "p = 6602" by simp
  have "by_key site_id 1 (s_rows sample_sites) = Some (hd (s_rows sample_sites))" by code_simp
  moreover have "mode_range (\<lambda>_. []) ModeApache = Some (Apache (\<lambda>_. []))" by (simp add: mode_range_def)
  ultimately have "Contains (Apache (\<lambda>_. [])) p" using allocated_port_sound [OF _ _ r] by blast
  with r \<open>p = 6602\<close> show ?thesis by simp
qed

text \<open>The "stable across re-provisions" rule never applies to a website of the same
  server: the ports in use include the website's own row, so re-allocating for a live
  website that holds a port always moves it to a different port (or fails).\<close>

theorem reallocation_moves_port:
  assumes "ws \<in> set (s_rows s)" and "site_server ws = srv" and "port_owner ws" and "0 < site_port m ws"
    and "AllocateFor getenv free False s now srv w m (site_port m ws) = (s', Inr p)"
  shows "p \<noteq> site_port m ws"
proof -
  obtain r where r: "mode_range getenv m = Some r"
    using assms(5) by (auto simp: AllocateFor_def split: option.splits)
  have used: "site_port m ws \<in> set (mode_used m s srv)"
    using assms(1-4) by (auto simp: set_mode_used)
  with assms(5) r have "allocate free m s now w r (mode_used m s srv) = (s', Inr p)"
    by (auto simp: AllocateFor_def Let_def split: if_splits)
  then have "first_port (\<lambda>p. p \<notin> set (mode_used m s srv) \<and> free p) r = Some p"
    by (auto simp: allocate_def split: option.splits prod.splits sum.splits)
  with used show ?thesis unfolding first_port_Some by auto
qed

lemma reallocation_moves_port_witness:
  "(case snd (AllocateFor (\<lambda>_. []) (\<lambda>p. True) False sample_sites 5 7 1 ModeApache 6600) of
      Inr p \<Rightarrow> p \<noteq> 6600 | Inl _ \<Rightarrow> False)"
proof -
  let ?ws = "hd (s_rows sample_sites)"
  let ?r = "AllocateFor (\<lambda>_. []) (\<lambda>p. True) False sample_sites 5 7 1 ModeApache 6600"
  have "\<not> isl (snd ?r)" by code_simp
  then obtain s' p where r: "?r = (s', Inr p)" by (cases ?r; cases "snd ?r") simp_all
  have port: "site_port ModeApache ?ws = 6600" by code_simp
  have "?ws \<in> set (s_rows sample_sites)" "site_server ?ws = 7" "port_owner ?ws"
    by (simp_all add: sample_sites_def new_site_def port_owner_def)
  moreover have "0 < site_port ModeApache ?ws" unfolding port by simp
  ultimately have "p \<noteq> 6600" using reallocation_moves_port [of ?ws sample_sites 7 ModeApache] r
    unfolding port by blast
  with r show ?thesis by simp
qed

lemma default_ranges_disjoint:
  "\<not> (Contains defaultApache p \<and> Contains defaultOLS p) \<and> \<not> (Contains defaultApache p \<and> Contains defaultApp p)
    \<and> \<not> (Contains defaultOLS p \<and> Contains defaultApp p)"
  by (simp add: Contains_def defaultApache_def defaultOLS_def defaultApp_def)

end
