(* ===== verification/BackendRender.thy ===== *)
theory BackendRender
  imports NginxVhost PortAlloc "HOL-Library.Word"
begin

text \<open>
  The backend web servers behind the nginx edge, \<open>internal/agent/webserver_ops.go\<close>: the Apache vhost
  of a site with its stubs, the OpenLiteSpeed vhost with its stubs, the registration of a site in
  OpenLiteSpeed's \<open>httpd_config.conf\<close> as edits of its text, and the choice of web servers and ports.
  Services, binaries and the probe of a port are not modelled here.
\<close>

section \<open>Web servers and ports\<close>

definition webServerList :: "string \<Rightarrow> string list" where
  "webServerList s =
    filter (\<lambda>p. p \<in> {''nginx'', ''apache'', ''openlitespeed''}) (map (\<lambda>part. trim_space (ToLower part)) (split_on CHR '','' s))"

text \<open>FNV-1a with 32 bits: \<open>hash/fnv\<close>.\<close>

definition fnv32a :: "string \<Rightarrow> 32 word" where
  "fnv32a s = foldl (\<lambda>h c. (h XOR of_nat (byte c)) * 16777619) 2166136261 s"

definition fallbackPort :: "range \<Rightarrow> string \<Rightarrow> int" where
  "fallbackPort r site = r_min r + uint (fnv32a site mod word_of_int (r_max r - r_min r + 1))"

definition apachePort :: "(string \<Rightarrow> string) \<Rightarrow> string \<Rightarrow> int \<Rightarrow> int" where
  "apachePort getenv site port = (if port > 0 then port else fallbackPort (Apache getenv) site)"

definition olsPort :: "(string \<Rightarrow> string) \<Rightarrow> string \<Rightarrow> int \<Rightarrow> int" where
  "olsPort getenv site port = (if port > 0 then port else fallbackPort (OLS getenv) site)"

text \<open>\<open>listening\<close>: a connection to the port on the loopback interface succeeds.\<close>

definition verifyBackendPort :: "(string \<Rightarrow> string) \<Rightarrow> (int \<Rightarrow> bool) \<Rightarrow> int \<Rightarrow> bool" where
  "verifyBackendPort getenv listening port \<longleftrightarrow> 1024 \<le> port \<and> port \<le> 65535
    \<and> (\<not> listening port \<or> Contains (Apache getenv) port \<or> Contains (OLS getenv) port)"

section \<open>Apache\<close>

definition rows :: "string list \<Rightarrow> string" where
  "rows ls = concat (map (\<lambda>l. l @ [newline]) ls)"

definition apacheRewriteTokens :: "string list" where
  "apacheRewriteTokens = [''rewrite'', ''rewritecond'', ''rewriterule'', ''redirect'', ''redirectmatch'', ''header'', ''setenv'',
     ''directoryindex'', ''errordocument'', ''options'', ''addtype'']"

text \<open>\<open>strings.TrimRight(line, ";")\<close>.\<close>

definition trim_semicolons :: "string \<Rightarrow> string" where
  "trim_semicolons s = rev (dropWhile (\<lambda>c. c = CHR '';'') (rev s))"

definition apache_names :: "vhost \<Rightarrow> string" where
  "apache_names v = join_with '' '' (map vd_name (vh_domains v))"

definition apache_rewrite :: "vhost \<Rightarrow> string" where
  "apache_rewrite v =
    (if trim_space (vh_rewrite v) = [] then []
     else [newline, tab] @ ''<IfModule mod_rewrite.c>'' @ [newline, tab, tab] @ ''RewriteEngine On'' @ [newline] @
       concat (map (\<lambda>raw. let line = sanitizeRewriteLine apacheRewriteTokens raw in
           if line = [] then [] else [tab, tab] @ trim_semicolons line @ [newline]) (split_on newline (vh_rewrite v))) @
       [tab] @ ''</IfModule>'') @
    concat (map (\<lambda>(from, to, status). [newline, tab] @ ''Redirect '' @ int_str status @ '' / '' @ to) (normalizeRedirects (vh_redirects v)))"

definition apache_php :: "vhost \<Rightarrow> string" where
  "apache_php v =
    (if vh_socket v = [] then []
     else [newline, tab] @ ''<FilesMatch '' @ [CHR 0x5C] @ ''.php$>'' @ [newline, tab, tab] @ ''SetHandler '' @ [CHR 0x22] @ ''proxy:unix:''
       @ vh_socket v @ ''|fcgi://localhost'' @ [CHR 0x22, newline, tab] @ ''</FilesMatch>'')"

definition apache_logs :: "vhost \<Rightarrow> string list" where
  "apache_logs v =
    [tab # ''ErrorLog '' @ websites_dir @ ''/'' @ vh_site v @ ''/logs/apache-error.log'',
     tab # ''CustomLog '' @ websites_dir @ ''/'' @ vh_site v @ ''/logs/apache-access.log combined'']"

definition apache_open :: "vhost \<Rightarrow> int \<Rightarrow> string \<Rightarrow> string list" where
  "apache_open v port note =
    [''# managed by EpicPanel '' @ dash @ '' website '' @ vh_site v @ note @ '' '' @ dash @ '' DO NOT EDIT'',
     ''Listen 127.0.0.1:'' @ int_str port, ''<VirtualHost 127.0.0.1:'' @ int_str port @ ''>'',
     tab # ''ServerName '' @ apache_names v, tab # ''DocumentRoot '' @ vh_root v]"

definition stub_directory :: "vhost \<Rightarrow> string list" where
  "stub_directory v =
    [[], tab # ''<Directory '' @ vh_root v @ ''>'', [tab, tab] @ ''Options -Indexes'', [tab, tab] @ ''Require all granted'', tab # ''</Directory>'', []]"

definition force_status :: "int \<Rightarrow> string list" where
  "force_status status =
    [tab # ''<IfModule mod_rewrite.c>'', [tab, tab] @ ''RewriteEngine On'',
     [tab, tab] @ ''RewriteRule ^ - [R='' @ int_str status @ '',L]'', tab # ''</IfModule>'']"

definition apache_stub_page :: "vhost \<Rightarrow> string" where
  "apache_stub_page v =
    (if vh_terminated v then default_pages @ ''/terminated.html''
     else if vh_stub v = [] then default_pages @ ''/suspended.html''
     else if vh_stub v = bandwidthStubPage then websites_dir @ ''/'' @ vh_site v @ ''/pages/'' @ vh_stub v
     else default_pages @ ''/'' @ vh_stub v)"

definition renderApacheStub :: "vhost \<Rightarrow> int \<Rightarrow> int \<Rightarrow> string" where
  "renderApacheStub v port status0 =
    (let status = (if vh_terminated v then 410 else status0); kind = (if vh_terminated v then ''terminated'' else ''suspended'')
     in rows (apache_open v port ('' ('' @ kind @ '')'') @ stub_directory v @ force_status status @
       [tab # ''Alias /epicpanel_stub.html '' @ apache_stub_page v,
        tab # ''ErrorDocument '' @ int_str status @ '' /epicpanel_stub.html'',
        tab # ''<IfModule mod_headers.c>'', [tab, tab] @ ''Header always set Cache-Control '' @ [CHR 0x22] @ ''no-store'' @ [CHR 0x22],
        tab # ''</IfModule>'', []] @ apache_logs v @ [''</VirtualHost>'']))"

definition renderApacheQuotaExceeded :: "vhost \<Rightarrow> int \<Rightarrow> string" where
  "renderApacheQuotaExceeded v port =
    rows (apache_open v port '' (quota exceeded)'' @ stub_directory v @ force_status 508 @
      [tab # ''Alias /epicpanel_quota.html '' @ default_pages @ ''/quota_exceeded.html'', tab # ''ErrorDocument 508 /epicpanel_quota.html'', []]
      @ apache_logs v @ [''</VirtualHost>''])"

definition RenderApacheSite :: "vhost \<Rightarrow> int \<Rightarrow> string" where
  "RenderApacheSite v port =
    (if vh_terminated v then renderApacheStub v port 410
     else if vh_suspended v then renderApacheStub v port 503
     else if vh_quota v then renderApacheQuotaExceeded v port
     else rows (apache_open v port [] @
       [apache_php v, tab # ''<Directory '' @ vh_root v @ ''>'', [tab, tab] @ ''Options -Indexes +FollowSymLinks'',
        [tab, tab] @ ''AllowOverride All'', [tab, tab] @ ''Require all granted'', tab # ''</Directory>'', apache_rewrite v]
       @ apache_logs v @ [''</VirtualHost>'']))"

section \<open>Patterns at the beginning of a line\<close>

text \<open>
  The regular expressions of the agent all have the form \<open>(?m)^\s*key\s+...\<close>. A match is tried at
  the beginning of the text and after every newline; \<open>m\<close> is given the text after the white space
  and answers what it captured and what is left. \<open>\s\<close> is the white space of Go's regular expressions.
\<close>

function find_lines :: "(string \<Rightarrow> ('a \<times> string) option) \<Rightarrow> bool \<Rightarrow> string \<Rightarrow> 'a list" where
  "find_lines m bol [] = []"
| "find_lines m bol (c # s) =
    (case (if bol then m (dropWhile re_space (c # s)) else None) of
       Some (x, rest) \<Rightarrow> if length rest \<le> length s then x # find_lines m False rest else []
     | None \<Rightarrow> find_lines m (c = newline) s)"
  by pat_completeness auto
termination
  by (relation "measure (\<lambda>(m, bol, s). length s)") auto

text \<open>The value after a keyword and white space.\<close>

definition after_key :: "string \<Rightarrow> string \<Rightarrow> string option" where
  "after_key key t =
    (if has_prefix t key \<and> (case drop (length key) t of [] \<Rightarrow> False | c # _ \<Rightarrow> re_space c)
     then Some (dropWhile re_space (drop (length key) t)) else None)"

text \<open>\<open>\s*$\<close>: only white space is left on the line.\<close>

definition line_ends :: "string \<Rightarrow> bool" where
  "line_ends s \<longleftrightarrow> newline \<in> set (takeWhile re_space s) \<or> dropWhile re_space s = []"

definition listen_match :: "string \<Rightarrow> (string \<times> string) option" where
  "listen_match t =
    (case after_key ''Listen'' t of
       None \<Rightarrow> None
     | Some u \<Rightarrow>
         (let ds = takeWhile is_digit (drop 10 u); rest = dropWhile is_digit (drop 10 u) in
          if has_prefix u ''127.0.0.1:'' \<and> ds \<noteq> [] \<and> line_ends rest then Some (ds, rest) else None))"

definition apacheListenPort :: "string \<Rightarrow> int" where
  "apacheListenPort conf =
    (case find_lines listen_match True conf of
       [] \<Rightarrow> 0
     | ds # _ \<Rightarrow> (case parse_int ds of None \<Rightarrow> 0 | Some p \<Rightarrow> p))"

section \<open>OpenLiteSpeed\<close>

definition ols_head :: "string list" where
  "ols_head =
    [''docRoot                   $VH_ROOT'', ''vhDomain                  $VH_NAME'',
     ''adminEmails               admin@epicpanel.local'', ''enableGzip                1'', ''enableIpGeo               0'',
     ''errorlog $VH_ROOT/logs/ols-error.log {'', ''  useServer               1'', ''  logLevel                ERROR'', ''}'',
     ''accesslog $VH_ROOT/logs/ols-access.log {'', ''  useServer               1'', ''  rollingSize             10M'', ''}'']"

definition ols_rewrite_line :: "string \<Rightarrow> string" where
  "ols_rewrite_line raw =
    (let line = sanitizeRewriteLine [''rewrite''] raw; ws = GoStrings.fields (trim_semicolons line) in
     if line = [] then []
     else if 3 \<le> length ws \<and> ToLower (ws ! 0) = ''rewrite''
       then ''    rewrite  '' @ ws ! 1 @ ''  '' @ rev (dropWhile (\<lambda>c. c \<in> set ''()'') (rev (dropWhile (\<lambda>c. c \<in> set ''()'') (ws ! 2)))) @ [newline]
     else [])"

definition ols_redirect :: "redirect_rule \<Rightarrow> string" where
  "ols_redirect r =
    (case r of (from, to, status) \<Rightarrow>
       ''    rewriteCond  %{HTTP_HOST}  ^'' @ concat (map (\<lambda>c. if c = CHR ''.'' then [CHR 0x5C, c] else [c]) from) @ ''$  [NC]'' @ [newline] @
       ''    rewriteRule  ^/.*$  '' @ to @ ''  [R='' @ int_str status @ '',L]'' @ [newline])"

definition ols_rewrites :: "vhost \<Rightarrow> string" where
  "ols_rewrites v = concat (map ols_rewrite_line (split_on newline (vh_rewrite v))) @ concat (map ols_redirect (normalizeRedirects (vh_redirects v)))"

definition ols_php :: "vhost \<Rightarrow> string" where
  "ols_php v =
    (if vh_socket v = [] then []
     else newline # ''extProcessor fpm-'' @ vh_site v @ '' {'' @ [newline] @ rows [''  type                    fcgi'',
       ''  address                 uds://'' @ trim_prefix (vh_socket v) ''/'', ''  maxConns                10'', ''  persistConn             1'',
       ''  autoStart               0'', ''  initTimeout             60'', ''  retryTimeout            0'', ''  respBuffer              0'', ''}'', [],
       ''scriptHandler {'', ''  add                     fcgi:fpm-'' @ vh_site v @ '' php''] @ ''}'')"

definition ols_note :: "string \<Rightarrow> string \<Rightarrow> string" where
  "ols_note site note = ''# managed by EpicPanel '' @ dash @ '' website '' @ site @ '' ('' @ note @ '') '' @ dash @ '' DO NOT EDIT''"

definition ols_status :: "int \<Rightarrow> string \<Rightarrow> string \<Rightarrow> string list" where
  "ols_status status page comment =
    [[], ''errorpage '' @ int_str status @ '' {'', ''  url                     '' @ default_pages @ ''/'' @ page, ''}'', [], comment,
     ''context / {'', ''  location                $VH_ROOT'', ''  allowBrowse             0'', ''  rewrite  {'', ''    enable                1'',
     ''    rewriteRule  ^/.*$  -  [R='' @ int_str status @ '',L]'', ''  }'', ''}'']"

definition renderOLSTerminated :: "string \<Rightarrow> string" where
  "renderOLSTerminated site =
    rows (ols_note site ''terminated'' # ols_head @
      ols_status 410 ''terminated.html'' ''# terminated: 410 Gone for every request (no PHP, no proxy)'')"

definition renderOLSSuspended :: "string \<Rightarrow> string" where
  "renderOLSSuspended site =
    rows (ols_note site ''suspended'' # ols_head @
      ols_status 503 ''suspended.html''
        (''# suspended: 503 '' @ [CHR 0x22] @ ''Account suspended'' @ [CHR 0x22] @ '' for every request (no PHP, no proxy)'') @ [''}''])"

definition renderOLSQuotaExceeded :: "string \<Rightarrow> string" where
  "renderOLSQuotaExceeded site =
    rows (ols_note site ''quota exceeded'' # ols_head @
      ols_status 508 ''quota_exceeded.html'' (''# quota: 508 '' @ [CHR 0x22] @ ''Limit Exceeded'' @ [CHR 0x22] @ '' for every request''))"

definition RenderOLSVhconf :: "vhost \<Rightarrow> string" where
  "RenderOLSVhconf v =
    (if vh_terminated v then renderOLSTerminated (vh_site v)
     else if vh_suspended v then renderOLSSuspended (vh_site v)
     else if vh_quota v then renderOLSQuotaExceeded (vh_site v)
     else rows (ols_head @ [ols_php v @
       (if ols_rewrites v = [] then []
        else newline # ''  context / {'' @ [newline] @ ''    location                '' @ vh_root v @ [newline] @
          ''    allowBrowse             1'' @ [newline] @ ''    rewrite  {'' @ [newline] @ ''      enable                1'' @ [newline] @
          ols_rewrites v @ ''    }'' @ [newline] @ ''  }'')]))"

section \<open>The registration in \<open>httpd_config.conf\<close>\<close>

definition olsVhostDir :: string where "olsVhostDir = ''/usr/local/lsws/conf/vhosts''"

text \<open>The text between the opening of a listener and the newline before its closing brace.\<close>

definition listener_head :: "string \<Rightarrow> string" where
  "listener_head site = ''listener epicpanel-'' @ site @ '' {''"

definition listener_body :: "string \<Rightarrow> int \<Rightarrow> string list \<Rightarrow> string" where
  "listener_body site port names =
    newline # ''  address 127.0.0.1:'' @ int_str port @ newline # ''  secure 0'' @ newline # ''  map '' @ site @ '' '' @ join_with '', '' names"

definition virtualhost_head :: "string \<Rightarrow> string" where "virtualhost_head site = ''virtualhost '' @ site @ '' {''"

definition virtualhost_body :: "string \<Rightarrow> string" where
  "virtualhost_body site =
    newline # ''  vhRoot                  '' @ websites_dir @ ''/'' @ site @ ''/public'' @
    newline # ''  configFile              '' @ Join [olsVhostDir, site, ''vhconf.conf''] @ newline # ''  allowSymbolLink         1'' @
    newline # ''  enableScript            1'' @ newline # ''  restrained              0''"

definition close_block :: string where "close_block = [newline, CHR ''}'']"

definition ols_block :: "string \<Rightarrow> int \<Rightarrow> string list \<Rightarrow> string" where
  "ols_block site port names =
    [newline] @ virtualhost_head site @ virtualhost_body site @ close_block @ [newline, newline] @
    listener_head site @ listener_body site port names @ close_block @ [newline]"

text \<open>The text before a block that begins with \<open>head\<close>, and the text after its closing brace.\<close>

definition cut_block :: "string \<Rightarrow> string \<Rightarrow> (string \<times> string) option" where
  "cut_block head conf =
    (case find_sub head conf of
       None \<Rightarrow> None
     | Some start \<Rightarrow>
         (case find_sub close_block (drop start conf) of
            None \<Rightarrow> None
          | Some e \<Rightarrow> Some (take start conf, drop (start + e + 2) conf)))"

definition replaceOLSListener :: "string \<Rightarrow> string \<Rightarrow> int \<Rightarrow> string list \<Rightarrow> string" where
  "replaceOLSListener conf site port names =
    (case cut_block (listener_head site) conf of
       None \<Rightarrow> conf
     | Some (before, after) \<Rightarrow> before @ listener_head site @ listener_body site port names @ close_block @ [newline] @ after)"

definition register_ols :: "string \<Rightarrow> string \<Rightarrow> int \<Rightarrow> string list \<Rightarrow> string" where
  "register_ols conf site port names =
    (if contains conf (''virtualhost '' @ site) then replaceOLSListener conf site port names
     else conf @ ols_block site port names)"

definition remove_block :: "string \<Rightarrow> string \<Rightarrow> string" where
  "remove_block head conf = (case cut_block head conf of None \<Rightarrow> conf | Some (before, after) \<Rightarrow> before @ after)"

definition unregister_ols :: "string \<Rightarrow> string \<Rightarrow> string" where
  "unregister_ols conf site = remove_block (virtualhost_head site) (remove_block (listener_head site) conf)"

end
