(* ===== verification/AgentLifecycle.thy ===== *)
theory AgentLifecycle
  imports BackendRender
begin

text \<open>
  Suspension, termination, resumption and provisioning of a site's vhost files on the agent:
  \<open>lifecycle_ops.go\<close>, the validated swap of \<open>atomic.go\<close>, \<open>NginxProvider.Ensure\<close> and \<open>Remove\<close>, and the
  engines of Apache and OpenLiteSpeed. A web server's share of a site is its vhost file, the backup
  beside it, the link that enables it, and what the running server loaded last. The outcomes of the
  validators, of service reloads and of file operations are parameters, one record per operation.
  A restore of a file (\<open>restoreFile\<close>) succeeds; directories, the templated stub page, installation of
  the runtimes and notes are left out.
\<close>

section \<open>Files of a site\<close>

datatype site_link = NoLink | Linked | StaleLink

record target =
  tg_conf :: "string option"
  tg_bak :: "string option"
  tg_link :: site_link
  tg_loaded :: "string option"

record op_env =
  oe_tool :: bool
  oe_valid :: "string option \<Rightarrow> bool"
  oe_reload :: bool
  oe_retry :: bool
  oe_bak_write :: bool
  oe_bak_close :: bool
  oe_write :: bool
  oe_write_conf :: bool
  oe_link :: bool

datatype life_err = ReadFailed | NotRendered | BackupFailed | WriteFailed | LinkFailed | ConfigInvalid | ReloadFailed | SpecInvalid
  | PortUnusable | NotInstalled

definition AtomicWriteFile :: "op_env \<Rightarrow> string \<Rightarrow> target \<Rightarrow> target \<times> (life_err + unit)" where
  "AtomicWriteFile e content t = (if oe_write e then (t\<lparr>tg_conf := Some content\<rparr>, Inr ()) else (t, Inl WriteFailed))"

definition restoreFile :: "string option \<Rightarrow> target \<Rightarrow> target" where
  "restoreFile backup t = t\<lparr>tg_conf := backup\<rparr>"

text \<open>The validators read the enabled files of the server: the file of a site counts once it is linked.\<close>

definition enabled_text :: "target \<Rightarrow> string option" where
  "enabled_text t = (if tg_link t = Linked then tg_conf t else None)"

text \<open>A reload or restart makes the server load the enabled file.\<close>

definition loaded_now :: "target \<Rightarrow> target" where
  "loaded_now t = t\<lparr>tg_loaded := enabled_text t\<rparr>"

definition SwapValidated :: "op_env \<Rightarrow> string \<Rightarrow> target \<Rightarrow> target \<times> (life_err + unit)" where
  "SwapValidated e content t =
    (case AtomicWriteFile e content t of
       (t', Inl err) \<Rightarrow> (t', Inl err)
     | (t', Inr _) \<Rightarrow> if oe_valid e (enabled_text t') then (t', Inr ()) else (restoreFile (tg_conf t) t', Inl ConfigInvalid))"

text \<open>The old link is removed before the new one is made.\<close>

definition enableSiteFile :: "op_env \<Rightarrow> target \<Rightarrow> target \<times> (life_err + unit)" where
  "enableSiteFile e t =
    (if tg_link t = Linked then (t, Inr ())
     else if oe_link e then (t\<lparr>tg_link := Linked\<rparr>, Inr ()) else (t\<lparr>tg_link := NoLink\<rparr>, Inl LinkFailed))"

section \<open>Names in rendered files\<close>

text \<open>\<open>server_name\<close> with the text up to the semicolon.\<close>

definition server_name_match :: "string \<Rightarrow> (string list \<times> string) option" where
  "server_name_match t =
    (case after_key ''server_name'' t of
       None \<Rightarrow> None
     | Some u \<Rightarrow> if CHR '';'' \<in> set u then Some (GoStrings.fields (takeWhile (\<lambda>c. c \<noteq> CHR '';'') u), tl (dropWhile (\<lambda>c. c \<noteq> CHR '';'') u))
         else None)"

definition ServerName_match :: "string \<Rightarrow> (string list \<times> string) option" where
  "ServerName_match t =
    (case after_key ''ServerName'' t of
       None \<Rightarrow> None
     | Some u \<Rightarrow> if takeWhile (\<lambda>c. c \<noteq> newline) u = [] then None
         else Some (GoStrings.fields (takeWhile (\<lambda>c. c \<noteq> newline) u), dropWhile (\<lambda>c. c \<noteq> newline) u))"

definition DocumentRoot_match :: "string \<Rightarrow> (string \<times> string) option" where
  "DocumentRoot_match t =
    (case after_key ''DocumentRoot'' t of
       None \<Rightarrow> None
     | Some u \<Rightarrow>
         (let w = takeWhile (\<lambda>c. \<not> re_space c) u; rest = dropWhile (\<lambda>c. \<not> re_space c) u in
          if w \<noteq> [] \<and> line_ends rest then Some (w, rest) else None))"

text \<open>Lower case, valid, each once, in the order of their first occurrence.\<close>

fun collect_names :: "string list \<Rightarrow> string list \<Rightarrow> string list" where
  "collect_names seen [] = []"
| "collect_names seen (tok # toks) =
    (let d = ToLower (trim_space tok) in
     if d = [] \<or> d \<in> set seen \<or> \<not> validDomainName d then collect_names seen toks
     else d # collect_names (d # seen) toks)"

definition lifeParseNginxDomains :: "string \<Rightarrow> string list" where
  "lifeParseNginxDomains conf = collect_names [] (concat (find_lines server_name_match True conf))"

definition lifeParseApacheDomains :: "string \<Rightarrow> string list" where
  "lifeParseApacheDomains conf = collect_names [] (concat (find_lines ServerName_match True conf))"

definition map_match :: "string \<Rightarrow> string \<Rightarrow> (string \<times> string) option" where
  "map_match site t =
    (case after_key ''map'' t of
       None \<Rightarrow> None
     | Some u \<Rightarrow>
         (case after_key site u of
            None \<Rightarrow> None
          | Some w \<Rightarrow> if takeWhile (\<lambda>c. c \<noteq> newline) w = [] then None
              else Some (takeWhile (\<lambda>c. c \<noteq> newline) w, dropWhile (\<lambda>c. c \<noteq> newline) w)))"

definition lifeParseOLSDomains :: "string \<Rightarrow> string \<Rightarrow> string list" where
  "lifeParseOLSDomains conf site =
    (case find_lines (map_match site) True conf of [] \<Rightarrow> [] | m # _ \<Rightarrow> collect_names [] (split_on CHR '','' m))"

section \<open>Stubs\<close>

record life_stub =
  ls_terminated :: bool
  ls_page :: string

definition LifecycleReason :: "string \<Rightarrow> string" where
  "LifecycleReason reason = (if reason = [] then ''manual'' else reason)"

definition lifeSuspendedStubFor :: "string \<Rightarrow> life_stub" where
  "lifeSuspendedStubFor reason =
    \<lparr>ls_terminated = False, ls_page = (if LifecycleReason reason = ''bandwidth_exhausted'' then bandwidthStubPage else [])\<rparr>"

definition terminated_stub :: life_stub where "terminated_stub = \<lparr>ls_terminated = True, ls_page = []\<rparr>"

definition stub_vhost :: "string \<Rightarrow> life_stub \<Rightarrow> string list \<Rightarrow> vhost" where
  "stub_vhost site st names =
    \<lparr>vh_site = site, vh_root = [], vh_socket = [], vh_rewrite = [], vh_config = None, vh_proxy = [], vh_backend = 0, vh_redirects = [],
     vh_suspended = \<not> ls_terminated st, vh_quota = False, vh_terminated = ls_terminated st, vh_stub = ls_page st, vh_acme = [],
     vh_logs = [], vh_bw = [],
     vh_domains = map (\<lambda>d. \<lparr>vd_name = d, vd_mode = [], vd_cert = [], vd_key = [], vd_suffix = []\<rparr>) names\<rparr>"

definition lifeNginxStub :: "string \<Rightarrow> string \<Rightarrow> life_stub \<Rightarrow> string option" where
  "lifeNginxStub site current st =
    (let names = lifeParseNginxDomains current in
     if names = [] then None else Some (RenderVhost (\<lambda>p. False) (stub_vhost site st names)))"

definition lifeApacheStub :: "string \<Rightarrow> string \<Rightarrow> life_stub \<Rightarrow> string option" where
  "lifeApacheStub site current st =
    (let names = lifeParseApacheDomains current; port = apacheListenPort current;
         root = (case find_lines DocumentRoot_match True current of [] \<Rightarrow> websites_dir @ ''/'' @ site @ ''/public'' | r # _ \<Rightarrow> r)
     in if names = [] then None
        else Some (RenderApacheSite ((stub_vhost site st names)\<lparr>vh_root := root, vh_backend := port\<rparr>) port))"

definition lifeOLSStub :: "string \<Rightarrow> life_stub \<Rightarrow> string" where
  "lifeOLSStub site st = RenderOLSVhconf (stub_vhost site st [])"

section \<open>Suspending\<close>

text \<open>A suspension answers whether the stub was there already and whether the server was reloaded.\<close>

definition lifeEnsureSuspendBak :: "op_env \<Rightarrow> string \<Rightarrow> target \<Rightarrow> target \<times> (life_err + bool)" where
  "lifeEnsureSuspendBak e current t =
    (if tg_bak t \<noteq> None then (t, Inr False)
     else if \<not> oe_bak_write e then (t, Inl BackupFailed)
     else if \<not> oe_bak_close e then (t\<lparr>tg_bak := Some current\<rparr>, Inl BackupFailed)
     else (t\<lparr>tg_bak := Some current\<rparr>, Inr True))"

definition suspend_swap :: "op_env \<Rightarrow> string \<Rightarrow> bool \<Rightarrow> target \<Rightarrow> target \<times> (life_err + (bool \<times> bool))" where
  "suspend_swap e stub newBak t =
    (case enableSiteFile e t of
       (t1, Inl err) \<Rightarrow> (t1, Inl err)
     | (t1, Inr _) \<Rightarrow>
         (case SwapValidated e stub t1 of
            (t2, Inl err) \<Rightarrow>
              ((if newBak then (\<lambda>x. x\<lparr>tg_bak := None\<rparr>) else id)
                ((if tg_link t = NoLink then (\<lambda>x. x\<lparr>tg_link := NoLink\<rparr>) else id) t2), Inl err)
          | (t2, Inr _) \<Rightarrow> if oe_reload e then (loaded_now t2, Inr (False, True)) else (t2, Inl ReloadFailed)))"

text \<open>What nginx and Apache share: \<open>stub_of\<close> makes the stub from the present file.\<close>

definition lifeSuspendWeb :: "(string \<Rightarrow> string option) \<Rightarrow> op_env \<Rightarrow> target \<Rightarrow> target \<times> (life_err + (bool \<times> bool))" where
  "lifeSuspendWeb stub_of e t =
    (case tg_conf t of
       None \<Rightarrow> (t, Inl ReadFailed)
     | Some current \<Rightarrow>
         (case stub_of current of
            None \<Rightarrow> (t, Inl NotRendered)
          | Some stub \<Rightarrow>
              if current = stub then (t, Inr (True, False))
              else (case lifeEnsureSuspendBak e current t of
                 (t1, Inl err) \<Rightarrow> (t1, Inl err)
               | (t1, Inr newBak) \<Rightarrow>
                   if \<not> oe_tool e then
                     (case AtomicWriteFile e stub t1 of (t2, Inl err) \<Rightarrow> (t2, Inl err) | (t2, Inr _) \<Rightarrow> (t2, Inr (False, False)))
                   else suspend_swap e stub newBak t1)))"

definition lifeSuspendNginx :: "string \<Rightarrow> life_stub \<Rightarrow> op_env \<Rightarrow> target \<Rightarrow> target \<times> (life_err + (bool \<times> bool))" where
  "lifeSuspendNginx site st = lifeSuspendWeb (\<lambda>current. lifeNginxStub site current st)"

definition lifeSuspendApache :: "string \<Rightarrow> life_stub \<Rightarrow> op_env \<Rightarrow> target \<Rightarrow> target \<times> (life_err + (bool \<times> bool))" where
  "lifeSuspendApache site st = lifeSuspendWeb (\<lambda>current. lifeApacheStub site current st)"

text \<open>\<open>httpd\<close> is the text of \<open>httpd_config.conf\<close>; OpenLiteSpeed has no links and no validator.\<close>

definition lifeSuspendOLS :: "string \<Rightarrow> life_stub \<Rightarrow> string option \<Rightarrow> op_env \<Rightarrow> target \<Rightarrow> target \<times> (life_err + (bool \<times> bool))" where
  "lifeSuspendOLS site st httpd e t =
    (case tg_conf t of
       None \<Rightarrow> (t, Inl ReadFailed)
     | Some current \<Rightarrow>
         (let stub = lifeOLSStub site st in
          if current = stub then (t, Inr (True, False))
          else (case lifeEnsureSuspendBak e current t of
             (t1, Inl err) \<Rightarrow> (t1, Inl err)
           | (t1, Inr newBak) \<Rightarrow>
               (case httpd of
                  None \<Rightarrow> (case AtomicWriteFile e stub t1 of (t2, Inl err) \<Rightarrow> (t2, Inl err) | (t2, Inr _) \<Rightarrow> (t2, Inr (False, False)))
                | Some conf \<Rightarrow>
                    if lifeParseOLSDomains conf site = [] then (t1, Inl NotRendered)
                    else (case AtomicWriteFile e stub t1 of
                       (t2, Inl err) \<Rightarrow> (t2, Inl err)
                     | (t2, Inr _) \<Rightarrow>
                         if oe_reload e then (t2\<lparr>tg_loaded := tg_conf t2\<rparr>, Inr (False, True))
                         else
                           (let t3 = restoreFile (Some current) t2; t4 = (if oe_retry e then t3\<lparr>tg_loaded := tg_conf t3\<rparr> else t3) in
                            ((if newBak then t4\<lparr>tg_bak := None\<rparr> else t4), Inl ReloadFailed)))))))"

section \<open>Resuming\<close>

text \<open>A resumption answers whether a backup was restored and whether the server was reloaded.\<close>

definition lifeResumeWeb :: "op_env \<Rightarrow> target \<Rightarrow> target \<times> (life_err + (bool \<times> bool))" where
  "lifeResumeWeb e t =
    (case tg_bak t of
       None \<Rightarrow> (t, Inr (False, False))
     | Some bak \<Rightarrow>
         (if (case tg_conf t of None \<Rightarrow> [] | Some c \<Rightarrow> c) = bak then (t\<lparr>tg_bak := None\<rparr>, Inr (False, False))
          else if \<not> oe_tool e then
            (case AtomicWriteFile e bak t of (t1, Inl err) \<Rightarrow> (t1, Inl err) | (t1, Inr _) \<Rightarrow> (t1\<lparr>tg_bak := None\<rparr>, Inr (True, False)))
          else
            (case SwapValidated e bak t of
               (t1, Inl err) \<Rightarrow> (t1, Inl err)
             | (t1, Inr _) \<Rightarrow>
                 (let t2 = t1\<lparr>tg_bak := None\<rparr> in
                  if oe_reload e then (loaded_now t2, Inr (True, True)) else (t2, Inl ReloadFailed)))))"

definition lifeResumeOLS :: "string option \<Rightarrow> op_env \<Rightarrow> target \<Rightarrow> target \<times> (life_err + (bool \<times> bool))" where
  "lifeResumeOLS httpd e t =
    (case tg_bak t of
       None \<Rightarrow> (t, Inr (False, False))
     | Some bak \<Rightarrow>
         (if (case tg_conf t of None \<Rightarrow> [] | Some c \<Rightarrow> c) = bak then (t\<lparr>tg_bak := None\<rparr>, Inr (False, False))
          else
            (case AtomicWriteFile e bak t of
               (t1, Inl err) \<Rightarrow> (t1, Inl err)
             | (t1, Inr _) \<Rightarrow>
                 (if httpd = None then (t1\<lparr>tg_bak := None\<rparr>, Inr (True, False))
                  else if oe_reload e then (t1\<lparr>tg_loaded := tg_conf t1, tg_bak := None\<rparr>, Inr (True, True))
                  else (let t2 = restoreFile (tg_conf t) t1 in
                        ((if oe_retry e then t2\<lparr>tg_loaded := tg_conf t2\<rparr> else t2), Inl ReloadFailed))))))"

section \<open>All web servers of a site\<close>

datatype web_server = WsNginx | WsApache | WsOLS

record node =
  nd_target :: "web_server \<Rightarrow> target"
  nd_httpd :: "string option"

record life_outcome =
  lo_changed :: bool
  lo_already :: bool
  lo_providers :: "web_server list"
  lo_reloaded :: "web_server list"

definition lifeTargets :: "node \<Rightarrow> web_server list" where
  "lifeTargets n = filter (\<lambda>w. tg_conf (nd_target n w) \<noteq> None) [WsNginx, WsApache, WsOLS]"

definition lifeSuspendTarget :: "string \<Rightarrow> life_stub \<Rightarrow> op_env \<Rightarrow> node \<Rightarrow> web_server \<Rightarrow> target \<times> (life_err + (bool \<times> bool))" where
  "lifeSuspendTarget site st e n w =
    (case w of
       WsNginx \<Rightarrow> lifeSuspendNginx site st e (nd_target n w)
     | WsApache \<Rightarrow> lifeSuspendApache site st e (nd_target n w)
     | WsOLS \<Rightarrow> lifeSuspendOLS site st (nd_httpd n) e (nd_target n w))"

definition lifeResumeTarget :: "op_env \<Rightarrow> node \<Rightarrow> web_server \<Rightarrow> target \<times> (life_err + (bool \<times> bool))" where
  "lifeResumeTarget e n w =
    (case w of
       WsNginx \<Rightarrow> lifeResumeWeb e (nd_target n w)
     | WsApache \<Rightarrow> lifeResumeWeb e (nd_target n w)
     | WsOLS \<Rightarrow> lifeResumeOLS (nd_httpd n) e (nd_target n w))"

text \<open>The targets in turn; the first error ends the operation and keeps what was done before.\<close>

fun each_target ::
    "(node \<Rightarrow> web_server \<Rightarrow> target \<times> (life_err + (bool \<times> bool))) \<Rightarrow> node \<Rightarrow> web_server list \<Rightarrow> node \<times> (life_err + (web_server \<times> bool \<times> bool) list)" where
  "each_target f n [] = (n, Inr [])"
| "each_target f n (w # ws) =
    (let (t, r) = f n w; n1 = n\<lparr>nd_target := (nd_target n)(w := t)\<rparr> in
     (case r of
        Inl err \<Rightarrow> (n1, Inl err)
      | Inr (flag, reloaded) \<Rightarrow>
          (case each_target f n1 ws of
             (n2, Inl err) \<Rightarrow> (n2, Inl err)
           | (n2, Inr rs) \<Rightarrow> (n2, Inr ((w, flag, reloaded) # rs)))))"

definition outcome_of :: "((bool \<times> bool) \<Rightarrow> bool) \<Rightarrow> (web_server \<times> bool \<times> bool) list \<Rightarrow> life_outcome" where
  "outcome_of changed rs =
    (let c = list_ex (\<lambda>(w, r). changed r) rs in
     \<lparr>lo_changed = c, lo_already = \<not> c, lo_providers = map fst rs, lo_reloaded = map fst (filter (\<lambda>(w, flag, reloaded). reloaded) rs)\<rparr>)"

definition lifeSuspend :: "string \<Rightarrow> life_stub \<Rightarrow> (web_server \<Rightarrow> op_env) \<Rightarrow> node \<Rightarrow> node \<times> (life_err + life_outcome)" where
  "lifeSuspend site st e n =
    (case each_target (\<lambda>m w. lifeSuspendTarget site st (e w) m w) n (lifeTargets n) of
       (n', Inl err) \<Rightarrow> (n', Inl err)
     | (n', Inr rs) \<Rightarrow> (n', Inr (outcome_of (\<lambda>(already, _). \<not> already) rs)))"

definition lifeResume :: "(web_server \<Rightarrow> op_env) \<Rightarrow> node \<Rightarrow> node \<times> (life_err + life_outcome)" where
  "lifeResume e n =
    (case each_target (\<lambda>m w. lifeResumeTarget (e w) m w) n (lifeTargets n) of
       (n', Inl err) \<Rightarrow> (n', Inl err)
     | (n', Inr rs) \<Rightarrow> (n', Inr (outcome_of fst rs)))"

definition SuspendWebsite :: "(string \<Rightarrow> bool) \<Rightarrow> string \<Rightarrow> string \<Rightarrow> (web_server \<Rightarrow> op_env) \<Rightarrow> node \<Rightarrow> node \<times> (life_err + life_outcome)" where
  "SuspendWebsite ok_uuid site reason e n =
    (if \<not> ok_uuid site then (n, Inl SpecInvalid) else lifeSuspend site (lifeSuspendedStubFor reason) e n)"

definition TerminateWebsite :: "(string \<Rightarrow> bool) \<Rightarrow> string \<Rightarrow> (web_server \<Rightarrow> op_env) \<Rightarrow> node \<Rightarrow> node \<times> (life_err + life_outcome)" where
  "TerminateWebsite ok_uuid site e n =
    (if \<not> ok_uuid site then (n, Inl SpecInvalid) else lifeSuspend site terminated_stub e n)"

definition ResumeWebsite :: "(string \<Rightarrow> bool) \<Rightarrow> string \<Rightarrow> (web_server \<Rightarrow> op_env) \<Rightarrow> node \<Rightarrow> node \<times> (life_err + life_outcome)" where
  "ResumeWebsite ok_uuid site e n = (if \<not> ok_uuid site then (n, Inl SpecInvalid) else lifeResume e n)"

section \<open>Providers\<close>

text \<open>\<open>NginxProvider.Ensure\<close>: nginx must be installed to validate and to reload.\<close>

definition EnsureNginx :: "(string \<Rightarrow> bool) \<Rightarrow> (string \<Rightarrow> bool) \<Rightarrow> op_env \<Rightarrow> vhost \<Rightarrow> target \<Rightarrow> target \<times> (life_err + unit)" where
  "EnsureNginx ok_uuid on_disk e v t =
    (if \<not> validateVhostSpec ok_uuid v then (t, Inl SpecInvalid)
     else
       (let content = RenderVhost on_disk v;
            (t1, swapped) = (if tg_conf t = Some content then (t, Inr ())
              else SwapValidated (e\<lparr>oe_valid := \<lambda>c. oe_tool e \<and> oe_valid e c\<rparr>) content t)
        in case swapped of
             Inl err \<Rightarrow> ((if tg_conf t = None then t1\<lparr>tg_link := NoLink\<rparr> else t1), Inl err)
           | Inr _ \<Rightarrow>
               (case enableSiteFile e t1 of
                  (t2, Inl err) \<Rightarrow> (t2, Inl err)
                | (t2, Inr _) \<Rightarrow> if oe_tool e \<and> oe_reload e then (loaded_now t2, Inr ()) else (t2, Inl ReloadFailed))))"

definition RemoveNginx :: "op_env \<Rightarrow> target \<Rightarrow> target \<times> (life_err + unit)" where
  "RemoveNginx e t =
    (if tg_link t = NoLink \<and> tg_conf t = None then (t, Inr ())
     else
       (let t1 = t\<lparr>tg_link := NoLink, tg_conf := None\<rparr> in
        if \<not> oe_tool e then (t1, Inr ())
        else if oe_reload e then (loaded_now t1, Inr ()) else (t1, Inl ReloadFailed)))"

text \<open>The engine of Apache; the result of the reload or restart is ignored.\<close>

definition EnsureApache :: "(string \<Rightarrow> string) \<Rightarrow> (int \<Rightarrow> bool) \<Rightarrow> op_env \<Rightarrow> vhost \<Rightarrow> int \<Rightarrow> target \<Rightarrow> target \<times> (life_err + unit)" where
  "EnsureApache getenv listening e v port t =
    (if port \<le> 0 \<or> \<not> verifyBackendPort getenv listening port then (t, Inl PortUnusable)
     else if \<not> oe_tool e then (t, Inl NotInstalled)
     else case enableSiteFile e t of
       (t1, Inl err) \<Rightarrow> (t1, Inl err)
     | (t1, Inr _) \<Rightarrow>
         (case SwapValidated e (RenderApacheSite v port) t1 of
            (t2, Inl err) \<Rightarrow> ((if tg_link t = NoLink then t2\<lparr>tg_link := NoLink\<rparr> else t2), Inl err)
          | (t2, Inr _) \<Rightarrow> ((if oe_reload e then loaded_now t2 else t2), Inr ())))"

definition RemoveApache :: "op_env \<Rightarrow> target \<Rightarrow> target" where
  "RemoveApache e t =
    (let t1 = (if tg_link t = NoLink then t else t\<lparr>tg_link := NoLink, tg_loaded := (if oe_reload e then None else tg_loaded t)\<rparr>)
     in t1\<lparr>tg_conf := None\<rparr>)"

text \<open>The engine of OpenLiteSpeed: both files are written, and restored when the restart fails.\<close>

definition EnsureOLS :: "(string \<Rightarrow> string) \<Rightarrow> (int \<Rightarrow> bool) \<Rightarrow> op_env \<Rightarrow> vhost \<Rightarrow> int \<Rightarrow> string option \<times> target \<Rightarrow> (string option \<times> target) \<times> (life_err + unit)" where
  "EnsureOLS getenv listening e v port ht =
    (case ht of (httpd, t) \<Rightarrow>
       if port \<le> 0 then ((httpd, t), Inl PortUnusable)
       else case httpd of
         None \<Rightarrow> ((httpd, t), Inl NotInstalled)
       | Some conf \<Rightarrow>
           if \<not> verifyBackendPort getenv listening port then ((httpd, t), Inl PortUnusable)
           else (case AtomicWriteFile e (RenderOLSVhconf v) t of
              (t1, Inl err) \<Rightarrow> ((httpd, t1), Inl err)
            | (t1, Inr _) \<Rightarrow>
                (let conf' = register_ols conf (vh_site v) port (map vd_name (vh_domains v)) in
                 if \<not> oe_write_conf e then ((Some conf, restoreFile (tg_conf t) t1), Inl WriteFailed)
                 else if oe_reload e then ((Some conf', t1\<lparr>tg_loaded := tg_conf t1\<rparr>), Inr ())
                 else (let t2 = restoreFile (tg_conf t) t1 in
                       ((Some conf, if oe_retry e then t2\<lparr>tg_loaded := tg_conf t2\<rparr> else t2), Inl ReloadFailed)))))"

definition RemoveOLS :: "op_env \<Rightarrow> string \<Rightarrow> string option \<times> target \<Rightarrow> string option \<times> target" where
  "RemoveOLS e site ht =
    (case ht of
       (None, t) \<Rightarrow> (None, t)
     | (Some conf, t) \<Rightarrow>
         (Some (unregister_ols conf site), t\<lparr>tg_conf := None, tg_bak := None, tg_loaded := (if oe_reload e then None else tg_loaded t)\<rparr>))"

end
