(* ===== verification/VhostProperties.thy ===== *)
theory VhostProperties
  imports NginxVhost "HOL-Library.Multiset"
begin

text \<open>
  Properties of the rendered vhost: which server blocks a domain appears in, which certificate it is
  served with, where its docroot can lie, what a stub can show, and what becomes of legacy rewrite
  rules.
\<close>

section \<open>Domains and server blocks\<close>

definition http_names :: "server_block \<Rightarrow> string list" where
  "http_names b = (case b of RedirectBlock r \<Rightarrow> [fst r] | PlainBlock ns _ \<Rightarrow> ns | UpgradeBlock ns \<Rightarrow> ns | TlsBlock _ _ _ _ \<Rightarrow> [])"

definition tls_names :: "server_block \<Rightarrow> string list" where
  "tls_names b = (case b of TlsBlock ns _ _ _ \<Rightarrow> ns | _ \<Rightarrow> [])"

text \<open>A group holds secured domains exactly when it holds a name of one.\<close>

definition group_ok :: "string list \<Rightarrow> vgroup \<Rightarrow> bool" where
  "group_ok secured g \<longleftrightarrow> (g_secured g = [] \<longleftrightarrow> list_all (\<lambda>n. \<not> lower_in n secured) (g_names g))"

lemma add_to_group_names:
  "mset (concat (map g_names (add_to_group root name secs gs))) = add_mset name (mset (concat (map g_names gs)))"
  by (induction gs) auto

lemma add_to_group_ok:
  assumes "list_all (group_ok secured) gs" and "secs = [] \<longleftrightarrow> \<not> lower_in name secured"
  shows "list_all (group_ok secured) (add_to_group root name secs gs)"
  using assms by (induction gs) (auto simp: group_ok_def)

lemma matching_secured:
  "filter (\<lambda>s. ToLower (vd_name s) = ToLower name) secured = [] \<longleftrightarrow> \<not> lower_in name (map vd_name secured)"
  by (fastforce simp: lower_in_def filter_empty_conv image_iff)

lemma groups_inv:
  "list_all (group_ok (map vd_name secured)) gs \<Longrightarrow>
    list_all (group_ok (map vd_name secured)) (foldl (group_step v redirected secured) gs ds)
    \<and> mset (concat (map g_names (foldl (group_step v redirected secured) gs ds)))
      = mset (concat (map g_names gs)) + mset (map vd_name (filter (\<lambda>d. \<not> lower_in (vd_name d) redirected) ds))"
proof (induction ds arbitrary: gs)
  case (Cons d ds)
  have ok: "list_all (group_ok (map vd_name secured)) (group_step v redirected secured gs d)"
    unfolding group_step_def using Cons.prems by (auto intro!: add_to_group_ok simp: matching_secured)
  have "mset (concat (map g_names (group_step v redirected secured gs d)))
      = mset (concat (map g_names gs)) + mset (map vd_name (filter (\<lambda>d. \<not> lower_in (vd_name d) redirected) [d]))"
    by (simp add: group_step_def add_to_group_names)
  with Cons.IH [OF ok] show ?case by simp
qed simp

lemma group_http:
  assumes "group_ok secured g"
  shows "mset (concat (map http_names (group_blocks v secured g))) = mset (g_names g)
    \<and> mset (concat (map tls_names (group_blocks v secured g))) = mset (filter (\<lambda>n. lower_in n secured) (g_names g))"
proof -
  have part: "mset (filter (\<lambda>n. \<not> lower_in n secured) ns) + mset (filter (\<lambda>n. lower_in n secured) ns) = mset ns" for ns
    using multiset_partition [of "mset ns" "\<lambda>n. lower_in n secured"] by (simp add: add.commute)
  show ?thesis
  proof (cases "g_secured g")
    case Nil
    then have "list_all (\<lambda>n. \<not> lower_in n secured) (g_names g)" using assms by (simp add: group_ok_def)
    then have none: "filter (\<lambda>n. lower_in n secured) (g_names g) = []"
      and all: "filter (\<lambda>n. \<not> lower_in n secured) (g_names g) = g_names g"
      by (auto simp: list_all_iff filter_empty_conv)
    with Nil show ?thesis by (simp add: group_blocks_def Let_def http_names_def tls_names_def)
  next
    case (Cons s ss)
    let ?plain = "filter (\<lambda>n. \<not> lower_in n secured) (g_names g)" and ?tls = "filter (\<lambda>n. lower_in n secured) (g_names g)"
    have "concat (map http_names (group_blocks v secured g)) = ?plain @ ?tls" "concat (map tls_names (group_blocks v secured g)) = ?tls"
      using Cons by (simp_all add: group_blocks_def Let_def http_names_def tls_names_def)
    with part [of "g_names g"] show ?thesis by (simp only: mset_append)
  qed
qed

lemma groups_blocks:
  assumes "list_all (group_ok secured) gs"
  shows "mset (concat (map http_names (concat (map (group_blocks v secured) gs)))) = mset (concat (map g_names gs))
    \<and> mset (concat (map tls_names (concat (map (group_blocks v secured) gs))))
      = filter_mset (\<lambda>n. lower_in n secured) (mset (concat (map g_names gs)))"
  using assms
proof (induction gs)
  case (Cons g gs)
  then show ?case using group_http [of secured g v] by (simp add: mset_filter)
qed simp

lemma redirect_names:
  "concat (map http_names (map RedirectBlock rs)) = map fst rs \<and> concat (map tls_names (map RedirectBlock rs)) = []"
  by (induction rs) (simp_all add: http_names_def tls_names_def)

text \<open>C11: A live vhost answers for exactly the domains of the site. Port 80 names every accepted redirect
  once and every other domain once, counted with multiplicity; port 443 names exactly the domains with
  a certificate on disk that have no redirect.\<close>

theorem vhost_covers_domains:
  "let redirected = map fst (normalizeRedirects (vh_redirects v));
       others = filter (\<lambda>d. \<not> lower_in (vd_name d) redirected) (vh_domains v)
   in mset (concat (map http_names (vhost_blocks on_disk v))) = mset redirected + mset (map vd_name others)
    \<and> mset (concat (map tls_names (vhost_blocks on_disk v)))
      = mset (filter (\<lambda>n. lower_in n (map vd_name (SecuredDomains on_disk v))) (map vd_name others))"
proof -
  let ?r = "normalizeRedirects (vh_redirects v)" and ?s = "SecuredDomains on_disk v"
  let ?gs = "groups v (map fst ?r) ?s"
  have gs: "list_all (group_ok (map vd_name ?s)) ?gs"
      "mset (concat (map g_names ?gs)) = mset (map vd_name (filter (\<lambda>d. \<not> lower_in (vd_name d) (map fst ?r)) (vh_domains v)))"
    using groups_inv [of ?s "[]" v "map fst ?r" "vh_domains v"] by (simp_all add: groups_def)
  have "concat (map http_names (map RedirectBlock ?r)) = map fst ?r" "concat (map tls_names (map RedirectBlock ?r)) = []"
    using redirect_names [of ?r] by simp_all
  with groups_blocks [OF gs(1), of v] gs(2) show ?thesis
    unfolding vhost_blocks_def Let_def by (simp add: mset_filter)
qed

section \<open>Certificates\<close>

definition tls_certs :: "server_block \<Rightarrow> (string list \<times> string) list" where
  "tls_certs b = (case b of TlsBlock ns cert _ _ \<Rightarrow> [(ns, cert)] | _ \<Rightarrow> [])"

lemma group_certs:
  "concat (map tls_certs (group_blocks v secured g)) =
    (case g_secured g of [] \<Rightarrow> [] | s # _ \<Rightarrow> [(filter (\<lambda>n. lower_in n secured) (g_names g), vd_cert s)])"
  by (auto simp: group_blocks_def Let_def tls_certs_def split: list.splits)

lemma redirect_certs: "concat (map tls_certs (map RedirectBlock rs)) = []"
  by (induction rs) (simp_all add: tls_certs_def)

text \<open>With one docroot for all domains there is at most one group: its names and secured domains are
  those without a redirect, in order.\<close>

lemma one_group:
  assumes "\<forall>d \<in> set ds. docrootFor v (vd_suffix d) = root" and "\<forall>d \<in> set ds. \<not> lower_in (vd_name d) redirected"
  shows "foldl (group_step v redirected secured) [\<lparr>g_root = root, g_names = ns, g_secured = ss\<rparr>] ds =
    [\<lparr>g_root = root, g_names = ns @ map vd_name ds,
      g_secured = ss @ concat (map (\<lambda>d. filter (\<lambda>s. ToLower (vd_name s) = ToLower (vd_name d)) secured) ds)\<rparr>]"
  using assms by (induction ds arbitrary: ns ss) (simp_all add: group_step_def)

lemma matching_own:
  assumes "distinct (map (\<lambda>d. ToLower (vd_name d)) ds)"
  shows "concat (map (\<lambda>d. filter (\<lambda>s. ToLower (vd_name s) = ToLower (vd_name d)) (filter P ds)) xs)
    = concat (map (\<lambda>d. filter (\<lambda>s. ToLower (vd_name s) = ToLower (vd_name d) \<and> P s) ds) xs)"
  by (induction xs) (simp_all add: conj_commute)

lemma filter_key: "distinct (map f ds) \<Longrightarrow> x \<in> set ds \<Longrightarrow> filter (\<lambda>s. f s = f x) ds = [x]"
  by (induction ds) (auto simp: filter_empty_conv image_iff)

lemma filter_own:
  assumes "distinct (map f ds)" and "set xs \<subseteq> set ds" and "distinct xs"
  shows "concat (map (\<lambda>d. filter (\<lambda>s. f s = f d \<and> P s) ds) xs) = filter P xs"
  using assms(2,3)
proof (induction xs)
  case (Cons x xs)
  have "filter (\<lambda>s. f s = f x) ds = [x]" using Cons.prems(1) by (intro filter_key [OF assms(1)]) simp
  then have "filter (\<lambda>s. f s = f x \<and> P s) ds = filter P [x]" by (metis filter_filter conj_commute)
  with Cons show ?case by simp
qed simp

text \<open>All TLS domains of a docroot are served with the certificate of the first one: when no domain has
  a docroot of its own or a redirect, the only TLS block names every secured domain and presents the
  certificate of the first secured domain, whatever certificates the others have.\<close>

theorem first_certificate_for_all:
  assumes "vh_redirects v = []" and "\<forall>d \<in> set (vh_domains v). vd_suffix d = []"
    and "distinct (map (\<lambda>d. ToLower (vd_name d)) (vh_domains v))"
    and "SecuredDomains on_disk v = s # ss"
  shows "concat (map tls_certs (vhost_blocks on_disk v)) = [(map vd_name (s # ss), vd_cert s)]"
proof -
  let ?sec = "SecuredDomains on_disk v" and ?ds = "vh_domains v"
  let ?P = "\<lambda>d. vd_mode d \<noteq> ''none'' \<and> vd_cert d \<noteq> [] \<and> vd_key d \<noteq> [] \<and> on_disk (vd_cert d)"
  have sec: "?sec = filter ?P ?ds" by (simp add: SecuredDomains_def)
  have norm: "normalizeRedirects (vh_redirects v) = []" by (simp add: assms(1) normalizeRedirects_def map_filter_def)
  have root: "docrootFor v (vd_suffix d) = vh_root v" if "d \<in> set ?ds" for d using assms(2) that by (simp add: docrootFor_def)
  obtain d ds where ds: "?ds = d # ds" using assms(4) sec by (cases ?ds) auto
  have "groups v [] ?sec = foldl (group_step v [] ?sec)
      [\<lparr>g_root = vh_root v, g_names = [vd_name d], g_secured = filter (\<lambda>s. ToLower (vd_name s) = ToLower (vd_name d)) ?sec\<rparr>] ds"
    using root [of d] by (simp add: groups_def ds group_step_def lower_in_def)
  also have "\<dots> = [\<lparr>g_root = vh_root v, g_names = map vd_name ?ds,
      g_secured = concat (map (\<lambda>d. filter (\<lambda>s. ToLower (vd_name s) = ToLower (vd_name d)) ?sec) ?ds)\<rparr>]"
    using one_group [of ds v "vh_root v" "[]"] root by (simp add: ds lower_in_def)
  also have "concat (map (\<lambda>d. filter (\<lambda>s. ToLower (vd_name s) = ToLower (vd_name d)) ?sec) ?ds) = ?sec"
    unfolding sec matching_own [OF assms(3)]
    by (rule filter_own [OF assms(3)]) (use assms(3) in \<open>auto simp: distinct_map\<close>)
  finally have gs: "groups v [] ?sec = [\<lparr>g_root = vh_root v, g_names = map vd_name ?ds, g_secured = ?sec\<rparr>]" .
  have "lower_in (vd_name x) (map vd_name ?sec) \<longleftrightarrow> ?P x" if "x \<in> set ?ds" for x
    using that assms(3) unfolding sec by (auto simp: lower_in_def distinct_map dest: inj_onD)
  then have "filter (\<lambda>n. lower_in n (map vd_name ?sec)) (map vd_name ?ds) = map vd_name ?sec"
    unfolding sec filter_map comp_def by (intro arg_cong [of _ _ "map vd_name"] filter_cong) auto
  then show ?thesis
    using gs unfolding assms(4) by (simp add: vhost_blocks_def Let_def norm assms(4) group_certs)
qed

definition sample_vhost :: vhost where
  "sample_vhost = \<lparr>vh_site = ''s'', vh_root = ''/srv/epicpanel/websites/s/public'', vh_socket = [], vh_rewrite = [], vh_config = None,
     vh_proxy = [], vh_backend = 0, vh_redirects = [], vh_suspended = False, vh_quota = False, vh_terminated = False,
     vh_stub = [], vh_acme = [], vh_logs = [], vh_bw = [],
     vh_domains = [\<lparr>vd_name = ''a.com'', vd_mode = ''letsencrypt'', vd_cert = ''/ssl/a.pem'', vd_key = ''/ssl/a.key'', vd_suffix = []\<rparr>,
                   \<lparr>vd_name = ''b.com'', vd_mode = ''letsencrypt'', vd_cert = ''/ssl/b.pem'', vd_key = ''/ssl/b.key'', vd_suffix = []\<rparr>]\<rparr>"

lemma first_certificate_for_all_witness:
  "concat (map tls_certs (vhost_blocks (\<lambda>p. True) sample_vhost)) = [([''a.com'', ''b.com''], ''/ssl/a.pem'')]"
proof -
  have sec: "SecuredDomains (\<lambda>p. True) sample_vhost = hd (vh_domains sample_vhost) # tl (vh_domains sample_vhost)" by code_simp
  have d: "distinct (map (\<lambda>d. ToLower (vd_name d)) (vh_domains sample_vhost))" by code_simp
  have "vh_redirects sample_vhost = []" "\<forall>d \<in> set (vh_domains sample_vhost). vd_suffix d = []" by (simp_all add: sample_vhost_def)
  from first_certificate_for_all [OF this d sec] show ?thesis by (simp add: sample_vhost_def)
qed

section \<open>Docroots\<close>

lemma join_two: "Join [a, b] = Clean (a @ CHR ''/'' # b)" if "a \<noteq> []" "b \<noteq> []"
  using that by (simp add: Join_def)

text \<open>C12: Whatever suffix a domain carries, its docroot stays in the tree of the site: it is the site's own
  docroot, or the site's directory followed by plain components, none of them \<open>.\<close> or \<open>..\<close>.\<close>

theorem docroot_confined:
  assumes "list_all normal_part ps" and "ps \<noteq> []" and "vh_root v = abs_path ps @ ''/public''"
  shows "docrootFor v suffix = vh_root v
    \<or> (\<exists>qs. qs \<noteq> [] \<and> list_all normal_part qs \<and> docrootFor v suffix = abs_path (ps @ qs))"
proof -
  let ?rel = "trim_prefix (Clean (CHR ''/'' # suffix)) ''/''"
  obtain qs where qs: "list_all normal_part qs" "Clean (CHR ''/'' # suffix) = (if qs = [] then ''/'' else abs_path qs)"
    using Clean_rooted by blast
  show ?thesis
  proof (cases "suffix = [] \<or> ?rel = [] \<or> ?rel = ''.'' \<or> has_prefix ?rel ''..''")
    case True
    then show ?thesis by (auto simp: docrootFor_def Let_def)
  next
    case False
    then have ne: "qs \<noteq> []" using qs(2) by (auto simp: trim_prefix_def)
    have rel: "CHR ''/'' # ?rel = abs_path qs" using qs(2) ne by (simp add: abs_path_join trim_prefix_def)
    have base: "trim_suffix (vh_root v) ''/public'' = abs_path ps" by (simp add: assms(3) trim_suffix_append)
    have app: "abs_path ps @ CHR ''/'' # ?rel = abs_path (ps @ qs)" unfolding rel by (simp add: abs_path_def)
    have "abs_path ps \<noteq> []" using abs_path_join [OF assms(2)] by simp
    then have "Join [abs_path ps, ?rel] = Clean (abs_path (ps @ qs))"
      using False join_two [of "abs_path ps" ?rel] unfolding app by blast
    also have "\<dots> = abs_path (ps @ qs)" using assms(1,2) qs(1) by (intro Clean_abs) simp_all
    finally have "Join [abs_path ps, ?rel] = abs_path (ps @ qs)" .
    with False base ne qs(1) show ?thesis by (auto simp: docrootFor_def Let_def)
  qed
qed

lemma docroot_confined_witness:
  "docrootFor sample_vhost ''../../x/./y'' = vh_root sample_vhost
    \<or> (\<exists>qs. qs \<noteq> [] \<and> list_all normal_part qs \<and> docrootFor sample_vhost ''../../x/./y''
         = abs_path ([''srv'', ''epicpanel'', ''websites'', ''s''] @ qs))"
  by (rule docroot_confined) (simp_all add: normal_part_def sample_vhost_def abs_path_def)

section \<open>Stubs\<close>

text \<open>A suspended, terminated or exhausted site shows nothing of itself: its vhost depends only on its
  identifier, its names, the stub page and the log directory. No docroot, PHP socket, application,
  redirect, certificate, structured configuration or rewrite rule of the site has any influence.\<close>

theorem stub_hides_site:
  assumes "vh_terminated v \<or> vh_suspended v \<or> vh_quota v" and "map vd_name ds = map vd_name (vh_domains v)"
  shows "RenderVhost on_disk' (v\<lparr>vh_root := root, vh_socket := socket, vh_rewrite := rules, vh_config := doc, vh_proxy := proxy,
      vh_backend := backend, vh_redirects := redirects, vh_domains := ds, vh_acme := acme, vh_bw := bw\<rparr>) = RenderVhost on_disk v"
proof -
  have "ds = [] \<longleftrightarrow> vh_domains v = []" using assms(2) by (metis map_is_Nil_conv)
  with assms show ?thesis
    by (auto simp: RenderVhost_def renderVhostStub_def renderVhostSuspended_def renderVhostQuotaExceeded_def stub_page_def
        logsBasePath_def Let_def)
qed

lemma stub_hides_site_witness:
  "RenderVhost (\<lambda>p. False) (sample_vhost\<lparr>vh_suspended := True, vh_root := ''/elsewhere''\<rparr>)
    = RenderVhost (\<lambda>p. True) (sample_vhost\<lparr>vh_suspended := True\<rparr>)"
proof -
  let ?v = "sample_vhost\<lparr>vh_suspended := True\<rparr>"
  have "?v\<lparr>vh_root := ''/elsewhere'', vh_socket := [], vh_rewrite := [], vh_config := None, vh_proxy := [],
      vh_backend := 0, vh_redirects := [], vh_domains := vh_domains ?v, vh_acme := [], vh_bw := []\<rparr>
      = sample_vhost\<lparr>vh_suspended := True, vh_root := ''/elsewhere''\<rparr>" by (simp add: sample_vhost_def)
  moreover have "vh_terminated ?v \<or> vh_suspended ?v \<or> vh_quota ?v" by simp
  ultimately show ?thesis
    using stub_hides_site [where v = ?v and ds = "vh_domains ?v" and on_disk' = "\<lambda>p. False" and root = "''/elsewhere''"
        and socket = "[]" and rules = "[]" and doc = None and proxy = "[]" and backend = 0 and redirects = "[]"
        and acme = "[]" and bw = "[]" and on_disk = "\<lambda>p. True"] by simp
qed

section \<open>Legacy rewrite rules\<close>

lemma sanitized_no_semicolon: "CHR '';'' \<notin> set (sanitizeRewriteLine tokens raw)"
proof -
  have "contains l ['';'' ! 0]" if "CHR '';'' \<in> set l" for l
    using that by (induction l) auto
  then show ?thesis
    by (auto simp: sanitizeRewriteLine_def Let_def lineHasSmuggledDirective_def smuggled_tokens_def)
qed

text \<open>Legacy rewrite rules never give a valid block: the control plane refuses a semicolon in a line and
  the agent drops a line that has one, but the agent renders the lines it keeps without terminating
  them. The text rendered for the rules of a site holds no semicolon at all.\<close>

theorem legacy_rules_unterminated: "CHR '';'' \<notin> set (renderRewriteRules v)"
  using sanitized_no_semicolon
  by (auto simp: renderRewriteRules_def Let_def newline_def tab_def split: if_splits)

text \<open>For example, an accepted rule is rendered as it is, in front of the closing brace of its block.\<close>

lemma legacy_rule_rendered:
  "ValidateSnippet ''rewrite ^/a /b permanent'' CtxServer \<lparr>ru_php = True, ru_proxy = False, ru_own = [], ru_owner = None, ru_max = 0\<rparr> = None
    \<and> renderRewriteRules (sample_vhost\<lparr>vh_rewrite := ''rewrite ^/a /b permanent''\<rparr>)
      = [newline, tab] @ ''# user rewrite rules / custom directives (EpicPanel managed)'' @ [newline, tab]
        @ ''rewrite ^/a /b permanent'' @ [newline]"
  by code_simp

end
