(* ===== verification/BackendProperties.thy ===== *)
theory BackendProperties
  imports BackendRender VhostProperties
begin

text \<open>
  Properties of the backend web servers: the registration of a site in OpenLiteSpeed's configuration
  and its removal, the fallback ports, the redirects of an Apache vhost, and the braces of the
  OpenLiteSpeed stubs.
\<close>

section \<open>Finding blocks\<close>

lemma find_sub_skip: "pat = p # ps \<Longrightarrow> p \<notin> set a \<Longrightarrow> find_sub pat (a @ b) = map_option ((+) (length a)) (find_sub pat b)"
proof (induction a)
  case Nil
  then show ?case by (simp add: option.map_ident_strong)
next
  case (Cons x a)
  then show ?case by (auto simp: option.map_comp comp_def)
qed

text \<open>A pattern without the byte \<open>d\<close> lies before a \<open>d\<close> or behind it.\<close>

lemma has_prefix_sep: "d \<notin> set p \<Longrightarrow> has_prefix (a @ d # b) p \<Longrightarrow> has_prefix a p"
  by (induction a p rule: has_prefix.induct) auto

lemma find_sub_sep:
  assumes "d \<notin> set pat" and "pat \<noteq> []"
  shows "find_sub pat (a @ d # b) = (case find_sub pat a of Some i \<Rightarrow> Some i | None \<Rightarrow> map_option (\<lambda>i. length a + 1 + i) (find_sub pat b))"
proof (induction a)
  case Nil
  have "\<not> has_prefix (d # b) pat" using assms by (cases pat) auto
  moreover have "(+) (Suc 0) = Suc" by auto
  ultimately show ?case using assms(2) by simp
next
  case (Cons x a)
  have "has_prefix ((x # a) @ d # b) pat \<longleftrightarrow> has_prefix (x # a) pat"
    using has_prefix_sep [OF assms(1), of "x # a" b] has_prefix_append by blast
  then show ?case using Cons by (cases "find_sub pat a"; cases "find_sub pat b") auto
qed

lemma find_sub_here: "find_sub pat (pat @ b) = Some 0"
proof (cases "pat @ b")
  case (Cons c s)
  have "has_prefix (pat @ b) pat" by (auto simp: has_prefix_iff)
  with Cons show ?thesis by simp
qed simp

lemma find_close: "CHR ''}'' \<notin> set a \<Longrightarrow> find_sub close_block (a @ close_block @ b) = Some (length a)"
proof (induction a)
  case (Cons x a)
  have "\<not> has_prefix (x # a @ close_block @ b) close_block"
    using Cons.prems by (cases a) (auto simp: close_block_def newline_def)
  with Cons show ?case by simp
qed (simp add: close_block_def)

lemma cut_block_at:
  assumes "find_sub head (before @ head @ body @ close_block @ after) = Some (length before)"
    and "CHR ''}'' \<notin> set head" and "CHR ''}'' \<notin> set body"
  shows "cut_block head (before @ head @ body @ close_block @ after) = Some (before, after)"
proof -
  have "find_sub close_block (head @ body @ close_block @ after) = Some (length (head @ body))"
    using find_close [of "head @ body" after] assms(2,3) by simp
  with assms(1) show ?thesis by (simp add: cut_block_def close_block_def)
qed

section \<open>Registering a site\<close>

definition hex_dash :: "string \<Rightarrow> bool" where
  "hex_dash s \<longleftrightarrow> s \<noteq> [] \<and> list_all (\<lambda>c. is_digit c \<or> c \<in> set ''abcdef-'') s"

lemma hex_dash_normal: "hex_dash s \<Longrightarrow> normal_part s"
  by (auto simp: hex_dash_def normal_part_def is_digit_def list_all_iff)

lemma hex_dash_chars:
  "hex_dash s \<Longrightarrow> CHR ''l'' \<notin> set s \<and> CHR ''v'' \<notin> set s \<and> CHR ''}'' \<notin> set s \<and> newline \<notin> set s"
  by (auto simp: hex_dash_def list_all_iff is_digit_def newline_def)

lemma vhconf_path: "hex_dash site \<Longrightarrow> Join [olsVhostDir, site, ''vhconf.conf''] = olsVhostDir @ ''/'' @ site @ ''/vhconf.conf''"
proof -
  assume h: "hex_dash site"
  let ?ps = "[''usr'', ''local'', ''lsws'', ''conf'', ''vhosts'', site, ''vhconf.conf'']"
  have "Clean (abs_path ?ps) = abs_path ?ps" using hex_dash_normal [OF h] by (intro Clean_abs) (simp_all add: normal_part_def)
  then show ?thesis using h by (simp add: Join_def abs_path_def olsVhostDir_def hex_dash_def)
qed

lemma set_join_with: "set (join_with sep ws) \<subseteq> set sep \<union> \<Union> (set ` set ws)"
  by (induction sep ws rule: join_with.induct) auto

lemma names_no_brace:
  assumes "list_all validDomainName names"
  shows "CHR ''}'' \<notin> set (join_with '', '' names) \<and> newline \<notin> set (join_with '', '' names)"
proof -
  have "CHR ''}'' \<notin> set n \<and> newline \<notin> set n" if "n \<in> set names" for n
  proof -
    have "\<forall>c \<in> set n. is_lower c \<or> is_digit c \<or> c = CHR ''-'' \<or> c = CHR ''.''"
      using assms that by (simp add: list_all_iff validDomainName_def)
    then show ?thesis by (force simp: is_lower_def is_digit_def newline_def)
  qed
  then show ?thesis using set_join_with [of "'', ''" names] by (fastforce simp: newline_def)
qed

lemma nat_str_plain: "c \<in> set (nat_str n) \<Longrightarrow> is_digit c"
  using all_digits_nat_str [of n] by (auto simp: all_digits_def list_all_iff)

lemma int_str_no_brace: "CHR ''}'' \<notin> set (int_str i) \<and> newline \<notin> set (int_str i)"
  using nat_str_plain by (auto simp: int_str_def is_digit_def newline_def dest!: nat_str_plain)

lemma listener_no_brace:
  "hex_dash site \<Longrightarrow> list_all validDomainName names \<Longrightarrow> CHR ''}'' \<notin> set (listener_body site port names)"
  using hex_dash_chars [of site] names_no_brace [of names] int_str_no_brace [of port]
  by (auto simp: listener_body_def newline_def)

lemma heads_no_brace:
  "hex_dash site \<Longrightarrow> CHR ''}'' \<notin> set (listener_head site) \<and> CHR ''}'' \<notin> set (virtualhost_head site) \<and> CHR ''}'' \<notin> set (virtualhost_body site)"
proof -
  assume h: "hex_dash site"
  then show ?thesis using hex_dash_chars [OF h]
    unfolding virtualhost_body_def vhconf_path [OF h]
    unfolding listener_head_def virtualhost_head_def newline_def olsVhostDir_def websites_dir_def
    by simp
qed

text \<open>No \<open>c\<close> is followed by \<open>w\<close>.\<close>

fun never :: "char \<Rightarrow> string \<Rightarrow> string \<Rightarrow> bool" where
  "never c w [] = True"
| "never c w (x # s) = ((x = c \<longrightarrow> \<not> has_prefix s w) \<and> never c w s)"

lemma never_skip: "c \<notin> set a \<Longrightarrow> never c w (a @ b) = never c w b"
  by (induction a) auto

lemma find_after_never: "never c w a \<Longrightarrow> c \<notin> set w \<Longrightarrow> find_sub (c # w @ p) (a @ (c # w @ p) @ b) = Some (length a)"
proof (induction a)
  case (Cons x a)
  have "\<not> has_prefix (a @ c # w @ p @ b) w" if "x = c"
    using Cons.prems that has_prefix_sep [of c w a "w @ p @ b"] by auto
  then have "\<not> has_prefix (x # a @ (c # w @ p) @ b) (c # w @ p)" by (auto simp: has_prefix_iff)
  with Cons show ?case by simp
next
  case Nil
  have "has_prefix ((c # w @ p) @ b) (c # w @ p)" by (simp only: has_prefix_iff) blast
  then show ?case by simp
qed

lemma find_head:
  assumes "newline \<notin> set pat" and "pat \<noteq> []" and "find_sub pat conf = None" and "find_sub pat rest = Some i"
  shows "find_sub pat (conf @ newline # rest) = Some (length conf + 1 + i)"
  using find_sub_sep [OF assms(1,2), of conf rest] assms(3,4) by simp

lemma virtualhost_no_listener:
  "hex_dash site \<Longrightarrow> never CHR ''l'' ''is'' (virtualhost_head site @ virtualhost_body site @ close_block @ [newline, newline])"
proof -
  assume h: "hex_dash site"
  then show ?thesis using hex_dash_chars [OF h] unfolding virtualhost_body_def vhconf_path [OF h]
    unfolding virtualhost_head_def close_block_def olsVhostDir_def websites_dir_def newline_def
    by (simp add: never_skip)
qed

lemma cut_listener:
  assumes "hex_dash site" and "list_all validDomainName names" and "find_sub (listener_head site) conf = None"
  shows "cut_block (listener_head site) (conf @ ols_block site port names @ rest) =
    Some (conf @ [newline] @ virtualhost_head site @ virtualhost_body site @ close_block @ [newline, newline], newline # rest)"
proof -
  let ?vh = "virtualhost_head site @ virtualhost_body site @ close_block @ [newline, newline]"
  let ?after = "listener_body site port names @ close_block @ newline # rest"
  have nl: "newline \<notin> set (listener_head site)" "listener_head site \<noteq> []"
    using hex_dash_chars [OF assms(1)] by (auto simp: listener_head_def newline_def)
  obtain p where p: "listener_head site = CHR ''l'' # ''is'' @ p" by (simp add: listener_head_def)
  have "find_sub (listener_head site) (?vh @ listener_head site @ ?after) = Some (length ?vh)"
    unfolding p by (rule find_after_never [OF virtualhost_no_listener [OF assms(1)]]) simp
  from find_head [OF nl assms(3) this]
  have "cut_block (listener_head site) ((conf @ newline # ?vh) @ listener_head site @ listener_body site port names @ close_block @ newline # rest)
      = Some (conf @ newline # ?vh, newline # rest)"
    using heads_no_brace [OF assms(1)] listener_no_brace [OF assms(1,2)] by (intro cut_block_at) simp_all
  then show ?thesis by (simp add: ols_block_def)
qed

lemma cut_virtualhost:
  assumes "hex_dash site" and "find_sub (virtualhost_head site) conf = None"
  shows "cut_block (virtualhost_head site) (conf @ [newline] @ virtualhost_head site @ virtualhost_body site @ close_block @ rest) = Some (conf @ [newline], rest)"
proof -
  have nl: "newline \<notin> set (virtualhost_head site)" "virtualhost_head site \<noteq> []"
    using hex_dash_chars [OF assms(1)] by (auto simp: virtualhost_head_def newline_def)
  from find_head [OF nl assms(2) find_sub_here]
  have "cut_block (virtualhost_head site) ((conf @ [newline]) @ virtualhost_head site @ virtualhost_body site @ close_block @ rest)
      = Some (conf @ [newline], rest)"
    using heads_no_brace [OF assms(1)] by (intro cut_block_at) simp_all
  then show ?thesis by simp
qed

lemma contains_find: "contains s p \<longleftrightarrow> find_sub p s \<noteq> None"
  by (induction s) auto

lemma find_sub_more: "find_sub (p @ q) s \<noteq> None \<Longrightarrow> find_sub p s \<noteq> None"
  by (induction s) (auto simp: has_prefix_iff split: if_splits)

text \<open>A site's \<open>clean\<close> configuration mentions neither its virtual host nor its listener.\<close>

definition unregistered :: "string \<Rightarrow> string \<Rightarrow> bool" where
  "unregistered conf site \<longleftrightarrow> \<not> contains conf (''virtualhost '' @ site) \<and> \<not> contains conf (listener_head site)"

lemma unregistered_find:
  assumes "unregistered conf site"
  shows "find_sub (listener_head site) conf = None" and "find_sub (virtualhost_head site) conf = None"
proof -
  show "find_sub (listener_head site) conf = None" using assms by (simp add: unregistered_def contains_find)
  have "virtualhost_head site = (''virtualhost '' @ site) @ '' {''" by (simp add: virtualhost_head_def)
  then show "find_sub (virtualhost_head site) conf = None"
    using assms find_sub_more [of "''virtualhost '' @ site" "'' {''" conf] unfolding unregistered_def contains_find by metis
qed

text \<open>Removing a site from OpenLiteSpeed's configuration undoes its registration, up to the empty lines
  around the two blocks: whatever the file held before, the blocks of other sites included, is left
  byte for byte.\<close>

theorem ols_unregister_register:
  assumes "hex_dash site" and "list_all validDomainName names" and "unregistered conf site"
  shows "unregister_ols (register_ols conf site port names) site = conf @ replicate 4 newline"
proof -
  note none = unregistered_find [OF assms(3)]
  have reg: "register_ols conf site port names = conf @ ols_block site port names"
    using assms(3) by (simp add: register_ols_def unregistered_def)
  have "remove_block (listener_head site) (conf @ ols_block site port names)
      = conf @ [newline] @ virtualhost_head site @ virtualhost_body site @ close_block @ replicate 3 newline"
    using cut_listener [OF assms(1,2) none(1), of port "[]"] by (simp add: remove_block_def eval_nat_numeral)
  then show ?thesis
    using cut_virtualhost [OF assms(1) none(2), of "replicate 3 newline"]
    by (simp add: unregister_ols_def reg remove_block_def eval_nat_numeral)
qed

lemma ols_unregister_register_witness:
  "unregister_ols (register_ols ''user nobody'' ''0a-1'' 7100 [''a.com'']) ''0a-1'' = ''user nobody'' @ replicate 4 newline"
  by (rule ols_unregister_register; code_simp)

text \<open>Registering a site again replaces its listener and leaves everything else in place, but the file
  grows: each repeated registration leaves one more empty line behind.\<close>

theorem ols_register_again:
  assumes "hex_dash site" and "list_all validDomainName names" and "unregistered conf site"
  shows "register_ols (register_ols conf site port names) site port' names' = register_ols conf site port' names' @ [newline]"
proof -
  have reg: "register_ols conf site p ns = conf @ ols_block site p ns" for p ns
    using assms(3) by (simp add: register_ols_def unregistered_def)
  have "find_sub (''virtualhost '' @ site) (conf @ newline # (''virtualhost '' @ site) @ rest) \<noteq> None" for rest
  proof -
    have "newline \<notin> set (''virtualhost '' @ site)" using hex_dash_chars [OF assms(1)] by (simp add: newline_def)
    then show ?thesis using find_sub_sep [of newline "''virtualhost '' @ site" conf "(''virtualhost '' @ site) @ rest"]
        find_sub_here [of "''virtualhost '' @ site" rest] by (auto split: option.splits)
  qed
  then have "contains (conf @ ols_block site port names) (''virtualhost '' @ site)"
    by (simp add: contains_find ols_block_def virtualhost_head_def)
  then show ?thesis
    using cut_listener [OF assms(1,2) unregistered_find(1) [OF assms(3)], of port "[]"]
    unfolding reg by (simp add: register_ols_def replaceOLSListener_def) (simp add: ols_block_def)
qed

lemma ols_register_again_witness:
  "register_ols (register_ols ''user nobody'' ''0a-1'' 7100 [''a.com'']) ''0a-1'' 7101 [''b.com'']
    = register_ols ''user nobody'' ''0a-1'' 7101 [''b.com''] @ [newline]"
  by (rule ols_register_again; code_simp)

section \<open>Ports\<close>

lemma fallback_port_in_range:
  assumes "range_ok r"
  shows "Contains r (fallbackPort r site)"
proof -
  let ?n = "r_max r - r_min r + 1" and ?h = "fnv32a site"
  have n: "0 < ?n" "?n < 2 ^ 32" using assms by (auto simp: range_ok_def)
  have "uint (word_of_int k :: 32 word) = k" if "0 < k" "k < 2 ^ 32" for k :: int
    using that by (simp add: uint_word_of_int take_bit_int_eq_self)
  from this [OF n] have "uint (?h mod word_of_int ?n) = uint ?h mod ?n" unfolding uint_mod_distrib by (rule arg_cong)
  moreover note pos_mod_sign [OF n(1), of "uint ?h"] pos_mod_bound [OF n(1), of "uint ?h"]
  ultimately show ?thesis unfolding Contains_def fallbackPort_def by linarith
qed

section \<open>Apache\<close>

text \<open>The Apache vhost of a site ignores the host a redirect is for: its text depends only on the targets
  and statuses of the accepted redirects. A redirect of one alias is therefore rendered as a redirect of
  every host of the site, and behind the nginx edge it answers for the primary domain too.\<close>

theorem apache_redirects_ignore_host:
  assumes "map snd (normalizeRedirects rs) = map snd (normalizeRedirects rs')"
  shows "RenderApacheSite (v\<lparr>vh_redirects := rs\<rparr>) port = RenderApacheSite (v\<lparr>vh_redirects := rs'\<rparr>) port"
proof -
  let ?g = "\<lambda>(from, to, status). [newline, tab] @ ''Redirect '' @ int_str status @ '' / '' @ to"
  have "concat (map ?g xs) = concat (map ?g ys)" if "map snd xs = map snd ys" for xs ys :: "redirect_rule list"
    using that by (induction xs ys rule: list_induct2') auto
  from this [OF assms] have "apache_rewrite (v\<lparr>vh_redirects := rs\<rparr>) = apache_rewrite (v\<lparr>vh_redirects := rs'\<rparr>)"
    unfolding apache_rewrite_def by simp
  then show ?thesis
    by (simp add: RenderApacheSite_def renderApacheStub_def renderApacheQuotaExceeded_def apache_open_def apache_names_def
        stub_directory_def apache_stub_page_def apache_logs_def apache_php_def Let_def)
qed

lemma apache_redirects_ignore_host_witness:
  "RenderApacheSite (sample_vhost\<lparr>vh_redirects := [(''a.com'', ''https://x.org'', 301)]\<rparr>) 6600
    = RenderApacheSite (sample_vhost\<lparr>vh_redirects := [(''b.com'', ''https://x.org'', 301)]\<rparr>) 6600"
  by (rule apache_redirects_ignore_host) code_simp

section \<open>Braces of the OpenLiteSpeed stubs\<close>

definition brace_sum :: "string \<Rightarrow> int" where
  "brace_sum s = int (count_list s CHR ''{'') - int (count_list s CHR ''}'')"

lemma brace_sum_simps:
  "brace_sum [] = 0" "brace_sum (c # s) = (if c = CHR ''{'' then 1 else if c = CHR ''}'' then - 1 else 0) + brace_sum s"
  "brace_sum (s @ t) = brace_sum s + brace_sum t"
  by (simp_all add: brace_sum_def)

lemma brace_sum_site: "hex_dash site \<Longrightarrow> brace_sum site = 0"
proof -
  assume "hex_dash site"
  then have "CHR ''{'' \<notin> set site" "CHR ''}'' \<notin> set site" by (auto simp: hex_dash_def list_all_iff is_digit_def)
  then show ?thesis by (simp add: brace_sum_def count_list_0_iff)
qed

text \<open>The suspension stub closes one brace too many; the stubs of the other states are balanced.\<close>

lemma ols_stub_braces:
  assumes "hex_dash site"
  shows "brace_sum (renderOLSTerminated site) = 0" and "brace_sum (renderOLSQuotaExceeded site) = 0"
    and "brace_sum (renderOLSSuspended site) = - 1"
proof -
  have codes: "int_str 410 = ''410''" "int_str 503 = ''503''" "int_str 508 = ''508''" by code_simp+
  show "brace_sum (renderOLSTerminated site) = 0" "brace_sum (renderOLSQuotaExceeded site) = 0" "brace_sum (renderOLSSuspended site) = - 1"
  by (simp_all add: codes renderOLSTerminated_def renderOLSQuotaExceeded_def renderOLSSuspended_def rows_def ols_note_def ols_head_def
      ols_status_def default_pages_def dash_def newline_def brace_sum_simps brace_sum_site [OF assms])
qed

end
