(* ===== verification/AgentLifecycleProperties.thy ===== *)
theory AgentLifecycleProperties
  imports AgentLifecycle BackendProperties DnsRecords
begin

text \<open>
  Properties of the lifecycle operations on the agent: what a resumption restores, when a repeated
  suspension finds its stub, what the validator guarantees and what escapes it, and what a failed
  reload or a provisioning in between leave behind. The interface \<open>reversible\<close> holds what the three web
  servers share: nginx and Apache interpret it with one definition, OpenLiteSpeed with its own.
\<close>

section \<open>The original configuration is kept\<close>

text \<open>The file of a site is its original, or the original is in the backup.\<close>

definition keeps :: "string \<Rightarrow> target \<Rightarrow> bool" where
  "keeps c t \<longleftrightarrow> tg_conf t \<noteq> None \<and> (tg_bak t = Some c \<or> tg_bak t = None \<and> tg_conf t = Some c)"

datatype ('p, 'q) life_op = OpSuspend 'p | OpResume 'q

text \<open>What a web server offers the lifecycle operations: a suspension and a resumption, with whatever
  parameters they have, that never lose the original file.\<close>

definition life_step ::
    "('p \<Rightarrow> target \<Rightarrow> target \<times> (life_err + (bool \<times> bool))) \<Rightarrow> ('q \<Rightarrow> target \<Rightarrow> target \<times> (life_err + (bool \<times> bool)))
      \<Rightarrow> target \<Rightarrow> ('p, 'q) life_op \<Rightarrow> target" where
  "life_step sus res t op = (case op of OpSuspend p \<Rightarrow> fst (sus p t) | OpResume q \<Rightarrow> fst (res q t))"

locale reversible =
  fixes sus :: "'p \<Rightarrow> target \<Rightarrow> target \<times> (life_err + (bool \<times> bool))"
    and res :: "'q \<Rightarrow> target \<Rightarrow> target \<times> (life_err + (bool \<times> bool))"
  assumes sus_keeps: "keeps c t \<Longrightarrow> keeps c (fst (sus p t))"
    and res_keeps: "keeps c t \<Longrightarrow> keeps c (fst (res q t))"
    and res_restores: "keeps c t \<Longrightarrow> res q t = (t', Inr r) \<Longrightarrow> tg_conf t' = Some c"
begin

lemma run_keeps: "keeps c t \<Longrightarrow> keeps c (foldl (life_step sus res) t ops)"
  by (induction ops arbitrary: t) (auto simp: life_step_def sus_keeps res_keeps split: life_op.splits)

lemma run_restores:
  "tg_conf t = Some c \<Longrightarrow> tg_bak t = None \<Longrightarrow> res q (foldl (life_step sus res) t ops) = (t', Inr r) \<Longrightarrow> tg_conf t' = Some c"
  by (rule res_restores [OF run_keeps]) (simp_all add: keeps_def)

end

text \<open>nginx and Apache.\<close>

definition web_suspend :: "(string \<Rightarrow> string option) \<times> op_env \<Rightarrow> target \<Rightarrow> target \<times> (life_err + (bool \<times> bool))" where
  "web_suspend p = lifeSuspendWeb (fst p) (snd p)"

abbreviation web_step :: "target \<Rightarrow> ((string \<Rightarrow> string option) \<times> op_env, op_env) life_op \<Rightarrow> target" where
  "web_step \<equiv> life_step web_suspend lifeResumeWeb"

lemma bak_keeps:
  "keeps c t \<Longrightarrow> tg_conf t = Some cur \<Longrightarrow> lifeEnsureSuspendBak e cur t = (t', r) \<Longrightarrow>
    keeps c t' \<and> tg_conf t' = Some cur \<and> tg_link t' = tg_link t \<and> (\<forall>b. r = Inr b \<longrightarrow> tg_bak t' = Some c \<and> (b \<longrightarrow> cur = c))"
  by (auto simp: keeps_def lifeEnsureSuspendBak_def split: if_splits)

lemma swap_result:
  "SwapValidated e content t = (t', r) \<Longrightarrow>
    tg_bak t' = tg_bak t \<and> tg_link t' = tg_link t \<and> tg_loaded t' = tg_loaded t
    \<and> (case r of Inl _ \<Rightarrow> tg_conf t' = tg_conf t | Inr _ \<Rightarrow> tg_conf t' = Some content \<and> oe_valid e (enabled_text t'))"
  by (auto simp: SwapValidated_def AtomicWriteFile_def restoreFile_def enabled_text_def split: if_splits)

lemma enable_result:
  "enableSiteFile e t = (t', r) \<Longrightarrow> tg_conf t' = tg_conf t \<and> tg_bak t' = tg_bak t \<and> tg_loaded t' = tg_loaded t
    \<and> (case r of Inl _ \<Rightarrow> tg_link t' = NoLink | Inr _ \<Rightarrow> tg_link t' = Linked)"
  by (auto simp: enableSiteFile_def split: if_splits)

lemma suspend_swap_keeps:
  assumes "keeps c t" and "tg_bak t = Some c" and "newBak \<Longrightarrow> tg_conf t = Some c"
  shows "keeps c (fst (suspend_swap e stub newBak t))"
proof -
  obtain t1 r1 where en: "enableSiteFile e t = (t1, r1)" by fastforce
  obtain t2 r2 where sw: "SwapValidated e stub t1 = (t2, r2)" by fastforce
  show ?thesis
    using assms enable_result [OF en] swap_result [OF sw]
    by (auto simp: suspend_swap_def en sw keeps_def loaded_now_def split: sum.splits)
qed

lemma suspend_keeps: "keeps c t \<Longrightarrow> keeps c (fst (lifeSuspendWeb stub_of e t))"
proof -
  assume k: "keeps c t"
  then obtain cur where cur: "tg_conf t = Some cur" by (auto simp: keeps_def)
  obtain t1 r1 where bk: "lifeEnsureSuspendBak e cur t = (t1, r1)" by fastforce
  note b = bak_keeps [OF k cur bk]
  have "keeps c (fst (suspend_swap e stub nb t1))" if "r1 = Inr nb" for stub nb
    using b that cur by (intro suspend_swap_keeps) auto
  then show ?thesis
    using k cur bk b by (auto simp: lifeSuspendWeb_def AtomicWriteFile_def keeps_def split: option.splits sum.splits)
qed

lemma resume_keeps: "keeps c t \<Longrightarrow> keeps c (fst (lifeResumeWeb e t))"
  by (auto simp: keeps_def lifeResumeWeb_def AtomicWriteFile_def SwapValidated_def restoreFile_def loaded_now_def Let_def split: option.splits)

lemma resume_restores: "keeps c t \<Longrightarrow> lifeResumeWeb e t = (t', Inr r) \<Longrightarrow> tg_conf t' = Some c"
  by (auto simp: keeps_def lifeResumeWeb_def AtomicWriteFile_def SwapValidated_def loaded_now_def Let_def
      split: option.splits if_splits)

interpretation web: reversible web_suspend lifeResumeWeb
  by unfold_locales (auto simp: web_suspend_def suspend_keeps resume_keeps resume_restores)

text \<open>OpenLiteSpeed, with the site, the stub and the registration as parameters.\<close>

definition ols_suspend :: "string \<times> life_stub \<times> string option \<times> op_env \<Rightarrow> target \<Rightarrow> target \<times> (life_err + (bool \<times> bool))" where
  "ols_suspend p = (case p of (site, st, httpd, e) \<Rightarrow> lifeSuspendOLS site st httpd e)"

definition ols_resume :: "string option \<times> op_env \<Rightarrow> target \<Rightarrow> target \<times> (life_err + (bool \<times> bool))" where
  "ols_resume q = lifeResumeOLS (fst q) (snd q)"

lemma ols_suspend_keeps: "keeps c t \<Longrightarrow> keeps c (fst (lifeSuspendOLS site st httpd e t))"
proof -
  assume k: "keeps c t"
  then obtain cur where cur: "tg_conf t = Some cur" by (auto simp: keeps_def)
  obtain t1 r1 where bk: "lifeEnsureSuspendBak e cur t = (t1, r1)" by fastforce
  note b = bak_keeps [OF k cur bk]
  show ?thesis
    using k cur bk b
    by (auto simp: lifeSuspendOLS_def AtomicWriteFile_def restoreFile_def keeps_def Let_def split: option.splits sum.splits)
qed

interpretation ols: reversible ols_suspend ols_resume
proof
  show "keeps c (fst (ols_suspend p t))" if "keeps c t" for c t p
    using that by (auto simp: ols_suspend_def ols_suspend_keeps split: prod.splits)
  show "keeps c (fst (ols_resume q t))" if "keeps c t" for c t q
    using that by (auto simp: ols_resume_def keeps_def lifeResumeOLS_def AtomicWriteFile_def restoreFile_def Let_def split: option.splits)
  show "tg_conf t' = Some c" if "keeps c t" "ols_resume q t = (t', Inr r)" for c t q t' r
    using that by (auto simp: ols_resume_def keeps_def lifeResumeOLS_def AtomicWriteFile_def Let_def split: option.splits if_splits)
qed

lemma ols_resume_restores_original:
  "tg_conf t = Some c \<Longrightarrow> tg_bak t = None \<Longrightarrow> ols_resume q (foldl (life_step ols_suspend ols_resume) t ops) = (t', Inr r)
    \<Longrightarrow> tg_conf t' = Some c"
  by (rule ols.run_restores)


definition sample_ops :: op_env where
  "sample_ops = \<lparr>oe_tool = True, oe_valid = (\<lambda>c. True), oe_reload = True, oe_retry = True, oe_bak_write = True, oe_bak_close = True,
     oe_write = True, oe_write_conf = True, oe_link = True\<rparr>"

definition sample_conf :: string where
  "sample_conf = ''server {'' @ [newline] @ '' server_name a.com;'' @ [newline] @ ''}'' @ [newline]"

definition sample_target :: target where
  "sample_target = \<lparr>tg_conf = Some sample_conf, tg_bak = None, tg_link = Linked, tg_loaded = Some sample_conf\<rparr>"

definition sample_suspend :: "string \<Rightarrow> string option" where
  "sample_suspend current = lifeNginxStub ''s'' current (lifeSuspendedStubFor ''manual'')"


section \<open>Reading the names of a stub\<close>

text \<open>Lines that cannot begin a match are skipped.\<close>

definition keyed :: "string \<Rightarrow> (string \<Rightarrow> ('a \<times> string) option) \<Rightarrow> bool" where
  "keyed key m \<longleftrightarrow> (\<forall>t x rest. m t = Some (x, rest) \<longrightarrow> has_prefix t key \<and> length rest < length t)"

definition other_line :: "string \<Rightarrow> string \<Rightarrow> bool" where
  "other_line key l \<longleftrightarrow> newline \<notin> set l \<and> dropWhile re_space l \<noteq> [] \<and> \<not> has_prefix (dropWhile re_space l) key"

lemma find_lines_inside: "newline \<notin> set l \<Longrightarrow> find_lines m False (l @ newline # rest) = find_lines m True rest"
  by (induction l) auto

lemma dropWhile_append_nonempty: "dropWhile P l \<noteq> [] \<Longrightarrow> dropWhile P (l @ r) = dropWhile P l @ r"
  by (induction l) auto

lemma find_lines_skip:
  assumes "keyed key m" and "newline \<notin> set key" and "other_line key l"
  shows "find_lines m True (l @ newline # rest) = find_lines m True rest"
proof -
  obtain c l' where l: "l = c # l'" using assms(3) by (cases l) (auto simp: other_line_def)
  have "dropWhile re_space (l @ newline # rest) = dropWhile re_space l @ newline # rest"
    using assms(3) by (intro dropWhile_append_nonempty) (simp add: other_line_def)
  moreover have "\<not> has_prefix (dropWhile re_space l @ newline # rest) key"
    using assms(2,3) has_prefix_sep unfolding other_line_def by blast
  ultimately have "m (dropWhile re_space (l @ newline # rest)) = None"
    using assms(1) by (metis keyed_def not_None_eq prod.collapse)
  then have "find_lines m True (l @ newline # rest) = find_lines m (c = newline) (l' @ newline # rest)"
    unfolding l by simp
  also have "\<dots> = find_lines m True rest" using assms(3) find_lines_inside [of l' m rest] by (auto simp: l other_line_def)
  finally show ?thesis .
qed

lemma find_lines_blank:
  assumes "keyed key m" and "key \<noteq> []" and "re_space newline"
  shows "find_lines m True (newline # rest) = find_lines m True rest"
proof (cases "m (dropWhile re_space rest)")
  case None
  then show ?thesis using assms(3) by simp
next
  case (Some xr)
  obtain x r where xr: "xr = (x, r)" by fastforce
  then have "has_prefix (dropWhile re_space rest) key" and len: "length r < length (dropWhile re_space rest)"
    using assms(1) Some by (auto simp: keyed_def)
  then have "dropWhile re_space rest \<noteq> []" by (metis length_0_conv not_less_zero)
  then obtain c s where rest: "rest = c # s" by (cases rest) auto
  have "length r \<le> length s" using len length_dropWhile_le [of re_space rest] by (simp add: rest)
  moreover have "dropWhile re_space (newline # rest) = dropWhile re_space rest" using assms(3) by simp
  ultimately show ?thesis using Some xr unfolding rest by simp
qed

lemma find_lines_rows:
  assumes "keyed key m" and "newline \<notin> set key" and "key \<noteq> []" and "list_all (\<lambda>l. l = [] \<or> other_line key l) ls"
  shows "find_lines m True (rows ls @ rest) = find_lines m True rest"
  using assms(4)
proof (induction ls)
  case (Cons l ls)
  have nl: "re_space newline" by (simp add: re_space_def newline_def)
  have "rows (l # ls) @ rest = l @ newline # (rows ls @ rest)" by (simp add: rows_def)
  with Cons find_lines_skip [OF assms(1,2), of l "rows ls @ rest"] find_lines_blank [OF assms(1,3) nl, of "rows ls @ rest"]
  show ?case by auto
qed (simp add: rows_def)

lemma after_key_length:
  assumes "after_key key t = Some u"
  shows "has_prefix t key \<and> length u < length t"
proof -
  obtain c s where cs: "drop (length key) t = c # s" "re_space c" and u: "u = dropWhile re_space (c # s)" and p: "has_prefix t key"
    using assms by (auto simp: after_key_def split: if_splits list.splits)
  have "length u \<le> length s" using length_dropWhile_le [of re_space s] cs(2) by (simp add: u)
  moreover have "length s < length t" using arg_cong [OF cs(1), of length] by simp
  ultimately show ?thesis using p by simp
qed

lemma keyed_server_name: "keyed ''server_name'' server_name_match"
proof (unfold keyed_def, intro allI impI)
  fix t x rest assume m: "server_name_match t = Some (x, rest)"
  then obtain u where u: "after_key ''server_name'' t = Some u" by (auto simp: server_name_match_def split: option.splits)
  have "rest = tl (dropWhile (\<lambda>c. c \<noteq> CHR '';'') u)"
    using m u by (simp add: server_name_match_def split: if_splits)
  then have "length rest \<le> length u" using length_dropWhile_le [of "\<lambda>c. c \<noteq> CHR '';''" u] by simp
  with after_key_length [OF u] show "has_prefix t ''server_name'' \<and> length rest < length t" by simp
qed

section \<open>A stub names the domains of the configuration it replaces\<close>

lemma valid_name_chars:
  assumes "validDomainName d"
  shows "d \<noteq> [] \<and> list_all graph d \<and> CHR '';'' \<notin> set d \<and> newline \<notin> set d \<and> ToLower d = d"
proof -
  have c: "\<forall>c \<in> set d. is_lower c \<or> is_digit c \<or> c = CHR ''-'' \<or> c = CHR ''.''" and len: "3 \<le> length d"
    using assms by (simp_all add: list_all_iff validDomainName_def)
  have "list_all plain_char d" unfolding list_all_iff
    using c by (auto simp: plain_char_def graph_def is_lower_def is_digit_def is_upper_def)
  then have "ToLower d = d" by (rule ToLower_plain)
  moreover have "list_all graph d" using c by (auto simp: list_all_iff graph_def is_lower_def is_digit_def)
  moreover have "CHR '';'' \<notin> set d" "newline \<notin> set d" using c by (auto simp: is_lower_def is_digit_def newline_def)
  ultimately show ?thesis using len by auto
qed

definition name_list :: "string list \<Rightarrow> bool" where
  "name_list ns \<longleftrightarrow> ns \<noteq> [] \<and> list_all validDomainName ns \<and> distinct ns"

lemma collect_sound: "list_all validDomainName (collect_names seen toks) \<and> distinct (collect_names seen toks)
    \<and> set (collect_names seen toks) \<inter> set seen = {}"
proof (induction seen toks rule: collect_names.induct)
  case (2 seen tok toks)
  then show ?case by (auto simp: Let_def)
qed simp

lemma collect_names_id:
  "list_all validDomainName ns \<Longrightarrow> distinct ns \<Longrightarrow> set ns \<inter> set seen = {} \<Longrightarrow> collect_names seen ns = ns"
proof (induction ns arbitrary: seen)
  case (Cons n ns)
  have "ToLower (trim_space n) = n" using valid_name_chars [of n] trim_space_graph [of n] Cons.prems(1) by simp
  with Cons show ?case using valid_name_chars [of n] by (auto simp: Let_def)
qed simp

lemma names_text:
  assumes "name_list ns"
  shows "GoStrings.fields (join_with '' '' ns) = ns" and "CHR '';'' \<notin> set (join_with '' '' ns)" and "dropWhile re_space (join_with '' '' ns @ r) = join_with '' '' ns @ r"
    and "newline \<notin> set (join_with '' '' ns)"
proof -
  have v: "n \<noteq> [] \<and> list_all graph n \<and> CHR '';'' \<notin> set n \<and> newline \<notin> set n" if "n \<in> set ns" for n
    using assms that valid_name_chars by (auto simp: name_list_def list_all_iff)
  then show "GoStrings.fields (join_with '' '' ns) = ns" using assms by (intro fields_join) (auto simp: name_list_def)
  show "CHR '';'' \<notin> set (join_with '' '' ns)" "newline \<notin> set (join_with '' '' ns)"
    using v set_join_with [of "'' ''" ns] by (auto simp: newline_def)
  obtain n ms where ns: "ns = n # ms" using assms by (cases ns) (auto simp: name_list_def)
  obtain c cs where n: "n = c # cs" using v [of n] ns by (cases n) auto
  have "\<not> re_space c" using v [of n] ns n by (auto simp: re_space_def graph_def)
  then show "dropWhile re_space (join_with '' '' ns @ r) = join_with '' '' ns @ r"
    unfolding ns n by (cases ms) simp_all
qed

lemma until: "d \<notin> set a \<Longrightarrow> takeWhile (\<lambda>c. c \<noteq> d) (a @ d # r) = a \<and> dropWhile (\<lambda>c. c \<noteq> d) (a @ d # r) = d # r"
  by (induction a) auto

lemma find_names:
  assumes "name_list ns"
  shows "find_lines server_name_match True (tab # ''server_name '' @ join_with '' '' ns @ '';'' @ r) = ns # find_lines server_name_match False r"
proof -
  note t = names_text [OF assms]
  have "server_name_match (''server_name '' @ join_with '' '' ns @ '';'' @ r) = Some (ns, r)"
    using t(1,2) t(3) [of "'';'' @ r"]
    by (simp add: server_name_match_def after_key_def re_space_def until)
  then show ?thesis by (simp add: re_space_def tab_def)
qed

definition stub_tail :: "vhost \<Rightarrow> int \<Rightarrow> string list" where
  "stub_tail v status =
    (let (page, root) = stub_page v; logs = logsBasePath v @ ''/'' @ vh_site v @ ''/logs''
     in [[], [], tab # ''set $epicpanel_site_id '' @ [CHR 0x22] @ vh_site v @ [CHR 0x22] @ '';'',
       tab # ''access_log '' @ bwLogPath @ '' epicpanel_bandwidth;'', tab # ''access_log '' @ logs @ ''/nginx-access.log;'',
       tab # ''error_log '' @ logs @ ''/nginx-error.log;'', [], tab # ''return '' @ int_str status @ '';'',
       tab # ''error_page '' @ int_str status @ '' /'' @ page @ '';'', tab # ''location = /'' @ page @ '' {'',
       [tab, tab] @ ''root '' @ root @ '';'', [tab, tab] @ ''internal;'',
       [tab, tab] @ ''add_header Cache-Control '' @ [CHR 0x22] @ ''no-store'' @ [CHR 0x22] @ '' always;'', tab # ''}'', ''}''])"

lemma stub_rows:
  assumes "vh_domains v \<noteq> []"
  shows "renderVhostStub v status0 =
    (let status = (if vh_terminated v then 410 else status0)
     in rows [''# managed by EpicPanel '' @ dash @ '' website '' @ vh_site v @ '' (stub '' @ int_str status @ '') '' @ dash @ '' DO NOT EDIT'',
          ''server {'', tab # ''listen 80;''] @
        tab # ''server_name '' @ join_with '' '' (map vd_name (vh_domains v)) @ '';'' @ rows (stub_tail v status))"
  using assms
  by (simp add: renderVhostStub_def stub_tail_def rows_def line_def server_head_def renderSiteIDLines_def Let_def eval_nat_numeral split: prod.splits)

definition stub_of_code :: "life_stub \<Rightarrow> bool" where
  "stub_of_code st \<longleftrightarrow> st = terminated_stub \<or> (\<exists>reason. st = lifeSuspendedStubFor reason)"

lemma stub_page_cases:
  assumes "hex_dash site" and "stub_of_code st"
  shows "newline \<notin> set (fst (stub_page (stub_vhost site st ns))) \<and> newline \<notin> set (snd (stub_page (stub_vhost site st ns)))"
proof -
  let ?ps = "[''srv'', ''epicpanel'', ''websites'', site, ''pages'']"
  have "Clean (abs_path ?ps) = abs_path ?ps" using hex_dash_normal [OF assms(1)] by (intro Clean_abs) (simp_all add: normal_part_def)
  then have "Join [websites_dir, site, ''pages''] = websites_dir @ ''/'' @ site @ ''/pages''"
    using assms(1) by (simp add: Join_def abs_path_def websites_dir_def hex_dash_def)
  then have j: "newline \<notin> set (Join [websites_dir, site, ''pages''])"
    using hex_dash_chars [OF assms(1)] by (simp add: websites_dir_def newline_def)
  show ?thesis
    using assms(2) j
    by (auto simp: stub_of_code_def terminated_stub_def lifeSuspendedStubFor_def stub_page_def stub_vhost_def default_pages_def
        bandwidthStubPage_def newline_def)
qed

lemma parse_stub:
  assumes "hex_dash site" and "stub_of_code st" and "name_list ns"
  shows "lifeParseNginxDomains (renderVhostStub (stub_vhost site st ns) status0) = ns"
proof -
  let ?v = "stub_vhost site st ns" and ?m = "server_name_match"
  have site: "newline \<notin> set site" using hex_dash_chars [OF assms(1)] by simp
  have names: "map vd_name (vh_domains ?v) = ns" "vh_site ?v = site" "vh_domains ?v \<noteq> []" "vh_logs ?v = []"
    using assms(3) by (simp_all add: stub_vhost_def name_list_def comp_def)
  obtain page root where pr: "stub_page ?v = (page, root)" by fastforce
  have nl: "newline \<notin> set page" "newline \<notin> set root" using stub_page_cases [OF assms(1,2), of ns] by (simp_all add: pr)
  define status where "status = (if vh_terminated ?v then 410 else status0)"
  have num: "newline \<notin> set (int_str status)" using int_str_no_brace by blast
  note key = keyed_server_name
  have tail: "find_lines ?m False (rows (stub_tail ?v status)) = []"
  proof -
    obtain ls where ls: "stub_tail ?v status = [] # ls" by (simp add: stub_tail_def pr)
    have "list_all (\<lambda>l. l = [] \<or> other_line ''server_name'' l) (stub_tail ?v status)"
      using site nl num unfolding stub_tail_def pr
      by (simp add: names other_line_def re_space_def tab_def newline_def logsBasePath_def websites_dir_def bwLogPath_def)
    then have "list_all (\<lambda>l. l = [] \<or> other_line ''server_name'' l) ls" by (simp add: ls)
    from find_lines_rows [OF key _ _ this, of "[]"] have "find_lines ?m True (rows ls) = []" by (simp add: newline_def)
    then show ?thesis by (simp add: ls rows_def)
  qed
  have head: "list_all (\<lambda>l. l = [] \<or> other_line ''server_name'' l)
      [''# managed by EpicPanel '' @ dash @ '' website '' @ site @ '' (stub '' @ int_str status @ '') '' @ dash @ '' DO NOT EDIT'', ''server {'', tab # ''listen 80;'']"
    using site num by (simp add: other_line_def re_space_def tab_def newline_def dash_def)
  have "renderVhostStub ?v status0 =
      rows [''# managed by EpicPanel '' @ dash @ '' website '' @ site @ '' (stub '' @ int_str status @ '') '' @ dash @ '' DO NOT EDIT'', ''server {'', tab # ''listen 80;'']
      @ tab # ''server_name '' @ join_with '' '' ns @ '';'' @ rows (stub_tail ?v status)"
    using stub_rows [OF names(3), of status0] unfolding Let_def names status_def [symmetric] .
  then have "find_lines ?m True (renderVhostStub ?v status0) = [ns]"
    using find_lines_rows [OF key _ _ head] find_names [OF assms(3)] tail by (simp add: newline_def)
  then show ?thesis
    using collect_names_id [of ns "[]"] assms(3) by (simp add: lifeParseNginxDomains_def name_list_def)
qed

lemma parsed_names: "lifeParseNginxDomains conf \<noteq> [] \<Longrightarrow> name_list (lifeParseNginxDomains conf)"
  using collect_sound [of "[]"] by (simp add: lifeParseNginxDomains_def name_list_def)

text \<open>Suspending is idempotent: the stub made from a site's vhost names exactly the domains of that vhost,
  so the stub made again from that stub is the same text, and a second suspension finds the site
  suspended and leaves it alone.\<close>

lemma stub_fixpoint:
  assumes "hex_dash site" and "stub_of_code st" and "lifeNginxStub site current st = Some stub"
  shows "lifeParseNginxDomains stub = lifeParseNginxDomains current \<and> lifeNginxStub site stub st = Some stub"
proof -
  let ?ns = "lifeParseNginxDomains current"
  have ne: "?ns \<noteq> []" and stub: "stub = RenderVhost (\<lambda>p. False) (stub_vhost site st ?ns)"
    using assms(3) by (auto simp: lifeNginxStub_def Let_def split: if_splits)
  have "RenderVhost (\<lambda>p. False) (stub_vhost site st ?ns) = renderVhostStub (stub_vhost site st ?ns) (if ls_terminated st then 410 else 503)"
    using ne by (simp add: RenderVhost_def renderVhostSuspended_def stub_vhost_def)
  then have "lifeParseNginxDomains stub = ?ns"
    using parse_stub [OF assms(1,2) parsed_names [OF ne]] stub by simp
  with ne stub show ?thesis by (simp add: lifeNginxStub_def)
qed

section \<open>Failed reloads\<close>

text \<open>C40: A failed reload is covered up by the retry: a suspension whose reload fails reports the error, but it
  has written the stub already. The retry, under whatever circumstances, finds the stub, does nothing
  and reports success, and the running server goes on serving the site.\<close>

theorem failed_reload_masked:
  assumes "hex_dash site" and "stub_of_code st" and "tg_conf t = Some c" and "lifeNginxStub site c st = Some stub" and "c \<noteq> stub"
    and "tg_bak t = None" and "tg_link t = Linked"
    and "oe_tool e" and "oe_bak_write e" and "oe_bak_close e" and "oe_write e" and "oe_valid e (Some stub)" and "\<not> oe_reload e"
  shows "\<exists>t'. lifeSuspendNginx site st e t = (t', Inl ReloadFailed) \<and> lifeSuspendNginx site st e' t' = (t', Inr (True, False))
    \<and> tg_loaded t' = tg_loaded t"
proof -
  let ?t = "t\<lparr>tg_bak := Some c, tg_conf := Some stub\<rparr>"
  have "lifeSuspendNginx site st e t = (?t, Inl ReloadFailed)"
    using assms(3-13) by (simp add: lifeSuspendNginx_def lifeSuspendWeb_def lifeEnsureSuspendBak_def suspend_swap_def enableSiteFile_def
        SwapValidated_def AtomicWriteFile_def enabled_text_def)
  moreover have "lifeSuspendNginx site st e' ?t = (?t, Inr (True, False))"
    using stub_fixpoint [OF assms(1,2,4)] by (simp add: lifeSuspendNginx_def lifeSuspendWeb_def)
  ultimately show ?thesis by auto
qed

lemma failed_reload_masked_witness:
  "\<exists>t'. lifeSuspendNginx ''0a'' terminated_stub (sample_ops\<lparr>oe_reload := False\<rparr>) sample_target = (t', Inl ReloadFailed)
    \<and> lifeSuspendNginx ''0a'' terminated_stub sample_ops t' = (t', Inr (True, False)) \<and> tg_loaded t' = tg_loaded sample_target"
proof -
  have s: "lifeNginxStub ''0a'' sample_conf terminated_stub = Some (the (lifeNginxStub ''0a'' sample_conf terminated_stub))"
    and ne: "sample_conf \<noteq> the (lifeNginxStub ''0a'' sample_conf terminated_stub)" by code_simp+
  show ?thesis
    by (rule failed_reload_masked [OF _ _ _ s ne]) (simp_all add: hex_dash_def is_digit_def stub_of_code_def sample_target_def sample_ops_def)
qed

text \<open>Suspending is idempotent: the stub made from a site's vhost names exactly the domains of that vhost,
  and once a suspension has succeeded, the same suspension finds the site suspended and changes
  nothing, under whatever circumstances it runs.\<close>

theorem suspend_idempotent:
  assumes "hex_dash site" and "stub_of_code st" and "lifeSuspendNginx site st e t = (t', Inr r)"
  shows "lifeSuspendNginx site st e' t' = (t', Inr (True, False))
    \<and> lifeParseNginxDomains (the (tg_conf t')) = lifeParseNginxDomains (the (tg_conf t))"
proof -
  obtain c where c: "tg_conf t = Some c" using assms(3) by (auto simp: lifeSuspendNginx_def lifeSuspendWeb_def split: option.splits)
  obtain stub where stub: "lifeNginxStub site c st = Some stub"
    using assms(3) c by (auto simp: lifeSuspendNginx_def lifeSuspendWeb_def split: option.splits)
  have "tg_conf t' = Some stub"
    using assms(3) c stub
    by (auto simp: lifeSuspendNginx_def lifeSuspendWeb_def suspend_swap_def AtomicWriteFile_def SwapValidated_def loaded_now_def
        split: if_splits sum.splits prod.splits)
  then show ?thesis
    using stub_fixpoint [OF assms(1,2) stub] c by (simp add: lifeSuspendNginx_def lifeSuspendWeb_def)
qed

lemma suspend_idempotent_witness:
  "lifeSuspendNginx ''0a'' terminated_stub sample_ops (fst (lifeSuspendNginx ''0a'' terminated_stub sample_ops sample_target))
    = (fst (lifeSuspendNginx ''0a'' terminated_stub sample_ops sample_target), Inr (True, False))"
proof -
  have r: "lifeSuspendNginx ''0a'' terminated_stub sample_ops sample_target
      = (fst (lifeSuspendNginx ''0a'' terminated_stub sample_ops sample_target), Inr (False, True))" by code_simp
  from suspend_idempotent [OF _ _ r] show ?thesis by (simp add: hex_dash_def is_digit_def stub_of_code_def)
qed

section \<open>Validated swaps\<close>

definition checked_by :: "(string option \<Rightarrow> bool) \<Rightarrow> ((string \<Rightarrow> string option) \<times> op_env, op_env) life_op \<Rightarrow> bool" where
  "checked_by V op \<longleftrightarrow> (case op of OpSuspend (_, e) \<Rightarrow> oe_tool e \<and> oe_valid e = V | OpResume e \<Rightarrow> oe_tool e \<and> oe_valid e = V)"

definition served_ok :: "(string option \<Rightarrow> bool) \<Rightarrow> target \<Rightarrow> bool" where
  "served_ok V t \<longleftrightarrow> V (enabled_text t) \<and> tg_link t \<noteq> StaleLink"

lemma served_ok_step: "served_ok V t \<Longrightarrow> checked_by V op \<Longrightarrow> served_ok V (web_step t op)"
proof (cases op)
  case (OpSuspend p)
  obtain stub_of e where p: "p = (stub_of, e)" by fastforce
  assume ok: "served_ok V t" and "checked_by V op"
  then have e: "oe_tool e" "oe_valid e = V" by (simp_all add: checked_by_def OpSuspend p)
  have swap: "served_ok V (fst (suspend_swap e stub nb x))" if "served_ok V x" for x stub nb
    using that e unfolding served_ok_def
    by (cases "tg_link x")
       (auto simp: suspend_swap_def enableSiteFile_def SwapValidated_def AtomicWriteFile_def restoreFile_def enabled_text_def loaded_now_def)
  have bak: "served_ok V x" if "lifeEnsureSuspendBak e c t = (x, r)" for c x r
    using that ok by (auto simp: lifeEnsureSuspendBak_def served_ok_def enabled_text_def split: if_splits)
  show ?thesis
    using ok e(1) bak swap by (auto simp: life_step_def OpSuspend p web_suspend_def lifeSuspendWeb_def split: option.splits prod.splits sum.splits)
next
  case (OpResume e)
  assume ok: "served_ok V t" and "checked_by V op"
  then have "oe_tool e" "oe_valid e = V" by (simp_all add: checked_by_def OpResume)
  with ok show ?thesis
    by (auto simp: life_step_def OpResume lifeResumeWeb_def SwapValidated_def AtomicWriteFile_def restoreFile_def served_ok_def enabled_text_def
        loaded_now_def Let_def split: option.splits if_splits)
qed



text \<open>The first vhost of a site escapes validation: \<open>NginxProvider.Ensure\<close> validates before it links the
  file, so \<open>nginx -t\<close> does not read it. A vhost nginx refuses is written, passes, is enabled, fails only
  at the reload, and stays enabled: from then on nginx refuses its whole configuration.\<close>

theorem fresh_vhost_unvalidated:
  assumes "validateVhostSpec ok_uuid v" and "tg_conf t = None" and "tg_link t = NoLink"
    and "oe_tool e" and "oe_write e" and "oe_link e" and "oe_valid e None"
    and "\<not> oe_valid e (Some (RenderVhost on_disk v))" and "\<not> oe_reload e"
  shows "\<exists>t'. EnsureNginx ok_uuid on_disk e v t = (t', Inl ReloadFailed) \<and> tg_link t' = Linked \<and> \<not> oe_valid e (enabled_text t')"
  using assms
  by (simp add: EnsureNginx_def SwapValidated_def AtomicWriteFile_def enableSiteFile_def enabled_text_def)

lemma fresh_vhost_unvalidated_witness:
  "\<exists>t'. EnsureNginx (\<lambda>s. True) (\<lambda>p. True) (sample_ops\<lparr>oe_reload := False, oe_valid := \<lambda>c. c = None\<rparr>) sample_vhost
      (sample_target\<lparr>tg_conf := None, tg_link := NoLink\<rparr>) = (t', Inl ReloadFailed)
    \<and> tg_link t' = Linked \<and> \<not> oe_valid (sample_ops\<lparr>oe_reload := False, oe_valid := \<lambda>c. c = None\<rparr>) (enabled_text t')"
proof (rule fresh_vhost_unvalidated)
  show "validateVhostSpec (\<lambda>s. True) sample_vhost" by code_simp
qed (simp_all add: sample_target_def sample_ops_def)

text \<open>A site provisioned while it is suspended loses what was provisioned: the backup of the suspension
  survives the provisioning, and the next resumption that succeeds puts the old file back over the new
  one, although the new one was live.\<close>

theorem provision_lost_on_resume:
  assumes "tg_bak t = Some old" and "EnsureNginx ok_uuid on_disk e v t = (t1, Inr u)"
    and "lifeResumeWeb e' t1 = (t2, Inr r)"
  shows "tg_loaded t1 = Some (RenderVhost on_disk v) \<and> tg_conf t2 = Some old"
proof -
  have t1: "tg_bak t1 = Some old \<and> tg_conf t1 = Some (RenderVhost on_disk v) \<and> tg_loaded t1 = Some (RenderVhost on_disk v)"
    using assms(1,2)
    by (auto simp: EnsureNginx_def SwapValidated_def AtomicWriteFile_def enableSiteFile_def enabled_text_def loaded_now_def Let_def
        split: if_splits)
  then have "keeps old t1" by (simp add: keeps_def)
  from resume_restores [OF this assms(3)] t1 show ?thesis by simp
qed

lemma provision_lost_on_resume_witness:
  "tg_conf (fst (lifeResumeWeb sample_ops (fst (EnsureNginx (\<lambda>s. True) (\<lambda>p. True) sample_ops sample_vhost (sample_target\<lparr>tg_bak := Some ''old''\<rparr>)))))
    = Some ''old''"
proof -
  let ?t = "sample_target\<lparr>tg_bak := Some ''old''\<rparr>"
  have e: "EnsureNginx (\<lambda>s. True) (\<lambda>p. True) sample_ops sample_vhost ?t
      = (fst (EnsureNginx (\<lambda>s. True) (\<lambda>p. True) sample_ops sample_vhost ?t), Inr ())" by code_simp
  have r: "lifeResumeWeb sample_ops (fst (EnsureNginx (\<lambda>s. True) (\<lambda>p. True) sample_ops sample_vhost ?t))
      = (fst (lifeResumeWeb sample_ops (fst (EnsureNginx (\<lambda>s. True) (\<lambda>p. True) sample_ops sample_vhost ?t))), Inr (True, True))" by code_simp
  have "tg_bak ?t = Some ''old''" by simp
  from provision_lost_on_resume [OF this e r] show ?thesis by simp
qed

end
