(* ===== verification/Totp.thy ===== *)
theory Totp
  imports GoNet
begin

text \<open>
  Time-based one-time codes: \<open>internal/auth/totp.go\<close>, with the base32 codec of Go's standard library
  (standard alphabet, no padding) over lists of bits. HMAC-SHA1 is the parameter \<open>hmac\<close>; random bytes
  are arguments.
\<close>

section \<open>Bits\<close>

definition byte_bits :: "nat \<Rightarrow> nat \<Rightarrow> bool list" where
  "byte_bits k n = map (\<lambda>i. odd (n div 2 ^ i)) (rev [0..<k])"

definition bits_nat :: "bool list \<Rightarrow> nat" where
  "bits_nat bs = foldl (\<lambda>n b. 2 * n + of_bool b) 0 bs"

function chunks :: "nat \<Rightarrow> 'a list \<Rightarrow> 'a list list" where
  "chunks k xs = (if xs = [] \<or> k = 0 then [] else take k xs # chunks k (drop k xs))"
  by pat_completeness auto
termination
  by (relation "measure (\<lambda>(k, xs). length xs)") auto

declare chunks.simps [simp del]

section \<open>Base32\<close>

definition b32_alphabet :: string where "b32_alphabet = ''ABCDEFGHIJKLMNOPQRSTUVWXYZ234567''"

definition b32_encode :: "string \<Rightarrow> string" where
  "b32_encode s =
    (let bits = concat (map (\<lambda>c. byte_bits 8 (byte c)) s)
     in map (\<lambda>g. b32_alphabet ! bits_nat (g @ replicate (5 - length g) False)) (chunks 5 bits))"

definition b32_value :: "char \<Rightarrow> nat option" where
  "b32_value c = find (\<lambda>i. b32_alphabet ! i = c) [0..<32]"

text \<open>How many bytes a last block of less than eight digits yields; with one, three or six digits it is dropped.\<close>

definition b32_tail :: "nat \<Rightarrow> nat" where
  "b32_tail j = (if j = 8 then 5 else if j = 7 then 4 else if j = 5 then 3 else if j = 4 then 2 else if j = 2 then 1 else 0)"

definition b32_block :: "nat list \<Rightarrow> string" where
  "b32_block ds =
    map (\<lambda>g. char_of (bits_nat g)) (chunks 8 (take (8 * b32_tail (length ds)) (concat (map (byte_bits 5) ds))))"

definition b32_decode :: "string \<Rightarrow> string option" where
  "b32_decode s =
    (let ds = map b32_value (filter (\<lambda>c. c \<noteq> CHR 0x0D \<and> c \<noteq> CHR 0x0A) s) in
     if None \<in> set ds then None else Some (concat (map b32_block (chunks 8 (map the ds)))))"

section \<open>Codes\<close>

definition GenerateTOTPSecret :: "string \<Rightarrow> string" where
  "GenerateTOTPSecret random = b32_encode random"

definition secret_key :: "string \<Rightarrow> string option" where
  "secret_key secret = b32_decode (ToUpper (filter (\<lambda>c. c \<noteq> CHR '' '') secret))"

definition uint64_bytes :: "int \<Rightarrow> string" where
  "uint64_bytes i = map (\<lambda>k. char_of (nat (i mod 2 ^ 64) div 256 ^ k mod 256)) (rev [0..<8])"

definition pad_zeros :: "nat \<Rightarrow> string \<Rightarrow> string" where
  "pad_zeros k s = replicate (k - length s) CHR ''0'' @ s"

definition hotp :: "(string \<Rightarrow> string \<Rightarrow> string) \<Rightarrow> string \<Rightarrow> int \<Rightarrow> string" where
  "hotp hmac key counter =
    (let sum = hmac key (uint64_bytes counter); off = byte (last sum) mod 16;
         bin = (byte (sum ! off) mod 128) * 2 ^ 24 + byte (sum ! (off + 1)) * 2 ^ 16 + byte (sum ! (off + 2)) * 2 ^ 8 + byte (sum ! (off + 3))
     in pad_zeros 6 (nat_str (bin mod 1000000)))"

text \<open>\<open>t.Unix() / 30\<close>: the division truncates.\<close>

definition totp_step :: "time \<Rightarrow> int" where
  "totp_step t = (let u = t div second in if 0 \<le> u then u div 30 else - ((- u) div 30))"

definition TOTPCode :: "(string \<Rightarrow> string \<Rightarrow> string) \<Rightarrow> string \<Rightarrow> time \<Rightarrow> string option" where
  "TOTPCode hmac secret t = map_option (\<lambda>key. hotp hmac key (totp_step t)) (secret_key secret)"

definition VerifyTOTP :: "(string \<Rightarrow> string \<Rightarrow> string) \<Rightarrow> string \<Rightarrow> string \<Rightarrow> time \<Rightarrow> bool" where
  "VerifyTOTP hmac secret code t =
    (if length code \<noteq> 6 then False
     else case secret_key secret of
       None \<Rightarrow> False
     | Some key \<Rightarrow> list_ex (\<lambda>step. hotp hmac key (totp_step t + step) = code) [-1, 0, 1])"

definition TOTPProvisioningURI :: "string \<Rightarrow> string \<Rightarrow> string \<Rightarrow> string" where
  "TOTPProvisioningURI secret email issuer =
    ''otpauth://totp/'' @ issuer @ '':'' @ email @ ''?secret='' @ secret @ ''&issuer='' @ issuer @ ''&algorithm=SHA1&digits=6&period=30''"

definition GenerateRecoveryCodes :: "string list \<Rightarrow> string list" where
  "GenerateRecoveryCodes random = map (\<lambda>b. b32_encode (take 5 b) @ ''-'' @ b32_encode (drop 5 b)) random"

section \<open>Lemmas\<close>

lemma chunks_append: "length a = k \<Longrightarrow> 0 < k \<Longrightarrow> chunks k (a @ b) = a # chunks k b"
  by (subst chunks.simps) auto

lemma chunks_Nil [simp]: "chunks k [] = []"
  by (simp add: chunks.simps)

lemma length_byte_bits [simp]: "length (byte_bits k n) = k"
  by (simp add: byte_bits_def)

lemma byte_bits_Suc: "byte_bits (Suc k) n = odd (n div 2 ^ k) # byte_bits k n"
  by (simp add: byte_bits_def)

lemma bits_nat_foldl: "foldl (\<lambda>n b. 2 * n + of_bool b) a bs = a * 2 ^ length bs + bits_nat bs"
proof (induction bs arbitrary: a)
  case (Cons b bs)
  from Cons [of "2 * a + of_bool b"] Cons [of "of_bool b"] show ?case by (simp add: bits_nat_def algebra_simps)
qed (simp add: bits_nat_def)

lemma bits_nat_Cons: "bits_nat (b # bs) = of_bool b * 2 ^ length bs + bits_nat bs"
  using bits_nat_foldl [of "of_bool b" bs] by (simp add: bits_nat_def)

lemma bits_nat_byte_bits: "bits_nat (byte_bits k n) = n mod 2 ^ k"
proof (induction k)
  case 0
  then show ?case by (simp add: byte_bits_def bits_nat_def)
next
  case (Suc k)
  have "n mod 2 ^ Suc k = 2 ^ k * (n div 2 ^ k mod 2) + n mod 2 ^ k"
    using mod_mult2_eq [of n "2 ^ k" 2] by (simp add: mult.commute)
  with Suc show ?case by (simp add: byte_bits_Suc bits_nat_Cons of_bool_odd_eq_mod_2 del: power_Suc)
qed

lemma bits_nat_less: "bits_nat bs < 2 ^ length bs"
  by (induction bs) (simp_all add: bits_nat_Cons, simp add: bits_nat_def)

lemma byte_bits_high: "byte_bits k (2 ^ k + m) = byte_bits k m"
proof -
  have "odd ((2 ^ k + m) div 2 ^ i) = odd (m div 2 ^ i)" if "i < k" for i
  proof -
    have "(2::nat) ^ k = 2 ^ (k - i) * 2 ^ i" using that by (simp add: power_add [symmetric])
    then have "(2 ^ k + m) div 2 ^ i = 2 ^ (k - i) + m div 2 ^ i" by simp
    with that show ?thesis by simp
  qed
  then show ?thesis by (simp add: byte_bits_def)
qed

lemma byte_bits_bits_nat: "byte_bits (length bs) (bits_nat bs) = bs"
proof (induction bs)
  case (Cons b bs)
  have "byte_bits (length bs) (bits_nat (b # bs)) = bs"
    using Cons by (simp add: bits_nat_Cons byte_bits_high)
  moreover have "odd (bits_nat (b # bs) div 2 ^ length bs) = b"
    using bits_nat_less [of bs] by (simp add: bits_nat_Cons)
  ultimately show ?case by (simp add: byte_bits_Suc)
qed (simp add: byte_bits_def)

section \<open>Base32 round trip\<close>

lemma b32_value_digit: "n < 32 \<Longrightarrow> b32_value (b32_alphabet ! n) = Some n"
proof -
  assume "n < 32"
  moreover have "list_all (\<lambda>n. b32_value (b32_alphabet ! n) = Some n) [0..<32]" by code_simp
  ultimately show ?thesis by (simp add: list_all_iff)
qed

lemma concat_chunks: "0 < k \<Longrightarrow> concat (chunks k xs) = xs"
proof (induction k xs rule: chunks.induct)
  case (1 k xs)
  then show ?case by (cases "xs = []") (simp_all add: chunks.simps [of k xs])
qed

lemma chunks_exact: "0 < k \<Longrightarrow> k dvd length xs \<Longrightarrow> g \<in> set (chunks k xs) \<Longrightarrow> length g = k"
proof (induction k xs rule: chunks.induct)
  case (1 k xs)
  have "xs \<noteq> []" using "1.prems"(3) by auto
  then have "k \<le> length xs" using "1.prems"(2) by (auto dest: dvd_imp_le)
  moreover from this have "k dvd length (drop k xs)" using "1.prems"(2) by (simp add: dvd_diff_nat)
  ultimately show ?case using 1 \<open>xs \<noteq> []\<close> by (auto simp: chunks.simps [of k xs] min_def)
qed

text \<open>Eight digits for five bytes.\<close>

definition digit_groups :: "bool list \<Rightarrow> nat list" where
  "digit_groups bits = map bits_nat (chunks 5 bits)"

lemma groups_bits: "5 dvd length bits \<Longrightarrow> concat (map (byte_bits 5) (digit_groups bits)) = bits"
proof -
  assume d: "5 dvd length bits"
  have "byte_bits 5 (bits_nat g) = g" if "g \<in> set (chunks 5 bits)" for g
    using chunks_exact [OF _ d that] byte_bits_bits_nat [of g] by simp
  then have "map (byte_bits 5) (digit_groups bits) = chunks 5 bits" by (simp add: digit_groups_def map_idI)
  then show ?thesis by (simp add: concat_chunks)
qed

lemma chunks_map_bytes: "chunks 8 (concat (map (\<lambda>c. byte_bits 8 (byte c)) s)) = map (\<lambda>c. byte_bits 8 (byte c)) s"
  by (induction s) (simp_all add: chunks_append)

lemma length_concat_same: "\<forall>g \<in> set xs. length g = k \<Longrightarrow> length (concat xs) = k * length xs"
  by (induction xs) auto

lemma block_bytes: "length s = 5 \<Longrightarrow> b32_block (digit_groups (concat (map (\<lambda>c. byte_bits 8 (byte c)) s))) = s"
proof -
  let ?bits = "concat (map (\<lambda>c. byte_bits 8 (byte c)) s)"
  assume "length s = 5"
  then have len: "length ?bits = 40" by (simp add: length_concat comp_def sum_list_triv)
  have "length (concat (chunks 5 ?bits)) = 5 * length (chunks 5 ?bits)"
    using chunks_exact [of 5 ?bits] len by (intro length_concat_same) simp
  then have "length (chunks 5 ?bits) = 8" using len by (simp add: concat_chunks)
  then have "b32_block (digit_groups ?bits) = map (\<lambda>g. char_of (bits_nat g)) (chunks 8 ?bits)"
    using groups_bits [of ?bits] len by (simp add: b32_block_def b32_tail_def) (simp add: digit_groups_def)
  also have "\<dots> = s" by (simp add: chunks_map_bytes comp_def bits_nat_byte_bits)
  finally show ?thesis .
qed

definition bytes_bits :: "string \<Rightarrow> bool list" where
  "bytes_bits s = concat (map (\<lambda>c. byte_bits 8 (byte c)) s)"

lemma length_bytes_bits: "length (bytes_bits s) = 8 * length s"
  by (simp add: bytes_bits_def length_concat comp_def sum_list_triv)

lemma chunks_length: "0 < k \<Longrightarrow> k dvd length xs \<Longrightarrow> k * length (chunks k xs) = length xs"
proof -
  assume "0 < k" and "k dvd length xs"
  then have "\<forall>g \<in> set (chunks k xs). length g = k" using chunks_exact by blast
  from length_concat_same [OF this] \<open>0 < k\<close> show ?thesis by (simp only: concat_chunks)
qed

lemma encode_exact:
  assumes "5 dvd length s"
  shows "b32_encode s = map (\<lambda>n. b32_alphabet ! n) (digit_groups (bytes_bits s))" and "\<forall>n \<in> set (digit_groups (bytes_bits s)). n < 32"
proof -
  have d: "5 dvd length (bytes_bits s)" using assms by (simp add: length_bytes_bits)
  have l: "length g = 5" if "g \<in> set (chunks 5 (bytes_bits s))" for g using chunks_exact [OF _ d that] by simp
  then show "b32_encode s = map (\<lambda>n. b32_alphabet ! n) (digit_groups (bytes_bits s))"
    by (simp add: b32_encode_def digit_groups_def bytes_bits_def [symmetric])
  show "\<forall>n \<in> set (digit_groups (bytes_bits s)). n < 32"
  proof
    fix n assume "n \<in> set (digit_groups (bytes_bits s))"
    then obtain g where "g \<in> set (chunks 5 (bytes_bits s))" "n = bits_nat g" by (auto simp: digit_groups_def)
    with l [of g] bits_nat_less [of g] show "n < 32" by simp
  qed
qed

lemma chunks_app_dvd: "0 < k \<Longrightarrow> k dvd length a \<Longrightarrow> chunks k (a @ b) = chunks k a @ chunks k b"
proof (induction k a rule: chunks.induct)
  case (1 k a)
  show ?case
  proof (cases "a = []")
    case False
    then have "k \<le> length a" using 1 by (auto dest: dvd_imp_le)
    then show ?thesis using 1 False by (simp add: chunks.simps [of k a] chunks.simps [of k "a @ b"] dvd_diff_nat)
  qed simp
qed

lemma decode_blocks: "5 dvd length s \<Longrightarrow> concat (map b32_block (chunks 8 (digit_groups (bytes_bits s)))) = s"
proof (induction "length s" arbitrary: s rule: less_induct)
  case less
  show ?case
  proof (cases "s = []")
    case True
    then show ?thesis by (simp add: bytes_bits_def digit_groups_def)
  next
    case False
    let ?a = "take 5 s" and ?b = "drop 5 s"
    have len: "5 \<le> length s" using less.prems False by (auto dest: dvd_imp_le)
    have b: "5 dvd length ?b" using less.prems len by (simp add: dvd_diff_nat)
    have la: "length ?a = 5" using len by simp
    have "bytes_bits s = bytes_bits ?a @ bytes_bits ?b"
      unfolding bytes_bits_def by (metis append_take_drop_id concat_append map_append)
    then have g: "digit_groups (bytes_bits s) = digit_groups (bytes_bits ?a) @ digit_groups (bytes_bits ?b)"
      using la by (simp add: digit_groups_def chunks_app_dvd length_bytes_bits)
    have "length (digit_groups (bytes_bits ?a)) = 8"
      using chunks_length [of 5 "bytes_bits ?a"] la by (simp add: digit_groups_def length_bytes_bits)
    then have "chunks 8 (digit_groups (bytes_bits s)) = digit_groups (bytes_bits ?a) # chunks 8 (digit_groups (bytes_bits ?b))"
      unfolding g by (simp add: chunks_append)
    moreover have "b32_block (digit_groups (bytes_bits ?a)) = ?a" using block_bytes [OF la] by (simp add: bytes_bits_def)
    moreover have "concat (map b32_block (chunks 8 (digit_groups (bytes_bits ?b)))) = ?b" using less.hyps [of ?b] b len by simp
    ultimately show ?thesis by simp
  qed
qed

lemma b32_roundtrip:
  assumes "5 dvd length s"
  shows "b32_decode (b32_encode s) = Some s"
proof -
  let ?ds = "digit_groups (bytes_bits s)"
  note enc = encode_exact [OF assms]
  have alpha: "list_all (\<lambda>n. b32_alphabet ! n \<noteq> CHR 0x0D \<and> b32_alphabet ! n \<noteq> CHR 0x0A) [0..<32]" by code_simp
  then have "filter (\<lambda>c. c \<noteq> CHR 0x0D \<and> c \<noteq> CHR 0x0A) (b32_encode s) = b32_encode s"
    using enc by (auto simp: list_all_iff filter_id_conv)
  moreover have "map b32_value (b32_encode s) = map Some ?ds" using enc b32_value_digit by simp
  ultimately show ?thesis
    using decode_blocks [OF assms] by (simp add: b32_decode_def comp_def image_iff)
qed

end
