(* ===== verification/Organizations.thy ===== *)
theory Organizations
  imports GoNet
begin

text \<open>
  Organizations, their members and the roles, \<open>internal/organizations\<close>: slugs and rows
  (\<open>store.go\<close>), the role guard (\<open>rbac.go\<close>) and the endpoints (\<open>handler.go\<close>), with the
  principal that \<open>auth/middleware.go\<close> puts in the request context. \<open>parse\<close> is
  \<open>uuid.Parse\<close>. Database failures other than constraint violations are left out; the
  renaming of an organization, which touches no membership, is included for completeness.
\<close>

section \<open>Slugs\<close>

definition slug_char :: "char \<Rightarrow> bool" where
  "slug_char c \<longleftrightarrow> is_lower c \<or> is_digit c"

text \<open>\<open>slugRe\<close>.\<close>

definition ValidSlug :: "string \<Rightarrow> bool" where
  "ValidSlug s \<longleftrightarrow> 2 \<le> length s \<and> length s \<le> 63 \<and> slug_char (hd s) \<and> slug_char (last s)
     \<and> list_all (\<lambda>c. slug_char c \<or> c = CHR ''-'') s"

definition NormalizeSlug :: "string \<Rightarrow> string" where
  "NormalizeSlug s = ToLower (trim_space s)"

text \<open>The loop over the lower-cased name keeps letters and digits and turns four
  separators into dashes; bytes outside ASCII belong to code points it drops.\<close>

definition slug_chars :: "string \<Rightarrow> string" where
  "slug_chars name = concat (map (\<lambda>c. if slug_char c then [c]
     else if c \<in> {CHR '' '', CHR ''-'', CHR ''_'', CHR ''.''} then ''-'' else []) (ToLower name))"

text \<open>\<open>strings.ReplaceAll(slug, "--", "-")\<close> and the loop around it.\<close>

fun halve_dashes :: "string \<Rightarrow> string" where
  "halve_dashes [] = []"
| "halve_dashes [c] = [c]"
| "halve_dashes (c # d # s) =
    (if c = CHR ''-'' \<and> d = CHR ''-'' then CHR ''-'' # halve_dashes s else c # halve_dashes (d # s))"

lemma halve_le: "length (halve_dashes s) \<le> length s"
  by (induction s rule: halve_dashes.induct) auto

lemma contains_Cons: "contains (c # d # s) ''--'' \<longleftrightarrow> (c = CHR ''-'' \<and> d = CHR ''-'') \<or> contains (d # s) ''--''"
  by (simp split: list.splits)

lemma halve_less: "contains s ''--'' \<Longrightarrow> length (halve_dashes s) < length s"
proof (induction s rule: halve_dashes.induct)
  case (3 c d s)
  then show ?case using halve_le [of s] by (auto simp: contains_Cons)
qed auto

function collapse :: "string \<Rightarrow> string" where
  "collapse s = (if contains s ''--'' then collapse (halve_dashes s) else s)"
  by pat_completeness auto
termination
  by (relation "measure length") (simp_all add: halve_less)

declare collapse.simps [simp del]

definition trim_dashes :: "string \<Rightarrow> string" where
  "trim_dashes s = rev (dropWhile (\<lambda>c. c = CHR ''-'') (rev (dropWhile (\<lambda>c. c = CHR ''-'') s)))"

definition Slugify :: "string \<Rightarrow> string" where
  "Slugify name =
    (let slug = trim_dashes (collapse (slug_chars name))
     in trim_dashes (if 63 < length slug then take 63 slug else slug))"

section \<open>Rows and roles\<close>

datatype role = RoleOwner | RoleAdmin | RoleReseller | RoleDeveloper | RoleBilling | RoleSupport

definition role_names :: "(string \<times> role) list" where
  "role_names = [(''owner'', RoleOwner), (''admin'', RoleAdmin), (''reseller'', RoleReseller),
     (''developer'', RoleDeveloper), (''billing'', RoleBilling), (''support'', RoleSupport)]"

definition RoleRank :: "role \<Rightarrow> int" where
  "RoleRank r = (case r of RoleOwner \<Rightarrow> 5 | RoleAdmin \<Rightarrow> 4 | RoleReseller \<Rightarrow> 3 | RoleDeveloper \<Rightarrow> 2
     | RoleBilling \<Rightarrow> 1 | RoleSupport \<Rightarrow> 1)"

text \<open>\<open>ValidRole\<close>: a role string of a request, as a role.\<close>

definition ValidRole :: "string \<Rightarrow> role option" where
  "ValidRole r = map_of role_names r"

record organization =
  org_id :: uid
  org_name :: string
  org_slug :: string
  org_created_by :: uid

record member =
  m_org :: uid
  m_user :: uid
  m_role :: role

record orgs =
  o_orgs :: "organization list"
  o_members :: "member list"
  o_users :: "(uid \<times> string) list"
  o_next :: uid

definition is_member :: "uid \<Rightarrow> uid \<Rightarrow> member \<Rightarrow> bool" where
  "is_member org u m \<longleftrightarrow> m_org m = org \<and> m_user m = u"

definition RoleFor :: "orgs \<Rightarrow> uid \<Rightarrow> uid \<Rightarrow> role option" where
  "RoleFor d org u = map_option m_role (select_one (is_member org u) (o_members d))"

definition SetMemberRole :: "orgs \<Rightarrow> uid \<Rightarrow> uid \<Rightarrow> role \<Rightarrow> orgs" where
  "SetMemberRole d org u r =
    (if select_one (is_member org u) (o_members d) = None
     then d\<lparr>o_members := o_members d @ [\<lparr>m_org = org, m_user = u, m_role = r\<rparr>]\<rparr>
     else d\<lparr>o_members := update_where (is_member org u) (\<lambda>m. m\<lparr>m_role := r\<rparr>) (o_members d)\<rparr>)"

definition DropMember :: "orgs \<Rightarrow> uid \<Rightarrow> uid \<Rightarrow> orgs" where
  "DropMember d org u = d\<lparr>o_members := filter (\<lambda>m. \<not> is_member org u m) (o_members d)\<rparr>"

definition is_owner :: "uid \<Rightarrow> member \<Rightarrow> bool" where
  "is_owner org m \<longleftrightarrow> m_org m = org \<and> m_role m = RoleOwner"

definition CountOwners :: "orgs \<Rightarrow> uid \<Rightarrow> nat" where
  "CountOwners d org = length (filter (is_owner org) (o_members d))"

definition GetUserByEmail :: "orgs \<Rightarrow> string \<Rightarrow> uid option" where
  "GetUserByEmail d email = map_option fst (find (\<lambda>u. snd u = email) (o_users d))"

text \<open>\<open>Store.Create\<close>: the organization and its first member, the owner; None is the unique
  violation on the slug.\<close>

definition CreateOrgRow :: "orgs \<Rightarrow> string \<Rightarrow> string \<Rightarrow> uid \<Rightarrow> orgs option" where
  "CreateOrgRow d name slug creator =
    (if slug \<in> org_slug ` set (o_orgs d) then None
     else Some (d\<lparr>o_orgs := o_orgs d @ [\<lparr>org_id = o_next d, org_name = name, org_slug = slug, org_created_by = creator\<rparr>],
                  o_members := o_members d @ [\<lparr>m_org = o_next d, m_user = creator, m_role = RoleOwner\<rparr>],
                  o_next := o_next d + 1\<rparr>))"

section \<open>The principal and the guard\<close>

record principal =
  p_user :: "uid option"
  p_admin :: bool
  p_token :: bool
  p_platform :: bool
  p_bound :: string
  p_scopes :: "string list"

text \<open>What the session middleware makes of a resolved credential.\<close>

datatype credential =
    PlatformKey uid "string list"
  | OrgToken uid uid "string list"
  | SessionOf uid bool

definition authenticate :: "(uid \<Rightarrow> string) \<Rightarrow> credential option \<Rightarrow> principal option" where
  "authenticate us cred = map_option (\<lambda>c. case c of
     PlatformKey u scopes \<Rightarrow> \<lparr>p_user = Some u, p_admin = True, p_token = True, p_platform = True,
       p_bound = [], p_scopes = scopes\<rparr>
   | OrgToken u org scopes \<Rightarrow> \<lparr>p_user = Some u, p_admin = False, p_token = True, p_platform = False,
       p_bound = us org, p_scopes = scopes\<rparr>
   | SessionOf u isAdmin \<Rightarrow> \<lparr>p_user = Some u, p_admin = isAdmin, p_token = False, p_platform = False,
       p_bound = [], p_scopes = []\<rparr>) cred"

datatype org_err = OrgUnauthorized | OrgValidation | OrgNotFound | OrgForbidden | OrgConflict | OrgInternal | OrgPanic

definition RequireMinimumRole ::
    "(string \<Rightarrow> uid option) \<Rightarrow> orgs \<Rightarrow> principal option \<Rightarrow> string \<Rightarrow> role \<Rightarrow> org_err + uid" where
  "RequireMinimumRole parse d pr raw least =
    (case pr of
       None \<Rightarrow> Inl OrgUnauthorized
     | Some p \<Rightarrow>
         (case parse raw of
            None \<Rightarrow> Inl OrgValidation
          | Some org \<Rightarrow>
              if p_admin p \<and> (\<not> p_token p \<or> p_platform p) then Inr org
              else if p_token p \<and> p_bound p \<noteq> raw then Inl OrgNotFound
              else case p_user p of
                     None \<Rightarrow> Inl OrgInternal
                   | Some u \<Rightarrow>
                       (case RoleFor d org u of
                          None \<Rightarrow> Inl OrgNotFound
                        | Some r \<Rightarrow> if RoleRank r < RoleRank least then Inl OrgForbidden else Inr org)))"

definition actorIsOwner :: "orgs \<Rightarrow> principal option \<Rightarrow> uid \<Rightarrow> org_err + bool" where
  "actorIsOwner d pr org =
    (case pr of
       None \<Rightarrow> Inl OrgUnauthorized
     | Some p \<Rightarrow>
         if p_admin p \<and> \<not> p_token p then Inr True
         else case p_user p of None \<Rightarrow> Inl OrgInternal | Some u \<Rightarrow> Inr (RoleFor d org u = Some RoleOwner))"

section \<open>Endpoints\<close>

datatype org_request =
    CreateReq string string
  | RenameReq string
  | AddMemberReq string string
  | UpdateMemberReq string string
  | RemoveMemberReq string

definition name_ok :: "string \<Rightarrow> bool" where
  "name_ok s \<longleftrightarrow> 2 \<le> length s \<and> length s \<le> 100"

definition CreateOrg :: "orgs \<Rightarrow> principal option \<Rightarrow> string \<Rightarrow> string \<Rightarrow> orgs \<times> (org_err + unit)" where
  "CreateOrg d pr rawName rawSlug =
    (case pr of
       None \<Rightarrow> (d, Inl OrgUnauthorized)
     | Some p \<Rightarrow>
         let name = trim_space rawName;
             slug = (if NormalizeSlug rawSlug = [] then Slugify name else NormalizeSlug rawSlug)
         in if \<not> name_ok name then (d, Inl OrgValidation)
            else if \<not> ValidSlug slug then (d, Inl OrgValidation)
            else case p_user p of
                   None \<Rightarrow> (d, Inl OrgInternal)
                 | Some u \<Rightarrow> (case CreateOrgRow d name slug u of
                               None \<Rightarrow> (d, Inl OrgConflict) | Some d' \<Rightarrow> (d', Inr ())))"

text \<open>The store answers nil for an unknown organization, which the handler dereferences.\<close>

definition RenameOrg :: "orgs \<Rightarrow> uid \<Rightarrow> string \<Rightarrow> orgs \<times> (org_err + unit)" where
  "RenameOrg d org rawName =
    (let name = trim_space rawName
     in if \<not> name_ok name then (d, Inl OrgValidation)
        else if org \<notin> org_id ` set (o_orgs d) then (d, Inl OrgPanic)
        else (d\<lparr>o_orgs := update_where (\<lambda>r. org_id r = org) (\<lambda>r. r\<lparr>org_name := name\<rparr>) (o_orgs d)\<rparr>, Inr ()))"

text \<open>The upsert fails on the foreign key when a platform administrator names no organization.\<close>

definition AddMember ::
    "orgs \<Rightarrow> principal option \<Rightarrow> uid \<Rightarrow> string \<Rightarrow> string \<Rightarrow> orgs \<times> (org_err + unit)" where
  "AddMember d pr org email roleName =
    (case ValidRole roleName of
       None \<Rightarrow> (d, Inl OrgValidation)
     | Some r \<Rightarrow>
         (case GetUserByEmail d (ToLower (trim_space email)) of
            None \<Rightarrow> (d, Inl OrgNotFound)
          | Some u \<Rightarrow>
              let allowed = (if r = RoleOwner then actorIsOwner d pr org else Inr True)
              in case allowed of
                   Inl e \<Rightarrow> (d, Inl e)
                 | Inr ok \<Rightarrow> if \<not> ok then (d, Inl OrgForbidden)
                             else if org \<notin> org_id ` set (o_orgs d) then (d, Inl OrgInternal)
                             else (SetMemberRole d org u r, Inr ())))"

definition UpdateMember ::
    "(string \<Rightarrow> uid option) \<Rightarrow> orgs \<Rightarrow> principal option \<Rightarrow> uid \<Rightarrow> string \<Rightarrow> string \<Rightarrow> orgs \<times> (org_err + unit)" where
  "UpdateMember parse d pr org userRaw roleName =
    (case parse userRaw of
       None \<Rightarrow> (d, Inl OrgValidation)
     | Some u \<Rightarrow>
         (case ValidRole roleName of
            None \<Rightarrow> (d, Inl OrgValidation)
          | Some r \<Rightarrow>
              (case RoleFor d org u of
                 None \<Rightarrow> (d, Inl OrgNotFound)
               | Some current \<Rightarrow>
                   let allowed = (if r = RoleOwner \<or> current = RoleOwner then actorIsOwner d pr org else Inr True)
                   in case allowed of
                        Inl e \<Rightarrow> (d, Inl e)
                      | Inr ok \<Rightarrow>
                          if \<not> ok then (d, Inl OrgForbidden)
                          else if current = RoleOwner \<and> r \<noteq> RoleOwner \<and> CountOwners d org \<le> 1 then (d, Inl OrgConflict)
                          else (SetMemberRole d org u r, Inr ()))))"

definition RemoveMember ::
    "(string \<Rightarrow> uid option) \<Rightarrow> orgs \<Rightarrow> uid \<Rightarrow> string \<Rightarrow> orgs \<times> (org_err + unit)" where
  "RemoveMember parse d org userRaw =
    (case parse userRaw of
       None \<Rightarrow> (d, Inl OrgValidation)
     | Some u \<Rightarrow>
         (case RoleFor d org u of
            None \<Rightarrow> (d, Inl OrgNotFound)
          | Some r \<Rightarrow> if r = RoleOwner \<and> CountOwners d org \<le> 1 then (d, Inl OrgConflict)
                      else (DropMember d org u, Inr ())))"

text \<open>\<open>Register\<close>: every route but the creation is behind the guard with the role it names.\<close>

definition serve ::
    "(string \<Rightarrow> uid option) \<Rightarrow> orgs \<Rightarrow> principal option \<Rightarrow> string \<Rightarrow> org_request \<Rightarrow> orgs \<times> (org_err + unit)" where
  "serve parse d pr raw rq =
    (case rq of
       CreateReq name slug \<Rightarrow> CreateOrg d pr name slug
     | _ \<Rightarrow>
         (case RequireMinimumRole parse d pr raw RoleAdmin of
            Inl e \<Rightarrow> (d, Inl e)
          | Inr org \<Rightarrow>
              (case rq of
                 RenameReq name \<Rightarrow> RenameOrg d org name
               | AddMemberReq email r \<Rightarrow> AddMember d pr org email r
               | UpdateMemberReq u r \<Rightarrow> UpdateMember parse d pr org u r
               | RemoveMemberReq u \<Rightarrow> RemoveMember parse d org u
               | CreateReq _ _ \<Rightarrow> (d, Inr ()))))"

text \<open>A history of requests, each by its own principal.\<close>

fun serve_all ::
    "(string \<Rightarrow> uid option) \<Rightarrow> orgs \<Rightarrow> (principal option \<times> string \<times> org_request) list \<Rightarrow> orgs" where
  "serve_all parse d [] = d"
| "serve_all parse d ((pr, raw, rq) # rqs) = serve_all parse (fst (serve parse d pr raw rq)) rqs"

section \<open>Slugs are valid\<close>

lemma collapse_chars: "set (collapse s) \<subseteq> set s"
proof (induction s rule: collapse.induct)
  case (1 s)
  have "set (halve_dashes s) \<subseteq> set s" by (induction s rule: halve_dashes.induct) auto
  then show ?case using 1 by (subst collapse.simps) auto
qed

lemma trim_dashes_set: "set (trim_dashes s) \<subseteq> set s"
  by (auto simp: trim_dashes_def dest!: set_dropWhileD)

lemma trim_dashes_ends:
  "trim_dashes s \<noteq> [] \<Longrightarrow> hd (trim_dashes s) \<noteq> CHR ''-'' \<and> last (trim_dashes s) \<noteq> CHR ''-''"
proof -
  assume t: "trim_dashes s \<noteq> []"
  let ?P = "\<lambda>c. c = CHR ''-''" and ?u = "dropWhile (\<lambda>c. c = CHR ''-'') s"
  have "last (trim_dashes s) = hd (dropWhile ?P (rev ?u))" using t by (simp add: trim_dashes_def last_rev)
  then have "last (trim_dashes s) \<noteq> CHR ''-''" using t hd_dropWhile [of ?P "rev ?u"] by (auto simp: trim_dashes_def)
  moreover obtain r where "?u = trim_dashes s @ r"
    using takeWhile_dropWhile_id [of ?P "rev ?u"] rev_append [of "takeWhile ?P (rev ?u)" "dropWhile ?P (rev ?u)"]
    unfolding trim_dashes_def by simp
  then have "hd (trim_dashes s) = hd ?u" "?u \<noteq> []" using t by simp_all
  ultimately show ?thesis using hd_dropWhile [of ?P s] by auto
qed

lemma trim_dashes_length: "length (trim_dashes s) \<le> length s"
  unfolding trim_dashes_def length_rev
  by (rule order_trans [OF length_dropWhile_le]) (simp add: length_dropWhile_le)

lemma ValidSlug_Slugify:
  assumes "2 \<le> length (Slugify name)" shows "ValidSlug (Slugify name)"
proof -
  let ?x = "trim_dashes (collapse (slug_chars name))"
  let ?y = "if 63 < length ?x then take 63 ?x else ?x"
  have s: "Slugify name = trim_dashes ?y" by (simp add: Slugify_def Let_def)
  have "set ?y \<subseteq> set ?x" by (auto dest: in_set_takeD)
  then have "set (Slugify name) \<subseteq> set (slug_chars name)"
    using trim_dashes_set [of ?y] trim_dashes_set collapse_chars unfolding s by blast
  then have chars: "\<forall>c \<in> set (Slugify name). slug_char c \<or> c = CHR ''-''"
    by (auto simp: slug_chars_def split: if_splits)
  have "length (Slugify name) \<le> 63" using trim_dashes_length [of ?y] by (auto simp: s)
  moreover have "Slugify name \<noteq> []" using assms by auto
  then have "hd (Slugify name) \<noteq> CHR ''-''" "last (Slugify name) \<noteq> CHR ''-''"
      "hd (Slugify name) \<in> set (Slugify name)" "last (Slugify name) \<in> set (Slugify name)"
    using trim_dashes_ends [of ?y] by (auto simp: s)
  then have "slug_char (hd (Slugify name))" "slug_char (last (Slugify name))" using chars by blast+
  ultimately show ?thesis using assms chars by (simp add: ValidSlug_def list_all_iff)
qed

section \<open>Members and owners\<close>

definition shape_ok :: "orgs \<Rightarrow> bool" where
  "shape_ok d \<longleftrightarrow> distinct (map (\<lambda>m. (m_org m, m_user m)) (o_members d))
     \<and> list_all (\<lambda>m. m_org m < o_next d) (o_members d) \<and> list_all (\<lambda>r. org_id r < o_next d) (o_orgs d)"

definition owned :: "orgs \<Rightarrow> bool" where
  "owned d \<longleftrightarrow> list_all (\<lambda>r. 0 < CountOwners d (org_id r)) (o_orgs d)"

lemma member_split:
  assumes "distinct (map (\<lambda>m. (m_org m, m_user m)) ms)" and "select_one (is_member org u) ms = Some m"
  shows "\<exists>xs ys. ms = xs @ m # ys \<and> m_org m = org \<and> m_user m = u \<and> (\<forall>x \<in> set xs \<union> set ys. \<not> is_member org u x)"
  using assms
proof (induction ms)
  case (Cons a ms)
  show ?case
  proof (cases "is_member org u a")
    case True
    then have "m = a" using Cons.prems by (simp add: select_one_def)
    moreover have "(org, u) \<notin> (\<lambda>m. (m_org m, m_user m)) ` set ms"
      using Cons.prems(1) True by (auto simp: is_member_def)
    then have "\<forall>x \<in> set ms. \<not> is_member org u x" by (auto simp: is_member_def image_iff)
    ultimately show ?thesis using True by (intro exI [of _ "[]"] exI [of _ ms]) (auto simp: is_member_def)
  next
    case False
    then have "select_one (is_member org u) ms = Some m" using Cons.prems by (simp add: select_one_def)
    then obtain xs ys where "ms = xs @ m # ys" "m_org m = org" "m_user m = u"
        "\<forall>x \<in> set xs \<union> set ys. \<not> is_member org u x"
      using Cons by auto
    then show ?thesis using False by (intro exI [of _ "a # xs"] exI [of _ ys]) auto
  qed
qed (simp add: select_one_def)

lemma RoleFor_member: "RoleFor d org u = Some r \<Longrightarrow> \<exists>m. select_one (is_member org u) (o_members d) = Some m \<and> m_role m = r"
  by (auto simp: RoleFor_def)

lemma update_where_unhit: "\<forall>x \<in> set xs. \<not> P x \<Longrightarrow> update_where P f xs = xs"
  by (rule update_where_none)

lemma owners_after:
  assumes "shape_ok d" and "RoleFor d org u = Some cur"
  shows "CountOwners d org' = (if org' = org \<and> cur = RoleOwner then 1 else 0) + CountOwners (DropMember d org u) org'"
    and "CountOwners (SetMemberRole d org u r) org'
      = (if org' = org \<and> r = RoleOwner then 1 else 0) + CountOwners (DropMember d org u) org'"
proof -
  obtain m where m: "select_one (is_member org u) (o_members d) = Some m" "m_role m = cur"
    using RoleFor_member [OF assms(2)] by auto
  obtain xs ys where ms: "o_members d = xs @ m # ys" "m_org m = org" "m_user m = u"
    "\<forall>x \<in> set xs \<union> set ys. \<not> is_member org u x"
    using member_split [OF _ m(1)] assms(1) by (auto simp: shape_ok_def)
  have drop: "o_members (DropMember d org u) = xs @ ys"
    using ms by (auto simp: DropMember_def is_member_def filter_id_conv)
  have upd: "o_members (SetMemberRole d org u r) = xs @ m\<lparr>m_role := r\<rparr> # ys"
    using ms m(1) by (auto simp: SetMemberRole_def is_member_def update_where_unhit)
  show "CountOwners d org' = (if org' = org \<and> cur = RoleOwner then 1 else 0) + CountOwners (DropMember d org u) org'"
    using ms m(2) by (auto simp: CountOwners_def drop is_owner_def)
  show "CountOwners (SetMemberRole d org u r) org'
      = (if org' = org \<and> r = RoleOwner then 1 else 0) + CountOwners (DropMember d org u) org'"
    using ms by (auto simp: CountOwners_def upd drop is_owner_def)
qed

lemma owners_after_new:
  "RoleFor d org u = None \<Longrightarrow> CountOwners (SetMemberRole d org u r) org'
      = (if org' = org \<and> r = RoleOwner then 1 else 0) + CountOwners d org'"
  by (auto simp: RoleFor_def SetMemberRole_def CountOwners_def is_owner_def)

lemma select_append: "select_one P (xs @ ys) = (case select_one P xs of None \<Rightarrow> select_one P ys | Some x \<Rightarrow> Some x)"
  by (induction xs) (simp_all add: select_one_def)

lemma select_single: "select_one P [x] = (if P x then Some x else None)"
  by (simp add: select_one_def)

lemma role_after_set: "RoleFor (SetMemberRole d org u r) org u = Some r"
proof (cases "select_one (is_member org u) (o_members d)")
  case None
  then show ?thesis
    by (simp add: RoleFor_def SetMemberRole_def select_append select_single is_member_def)
next
  case (Some m)
  have "select_one P (update_where P f xs) = map_option f (select_one P xs)" if "\<And>x. P (f x) = P x" for P and f :: "member \<Rightarrow> member" and xs
    using that by (induction xs) (auto simp: select_one_def)
  then show ?thesis using Some by (auto simp: RoleFor_def SetMemberRole_def is_member_def)
qed

lemma shape_set: "shape_ok d \<Longrightarrow> org < o_next d \<Longrightarrow> shape_ok (SetMemberRole d org u r)"
proof -
  assume d: "shape_ok d" "org < o_next d"
  have keys: "map (\<lambda>m. (m_org m, m_user m)) (update_where P (\<lambda>m. m\<lparr>m_role := r\<rparr>) ms) = map (\<lambda>m. (m_org m, m_user m)) ms" for P ms
    by (rule map_update_where_same) simp
  have "list_all (\<lambda>m. m_org m < n) (update_where P (\<lambda>m. m\<lparr>m_role := r\<rparr>) ms)" if "list_all (\<lambda>m. m_org m < n) ms" for P ms n
    using that by (induction ms) auto
  then show ?thesis
    using d by (auto simp: shape_ok_def SetMemberRole_def keys select_one_def find_None_iff is_member_def)
qed

lemma shape_drop: "shape_ok d \<Longrightarrow> shape_ok (DropMember d org u)"
  by (auto simp: shape_ok_def DropMember_def distinct_map_filter list_all_iff)

lemma RoleFor_known: "shape_ok d \<Longrightarrow> RoleFor d org u = Some r \<Longrightarrow> org < o_next d"
  by (auto simp: RoleFor_def select_one_def find_Some_iff shape_ok_def list_all_iff is_member_def dest: nth_mem)

section \<open>Properties\<close>

lemma set_parts [simp]: "o_orgs (SetMemberRole d org u r) = o_orgs d" "o_next (SetMemberRole d org u r) = o_next d"
  "o_orgs (DropMember d org u) = o_orgs d" "o_next (DropMember d org u) = o_next d"
  by (simp_all add: SetMemberRole_def DropMember_def)

lemma known_org: "shape_ok d \<Longrightarrow> org \<in> org_id ` set (o_orgs d) \<Longrightarrow> org < o_next d"
  by (auto simp: shape_ok_def list_all_iff)

text \<open>What a request may do to the members: nothing, a new organization, a role set, a
  member removed.\<close>

datatype org_effect = NoEffect | NewOrg uid | RoleSet uid uid role | Removed uid uid

fun has_effect :: "orgs \<Rightarrow> orgs \<Rightarrow> org_effect \<Rightarrow> bool" where
  "has_effect d d' NoEffect \<longleftrightarrow> o_members d' = o_members d \<and> map org_id (o_orgs d') = map org_id (o_orgs d) \<and> o_next d' = o_next d"
| "has_effect d d' (NewOrg u) \<longleftrightarrow> (\<exists>name slug. CreateOrgRow d name slug u = Some d')"
| "has_effect d d' (RoleSet org u r) \<longleftrightarrow> d' = SetMemberRole d org u r"
| "has_effect d d' (Removed org u) \<longleftrightarrow> d' = DropMember d org u"

definition platform_session :: "principal option \<Rightarrow> bool" where
  "platform_session pr \<longleftrightarrow> (case pr of None \<Rightarrow> False | Some p \<Rightarrow> p_admin p \<and> \<not> p_token p)"

definition acts_as_owner :: "orgs \<Rightarrow> principal option \<Rightarrow> uid \<Rightarrow> bool" where
  "acts_as_owner d pr org \<longleftrightarrow> platform_session pr
     \<or> (\<exists>p u. pr = Some p \<and> p_user p = Some u \<and> RoleFor d org u = Some RoleOwner)"

lemma actorIsOwner_True: "actorIsOwner d pr org = Inr True \<Longrightarrow> acts_as_owner d pr org"
  by (auto simp: actorIsOwner_def acts_as_owner_def platform_session_def split: option.splits if_splits)

lemma add_effect:
  "AddMember d pr org email rn = (d', res) \<Longrightarrow> d' = d \<or>
    (\<exists>u r. d' = SetMemberRole d org u r \<and> org \<in> org_id ` set (o_orgs d) \<and> ValidRole rn = Some r
       \<and> GetUserByEmail d (ToLower (trim_space email)) = Some u \<and> (r = RoleOwner \<longrightarrow> acts_as_owner d pr org))"
  using actorIsOwner_True by (auto simp: AddMember_def Let_def split: option.splits sum.splits if_splits)

lemma update_effect:
  assumes "UpdateMember parse d pr org ur rn = (d', res)" and "d' \<noteq> d"
  shows "\<exists>u r cur. d' = SetMemberRole d org u r \<and> RoleFor d org u = Some cur \<and> (r = RoleOwner \<longrightarrow> acts_as_owner d pr org)
       \<and> (cur = RoleOwner \<and> r \<noteq> RoleOwner \<longrightarrow> 1 < CountOwners d org)"
proof -
  obtain u r cur where f: "parse ur = Some u" "ValidRole rn = Some r" "RoleFor d org u = Some cur"
    using assms by (auto simp: UpdateMember_def split: option.splits)
  define allowed where "allowed = (if r = RoleOwner \<or> cur = RoleOwner then actorIsOwner d pr org else Inr True)"
  have upd: "UpdateMember parse d pr org ur rn = (case allowed of Inl e \<Rightarrow> (d, Inl e)
      | Inr ok \<Rightarrow> if \<not> ok then (d, Inl OrgForbidden)
                  else if cur = RoleOwner \<and> r \<noteq> RoleOwner \<and> CountOwners d org \<le> 1 then (d, Inl OrgConflict)
                  else (SetMemberRole d org u r, Inr ()))"
    using f by (simp add: UpdateMember_def allowed_def)
  then have ok: "allowed = Inr True" "\<not> (cur = RoleOwner \<and> r \<noteq> RoleOwner \<and> CountOwners d org \<le> 1)"
      "d' = SetMemberRole d org u r"
    using assms by (auto split: sum.splits if_splits)
  then have "r = RoleOwner \<longrightarrow> acts_as_owner d pr org" using actorIsOwner_True by (auto simp: allowed_def)
  with ok f(3) show ?thesis by (intro exI [of _ u] exI [of _ r] exI [of _ cur]) auto
qed

lemma remove_effect:
  "RemoveMember parse d org ur = (d', res) \<Longrightarrow> d' = d \<or>
    (\<exists>u cur. d' = DropMember d org u \<and> RoleFor d org u = Some cur \<and> (cur = RoleOwner \<longrightarrow> 1 < CountOwners d org))"
  by (auto simp: RemoveMember_def split: option.splits if_splits)

lemma create_effect:
  "CreateOrg d pr name slug = (d', res) \<Longrightarrow> d' = d \<or> (\<exists>n s u. CreateOrgRow d n s u = Some d')"
  by (auto simp: CreateOrg_def Let_def split: option.splits if_splits)

lemma rename_effect:
  "RenameOrg d org name = (d', res) \<Longrightarrow> has_effect d d' NoEffect"
  by (auto simp: RenameOrg_def Let_def update_where_def split: if_splits)

text \<open>The outcomes of a request.\<close>

lemma serve_cases:
  assumes "serve parse d pr raw rq = (d', res)"
  obtains (same) "has_effect d d' NoEffect"
    | (created) n s u where "CreateOrgRow d n s u = Some d'"
    | (added) org email rn u r where "rq = AddMemberReq email rn" "d' = SetMemberRole d org u r" "parse raw = Some org"
        "org \<in> org_id ` set (o_orgs d)" "ValidRole rn = Some r" "GetUserByEmail d (ToLower (trim_space email)) = Some u"
        "r = RoleOwner \<Longrightarrow> acts_as_owner d pr org"
    | (changed) org u r cur where "d' = SetMemberRole d org u r" "RoleFor d org u = Some cur"
        "r = RoleOwner \<Longrightarrow> acts_as_owner d pr org" "cur = RoleOwner \<Longrightarrow> r \<noteq> RoleOwner \<Longrightarrow> 1 < CountOwners d org"
    | (removed) org u cur where "d' = DropMember d org u" "RoleFor d org u = Some cur"
        "cur = RoleOwner \<Longrightarrow> 1 < CountOwners d org"
proof (cases "RequireMinimumRole parse d pr raw RoleAdmin")
  case (Inl e)
  then show thesis using assms same created create_effect
    by (cases rq) (fastforce simp: serve_def)+
next
  case (Inr org)
  have org: "parse raw = Some org"
    using Inr by (auto simp: RequireMinimumRole_def split: option.splits if_splits)
  show thesis
  proof (cases rq)
    case (CreateReq n s)
    then show ?thesis using assms same created create_effect by (fastforce simp: serve_def)
  next
    case (RenameReq n)
    then show ?thesis using assms same rename_effect Inr by (auto simp: serve_def)
  next
    case (AddMemberReq email rn)
    then have "AddMember d pr org email rn = (d', res)" using assms Inr by (simp add: serve_def)
    from add_effect [OF this] show ?thesis using same added [OF AddMemberReq _ org] by auto
  next
    case (UpdateMemberReq ur rn)
    then have "UpdateMember parse d pr org ur rn = (d', res)" using assms Inr by (simp add: serve_def)
    from update_effect [OF this] show ?thesis using same changed by (cases "d' = d") auto
  next
    case (RemoveMemberReq ur)
    then have "RemoveMember parse d org ur = (d', res)" using assms Inr by (simp add: serve_def)
    from remove_effect [OF this] show ?thesis using same removed by auto
  qed
qed

lemma fresh_org: "shape_ok d \<Longrightarrow> CountOwners d (o_next d) = 0"
  by (auto simp: shape_ok_def CountOwners_def is_owner_def list_all_iff filter_empty_conv)

lemma created_owners:
  "CreateOrgRow d n s u = Some d' \<Longrightarrow> CountOwners d' org = CountOwners d org + (if org = o_next d then 1 else 0)"
  by (auto simp: CreateOrgRow_def CountOwners_def is_owner_def split: if_splits)

lemma serve_shape: "shape_ok d \<Longrightarrow> serve parse d pr raw rq = (d', res) \<Longrightarrow> shape_ok d'"
proof (erule serve_cases [of parse d pr raw rq], goal_cases)
  case 1
  then have "org_id ` set (o_orgs d') = org_id ` set (o_orgs d)" by (metis has_effect.simps(1) set_map)
  then have "\<forall>r \<in> set (o_orgs d'). org_id r \<in> org_id ` set (o_orgs d)" by auto
  then show ?case using 1 by (auto simp: shape_ok_def list_all_iff)
next
  case (2 n s u)
  then show ?case
    by (auto simp: CreateOrgRow_def shape_ok_def list_all_iff split: if_splits) (metis less_irrefl less_SucI)+
next
  case (3 org email rn u r)
  then show ?case using shape_set known_org by simp
next
  case (4 org u r cur)
  then show ?case using shape_set RoleFor_known by simp
next
  case (5 org u cur)
  then show ?case using shape_drop by simp
qed

text \<open>C15: An organization keeps an owner. From a state where every organization has one, each request
  of the organization endpoints, whoever sends it, leaves one in every organization, except
  for an \<open>AddMember\<close> that names a present owner with a lesser role.\<close>

theorem organizations_keep_owner:
  assumes "shape_ok d" and "owned d" and "serve parse d pr raw rq = (d', res)"
  shows "shape_ok d' \<and> (owned d' \<or> (\<exists>org email rn u. rq = AddMemberReq email rn \<and> parse raw = Some org
    \<and> GetUserByEmail d (ToLower (trim_space email)) = Some u \<and> RoleFor d org u = Some RoleOwner \<and> ValidRole rn \<noteq> Some RoleOwner))"
  using assms(3)
proof (cases rule: serve_cases)
  case same
  then have "CountOwners d' o' = CountOwners d o'" for o' by (simp add: CountOwners_def)
  moreover have "org_id ` set (o_orgs d') = org_id ` set (o_orgs d)" using same by (metis has_effect.simps(1) set_map)
  then have "\<forall>r \<in> set (o_orgs d'). org_id r \<in> org_id ` set (o_orgs d)" by auto
  ultimately have "owned d'" using assms(2) by (auto simp: owned_def list_all_iff)
  then show ?thesis using serve_shape [OF assms(1,3)] by blast
next
  case (created n s u)
  then have "owned d'" using assms(2) created_owners [OF created]
    by (auto simp: owned_def CreateOrgRow_def list_all_iff split: if_splits)
  then show ?thesis using serve_shape [OF assms(1,3)] by blast
next
  case (added org email rn u r)
  show ?thesis
  proof (cases "RoleFor d org u = Some RoleOwner \<and> r \<noteq> RoleOwner")
    case True
    then show ?thesis using serve_shape [OF assms(1,3)] added by auto
  next
    case False
    have "CountOwners d o' \<le> CountOwners d' o'" for o'
      using False owners_after [OF assms(1), where org = org and u = u and org' = o'] owners_after_new [of d org u r o'] added(2)
      by (cases "RoleFor d org u") auto
    then have "owned d'" using assms(2) added(2) by (auto simp: owned_def list_all_iff intro: less_le_trans)
    then show ?thesis using serve_shape [OF assms(1,3)] by blast
  qed
next
  case (changed org u r cur)
  have "0 < CountOwners d' o'" if "0 < CountOwners d o'" for o'
    using that owners_after [OF assms(1) changed(2), where org' = o'] changed(1,4) by (cases "cur = RoleOwner"; cases "r = RoleOwner") (auto split: if_splits)
  then have "owned d'" using assms(2) changed(1) by (auto simp: owned_def list_all_iff)
  then show ?thesis using serve_shape [OF assms(1,3)] by blast
next
  case (removed org u cur)
  have "0 < CountOwners d' o'" if "0 < CountOwners d o'" for o'
    using that owners_after(1) [OF assms(1) removed(2), of o'] removed(1,3) by (cases "cur = RoleOwner") (auto split: if_splits)
  then have "owned d'" using assms(2) removed(1) by (auto simp: owned_def list_all_iff)
  then show ?thesis using serve_shape [OF assms(1,3)] by blast
qed

text \<open>A sample organization 1 with its owner 5 and an administrator 6.\<close>

definition sample_orgs :: orgs where
  "sample_orgs = \<lparr>o_orgs = [\<lparr>org_id = 1, org_name = ''Acme'', org_slug = ''acme'', org_created_by = 5\<rparr>],
     o_members = [\<lparr>m_org = 1, m_user = 5, m_role = RoleOwner\<rparr>, \<lparr>m_org = 1, m_user = 6, m_role = RoleAdmin\<rparr>],
     o_users = [(5, ''boss''), (6, ''aide'')], o_next = 7\<rparr>"

definition sample_parse :: "string \<Rightarrow> uid option" where
  "sample_parse s = map_option nat (parse_int s)"

definition aide :: principal where
  "aide = \<lparr>p_user = Some 6, p_admin = False, p_token = False, p_platform = False, p_bound = [], p_scopes = []\<rparr>"

lemma sample_orgs_ok: "shape_ok sample_orgs" "owned sample_orgs"
  by code_simp+

lemma organizations_keep_owner_witness:
  "owned (fst (serve sample_parse sample_orgs (Some aide) ''1'' (RemoveMemberReq ''5'')))"
proof -
  let ?r = "serve sample_parse sample_orgs (Some aide) ''1'' (RemoveMemberReq ''5'')"
  show ?thesis using organizations_keep_owner [OF sample_orgs_ok, of sample_parse "Some aide" "''1''" "RemoveMemberReq ''5''" "fst ?r" "snd ?r"]
    by simp
qed

lemma no_owner_stays:
  assumes "shape_ok d" and "org < o_next d" and "CountOwners d org = 0" and "\<not> platform_session pr"
    and "serve parse d pr raw rq = (d', res)"
  shows "CountOwners d' org = 0 \<and> org < o_next d'"
proof -
  have none: "RoleFor d org u \<noteq> Some RoleOwner" for u
    using owners_after(1) [OF assms(1), of org u RoleOwner org] assms(3) by auto
  then have not_owner: "\<not> acts_as_owner d pr org" using assms(4) by (auto simp: acts_as_owner_def)
  from assms(5) show ?thesis
  proof (cases rule: serve_cases)
    case same
    then show ?thesis using assms(2,3) by (simp add: CountOwners_def)
  next
    case (created n s u)
    then show ?thesis using assms(2,3) created_owners [OF created, of org] by (auto simp: CreateOrgRow_def split: if_splits)
  next
    case (added o' email rn u r)
    then have "\<not> (org = o' \<and> r = RoleOwner)" using not_owner by auto
    then show ?thesis
      using added(2) assms(2,3) owners_after [OF assms(1), where org = o' and u = u and org' = org] owners_after_new [of d o' u r org]
      by (cases "RoleFor d o' u") auto
  next
    case (changed o' u r cur)
    then have "\<not> (org = o' \<and> r = RoleOwner)" using not_owner by auto
    then show ?thesis using changed(1) assms(2,3) owners_after [OF assms(1) changed(2), where org' = org] by auto
  next
    case (removed o' u cur)
    then show ?thesis using assms(2,3) owners_after(1) [OF assms(1) removed(2), of org] by auto
  qed
qed

lemma no_owner_forever:
  "shape_ok d \<Longrightarrow> org < o_next d \<Longrightarrow> CountOwners d org = 0 \<Longrightarrow> \<forall>(pr, raw, rq) \<in> set rqs. \<not> platform_session pr \<Longrightarrow>
    CountOwners (serve_all parse d rqs) org = 0"
proof (induction rqs arbitrary: d)
  case (Cons x rqs)
  obtain pr raw rq where x: "x = (pr, raw, rq)" by (cases x)
  obtain d' res where s: "serve parse d pr raw rq = (d', res)" by (cases "serve parse d pr raw rq")
  have "CountOwners d' org = 0 \<and> org < o_next d'" "shape_ok d'"
    using no_owner_stays [OF Cons.prems(1-3) _ s] serve_shape [OF Cons.prems(1) s] Cons.prems(4) x by auto
  then show ?case using Cons x s by simp
qed simp

text \<open>An administrator can oust the last owner, for good. The guards of \<open>UpdateMember\<close> and
  \<open>RemoveMember\<close> are missing from \<open>AddMember\<close>, which overwrites an existing role: a member
  with the admin role adds the only owner again as support, and no later sequence of
  requests without a platform administrator gives the organization an owner again.\<close>

theorem admin_ousts_last_owner:
  assumes "shape_ok d" and "parse raw = Some org" and "org \<in> org_id ` set (o_orgs d)"
    and "p_user p = Some a" and "RoleFor d org a = Some RoleAdmin" and "\<not> p_admin p" and "\<not> p_token p"
    and "GetUserByEmail d (ToLower (trim_space email)) = Some u" and "RoleFor d org u = Some RoleOwner"
    and "CountOwners d org = 1" and "\<forall>(pr, raw, rq) \<in> set rqs. \<not> platform_session pr"
  shows "CountOwners (serve_all parse (fst (serve parse d (Some p) raw (AddMemberReq email ''support''))) rqs) org = 0"
proof -
  have guard: "RequireMinimumRole parse d (Some p) raw RoleAdmin = Inr org"
    using assms(2,4,5,6,7) by (simp add: RequireMinimumRole_def RoleRank_def)
  let ?d = "SetMemberRole d org u RoleSupport"
  have "ValidRole ''support'' = Some RoleSupport" by code_simp
  then have "serve parse d (Some p) raw (AddMemberReq email ''support'') = (?d, Inr ())"
    using guard assms(3,8) by (simp add: serve_def AddMember_def)
  moreover have "CountOwners ?d org = 0"
    using owners_after [OF assms(1,9), where org' = org] owners_after(2) [OF assms(1,9), of RoleSupport org] assms(10) by simp
  moreover have "shape_ok ?d" "org < o_next ?d" using shape_set known_org assms(1,3) by auto
  ultimately show ?thesis using no_owner_forever assms(11) by simp
qed

lemma admin_ousts_last_owner_witness:
  "CountOwners (serve_all sample_parse (fst (serve sample_parse sample_orgs (Some aide) ''1'' (AddMemberReq ''boss'' ''support'')))
     [(Some (aide\<lparr>p_user := Some 5\<rparr>), ''1'', UpdateMemberReq ''5'' ''owner'')]) 1 = 0"
proof -
  have "sample_parse ''1'' = Some 1" "1 \<in> org_id ` set (o_orgs sample_orgs)" "RoleFor sample_orgs 1 6 = Some RoleAdmin"
    "GetUserByEmail sample_orgs (ToLower (trim_space ''boss'')) = Some 5" "RoleFor sample_orgs 1 5 = Some RoleOwner"
    "CountOwners sample_orgs 1 = 1" by code_simp+
  then show ?thesis
    using admin_ousts_last_owner [OF sample_orgs_ok(1), of sample_parse "''1''" 1 aide 6 "''boss''" 5
        "[(Some (aide\<lparr>p_user := Some 5\<rparr>), ''1'', UpdateMemberReq ''5'' ''owner'')]"]
    by (simp add: aide_def platform_session_def)
qed

text \<open>C22: A generated slug is always valid: whatever name it is made from, \<open>Slugify\<close> ends (its
  loop removes a dash each time) and a result of at least two characters satisfies
  \<open>ValidSlug\<close>, so it has the form the database checks.\<close>

theorem slugify_valid:
  assumes "2 \<le> length (Slugify name)"
  shows "ValidSlug (Slugify name)"
  using ValidSlug_Slugify assms by blast

lemma slugify_valid_witness: "ValidSlug (Slugify ''-- My  Site_2!'')"
proof -
  have "2 \<le> length (Slugify ''-- My  Site_2!'')" by code_simp
  then show ?thesis by (rule slugify_valid)
qed

end
