(* ===== verification/Authentication.thy ===== *)
theory Authentication
  imports Totp Organizations
begin

text \<open>
  Accounts, sessions and the second factor: \<open>internal/auth\<close> (\<open>handler.go\<close>, \<open>session.go\<close>, \<open>mfa.go\<close>,
  \<open>mfa_store.go\<close>, \<open>middleware.go\<close>), \<open>internal/users/store.go\<close>, \<open>internal/secretbox\<close> and the operator's
  \<open>cmd/api/reset_password.go\<close>. SHA-256, HMAC-SHA1, bcrypt, AES-GCM and base64 are parameters; random
  bytes and new identifiers are arguments. A database that fails, audit rows, cookies and the personal
  organization made at registration are left out.
\<close>

section \<open>Rows\<close>

record user_row =
  ur_id :: uid
  ur_email :: string
  ur_hash :: string
  ur_name :: string
  ur_admin :: bool
  ur_status :: string
  ur_mfa :: bool
  ur_secret :: string

record session_row =
  sr_id :: uid
  sr_user :: uid
  sr_token :: string
  sr_expires :: time
  sr_revoked :: bool

record challenge_row =
  ch_token :: string
  ch_user :: uid
  ch_expires :: time
  ch_used :: bool

record code_row =
  rc_user :: uid
  rc_code :: string
  rc_used :: bool

record auth_db =
  ad_users :: "user_row list"
  ad_sessions :: "session_row list"
  ad_challenges :: "challenge_row list"
  ad_codes :: "code_row list"

record auth_env =
  en_hash :: "string \<Rightarrow> string"
  en_hmac :: "string \<Rightarrow> string \<Rightarrow> string"
  en_bcrypt :: "string \<Rightarrow> string option"
  en_check :: "string \<Rightarrow> string \<Rightarrow> bool"
  en_seal :: "string \<Rightarrow> string \<Rightarrow> string"
  en_unseal :: "string \<Rightarrow> string \<Rightarrow> string option"
  en_b64 :: "string \<Rightarrow> string"
  en_unb64 :: "string \<Rightarrow> string option"
  en_ttl :: duration

datatype auth_err = AuthUnauthorized | AuthForbidden | AuthValidation | AuthConflict | AuthInternal | AuthPanic

section \<open>Users\<close>

definition UserByEmail :: "auth_db \<Rightarrow> string \<Rightarrow> user_row option" where
  "UserByEmail d email = find (\<lambda>u. ur_email u = email) (ad_users d)"

definition UserByID :: "auth_db \<Rightarrow> uid \<Rightarrow> user_row option" where
  "UserByID d u = by_key ur_id u (ad_users d)"

definition set_user :: "uid \<Rightarrow> (user_row \<Rightarrow> user_row) \<Rightarrow> auth_db \<Rightarrow> auth_db" where
  "set_user u f d = d\<lparr>ad_users := update_where (\<lambda>r. ur_id r = u) f (ad_users d)\<rparr>"

text \<open>The first user becomes the administrator.\<close>

definition CreateUser :: "auth_db \<Rightarrow> uid \<Rightarrow> string \<Rightarrow> string \<Rightarrow> string \<Rightarrow> auth_db \<times> (auth_err + user_row)" where
  "CreateUser d u email hash name =
    (if UserByEmail d email \<noteq> None then (d, Inl AuthConflict)
     else
       (let r = \<lparr>ur_id = u, ur_email = email, ur_hash = hash, ur_name = name, ur_admin = (ad_users d = []),
                 ur_status = ''active'', ur_mfa = False, ur_secret = []\<rparr>
        in (d\<lparr>ad_users := ad_users d @ [r]\<rparr>, Inr r)))"

section \<open>Sessions\<close>

definition CreateSession :: "auth_env \<Rightarrow> time \<Rightarrow> auth_db \<Rightarrow> uid \<Rightarrow> string \<Rightarrow> uid \<Rightarrow> auth_db \<times> (auth_err + string)" where
  "CreateSession v now d sid token u =
    (if list_ex (\<lambda>s. sr_token s = en_hash v token) (ad_sessions d) then (d, Inl AuthInternal)
     else (d\<lparr>ad_sessions := ad_sessions d @
       [\<lparr>sr_id = sid, sr_user = u, sr_token = en_hash v token, sr_expires = now + en_ttl v, sr_revoked = False\<rparr>]\<rparr>, Inr token))"

definition GetSession :: "auth_env \<Rightarrow> time \<Rightarrow> auth_db \<Rightarrow> string \<Rightarrow> session_row option" where
  "GetSession v now d token =
    find (\<lambda>s. sr_token s = en_hash v token \<and> \<not> sr_revoked s \<and> now < sr_expires s) (ad_sessions d)"

definition RevokeSession :: "auth_env \<Rightarrow> auth_db \<Rightarrow> string \<Rightarrow> auth_db" where
  "RevokeSession v d token =
    d\<lparr>ad_sessions := update_where (\<lambda>s. sr_token s = en_hash v token \<and> \<not> sr_revoked s) (\<lambda>s. s\<lparr>sr_revoked := True\<rparr>) (ad_sessions d)\<rparr>"

text \<open>The bearer header wins over the cookie.\<close>

definition sessionToken :: "string \<Rightarrow> string option \<Rightarrow> string" where
  "sessionToken authz cookie =
    (if has_prefix authz ''Bearer '' then trim_prefix authz ''Bearer '' else case cookie of None \<Rightarrow> [] | Some c \<Rightarrow> c)"

definition requestIsHTTPS :: "bool \<Rightarrow> string \<Rightarrow> bool" where
  "requestIsHTTPS tls forwarded \<longleftrightarrow> tls \<or> forwarded = ''https''"

text \<open>The session middleware; \<open>resolve\<close> answers for tokens with the prefix of an API token.\<close>

definition session_credential :: "auth_env \<Rightarrow> (string \<Rightarrow> credential option) \<Rightarrow> time \<Rightarrow> auth_db \<Rightarrow> string \<Rightarrow> credential option" where
  "session_credential v resolve now d token =
    (if token = [] then None
     else if has_prefix token ''epk_'' \<or> has_prefix token ''epa_'' then resolve token
     else case GetSession v now d token of
       None \<Rightarrow> None
     | Some s \<Rightarrow>
         (case UserByID d (sr_user s) of
            None \<Rightarrow> None
          | Some u \<Rightarrow> if ur_status u = ''active'' then Some (SessionOf (ur_id u) (ur_admin u)) else None))"

section \<open>Secrets\<close>

definition Encrypt :: "auth_env \<Rightarrow> string \<Rightarrow> string \<Rightarrow> string" where
  "Encrypt v nonce plain = nonce @ en_seal v nonce plain"

definition Decrypt :: "auth_env \<Rightarrow> string \<Rightarrow> string option" where
  "Decrypt v c = (if length c < 12 then None else en_unseal v (take 12 c) (drop 12 c))"

definition SecretEncrypted :: "auth_env \<Rightarrow> auth_db \<Rightarrow> uid \<Rightarrow> string option" where
  "SecretEncrypted v d u =
    (case UserByID d u of
       None \<Rightarrow> None
     | Some r \<Rightarrow> if ur_secret r = [] then Some [] else en_unb64 v (ur_secret r))"

definition SetSecret :: "auth_env \<Rightarrow> auth_db \<Rightarrow> uid \<Rightarrow> string \<Rightarrow> auth_db" where
  "SetSecret v d u enc = set_user u (\<lambda>r. r\<lparr>ur_secret := en_b64 v enc\<rparr>) d"

definition EnableFlag :: "auth_db \<Rightarrow> uid \<Rightarrow> auth_db" where
  "EnableFlag d u = set_user u (\<lambda>r. r\<lparr>ur_mfa := True\<rparr>) d"

definition DisableMFA :: "auth_db \<Rightarrow> uid \<Rightarrow> auth_db" where
  "DisableMFA d u =
    (let d1 = set_user u (\<lambda>r. r\<lparr>ur_mfa := False, ur_secret := []\<rparr>) d
     in d1\<lparr>ad_codes := filter (\<lambda>c. rc_user c \<noteq> u) (ad_codes d1)\<rparr>)"

definition MFAEnabled :: "auth_db \<Rightarrow> uid \<Rightarrow> bool option" where
  "MFAEnabled d u = map_option ur_mfa (UserByID d u)"

section \<open>Challenges and recovery codes\<close>

definition BeginChallenge :: "auth_env \<Rightarrow> time \<Rightarrow> auth_db \<Rightarrow> uid \<Rightarrow> string \<Rightarrow> duration \<Rightarrow> auth_db \<times> (auth_err + string)" where
  "BeginChallenge v now d u raw ttl =
    (if list_ex (\<lambda>c. ch_token c = en_hash v raw) (ad_challenges d) then (d, Inl AuthInternal)
     else (d\<lparr>ad_challenges := ad_challenges d @
       [\<lparr>ch_token = en_hash v raw, ch_user = u, ch_expires = now + ttl, ch_used = False\<rparr>]\<rparr>, Inr raw))"

definition open_challenge :: "auth_env \<Rightarrow> time \<Rightarrow> string \<Rightarrow> challenge_row \<Rightarrow> bool" where
  "open_challenge v now raw c \<longleftrightarrow> ch_token c = en_hash v raw \<and> \<not> ch_used c \<and> now < ch_expires c"

definition ConsumeChallenge :: "auth_env \<Rightarrow> time \<Rightarrow> auth_db \<Rightarrow> string \<Rightarrow> auth_db \<times> uid option" where
  "ConsumeChallenge v now d raw =
    (d\<lparr>ad_challenges := update_where (open_challenge v now raw) (\<lambda>c. c\<lparr>ch_used := True\<rparr>) (ad_challenges d)\<rparr>,
     map_option ch_user (find (open_challenge v now raw) (ad_challenges d)))"

text \<open>\<open>code_hash\<close> is unique in the table.\<close>

definition ReplaceRecoveryCodes :: "auth_db \<Rightarrow> uid \<Rightarrow> string list \<Rightarrow> auth_db option" where
  "ReplaceRecoveryCodes d u hashes =
    (let rest = filter (\<lambda>c. rc_user c \<noteq> u) (ad_codes d) in
     if distinct (map rc_code rest @ hashes)
     then Some (d\<lparr>ad_codes := rest @ map (\<lambda>h. \<lparr>rc_user = u, rc_code = h, rc_used = False\<rparr>) hashes\<rparr>)
     else None)"

definition unused_code :: "auth_env \<Rightarrow> uid \<Rightarrow> string \<Rightarrow> code_row \<Rightarrow> bool" where
  "unused_code v u code c \<longleftrightarrow> rc_user c = u \<and> rc_code c = en_hash v (ToUpper (trim_space code)) \<and> \<not> rc_used c"

definition ConsumeRecoveryCode :: "auth_env \<Rightarrow> auth_db \<Rightarrow> uid \<Rightarrow> string \<Rightarrow> auth_db \<times> bool" where
  "ConsumeRecoveryCode v d u code =
    (d\<lparr>ad_codes := update_where (unused_code v u code) (\<lambda>c. c\<lparr>rc_used := True\<rparr>) (ad_codes d)\<rparr>,
     rows_affected (unused_code v u code) (ad_codes d) > 0)"

section \<open>Accounts\<close>

definition is_letter :: "char \<Rightarrow> bool" where "is_letter c \<longleftrightarrow> is_lower c \<or> is_upper c"

definition email_local :: "char \<Rightarrow> bool" where "email_local c \<longleftrightarrow> is_letter c \<or> is_digit c \<or> c \<in> set ''._%+-''"
definition email_domain :: "char \<Rightarrow> bool" where "email_domain c \<longleftrightarrow> is_letter c \<or> is_digit c \<or> c \<in> set ''.-''"

definition emailRe :: "string \<Rightarrow> bool" where
  "emailRe s \<longleftrightarrow>
    (case split_on CHR ''@'' s of
       [l, d] \<Rightarrow>
         (let ps = split_on CHR ''.'' d in
          l \<noteq> [] \<and> list_all email_local l \<and> list_all email_domain d \<and> 2 \<le> length ps
          \<and> join_with ''.'' (butlast ps) \<noteq> [] \<and> 2 \<le> length (last ps) \<and> list_all is_letter (last ps))
     | _ \<Rightarrow> False)"

text \<open>\<open>setup_done\<close>: the hook is set and answers that the first set-up is complete.\<close>

definition Register ::
    "auth_env \<Rightarrow> bool \<Rightarrow> time \<Rightarrow> auth_db \<Rightarrow> uid \<Rightarrow> uid \<Rightarrow> string \<Rightarrow> string \<Rightarrow> string \<Rightarrow> string \<Rightarrow> auth_db \<times> (auth_err + string)" where
  "Register v setup_done now d uid sid token email0 password name0 =
    (if setup_done then (d, Inl AuthForbidden)
     else
       (let email = ToLower (trim_space email0); name = trim_space name0 in
        if \<not> emailRe email \<or> length password < 10 \<or> name = [] then (d, Inl AuthValidation)
        else case en_bcrypt v password of
          None \<Rightarrow> (d, Inl AuthInternal)
        | Some hash \<Rightarrow>
            (case CreateUser d uid email hash name of
               (d1, Inl err) \<Rightarrow> (d1, Inl err)
             | (d1, Inr u) \<Rightarrow> CreateSession v now d1 sid token (ur_id u))))"

text \<open>An administrator's form: the address is not checked.\<close>

definition AdminCreateUser :: "auth_env \<Rightarrow> auth_db \<Rightarrow> uid \<Rightarrow> string \<Rightarrow> string \<Rightarrow> string \<Rightarrow> auth_db \<times> (auth_err + user_row)" where
  "AdminCreateUser v d uid email0 name0 password =
    (let email = ToLower (trim_space email0); name = trim_space name0 in
     if name = [] \<or> length password < 10 then (d, Inl AuthValidation)
     else case en_bcrypt v password of
       None \<Rightarrow> (d, Inl AuthInternal)
     | Some hash \<Rightarrow> CreateUser d uid email hash name)"

datatype login_result = LoggedIn string | MFARequired string

definition mfaChallengeTTL :: duration where "mfaChallengeTTL = 5 * minute"

definition Login :: "auth_env \<Rightarrow> time \<Rightarrow> auth_db \<Rightarrow> uid \<Rightarrow> string \<Rightarrow> string \<Rightarrow> string \<Rightarrow> auth_db \<times> (auth_err + login_result)" where
  "Login v now d sid token email0 password =
    (case UserByEmail d (ToLower (trim_space email0)) of
       None \<Rightarrow> (d, Inl AuthUnauthorized)
     | Some u \<Rightarrow>
         if \<not> en_check v (ur_hash u) password then (d, Inl AuthUnauthorized)
         else if ur_status u \<noteq> ''active'' then (d, Inl AuthForbidden)
         else case MFAEnabled d (ur_id u) of
           None \<Rightarrow> (d, Inl AuthInternal)
         | Some True \<Rightarrow>
             (case BeginChallenge v now d (ur_id u) token mfaChallengeTTL of
                (d1, Inl err) \<Rightarrow> (d1, Inl err)
              | (d1, Inr t) \<Rightarrow> (d1, Inr (MFARequired t)))
         | Some False \<Rightarrow>
             (case CreateSession v now d sid token (ur_id u) of
                (d1, Inl err) \<Rightarrow> (d1, Inl err)
              | (d1, Inr t) \<Rightarrow> (d1, Inr (LoggedIn t))))"

definition Logout :: "auth_env \<Rightarrow> auth_db \<Rightarrow> string \<Rightarrow> auth_db" where
  "Logout v d token = (if token = [] then d else RevokeSession v d token)"

section \<open>The second factor\<close>

text \<open>A fresh secret takes the place of the stored one, whether the factor is active or not.\<close>

definition Setup :: "auth_env \<Rightarrow> auth_db \<Rightarrow> uid \<Rightarrow> string \<Rightarrow> string \<Rightarrow> auth_db \<times> (auth_err + string)" where
  "Setup v d u random nonce =
    (let secret = GenerateTOTPSecret random; d1 = SetSecret v d u (Encrypt v nonce secret) in
     if UserByID d1 u = None then (d1, Inl AuthInternal) else (d1, Inr secret))"

definition EnableMFA :: "auth_env \<Rightarrow> time \<Rightarrow> auth_db \<Rightarrow> uid \<Rightarrow> string \<Rightarrow> string list \<Rightarrow> auth_db \<times> (auth_err + string list)" where
  "EnableMFA v now d u code random =
    (case SecretEncrypted v d u of
       None \<Rightarrow> (d, Inl AuthConflict)
     | Some enc \<Rightarrow>
         if enc = [] then (d, Inl AuthConflict)
         else case Decrypt v enc of
           None \<Rightarrow> (d, Inl AuthInternal)
         | Some secret \<Rightarrow>
             if \<not> VerifyTOTP (en_hmac v) secret (trim_space code) now then (d, Inl AuthUnauthorized)
             else (let codes = GenerateRecoveryCodes random in
               case ReplaceRecoveryCodes d u (map (en_hash v) codes) of
                 None \<Rightarrow> (d, Inl AuthInternal)
               | Some d1 \<Rightarrow> (EnableFlag d1 u, Inr codes)))"

definition Disable :: "auth_env \<Rightarrow> auth_db \<Rightarrow> uid \<Rightarrow> string \<Rightarrow> auth_db \<times> (auth_err + unit)" where
  "Disable v d u password =
    (case UserByID d u of
       None \<Rightarrow> (d, Inl AuthInternal)
     | Some r \<Rightarrow> if \<not> en_check v (ur_hash r) password then (d, Inl AuthUnauthorized) else (DisableMFA d u, Inr ()))"

text \<open>The challenge is consumed first, whatever becomes of the code.\<close>

definition finish_verify :: "auth_env \<Rightarrow> time \<Rightarrow> auth_db \<Rightarrow> uid \<Rightarrow> uid \<Rightarrow> string \<Rightarrow> auth_db \<times> (auth_err + string)" where
  "finish_verify v now d u sid token =
    (case UserByID d u of
       None \<Rightarrow> (d, Inl AuthForbidden)
     | Some r \<Rightarrow> if ur_status r \<noteq> ''active'' then (d, Inl AuthForbidden) else CreateSession v now d sid token u)"

definition Verify ::
    "auth_env \<Rightarrow> time \<Rightarrow> auth_db \<Rightarrow> string \<Rightarrow> string \<Rightarrow> uid \<Rightarrow> string \<Rightarrow> auth_db \<times> (auth_err + string)" where
  "Verify v now d mfa_token code0 sid token =
    (case ConsumeChallenge v now d (trim_space mfa_token) of
       (d1, None) \<Rightarrow> (d1, Inl AuthUnauthorized)
     | (d1, Some u) \<Rightarrow>
         (case SecretEncrypted v d1 u of
            None \<Rightarrow> (d1, Inl AuthInternal)
          | Some enc \<Rightarrow>
              if enc = [] then (d1, Inl AuthInternal)
              else case Decrypt v enc of
                None \<Rightarrow> (d1, Inl AuthInternal)
              | Some secret \<Rightarrow>
                  (let code = trim_space code0 in
                   if VerifyTOTP (en_hmac v) secret code now then finish_verify v now d1 u sid token
                   else (case ConsumeRecoveryCode v d1 u code of
                           (d2, False) \<Rightarrow> (d2, Inl AuthUnauthorized)
                         | (d2, True) \<Rightarrow> finish_verify v now d2 u sid token))))"

section \<open>The operator's reset\<close>

text \<open>A user that does not exist is dereferenced.\<close>

definition resetPassword :: "auth_env \<Rightarrow> auth_db \<Rightarrow> string \<Rightarrow> string \<Rightarrow> bool \<Rightarrow> auth_db \<times> (auth_err + nat)" where
  "resetPassword v d email password keep_mfa =
    (if email = [] \<or> length password < 10 then (d, Inl AuthValidation)
     else case UserByEmail d email of
       None \<Rightarrow> (d, Inl AuthPanic)
     | Some u \<Rightarrow>
         (case en_bcrypt v password of
            None \<Rightarrow> (d, Inl AuthInternal)
          | Some hash \<Rightarrow>
              (let d1 = set_user (ur_id u) (\<lambda>r. r\<lparr>ur_hash := hash\<rparr>) d;
                   d2 = (if keep_mfa then d1 else set_user (ur_id u) (\<lambda>r. r\<lparr>ur_mfa := False, ur_secret := []\<rparr>) d1)
               in (d2\<lparr>ad_sessions := filter (\<lambda>s. sr_user s \<noteq> ur_id u) (ad_sessions d2)\<rparr>,
                   Inr (length (filter (\<lambda>s. sr_user s = ur_id u) (ad_sessions d2)))))))"

section \<open>Requests\<close>

datatype auth_op =
    ReqRegister bool uid uid string string string string
  | ReqLogin uid string string string
  | ReqLogout string
  | ReqSetup uid string string
  | ReqEnable uid string "string list"
  | ReqDisable uid string
  | ReqVerify string string uid string
  | ReqAdminCreate uid string string string
  | OpReset string string bool

definition auth_step :: "auth_env \<Rightarrow> time \<times> auth_op \<Rightarrow> auth_db \<Rightarrow> auth_db" where
  "auth_step v to d =
    (case to of (now, req) \<Rightarrow>
       (case req of
          ReqRegister sd uid sid token email pw name \<Rightarrow> fst (Register v sd now d uid sid token email pw name)
        | ReqLogin sid token email pw \<Rightarrow> fst (Login v now d sid token email pw)
        | ReqLogout token \<Rightarrow> Logout v d token
        | ReqSetup u random nonce \<Rightarrow> fst (Setup v d u random nonce)
        | ReqEnable u code random \<Rightarrow> fst (EnableMFA v now d u code random)
        | ReqDisable u pw \<Rightarrow> fst (Disable v d u pw)
        | ReqVerify mt code sid token \<Rightarrow> fst (Verify v now d mt code sid token)
        | ReqAdminCreate uid email name pw \<Rightarrow> fst (AdminCreateUser v d uid email name pw)
        | OpReset email pw keep \<Rightarrow> fst (resetPassword v d email pw keep)))"

definition auth_run :: "auth_env \<Rightarrow> (time \<times> auth_op) list \<Rightarrow> auth_db \<Rightarrow> auth_db" where
  "auth_run v ops d = fold (auth_step v) ops d"

definition empty_auth :: auth_db where
  "empty_auth = \<lparr>ad_users = [], ad_sessions = [], ad_challenges = [], ad_codes = []\<rparr>"

end
