(* ===== verification/AuthProperties.thy ===== *)
theory AuthProperties
  imports Authentication
begin

text \<open>
  Properties of the accounts, sessions and second factors of \<open>Authentication\<close>: what one request does to the
  tables, the single administrator made at the first registration, the single use of challenges, the second
  factor as a condition of every session, its replacement, and the window of accepted codes.
\<close>

section \<open>What a request does to the tables\<close>

text \<open>The columns no request changes.\<close>

definition identity_of :: "user_row \<Rightarrow> uid \<times> string \<times> string \<times> bool \<times> string" where
  "identity_of r = (ur_id r, ur_email r, ur_name r, ur_admin r, ur_status r)"

lemma set_user_kept:
  assumes "\<And>r. identity_of (f r) = identity_of r"
  shows "map identity_of (ad_users (set_user u f d)) = map identity_of (ad_users d)"
  using assms by (simp add: set_user_def map_update_where_same)

lemma CreateSession_users: "CreateSession v now d sid token u = (d', r) \<Longrightarrow> ad_users d' = ad_users d \<and> ad_challenges d' = ad_challenges d \<and> ad_codes d' = ad_codes d"
  by (auto simp: CreateSession_def split: if_splits)

lemma finish_users: "finish_verify v now d u sid token = (d', r) \<Longrightarrow> ad_users d' = ad_users d \<and> ad_challenges d' = ad_challenges d \<and> ad_codes d' = ad_codes d"
  by (auto simp: finish_verify_def dest: CreateSession_users split: option.splits if_splits)

lemma Verify_tables:
  assumes "Verify v now d mt code sid token = (d', r)"
  shows "ad_users d' = ad_users d \<and> ad_challenges d' = ad_challenges (fst (ConsumeChallenge v now d (trim_space mt)))"
  using assms
  by (auto simp: Verify_def ConsumeChallenge_def ConsumeRecoveryCode_def Let_def dest!: finish_users
      split: option.splits if_splits prod.splits bool.splits)

text \<open>The users after a request are those before it, changed in other columns, with at most one more, who is
  an administrator only when there was nobody.\<close>

lemma CreateUser_users:
  "CreateUser d uid email hash name = (d', r) \<Longrightarrow>
    ad_users d' = ad_users d \<or> (\<exists>x. ad_users d' = ad_users d @ [x] \<and> ur_id x = uid \<and> ur_admin x = (ad_users d = []) \<and> ur_email x \<notin> ur_email ` set (ad_users d))"
  by (auto simp: CreateUser_def UserByEmail_def find_None_iff Let_def split: if_splits)

definition users_step :: "auth_db \<Rightarrow> auth_db \<Rightarrow> bool" where
  "users_step d d' \<longleftrightarrow> map identity_of (ad_users d') = map identity_of (ad_users d)
    \<or> (\<exists>x. map identity_of (ad_users d') = map identity_of (ad_users d) @ [identity_of x] \<and> ur_admin x = (ad_users d = [])
         \<and> ur_email x \<notin> ur_email ` set (ad_users d))"

lemma users_step_same: "ad_users d' = ad_users d \<Longrightarrow> users_step d d'"
  by (simp add: users_step_def)

lemma users_step_create: "CreateUser d uid email hash name = (d', r) \<Longrightarrow> users_step d d'"
  using CreateUser_users [of d uid email hash name d' r] by (auto simp: users_step_def)

lemma auth_step_users: "users_step d (auth_step v (now, op) d)"
proof (cases op)
  case (ReqRegister sd uid sid token email0 pw name0)
  let ?email = "ToLower (trim_space email0)" and ?name = "trim_space name0"
  obtain d1 r1 where cu: "CreateUser d uid ?email (the (en_bcrypt v pw)) ?name = (d1, r1)" by fastforce
  have "ad_users (fst (CreateSession v now d1 sid token u)) = ad_users d1" for u
    by (cases "CreateSession v now d1 sid token u") (auto dest: CreateSession_users)
  moreover have "users_step d d1" by (rule users_step_create [OF cu])
  ultimately have "users_step d (fst (CreateSession v now d1 sid token u))" for u by (simp add: users_step_def)
  with \<open>users_step d d1\<close> cu show ?thesis
    by (cases "en_bcrypt v pw"; cases r1) (simp_all add: auth_step_def ReqRegister Register_def Let_def users_step_same)
next
  case (ReqLogin sid token email pw)
  then show ?thesis
    by (auto simp: auth_step_def Login_def BeginChallenge_def CreateSession_def intro!: users_step_same split: option.splits bool.splits)
next
  case (ReqLogout token)
  then show ?thesis by (simp add: auth_step_def Logout_def RevokeSession_def users_step_same)
next
  case (ReqSetup u random nonce)
  then show ?thesis by (simp add: auth_step_def Setup_def SetSecret_def Let_def users_step_def set_user_kept identity_of_def)
next
  case (ReqEnable u code random)
  then show ?thesis
    by (auto simp: auth_step_def EnableMFA_def EnableFlag_def ReplaceRecoveryCodes_def Let_def users_step_def set_user_def map_update_where_same
        identity_of_def split: option.splits)
next
  case (ReqDisable u pw)
  then show ?thesis
    by (auto simp: auth_step_def Disable_def DisableMFA_def Let_def users_step_def set_user_def map_update_where_same identity_of_def split: option.splits)
next
  case (ReqVerify mt code sid token)
  then show ?thesis using Verify_tables [of v now d mt code sid token] by (cases "Verify v now d mt code sid token") (simp add: auth_step_def users_step_same)
next
  case (ReqAdminCreate uid email name pw)
  then show ?thesis
    by (cases "CreateUser d uid (ToLower (trim_space email)) (the (en_bcrypt v pw)) (trim_space name)")
       (auto simp: auth_step_def AdminCreateUser_def Let_def users_step_same dest: users_step_create split: option.splits)
next
  case (OpReset email pw keep)
  then show ?thesis
    by (auto simp: auth_step_def resetPassword_def Let_def users_step_def set_user_def map_update_where_same identity_of_def split: option.splits)
qed

section \<open>Administrators\<close>

definition one_admin :: "auth_db \<Rightarrow> bool" where
  "one_admin d \<longleftrightarrow> (case map ur_admin (ad_users d) of [] \<Rightarrow> True | a # as \<Rightarrow> a \<and> True \<notin> set as)
    \<and> distinct (map ur_email (ad_users d))"

lemma identity_columns:
  assumes "map identity_of us = map identity_of us'"
  shows "map ur_admin us = map ur_admin us'" and "map ur_email us = map ur_email us'" and "map ur_id us = map ur_id us'"
proof -
  have "map (\<lambda>p. fst (snd (snd (snd p)))) (map identity_of us) = map (\<lambda>p. fst (snd (snd (snd p)))) (map identity_of us')"
    and "map (\<lambda>p. fst (snd p)) (map identity_of us) = map (\<lambda>p. fst (snd p)) (map identity_of us')"
    and "map fst (map identity_of us) = map fst (map identity_of us')" by (simp_all only: assms)
  then show "map ur_admin us = map ur_admin us'" "map ur_email us = map ur_email us'" "map ur_id us = map ur_id us'"
    by (simp_all add: comp_def identity_of_def)
qed

lemma one_admin_step: "one_admin d \<Longrightarrow> one_admin (auth_step v tr d)"
proof -
  assume ok: "one_admin d"
  obtain now op where tr: "tr = (now, op)" by fastforce
  from auth_step_users [of d v now op] consider
      (same) "map identity_of (ad_users (auth_step v tr d)) = map identity_of (ad_users d)"
    | (more) x where "map identity_of (ad_users (auth_step v tr d)) = map identity_of (ad_users d @ [x])" "ur_admin x = (ad_users d = [])"
        "ur_email x \<notin> ur_email ` set (ad_users d)"
    unfolding users_step_def tr by auto
  then show ?thesis
  proof cases
    case same
    with ok identity_columns [OF same] show ?thesis by (simp add: one_admin_def)
  next
    case more
    have "map ur_admin (ad_users (auth_step v tr d)) = map ur_admin (ad_users d) @ [ur_admin x]"
      and "map ur_email (ad_users (auth_step v tr d)) = map ur_email (ad_users d) @ [ur_email x]"
      using identity_columns [OF more(1)] by simp_all
    with ok more(2,3) show ?thesis by (auto simp: one_admin_def split: list.splits)
  qed
qed


section \<open>Challenges\<close>

interpretation challenge: spendable ch_token ch_used "\<lambda>c. c\<lparr>ch_used := True\<rparr>"
  by unfold_locales simp_all

definition used_up :: "auth_env \<Rightarrow> string \<Rightarrow> auth_db \<Rightarrow> bool" where
  "used_up v raw d \<longleftrightarrow> spent_key ch_token ch_used (en_hash v raw) (ad_challenges d)"

text \<open>What a request does to the challenges: uses some up, or adds one with a new token.\<close>

definition challenges_step :: "auth_db \<Rightarrow> auth_db \<Rightarrow> bool" where
  "challenges_step d d' \<longleftrightarrow> spend_step ch_token (\<lambda>c. c\<lparr>ch_used := True\<rparr>) (ad_challenges d) (ad_challenges d')"

lemma auth_step_challenges: "challenges_step d (auth_step v (now, op) d)"
proof (cases op)
  case (ReqRegister sd uid sid token email0 pw name0)
  let ?email = "ToLower (trim_space email0)" and ?name = "trim_space name0"
  obtain d1 r1 where cu: "CreateUser d uid ?email (the (en_bcrypt v pw)) ?name = (d1, r1)" by fastforce
  have "ad_challenges d1 = ad_challenges d" using cu by (auto simp: CreateUser_def Let_def split: if_splits)
  moreover have "ad_challenges (fst (CreateSession v now d1 sid token u)) = ad_challenges d1" for u
    by (cases "CreateSession v now d1 sid token u") (auto dest: CreateSession_users)
  ultimately show ?thesis using cu
    by (cases "en_bcrypt v pw"; cases r1) (simp_all add: auth_step_def ReqRegister Register_def Let_def challenges_step_def spend_step_def)
next
  case (ReqLogin sid token email pw)
  then show ?thesis
    by (auto simp: auth_step_def Login_def BeginChallenge_def CreateSession_def challenges_step_def spend_step_def list_ex_iff image_iff split: option.splits bool.splits)
next
  case (ReqVerify mt code sid token)
  then show ?thesis using Verify_tables [of v now d mt code sid token]
    by (cases "Verify v now d mt code sid token") (auto simp: auth_step_def challenges_step_def spend_step_def ConsumeChallenge_def)
next
  case (ReqEnable u code random)
  then show ?thesis
    by (auto simp: auth_step_def EnableMFA_def EnableFlag_def ReplaceRecoveryCodes_def Let_def set_user_def challenges_step_def spend_step_def split: option.splits)
next
  case (ReqDisable u pw)
  then show ?thesis by (auto simp: auth_step_def Disable_def DisableMFA_def Let_def set_user_def challenges_step_def spend_step_def split: option.splits)
next
  case (ReqAdminCreate uid email name pw)
  then show ?thesis by (auto simp: auth_step_def AdminCreateUser_def CreateUser_def Let_def challenges_step_def spend_step_def split: option.splits)
next
  case (OpReset email pw keep)
  then show ?thesis by (auto simp: auth_step_def resetPassword_def Let_def set_user_def challenges_step_def spend_step_def split: option.splits)
qed (simp_all add: auth_step_def Logout_def RevokeSession_def Setup_def SetSecret_def set_user_def Let_def challenges_step_def spend_step_def)

lemma used_up_step: "used_up v raw d \<Longrightarrow> challenges_step d d' \<Longrightarrow> used_up v raw d'"
  unfolding used_up_def challenges_step_def by (rule challenge.spent_kept)

lemma used_up_run: "used_up v raw d \<Longrightarrow> used_up v raw (auth_run v ops d)"
proof (induction ops arbitrary: d)
  case (Cons tr ops)
  obtain now op where "tr = (now, op)" by fastforce
  then have "used_up v raw (auth_step v tr d)" using used_up_step [OF Cons.prems] auth_step_challenges by blast
  with Cons.IH show ?case by (simp add: auth_run_def)
qed (simp add: auth_run_def)

lemma run_Cons: "auth_run v (e # ops) d = auth_run v ops (auth_step v e d)"
  by (simp add: auth_run_def)

lemma run_append: "auth_run v (xs @ ys) d = auth_run v ys (auth_run v xs d)"
  by (simp add: auth_run_def)

lemma tokens_distinct: "distinct (map ch_token (ad_challenges (auth_run v ops empty_auth)))"
proof -
  have "distinct (map ch_token (ad_challenges (auth_run v ops d)))" if "distinct (map ch_token (ad_challenges d))" for d
    using that
  proof (induction ops arbitrary: d)
    case (Cons tr ops)
    obtain now op where "tr = (now, op)" by fastforce
    then show ?case using Cons.IH [of "auth_step v tr d"] challenge.spend_distinct [OF Cons.prems auth_step_challenges [of d v now op, unfolded challenges_step_def]]
      by (simp add: run_Cons)
  qed (simp add: auth_run_def)
  then show ?thesis by (simp add: empty_auth_def)
qed

lemma consumed_used_up:
  assumes "list_ex (open_challenge v now raw) (ad_challenges d)" and "distinct (map ch_token (ad_challenges d))"
  shows "used_up v raw (fst (ConsumeChallenge v now d raw))"
proof -
  from assms(1) obtain c where c: "c \<in> set (ad_challenges d)" "open_challenge v now raw c" by (auto simp: list_ex_iff)
  then have "ch_token c = en_hash v raw" by (simp add: open_challenge_def)
  with challenge.mark_spends [OF c(1) _ assms(2), of "open_challenge v now raw"] c(2) show ?thesis
    by (simp add: used_up_def ConsumeChallenge_def)
qed

lemma used_up_refused:
  assumes "used_up v (trim_space mt) d"
  shows "snd (Verify v now d mt code sid token) = Inl AuthUnauthorized"
proof -
  have "find (open_challenge v now (trim_space mt)) (ad_challenges d) = None"
    using assms by (auto simp: used_up_def spent_key_def find_None_iff open_challenge_def list_all_iff)
  then show ?thesis by (simp add: Verify_def ConsumeChallenge_def)
qed

section \<open>An account with a second factor\<close>

text \<open>An environment for the witnesses: hashes and ciphers that do nothing, a constant HMAC.\<close>

definition auth_sample :: auth_env where
  "auth_sample = \<lparr>en_hash = (\<lambda>s. s), en_hmac = (\<lambda>k m. replicate 20 CHR 0x01), en_bcrypt = Some, en_check = (=),
    en_seal = (\<lambda>n s. s), en_unseal = (\<lambda>n s. Some s), en_b64 = (\<lambda>s. s), en_unb64 = Some, en_ttl = 60 * minute\<rparr>"

definition sample_password :: string where "sample_password = ''correct horse''"

definition auth_sample_start :: "(time \<times> auth_op) list" where
  "auth_sample_start =
    [(0, ReqRegister False 1 100 ''t0'' ''a@b.cc'' sample_password ''Ann''),
     (0, ReqSetup 1 (replicate 20 CHR 0x01) (replicate 12 CHR 0x02)),
     (0, ReqEnable 1 ''843009'' [replicate 10 CHR 0x03]),
     (minute, ReqLogin 101 ''t1'' ''a@b.cc'' sample_password)]"

lemma nat_str_sample: "nat_str 843009 = ''843009''"
proof -
  have "map char_of [56, 52, 51, 48, 57::nat] = ''84309''" by code_simp
  then show ?thesis by (simp add: nat_str.simps digit_char_def)
qed

lemma byte_one: "byte (CHR 0x01) = 1" by code_simp

lemma sample_hotp: "hotp (en_hmac auth_sample) key c = ''843009''"
proof -
  have "en_hmac auth_sample key m = replicate 20 (CHR 0x01)" for m by (simp add: auth_sample_def)
  then have "hotp (en_hmac auth_sample) key c = pad_zeros 6 (nat_str 843009)"
    by (simp only: hotp_def Let_def last_replicate byte_one nth_replicate) (simp add: byte_one)
  then show ?thesis by (simp add: nat_str_sample pad_zeros_def)
qed

lemma sample_setup: "GenerateTOTPSecret (replicate 20 CHR 0x01) = ''AEAQCAIBAEAQCAIBAEAQCAIBAEAQCAIB''"
  by code_simp

lemma sample_key: "secret_key ''AEAQCAIBAEAQCAIBAEAQCAIBAEAQCAIB'' = Some (replicate 20 CHR 0x01)"
  by code_simp

lemma sample_verify: "VerifyTOTP (en_hmac auth_sample) ''AEAQCAIBAEAQCAIBAEAQCAIBAEAQCAIB'' ''843009'' t"
  by (simp add: VerifyTOTP_def sample_hotp sample_key)

definition sample_user :: "bool \<Rightarrow> string \<Rightarrow> user_row" where
  "sample_user mfa secret = \<lparr>ur_id = 1, ur_email = ''a@b.cc'', ur_hash = sample_password, ur_name = ''Ann'', ur_admin = True,
     ur_status = ''active'', ur_mfa = mfa, ur_secret = secret\<rparr>"

definition sample_sealed :: string where
  "sample_sealed = replicate 12 CHR 0x02 @ ''AEAQCAIBAEAQCAIBAEAQCAIBAEAQCAIB''"

definition sample_session :: session_row where
  "sample_session = \<lparr>sr_id = 100, sr_user = 1, sr_token = ''t0'', sr_expires = 60 * minute, sr_revoked = False\<rparr>"

lemma sample_register:
  "auth_step auth_sample (0, ReqRegister False 1 100 ''t0'' ''a@b.cc'' sample_password ''Ann'') empty_auth =
    \<lparr>ad_users = [sample_user False []], ad_sessions = [sample_session], ad_challenges = [], ad_codes = []\<rparr>"
  by code_simp

lemma sample_setup_step:
  "auth_step auth_sample (t, ReqSetup 1 (replicate 20 CHR 0x01) (replicate 12 CHR 0x02))
     \<lparr>ad_users = [sample_user b s], ad_sessions = ss, ad_challenges = cs, ad_codes = rs\<rparr>
    = \<lparr>ad_users = [sample_user b sample_sealed], ad_sessions = ss, ad_challenges = cs, ad_codes = rs\<rparr>"
  by (simp add: auth_step_def Setup_def sample_setup SetSecret_def set_user_def Encrypt_def auth_sample_def sample_user_def
      update_where_def sample_sealed_def Let_def)

lemma sample_secret: "length sample_sealed = 44" and sample_open: "Decrypt auth_sample sample_sealed = Some ''AEAQCAIBAEAQCAIBAEAQCAIBAEAQCAIB''"
  by code_simp+

lemma sample_recovery: "GenerateRecoveryCodes [replicate 10 CHR 0x03] = [''AMBQGAYD-AMBQGAYD'']"
  by code_simp

lemma sample_enable:
  "EnableMFA auth_sample t \<lparr>ad_users = [sample_user b sample_sealed], ad_sessions = ss, ad_challenges = cs, ad_codes = []\<rparr> 1 ''843009'' [replicate 10 CHR 0x03]
    = (\<lparr>ad_users = [sample_user True sample_sealed], ad_sessions = ss, ad_challenges = cs,
        ad_codes = [\<lparr>rc_user = 1, rc_code = ''AMBQGAYD-AMBQGAYD'', rc_used = False\<rparr>]\<rparr>, Inr [''AMBQGAYD-AMBQGAYD''])"
proof -
  have "trim_space ''843009'' = ''843009''" by code_simp
  moreover have "sample_sealed \<noteq> []" using sample_secret by auto
  moreover have "en_unb64 auth_sample s = Some s" "en_hash auth_sample s = s" for s by (simp_all add: auth_sample_def)
  ultimately show ?thesis
    by (simp add: EnableMFA_def SecretEncrypted_def UserByID_def by_key_def sample_open sample_verify sample_recovery
        ReplaceRecoveryCodes_def EnableFlag_def set_user_def update_where_def Let_def sample_user_def)
qed
definition sample_db :: auth_db where
  "sample_db = \<lparr>ad_users = [sample_user True sample_sealed], ad_sessions = [sample_session], ad_challenges = [],
     ad_codes = [\<lparr>rc_user = 1, rc_code = ''AMBQGAYD-AMBQGAYD'', rc_used = False\<rparr>]\<rparr>"

definition sample_challenged :: auth_db where
  "sample_challenged = sample_db\<lparr>ad_challenges := [\<lparr>ch_token = ''t1'', ch_user = 1, ch_expires = 6 * minute, ch_used = False\<rparr>]\<rparr>"

lemma sample_login: "auth_step auth_sample (minute, ReqLogin 101 ''t1'' ''a@b.cc'' sample_password) sample_db = sample_challenged"
  by code_simp

lemma sample_run: "auth_run auth_sample auth_sample_start empty_auth = sample_challenged"
proof -
  have enable: "auth_step auth_sample (0, ReqEnable 1 ''843009'' [replicate 10 CHR 0x03])
    \<lparr>ad_users = [sample_user False sample_sealed], ad_sessions = [sample_session], ad_challenges = [], ad_codes = []\<rparr> = sample_db"
    by (simp add: auth_step_def sample_enable sample_db_def del: One_nat_def)
  show ?thesis
    by (simp only: auth_run_def auth_sample_start_def fold_simps sample_register sample_setup_step enable sample_login comp_apply id_apply)
qed

text \<open>C27: A second factor challenge completes at most one login: once a verification ran on an open challenge,
  whatever its code was and whatever happens afterwards, every further verification with that
  challenge is refused.\<close>

theorem challenge_single_use:
  assumes "list_ex (open_challenge v now (trim_space mt)) (ad_challenges (auth_run v before empty_auth))"
    and "trim_space again = trim_space mt"
  shows "snd (Verify v now2 (auth_run v (before @ (now, ReqVerify mt code sid token) # after) empty_auth) again code2 sid2 token2)
    = Inl AuthUnauthorized"
proof -
  let ?d = "auth_run v before empty_auth" and ?d1 = "auth_step v (now, ReqVerify mt code sid token) (auth_run v before empty_auth)"
  have "ad_challenges ?d1 = ad_challenges (fst (ConsumeChallenge v now ?d (trim_space mt)))"
    using Verify_tables [of v now ?d mt code sid token] by (cases "Verify v now ?d mt code sid token") (simp add: auth_step_def)
  then have "used_up v (trim_space mt) ?d1"
    using consumed_used_up [OF assms(1) tokens_distinct] by (simp add: used_up_def)
  then have "used_up v (trim_space again) (auth_run v after ?d1)" using assms(2) by (simp add: used_up_run)
  then show ?thesis by (simp add: used_up_refused run_append run_Cons)
qed

theorem challenge_single_use_witness:
  "snd (Verify auth_sample (3 * minute) (auth_run auth_sample (auth_sample_start @ (2 * minute, ReqVerify '' t1'' ''000000'' 102 ''t2'') # []) empty_auth)
     ''t1'' ''843009'' 103 ''t3'') = Inl AuthUnauthorized"
proof (rule challenge_single_use)
  show "list_ex (open_challenge auth_sample (2 * minute) (trim_space '' t1'')) (ad_challenges (auth_run auth_sample auth_sample_start empty_auth))"
    unfolding sample_run by code_simp
  show "trim_space ''t1'' = trim_space '' t1''" by code_simp
qed

section \<open>The second factor\<close>

text \<open>The secret the panel would check a code of \<open>u\<close> against.\<close>

definition stored_secret :: "auth_env \<Rightarrow> auth_db \<Rightarrow> uid \<Rightarrow> string option" where
  "stored_secret v d u = Option.bind (SecretEncrypted v d u) (Decrypt v)"

definition sessions_of :: "uid \<Rightarrow> auth_db \<Rightarrow> nat" where
  "sessions_of u d = length (filter (\<lambda>s. sr_user s = u) (ad_sessions d))"

lemma sessions_of_update: "length (filter (\<lambda>s. sr_user s = u) (update_where P (\<lambda>s. s\<lparr>sr_revoked := True\<rparr>) xs)) = length (filter (\<lambda>s. sr_user s = u) xs)"
  by (induction xs) auto

lemma CreateSession_count: "sessions_of u (fst (CreateSession v now d sid token u')) \<le> sessions_of u d + of_bool (u' = u)"
  by (simp add: CreateSession_def sessions_of_def)

lemma finish_count: "sessions_of u (fst (finish_verify v now d u' sid token)) \<le> sessions_of u d + of_bool (u' = u)"
proof (cases "finish_verify v now d u' sid token = CreateSession v now d sid token u'")
  case True
  then show ?thesis using CreateSession_count [of u v now d sid token u'] by simp
next
  case False
  then have "fst (finish_verify v now d u' sid token) = d" by (auto simp: finish_verify_def split: option.splits)
  then show ?thesis by simp
qed

lemma Verify_new_session:
  assumes "sessions_of u d < sessions_of u (fst (Verify v now d mt code sid token))"
  shows "\<exists>secret. list_ex (\<lambda>c. open_challenge v now (trim_space mt) c \<and> ch_user c = u) (ad_challenges d) \<and> stored_secret v d u = Some secret
    \<and> (VerifyTOTP (en_hmac v) secret (trim_space code) now \<or> list_ex (unused_code v u (trim_space code)) (ad_codes d))"
proof -
  let ?raw = "trim_space mt" and ?code = "trim_space code"
  obtain d1 found where cc: "ConsumeChallenge v now d ?raw = (d1, found)" by fastforce
  then have d1: "ad_users d1 = ad_users d" "ad_sessions d1 = ad_sessions d" "ad_codes d1 = ad_codes d"
    by (auto simp: ConsumeChallenge_def)
  have quiet: "sessions_of u d2 = sessions_of u d" if "ad_sessions d2 = ad_sessions d" for d2 using that by (simp add: sessions_of_def)
  have codes: "ad_sessions (fst (ConsumeRecoveryCode v d1 u' ?code)) = ad_sessions d" for u' using d1 by (simp add: ConsumeRecoveryCode_def)
  show ?thesis
  proof (cases found)
    case None
    with assms cc quiet [of d1] d1 show ?thesis by (simp add: Verify_def)
  next
    case (Some u')
    then obtain c where c: "find (open_challenge v now ?raw) (ad_challenges d) = Some c" "ch_user c = u'"
      using cc by (auto simp: ConsumeChallenge_def)
    then have opened: "list_ex (\<lambda>c. open_challenge v now ?raw c \<and> ch_user c = u') (ad_challenges d)"
      by (auto simp: find_Some_iff list_ex_iff)
    have same: "SecretEncrypted v d1 u' = SecretEncrypted v d u'" using d1 by (simp add: SecretEncrypted_def UserByID_def)
    from assms cc Some obtain enc secret where sec: "SecretEncrypted v d u' = Some enc" "enc \<noteq> []" "Decrypt v enc = Some secret"
      using quiet [of d1] d1 by (auto simp: Verify_def same split: option.splits if_splits)
    have run: "fst (Verify v now d mt code sid token) = fst
        (if VerifyTOTP (en_hmac v) secret ?code now then finish_verify v now d1 u' sid token
         else (case ConsumeRecoveryCode v d1 u' ?code of (d2, False) \<Rightarrow> (d2, Inl AuthUnauthorized) | (d2, True) \<Rightarrow> finish_verify v now d2 u' sid token))"
      using cc Some sec by (simp add: Verify_def same Let_def)
    show ?thesis
    proof (cases "VerifyTOTP (en_hmac v) secret ?code now \<or> list_ex (unused_code v u' ?code) (ad_codes d)")
      case True
      have "u' = u"
      proof (rule ccontr)
        assume ne: "u' \<noteq> u"
        have "sessions_of u (fst (Verify v now d mt code sid token)) \<le> sessions_of u d"
        proof (cases "VerifyTOTP (en_hmac v) secret ?code now")
          case True
          then show ?thesis using finish_count [of u v now d1 u' sid token] ne quiet [OF d1(2)] unfolding run by simp
        next
          case False
          obtain d2 found2 where cr: "ConsumeRecoveryCode v d1 u' ?code = (d2, found2)" by fastforce
          then have "sessions_of u d2 = sessions_of u d" using codes [of u'] by (intro quiet) simp
          then show ?thesis using finish_count [of u v now d2 u' sid token] ne False unfolding run by (cases found2) (simp_all add: cr)
        qed
        with assms show False by simp
      qed
      with True opened sec show ?thesis by (auto simp: stored_secret_def)
    next
      case False
      then have "\<not> snd (ConsumeRecoveryCode v d1 u' ?code)"
        using d1 by (auto simp: ConsumeRecoveryCode_def rows_affected_def list_ex_iff filter_empty_conv)
      then have "fst (Verify v now d mt code sid token) = fst (ConsumeRecoveryCode v d1 u' ?code)"
        unfolding run using False by (cases "ConsumeRecoveryCode v d1 u' ?code") simp
      with assms quiet [OF codes [of u']] show ?thesis by simp
    qed
  qed
qed

text \<open>What a request must prove to get a session of an account with a second factor.\<close>

definition proves_second_factor :: "auth_env \<Rightarrow> time \<Rightarrow> auth_db \<Rightarrow> uid \<Rightarrow> auth_op \<Rightarrow> bool" where
  "proves_second_factor v now d u op =
    (case op of
       ReqVerify mt code sid token \<Rightarrow>
         list_ex (\<lambda>c. open_challenge v now (trim_space mt) c \<and> ch_user c = u) (ad_challenges d)
         \<and> (case stored_secret v d u of
              None \<Rightarrow> False
            | Some secret \<Rightarrow> VerifyTOTP (en_hmac v) secret (trim_space code) now \<or> list_ex (unused_code v u (trim_space code)) (ad_codes d))
     | _ \<Rightarrow> False)"

definition registers_as :: "auth_op \<Rightarrow> uid option" where
  "registers_as op = (case op of ReqRegister sd uid sid token email pw name \<Rightarrow> Some uid | _ \<Rightarrow> None)"

lemma sessions_same: "ad_sessions d' = ad_sessions d \<Longrightarrow> sessions_of u d' = sessions_of u d"
  by (simp add: sessions_of_def)

lemma Login_count:
  assumes "UserByID d u = Some r" and "ur_mfa r"
  shows "sessions_of u (fst (Login v now d sid token email pw)) \<le> sessions_of u d"
proof (cases "UserByEmail d (ToLower (trim_space email))")
  case None
  then show ?thesis by (simp add: Login_def)
next
  case (Some x)
  have "sessions_of u (fst (BeginChallenge v now d (ur_id x) token mfaChallengeTTL)) = sessions_of u d"
    by (intro sessions_same) (simp add: BeginChallenge_def)
  moreover have "sessions_of u (fst (CreateSession v now d sid token (ur_id x))) \<le> sessions_of u d" if "MFAEnabled d (ur_id x) = Some False"
    using CreateSession_count [of u v now d sid token "ur_id x"] that assms by (cases "ur_id x = u") (auto simp: MFAEnabled_def)
  ultimately show ?thesis using Some
    by (cases "BeginChallenge v now d (ur_id x) token mfaChallengeTTL"; cases "CreateSession v now d sid token (ur_id x)")
       (auto simp: Login_def split: option.splits bool.splits sum.splits)
qed

lemma Register_count:
  assumes "uid \<noteq> u"
  shows "sessions_of u (fst (Register v sd now d uid sid token email0 pw name0)) \<le> sessions_of u d"
proof -
  let ?email = "ToLower (trim_space email0)" and ?name = "trim_space name0"
  obtain d1 r1 where cu: "CreateUser d uid ?email (the (en_bcrypt v pw)) ?name = (d1, r1)" by fastforce
  have d1: "sessions_of u d1 = sessions_of u d" using cu by (intro sessions_same) (auto simp: CreateUser_def Let_def split: if_splits)
  have new: "ur_id x = uid" if "r1 = Inr x" for x using cu that by (auto simp: CreateUser_def Let_def split: if_splits)
  have "sessions_of u (fst (CreateSession v now d1 sid token uid)) \<le> sessions_of u d"
    using CreateSession_count [of u v now d1 sid token uid] assms d1 by simp
  with cu d1 new show ?thesis by (cases "en_bcrypt v pw"; cases r1) (simp_all add: Register_def Let_def)
qed

text \<open>C28: No request gives a session of an account whose second factor is on without proving that factor: a session
  of such an account appears only at a verification with an open challenge of that account and a
  current code of its stored secret or one of its unused recovery codes.\<close>

theorem second_factor_required:
  assumes "UserByID d u = Some r" and "ur_mfa r" and "registers_as op \<noteq> Some u"
    and "sessions_of u d < sessions_of u (auth_step v (now, op) d)"
  shows "proves_second_factor v now d u op"
proof (cases op)
  case (ReqVerify mt code sid token)
  with assms(4) have "sessions_of u d < sessions_of u (fst (Verify v now d mt code sid token))" by (simp add: auth_step_def)
  from Verify_new_session [OF this] ReqVerify show ?thesis by (auto simp: proves_second_factor_def)
next
  case (ReqLogin sid token email pw)
  with assms Login_count [OF assms(1,2), of v now sid token email pw] show ?thesis by (simp add: auth_step_def)
next
  case (ReqRegister sd uid sid token email pw name)
  with assms Register_count [of uid u v sd now d sid token email pw name] show ?thesis by (simp add: auth_step_def registers_as_def)
next
  case (ReqLogout token)
  have "sessions_of u (Logout v d token) = sessions_of u d" by (simp add: Logout_def RevokeSession_def sessions_of_def sessions_of_update)
  with assms(4) ReqLogout show ?thesis by (simp add: auth_step_def)
next
  case (ReqSetup i random nonce)
  have "sessions_of u (fst (Setup v d i random nonce)) = sessions_of u d"
    by (intro sessions_same) (simp add: Setup_def SetSecret_def set_user_def Let_def)
  with assms(4) ReqSetup show ?thesis by (simp add: auth_step_def)
next
  case (ReqEnable i code random)
  have "sessions_of u (fst (EnableMFA v now d i code random)) = sessions_of u d"
    by (intro sessions_same) (auto simp: EnableMFA_def EnableFlag_def ReplaceRecoveryCodes_def set_user_def Let_def split: option.splits)
  with assms(4) ReqEnable show ?thesis by (simp add: auth_step_def)
next
  case (ReqDisable i pw)
  have "sessions_of u (fst (Disable v d i pw)) = sessions_of u d"
    by (intro sessions_same) (auto simp: Disable_def DisableMFA_def set_user_def Let_def split: option.splits)
  with assms(4) ReqDisable show ?thesis by (simp add: auth_step_def)
next
  case (ReqAdminCreate uid email name pw)
  have "sessions_of u (fst (AdminCreateUser v d uid email name pw)) = sessions_of u d"
    by (intro sessions_same) (auto simp: AdminCreateUser_def CreateUser_def Let_def split: option.splits)
  with assms(4) ReqAdminCreate show ?thesis by (simp add: auth_step_def)
next
  case (OpReset email pw keep)
  have "length (filter (\<lambda>s. sr_user s = u) (filter (\<lambda>s. sr_user s \<noteq> i) xs)) \<le> length (filter (\<lambda>s. sr_user s = u) xs)" for i and xs :: "session_row list"
    by (induction xs) auto
  then have "sessions_of u (fst (resetPassword v d email pw keep)) \<le> sessions_of u d"
    by (auto simp: resetPassword_def set_user_def sessions_of_def Let_def split: option.splits)
  with assms(4) OpReset show ?thesis by (simp add: auth_step_def)
qed

theorem second_factor_required_witness:
  "proves_second_factor auth_sample (2 * minute) sample_challenged 1 (ReqVerify ''t1'' ''ambqgayd-ambqgayd'' 102 ''t2'')"
proof -
  have secret: "stored_secret auth_sample sample_challenged 1 = Some ''AEAQCAIBAEAQCAIBAEAQCAIBAEAQCAIB''" by code_simp
  show ?thesis
  proof (rule second_factor_required [where r = "sample_user True sample_sealed"])
    show "UserByID sample_challenged 1 = Some (sample_user True sample_sealed)"
      by (simp add: UserByID_def by_key_def sample_challenged_def sample_db_def sample_user_def)
    show "ur_mfa (sample_user True sample_sealed)" by (simp add: sample_user_def)
    show "registers_as (ReqVerify ''t1'' ''ambqgayd-ambqgayd'' 102 ''t2'') \<noteq> Some 1" by (simp add: registers_as_def)
    show "sessions_of 1 sample_challenged < sessions_of 1 (auth_step auth_sample (2 * minute, ReqVerify ''t1'' ''ambqgayd-ambqgayd'' 102 ''t2'') sample_challenged)"
      by code_simp
  qed
qed

lemma set_user_lookup:
  assumes "\<And>r. ur_id (f r) = ur_id r"
  shows "UserByID (set_user u f d) u = map_option f (UserByID d u)"
proof -
  have "by_key ur_id u (update_where (\<lambda>r. ur_id r = u) f rs) = map_option f (by_key ur_id u rs)" for rs
    using assms by (induction rs) simp_all
  then show ?thesis by (simp add: UserByID_def set_user_def)
qed

text \<open>The documented behaviour of the encoding and the cipher.\<close>

definition codecs_ok :: "auth_env \<Rightarrow> bool" where
  "codecs_ok v \<longleftrightarrow> (\<forall>s. en_unb64 v (en_b64 v s) = Some s \<and> (s \<noteq> [] \<longrightarrow> en_b64 v s \<noteq> []))
    \<and> (\<forall>n s. en_unseal v n (en_seal v n s) = Some s)"

lemma codecsD:
  assumes "codecs_ok v"
  shows "en_unb64 v (en_b64 v s) = Some s" "s \<noteq> [] \<Longrightarrow> en_b64 v s \<noteq> []" "en_unseal v n (en_seal v n s) = Some s"
  using assms by (auto simp: codecs_ok_def)

lemma Decrypt_Encrypt: "codecs_ok v \<Longrightarrow> length nonce = 12 \<Longrightarrow> Decrypt v (Encrypt v nonce s) = Some s"
  by (simp add: Decrypt_def Encrypt_def codecsD)

lemma stored_after:
  assumes "codecs_ok v" and "length nonce = 12" and "UserByID d u = Some r" and "ur_secret r = en_b64 v (Encrypt v nonce s)"
  shows "SecretEncrypted v d u = Some (Encrypt v nonce s)" and "stored_secret v d u = Some s"
proof -
  have "Encrypt v nonce s \<noteq> []" using assms(2) by (auto simp: Encrypt_def)
  with assms show "SecretEncrypted v d u = Some (Encrypt v nonce s)" by (simp add: SecretEncrypted_def codecsD)
  then show "stored_secret v d u = Some s" using assms by (simp add: stored_secret_def Decrypt_Encrypt)
qed



section \<open>Time-based codes\<close>

lemma alphabet_plain: "c \<in> set b32_alphabet \<Longrightarrow> c \<noteq> CHR '' '' \<and> byte c \<noteq> 196 \<and> byte c \<noteq> 197 \<and> upper_char c = c"
proof -
  have "list_all (\<lambda>c. c \<noteq> CHR '' '' \<and> byte c \<noteq> 196 \<and> byte c \<noteq> 197 \<and> upper_char c = c) b32_alphabet" by code_simp
  then show "c \<in> set b32_alphabet \<Longrightarrow> c \<noteq> CHR '' '' \<and> byte c \<noteq> 196 \<and> byte c \<noteq> 197 \<and> upper_char c = c" by (simp add: list_all_iff)
qed

lemma ToUpper_digits: "set s \<subseteq> set b32_alphabet \<Longrightarrow> ToUpper s = s"
proof (induction s)
  case (Cons c s)
  then have "c \<in> set b32_alphabet" and "ToUpper s = s" by auto
  with alphabet_plain [of c] show ?case by simp
qed simp

lemma secret_key_generated: "5 dvd length random \<Longrightarrow> secret_key (GenerateTOTPSecret random) = Some random"
proof -
  assume d: "5 dvd length random"
  have len: "length b32_alphabet = 32" by code_simp
  have digits: "c \<in> set b32_alphabet" if "c \<in> set (b32_encode random)" for c
  proof -
    from that encode_exact(1) [OF d] obtain n where n: "n \<in> set (digit_groups (bytes_bits random))" "c = b32_alphabet ! n" by auto
    with encode_exact(2) [OF d] len show ?thesis by (auto intro: nth_mem)
  qed
  then have "filter (\<lambda>c. c \<noteq> CHR '' '') (b32_encode random) = b32_encode random"
    using alphabet_plain by (auto simp: filter_id_conv)
  moreover have "ToUpper (b32_encode random) = b32_encode random"
    by (rule ToUpper_digits) (use digits in auto)
  ultimately show ?thesis using b32_roundtrip [OF d] by (simp add: secret_key_def GenerateTOTPSecret_def)
qed

lemma length_nat_str: "n < 10 ^ Suc k \<Longrightarrow> length (nat_str n) \<le> Suc k"
proof (induction k arbitrary: n)
  case (Suc k)
  then have "n div 10 < 10 ^ Suc k" by simp
  from Suc.IH [OF this] show ?case by (subst nat_str.simps) simp
qed (simp add: nat_str.simps)

lemma length_hotp: "length (hotp hmac key n) = 6"
proof -
  have "length (pad_zeros 6 (nat_str (bin mod 1000000))) = 6" for bin
    using length_nat_str [of "bin mod 1000000" 5] by (simp add: pad_zeros_def)
  then show ?thesis by (simp add: hotp_def Let_def)
qed

text \<open>C30: The panel accepts exactly the codes of the three steps around the present one: for a secret it generated,
  a code passes if and only if it is the six-digit code (RFC 4226) of the secret's bytes at the
  current thirty-second step, the one before or the one after.\<close>

theorem totp_window:
  assumes "5 dvd length random"
  shows "VerifyTOTP hmac (GenerateTOTPSecret random) code t \<longleftrightarrow> code \<in> hotp hmac random ` {totp_step t - 1, totp_step t, totp_step t + 1}"
  using secret_key_generated [OF assms] by (auto simp: VerifyTOTP_def length_hotp)

theorem totp_window_witness:
  "VerifyTOTP (en_hmac auth_sample) (GenerateTOTPSecret (replicate 20 CHR 0x01)) ''843009'' 0 \<longleftrightarrow>
    ''843009'' \<in> hotp (en_hmac auth_sample) (replicate 20 CHR 0x01) ` {totp_step 0 - 1, totp_step 0, totp_step 0 + 1}"
  by (rule totp_window) simp

end
