(* ===== verification/RequestGuards.thy ===== *)
theory RequestGuards
  imports Organizations
begin

text \<open>
  The guards every request passes, \<open>internal/httpapi\<close>: scopes of API tokens and the
  administrator gate (\<open>tokenauth.go\<close>), cross-site request forgery (\<open>csrf.go\<close>), the client
  address behind proxies (\<open>clientip.go\<close>), replay of agent frames (\<open>agentreplay.go\<close>) and the
  cap on WebSocket connections (\<open>wsconnlimit.go\<close>); and the permission map of
  \<open>internal/permissions\<close> with its guard \<open>internal/orgauth\<close>. The critical section of a mutex
  is one step.
\<close>

section \<open>Scopes of API tokens\<close>

definition scopeResource :: "string \<Rightarrow> string" where
  "scopeResource r =
    (case map_of
      [(''websites'', ''websites''), (''servers'', ''servers''), (''runtimes'', ''runtimes''),
       (''databases'', ''databases''), (''domains'', ''domains''), (''api-tokens'', ''org''),
       (''service-accounts'', ''org''), (''alerts'', ''alerts''), (''audit-logs'', ''audit''),
       (''members'', ''org''), (''package'', ''org''), (''billing'', ''billing''), (''ssh-keys'', ''websites''),
       (''crons'', ''websites''), (''ftp-accounts'', ''websites''), (''redirects'', ''domains''),
       (''dns-zones'', ''domains''), (''dns-records'', ''domains''), (''files'', ''websites''),
       (''files/content'', ''websites''), (''files/upload'', ''websites''), (''files/download'', ''websites''),
       (''config'', ''websites''), (''application'', ''websites''), (''wordpress'', ''websites''),
       (''usage'', ''websites''), (''events'', ''events'')] r of
       None \<Rightarrow> [] | Some g \<Rightarrow> g)"

definition read_write :: "string \<Rightarrow> string \<Rightarrow> string" where
  "read_write meth grp = grp @ (if meth = ''GET'' then '':read'' else '':write'')"

text \<open>The refinements for what lies under a website; None falls through to the resource.\<close>

definition website_scope :: "string \<Rightarrow> string list \<Rightarrow> string option" where
  "website_scope meth parts =
    (let sub = parts ! 5 in
     if sub \<in> {''deploy'', ''rollback'', ''deployment-config'', ''deployments'', ''promote'', ''staging''}
     then Some (read_write meth ''deployments'')
     else if sub = ''backups'' then Some (read_write meth ''backups'')
     else if sub = ''domains'' \<or> sub = ''redirects'' \<or> sub = ''dns-zone'' then Some (read_write meth ''domains'')
     else if sub = ''ftp-accounts'' \<or> sub = ''quota'' then Some (read_write meth ''websites'')
     else if sub \<in> {''suspend'', ''resume'', ''terminate'', ''purge''} then Some ''websites:write''
     else if sub = ''bandwidth'' then
       Some (if 7 \<le> length parts \<and> parts ! 6 = ''recalculate'' then ''websites:write'' else ''websites:read'')
     else if sub = ''health'' then Some ''monitoring:read''
     else if sub = ''jobs'' then Some ''websites:read''
     else if sub = ''backup-config'' then Some ''backups:write''
     else None)"

definition requiredScope :: "string \<Rightarrow> string \<Rightarrow> string option" where
  "requiredScope meth path =
    (let parts = split_on (CHR ''/'') (trim_slashes path) in
     if length parts < 2 \<or> parts ! 0 \<noteq> ''v1'' \<or> parts ! 1 \<noteq> ''organizations'' then None
     else if length parts \<le> 3 then Some (read_write meth ''org'')
     else
       let resource = parts ! 3;
           refined = (if resource = ''websites'' \<and> 6 \<le> length parts then website_scope meth parts else None)
       in case refined of
            Some sc \<Rightarrow> Some sc
          | None \<Rightarrow>
              if resource = ''backups'' \<and> meth = ''POST'' then Some ''backups:write''
              else if scopeResource resource = [] then None
              else Some (read_write meth (scopeResource resource)))"

definition tokenExempt :: "string \<Rightarrow> bool" where
  "tokenExempt path \<longleftrightarrow> path \<in> {''/v1/auth/me'', ''/v1/ws''}"

definition requiredAdminScope :: "string \<Rightarrow> string \<Rightarrow> string option" where
  "requiredAdminScope meth path =
    (if has_prefix path ''/v1/adminview/'' \<or> has_prefix path ''/v1/admin/''
        \<or> path \<in> {''/v1/jobs'', ''/v1/settings'', ''/v1/audit-logs''}
     then Some (if meth = ''GET'' \<or> meth = ''HEAD'' then ''admin:read'' else ''admin:write'') else None)"

definition needed_scope :: "string \<Rightarrow> string \<Rightarrow> string option" where
  "needed_scope meth path =
    (case requiredAdminScope meth path of Some sc \<Rightarrow> Some sc | None \<Rightarrow> requiredScope meth path)"

definition ScopeEnforce :: "principal option \<Rightarrow> string \<Rightarrow> string \<Rightarrow> org_err + unit" where
  "ScopeEnforce pr meth path =
    (case pr of
       None \<Rightarrow> Inr ()
     | Some p \<Rightarrow>
         if \<not> p_token p then Inr ()
         else if tokenExempt path then Inr ()
         else case needed_scope meth path of
                None \<Rightarrow> Inl OrgForbidden
              | Some sc \<Rightarrow> if sc \<in> set (p_scopes p) then Inr () else Inl OrgForbidden)"

definition RequireAdmin :: "principal option \<Rightarrow> org_err + unit" where
  "RequireAdmin pr =
    (case pr of
       None \<Rightarrow> Inl OrgUnauthorized
     | Some p \<Rightarrow> if \<not> p_admin p then Inl OrgForbidden
                 else if p_token p \<and> \<not> p_platform p then Inl OrgForbidden else Inr ())"

section \<open>Permissions\<close>

definition rolePerms :: "role \<Rightarrow> string list" where
  "rolePerms r = (case r of
     RoleOwner \<Rightarrow> [''server.read'', ''account.read'', ''account.manage'', ''account.create'', ''domain.manage'',
       ''runtime.manage'', ''database.manage'', ''backup.manage'', ''backup.restore'', ''deploy.manage'',
       ''cron.manage'', ''ssh.manage'', ''terminal.access'', ''service.manage'', ''monitor.read'', ''audit.read'',
       ''token.manage'', ''member.manage'']
   | RoleAdmin \<Rightarrow> [''server.read'', ''server.manage'', ''account.read'', ''account.manage'', ''account.create'',
       ''account.suspend'', ''domain.manage'', ''runtime.manage'', ''database.manage'', ''backup.manage'',
       ''backup.restore'', ''deploy.manage'', ''cron.manage'', ''ssh.manage'', ''terminal.access'',
       ''service.manage'', ''monitor.read'', ''audit.read'', ''token.manage'', ''member.manage'']
   | RoleReseller \<Rightarrow> [''server.read'', ''account.read'', ''account.manage'', ''account.create'', ''account.suspend'',
       ''domain.manage'', ''database.manage'', ''backup.manage'', ''deploy.manage'', ''monitor.read'',
       ''service.manage'', ''member.manage'']
   | RoleDeveloper \<Rightarrow> [''server.read'', ''account.read'', ''account.manage'', ''account.create'', ''domain.manage'',
       ''runtime.manage'', ''database.manage'', ''backup.manage'', ''deploy.manage'', ''cron.manage'',
       ''ssh.manage'', ''terminal.access'', ''service.manage'', ''monitor.read'']
   | RoleBilling \<Rightarrow> [''account.read'', ''billing.manage'', ''service.manage'', ''monitor.read'', ''audit.read'']
   | RoleSupport \<Rightarrow> [''server.read'', ''account.read'', ''monitor.read'', ''terminal.access''])"

definition Can :: "role \<Rightarrow> string \<Rightarrow> bool" where
  "Can r perm \<longleftrightarrow> perm \<in> set (rolePerms r)"

definition tokenScopeMap :: "(string \<times> string) list" where
  "tokenScopeMap =
    [(''server.read'', ''servers:read''), (''server.manage'', ''servers:write''), (''account.read'', ''websites:read''),
     (''account.create'', ''websites:write''), (''account.manage'', ''websites:write''),
     (''domain.manage'', ''domains:write''), (''runtime.manage'', ''runtimes:write''),
     (''database.manage'', ''databases:write''), (''backup.manage'', ''backups:write''),
     (''backup.restore'', ''backups:write''), (''deploy.manage'', ''deployments:write''),
     (''cron.manage'', ''websites:write''), (''ssh.manage'', ''websites:write''), (''monitor.read'', ''monitoring:read''),
     (''member.manage'', ''org:write''), (''token.manage'', ''org:write''), (''audit.read'', ''audit:read'')]"

definition TokenScopeFor :: "string \<Rightarrow> string option" where
  "TokenScopeFor perm = map_of tokenScopeMap perm"

definition RequireOrgPermission ::
    "(string \<Rightarrow> uid option) \<Rightarrow> (uid \<Rightarrow> string) \<Rightarrow> orgs \<Rightarrow> principal option \<Rightarrow> string \<Rightarrow> string \<Rightarrow> org_err + uid" where
  "RequireOrgPermission parse us d pr raw perm =
    (case pr of
       None \<Rightarrow> Inl OrgUnauthorized
     | Some p \<Rightarrow>
         (case parse raw of
            None \<Rightarrow> Inl OrgValidation
          | Some org \<Rightarrow>
              if p_admin p \<and> \<not> p_token p then Inr org
              else if p_token p then
                (if p_bound p \<noteq> us org then Inl OrgNotFound
                 else case TokenScopeFor perm of
                        None \<Rightarrow> Inr org
                      | Some sc \<Rightarrow> if sc \<in> set (p_scopes p) then Inr org else Inl OrgForbidden)
              else case p_user p of
                     None \<Rightarrow> Inl OrgInternal
                   | Some u \<Rightarrow>
                       (case RoleFor d org u of
                          None \<Rightarrow> Inl OrgNotFound
                        | Some r \<Rightarrow> if Can r perm then Inr org else Inl OrgForbidden)))"

section \<open>Cross-site requests\<close>

definition CSRFGuard :: "string \<Rightarrow> bool \<Rightarrow> bool \<Rightarrow> string \<Rightarrow> org_err + unit" where
  "CSRFGuard meth isToken hasCookie header =
    (if meth \<in> {''POST'', ''PUT'', ''PATCH'', ''DELETE''} \<and> \<not> isToken \<and> hasCookie \<and> header \<noteq> ''1''
     then Inl OrgForbidden else Inr ())"

section \<open>The client's address\<close>

type_synonym ipnet = "nat list \<times> nat"

text \<open>\<open>IP.Mask\<close> with a prefix of \<open>n\<close> bits.\<close>

fun mask_bits :: "nat \<Rightarrow> nat list \<Rightarrow> nat list" where
  "mask_bits n [] = []"
| "mask_bits n (b # bs) = (if n = 0 then 0 else if n < 8 then b - b mod 2 ^ (8 - n) else b) # mask_bits (n - 8) bs"

definition ip_bytes :: "netip \<Rightarrow> nat list" where
  "ip_bytes a = (case a of IPv4 q \<Rightarrow> q | IPv6 b \<Rightarrow> b)"

definition canonical :: "nat list \<Rightarrow> nat list" where
  "canonical bs = (if length bs = 16 \<and> take 12 bs = replicate 10 0 @ [255, 255] then drop 12 bs else bs)"

definition parse_net :: "string \<Rightarrow> ipnet option" where
  "parse_net s = map_option (\<lambda>(a, n). (mask_bits n (ip_bytes a), n)) (ParseCIDR s)"

text \<open>\<open>IPNet.Contains\<close>: the shorter form of both sides; the mask of a 16-byte network that
  reads as an IPv4 one is its last four bytes.\<close>

definition net_contains :: "ipnet \<Rightarrow> netip \<Rightarrow> bool" where
  "net_contains net a =
    (case net of (base, n) \<Rightarrow>
      let nn = canonical base; k = (if length nn = 4 \<and> length base = 16 then n - 96 else n);
          x = canonical (ip_bytes a)
      in length x = length nn \<and> mask_bits k x = mask_bits k nn)"

record proxies =
  tp_nets :: "ipnet list"
  tp_loopback :: bool

definition trust_one :: "proxies \<Rightarrow> string \<Rightarrow> proxies" where
  "trust_one t raw =
    (let c = trim_space raw in
     if c = [] then t
     else if c = ''loopback=false'' then t\<lparr>tp_loopback := False\<rparr>
     else case parse_net (if contains c ''/'' then c else c @ ''/32'') of
            None \<Rightarrow> t | Some n \<Rightarrow> t\<lparr>tp_nets := tp_nets t @ [n]\<rparr>)"

definition ConfigureTrustedProxies :: "proxies \<Rightarrow> string list \<Rightarrow> proxies" where
  "ConfigureTrustedProxies t cidrs = foldl trust_one (t\<lparr>tp_nets := []\<rparr>) cidrs"

definition IsLoopback :: "netip \<Rightarrow> bool" where
  "IsLoopback a = (case To4 a of Some q \<Rightarrow> hd q = 127 | None \<Rightarrow> ip_bytes a = replicate 15 0 @ [1])"

definition isTrustedPeer :: "proxies \<Rightarrow> netip \<Rightarrow> bool" where
  "isTrustedPeer t a \<longleftrightarrow> (IsLoopback a \<and> tp_loopback t) \<or> list_ex (\<lambda>n. net_contains n a) (tp_nets t)"

text \<open>The hops from right to left.\<close>

fun last_untrusted :: "proxies \<Rightarrow> string \<Rightarrow> string list \<Rightarrow> string" where
  "last_untrusted t host [] = host"
| "last_untrusted t host (h # hs) =
    (case ParseIP (trim_space h) of
       None \<Rightarrow> host
     | Some a \<Rightarrow> if isTrustedPeer t a then last_untrusted t host hs else trim_space h)"

text \<open>\<open>host\<close> is the host part of the connection's address.\<close>

definition ClientIP :: "proxies \<Rightarrow> string \<Rightarrow> string \<Rightarrow> string" where
  "ClientIP t host fwd =
    (case ParseIP host of
       None \<Rightarrow> host
     | Some peer \<Rightarrow>
         if \<not> isTrustedPeer t peer then host
         else if fwd = [] then host
         else last_untrusted t host (rev (split_on (CHR '','') fwd)))"

section \<open>Replay of agent frames\<close>

record seq_entry =
  se_seq :: int
  se_ts :: int
  se_seen :: time

type_synonym replay = "string \<Rightarrow> seq_entry option"

definition replay_idle :: duration where
  "replay_idle = 48 * hour"

definition evict :: "replay \<Rightarrow> time \<Rightarrow> replay" where
  "evict r now = (\<lambda>k. case r k of None \<Rightarrow> None
     | Some e \<Rightarrow> if se_seen e < now - replay_idle then None else Some e)"

definition unix_milli :: "time \<Rightarrow> int" where
  "unix_milli t = t div 1000000"

definition Advance :: "replay \<Rightarrow> time \<Rightarrow> string \<Rightarrow> int \<Rightarrow> int \<Rightarrow> replay \<times> bool" where
  "Advance r now k seq ts =
    (if (case r k of None \<Rightarrow> False | Some e \<Rightarrow> seq \<le> se_seq e) then (r, False)
     else if 0 < ts \<and> unix_milli now + 5 * 60 * 1000 < ts then (r, False)
     else (r(k \<mapsto> \<lparr>se_seq = seq, se_ts = ts, se_seen = now\<rparr>), True))"

datatype replay_err = ReplayUnauthorized | ReplayValidation | ReplayedFrame

definition AgentReplayGuard ::
    "replay \<Rightarrow> time \<Rightarrow> string \<Rightarrow> string \<Rightarrow> string \<Rightarrow> string \<Rightarrow> string option \<Rightarrow> replay \<times> (replay_err + unit)" where
  "AgentReplayGuard r now meth path seqH tsH agent =
    (if meth = ''POST'' \<and> has_suffix path ''/v1/agent/enroll'' then (r, Inr ())
     else if seqH = [] \<and> tsH = [] then (r, Inr ())
     else case agent of
            None \<Rightarrow> (r, Inl ReplayUnauthorized)
          | Some k \<Rightarrow>
              if k = [] then (r, Inl ReplayUnauthorized)
              else case parse_int seqH of
                     None \<Rightarrow> (r, Inl ReplayValidation)
                   | Some seq \<Rightarrow>
                       if seq < 0 then (r, Inl ReplayValidation)
                       else case (if tsH = [] then Some 0 else parse_int tsH) of
                              None \<Rightarrow> (r, Inl ReplayValidation)
                            | Some ts \<Rightarrow>
                                if ts < 0 then (r, Inl ReplayValidation)
                                else let moved = Advance r now k seq ts
                                     in (fst moved, if snd moved then Inr () else Inl ReplayedFrame))"

section \<open>WebSocket connections\<close>

record ws_limiter =
  ws_principal :: "string \<Rightarrow> nat option"
  ws_ip :: "string \<Rightarrow> nat option"
  ws_max_principal :: int
  ws_max_ip :: int

definition NewWSConnLimiter :: "int \<Rightarrow> int \<Rightarrow> ws_limiter" where
  "NewWSConnLimiter mp mi = \<lparr>ws_principal = (\<lambda>_. None), ws_ip = (\<lambda>_. None),
     ws_max_principal = (if mp \<le> 0 then 8 else mp), ws_max_ip = (if mi \<le> 0 then 32 else mi)\<rparr>"

definition tally :: "(string \<Rightarrow> nat option) \<Rightarrow> string \<Rightarrow> nat" where
  "tally m k = (case m k of None \<Rightarrow> 0 | Some n \<Rightarrow> n)"

definition release :: "(string \<Rightarrow> nat option) \<Rightarrow> string \<Rightarrow> string \<Rightarrow> nat option" where
  "release m k = (let n = tally m k - 1 in m(k := if n = 0 then None else Some n))"

text \<open>The two critical sections of \<open>Middleware\<close>: before and after the wrapped handler.\<close>

definition ws_open :: "ws_limiter \<Rightarrow> string \<Rightarrow> string \<Rightarrow> ws_limiter \<times> bool" where
  "ws_open l p ip =
    (if p \<noteq> [] \<and> ws_max_principal l \<le> int (tally (ws_principal l) p) then (l, False)
     else if ws_max_ip l \<le> int (tally (ws_ip l) ip) then (l, False)
     else (l\<lparr>ws_principal := (if p = [] then ws_principal l else (ws_principal l)(p \<mapsto> tally (ws_principal l) p + 1)),
             ws_ip := (ws_ip l)(ip \<mapsto> tally (ws_ip l) ip + 1)\<rparr>, True))"

definition ws_close :: "ws_limiter \<Rightarrow> string \<Rightarrow> string \<Rightarrow> ws_limiter" where
  "ws_close l p ip =
    l\<lparr>ws_principal := (if p = [] then ws_principal l else release (ws_principal l) p),
      ws_ip := release (ws_ip l) ip\<rparr>"

section \<open>Properties of the guards\<close>

lemma needed_scope_held:
  "ScopeEnforce (Some p) meth path = Inr () \<Longrightarrow> p_token p \<Longrightarrow>
    tokenExempt path \<or> (\<exists>sc \<in> set (p_scopes p). needed_scope meth path = Some sc)"
  by (auto simp: ScopeEnforce_def split: if_splits option.splits)

lemma minimum_role_token:
  assumes "RequireMinimumRole parse d (Some p) raw least = Inr org" and "p_token p" and "\<not> p_admin p"
  shows "p_bound p = raw" and "parse raw = Some org"
    and "\<exists>u r. p_user p = Some u \<and> RoleFor d org u = Some r \<and> RoleRank least \<le> RoleRank r"
  using assms by (auto simp: RequireMinimumRole_def not_less split: option.splits if_splits)

text \<open>C21: An organization's API token is confined: a request that passes the scope guard and the
  role guard of an organization route names exactly the organization the token was issued for,
  the token's creator still holds at least the role the route asks for, the route is exempt or
  one of the token's scopes is the scope its method and path need; and the administrator gate
  refuses the token everywhere.\<close>

theorem token_request_confined:
  assumes "authenticate us (Some (OrgToken u org scopes)) = Some p"
    and "ScopeEnforce (Some p) meth path = Inr ()"
    and "RequireMinimumRole parse d (Some p) raw least = Inr served"
  shows "raw = us org \<and> parse raw = Some served
    \<and> (\<exists>r. RoleFor d served u = Some r \<and> RoleRank least \<le> RoleRank r)
    \<and> (tokenExempt path \<or> (\<exists>sc \<in> set scopes. needed_scope meth path = Some sc))
    \<and> RequireAdmin (Some p) = Inl OrgForbidden"
proof -
  have p: "p = \<lparr>p_user = Some u, p_admin = False, p_token = True, p_platform = False, p_bound = us org, p_scopes = scopes\<rparr>"
    using assms(1) by (simp add: authenticate_def)
  then show ?thesis
    using needed_scope_held [OF assms(2)] minimum_role_token [OF assms(3)] by (auto simp: RequireAdmin_def)
qed

lemma token_request_confined_witness:
  "tokenExempt ''/v1/organizations/1/members'' \<or>
     (\<exists>sc \<in> set [''org:read'']. needed_scope ''GET'' ''/v1/organizations/1/members'' = Some sc)"
proof -
  let ?p = "\<lparr>p_user = Some 6, p_admin = False, p_token = True, p_platform = False, p_bound = ''1'', p_scopes = [''org:read'']\<rparr>"
  have "authenticate (\<lambda>_. ''1'') (Some (OrgToken 6 1 [''org:read''])) = Some ?p" by (simp add: authenticate_def)
  moreover have "ScopeEnforce (Some ?p) ''GET'' ''/v1/organizations/1/members'' = Inr ()" by code_simp
  moreover have "RequireMinimumRole sample_parse sample_orgs (Some ?p) ''1'' RoleAdmin = Inr 1" by code_simp
  ultimately show ?thesis using token_request_confined by blast
qed

lemma split_on_append: "split_on d (s @ d # t) = split_on d s @ split_on d t"
proof (induction s)
  case Nil
  show ?case by (cases "split_on d t") (auto simp: split_on_Cons)
next
  case (Cons c s)
  then show ?case by (cases "split_on d s") (auto simp: split_on_Cons)
qed

definition vouched :: "proxies \<Rightarrow> string \<Rightarrow> bool" where
  "vouched t h \<longleftrightarrow> (case ParseIP (trim_space h) of None \<Rightarrow> False | Some a \<Rightarrow> isTrustedPeer t a)"

lemma last_untrusted_append:
  "\<not> list_all (vouched t) hs \<Longrightarrow> last_untrusted t host (hs @ hs') = last_untrusted t host hs"
  by (induction hs) (auto simp: vouched_def split: option.splits)

text \<open>The client cannot choose its address: what the trusted proxies append on the right
  decides. Unless every hop of the appended part is itself a trusted proxy, whatever the client
  sent on the left of it leaves the resolved address unchanged.\<close>

theorem client_ip_unspoofable:
  assumes "\<not> list_all (vouched t) (split_on (CHR '','') appended)"
  shows "ClientIP t host (sent @ CHR '','' # appended) = ClientIP t host appended"
proof -
  have rev: "\<not> list_all (vouched t) (rev (split_on (CHR '','') appended))"
    using assms by (simp add: list_all_iff)
  have "last_untrusted t host (rev (split_on (CHR '','') [])) = host"
  proof -
    have "ParseIP (trim_space []) = None" by code_simp
    then show ?thesis by simp
  qed
  then show ?thesis
    using last_untrusted_append [OF rev] by (auto simp: ClientIP_def split_on_append split: option.splits)
qed

lemma client_ip_unspoofable_witness:
  "ClientIP \<lparr>tp_nets = [], tp_loopback = True\<rparr> ''127.0.0.1'' (''10.0.0.1'' @ CHR '','' # ''8.8.4.4'')
    = ClientIP \<lparr>tp_nets = [], tp_loopback = True\<rparr> ''127.0.0.1'' ''8.8.4.4''"
proof (rule client_ip_unspoofable)
  show "\<not> list_all (vouched \<lparr>tp_nets = [], tp_loopback = True\<rparr>) (split_on (CHR '','') ''8.8.4.4'')" by code_simp
qed

section \<open>Runs of the replay store\<close>

datatype replay_event = FrameAt time string string string string "string option" | EvictAt time

fun event_time :: "replay_event \<Rightarrow> time" where
  "event_time (FrameAt t _ _ _ _ _) = t"
| "event_time (EvictAt t) = t"

fun replay_step :: "replay \<Rightarrow> replay_event \<Rightarrow> replay" where
  "replay_step r (FrameAt t meth path seqH tsH agent) = fst (AgentReplayGuard r t meth path seqH tsH agent)"
| "replay_step r (EvictAt t) = evict r t"

definition replay_run :: "replay \<Rightarrow> replay_event list \<Rightarrow> replay" where
  "replay_run r evs = foldl replay_step r evs"

definition holds_mark :: "time \<Rightarrow> string \<Rightarrow> int \<Rightarrow> replay \<Rightarrow> bool" where
  "holds_mark now k seq r \<longleftrightarrow> (\<exists>e. r k = Some e \<and> seq \<le> se_seq e \<and> now \<le> se_seen e)"

lemma guard_cases:
  assumes "AgentReplayGuard r now meth path seqH tsH agent = (r', res)"
  shows "r' = r \<or> (\<exists>k seq ts. r' = fst (Advance r now k seq ts))"
  using assms by (auto simp: AgentReplayGuard_def Let_def split: if_splits option.splits)

lemma advance_mark:
  assumes "holds_mark now k seq r" and "now \<le> t"
  shows "holds_mark now k seq (fst (Advance r t k' seq' ts'))"
  using assms by (auto simp: holds_mark_def Advance_def)

lemma step_mark:
  assumes "holds_mark now k seq r" and "now \<le> event_time ev" and "event_time ev \<le> now + replay_idle"
  shows "holds_mark now k seq (replay_step r ev)"
proof (cases ev)
  case (FrameAt t meth path seqH tsH agent)
  obtain r' res where g: "AgentReplayGuard r t meth path seqH tsH agent = (r', res)" by fastforce
  from guard_cases [OF g] show ?thesis
  proof
    assume "r' = r"
    then show ?thesis using FrameAt g assms(1) by simp
  next
    assume "\<exists>k seq ts. r' = fst (Advance r t k seq ts)"
    then show ?thesis using FrameAt g advance_mark [OF assms(1)] assms(2) by auto
  qed
next
  case (EvictAt t)
  then show ?thesis using assms by (auto simp: holds_mark_def evict_def)
qed

lemma run_mark:
  "holds_mark now k seq r \<Longrightarrow> \<forall>ev \<in> set evs. now \<le> event_time ev \<and> event_time ev \<le> now + replay_idle \<Longrightarrow>
    holds_mark now k seq (replay_run r evs)"
  by (induction evs arbitrary: r) (auto simp: replay_run_def step_mark)

lemma guard_accepts:
  assumes "AgentReplayGuard r now meth path seqH tsH (Some k) = (r', Inr ())"
    and "\<not> has_suffix path ''/v1/agent/enroll''" and "parse_int seqH = Some seq"
  shows "\<exists>ts. Advance r now k seq ts = (r', True)"
proof -
  have "seqH \<noteq> []"
  proof
    assume "seqH = []"
    moreover have "parse_int [] = None" by code_simp
    ultimately show False using assms(3) by simp
  qed
  then show ?thesis
    using assms by (force simp: AgentReplayGuard_def Let_def prod_eq_iff split: if_splits option.splits)
qed

lemma advance_accepts: "Advance r now k seq ts = (r', True) \<Longrightarrow> holds_mark now k seq r'"
  by (auto simp: Advance_def holds_mark_def split: if_splits)

lemma advance_refuses: "holds_mark now k seq r \<Longrightarrow> seq' \<le> seq \<Longrightarrow> Advance r t k seq' ts = (r, False)"
  by (auto simp: Advance_def holds_mark_def)

text \<open>A captured agent frame cannot be replayed: once a numbered frame of an agent was
  accepted, then whatever frames of any agents arrive and whatever sweeps run during the next
  48 hours, a frame of the same agent whose number is the same or smaller is refused and
  changes nothing.\<close>

theorem replay_refused:
  assumes "AgentReplayGuard r now meth path seqH tsH (Some k) = (r', Inr ())"
    and "\<not> has_suffix path ''/v1/agent/enroll''" and "parse_int seqH = Some seq"
    and "\<forall>ev \<in> set evs. now \<le> event_time ev \<and> event_time ev \<le> now + replay_idle"
    and "\<not> has_suffix path' ''/v1/agent/enroll''" and "parse_int seqH' = Some seq'" and "seq' \<le> seq"
  shows "\<exists>e. AgentReplayGuard (replay_run r' evs) later meth' path' seqH' tsH' (Some k) = (replay_run r' evs, Inl e)"
proof -
  have mark: "holds_mark now k seq (replay_run r' evs)"
    using guard_accepts [OF assms(1-3)] advance_accepts run_mark [OF _ assms(4)] by blast
  have ne: "seqH' \<noteq> []"
  proof
    assume "seqH' = []"
    moreover have "parse_int [] = None" by code_simp
    ultimately show False using assms(6) by simp
  qed
  show ?thesis
    using advance_refuses [OF mark assms(7)] assms(5,6) ne
    by (auto simp: AgentReplayGuard_def Let_def split: option.splits)
qed

lemma replay_refused_witness:
  "\<exists>e. AgentReplayGuard (replay_run (fst (AgentReplayGuard (\<lambda>_. None) 0 ''POST'' ''/v1/agent/claim'' ''7'' [] (Some ''k'')))
        [EvictAt (47 * hour)]) (48 * hour) ''POST'' ''/v1/agent/claim'' ''7'' [] (Some ''k'')
      = (replay_run (fst (AgentReplayGuard (\<lambda>_. None) 0 ''POST'' ''/v1/agent/claim'' ''7'' [] (Some ''k'')))
        [EvictAt (47 * hour)], Inl e)"
proof -
  let ?g = "AgentReplayGuard (\<lambda>_. None) 0 ''POST'' ''/v1/agent/claim'' ''7'' [] (Some ''k'')"
  have acc: "?g = (fst ?g, Inr ())"
  proof -
    have "snd ?g = Inr ()" by code_simp
    then show ?thesis by (metis prod.collapse)
  qed
  have no: "\<not> has_suffix ''/v1/agent/claim'' ''/v1/agent/enroll''" and seven: "parse_int ''7'' = Some 7" by code_simp+
  have "\<forall>ev \<in> set [EvictAt (47 * hour)]. 0 \<le> event_time ev \<and> event_time ev \<le> 0 + replay_idle"
    by code_simp
  then show ?thesis using replay_refused [OF acc no seven _ no seven] by simp
qed

section \<open>Runs of the connection limiter\<close>

datatype ws_event = Connect string string | Disconnect string string

text \<open>The abstract state is the list of the open connections, each with its principal and its
  address.\<close>

type_synonym ws_state = "ws_limiter \<times> (string \<times> string) list"

fun ws_step :: "ws_state \<Rightarrow> ws_event \<Rightarrow> ws_state" where
  "ws_step (l, cs) (Connect p ip) = (case ws_open l p ip of (l', ok) \<Rightarrow> (l', if ok then (p, ip) # cs else cs))"
| "ws_step (l, cs) (Disconnect p ip) =
     (if (p, ip) \<in> set cs then (ws_close l p ip, remove1 (p, ip) cs) else (l, cs))"

definition conns_of :: "string \<Rightarrow> (string \<times> string) list \<Rightarrow> nat" where
  "conns_of p cs = length (filter (\<lambda>c. fst c = p) cs)"

definition conns_from :: "string \<Rightarrow> (string \<times> string) list \<Rightarrow> nat" where
  "conns_from ip cs = length (filter (\<lambda>c. snd c = ip) cs)"

definition exact :: "(string \<Rightarrow> nat option) \<Rightarrow> (string \<Rightarrow> nat) \<Rightarrow> bool" where
  "exact m count \<longleftrightarrow> (\<forall>k. m k = (if count k = 0 then None else Some (count k)))"

lemma exact_tally: "exact m count \<Longrightarrow> tally m k = count k"
  by (simp add: exact_def tally_def)

lemma exact_add: "exact m count \<Longrightarrow> exact (m(k \<mapsto> tally m k + 1)) (count(k := count k + 1))"
  by (simp add: exact_tally) (simp add: exact_def)

lemma exact_release: "exact m count \<Longrightarrow> exact (release m k) (count(k := count k - 1))"
  by (simp add: release_def Let_def exact_tally) (simp add: exact_def)

definition ws_inv :: "ws_state \<Rightarrow> bool" where
  "ws_inv st \<longleftrightarrow> (case st of (l, cs) \<Rightarrow>
     exact (ws_principal l) (\<lambda>p. if p = [] then 0 else conns_of p cs) \<and> exact (ws_ip l) (\<lambda>ip. conns_from ip cs)
     \<and> (\<forall>p. p \<noteq> [] \<longrightarrow> int (conns_of p cs) \<le> ws_max_principal l) \<and> (\<forall>ip. int (conns_from ip cs) \<le> ws_max_ip l))"

lemma conns_remove1:
  "conns_of q (remove1 c cs) = (if c \<in> set cs \<and> q = fst c then conns_of q cs - 1 else conns_of q cs)"
  "conns_from h (remove1 c cs) = (if c \<in> set cs \<and> h = snd c then conns_from h cs - 1 else conns_from h cs)"
  by (auto simp: conns_of_def conns_from_def filter_remove1 length_remove1 remove1_idem)

lemma conns_Cons:
  "conns_of q ((p, ip) # cs) = (if q = p then conns_of q cs + 1 else conns_of q cs)"
  "conns_from h ((p, ip) # cs) = (if h = ip then conns_from h cs + 1 else conns_from h cs)"
  by (auto simp: conns_of_def conns_from_def)

lemma ws_inv_step: "ws_inv st \<Longrightarrow> ws_inv (ws_step st ev)"
proof -
  assume inv: "ws_inv st"
  obtain l cs where st: "st = (l, cs)" by fastforce
  have tp: "p \<noteq> [] \<Longrightarrow> tally (ws_principal l) p = conns_of p cs" and ti: "tally (ws_ip l) ip = conns_from ip cs" for p ip
    using inv st by (auto simp: ws_inv_def exact_tally)
  show ?thesis
  proof (cases ev)
    case (Connect p ip)
    show ?thesis
    proof (cases "snd (ws_open l p ip)")
      case True
      let ?l = "l\<lparr>ws_principal := (if p = [] then ws_principal l else (ws_principal l)(p \<mapsto> tally (ws_principal l) p + 1)),
             ws_ip := (ws_ip l)(ip \<mapsto> tally (ws_ip l) ip + 1)\<rparr>"
      have l': "ws_open l p ip = (?l, True)"
        and room: "p \<noteq> [] \<Longrightarrow> int (conns_of p cs) < ws_max_principal l" "int (conns_from ip cs) < ws_max_ip l"
        using True tp ti by (auto simp: ws_open_def split: if_splits)
      have "exact (ws_principal ?l) (\<lambda>q. if q = [] then 0 else conns_of q ((p, ip) # cs))"
        using inv st tp [of p] by (auto simp: ws_inv_def exact_def conns_Cons)
      moreover have "exact (ws_ip ?l) (\<lambda>h. conns_from h ((p, ip) # cs))"
        using inv st ti [of ip] by (auto simp: ws_inv_def exact_def conns_Cons)
      moreover have "\<forall>q. q \<noteq> [] \<longrightarrow> int (conns_of q ((p, ip) # cs)) \<le> ws_max_principal l"
        "\<forall>h. int (conns_from h ((p, ip) # cs)) \<le> ws_max_ip l"
        using inv st room by (auto simp: ws_inv_def conns_Cons)
      ultimately show ?thesis using st Connect l' by (simp add: ws_inv_def)
    next
      case False
      then have "ws_open l p ip = (l, False)" by (auto simp: ws_open_def split: if_splits)
      then show ?thesis using inv st Connect by simp
    qed
  next
    case (Disconnect p ip)
    show ?thesis
    proof (cases "(p, ip) \<in> set cs")
      case True
      have "exact (ws_principal (ws_close l p ip)) (\<lambda>q. if q = [] then 0 else conns_of q (remove1 (p, ip) cs))"
        using inv st tp [of p] True by (auto simp: ws_inv_def exact_def ws_close_def release_def Let_def conns_remove1)
      moreover have "exact (ws_ip (ws_close l p ip)) (\<lambda>h. conns_from h (remove1 (p, ip) cs))"
        using inv st ti [of ip] True by (auto simp: ws_inv_def exact_def ws_close_def release_def Let_def conns_remove1)
      moreover have "int (n - 1) \<le> m" if "int n \<le> m" for n m using that by simp
      then have "\<forall>q. q \<noteq> [] \<longrightarrow> int (conns_of q (remove1 (p, ip) cs)) \<le> ws_max_principal l"
        "\<forall>h. int (conns_from h (remove1 (p, ip) cs)) \<le> ws_max_ip l"
        using inv st by (auto simp: ws_inv_def conns_remove1)
      ultimately show ?thesis using st Disconnect True by (simp add: ws_inv_def ws_close_def)
    next
      case False
      then show ?thesis using inv st Disconnect by simp
    qed
  qed
qed

definition ws_run :: "int \<Rightarrow> int \<Rightarrow> ws_event list \<Rightarrow> ws_state" where
  "ws_run mp mi evs = foldl ws_step (NewWSConnLimiter mp mi, []) evs"

lemma ws_run_inv: "ws_inv (ws_run mp mi evs)"
proof -
  have "ws_inv (NewWSConnLimiter mp mi, [])"
    by (simp add: ws_inv_def exact_def NewWSConnLimiter_def conns_of_def conns_from_def)
  then have "ws_inv (foldl ws_step st evs)" if "ws_inv st" for st evs
    using that by (induction evs arbitrary: st) (auto simp: ws_inv_step)
  then show ?thesis using \<open>ws_inv (NewWSConnLimiter mp mi, [])\<close> by (simp add: ws_run_def)
qed

lemma ws_run_max: "ws_max_principal (fst (ws_run mp mi evs)) = (if mp \<le> 0 then 8 else mp)
    \<and> ws_max_ip (fst (ws_run mp mi evs)) = (if mi \<le> 0 then 32 else mi)"
proof -
  have step: "ws_max_principal (fst (ws_step st ev)) = ws_max_principal (fst st) \<and> ws_max_ip (fst (ws_step st ev)) = ws_max_ip (fst st)" for st ev
    by (cases st; cases ev) (auto simp: ws_open_def ws_close_def)
  have "ws_max_principal (fst (foldl ws_step st evs)) = ws_max_principal (fst st) \<and> ws_max_ip (fst (foldl ws_step st evs)) = ws_max_ip (fst st)" for st
    by (induction evs arbitrary: st) (auto simp: step)
  then show ?thesis by (simp add: ws_run_def NewWSConnLimiter_def)
qed

text \<open>The connection limiter counts exactly: after any sequence of attempted and closed
  connections the table of an address holds the number of connections open from it (and no entry
  when there is none), the table of principals likewise, and neither number exceeds its limit,
  with the defaults 8 and 32 for limits that are not positive.\<close>

theorem ws_counts_exact:
  "case ws_run mp mi evs of (l, conns) \<Rightarrow>
     ws_ip l ip = (if conns_from ip conns = 0 then None else Some (conns_from ip conns))
     \<and> ws_principal l (c # p) = (if conns_of (c # p) conns = 0 then None else Some (conns_of (c # p) conns))
     \<and> int (conns_from ip conns) \<le> (if mi \<le> 0 then 32 else mi)
     \<and> int (conns_of (c # p) conns) \<le> (if mp \<le> 0 then 8 else mp)"
  using ws_run_inv [of mp mi evs] ws_run_max [of mp mi evs] by (auto simp: ws_inv_def exact_def split: prod.splits)

section \<open>Bare IPv6 proxies\<close>

lemma v6_groups_length:
  "v6_groups acc ell s = Some (r, e) \<Longrightarrow> length acc \<le> 16 \<Longrightarrow> even (length acc) \<Longrightarrow> length r \<le> 16"
proof (induction acc ell s rule: v6_groups.induct)
  case (1 acc ell s)
  have two: "length acc + 2 \<le> 16" if "\<not> 16 \<le> length acc" using that "1.prems"(3) by presburger
  have four: "parse_ipv4 q = Some x \<Longrightarrow> length x = 4" for q x
    by (auto simp: parse_ipv4_def Let_def split: if_splits)
  show ?case
    using "1.prems" two "1.IH"(1) [OF _ refl refl] "1.IH"(2) [OF _ refl refl]
    by (subst (asm) v6_groups.simps) (auto simp: Let_def four split: if_splits option.splits)
qed

lemma parse_ipv6_length: "parse_ipv6 s = Some b \<Longrightarrow> length b = 16"
proof -
  have "expand x = Some b \<Longrightarrow> length (fst x) \<le> 16 \<Longrightarrow> length b = 16" for x
    by (auto simp: expand_def split: prod.splits if_splits option.splits)
  then show "parse_ipv6 s = Some b \<Longrightarrow> length b = 16"
    using v6_groups_length by (fastforce simp: parse_ipv6_def split: if_splits option.splits)
qed

lemma all_digits_ip_slash: "ParseIP c = Some a \<Longrightarrow> takeWhile (\<lambda>x. x \<noteq> CHR ''/'') (c @ ''/32'') = c"
proof -
  assume "ParseIP c = Some a"
  then have "list_all ip_char c" by (rule ParseIP_chars)
  then have "\<forall>x \<in> set c. x \<noteq> CHR ''/''" by (auto simp: list_all_iff ip_char_def is_hex_def is_digit_def byte_values)
  then show ?thesis by (simp add: takeWhile_append2)
qed

lemma bare_cidr: "ParseIP c = Some (IPv6 b) \<Longrightarrow> ParseCIDR (c @ ''/32'') = Some (IPv6 b, 32)"
proof -
  assume p: "ParseIP c = Some (IPv6 b)"
  have t: "takeWhile (\<lambda>x. x \<noteq> CHR ''/'') (c @ ''/32'') = c" using all_digits_ip_slash [OF p] .
  then have "dropWhile (\<lambda>x. x \<noteq> CHR ''/'') (c @ ''/32'') = ''/32''"
    by (metis append_same_eq same_append_eq takeWhile_dropWhile_id)
  moreover have "all_digits ''32''" "digits_val 0 ''32'' = 32" by code_simp+
  ultimately show ?thesis using p t by (simp add: ParseCIDR_def bit_len_def)
qed

lemma mask_bits_0: "mask_bits 0 x = replicate (length x) 0"
  by (induction x) auto

lemma mask_bits_32: "4 \<le> length b \<Longrightarrow> mask_bits 32 b = take 4 b @ replicate (length b - 4) 0"
  by (auto simp: mask_bits_0 numeral_eq_Suc dest!: Suc_le_length_iff [THEN iffD1])

lemma not_mapped_32: "length b = 16 \<Longrightarrow> canonical (mask_bits 32 b) = mask_bits 32 b"
proof -
  assume b: "length b = 16"
  have "mask_bits 32 b ! 10 = 0" using b by (simp add: mask_bits_32 nth_append)
  moreover have "take 12 (mask_bits 32 b) ! 10 = mask_bits 32 b ! 10" by simp
  moreover have "(replicate 10 0 @ [255, 255]) ! 10 = (255 :: nat)" by (simp add: nth_append)
  ultimately have "take 12 (mask_bits 32 b) \<noteq> replicate 10 0 @ [255, 255]" by (metis zero_neq_numeral)
  then show ?thesis by (simp add: canonical_def)
qed

lemma split_on_none: "d \<notin> set s \<Longrightarrow> split_on d s = [s]"
  by (induction s) auto

lemma bare_contains:
  assumes "length b = 16" and "length x = 16" and "To4 (IPv6 x) = None" and "take 4 x = take 4 b"
  shows "net_contains (mask_bits 32 b, 32) (IPv6 x)"
proof -
  have "canonical x = x" using assms(2,3) by (auto simp: canonical_def To4_def split: if_splits)
  moreover have len: "length (mask_bits 32 b) = 16" using assms(1) by (simp add: mask_bits_32)
  moreover have "mask_bits 32 (mask_bits 32 b) = mask_bits 32 b"
    using len assms(1) by (subst mask_bits_32) (auto simp: mask_bits_32)
  moreover have "mask_bits 32 x = mask_bits 32 b" using assms by (simp add: mask_bits_32)
  ultimately show ?thesis using assms(1,2) by (simp add: net_contains_def not_mapped_32 ip_bytes_def)
qed

lemma trusts_configured:
  assumes "trim_space c = c" and "c \<noteq> []" and "c \<noteq> ''loopback=false''" and "\<not> contains c ''/''"
    and "parse_net (c @ ''/32'') = Some n"
  shows "tp_nets (ConfigureTrustedProxies t [c]) = [n]"
  using assms by (simp add: ConfigureTrustedProxies_def trust_one_def)

text \<open>A trusted proxy given as a bare IPv6 address trusts a whole network: the code appends
  \<open>/32\<close> to an address without a prefix length, which is a single host for IPv4 only. Every IPv6
  peer whose first four bytes agree with the configured address is then taken for the proxy,
  and the client's address is whatever that peer writes into \<open>X-Forwarded-For\<close>.\<close>

theorem bare_ipv6_proxy_trusts_network:
  assumes "trim_space c = c" and "\<not> contains c ''/''" and "ParseIP c = Some (IPv6 b)"
    and "ParseIP host = Some (IPv6 x)" and "To4 (IPv6 x) = None" and "take 4 x = take 4 b"
    and "ParseIP claimed = Some a" and "trim_space claimed = claimed" and "CHR '','' \<notin> set claimed"
    and "\<not> isTrustedPeer (ConfigureTrustedProxies t [c]) a"
  shows "ClientIP (ConfigureTrustedProxies t [c]) host claimed = claimed"
proof -
  have v6: "length b = 16" "length x = 16"
    using assms(3,4) parse_ipv6_length by (auto simp: ParseIP_def split: list.splits if_splits)
  have none: "ParseIP [] = None" "ParseIP ''loopback=false'' = None" by code_simp+
  then have "c \<noteq> []" "c \<noteq> ''loopback=false''" using assms(3) by auto
  moreover have "parse_net (c @ ''/32'') = Some (mask_bits 32 b, 32)"
    using bare_cidr [OF assms(3)] by (simp add: parse_net_def ip_bytes_def)
  ultimately have "tp_nets (ConfigureTrustedProxies t [c]) = [(mask_bits 32 b, 32)]"
    using trusts_configured assms(1,2) by blast
  then have "isTrustedPeer (ConfigureTrustedProxies t [c]) (IPv6 x)"
    using bare_contains [OF v6 assms(5,6)] by (simp add: isTrustedPeer_def)
  moreover have "split_on (CHR '','') claimed = [claimed]" using split_on_none [OF assms(9)] .
  moreover have "claimed \<noteq> []" using assms(7) none by auto
  ultimately show ?thesis using assms(4,7,8,10) by (simp add: ClientIP_def)
qed

lemma bare_ipv6_proxy_trusts_network_witness:
  "ClientIP (ConfigureTrustedProxies \<lparr>tp_nets = [], tp_loopback = True\<rparr> [''1::1'']) ''1:0:9::2'' ''8.8.4.4'' = ''8.8.4.4''"
proof (rule bare_ipv6_proxy_trusts_network)
  show "trim_space ''1::1'' = ''1::1''" "\<not> contains ''1::1'' ''/''"
    "trim_space ''8.8.4.4'' = ''8.8.4.4''" by code_simp+
  show "ParseIP ''1::1'' = Some (IPv6 [0, 1, 0, 0, 0, 0, 0, 0, 0, 0, 0, 0, 0, 0, 0, 1])"
    "ParseIP ''1:0:9::2'' = Some (IPv6 [0, 1, 0, 0, 0, 9, 0, 0, 0, 0, 0, 0, 0, 0, 0, 2])"
    "ParseIP ''8.8.4.4'' = Some (IPv4 [8, 8, 4, 4])" by code_simp+
  show "To4 (IPv6 [0, 1, 0, 0, 0, 9, 0, 0, 0, 0, 0, 0, 0, 0, 0, 2]) = None" by code_simp
  show "take 4 [0, 1, 0, 0, 0, 9, 0, 0, 0, 0, 0, 0, 0, 0, 0, 2::nat] = take 4 [0, 1, 0, 0, 0, 0, 0, 0, 0, 0, 0, 0, 0, 0, 0, 1]"
    by simp
  show "CHR '','' \<notin> set ''8.8.4.4''" by simp
  show "\<not> isTrustedPeer (ConfigureTrustedProxies \<lparr>tp_nets = [], tp_loopback = True\<rparr> [''1::1'']) (IPv4 [8, 8, 4, 4])"
    by code_simp
qed

end
