(* ===== verification/ApiTokens.thy ===== *)
theory ApiTokens
  imports Authentication RequestGuards "HOL-Library.Word"
begin

text \<open>
  Tokens of organizations, service accounts and the keys of the platform: \<open>internal/apitokens\<close>
  (\<open>store.go\<close>, \<open>adminkeys.go\<close>, \<open>serviceaccounts.go\<close> and the handlers), with the organization guard
  \<open>resolveOrg\<close> of \<open>servers/handler.go\<close> they run behind and the scope guard of \<open>RequestGuards\<close> in front.
  The random part of a token is an argument; last use, audit rows and listings are left out.
\<close>

section \<open>Scopes\<close>

definition ValidScopes :: "string list" where
  "ValidScopes = [''org:read'', ''org:write'', ''websites:read'', ''websites:write'', ''servers:read'', ''servers:write'',
    ''runtimes:read'', ''runtimes:write'', ''databases:read'', ''databases:write'', ''domains:read'', ''domains:write'',
    ''deployments:read'', ''deployments:write'', ''backups:read'', ''backups:write'', ''monitoring:read'',
    ''alerts:read'', ''alerts:write'', ''audit:read'', ''billing:read'', ''billing:write'']"

definition AdminValidScopes :: "string list" where
  "AdminValidScopes = ValidScopes @ [''admin:read'', ''admin:write'']"

definition ValidScope :: "string \<Rightarrow> bool" where "ValidScope s \<longleftrightarrow> s \<in> set ValidScopes"
definition ValidAdminScope :: "string \<Rightarrow> bool" where "ValidAdminScope s \<longleftrightarrow> s \<in> set AdminValidScopes"

definition TokenPrefix :: string where "TokenPrefix = ''epk_''"
definition AdminKeyPrefix :: string where "AdminKeyPrefix = ''epa_''"

section \<open>Rows\<close>

datatype token_kind = KindUser | KindService

record api_token =
  tk_id :: uid
  tk_org :: uid
  tk_creator :: "uid option"
  tk_name :: string
  tk_hash :: string
  tk_scopes :: "string list"
  tk_expires :: "time option"
  tk_revoked :: bool
  tk_kind :: token_kind
  tk_account :: "uid option"

record admin_key =
  ak_id :: uid
  ak_creator :: "uid option"
  ak_name :: string
  ak_hash :: string
  ak_scopes :: "string list"
  ak_expires :: "time option"
  ak_revoked :: bool

record service_account =
  sa_id :: uid
  sa_org :: uid
  sa_name :: string
  sa_token :: "uid option"
  sa_revoked :: bool

record token_db =
  td_tokens :: "api_token list"
  td_keys :: "admin_key list"
  td_accounts :: "service_account list"

datatype token_err = TokenNotFound | TokenFailed

definition live :: "time \<Rightarrow> time option \<Rightarrow> bool \<Rightarrow> bool" where
  "live now expires revoked \<longleftrightarrow> \<not> revoked \<and> (case expires of None \<Rightarrow> True | Some t \<Rightarrow> now < t)"

section \<open>The store\<close>

definition CreateKind ::
    "auth_env \<Rightarrow> token_db \<Rightarrow> uid \<Rightarrow> uid \<Rightarrow> uid \<Rightarrow> string \<Rightarrow> string list \<Rightarrow> time option \<Rightarrow> token_kind \<Rightarrow> uid option \<Rightarrow> string \<Rightarrow>
      token_db \<times> (token_err + string)" where
  "CreateKind v d i org creator name scopes expires kind account random =
    (let raw = TokenPrefix @ random; h = en_hash v raw in
     if list_ex (\<lambda>t. tk_hash t = h) (td_tokens d) then (d, Inl TokenFailed)
     else (d\<lparr>td_tokens := td_tokens d @ [\<lparr>tk_id = i, tk_org = org, tk_creator = Some creator, tk_name = name, tk_hash = h,
       tk_scopes = scopes, tk_expires = expires, tk_revoked = False, tk_kind = kind, tk_account = account\<rparr>]\<rparr>, Inr raw))"

definition expand_star :: "string list \<Rightarrow> string list" where
  "expand_star scopes = (if scopes = [''*''] then AdminValidScopes else scopes)"

definition CreateAdminKey ::
    "auth_env \<Rightarrow> token_db \<Rightarrow> uid \<Rightarrow> uid \<Rightarrow> string \<Rightarrow> string list \<Rightarrow> time option \<Rightarrow> string \<Rightarrow> token_db \<times> (token_err + string)" where
  "CreateAdminKey v d i creator name scopes expires random =
    (let raw = AdminKeyPrefix @ random; h = en_hash v raw in
     if list_ex (\<lambda>k. ak_hash k = h) (td_keys d) then (d, Inl TokenFailed)
     else (d\<lparr>td_keys := td_keys d @ [\<lparr>ak_id = i, ak_creator = Some creator, ak_name = name, ak_hash = h,
       ak_scopes = expand_star scopes, ak_expires = expires, ak_revoked = False\<rparr>]\<rparr>, Inr raw))"

text \<open>The address of the creator is read, whatever the status of the account; a creator who is gone is an error.\<close>

definition resolveAdminKey :: "auth_env \<Rightarrow> auth_db \<Rightarrow> time \<Rightarrow> token_db \<Rightarrow> string \<Rightarrow> credential option" where
  "resolveAdminKey v a now d raw =
    (case find (\<lambda>k. ak_hash k = en_hash v raw \<and> live now (ak_expires k) (ak_revoked k)) (td_keys d) of
       None \<Rightarrow> None
     | Some k \<Rightarrow>
         (case Option.bind (ak_creator k) (UserByID a) of
            None \<Rightarrow> None
          | Some u \<Rightarrow> Some (PlatformKey (ur_id u) (ak_scopes k))))"

definition Resolve :: "auth_env \<Rightarrow> auth_db \<Rightarrow> time \<Rightarrow> token_db \<Rightarrow> string \<Rightarrow> credential option" where
  "Resolve v a now d raw =
    (if has_prefix raw AdminKeyPrefix then resolveAdminKey v a now d raw
     else case find (\<lambda>t. tk_hash t = en_hash v raw \<and> live now (tk_expires t) (tk_revoked t)) (td_tokens d) of
       None \<Rightarrow> None
     | Some t \<Rightarrow>
         (case Option.bind (tk_creator t) (UserByID a) of
            None \<Rightarrow> None
          | Some u \<Rightarrow> Some (OrgToken (ur_id u) (tk_org t) (tk_scopes t))))"

definition revocable :: "uid \<Rightarrow> uid \<Rightarrow> api_token \<Rightarrow> bool" where
  "revocable org i t \<longleftrightarrow> tk_id t = i \<and> tk_org t = org \<and> \<not> tk_revoked t"

definition RevokeTokenRow :: "token_db \<Rightarrow> uid \<Rightarrow> uid \<Rightarrow> token_db \<times> (token_err + unit)" where
  "RevokeTokenRow d org i =
    (if rows_affected (revocable org i) (td_tokens d) = 0 then (d, Inl TokenNotFound)
     else (d\<lparr>td_tokens := update_where (revocable org i) (\<lambda>t. t\<lparr>tk_revoked := True\<rparr>) (td_tokens d)\<rparr>, Inr ()))"

definition RevokeAdminKey :: "token_db \<Rightarrow> uid \<Rightarrow> token_db \<times> (token_err + unit)" where
  "RevokeAdminKey d i =
    (let P = (\<lambda>k. ak_id k = i \<and> \<not> ak_revoked k) in
     if rows_affected P (td_keys d) = 0 then (d, Inl TokenNotFound)
     else (d\<lparr>td_keys := update_where P (\<lambda>k. k\<lparr>ak_revoked := True\<rparr>) (td_keys d)\<rparr>, Inr ()))"

text \<open>Names of accounts are unique in an organization, revoked accounts included, and have the shape the
  table demands.\<close>

definition account_name :: "string \<Rightarrow> bool" where
  "account_name s \<longleftrightarrow>
    (case s of [] \<Rightarrow> False
     | c # cs \<Rightarrow> (is_letter c \<or> is_digit c) \<and> length cs \<le> 99 \<and> list_all (\<lambda>c. is_letter c \<or> is_digit c \<or> c \<in> set '' ._-'') cs)"

definition CreateAccount :: "token_db \<Rightarrow> uid \<Rightarrow> uid \<Rightarrow> string \<Rightarrow> token_db \<times> (token_err + uid)" where
  "CreateAccount d i org name =
    (if \<not> account_name name \<or> list_ex (\<lambda>s. sa_org s = org \<and> sa_name s = name) (td_accounts d) then (d, Inl TokenFailed)
     else (d\<lparr>td_accounts := td_accounts d @ [\<lparr>sa_id = i, sa_org = org, sa_name = name, sa_token = None, sa_revoked = False\<rparr>]\<rparr>, Inr i))"

definition BindToken :: "token_db \<Rightarrow> uid \<Rightarrow> uid \<Rightarrow> token_db" where
  "BindToken d sa t = d\<lparr>td_accounts := update_where (\<lambda>s. sa_id s = sa) (\<lambda>s. s\<lparr>sa_token := Some t\<rparr>) (td_accounts d)\<rparr>"

definition RevokeAccount :: "token_db \<Rightarrow> uid \<Rightarrow> uid \<Rightarrow> token_db \<times> (token_err + unit)" where
  "RevokeAccount d org i =
    (let P = (\<lambda>s. sa_id s = i \<and> sa_org s = org \<and> \<not> sa_revoked s) in
     if rows_affected P (td_accounts d) = 0 then (d, Inl TokenNotFound)
     else (d\<lparr>td_accounts := update_where P (\<lambda>s. s\<lparr>sa_revoked := True\<rparr>) (td_accounts d),
             td_tokens := update_where (\<lambda>t. tk_account t = Some i \<and> \<not> tk_revoked t) (\<lambda>t. t\<lparr>tk_revoked := True\<rparr>) (td_tokens d)\<rparr>, Inr ()))"

section \<open>Requests\<close>

text \<open>\<open>time.Duration(days) * 24 * time.Hour\<close> in 64 bits.\<close>

definition token_expiry :: "time \<Rightarrow> int \<Rightarrow> time option" where
  "token_expiry now days = (if 0 < days then Some (now + sint (word_of_int (days * (24 * 60 * minute)) :: 64 word)) else None)"

definition trim_blanks :: "string \<Rightarrow> string" where
  "trim_blanks s = (let b = (\<lambda>c. c = CHR '' '' \<or> c = CHR 0x09) in rev (dropWhile b (rev (dropWhile b s))))"

text \<open>The guard of most organization routes; without a user it would dereference nil, its callers ask before.\<close>

definition ResolveOrg :: "(string \<Rightarrow> uid option) \<Rightarrow> orgs \<Rightarrow> principal option \<Rightarrow> string \<Rightarrow> role \<Rightarrow> org_err + uid" where
  "ResolveOrg parse g pr raw least =
    (case parse raw of
       None \<Rightarrow> Inl OrgValidation
     | Some org \<Rightarrow>
         (case pr of
            None \<Rightarrow> Inl OrgPanic
          | Some p \<Rightarrow>
              if p_admin p \<and> (\<not> p_token p \<or> p_platform p) then Inr org
              else if p_token p \<and> \<not> p_platform p \<and> p_bound p \<noteq> raw then Inl OrgNotFound
              else case p_user p of
                     None \<Rightarrow> Inl OrgInternal
                   | Some u \<Rightarrow>
                       (case RoleFor g org u of
                          None \<Rightarrow> Inl OrgNotFound
                        | Some r \<Rightarrow> if RoleRank r < RoleRank least then Inl OrgForbidden else Inr org)))"

definition requireOrg :: "(string \<Rightarrow> uid option) \<Rightarrow> orgs \<Rightarrow> principal option \<Rightarrow> string \<Rightarrow> role \<Rightarrow> org_err + uid" where
  "requireOrg parse g pr raw least = (if pr = None then Inl OrgUnauthorized else ResolveOrg parse g pr raw least)"

definition requireAdminSession :: "principal option \<Rightarrow> org_err + unit" where
  "requireAdminSession pr =
    (case pr of
       None \<Rightarrow> Inl OrgUnauthorized
     | Some p \<Rightarrow> if \<not> p_admin p \<or> p_token p then Inl OrgForbidden else Inr ())"

text \<open>\<open>i\<close>, \<open>j\<close> are fresh identifiers. A principal whose identifier does not parse breaks the foreign key.\<close>

definition token_answer :: "'d \<times> (token_err + 'a) \<Rightarrow> 'd \<times> (org_err + 'a)" where
  "token_answer r = (case r of (d, Inl TokenNotFound) \<Rightarrow> (d, Inl OrgNotFound) | (d, Inl TokenFailed) \<Rightarrow> (d, Inl OrgInternal) | (d, Inr x) \<Rightarrow> (d, Inr x))"

definition CreateTokenReq ::
    "auth_env \<Rightarrow> time \<Rightarrow> token_db \<Rightarrow> uid \<Rightarrow> uid option \<Rightarrow> uid \<Rightarrow> string \<Rightarrow> string list \<Rightarrow> int \<Rightarrow> string \<Rightarrow> token_db \<times> (org_err + string)" where
  "CreateTokenReq v now d org user i name0 scopes days random =
    (let name = trim_space name0 in
     if name = [] \<or> 100 < length name \<or> scopes = [] \<or> \<not> list_all ValidScope scopes \<or> \<not> distinct scopes then (d, Inl OrgValidation)
     else case user of
       None \<Rightarrow> (d, Inl OrgInternal)
     | Some u \<Rightarrow> token_answer (CreateKind v d i org u name scopes (token_expiry now days) KindUser None random))"

definition CreateKeyReq ::
    "auth_env \<Rightarrow> time \<Rightarrow> token_db \<Rightarrow> uid option \<Rightarrow> uid \<Rightarrow> string \<Rightarrow> string list \<Rightarrow> int \<Rightarrow> string \<Rightarrow> token_db \<times> (org_err + string)" where
  "CreateKeyReq v now d user i name0 scopes days random =
    (let name = trim_space name0; plain = filter (\<lambda>s. s \<noteq> ''*'') scopes in
     if name = [] \<or> 100 < length name \<or> scopes = [] \<or> \<not> list_all ValidAdminScope plain \<or> \<not> distinct plain then (d, Inl OrgValidation)
     else case user of
       None \<Rightarrow> (d, Inl OrgInternal)
     | Some u \<Rightarrow> token_answer (CreateAdminKey v d i u name scopes (token_expiry now days) random))"

text \<open>Three statements in a row, not a transaction.\<close>

definition CreateAccountReq ::
    "auth_env \<Rightarrow> time \<Rightarrow> token_db \<Rightarrow> uid \<Rightarrow> uid option \<Rightarrow> uid \<Rightarrow> uid \<Rightarrow> string \<Rightarrow> string list \<Rightarrow> int \<Rightarrow> string \<Rightarrow> token_db \<times> (org_err + string)" where
  "CreateAccountReq v now d org user i j name0 scopes days random =
    (let name = trim_blanks name0 in
     if length name < 2 \<or> 100 < length name \<or> scopes = [] \<or> \<not> list_all ValidScope scopes then (d, Inl OrgValidation)
     else case user of
       None \<Rightarrow> (d, Inl OrgInternal)
     | Some u \<Rightarrow>
         (case CreateAccount d i org name of
            (d1, Inl e) \<Rightarrow> (d1, Inl OrgInternal)
          | (d1, Inr sa) \<Rightarrow>
              (case CreateKind v d1 j org u name scopes (token_expiry now days) KindService (Some sa) random of
                 (d2, Inl e) \<Rightarrow> (d2, Inl OrgInternal)
               | (d2, Inr raw) \<Rightarrow> (BindToken d2 sa j, Inr raw))))"

datatype token_req =
    PostToken string "string list" int
  | DeleteToken string
  | PostAccount string "string list" int
  | DeleteAccount string
  | PostKey string "string list" int
  | DeleteKey string

definition token_route :: "string \<Rightarrow> token_req \<Rightarrow> string \<times> string" where
  "token_route raw rq =
    (case rq of
       PostToken _ _ _ \<Rightarrow> (''POST'', ''/v1/organizations/'' @ raw @ ''/api-tokens'')
     | DeleteToken i \<Rightarrow> (''DELETE'', ''/v1/organizations/'' @ raw @ ''/api-tokens/'' @ i)
     | PostAccount _ _ _ \<Rightarrow> (''POST'', ''/v1/organizations/'' @ raw @ ''/service-accounts'')
     | DeleteAccount i \<Rightarrow> (''DELETE'', ''/v1/organizations/'' @ raw @ ''/service-accounts/'' @ i)
     | PostKey _ _ _ \<Rightarrow> (''POST'', ''/v1/admin/api-keys'')
     | DeleteKey i \<Rightarrow> (''DELETE'', ''/v1/admin/api-keys/'' @ i))"

definition org_part ::
    "(string \<Rightarrow> uid option) \<Rightarrow> orgs \<Rightarrow> token_db \<Rightarrow> principal option \<Rightarrow> string \<Rightarrow> (uid \<Rightarrow> token_db \<times> (org_err + string)) \<Rightarrow> token_db \<times> (org_err + string)" where
  "org_part parse g d pr raw k = (case requireOrg parse g pr raw RoleAdmin of Inl e \<Rightarrow> (d, Inl e) | Inr org \<Rightarrow> k org)"

definition by_id :: "(string \<Rightarrow> uid option) \<Rightarrow> token_db \<Rightarrow> string \<Rightarrow> (uid \<Rightarrow> token_db \<times> (token_err + unit)) \<Rightarrow> token_db \<times> (org_err + string)" where
  "by_id parse d rid k =
    (case parse rid of
       None \<Rightarrow> (d, Inl OrgValidation)
     | Some i \<Rightarrow> (case token_answer (k i) of (d1, Inl e) \<Rightarrow> (d1, Inl e) | (d1, Inr _) \<Rightarrow> (d1, Inr [])))"

definition handle_token ::
    "auth_env \<Rightarrow> (string \<Rightarrow> uid option) \<Rightarrow> orgs \<Rightarrow> time \<Rightarrow> token_db \<Rightarrow> principal option \<Rightarrow> string \<Rightarrow> uid \<Rightarrow> uid \<Rightarrow> string \<Rightarrow> token_req \<Rightarrow>
      token_db \<times> (org_err + string)" where
  "handle_token v parse g now d pr raw i j random rq =
    (let user = Option.bind pr p_user in
     case rq of
       PostToken name scopes days \<Rightarrow> org_part parse g d pr raw (\<lambda>org. CreateTokenReq v now d org user i name scopes days random)
     | DeleteToken rid \<Rightarrow> org_part parse g d pr raw (\<lambda>org. by_id parse d rid (RevokeTokenRow d org))
     | PostAccount name scopes days \<Rightarrow> org_part parse g d pr raw (\<lambda>org. CreateAccountReq v now d org user i j name scopes days random)
     | DeleteAccount rid \<Rightarrow> org_part parse g d pr raw (\<lambda>org. by_id parse d rid (RevokeAccount d org))
     | PostKey name scopes days \<Rightarrow>
         (case requireAdminSession pr of Inl e \<Rightarrow> (d, Inl e) | Inr _ \<Rightarrow> CreateKeyReq v now d user i name scopes days random)
     | DeleteKey rid \<Rightarrow>
         (case requireAdminSession pr of Inl e \<Rightarrow> (d, Inl e) | Inr _ \<Rightarrow> by_id parse d rid (RevokeAdminKey d)))"

definition serve_token ::
    "auth_env \<Rightarrow> (string \<Rightarrow> uid option) \<Rightarrow> orgs \<Rightarrow> time \<Rightarrow> token_db \<Rightarrow> principal option \<Rightarrow> string \<Rightarrow> uid \<Rightarrow> uid \<Rightarrow> string \<Rightarrow> token_req \<Rightarrow>
      token_db \<times> (org_err + string)" where
  "serve_token v parse g now d pr raw i j random rq =
    (case ScopeEnforce pr (fst (token_route raw rq)) (snd (token_route raw rq)) of
       Inl e \<Rightarrow> (d, Inl e)
     | Inr _ \<Rightarrow> handle_token v parse g now d pr raw i j random rq)"

text \<open>A history of requests, each with its own principal, organizations, identifiers and random part.\<close>

record token_call =
  tc_orgs :: orgs
  tc_now :: time
  tc_who :: "principal option"
  tc_org :: string
  tc_ids :: "uid \<times> uid"
  tc_random :: string
  tc_req :: token_req

definition token_step :: "auth_env \<Rightarrow> (string \<Rightarrow> uid option) \<Rightarrow> token_call \<Rightarrow> token_db \<Rightarrow> token_db" where
  "token_step v parse c d =
    fst (serve_token v parse (tc_orgs c) (tc_now c) d (tc_who c) (tc_org c) (fst (tc_ids c)) (snd (tc_ids c)) (tc_random c) (tc_req c))"

definition token_run :: "auth_env \<Rightarrow> (string \<Rightarrow> uid option) \<Rightarrow> token_call list \<Rightarrow> token_db \<Rightarrow> token_db" where
  "token_run v parse cs d = fold (token_step v parse) cs d"

definition empty_tokens :: token_db where
  "empty_tokens = \<lparr>td_tokens = [], td_keys = [], td_accounts = []\<rparr>"

end
