(* ===== verification/TokenProperties.thy ===== *)
theory TokenProperties
  imports ApiTokens
begin

text \<open>
  Properties of the tokens and keys of \<open>ApiTokens\<close>: what a request does to the rows, tokens that stay inside
  their organization, revocation that is final, keys minted in sessions only, and two ways around the
  intended limits.
\<close>

section \<open>What a request does to the rows\<close>

interpretation tokens: spendable tk_hash tk_revoked "\<lambda>t. t\<lparr>tk_revoked := True\<rparr>"
  by unfold_locales simp_all

interpretation keys: spendable ak_hash ak_revoked "\<lambda>k. k\<lparr>ak_revoked := True\<rparr>"
  by unfold_locales simp_all

lemma fst_token_answer [simp]: "fst (token_answer r) = fst r"
  by (cases r) (auto simp: token_answer_def split: sum.splits token_err.splits)

definition token_rows_step :: "token_db \<Rightarrow> token_db \<Rightarrow> bool" where
  "token_rows_step d d' \<longleftrightarrow> spend_step tk_hash (\<lambda>t. t\<lparr>tk_revoked := True\<rparr>) (td_tokens d) (td_tokens d')
    \<and> spend_step ak_hash (\<lambda>k. k\<lparr>ak_revoked := True\<rparr>) (td_keys d) (td_keys d')
    \<and> (list_all (\<lambda>t. list_all ValidScope (tk_scopes t)) (td_tokens d) \<longrightarrow> list_all (\<lambda>t. list_all ValidScope (tk_scopes t)) (td_tokens d'))"

lemma rows_step_refl: "token_rows_step d d"
  by (simp add: token_rows_step_def spend_refl)

lemma scopes_marked:
  "list_all (\<lambda>t. list_all ValidScope (tk_scopes t)) ts \<Longrightarrow> list_all (\<lambda>t. list_all ValidScope (tk_scopes t)) (update_where P (\<lambda>t. t\<lparr>tk_revoked := True\<rparr>) ts)"
  by (induction ts) simp_all

lemma create_kind_step:
  assumes "list_all ValidScope scopes"
  shows "token_rows_step d (fst (CreateKind v d i org u name scopes expires kind account random))"
  using assms by (auto simp: CreateKind_def token_rows_step_def Let_def list_ex_iff image_iff spend_refl intro!: spend_append)

lemma create_key_step: "token_rows_step d (fst (CreateAdminKey v d i u name scopes expires random))"
  by (auto simp: CreateAdminKey_def token_rows_step_def Let_def list_ex_iff image_iff spend_refl intro!: spend_append)

lemma create_token_step: "token_rows_step d (fst (CreateTokenReq v now d org user i name scopes days random))"
  using create_kind_step [of scopes d] by (auto simp: CreateTokenReq_def Let_def rows_step_refl split: option.splits)

lemma create_keyreq_step: "token_rows_step d (fst (CreateKeyReq v now d user i name scopes days random))"
  using create_key_step by (auto simp: CreateKeyReq_def Let_def rows_step_refl split: option.splits)

lemma account_tokens: "td_tokens (fst (CreateAccount d i org name)) = td_tokens d" "td_keys (fst (CreateAccount d i org name)) = td_keys d"
  by (simp_all add: CreateAccount_def)

lemma create_account_step: "token_rows_step d (fst (CreateAccountReq v now d org user i j name scopes days random))"
proof (cases "length (trim_blanks name) < 2 \<or> 100 < length (trim_blanks name) \<or> scopes = [] \<or> \<not> list_all ValidScope scopes \<or> user = None")
  case True
  then show ?thesis by (cases user) (auto simp: CreateAccountReq_def Let_def rows_step_refl)
next
  case False
  then obtain u where u: "user = Some u" and ok: "list_all ValidScope scopes" by auto
  obtain d1 r1 where c: "CreateAccount d i org (trim_blanks name) = (d1, r1)" by fastforce
  have same: "td_tokens d1 = td_tokens d" "td_keys d1 = td_keys d" using account_tokens [of d i org "trim_blanks name"] c by auto
  show ?thesis
  proof (cases r1)
    case (Inl e)
    then show ?thesis using False u c same by (simp add: CreateAccountReq_def Let_def token_rows_step_def spend_refl)
  next
    case (Inr sa)
    obtain d2 r2 where k: "CreateKind v d1 j org u (trim_blanks name) scopes (token_expiry now days) KindService (Some sa) random = (d2, r2)" by fastforce
    then have "token_rows_step d1 d2" using create_kind_step [OF ok] by (metis fst_conv)
    then show ?thesis using False u c same Inr k by (cases r2) (auto simp: CreateAccountReq_def Let_def token_rows_step_def BindToken_def)
  qed
qed

lemma by_id_cases: "fst (by_id parse d rid k) = d \<or> (\<exists>i. parse rid = Some i \<and> fst (by_id parse d rid k) = fst (k i))"
proof (cases "parse rid")
  case (Some i)
  then show ?thesis using fst_token_answer [of "k i"] by (cases "token_answer (k i)") (auto simp: by_id_def split: sum.splits)
qed (simp add: by_id_def)

lemma by_id_step: "(\<And>i. token_rows_step d (fst (k i))) \<Longrightarrow> token_rows_step d (fst (by_id parse d rid k))"
  using by_id_cases [of parse d rid k] rows_step_refl by metis

lemma org_part_step: "(\<And>org. token_rows_step d (fst (k org))) \<Longrightarrow> token_rows_step d (fst (org_part parse g d pr raw k))"
  by (simp add: org_part_def rows_step_refl split: sum.splits)

lemma revoke_steps:
  "token_rows_step d (fst (RevokeTokenRow d org i))" "token_rows_step d (fst (RevokeAdminKey d i))" "token_rows_step d (fst (RevokeAccount d org i))"
  by (auto simp: RevokeTokenRow_def RevokeAdminKey_def RevokeAccount_def token_rows_step_def Let_def spend_refl scopes_marked intro!: spend_mark)

lemma handle_step: "token_rows_step d (fst (handle_token v parse g now d pr raw i j random rq))"
  unfolding handle_token_def Let_def
  by (cases rq; cases "requireAdminSession pr")
     (simp_all add: org_part_step by_id_step revoke_steps create_token_step create_account_step create_keyreq_step rows_step_refl)

lemma token_step_rows: "token_rows_step d (token_step v parse c d)"
  by (simp add: token_step_def serve_token_def handle_step rows_step_refl split: sum.splits)

section \<open>Reachable tables\<close>

definition token_db_ok :: "token_db \<Rightarrow> bool" where
  "token_db_ok d \<longleftrightarrow> distinct (map tk_hash (td_tokens d)) \<and> distinct (map ak_hash (td_keys d))
    \<and> list_all (\<lambda>t. list_all ValidScope (tk_scopes t)) (td_tokens d)"

lemma rows_step_ok: "token_db_ok d \<Longrightarrow> token_rows_step d d' \<Longrightarrow> token_db_ok d'"
  using tokens.spend_distinct keys.spend_distinct by (auto simp: token_db_ok_def token_rows_step_def)

lemma token_run_Cons: "token_run v parse (c # cs) d = token_run v parse cs (token_step v parse c d)"
  by (simp add: token_run_def)

lemma token_run_ok: "token_db_ok d \<Longrightarrow> token_db_ok (token_run v parse cs d)"
proof (induction cs arbitrary: d)
  case (Cons c cs)
  then show ?case using rows_step_ok [OF Cons.prems token_step_rows] by (simp add: token_run_Cons)
qed (simp add: token_run_def)

lemma empty_tokens_ok: "token_db_ok empty_tokens"
  by (simp add: token_db_ok_def empty_tokens_def)

lemma token_run_spent:
  "spent_key tk_hash tk_revoked h (td_tokens d) \<Longrightarrow> spent_key tk_hash tk_revoked h (td_tokens (token_run v parse cs d))"
proof (induction cs arbitrary: d)
  case (Cons c cs)
  have "spent_key tk_hash tk_revoked h (td_tokens (token_step v parse c d))"
    using Cons.prems token_step_rows [of d v parse c] by (auto simp: token_rows_step_def intro: tokens.spent_kept)
  with Cons.IH show ?case by (simp add: token_run_Cons)
qed (simp add: token_run_def)

lemma spent_token_refused:
  assumes "spent_key tk_hash tk_revoked (en_hash v raw) (td_tokens d)" and "\<not> has_prefix raw AdminKeyPrefix"
  shows "Resolve v a now d raw = None"
proof -
  have "find (\<lambda>t. tk_hash t = en_hash v raw \<and> live now (tk_expires t) (tk_revoked t)) (td_tokens d) = None"
    using assms(1) by (auto simp: spent_key_def find_None_iff live_def list_all_iff)
  with assms(2) show ?thesis by (simp add: Resolve_def)
qed

section \<open>Properties\<close>

text \<open>C31: Revocation is final: once a token was revoked, by itself or with its service account, it authenticates
  nobody any more, whatever requests follow on the tables of the panel.\<close>

theorem token_revocation_final:
  assumes "d = token_run v parse before empty_tokens" and "x \<in> set (td_tokens d)"
    and "(RevokeAccount d org i = (d', Inr ()) \<and> tk_account x = Some i) \<or> (RevokeTokenRow d org (tk_id x) = (d', Inr ()) \<and> tk_org x = org)"
    and "tk_hash x = en_hash v raw" and "has_prefix raw TokenPrefix"
  shows "Resolve v a now (token_run v parse after d') raw = None"
proof -
  have ok: "distinct (map tk_hash (td_tokens d))" using token_run_ok [OF empty_tokens_ok, of v parse before] assms(1) by (simp add: token_db_ok_def)
  let ?A = "\<lambda>t. tk_account t = Some i \<and> \<not> tk_revoked t" and ?T = "revocable org (tk_id x)"
  from assms(3) have "spent_key tk_hash tk_revoked (tk_hash x) (td_tokens d')"
  proof (elim disjE conjE)
    assume r: "RevokeAccount d org i = (d', Inr ())" and "tk_account x = Some i"
    then have "?A x \<or> tk_revoked x" by simp
    from tokens.mark_spends [where P = ?A, OF assms(2) this ok] r show ?thesis by (auto simp: RevokeAccount_def Let_def split: if_splits)
  next
    assume r: "RevokeTokenRow d org (tk_id x) = (d', Inr ())" and "tk_org x = org"
    then have "?T x \<or> tk_revoked x" by (simp add: revocable_def)
    from tokens.mark_spends [where P = ?T, OF assms(2) this ok] r show ?thesis by (auto simp: RevokeTokenRow_def split: if_splits)
  qed
  then have "spent_key tk_hash tk_revoked (en_hash v raw) (td_tokens (token_run v parse after d'))"
    unfolding assms(4) by (rule token_run_spent)
  moreover have "\<not> has_prefix raw AdminKeyPrefix"
    using assms(5) by (auto simp: TokenPrefix_def AdminKeyPrefix_def has_prefix_iff)
  ultimately show ?thesis by (rule spent_token_refused)
qed

lemma Resolve_org:
  assumes "token_db_ok d" and "has_prefix raw TokenPrefix" and "Resolve v a now d raw = Some c"
  shows "\<exists>u org scopes. c = OrgToken u org scopes \<and> list_all ValidScope scopes"
proof -
  have "\<not> has_prefix raw AdminKeyPrefix" using assms(2) by (auto simp: TokenPrefix_def AdminKeyPrefix_def has_prefix_iff)
  with assms(3) obtain t u where t: "t \<in> set (td_tokens d)" "c = OrgToken u (tk_org t) (tk_scopes t)"
    by (auto simp: Resolve_def find_Some_iff in_set_conv_nth split: option.splits)
  with assms(1) show ?thesis by (auto simp: token_db_ok_def list_all_iff)
qed

text \<open>C32: A token of an organization never reaches the surface of the platform: whatever was requested on an empty
  panel, the principal of a token that resolves is refused by the scope guard on every administrator
  route and by the administrator gate.\<close>

theorem org_tokens_below_admin:
  assumes "Resolve v a now (token_run v parse cs empty_tokens) raw = Some c" and "has_prefix raw TokenPrefix"
    and "requiredAdminScope meth path = Some sc"
  shows "ScopeEnforce (authenticate us (Some c)) meth path = Inl OrgForbidden \<and> RequireAdmin (authenticate us (Some c)) = Inl OrgForbidden"
proof -
  obtain u org scopes where c: "c = OrgToken u org scopes" "list_all ValidScope scopes"
    using Resolve_org [OF token_run_ok [OF empty_tokens_ok] assms(2,1)] by blast
  have "sc = ''admin:read'' \<or> sc = ''admin:write''" using assms(3) by (auto simp: requiredAdminScope_def split: if_splits)
  moreover have "\<not> ValidScope ''admin:read''" "\<not> ValidScope ''admin:write''" by code_simp+
  ultimately have "sc \<notin> set scopes" using c(2) by (auto simp: list_all_iff)
  moreover have "\<not> tokenExempt path"
  proof
    have "requiredAdminScope m ''/v1/auth/me'' = None" "requiredAdminScope m ''/v1/ws'' = None" for m
      by (simp_all add: requiredAdminScope_def has_prefix_iff)
    moreover assume "tokenExempt path"
    ultimately show False using assms(3) by (auto simp: tokenExempt_def)
  qed
  ultimately show ?thesis using c(1) assms(3)
    by (simp add: ScopeEnforce_def authenticate_def needed_scope_def RequireAdmin_def)
qed

text \<open>C33: Keys of the platform are minted and revoked by the session of an administrator only, never by a key or a
  token: a request that changes their table has such a principal.\<close>

theorem keys_by_session_only:
  assumes "td_keys (token_step v parse c d) \<noteq> td_keys d"
  shows "\<exists>p. tc_who c = Some p \<and> p_admin p \<and> \<not> p_token p"
proof (rule ccontr)
  assume no: "\<not> ?thesis"
  then obtain e where gate: "requireAdminSession (tc_who c) = Inl e"
    by (cases "tc_who c") (auto simp: requireAdminSession_def)
  have org: "td_keys (fst (org_part parse g d pr raw k)) = td_keys d" if "\<And>org. td_keys (fst (k org)) = td_keys d" for g pr raw k
    using that by (simp add: org_part_def split: sum.splits)
  have id: "td_keys (fst (by_id parse d rid k)) = td_keys d" if "\<And>i. td_keys (fst (k i)) = td_keys d" for rid k
    using by_id_cases [of parse d rid k] that by metis
  have kind: "td_keys (fst (CreateKind v d' i org u name scopes expires kd account random)) = td_keys d'" for d' i org u name scopes expires kd account random
    by (simp add: CreateKind_def Let_def)
  have tok: "td_keys (fst (CreateTokenReq v now d org user i name scopes days random)) = td_keys d" for now org user i name scopes days random
    by (simp add: CreateTokenReq_def Let_def kind split: option.splits)
  have acc: "td_keys (fst (CreateAccountReq v now d org user i j name scopes days random)) = td_keys d" for now org user i j name scopes days random
  proof -
    have "td_keys (fst (CreateKind v (fst (CreateAccount d i org n)) j org u n scopes e KindService s random)) = td_keys d" for n u e s
      by (simp add: kind account_tokens)
    then show ?thesis
      using account_tokens(2) [of d i org "trim_blanks name"]
      by (cases "CreateAccount d i org (trim_blanks name)") (auto simp: CreateAccountReq_def Let_def BindToken_def kind split: option.splits sum.splits prod.splits dest: arg_cong [of _ _ "\<lambda>x. td_keys (fst x)"])
  qed
  have rev: "td_keys (fst (RevokeTokenRow d org i)) = td_keys d" "td_keys (fst (RevokeAccount d org i)) = td_keys d" for org i
    by (simp_all add: RevokeTokenRow_def RevokeAccount_def Let_def)
  have "td_keys (token_step v parse c d) = td_keys d"
    by (cases "tc_req c") (simp_all add: token_step_def serve_token_def handle_token_def Let_def gate org id tok acc rev split: sum.splits)
  with assms show False by simp
qed

lemma token_route_scope:
  assumes "CHR ''/'' \<notin> set raw" and "raw \<noteq> []"
  shows "ScopeEnforce (Some p) ''POST'' (''/v1/organizations/'' @ raw @ ''/api-tokens'') = Inr () \<longleftrightarrow> p_token p \<longrightarrow> ''org:write'' \<in> set (p_scopes p)"
proof -
  let ?path = "''/v1/organizations/'' @ raw @ ''/api-tokens''"
  have one: "split_on CHR ''/'' raw = [raw]" using assms(1) by (induction raw) (auto simp: split_on_Cons)
  have "split_on CHR ''/'' ((''v1/organizations'' @ CHR ''/'' # raw) @ CHR ''/'' # ''api-tokens'')
      = (split_on CHR ''/'' ''v1/organizations'' @ split_on CHR ''/'' raw) @ split_on CHR ''/'' ''api-tokens''"
    by (simp only: split_on_append)
  moreover have "split_on CHR ''/'' ''v1/organizations'' = [''v1'', ''organizations'']" "split_on CHR ''/'' ''api-tokens'' = [''api-tokens'']" by code_simp+
  ultimately have parts: "split_on CHR ''/'' ((''v1/organizations'' @ CHR ''/'' # raw) @ CHR ''/'' # ''api-tokens'') = [''v1'', ''organizations'', raw, ''api-tokens'']"
    by (simp add: one)
  have trim: "trim_slashes ?path = (''v1/organizations'' @ CHR ''/'' # raw) @ CHR ''/'' # ''api-tokens''"
    by (simp add: trim_slashes_def)
  have "read_write ''POST'' (scopeResource ''api-tokens'') = ''org:write''" "scopeResource ''api-tokens'' \<noteq> []" by code_simp+
  then have "requiredScope ''POST'' ?path = Some ''org:write''"
    by (simp only: requiredScope_def trim parts Let_def) (simp add: eval_nat_numeral)
  moreover have "requiredAdminScope ''POST'' ?path = None" by (simp add: requiredAdminScope_def has_prefix_iff)
  moreover have "\<not> tokenExempt ?path" by (simp add: tokenExempt_def)
  ultimately show ?thesis by (simp add: ScopeEnforce_def needed_scope_def)
qed

text \<open>C34: A token mints tokens with more power than its own: with the single scope \<open>org:write\<close>, a token whose creator
  is an administrator of the organization gets a new one for any list of valid scopes, which never
  expires and resolves to all of them.\<close>

theorem token_minting_escalates:
  assumes "us org = raw" and "parse raw = Some org" and "CHR ''/'' \<notin> set raw" and "raw \<noteq> []"
    and "RoleFor g org u = Some r" and "RoleRank RoleAdmin \<le> RoleRank r" and "UserByID a u = Some x"
    and "authenticate us (Some (OrgToken u org [''org:write''])) = pr"
    and "trim_space name \<noteq> []" and "length (trim_space name) \<le> 100"
    and "scopes \<noteq> []" and "list_all ValidScope scopes" and "distinct scopes"
    and "en_hash v (TokenPrefix @ random) \<notin> tk_hash ` set (td_tokens d)"
  shows "Resolve v a later (fst (serve_token v parse g now d pr raw i j random (PostToken name scopes 0))) (TokenPrefix @ random)
    = Some (OrgToken u org scopes)"
proof -
  let ?raw = "TokenPrefix @ random"
  let ?t = "\<lparr>tk_id = i, tk_org = org, tk_creator = Some u, tk_name = trim_space name, tk_hash = en_hash v ?raw, tk_scopes = scopes,
    tk_expires = None, tk_revoked = False, tk_kind = KindUser, tk_account = None\<rparr>"
  have pr: "pr = Some \<lparr>p_user = Some u, p_admin = False, p_token = True, p_platform = False, p_bound = raw, p_scopes = [''org:write'']\<rparr>"
    using assms(1,8) by (auto simp: authenticate_def)
  then have "ScopeEnforce pr ''POST'' (''/v1/organizations/'' @ raw @ ''/api-tokens'') = Inr ()"
    using token_route_scope [OF assms(3,4)] by simp
  moreover have "requireOrg parse g pr raw RoleAdmin = Inr org"
    using assms(2,5,6) pr by (simp add: requireOrg_def ResolveOrg_def)
  moreover have "\<not> list_ex (\<lambda>t. tk_hash t = en_hash v ?raw) (td_tokens d)" using assms(14) unfolding list_ex_iff by (metis imageI)
  ultimately have "fst (serve_token v parse g now d pr raw i j random (PostToken name scopes 0)) = d\<lparr>td_tokens := td_tokens d @ [?t]\<rparr>"
    using assms(9-13) pr
    by (simp add: serve_token_def token_route_def handle_token_def org_part_def CreateTokenReq_def CreateKind_def token_expiry_def Let_def token_answer_def)
  moreover have "find (\<lambda>t. tk_hash t = en_hash v ?raw \<and> live later (tk_expires t) (tk_revoked t)) (td_tokens d @ [?t]) = Some ?t"
  proof -
    have "find (\<lambda>t. tk_hash t = en_hash v ?raw \<and> live later (tk_expires t) (tk_revoked t)) (ts @ [?t]) = Some ?t"
      if "en_hash v ?raw \<notin> tk_hash ` set ts" for ts
      using that by (induction ts) (auto simp: live_def)
    then show ?thesis using assms(14) by blast
  qed
  moreover have "\<not> has_prefix ?raw AdminKeyPrefix" by (simp add: TokenPrefix_def AdminKeyPrefix_def has_prefix_iff)
  moreover have "ur_id x = u" using assms(7) by (simp add: UserByID_def) (drule by_key_Some, simp)
  ultimately show ?thesis using assms(7) by (simp add: Resolve_def)
qed

text \<open>An account that is disabled cannot log in and its sessions are refused, but its tokens keep
  working.\<close>

theorem disabled_account_keeps_tokens:
  assumes "UserByID a u = Some x" and "ur_status x \<noteq> ''active''" and "Resolve v a now d raw = Some (OrgToken u org scopes)"
    and "has_prefix raw TokenPrefix" and "GetSession v now a cookie = Some s" and "sr_user s = u"
    and "\<not> has_prefix cookie ''epk_''" and "\<not> has_prefix cookie ''epa_''"
  shows "session_credential v (Resolve v a now d) now a raw = Some (OrgToken u org scopes)
    \<and> session_credential v (Resolve v a now d) now a cookie = None"
proof -
  have "raw \<noteq> []" using assms(4) by (auto simp: TokenPrefix_def)
  with assms show ?thesis by (simp add: session_credential_def TokenPrefix_def)
qed

section \<open>Witnesses\<close>

definition token_env :: auth_env where
  "token_env = \<lparr>en_hash = (\<lambda>s. s), en_hmac = (\<lambda>k m. []), en_bcrypt = Some, en_check = (=),
    en_seal = (\<lambda>n s. s), en_unseal = (\<lambda>n s. Some s), en_b64 = (\<lambda>s. s), en_unb64 = Some, en_ttl = 60 * minute\<rparr>"

definition token_users :: auth_db where
  "token_users = empty_auth\<lparr>ad_users := [\<lparr>ur_id = 6, ur_email = ''a@b.cc'', ur_hash = [], ur_name = ''Ann'', ur_admin = False,
     ur_status = ''disabled'', ur_mfa = False, ur_secret = []\<rparr>],
     ad_sessions := [\<lparr>sr_id = 9, sr_user = 6, sr_token = ''cookie'', sr_expires = 60 * minute, sr_revoked = False\<rparr>]\<rparr>"

definition session_admin :: "principal option" where
  "session_admin = authenticate (\<lambda>_. ''1'') (Some (SessionOf 2 True))"

definition mint_calls :: "token_call list" where
  "mint_calls =
    [\<lparr>tc_orgs = sample_orgs, tc_now = 0, tc_who = authenticate (\<lambda>_. ''1'') (Some (SessionOf 6 False)), tc_org = ''1'', tc_ids = (20, 21), tc_random = ''aa'',
      tc_req = PostToken ''deploy'' [''org:write''] 0\<rparr>,
     \<lparr>tc_orgs = sample_orgs, tc_now = 0, tc_who = authenticate (\<lambda>_. ''1'') (Some (SessionOf 6 False)), tc_org = ''1'', tc_ids = (22, 23), tc_random = ''bb'',
      tc_req = PostAccount ''builder'' [''websites:read''] 0\<rparr>]"

definition minted :: token_db where "minted = token_run token_env sample_parse mint_calls empty_tokens"

definition mint_token :: api_token where
  "mint_token = \<lparr>tk_id = 20, tk_org = 1, tk_creator = Some 6, tk_name = ''deploy'', tk_hash = ''epk_aa'', tk_scopes = [''org:write''],
     tk_expires = None, tk_revoked = False, tk_kind = KindUser, tk_account = None\<rparr>"

definition account_token :: api_token where
  "account_token = \<lparr>tk_id = 23, tk_org = 1, tk_creator = Some 6, tk_name = ''builder'', tk_hash = ''epk_bb'', tk_scopes = [''websites:read''],
     tk_expires = None, tk_revoked = False, tk_kind = KindService, tk_account = Some 22\<rparr>"

lemma minted_eq: "minted = \<lparr>td_tokens = [mint_token, account_token], td_keys = [],
    td_accounts = [\<lparr>sa_id = 22, sa_org = 1, sa_name = ''builder'', sa_token = Some 23, sa_revoked = False\<rparr>]\<rparr>"
  by code_simp

theorem token_revocation_final_witness:
  "Resolve token_env token_users 5 (token_run token_env sample_parse mint_calls (fst (RevokeAccount minted 1 22))) ''epk_bb'' = None"
proof (rule token_revocation_final [where d = minted and x = account_token and org = 1 and i = 22])
  show "minted = token_run token_env sample_parse mint_calls empty_tokens" by (simp add: minted_def)
  show "account_token \<in> set (td_tokens minted)" by (simp add: minted_eq)
  have "snd (RevokeAccount minted 1 22) = Inr ()" by (simp add: minted_eq RevokeAccount_def rows_affected_def)
  then have "RevokeAccount minted 1 22 = (fst (RevokeAccount minted 1 22), Inr ()) \<and> tk_account account_token = Some 22"
    by (metis prod.collapse account_token_def api_token.select_convs(10))
  then show "(RevokeAccount minted 1 22 = (fst (RevokeAccount minted 1 22), Inr ()) \<and> tk_account account_token = Some 22)
    \<or> (RevokeTokenRow minted 1 (tk_id account_token) = (fst (RevokeAccount minted 1 22), Inr ()) \<and> tk_org account_token = 1)" by (rule disjI1)
  show "tk_hash account_token = en_hash token_env ''epk_bb''" by (simp add: account_token_def token_env_def)
  show "has_prefix ''epk_bb'' TokenPrefix" by code_simp
qed

theorem org_tokens_below_admin_witness:
  "ScopeEnforce (authenticate (\<lambda>_. ''1'') (Some (OrgToken 6 1 [''org:write'']))) ''GET'' ''/v1/admin/users'' = Inl OrgForbidden
    \<and> RequireAdmin (authenticate (\<lambda>_. ''1'') (Some (OrgToken 6 1 [''org:write'']))) = Inl OrgForbidden"
proof (rule org_tokens_below_admin)
  show "Resolve token_env token_users 5 (token_run token_env sample_parse mint_calls empty_tokens) ''epk_aa'' = Some (OrgToken 6 1 [''org:write''])"
    unfolding minted_def [symmetric] minted_eq by code_simp
  show "has_prefix ''epk_aa'' TokenPrefix" by code_simp
  show "requiredAdminScope ''GET'' ''/v1/admin/users'' = Some ''admin:read''" by code_simp
qed

definition key_call :: token_call where
  "key_call = \<lparr>tc_orgs = sample_orgs, tc_now = 0, tc_who = session_admin, tc_org = ''1'', tc_ids = (30, 31), tc_random = ''cc'',
     tc_req = PostKey ''bot'' [''*''] 0\<rparr>"

theorem keys_by_session_only_witness: "\<exists>p. tc_who key_call = Some p \<and> p_admin p \<and> \<not> p_token p"
proof (rule keys_by_session_only)
  have "length (td_keys (token_step token_env sample_parse key_call empty_tokens)) = 1" by code_simp
  then show "td_keys (token_step token_env sample_parse key_call empty_tokens) \<noteq> td_keys empty_tokens"
    by (auto simp: empty_tokens_def)
qed

theorem token_minting_escalates_witness:
  "Resolve token_env token_users 8 (fst (serve_token token_env sample_parse sample_orgs 5 minted (authenticate (\<lambda>_. ''1'') (Some (OrgToken 6 1 [''org:write''])))
      ''1'' 40 41 ''ff'' (PostToken ''more'' ValidScopes 0))) (TokenPrefix @ ''ff'') = Some (OrgToken 6 1 ValidScopes)"
proof (rule token_minting_escalates [where r = RoleAdmin and x = "hd (ad_users token_users)" and us = "\<lambda>_. ''1''"])
  show "sample_parse ''1'' = Some 1" "RoleFor sample_orgs 1 6 = Some RoleAdmin" "list_all ValidScope ValidScopes" "distinct ValidScopes"
    "trim_space ''more'' \<noteq> []" "length (trim_space ''more'') \<le> 100" by code_simp+
  show "UserByID token_users 6 = Some (hd (ad_users token_users))" by (simp add: UserByID_def token_users_def empty_auth_def)
  show "en_hash token_env (TokenPrefix @ ''ff'') \<notin> tk_hash ` set (td_tokens minted)"
    by (simp add: minted_eq token_env_def TokenPrefix_def mint_token_def account_token_def)
qed (simp_all add: ValidScopes_def)

end
