(* ===== verification/BackupCrypto.thy ===== *)
theory BackupCrypto
  imports Totp GoPath
begin

text \<open>
  The sinks of backups: \<open>internal/backups/sink/crypto.go\<close>, the encryption of an artifact in chunks, and from
  \<open>sink.go\<close> the checks on names, paths and targets. AES-GCM is a parameter (\<open>aead\<close>); reading and writing
  of files is a string in and a string out, and the storage clients are left out.
\<close>

section \<open>Numbers as bytes\<close>

definition be_bytes :: "nat \<Rightarrow> nat \<Rightarrow> string" where
  "be_bytes k n = map (\<lambda>i. char_of (n div 256 ^ i mod 256)) (rev [0..<k])"

definition be_nat :: "string \<Rightarrow> nat" where
  "be_nat s = foldl (\<lambda>n c. 256 * n + byte c) 0 s"

section \<open>Authenticated encryption\<close>

text \<open>Key, nonce, message, additional data.\<close>

record aead =
  ae_seal :: "string \<Rightarrow> string \<Rightarrow> string \<Rightarrow> string \<Rightarrow> string"
  ae_open :: "string \<Rightarrow> string \<Rightarrow> string \<Rightarrow> string \<Rightarrow> string option"

text \<open>What is opened is what is sealed, and sealing adds sixteen bytes.\<close>

definition aead_ok :: "aead \<Rightarrow> bool" where
  "aead_ok a \<longleftrightarrow> (\<forall>k n p x. length (ae_seal a k n p x) = length p + 16)
    \<and> (\<forall>k n c x p. ae_open a k n c x = Some p \<longleftrightarrow> c = ae_seal a k n p x)"

definition Overhead :: nat where "Overhead = 16"
definition DefaultChunkSize :: nat where "DefaultChunkSize = 4 * 1024 * 1024"
definition DataKeySize :: nat where "DataKeySize = 32"
definition magic :: string where "magic = ''EPBK1'' @ [CHR 0x0A]"

text \<open>Both take a \<open>uint64\<close>.\<close>

definition nonceFor :: "nat \<Rightarrow> string" where
  "nonceFor i = replicate 4 (char_of (0::nat)) @ be_bytes 8 i"

definition index_data :: "nat \<Rightarrow> string" where
  "index_data i = be_bytes 8 i"

datatype crypt_err = KeySize | Corrupt

section \<open>Encryption\<close>

definition frame :: "aead \<Rightarrow> string \<Rightarrow> nat \<Rightarrow> string \<Rightarrow> string" where
  "frame a key i p = (let ct = ae_seal a key (nonceFor i) p (index_data i) in be_bytes 4 (length ct) @ ct)"

text \<open>The loop over full reads of the buffer, the last one short; at the end comes an empty chunk.\<close>

fun frames :: "aead \<Rightarrow> string \<Rightarrow> nat \<Rightarrow> string list \<Rightarrow> string" where
  "frames a key i [] = frame a key i []"
| "frames a key i (p # ps) = frame a key i p @ frames a key (Suc i) ps"

definition encryptStream :: "aead \<Rightarrow> string \<Rightarrow> string \<Rightarrow> string" where
  "encryptStream a key s = magic @ be_bytes 4 DefaultChunkSize @ frames a key 0 (chunks DefaultChunkSize s)"

definition EncryptFile :: "aead \<Rightarrow> string \<Rightarrow> string \<Rightarrow> crypt_err + (string \<times> nat)" where
  "EncryptFile a key s = (if length key \<noteq> DataKeySize then Inl KeySize else Inr (encryptStream a key s, length s))"

section \<open>Decryption\<close>

text \<open>What was written, and the number of its bytes or an error.\<close>

function decrypt_loop :: "aead \<Rightarrow> string \<Rightarrow> nat \<Rightarrow> string \<Rightarrow> string \<times> (crypt_err + nat)" where
  "decrypt_loop a key i x =
    (if length x < 4 then ([], Inl Corrupt)
     else
       (let clen = be_nat (take 4 x); rest = drop 4 x in
        if clen < Overhead \<or> clen > DefaultChunkSize + Overhead then ([], Inl Corrupt)
        else if length rest < clen then ([], Inl Corrupt)
        else case ae_open a key (nonceFor i) (take clen rest) (index_data i) of
          None \<Rightarrow> ([], Inl Corrupt)
        | Some p \<Rightarrow>
            if p = [] then ([], Inr 0)
            else (case decrypt_loop a key (Suc i) (drop clen rest) of
                    (out, Inl e) \<Rightarrow> (p @ out, Inl e)
                  | (out, Inr n) \<Rightarrow> (p @ out, Inr (length p + n)))))"
  by pat_completeness auto
termination
  by (relation "measure (\<lambda>(a, key, i, x). length x)") auto

declare decrypt_loop.simps [simp del]

definition decryptStream :: "aead \<Rightarrow> string \<Rightarrow> string \<Rightarrow> string \<times> (crypt_err + nat)" where
  "decryptStream a key x =
    (if length x < length magic \<or> take (length magic) x \<noteq> magic then ([], Inl Corrupt)
     else
       (let y = drop (length magic) x in
        if length y < 4 \<or> be_nat (take 4 y) \<noteq> DefaultChunkSize then ([], Inl Corrupt)
        else decrypt_loop a key 0 (drop 4 y)))"

definition DecryptFile :: "aead \<Rightarrow> string \<Rightarrow> string \<Rightarrow> string \<times> (crypt_err + nat)" where
  "DecryptFile a key x = (if length key \<noteq> DataKeySize then ([], Inl KeySize) else decryptStream a key x)"

section \<open>Names, paths and targets\<close>

definition plain_char :: "char \<Rightarrow> bool" where
  "plain_char c \<longleftrightarrow> is_lower c \<or> is_upper c \<or> is_digit c"

definition safeName :: "string \<Rightarrow> bool" where
  "safeName n \<longleftrightarrow> n \<noteq> [] \<and> length n \<le> 200 \<and> find_sub ''..'' n = None \<and> list_all (\<lambda>c. plain_char c \<or> c \<in> set ''-_./'') n"

definition isSafeHost :: "string \<Rightarrow> bool" where
  "isSafeHost h \<longleftrightarrow> h \<noteq> [] \<and> length h \<le> 253 \<and> list_all (\<lambda>c. plain_char c \<or> c \<in> set ''.-:'') h"

definition isSafeUser :: "string \<Rightarrow> bool" where
  "isSafeUser u \<longleftrightarrow> u \<noteq> [] \<and> length u \<le> 32 \<and> list_all (\<lambda>c. plain_char c \<or> c \<in> set ''-_.'') u"

record remote_config =
  rm_host :: string
  rm_port :: int
  rm_user :: string
  rm_path :: string
  rm_transport :: string

definition ValidateRemoteConfig :: "remote_config \<Rightarrow> bool" where
  "ValidateRemoteConfig c \<longleftrightarrow> rm_host c \<noteq> [] \<and> rm_user c \<noteq> [] \<and> rm_path c \<noteq> [] \<and> isSafeHost (rm_host c) \<and> isSafeUser (rm_user c)
    \<and> has_prefix (rm_path c) ''/'' \<and> find_sub ''..'' (rm_path c) = None \<and> 0 \<le> rm_port c \<and> rm_port c \<le> 65535
    \<and> rm_transport c \<in> {'''', ''rsync''}"

definition remote_spec :: "remote_config \<Rightarrow> string \<Rightarrow> string option" where
  "remote_spec c name =
    (if \<not> safeName name then None
     else Some (rm_user c @ ''@'' @ rm_host c @ '':'' @ trim_suffix (rm_path c) ''/'' @ ''/'' @ name))"

text \<open>A path as given by a job, resolved under the root of a local sink; the empty string refuses.\<close>

definition sink_base :: "string \<Rightarrow> string" where
  "sink_base root = (if root = [] then ''/srv/epicpanel/backups'' else root)"

definition resolve_local :: "string \<Rightarrow> string \<Rightarrow> string" where
  "resolve_local root p0 =
    (if p0 = [] then []
     else
       (let p = (if has_prefix p0 ''/'' then p0 else Join [sink_base root, p0]) in
        if has_prefix (Clean p @ ''/'') (Clean (sink_base root) @ ''/'') then Clean p else []))"

end
