(* ===== verification/ArtifactProperties.thy ===== *)
theory ArtifactProperties
  imports BackupCrypto
begin

text \<open>
  Properties of encrypted backup artifacts: an artifact decrypts to what was encrypted, an accepted artifact
  is a sequence of chunks sealed in this order and closed, and a cut artifact is refused.
\<close>

section \<open>Numbers\<close>

lemma be_bytes_Suc: "be_bytes (Suc k) n = char_of (n div 256 ^ k mod 256) # be_bytes k n"
  by (simp add: be_bytes_def)

lemma length_be_bytes [simp]: "length (be_bytes k n) = k"
  by (simp add: be_bytes_def)

lemma be_nat_foldl: "foldl (\<lambda>n c. 256 * n + byte c) a s = a * 256 ^ length s + be_nat s"
proof (induction s arbitrary: a)
  case (Cons c s)
  from Cons [of "256 * a + byte c"] Cons [of "byte c"] show ?case by (simp add: be_nat_def algebra_simps)
qed (simp add: be_nat_def)

lemma be_nat_Cons: "be_nat (c # s) = byte c * 256 ^ length s + be_nat s"
  using be_nat_foldl [of "byte c" s] by (simp add: be_nat_def)

lemma be_nat_be_bytes: "be_nat (be_bytes k n) = n mod 256 ^ k"
proof (induction k)
  case 0
  then show ?case by (simp add: be_bytes_def be_nat_def)
next
  case (Suc k)
  have "n mod 256 ^ Suc k = 256 ^ k * (n div 256 ^ k mod 256) + n mod 256 ^ k"
    using mod_mult2_eq [of n "256 ^ k" 256] by (simp add: mult.commute)
  with Suc show ?case by (simp add: be_bytes_Suc be_nat_Cons mult.commute del: power_Suc)
qed

lemma be_nat_less: "be_nat s < 256 ^ length s"
proof (induction s)
  case (Cons c s)
  have "byte c mod 256 = byte c" "byte c mod 256 < 256" by simp_all
  then have "byte c \<le> 255" by linarith
  then have "byte c * 256 ^ length s \<le> 255 * 256 ^ length s" by (rule mult_right_mono) simp
  moreover have "256 ^ length (c # s) = 256 * (256::nat) ^ length s" by simp
  ultimately show ?case using Cons unfolding be_nat_Cons by linarith
qed (simp add: be_nat_def)

lemma byte_less: "byte c < 256"
  using be_nat_less [of "[c]"] by (simp add: be_nat_def)

lemma be_bytes_high: "be_bytes k (256 ^ k * m + n) = be_bytes k n"
proof -
  have "(256 ^ k * m + n) div 256 ^ i mod 256 = n div 256 ^ i mod 256" if "i < k" for i
  proof -
    have "(256::nat) ^ k = 256 ^ i * (256 * 256 ^ (k - i - 1))"
      using that by (simp add: power_add [symmetric] power_Suc [symmetric] del: power_Suc)
    then have "(256 ^ k * m + n) div 256 ^ i = 256 * (256 ^ (k - i - 1) * m) + n div 256 ^ i"
      by (simp add: mult.assoc)
    then show ?thesis by simp
  qed
  then show ?thesis by (simp add: be_bytes_def)
qed

lemma be_bytes_be_nat: "be_bytes (length s) (be_nat s) = s"
proof (induction s)
  case (Cons c s)
  have "be_bytes (length s) (be_nat (c # s)) = s"
    using Cons be_bytes_high [of "length s" "byte c" "be_nat s"] by (simp add: be_nat_Cons mult.commute)
  moreover have "be_nat (c # s) div 256 ^ length s = byte c"
    using be_nat_less [of s] by (simp add: be_nat_Cons)
  ultimately show ?case using byte_less [of c] by (simp add: be_bytes_Suc)
qed (simp add: be_bytes_def)

lemma chunk_bounds: "0 < DefaultChunkSize" "DefaultChunkSize + Overhead < 256 ^ 4"
  by (simp_all add: DefaultChunkSize_def Overhead_def)

section \<open>Frames\<close>

definition chunk_ok :: "string \<Rightarrow> bool" where
  "chunk_ok p \<longleftrightarrow> p \<noteq> [] \<and> length p \<le> DefaultChunkSize"

lemma aeadD:
  assumes "aead_ok a"
  shows "length (ae_seal a k n p x) = length p + Overhead" "ae_open a k n c x = Some p \<longleftrightarrow> c = ae_seal a k n p x"
  using assms by (auto simp: aead_ok_def Overhead_def)

lemma seal_injective: "aead_ok a \<Longrightarrow> ae_seal a k n p x = ae_seal a k n q x \<Longrightarrow> p = q"
  by (metis aeadD(2) option.inject)

lemma frame_header:
  assumes "aead_ok a" and "length p \<le> DefaultChunkSize"
  shows "take 4 (frame a key i p @ y) = be_bytes 4 (length p + Overhead)" and "be_nat (take 4 (frame a key i p @ y)) = length p + Overhead"
    and "drop 4 (frame a key i p @ y) = ae_seal a key (nonceFor i) p (index_data i) @ y"
  using assms chunk_bounds(2) by (simp_all add: frame_def Let_def aeadD(1) be_nat_be_bytes)

lemma decrypt_frame:
  assumes "aead_ok a" and "length p \<le> DefaultChunkSize"
  shows "decrypt_loop a key i (frame a key i p @ y) =
    (if p = [] then ([], Inr 0)
     else (case decrypt_loop a key (Suc i) y of (out, Inl e) \<Rightarrow> (p @ out, Inl e) | (out, Inr n) \<Rightarrow> (p @ out, Inr (length p + n))))"
proof -
  have len: "length (ae_seal a key (nonceFor i) p (index_data i)) = length p + Overhead" by (rule aeadD(1) [OF assms(1)])
  have "ae_open a key (nonceFor i) (ae_seal a key (nonceFor i) p (index_data i)) (index_data i) = Some p"
    using aeadD(2) [OF assms(1)] by blast
  moreover have "\<not> length (frame a key i p @ y) < 4" by (simp add: frame_def Let_def)
  ultimately show ?thesis
    using frame_header [OF assms, of key i y] assms(2) len
    by (subst decrypt_loop.simps) (simp add: Let_def)
qed

lemma decrypt_frames:
  assumes "aead_ok a" and "list_all chunk_ok ps"
  shows "decrypt_loop a key i (frames a key i ps @ y) = (concat ps, Inr (length (concat ps)))"
  using assms(2)
proof (induction ps arbitrary: i)
  case Nil
  then show ?case using decrypt_frame [OF assms(1), of "[]"] by simp
next
  case (Cons p ps)
  then show ?case using decrypt_frame [OF assms(1), of p key i "frames a key (Suc i) ps @ y"] by (simp add: chunk_ok_def)
qed

lemma frame_back:
  assumes "length x \<ge> 4" and "be_nat (take 4 x) \<le> length (drop 4 x)" and "take (be_nat (take 4 x)) (drop 4 x) = ae_seal a key (nonceFor i) p (index_data i)"
    and "aead_ok a"
  shows "x = frame a key i p @ drop (be_nat (take 4 x)) (drop 4 x)" and "be_nat (take 4 x) = length p + Overhead"
proof -
  show l: "be_nat (take 4 x) = length p + Overhead"
    using assms aeadD(1) [OF assms(4), of key "nonceFor i" p "index_data i"] by (metis length_take min.absorb2)
  have "length (take 4 x) = 4" using assms(1) by simp
  then have "be_bytes 4 (be_nat (take 4 x)) = take 4 x" using be_bytes_be_nat [of "take 4 x"] by simp
  moreover have "x = take 4 x @ take (be_nat (take 4 x)) (drop 4 x) @ drop (be_nat (take 4 x)) (drop 4 x)"
    by (simp only: append_take_drop_id)
  ultimately show "x = frame a key i p @ drop (be_nat (take 4 x)) (drop 4 x)"
    using assms(3) l by (simp add: frame_def Let_def aeadD(1) [OF assms(4)])
qed

lemma accepted_frames:
  shows "aead_ok a \<Longrightarrow> decrypt_loop a key i x = (out, Inr n) \<Longrightarrow>
    \<exists>ps rest. x = frames a key i ps @ rest \<and> list_all chunk_ok ps \<and> out = concat ps \<and> n = length out"
proof (induction a key i x arbitrary: out n rule: decrypt_loop.induct)
  case (1 a key i x)
  let ?clen = "be_nat (take 4 x)" and ?rest = "drop 4 x"
  note unfolded = "1.prems"(2) [unfolded decrypt_loop.simps [of a key i x] Let_def]
  have len: "\<not> length x < 4" "\<not> (?clen < Overhead \<or> ?clen > DefaultChunkSize + Overhead)" "\<not> length ?rest < ?clen"
    using unfolded by (auto split: if_splits)
  then obtain p where p: "ae_open a key (nonceFor i) (take ?clen ?rest) (index_data i) = Some p"
    using unfolded by (cases "ae_open a key (nonceFor i) (take ?clen ?rest) (index_data i)") auto
  have small: "length p \<le> DefaultChunkSize"
    and x: "x = frame a key i p @ drop ?clen ?rest"
  proof -
    have ct: "take ?clen ?rest = ae_seal a key (nonceFor i) p (index_data i)" using p aeadD(2) [OF "1.prems"(1)] by blast
    have "4 \<le> length x" "?clen \<le> length ?rest" using len by auto
    note framed = frame_back [OF this ct "1.prems"(1)]
    show "x = frame a key i p @ drop ?clen ?rest" by (rule framed(1))
    show "length p \<le> DefaultChunkSize" using framed(2) len(2) by simp
  qed
  show ?case
  proof (cases "p = []")
    case True
    with unfolded len p have "out = []" "n = 0" by simp_all
    with x True have "x = frames a key i [] @ drop ?clen ?rest \<and> list_all chunk_ok [] \<and> out = concat [] \<and> n = length out" by simp
    then show ?thesis by blast
  next
    case False
    obtain out' r where rec: "decrypt_loop a key (Suc i) (drop ?clen ?rest) = (out', r)" by fastforce
    with unfolded len p False obtain n' where n': "r = Inr n'" "out = p @ out'" "n = length p + n'" by (cases r) simp_all
    from "1.IH" [OF len(1) refl refl len(2) len(3) p False "1.prems"(1)] rec n'(1) obtain ps rest
      where "drop ?clen ?rest = frames a key (Suc i) ps @ rest" "list_all chunk_ok ps" "out' = concat ps" "n' = length out'" by blast
    with x n' False small have "x = frames a key i (p # ps) @ rest \<and> list_all chunk_ok (p # ps) \<and> out = concat (p # ps) \<and> n = length out"
      by (simp add: chunk_ok_def)
    then show ?thesis by blast
  qed
qed

text \<open>No sequence of frames is the beginning of another one.\<close>

lemma frame_append:
  assumes "aead_ok a" and "length p \<le> DefaultChunkSize" and "length q \<le> DefaultChunkSize" and "frame a key i p @ x = frame a key i q @ y"
  shows "p = q" and "x = y"
proof -
  have "length p + Overhead = length q + Overhead"
    using frame_header(2) [OF assms(1,2), of key i x] frame_header(2) [OF assms(1,3), of key i y] assms(4) by simp
  then have "length (ae_seal a key (nonceFor i) p (index_data i)) = length (ae_seal a key (nonceFor i) q (index_data i))"
    using aeadD(1) [OF assms(1)] by simp
  moreover have "ae_seal a key (nonceFor i) p (index_data i) @ x = ae_seal a key (nonceFor i) q (index_data i) @ y"
    using frame_header(3) [OF assms(1,2), of key i x] frame_header(3) [OF assms(1,3), of key i y] assms(4) by simp
  ultimately have eq: "ae_seal a key (nonceFor i) p (index_data i) = ae_seal a key (nonceFor i) q (index_data i)" "x = y" by simp_all
  then show "p = q" "x = y" using seal_injective [OF assms(1)] by blast+
qed

lemma frames_prefix_free:
  assumes "aead_ok a"
  shows "list_all chunk_ok ps \<Longrightarrow> list_all chunk_ok qs \<Longrightarrow> frames a key i ps = frames a key i qs @ x \<Longrightarrow> ps = qs \<and> x = []"
proof (induction ps arbitrary: i qs)
  case Nil
  show ?case
  proof (cases qs)
    case Nil
    then show ?thesis using Nil.prems(3) frame_append [OF assms, of "[]" "[]" key i "[]" x] by simp
  next
    case (Cons q qs')
    then have "frame a key i [] @ [] = frame a key i q @ frames a key (Suc i) qs' @ x" using Nil.prems(3) by simp
    then have "[] = q" by (rule frame_append(1) [OF assms, rotated 2]) (use Cons Nil.prems(2) in \<open>simp_all add: chunk_ok_def\<close>)
    then show ?thesis using Cons Nil.prems(2) by (simp add: chunk_ok_def)
  qed
next
  case (Cons p ps)
  show ?case
  proof (cases qs)
    case Nil
    then have "frame a key i p @ frames a key (Suc i) ps = frame a key i [] @ x" using Cons.prems(3) by simp
    then have "p = []" by (rule frame_append(1) [OF assms, rotated 2]) (use Cons.prems(1) in \<open>simp_all add: chunk_ok_def\<close>)
    then show ?thesis using Cons.prems(1) by (simp add: chunk_ok_def)
  next
    case (Cons q qs')
    have "frame a key i p @ frames a key (Suc i) ps = frame a key i q @ frames a key (Suc i) qs' @ x" using Cons Cons.prems(3) by simp
    from frame_append [OF assms _ _ this] have "p = q" "frames a key (Suc i) ps = frames a key (Suc i) qs' @ x"
      using Cons Cons.prems(1,2) by (simp_all add: chunk_ok_def)
    then show ?thesis using Cons.IH [of qs' "Suc i"] Cons Cons.prems(1,2) by simp
  qed
qed

lemma chunks_ok: "list_all chunk_ok (chunks DefaultChunkSize s)"
proof -
  have "list_all (\<lambda>p. p \<noteq> [] \<and> length p \<le> k) (chunks k s)" if "0 < k" for k
    using that
  proof (induction k s rule: chunks.induct)
    case (1 k s)
    then show ?case by (cases "s = []") (simp_all add: chunks.simps [of k s])
  qed
  from this [OF chunk_bounds(1)] show ?thesis by (simp add: chunk_ok_def [abs_def])
qed

section \<open>Artifacts\<close>

lemma header:
  "decryptStream a key (magic @ be_bytes 4 DefaultChunkSize @ x) = decrypt_loop a key 0 x"
  using chunk_bounds(2) by (simp add: decryptStream_def Let_def be_nat_be_bytes Overhead_def)

lemma accepted_header:
  assumes "decryptStream a key x = (out, Inr n)"
  shows "\<exists>y. x = magic @ be_bytes 4 DefaultChunkSize @ y \<and> decrypt_loop a key 0 y = (out, Inr n)"
proof -
  let ?y = "drop (length magic) x"
  have m: "take (length magic) x = magic" "4 \<le> length ?y" "be_nat (take 4 ?y) = DefaultChunkSize" "decrypt_loop a key 0 (drop 4 ?y) = (out, Inr n)"
    using assms by (auto simp: decryptStream_def Let_def split: if_splits)
  then have "take 4 ?y = be_bytes 4 DefaultChunkSize" using be_bytes_be_nat [of "take 4 ?y"] by simp
  then have "x = magic @ be_bytes 4 DefaultChunkSize @ drop 4 ?y" by (metis append_take_drop_id m(1))
  with m(4) show ?thesis by blast
qed

text \<open>C35: An encrypted backup artifact decrypts to exactly what was encrypted, whatever its length: empty, a multiple
  of the chunk size or not.\<close>

theorem artifact_roundtrip:
  assumes "aead_ok a" and "length key = DataKeySize" and "EncryptFile a key s = Inr (x, n)"
  shows "DecryptFile a key x = (s, Inr n)"
proof -
  have "decrypt_loop a key 0 (frames a key 0 (chunks DefaultChunkSize s) @ []) = (s, Inr (length s))"
    using decrypt_frames [OF assms(1) chunks_ok] chunk_bounds(1) by (simp only: concat_chunks)
  then show ?thesis using assms(2,3) by (auto simp: DecryptFile_def EncryptFile_def encryptStream_def header split: if_splits)
qed


text \<open>C37: An artifact that was cut anywhere, at a chunk boundary too, is refused.\<close>

theorem artifact_truncated:
  assumes "aead_ok a" and "EncryptFile a key s = Inr (x @ y, n)" and "y \<noteq> []"
  shows "snd (DecryptFile a key x) \<in> {Inl KeySize, Inl Corrupt}"
proof (cases "DecryptFile a key x")
  case (Pair out r)
  have "isl r"
  proof (rule ccontr)
    assume "\<not> isl r"
    then obtain n where "DecryptFile a key x = (out, Inr n)" using Pair by (cases r) auto
    then have "decryptStream a key x = (out, Inr n)" by (simp add: DecryptFile_def split: if_splits)
    from accepted_header [OF this] obtain z where z: "x = magic @ be_bytes 4 DefaultChunkSize @ z" "decrypt_loop a key 0 z = (out, Inr n)" by blast
    from accepted_frames [OF assms(1) z(2)] obtain ps rest where ps: "z = frames a key 0 ps @ rest" "list_all chunk_ok ps" by blast
    have "encryptStream a key s = x @ y" using assms(2) by (simp add: EncryptFile_def split: if_splits)
    then have "frames a key 0 (chunks DefaultChunkSize s) = frames a key 0 ps @ rest @ y" using z(1) ps(1) by (simp add: encryptStream_def)
    from frames_prefix_free [OF assms(1) chunks_ok ps(2) this] assms(3) show False by simp
  qed
  then obtain e where "r = Inl e" by (cases r) auto
  with Pair show ?thesis by (cases e) simp_all
qed

section \<open>Witnesses\<close>

text \<open>A cipher that hides nothing but obeys the laws: the tag repeats the number of the chunk.\<close>

definition toy_tag :: "string \<Rightarrow> string" where
  "toy_tag x = take 16 (x @ replicate 16 (CHR ''.''))"

definition toy_aead :: aead where
  "toy_aead = \<lparr>ae_seal = (\<lambda>k n p x. p @ toy_tag x),
     ae_open = (\<lambda>k n c x. if 16 \<le> length c \<and> drop (length c - 16) c = toy_tag x then Some (take (length c - 16) c) else None)\<rparr>"

lemma toy_ok: "aead_ok toy_aead"
proof -
  have len: "length (toy_tag x) = 16" for x by (simp add: toy_tag_def)
  have "(if 16 \<le> length c \<and> drop (length c - 16) c = toy_tag x then Some (take (length c - 16) c) else None) = Some p \<longleftrightarrow> c = p @ toy_tag x" for c x p
    using len [of x] by (auto simp: min_def) (metis append_take_drop_id)
  then show ?thesis using len by (simp add: aead_ok_def toy_aead_def)
qed

definition toy_key :: string where "toy_key = replicate 32 (CHR ''k'')"

lemma toy_encrypts: "EncryptFile toy_aead toy_key ''data'' = Inr (encryptStream toy_aead toy_key ''data'', 4)"
  by (simp add: EncryptFile_def toy_key_def DataKeySize_def)

theorem artifact_roundtrip_witness:
  "DecryptFile toy_aead toy_key (encryptStream toy_aead toy_key ''data'') = (''data'', Inr 4)"
  by (rule artifact_roundtrip [OF toy_ok _ toy_encrypts]) (simp add: toy_key_def DataKeySize_def)

lemma toy_decrypts: "DecryptFile toy_aead toy_key (encryptStream toy_aead toy_key ''data'') = (''data'', Inr 4)"
proof -
  have "decrypt_loop toy_aead toy_key 0 (frames toy_aead toy_key 0 (chunks DefaultChunkSize ''data'') @ []) = (''data'', Inr 4)"
    using decrypt_frames [OF toy_ok chunks_ok, of toy_key 0 "''data''" "[]"] concat_chunks [OF chunk_bounds(1), of "''data''"] by simp
  then show ?thesis by (simp add: DecryptFile_def encryptStream_def header toy_key_def DataKeySize_def)
qed


theorem artifact_truncated_witness:
  "snd (DecryptFile toy_aead toy_key (take 9 (encryptStream toy_aead toy_key ''data''))) \<in> {Inl KeySize, Inl Corrupt}"
proof (rule artifact_truncated [OF toy_ok])
  have "encryptStream toy_aead toy_key ''data'' = take 9 (encryptStream toy_aead toy_key ''data'') @ drop 9 (encryptStream toy_aead toy_key ''data'')"
    by (rule append_take_drop_id [symmetric])
  then show "EncryptFile toy_aead toy_key ''data'' = Inr (take 9 (encryptStream toy_aead toy_key ''data'') @ drop 9 (encryptStream toy_aead toy_key ''data''), 4)"
    using toy_encrypts by simp
  have "10 \<le> length (encryptStream toy_aead toy_key ''data'')" by (simp add: encryptStream_def magic_def)
  then show "drop 9 (encryptStream toy_aead toy_key ''data'') \<noteq> []" by simp
qed

end
