(* ===== verification/GoTime.thy ===== *)
theory GoTime
  imports Prelude
begin

text \<open>
  Go's \<open>time.Time.AddDate\<close> on UTC times: the civil date of a clock reading (proleptic
  Gregorian calendar, year 1 is day 0 shifted to the Unix epoch), \<open>time.Date\<close>'s
  normalisation of an overflowing month, and the day arithmetic that follows from it.
  A day that does not exist in the target month runs over into the next month, as
  \<open>time.Date\<close> does it (31 January plus one month is 2 or 3 March).
\<close>

section \<open>Civil calendar\<close>

definition day_ns :: int where "day_ns = 24 * hour"

definition is_leap :: "int \<Rightarrow> bool" where
  "is_leap y \<longleftrightarrow> 4 dvd y \<and> (\<not> 100 dvd y \<or> 400 dvd y)"

definition year_len :: "int \<Rightarrow> int" where
  "year_len y = (if is_leap y then 366 else 365)"

definition month_len :: "int \<Rightarrow> int \<Rightarrow> int" where
  "month_len y m =
     (if m = 2 then (if is_leap y then 29 else 28)
      else if m = 4 \<or> m = 6 \<or> m = 9 \<or> m = 11 then 30 else 31)"

definition days_before_year :: "int \<Rightarrow> int" where
  "days_before_year y =
     365 * (y - 1) + (y - 1) div 4 - (y - 1) div 100 + (y - 1) div 400"

definition days_before_month :: "int \<Rightarrow> int \<Rightarrow> int" where
  "days_before_month y m = sum_list (map (month_len y) [1..m - 1])"

definition epoch_day :: int where "epoch_day = 719162"

definition days_from_civil :: "int \<Rightarrow> int \<Rightarrow> int \<Rightarrow> int" where
  "days_from_civil y m d = days_before_year y + days_before_month y m + (d - 1) - epoch_day"

definition year_of_day :: "int \<Rightarrow> int" where
  "year_of_day n =
     (let q = n + epoch_day; e = q * 400 div 146097 + 1
      in if days_before_year (e + 1) \<le> q then e + 1
         else if q < days_before_year e then e - 1 else e)"

function month_of_yday :: "int \<Rightarrow> int \<Rightarrow> int \<Rightarrow> int \<times> int" where
  "month_of_yday y m r =
     (if m < 12 \<and> month_len y m \<le> r then month_of_yday y (m + 1) (r - month_len y m)
      else (m, r + 1))"
  by pat_completeness auto
termination
  by (relation "measure (\<lambda>(y, m, r). nat (12 - m))") auto

declare month_of_yday.simps [simp del]

definition civil_of_day :: "int \<Rightarrow> int \<times> int \<times> int" where
  "civil_of_day n =
     (let y = year_of_day n; (m, d) = month_of_yday y 1 (n + epoch_day - days_before_year y)
      in (y, m, d))"

section \<open>AddDate\<close>

definition add_date :: "int \<Rightarrow> int \<Rightarrow> int \<Rightarrow> time \<Rightarrow> time" where
  "add_date years months days t =
     (case civil_of_day (t div day_ns) of
        (y, m, d) \<Rightarrow>
          (let m0 = m - 1 + months;
               y' = y + years + m0 div 12;
               m' = m0 mod 12 + 1
           in (days_from_civil y' m' 1 + (d - 1) + days) * day_ns + t mod day_ns))"

section \<open>Calendar lemmas\<close>

lemma month_len_pos: "0 < month_len y m"
  by (simp add: month_len_def)

lemma month_len_bounds: "28 \<le> month_len y m \<and> month_len y m \<le> 31"
  by (simp add: month_len_def)

lemma div_step:
  assumes "0 < (k::int)"
  shows "(x + 1) div k = x div k + (if k dvd x + 1 then 1 else 0)"
proof (cases "k dvd x + 1")
  case True
  then obtain q where "x + 1 = k * q" by (elim dvdE)
  then have "x = k * (q - 1) + (k - 1)" by (simp add: algebra_simps)
  then have "x div k = q - 1" using assms by (intro int_div_pos_eq [of x k "q - 1" "k - 1"]) auto
  with True assms \<open>x + 1 = k * q\<close> show ?thesis by simp
next
  case False
  let ?r = "(x + 1) mod k"
  have nz: "?r \<noteq> 0" using False by (simp add: dvd_eq_mod_eq_0)
  have ge: "0 \<le> ?r" using assms by simp
  have lt: "?r < k" using assms by simp
  have "x + 1 = k * ((x + 1) div k) + ?r" by simp
  then have eq: "x = k * ((x + 1) div k) + (?r - 1)" by linarith
  have "0 \<le> ?r - 1" "?r - 1 < k" using nz ge lt by linarith+
  with eq have "x div k = (x + 1) div k" by (rule int_div_pos_eq)
  with False show ?thesis by simp
qed

lemma year_step_lin:
  fixes y a b c a' b' c' :: int
  assumes "a' = a + (if p then 1 else 0)" "b' = b + (if q then 1 else 0)"
    "c' = c + (if r then 1 else 0)" "q \<Longrightarrow> p" "r \<Longrightarrow> q"
  shows "365 * y + a' - b' + c' = 365 * (y - 1) + a - b + c + (if p \<and> (\<not> q \<or> r) then 366 else 365)"
  using assms by (cases p; cases q; cases r) simp_all

lemma year_step: "days_before_year (y + 1) = days_before_year y + year_len y"
proof -
  have s: "y div k = (y - 1) div k + (if k dvd y then 1 else 0)" if "0 < k" for k
    using div_step [OF that, of "y - 1"] by simp
  have d: "4 dvd y" if "100 dvd y" using that by (rule dvd_trans [rotated]) simp
  have d': "100 dvd y" if "400 dvd y" using that by (rule dvd_trans [rotated]) simp
  have "days_before_year (y + 1) = 365 * y + y div 4 - y div 100 + y div 400"
    by (simp add: days_before_year_def)
  also have "\<dots> = 365 * (y - 1) + (y - 1) div 4 - (y - 1) div 100 + (y - 1) div 400
      + (if 4 dvd y \<and> (\<not> 100 dvd y \<or> 400 dvd y) then 366 else 365)"
    by (rule year_step_lin) (rule s d d'; simp)+
  finally show ?thesis unfolding days_before_year_def year_len_def is_leap_def .
qed

lemma days_before_month_upto:
  "days_before_month y 1 = 0"
  "days_before_month y 2 = 31"
  "days_before_month y 3 = 31 + month_len y 2"
  "days_before_month y 4 = 62 + month_len y 2"
  "days_before_month y 5 = 92 + month_len y 2"
  "days_before_month y 6 = 123 + month_len y 2"
  "days_before_month y 7 = 153 + month_len y 2"
  "days_before_month y 8 = 184 + month_len y 2"
  "days_before_month y 9 = 215 + month_len y 2"
  "days_before_month y 10 = 245 + month_len y 2"
  "days_before_month y 11 = 276 + month_len y 2"
  "days_before_month y 12 = 306 + month_len y 2"
  by (simp_all add: days_before_month_def upto.simps month_len_def)

lemma month_cases:
  assumes "1 \<le> m" "m \<le> (12::int)"
  shows "m = 1 \<or> m = 2 \<or> m = 3 \<or> m = 4 \<or> m = 5 \<or> m = 6 \<or> m = 7 \<or> m = 8 \<or> m = 9 \<or> m = 10
    \<or> m = 11 \<or> m = 12"
  using assms by presburger

lemma month_step:
  assumes "1 \<le> m" "m < 12"
  shows "days_before_month y (m + 1) = days_before_month y m + month_len y m"
proof -
  have "m = 1 \<or> m = 2 \<or> m = 3 \<or> m = 4 \<or> m = 5 \<or> m = 6 \<or> m = 7 \<or> m = 8 \<or> m = 9 \<or> m = 10 \<or> m = 11"
    using assms by presburger
  then show ?thesis
    by (elim disjE) (simp_all add: days_before_month_upto month_len_def)
qed

lemma year_len_months: "days_before_month y 12 + month_len y 12 = year_len y"
  by (simp add: days_before_month_upto month_len_def year_len_def)

text \<open>The number of days of a month is the distance to the first of the next month.\<close>

definition next_month :: "int \<times> int \<Rightarrow> int \<times> int" where
  "next_month ym = (if snd ym = 12 then (fst ym + 1, 1) else (fst ym, snd ym + 1))"

lemma next_month_first:
  assumes "1 \<le> m" "m \<le> 12"
  shows "days_from_civil (fst (next_month (y, m))) (snd (next_month (y, m))) 1
    = days_from_civil y m 1 + month_len y m"
  using assms year_len_months [of y] month_step [of m y]
  by (auto simp: next_month_def days_from_civil_def year_step days_before_month_upto(1))

lemma year_lin:
  fixes n a b c :: int
  assumes "4 * a \<le> n" "n \<le> 4 * a + 3" "100 * b \<le> n" "n \<le> 100 * b + 99"
    "400 * c \<le> n" "n \<le> 400 * c + 399"
  shows "400 * (365 * n + a - b + c) \<le> 146097 * n + 396"
    and "146097 * n - 699 \<le> 400 * (365 * n + a - b + c)"
  using assms by - (simp_all add: algebra_simps)

lemma div_bounds:
  assumes "0 < (k::int)"
  shows "k * (n div k) \<le> n" and "n \<le> k * (n div k) + (k - 1)"
proof -
  have "k * (n div k) + n mod k = n" by simp
  moreover have "0 \<le> n mod k" "n mod k < k" using assms by auto
  ultimately show "k * (n div k) \<le> n" "n \<le> k * (n div k) + (k - 1)" by linarith+
qed

lemma year_bounds:
  "400 * days_before_year y \<le> 146097 * (y - 1) + 396"
  "146097 * (y - 1) - 699 \<le> 400 * days_before_year y"
  using div_bounds [of 4 "y - 1"] div_bounds [of 100 "y - 1"] div_bounds [of 400 "y - 1"]
  unfolding days_before_year_def by (intro year_lin; simp)+

lemma year_of_day_bounds:
  "days_before_year (year_of_day n) \<le> n + epoch_day
    \<and> n + epoch_day < days_before_year (year_of_day n + 1)"
proof -
  define q where "q = n + epoch_day"
  define e where "e = q * 400 div 146097 + 1"
  have e: "146097 * (e - 1) \<le> 400 * q" "400 * q < 146097 * (e - 1) + 146097"
    using div_bounds [of 146097 "q * 400"] unfolding e_def by (simp_all add: mult.commute)
  have "400 * days_before_year (e - 1) \<le> 400 * q"
    using year_bounds(1) [of "e - 1"] e by simp
  then have lo: "days_before_year (e - 1) \<le> q" by simp
  have "400 * q < 400 * days_before_year (e + 2)"
    using year_bounds(2) [of "e + 2"] e by simp
  then have hi: "q < days_before_year (e + 2)" by simp
  have "year_of_day n =
    (if days_before_year (e + 1) \<le> q then e + 1 else if q < days_before_year e then e - 1 else e)"
    by (simp add: year_of_day_def Let_def q_def e_def)
  then show ?thesis using lo hi by (auto simp: q_def [symmetric] add.assoc)
qed

lemma month_of_yday_spec:
  assumes "1 \<le> m" "m \<le> 12" "0 \<le> r" "days_before_month y m + r < year_len y"
    and "month_of_yday y m r = (m', d)"
  shows "1 \<le> m' \<and> m' \<le> 12 \<and> 1 \<le> d \<and> d \<le> month_len y m'
    \<and> days_before_month y m' + (d - 1) = days_before_month y m + r"
  using assms
proof (induction y m r rule: month_of_yday.induct)
  case (1 y m r)
  show ?case
  proof (cases "m < 12 \<and> month_len y m \<le> r")
    case True
    have step: "days_before_month y (m + 1) = days_before_month y m + month_len y m"
      using "1.prems" True by (intro month_step) auto
    from True "1.prems"(5) have "month_of_yday y (m + 1) (r - month_len y m) = (m', d)"
      by (subst (asm) month_of_yday.simps) simp
    with "1.IH" [OF True] "1.prems" True step show ?thesis by auto
  next
    case False
    with "1.prems"(5) have "m' = m" "d = r + 1" by (subst (asm) month_of_yday.simps, simp)+
    moreover have "r < month_len y m"
      using False "1.prems" year_len_months [of y] by (cases "m = 12") auto
    ultimately show ?thesis using "1.prems" by auto
  qed
qed

text \<open>The civil date of a day is the date with that day number.\<close>

lemma civil_of_day_spec:
  assumes "civil_of_day n = (y, m, d)"
  shows "1 \<le> m \<and> m \<le> 12 \<and> 1 \<le> d \<and> d \<le> month_len y m \<and> days_from_civil y m d = n"
proof -
  define r where "r = n + epoch_day - days_before_year (year_of_day n)"
  obtain m' d' where md: "month_of_yday (year_of_day n) 1 r = (m', d')" by fastforce
  from assms md have eq: "y = year_of_day n" "m = m'" "d = d'"
    by (auto simp: civil_of_day_def Let_def r_def)
  have r: "0 \<le> r" "r < year_len y"
    using year_of_day_bounds [of n] eq(1) by (auto simp: r_def year_step)
  have "1 \<le> m' \<and> m' \<le> 12 \<and> 1 \<le> d' \<and> d' \<le> month_len y m'
    \<and> days_before_month y m' + (d' - 1) = days_before_month y 1 + r"
    using md r eq(1) by (intro month_of_yday_spec) (auto simp: days_before_month_upto(1))
  then show ?thesis
    using eq by (auto simp: days_from_civil_def days_before_month_upto(1) r_def)
qed

text \<open>
  Adding \<open>k\<close> months moves the clock by the lengths of the \<open>k\<close> months starting with the
  current one, whatever the day of the month.
\<close>

lemma day_ns_pos [simp]: "0 < day_ns"
  by (simp add: day_ns_def hour_def minute_def second_def)

lemma add_date_shift:
  assumes "civil_of_day (t div day_ns) = (y, m, d)"
  shows "add_date ys ms 0 t = t +
    (days_from_civil (y + ys + (m - 1 + ms) div 12) ((m - 1 + ms) mod 12 + 1) 1
      - days_from_civil y m 1) * day_ns"
proof -
  have "days_from_civil y m d = t div day_ns" using civil_of_day_spec [OF assms] by simp
  then have "d - 1 = t div day_ns - days_from_civil y m 1" by (simp add: days_from_civil_def)
  then have "add_date ys ms 0 t =
    (days_from_civil (y + ys + (m - 1 + ms) div 12) ((m - 1 + ms) mod 12 + 1) 1
      + (t div day_ns - days_from_civil y m 1)) * day_ns + t mod day_ns"
    using assms by (simp add: add_date_def Let_def)
  also have "\<dots> = (t div day_ns * day_ns + t mod day_ns) +
    (days_from_civil (y + ys + (m - 1 + ms) div 12) ((m - 1 + ms) mod 12 + 1) 1
      - days_from_civil y m 1) * day_ns"
    by (simp add: algebra_simps)
  finally show ?thesis by simp
qed

lemma month_index:
  assumes "1 \<le> m" "m \<le> (12::int)"
  shows "(y + (m - 1 + 1) div 12, (m - 1 + 1) mod 12 + 1) = next_month (y, m)"
proof (cases "m = 12")
  case True
  then show ?thesis by (simp add: next_month_def)
next
  case False
  with assms have "m div 12 = 0" "m mod 12 = m" by (auto simp: div_pos_pos_trivial)
  with False show ?thesis by (simp add: next_month_def)
qed

lemma next_month_range:
  assumes "1 \<le> m" "m \<le> 12" "next_month (y, m) = (y', m')"
  shows "1 \<le> m' \<and> m' \<le> 12"
  using assms by (auto simp: next_month_def split: if_splits)

lemma add_one_month:
  assumes "civil_of_day (t div day_ns) = (y, m, d)"
  shows "add_date 0 1 0 t = t + month_len y m * day_ns"
proof -
  have m: "1 \<le> m" "m \<le> 12" using civil_of_day_spec [OF assms] by auto
  show ?thesis
    using add_date_shift [OF assms, of 0 1] next_month_first [OF m, of y] month_index [OF m, of y]
    by (simp add: prod_eq_iff)
qed

lemma month3_index:
  assumes "1 \<le> m" "m \<le> (12::int)"
  shows "(y + (m - 1 + 3) div 12, (m - 1 + 3) mod 12 + 1)
    = next_month (next_month (next_month (y, m)))"
  using month_cases [OF assms] by (elim disjE) (simp_all add: next_month_def)

lemma add_three_months:
  assumes "civil_of_day (t div day_ns) = (y, m, d)"
  shows "\<exists>k. add_date 0 3 0 t = t + k * day_ns \<and> 89 \<le> k \<and> k \<le> 92"
proof -
  have m: "1 \<le> m" "m \<le> 12" using civil_of_day_spec [OF assms] by auto
  obtain y1 m1 where 1: "next_month (y, m) = (y1, m1)" by fastforce
  obtain y2 m2 where 2: "next_month (y1, m1) = (y2, m2)" by fastforce
  obtain y3 m3 where 3: "next_month (y2, m2) = (y3, m3)" by fastforce
  have m1: "1 \<le> m1" "m1 \<le> 12" using next_month_range [OF m 1] by auto
  have m2: "1 \<le> m2" "m2 \<le> 12" using next_month_range [OF m1 2] by auto
  have "days_from_civil y3 m3 1 - days_from_civil y m 1
      = month_len y m + month_len y1 m1 + month_len y2 m2"
    using next_month_first [OF m, of y] next_month_first [OF m1, of y1]
      next_month_first [OF m2, of y2] by (simp add: 1 2 3)
  moreover have "month_len y m + month_len y1 m1 + month_len y2 m2 \<ge> 89
      \<and> month_len y m + month_len y1 m1 + month_len y2 m2 \<le> 92"
    using month_cases [OF m] 1 2
    by (elim disjE) (auto simp: next_month_def month_len_def)
  moreover have "add_date 0 3 0 t = t + (days_from_civil y3 m3 1 - days_from_civil y m 1) * day_ns"
    using add_date_shift [OF assms, of 0 3] month3_index [OF m, of y] by (simp add: 1 2 3)
  ultimately show ?thesis by (metis (no_types))
qed

lemma add_one_year:
  assumes "civil_of_day (t div day_ns) = (y, m, d)"
  shows "\<exists>k. add_date 1 0 0 t = t + k * day_ns \<and> 365 \<le> k \<and> k \<le> 366"
proof -
  have m: "1 \<le> m" "m \<le> 12" using civil_of_day_spec [OF assms] by auto
  have i: "(m - 1) div 12 = 0" "(m - 1) mod 12 = m - 1" using m by (auto simp: div_pos_pos_trivial)
  have "days_before_month (y + 1) m - days_before_month y m
      = (if m \<le> 2 then 0 else month_len (y + 1) 2 - month_len y 2)"
    using month_cases [OF m] by (elim disjE) (simp_all add: days_before_month_upto)
  moreover have "is_leap y \<Longrightarrow> \<not> is_leap (y + 1)"
  proof -
    have "4 dvd y \<Longrightarrow> \<not> 4 dvd (y + 1)" by presburger
    then show "is_leap y \<Longrightarrow> \<not> is_leap (y + 1)" unfolding is_leap_def by blast
  qed
  ultimately have k: "365 \<le> days_from_civil (y + 1) m 1 - days_from_civil y m 1
      \<and> days_from_civil (y + 1) m 1 - days_from_civil y m 1 \<le> 366"
    by (auto simp: days_from_civil_def year_step year_len_def month_len_def split: if_splits)
  have "add_date 1 0 0 t = t + (days_from_civil (y + 1) m 1 - days_from_civil y m 1) * day_ns"
    using add_date_shift [OF assms, of 1 0] i by simp
  with k show ?thesis by blast
qed

end
