(* ===== verification/BillingCore.thy ===== *)
theory BillingCore
  imports GoStrings GoTime "HOL-Library.Word"
begin

text \<open>
  Money, billing periods and the provisioning state machine,
  \<open>internal/billing/billing.go\<close>. Amounts are 64-bit words read as signed integers;
  \<open>BillingPeriod\<close> stays the open string type it is in the source.
\<close>

section \<open>Money\<close>

definition ValidateCurrency :: "string \<Rightarrow> bool" where
  "ValidateCurrency c \<longleftrightarrow> length c = 3 \<and> list_all is_upper c"

definition ValidateMinorUnit :: "i64 \<Rightarrow> bool" where
  "ValidateMinorUnit amount \<longleftrightarrow> 0 \<le> sint amount"

text \<open>Go's integer division truncates towards zero; \<open>%02d\<close> pads to two characters,
  the sign included.\<close>

definition quot :: "int \<Rightarrow> int \<Rightarrow> int" where
  "quot a b = (if a < 0 then - (- a div b) else a div b)"

definition rem :: "int \<Rightarrow> int \<Rightarrow> int" where
  "rem a b = a - b * quot a b"

definition pad0 :: "nat \<Rightarrow> string \<Rightarrow> string" where
  "pad0 n s = replicate (n - length s) (CHR ''0'') @ s"

definition FormatMinor :: "i64 \<Rightarrow> string \<Rightarrow> string" where
  "FormatMinor amount currency =
    (let neg = sint amount < 0;
         a = (if neg then - amount else amount)
     in (if neg then ''-'' else []) @ int_str (quot (sint a) 100) @ ''.''
        @ pad0 2 (int_str (rem (sint a) 100)) @ '' '' @ currency)"

section \<open>Billing periods\<close>

definition PeriodMonthly :: string where "PeriodMonthly = ''monthly''"
definition PeriodQuarterly :: string where "PeriodQuarterly = ''quarterly''"
definition PeriodYearly :: string where "PeriodYearly = ''yearly''"

definition ValidPeriod :: "string \<Rightarrow> bool" where
  "ValidPeriod p \<longleftrightarrow> p = PeriodMonthly \<or> p = PeriodQuarterly \<or> p = PeriodYearly"

definition PeriodMonths :: "string \<Rightarrow> nat" where
  "PeriodMonths p = (if p = PeriodQuarterly then 3 else if p = PeriodYearly then 12 else 1)"

definition AddPeriod :: "time \<Rightarrow> string \<Rightarrow> time" where
  "AddPeriod t p =
    (if p = PeriodQuarterly then add_date 0 3 0 t
     else if p = PeriodYearly then add_date 1 0 0 t
     else add_date 0 1 0 t)"

section \<open>The provisioning state machine\<close>

datatype state =
    StatePending | StateProvisioning | StateActive | StateSuspending
  | StateSuspended | StateTerminating | StateTerminated | StateFailed

definition state_name :: "state \<Rightarrow> string" where
  "state_name s = (case s of
     StatePending \<Rightarrow> ''PENDING'' | StateProvisioning \<Rightarrow> ''PROVISIONING'' | StateActive \<Rightarrow> ''ACTIVE''
   | StateSuspending \<Rightarrow> ''SUSPENDING'' | StateSuspended \<Rightarrow> ''SUSPENDED''
   | StateTerminating \<Rightarrow> ''TERMINATING'' | StateTerminated \<Rightarrow> ''TERMINATED'' | StateFailed \<Rightarrow> ''FAILED'')"

definition all_states :: "state list" where
  "all_states = [StatePending, StateProvisioning, StateActive, StateSuspending, StateSuspended,
     StateTerminating, StateTerminated, StateFailed]"

definition ValidState :: "string \<Rightarrow> bool" where
  "ValidState s \<longleftrightarrow> s \<in> set (map state_name all_states)"

datatype workload_kind = KindWeb | KindService

definition WorkloadKindForProductType :: "string \<Rightarrow> workload_kind" where
  "WorkloadKindForProductType t = (if t = ''hosting'' then KindWeb else KindService)"

definition edges :: "state \<Rightarrow> state list" where
  "edges s = (case s of
     StatePending \<Rightarrow> [StateProvisioning, StateFailed, StateTerminated]
   | StateProvisioning \<Rightarrow> [StateActive, StateFailed]
   | StateActive \<Rightarrow> [StateSuspending, StateTerminating]
   | StateSuspending \<Rightarrow> [StateSuspended, StateActive, StateFailed]
   | StateSuspended \<Rightarrow> [StateActive, StateTerminating]
   | StateTerminating \<Rightarrow> [StateTerminated, StateFailed]
   | StateTerminated \<Rightarrow> []
   | StateFailed \<Rightarrow> [StateProvisioning, StateSuspending, StateTerminating, StateTerminated])"

definition CanTransition :: "state \<Rightarrow> state \<Rightarrow> bool" where
  "CanTransition from to \<longleftrightarrow> (if from = to then False else list_ex (\<lambda>s. s = to) (edges from))"

definition LegacyStatus :: "state \<Rightarrow> string" where
  "LegacyStatus s = (case s of
     StatePending \<Rightarrow> ''trialing'' | StateProvisioning \<Rightarrow> ''trialing''
   | StateActive \<Rightarrow> ''active''
   | StateSuspending \<Rightarrow> ''past_due'' | StateSuspended \<Rightarrow> ''past_due'' | StateFailed \<Rightarrow> ''past_due''
   | StateTerminating \<Rightarrow> ''cancelled'' | StateTerminated \<Rightarrow> ''cancelled'')"

definition StateEvent :: "state \<Rightarrow> string" where
  "StateEvent s = ''billing.subscription.'' @ to_lower (state_name s)"

definition StateAuditAction :: "state \<Rightarrow> string" where
  "StateAuditAction s = ''billing.subscription_'' @ to_lower (state_name s)"

section \<open>Lemmas on money\<close>

lemma quot_nonneg: "0 \<le> a \<Longrightarrow> quot a b = a div b"
  by (simp add: quot_def)

lemma rem_nonneg: "0 \<le> a \<Longrightarrow> rem a b = a mod b"
  by (simp add: rem_def quot_def minus_mult_div_eq_mod)

lemma sint_range: "- (2 ^ 63) \<le> sint (a::i64) \<and> sint a < 2 ^ 63"
  using sint_greater_eq [of a] sint_less [of a] by simp

lemma sint_minus_ok:
  fixes a :: i64
  assumes "sint a \<noteq> - (2 ^ 63)"
  shows "sint (- a) = - sint a"
proof -
  have "- (2 ^ 63) \<le> - sint a" "- sint a < 2 ^ 63"
    using sint_range [of a] assms by linarith+
  then show ?thesis by (simp add: sint_word_minus signed_take_bit_int_eq_self)
qed

lemma sint_mult_ok:
  fixes a b :: i64
  assumes "- (2 ^ 63) \<le> sint a * sint b" and "sint a * sint b < 2 ^ 63"
  shows "sint (a * b) = sint a * sint b"
  using assms by (simp add: sint_word_mult signed_take_bit_int_eq_self)

lemma sint_add_ok:
  fixes a b :: i64
  assumes "- (2 ^ 63) \<le> sint a + sint b" and "sint a + sint b < 2 ^ 63"
  shows "sint (a + b) = sint a + sint b"
  using assms by (simp add: sint_word_add signed_take_bit_int_eq_self)

lemma int_str_nonneg: "0 \<le> i \<Longrightarrow> int_str i = nat_str (nat i)"
  by (simp add: int_str_def)

lemma length_nat_str_lt100: "n < 100 \<Longrightarrow> length (nat_str n) \<le> 2 \<and> 0 < length (nat_str n)"
  by (subst (1 2) nat_str.simps) (auto simp: nat_str.simps [of "n div 10"])

lemma digits_val_zeros: "digits_val 0 (replicate k (CHR ''0'') @ s) = digits_val 0 s"
  by (induction k) simp_all

lemma pad0_cents:
  assumes "n < 100"
  shows "length (pad0 2 (nat_str n)) = 2 \<and> list_all is_digit (pad0 2 (nat_str n))
    \<and> digits_val 0 (pad0 2 (nat_str n)) = n"
proof -
  have "list_all is_digit (nat_str n)" using all_digits_nat_str [of n] by (simp add: all_digits_def)
  moreover have "is_digit (CHR ''0'')" by code_simp
  ultimately show ?thesis using length_nat_str_lt100 [OF assms]
    by (auto simp: pad0_def digits_val_zeros list_all_iff)
qed

section \<open>Properties of money\<close>

text \<open>The display form of an amount is exact: for every 64-bit amount except the
  smallest one it is a sign, the whole units in decimal, a dot, exactly two digits of
  minor units, a blank and the currency, and the two parts add up to the amount.\<close>

theorem FormatMinor_exact:
  assumes "sint amount \<noteq> - (2 ^ 63)"
  shows "\<exists>units cents. FormatMinor amount currency =
      (if sint amount < 0 then ''-'' else []) @ nat_str units @ ''.'' @ cents @ '' '' @ currency
    \<and> length cents = 2 \<and> list_all is_digit cents
    \<and> \<bar>sint amount\<bar> = 100 * int units + int (digits_val 0 cents)"
proof -
  let ?a = "if sint amount < 0 then - amount else amount"
  let ?n = "\<bar>sint amount\<bar>"
  have a: "sint ?a = ?n" using sint_minus_ok [OF assms] by simp
  let ?units = "nat (?n div 100)" and ?m = "nat (?n mod 100)"
  have dv: "0 \<le> ?n div 100" by (simp add: pos_imp_zdiv_nonneg_iff)
  then have "int_str (quot (sint ?a) 100) = nat_str ?units"
    by (simp only: a) (simp add: quot_nonneg int_str_nonneg)
  moreover have "int_str (rem (sint ?a) 100) = nat_str ?m"
    by (simp only: a) (simp add: rem_nonneg int_str_nonneg)
  ultimately have "FormatMinor amount currency =
      (if sint amount < 0 then ''-'' else []) @ nat_str ?units @ ''.'' @ pad0 2 (nat_str ?m) @ '' '' @ currency"
    by (simp add: FormatMinor_def Let_def)
  moreover have "?m < 100" by simp
  note pad0_cents [OF this]
  moreover have "?n = 100 * int ?units + int ?m" using dv by simp
  ultimately show ?thesis by metis
qed

lemma FormatMinor_exact_witness:
  "\<exists>units cents. FormatMinor (- 1205) ''USD'' =
      (if sint (- 1205 :: i64) < 0 then ''-'' else []) @ nat_str units @ ''.'' @ cents @ '' '' @ ''USD''
    \<and> length cents = 2 \<and> list_all is_digit cents
    \<and> \<bar>sint (- 1205 :: i64)\<bar> = 100 * int units + int (digits_val 0 cents)"
  by (rule FormatMinor_exact) simp

section \<open>Properties of periods\<close>

text \<open>A billing period advances a date by 28 to 31 days (monthly), 89 to 92 days
  (quarterly) or 365 to 366 days (yearly), whole days only, so renewals always move
  forward and the time of day is kept.\<close>

theorem AddPeriod_bounds:
  "\<exists>k. AddPeriod t p = t + k * day_ns
    \<and> (if p = PeriodQuarterly then 89 \<le> k \<and> k \<le> 92
       else if p = PeriodYearly then 365 \<le> k \<and> k \<le> 366 else 28 \<le> k \<and> k \<le> 31)"
proof -
  obtain y m d where c: "civil_of_day (t div day_ns) = (y, m, d)" by (cases "civil_of_day (t div day_ns)")
  show ?thesis
    using add_one_month [OF c] add_three_months [OF c] add_one_year [OF c] month_len_bounds [of y m]
    by (auto simp: AddPeriod_def)
qed

section \<open>Properties of the state machine\<close>

lemma CanTransition_edges: "CanTransition a b \<longleftrightarrow> b \<in> set (edges a)"
  by (cases a; cases b) (simp_all add: CanTransition_def edges_def)

lemma terminated_stuck: "CanTransition\<^sup>*\<^sup>* StateTerminated s \<Longrightarrow> s = StateTerminated"
  by (induction rule: rtranclp_induct) (simp_all add: CanTransition_edges edges_def)

lemma edge_path: "b \<in> set (edges a) \<Longrightarrow> CanTransition\<^sup>*\<^sup>* b c \<Longrightarrow> CanTransition\<^sup>*\<^sup>* a c"
  by (rule converse_rtranclp_into_rtranclp) (simp_all add: CanTransition_edges)

lemma failed_paths: "CanTransition\<^sup>*\<^sup>* StateFailed StateTerminated \<and> CanTransition\<^sup>*\<^sup>* StateFailed StateActive"
proof -
  have "CanTransition\<^sup>*\<^sup>* StateProvisioning StateActive"
    by (rule edge_path [of StateActive]) (simp_all add: edges_def)
  then show ?thesis
    using edge_path [of StateTerminated StateFailed] edge_path [of StateProvisioning StateFailed]
    by (simp add: edges_def)
qed

text \<open>TERMINATED is the one final state of a subscription: it has no exit, and from
  every other state the machine can still reach both ACTIVE and TERMINATED. Every edge
  moves the legacy status along with the state, and no edge leads back to PENDING.\<close>

theorem state_machine_live:
  "(CanTransition\<^sup>*\<^sup>* s StateActive \<longleftrightarrow> s \<noteq> StateTerminated)
    \<and> CanTransition\<^sup>*\<^sup>* s StateTerminated
    \<and> (CanTransition StateTerminated t \<longleftrightarrow> False) \<and> \<not> CanTransition s StatePending"
proof -
  have act: "CanTransition\<^sup>*\<^sup>* s StateActive" if "s \<noteq> StateTerminated"
  proof (cases s)
    case StatePending
    then show ?thesis using edge_path [of StateFailed s] failed_paths by (simp add: edges_def)
  next
    case StateProvisioning
    then show ?thesis using edge_path [of StateActive s] by (simp add: edges_def)
  next
    case StateSuspending
    then show ?thesis using edge_path [of StateActive s] by (simp add: edges_def)
  next
    case StateSuspended
    then show ?thesis using edge_path [of StateActive s] by (simp add: edges_def)
  next
    case StateTerminating
    then show ?thesis using edge_path [of StateFailed s] failed_paths by (simp add: edges_def)
  qed (use that failed_paths in simp_all)
  have fin: "CanTransition\<^sup>*\<^sup>* StateTerminating StateTerminated"
    using edge_path [of StateTerminated StateTerminating] by (simp add: edges_def)
  then have active: "CanTransition\<^sup>*\<^sup>* StateActive StateTerminated"
    using edge_path [of StateTerminating StateActive] by (simp add: edges_def)
  have "CanTransition\<^sup>*\<^sup>* s StateTerminated"
    using act active by (cases "s = StateTerminated") (auto intro: rtranclp_trans)
  moreover have "s \<noteq> StateTerminated" if "CanTransition\<^sup>*\<^sup>* s StateActive"
    using that terminated_stuck by auto
  moreover have "\<not> CanTransition StateTerminated t" "\<not> CanTransition s StatePending"
    by (simp add: CanTransition_edges edges_def) (cases s; simp add: CanTransition_edges edges_def)
  ultimately show ?thesis using act by blast
qed

end
