(* ===== verification/BillingStore.thy ===== *)
theory BillingStore
  imports BillingCore
begin

text \<open>
  The billing tables and statements, \<open>internal/billing/store.go\<close>: orders, payments,
  invoices, subscriptions, customers and products as lists of rows, every statement as a
  function on them. One counter stands for the \<open>gen_random_uuid()\<close> defaults. The
  organisation that the source reads through the \<open>customers\<close> join (a customer's
  organisation never changes) is carried on the row. JSON documents are opaque texts; the
  display names joined from products and plans are left out. \<open>pg\<close> is PostgreSQL's
  addition of a billing interval to a timestamp. CHECK constraints are
  \<open>BillConstraint\<close>; failures of the database itself are not modelled.
\<close>

section \<open>Data\<close>

datatype order_status = OrderPending | OrderPaid | OrderCancelled | OrderFailed
datatype payment_status = PaymentAuthorized | PaymentCaptured | PaymentFailed | PaymentRefunded
datatype invoice_status = InvoiceDraft | InvoiceOpen | InvoicePaid | InvoiceVoid | InvoiceRefund
datatype invoice_kind = InvoiceKindPurchase | InvoiceKindRenewal | InvoiceKindManual

record product =
  pr_id :: uid
  pr_name :: string
  pr_type :: string
  pr_desc :: string
  pr_plan :: "uid option"
  pr_price :: i64
  pr_currency :: string
  pr_active :: bool
  pr_config :: string

record order =
  order_id :: uid
  order_org :: uid
  order_sub :: "uid option"
  order_product :: uid
  order_plan :: "uid option"
  order_status :: order_status
  order_period :: string
  order_amount :: i64
  order_currency :: string
  order_provider :: string
  order_ref :: string
  order_paid_at :: "time option"
  order_meta :: string
  order_created :: time

record money =
  m_amount :: i64
  m_currency :: string

record payment =
  pay_id :: uid
  pay_org :: uid
  pay_order :: "uid option"
  pay_invoice :: "uid option"
  pay_sub :: "uid option"
  pay_provider :: string
  pay_ref :: string
  pay_event :: string
  pay_kind :: invoice_kind
  pay_status :: payment_status
  pay_amount :: i64
  pay_currency :: string
  pay_reason :: string
  pay_created :: time

record line_item =
  li_desc :: string
  li_quantity :: int
  li_unit :: i64
  li_total :: i64

record invoice =
  inv_id :: uid
  inv_customer :: uid
  inv_org :: uid
  inv_number :: string
  inv_status :: invoice_status
  inv_currency :: string
  inv_subtotal :: i64
  inv_tax :: i64
  inv_total :: i64
  inv_lines :: "line_item list"
  inv_kind :: invoice_kind
  inv_sub :: "uid option"
  inv_issued :: "time option"
  inv_due :: "time option"
  inv_paid :: "time option"
  inv_created :: time

record subscription =
  sub_id :: uid
  sub_customer :: uid
  sub_org :: uid
  sub_plan :: "uid option"
  sub_product :: "uid option"
  sub_status :: string
  sub_state :: state
  sub_period :: string
  sub_start :: time
  sub_end :: time
  sub_cancel :: bool
  sub_changed :: time
  sub_kind :: string
  sub_website :: "uid option"
  sub_grace :: "time option"
  sub_anchor :: "time option"
  sub_invoice :: "uid option"
  sub_job :: "uid option"
  sub_error :: string
  sub_attempts :: int
  sub_created :: time

record payment_method =
  pm_provider :: string
  pm_token :: string
  pm_brand :: string
  pm_last4 :: string

record customer =
  cust_id :: uid
  cust_org :: uid
  cust_currency :: string
  cust_method :: payment_method

record bdb =
  b_products :: "product list"
  b_orders :: "order list"
  b_payments :: "payment list"
  b_invoices :: "invoice list"
  b_subs :: "subscription list"
  b_customers :: "customer list"
  b_next :: uid
  b_seq :: nat

datatype bill_err =
    BillNotFound | BillImmutable | BillInvoiceState | BillConstraint
  | BillTransition state state string
  | BillBadPeriod | BillUnknownProvider string | BillNotPurchasable string | BillBadAmount
  | BillBadCurrency | BillNoCustomer | BillDeclined string | BillGateway string
  | BillNoEngine | BillEngine string | BillWebhook string | BillNoProduct | BillMethodUnreadable

section \<open>Customers\<close>

definition no_method :: payment_method where
  "no_method = \<lparr>pm_provider = [], pm_token = [], pm_brand = [], pm_last4 = []\<rparr>"

definition EnsureCustomer :: "bdb \<Rightarrow> uid \<Rightarrow> string \<Rightarrow> bdb \<times> (bill_err + customer)" where
  "EnsureCustomer d org currency =
    (case by_key cust_org org (b_customers d) of
       Some c \<Rightarrow> (d, Inr c)
     | None \<Rightarrow>
         if \<not> ValidateCurrency currency then (d, Inl BillConstraint)
         else let c = \<lparr>cust_id = b_next d, cust_org = org, cust_currency = currency, cust_method = no_method\<rparr>
              in (d\<lparr>b_customers := b_customers d @ [c], b_next := b_next d + 1\<rparr>, Inr c))"

definition SetPaymentMethod :: "bdb \<Rightarrow> uid \<Rightarrow> payment_method \<Rightarrow> bdb \<times> (bill_err + unit)" where
  "SetPaymentMethod d org pm =
    (if rows_affected (\<lambda>c. cust_org c = org) (b_customers d) = 0 then (d, Inl BillNotFound)
     else (d\<lparr>b_customers := update_where (\<lambda>c. cust_org c = org) (\<lambda>c. c\<lparr>cust_method := pm\<rparr>) (b_customers d)\<rparr>, Inr ()))"

definition PaymentMethodRaw :: "bdb \<Rightarrow> uid \<Rightarrow> bill_err + payment_method" where
  "PaymentMethodRaw d org = (case by_key cust_org org (b_customers d) of
     None \<Rightarrow> Inl BillNotFound | Some c \<Rightarrow> Inr (cust_method c))"

section \<open>Orders\<close>

record order_input =
  oi_org :: uid
  oi_product :: uid
  oi_plan :: "uid option"
  oi_period :: string
  oi_amount :: i64
  oi_currency :: string
  oi_provider :: string
  oi_meta :: string
  oi_state :: state
  oi_kind :: string
  oi_start :: time

definition new_subscription :: "uid \<Rightarrow> time \<Rightarrow> customer \<Rightarrow> order_input \<Rightarrow> subscription" where
  "new_subscription i now c inp =
    \<lparr>sub_id = i, sub_customer = cust_id c, sub_org = cust_org c, sub_plan = oi_plan inp,
     sub_product = Some (oi_product inp), sub_status = LegacyStatus (oi_state inp),
     sub_state = oi_state inp, sub_period = oi_period inp, sub_start = oi_start inp,
     sub_end = AddPeriod (oi_start inp) (oi_period inp), sub_cancel = False, sub_changed = now,
     sub_kind = oi_kind inp, sub_website = None, sub_grace = None, sub_anchor = None,
     sub_invoice = None, sub_job = None, sub_error = [], sub_attempts = 0, sub_created = now\<rparr>"

definition createSubscription :: "bdb \<Rightarrow> time \<Rightarrow> order_input \<Rightarrow> bdb \<times> (bill_err + subscription)" where
  "createSubscription d now inp =
    (case by_key cust_org (oi_org inp) (b_customers d) of
       None \<Rightarrow> (d, Inl BillNoCustomer)
     | Some c \<Rightarrow>
         if \<not> ValidPeriod (oi_period inp) then (d, Inl BillConstraint)
         else let sub = new_subscription (b_next d) now c inp
              in (d\<lparr>b_subs := b_subs d @ [sub], b_next := b_next d + 1\<rparr>, Inr sub))"

definition new_order :: "uid \<Rightarrow> time \<Rightarrow> uid \<Rightarrow> order_input \<Rightarrow> order" where
  "new_order i now sid inp =
    \<lparr>order_id = i, order_org = oi_org inp, order_sub = Some sid, order_product = oi_product inp,
     order_plan = oi_plan inp, order_status = OrderPending, order_period = oi_period inp,
     order_amount = oi_amount inp, order_currency = oi_currency inp, order_provider = oi_provider inp,
     order_ref = [], order_paid_at = None, order_meta = oi_meta inp, order_created = now\<rparr>"

text \<open>One transaction: a failure of the second insert rolls the first one back.\<close>

definition CreateOrderWithSubscription ::
    "bdb \<Rightarrow> time \<Rightarrow> order_input \<Rightarrow> bdb \<times> (bill_err + order \<times> subscription)" where
  "CreateOrderWithSubscription d now inp =
    (case createSubscription d now inp of
       (_, Inl e) \<Rightarrow> (d, Inl e)
     | (d', Inr sub) \<Rightarrow>
         if \<not> ValidateCurrency (oi_currency inp) \<or> \<not> ValidateMinorUnit (oi_amount inp)
         then (d, Inl BillConstraint)
         else let o' = new_order (b_next d') now (sub_id sub) inp
              in (d'\<lparr>b_orders := b_orders d' @ [o'], b_next := b_next d' + 1\<rparr>, Inr (o', sub)))"

definition GetOrder :: "bdb \<Rightarrow> uid \<Rightarrow> uid \<Rightarrow> bill_err + order" where
  "GetOrder d org i = (case select_one (\<lambda>r. order_id r = i \<and> order_org r = org) (b_orders d) of
     None \<Rightarrow> Inl BillNotFound | Some r \<Rightarrow> Inr r)"

definition GetOrderAny :: "bdb \<Rightarrow> uid \<Rightarrow> bill_err + order" where
  "GetOrderAny d i = (case by_key order_id i (b_orders d) of None \<Rightarrow> Inl BillNotFound | Some r \<Rightarrow> Inr r)"

definition clamp :: "nat \<Rightarrow> int \<Rightarrow> nat" where
  "clamp dflt n = nat (if n \<le> 0 \<or> n > 200 then int dflt else n)"

definition ListOrdersForOrg :: "bdb \<Rightarrow> uid \<Rightarrow> nat \<Rightarrow> order list" where
  "ListOrdersForOrg d org lim =
    take lim (sort_key (\<lambda>r. - order_created r) (filter (\<lambda>r. order_org r = org) (b_orders d)))"

definition order_paid_row :: "string \<Rightarrow> time \<Rightarrow> order \<Rightarrow> order" where
  "order_paid_row ref now r = r\<lparr>order_status := OrderPaid, order_ref := ref, order_paid_at := Some now\<rparr>"

definition MarkOrderPaid :: "bdb \<Rightarrow> time \<Rightarrow> uid \<Rightarrow> string \<Rightarrow> bdb \<times> (bill_err + unit)" where
  "MarkOrderPaid d now i ref =
    (let P = flip_guard order_id order_status (\<lambda>st. st = OrderPending) i in
     if rows_affected P (b_orders d) = 0 then (d, Inl BillInvoiceState)
     else (d\<lparr>b_orders := update_where P (order_paid_row ref now) (b_orders d)\<rparr>, Inr ()))"

definition order_cancel_row :: "order \<Rightarrow> order" where
  "order_cancel_row r = r\<lparr>order_status := OrderCancelled\<rparr>"

definition CancelOrder :: "bdb \<Rightarrow> uid \<Rightarrow> uid \<Rightarrow> bdb \<times> (bill_err + unit)" where
  "CancelOrder d org i =
    (let P = (\<lambda>r. flip_guard order_id order_status (\<lambda>st. st = OrderPending) i r \<and> order_org r = org) in
     if rows_affected P (b_orders d) = 0 then (d, Inl BillNotFound)
     else (d\<lparr>b_orders := update_where P order_cancel_row (b_orders d)\<rparr>, Inr ()))"

section \<open>Payments\<close>

record payment_input =
  pi_org :: uid
  pi_order :: "uid option"
  pi_invoice :: "uid option"
  pi_sub :: "uid option"
  pi_provider :: string
  pi_ref :: string
  pi_event :: string
  pi_kind :: invoice_kind
  pi_status :: payment_status
  pi_amount :: money
  pi_reason :: string

definition new_payment :: "uid \<Rightarrow> time \<Rightarrow> payment_input \<Rightarrow> payment" where
  "new_payment i now inp =
    \<lparr>pay_id = i, pay_org = pi_org inp, pay_order = pi_order inp, pay_invoice = pi_invoice inp,
     pay_sub = pi_sub inp, pay_provider = pi_provider inp, pay_ref = pi_ref inp,
     pay_event = pi_event inp, pay_kind = pi_kind inp, pay_status = pi_status inp,
     pay_amount = m_amount (pi_amount inp), pay_currency = m_currency (pi_amount inp),
     pay_reason = pi_reason inp, pay_created = now\<rparr>"

definition same_event :: "string \<Rightarrow> string \<Rightarrow> payment \<Rightarrow> bool" where
  "same_event provider event p \<longleftrightarrow> pay_provider p = provider \<and> pay_event p = event"

definition paymentByEvent :: "bdb \<Rightarrow> string \<Rightarrow> string \<Rightarrow> bill_err + payment" where
  "paymentByEvent d provider event = (case select_one (same_event provider event) (b_payments d) of
     None \<Rightarrow> Inl BillNotFound | Some p \<Rightarrow> Inr p)"

text \<open>The unique index covers non-empty event ids; the CHECKs come before it.\<close>

definition RecordPayment :: "bdb \<Rightarrow> time \<Rightarrow> payment_input \<Rightarrow> bdb \<times> (bill_err + payment \<times> bool)" where
  "RecordPayment d now inp =
    (if \<not> ValidateMinorUnit (m_amount (pi_amount inp)) \<or> \<not> ValidateCurrency (m_currency (pi_amount inp))
     then (d, Inl BillConstraint)
     else if pi_event inp \<noteq> [] \<and> list_ex (same_event (pi_provider inp) (pi_event inp)) (b_payments d)
     then (case paymentByEvent d (pi_provider inp) (pi_event inp) of
             Inl e \<Rightarrow> (d, Inl e) | Inr p \<Rightarrow> (d, Inr (p, True)))
     else let p = new_payment (b_next d) now inp
          in (d\<lparr>b_payments := b_payments d @ [p], b_next := b_next d + 1\<rparr>, Inr (p, False)))"

definition GetPayment :: "bdb \<Rightarrow> uid \<Rightarrow> bill_err + payment" where
  "GetPayment d i = (case by_key pay_id i (b_payments d) of None \<Rightarrow> Inl BillNotFound | Some p \<Rightarrow> Inr p)"

definition ListPaymentsForOrg :: "bdb \<Rightarrow> uid \<Rightarrow> int \<Rightarrow> payment list" where
  "ListPaymentsForOrg d org lim =
    take (clamp 50 lim) (sort_key (\<lambda>p. - pay_created p) (filter (\<lambda>p. pay_org p = org) (b_payments d)))"

section \<open>Invoices\<close>

record invoice_input =
  ii_customer :: uid
  ii_sub :: "uid option"
  ii_kind :: invoice_kind
  ii_currency :: string
  ii_subtotal :: i64
  ii_tax :: i64
  ii_lines :: "line_item list"
  ii_due :: duration

definition nextInvoiceNumber :: "bdb \<Rightarrow> time \<Rightarrow> bdb \<times> string" where
  "nextInvoiceNumber d now =
    (let seq = b_seq d + 1; year = fst (civil_of_day (now div day_ns))
     in (d\<lparr>b_seq := seq\<rparr>, ''INV-'' @ int_str year @ ''-'' @ pad0 6 (nat_str seq)))"

definition customer_org :: "bdb \<Rightarrow> uid \<Rightarrow> uid" where
  "customer_org d c = (case by_key cust_id c (b_customers d) of None \<Rightarrow> 0 | Some r \<Rightarrow> cust_org r)"

definition new_invoice :: "uid \<Rightarrow> time \<Rightarrow> uid \<Rightarrow> string \<Rightarrow> invoice_input \<Rightarrow> invoice" where
  "new_invoice i now org num inp =
    \<lparr>inv_id = i, inv_customer = ii_customer inp, inv_org = org, inv_number = num,
     inv_status = InvoiceOpen, inv_currency = ii_currency inp, inv_subtotal = ii_subtotal inp,
     inv_tax = ii_tax inp, inv_total = ii_subtotal inp + ii_tax inp, inv_lines = ii_lines inp,
     inv_kind = ii_kind inp, inv_sub = ii_sub inp, inv_issued = Some now,
     inv_due = (if ii_due inp > 0 then Some (now + ii_due inp) else None), inv_paid = None,
     inv_created = now\<rparr>"

text \<open>The number is drawn from the sequence before the insert and is lost when a CHECK
  (non-negative tax and total, a known customer) refuses the row.\<close>

definition IssueInvoice :: "bdb \<Rightarrow> time \<Rightarrow> invoice_input \<Rightarrow> bdb \<times> (bill_err + invoice)" where
  "IssueInvoice d now inp =
    (if \<not> ValidateCurrency (ii_currency inp) then (d, Inl BillBadCurrency)
     else if \<not> ValidateMinorUnit (ii_subtotal inp) then (d, Inl BillBadAmount)
     else let (d', num) = nextInvoiceNumber d now;
              inv = new_invoice (b_next d') now (customer_org d (ii_customer inp)) num inp
          in if sint (inv_tax inv) < 0 \<or> sint (inv_total inv) < 0
                \<or> by_key cust_id (ii_customer inp) (b_customers d) = None
             then (d', Inl BillConstraint)
             else (d'\<lparr>b_invoices := b_invoices d' @ [inv], b_next := b_next d' + 1\<rparr>, Inr inv))"

definition GetInvoice :: "bdb \<Rightarrow> uid \<Rightarrow> uid \<Rightarrow> bill_err + invoice" where
  "GetInvoice d org i = (case select_one (\<lambda>v. inv_id v = i \<and> inv_org v = org) (b_invoices d) of
     None \<Rightarrow> Inl BillNotFound | Some v \<Rightarrow> Inr v)"

definition GetInvoiceAny :: "bdb \<Rightarrow> uid \<Rightarrow> bill_err + invoice" where
  "GetInvoiceAny d i = (case by_key inv_id i (b_invoices d) of None \<Rightarrow> Inl BillNotFound | Some v \<Rightarrow> Inr v)"

definition ListInvoicesForOrg :: "bdb \<Rightarrow> uid \<Rightarrow> int \<Rightarrow> invoice list" where
  "ListInvoicesForOrg d org lim =
    take (clamp 50 lim) (sort_key (\<lambda>v. - inv_created v) (filter (\<lambda>v. inv_org v = org) (b_invoices d)))"

definition ListInvoicesAdmin :: "bdb \<Rightarrow> uid option \<Rightarrow> invoice_status option \<Rightarrow> int \<Rightarrow> invoice list" where
  "ListInvoicesAdmin d org status lim =
    take (clamp 50 lim) (sort_key (\<lambda>v. - inv_created v)
      (filter (\<lambda>v. (org = None \<or> org = Some (inv_org v)) \<and> (status = None \<or> status = Some (inv_status v)))
        (b_invoices d)))"

definition invoice_paid_row :: "time \<Rightarrow> invoice \<Rightarrow> invoice" where
  "invoice_paid_row now v = v\<lparr>inv_status := InvoicePaid, inv_paid := Some now\<rparr>"

definition invoice_void_row :: "invoice \<Rightarrow> invoice" where
  "invoice_void_row v = v\<lparr>inv_status := InvoiceVoid\<rparr>"

abbreviation invoice_flip :: "uid \<Rightarrow> invoice \<Rightarrow> bool" where
  "invoice_flip \<equiv> flip_guard inv_id inv_status (\<lambda>st. st = InvoiceOpen)"

definition MarkInvoicePaid :: "bdb \<Rightarrow> time \<Rightarrow> uid \<Rightarrow> bdb \<times> (bill_err + unit)" where
  "MarkInvoicePaid d now i =
    (if rows_affected (invoice_flip i) (b_invoices d) = 0 then (d, Inl BillInvoiceState)
     else (d\<lparr>b_invoices := update_where (invoice_flip i) (invoice_paid_row now) (b_invoices d)\<rparr>, Inr ()))"

definition VoidInvoice :: "bdb \<Rightarrow> uid \<Rightarrow> bdb \<times> (bill_err + unit)" where
  "VoidInvoice d i =
    (if rows_affected (invoice_flip i) (b_invoices d) = 0 then (d, Inl BillInvoiceState)
     else (d\<lparr>b_invoices := update_where (invoice_flip i) invoice_void_row (b_invoices d)\<rparr>, Inr ()))"

fun indexOf :: "string \<Rightarrow> string \<Rightarrow> int" where
  "indexOf hay needle =
    (if has_prefix hay needle then 0
     else case hay of [] \<Rightarrow> - 1
       | _ # cs \<Rightarrow> (let r = indexOf cs needle in if r < 0 then - 1 else r + 1))"

declare indexOf.simps [simp del]

definition containsString :: "string \<Rightarrow> string \<Rightarrow> bool" where
  "containsString hay needle \<longleftrightarrow> length hay \<ge> length needle \<and> indexOf hay needle \<ge> 0"

section \<open>Subscriptions\<close>

definition GetSubscription :: "bdb \<Rightarrow> uid \<Rightarrow> uid \<Rightarrow> bill_err + subscription" where
  "GetSubscription d org i = (case select_one (\<lambda>r. sub_id r = i \<and> sub_org r = org) (b_subs d) of
     None \<Rightarrow> Inl BillNotFound | Some r \<Rightarrow> Inr r)"

definition GetSubscriptionAny :: "bdb \<Rightarrow> uid \<Rightarrow> bill_err + subscription" where
  "GetSubscriptionAny d i = (case by_key sub_id i (b_subs d) of None \<Rightarrow> Inl BillNotFound | Some r \<Rightarrow> Inr r)"

definition ListSubscriptionsForOrg :: "bdb \<Rightarrow> uid \<Rightarrow> int \<Rightarrow> subscription list" where
  "ListSubscriptionsForOrg d org lim =
    take (clamp 100 lim) (sort_key (\<lambda>r. - sub_created r) (filter (\<lambda>r. sub_org r = org) (b_subs d)))"

definition ListSubscriptionsAdmin :: "bdb \<Rightarrow> state option \<Rightarrow> int \<Rightarrow> subscription list" where
  "ListSubscriptionsAdmin d st lim =
    take (clamp 100 lim) (sort_key (\<lambda>r. - sub_created r)
      (filter (\<lambda>r. st = None \<or> st = Some (sub_state r)) (b_subs d)))"

record transition_opts =
  to_grace :: "time option"
  to_clear :: bool
  to_error :: string

definition transition_row :: "time \<Rightarrow> state \<Rightarrow> transition_opts \<Rightarrow> subscription \<Rightarrow> subscription" where
  "transition_row now to opts r = r\<lparr>sub_state := to, sub_status := LegacyStatus to, sub_changed := now,
     sub_grace := (if to_clear opts then None
                   else case to_grace opts of Some g \<Rightarrow> Some g | None \<Rightarrow> sub_grace r),
     sub_error := to_error opts\<rparr>"

definition UpdateSubscriptionState ::
    "bdb \<Rightarrow> time \<Rightarrow> uid \<Rightarrow> state \<Rightarrow> state \<Rightarrow> transition_opts \<Rightarrow> bdb \<times> (bill_err + subscription)" where
  "UpdateSubscriptionState d now i from to opts =
    (let P = flip_guard sub_id sub_state (\<lambda>st. st = from) i in
     if rows_affected P (b_subs d) = 0
     then (case GetSubscriptionAny d i of
             Inl _ \<Rightarrow> (d, Inl BillNotFound)
           | Inr cur \<Rightarrow>
               if sub_state cur = to then (d, Inr cur)
               else (d, Inl (BillTransition (sub_state cur) to ''concurrent update lost'')))
     else let d' = d\<lparr>b_subs := update_where P (transition_row now to opts) (b_subs d)\<rparr>
          in (d', GetSubscriptionAny d' i))"

definition set_sub :: "uid \<Rightarrow> (subscription \<Rightarrow> subscription) \<Rightarrow> bdb \<Rightarrow> bdb \<times> (bill_err + unit)" where
  "set_sub i f d =
    (if rows_affected (\<lambda>r. sub_id r = i) (b_subs d) = 0 then (d, Inl BillNotFound)
     else (d\<lparr>b_subs := update_where (\<lambda>r. sub_id r = i) f (b_subs d)\<rparr>, Inr ()))"

definition SetSubscriptionWorkload ::
    "bdb \<Rightarrow> uid \<Rightarrow> string \<Rightarrow> uid option \<Rightarrow> uid option \<Rightarrow> int \<Rightarrow> bdb \<times> (bill_err + unit)" where
  "SetSubscriptionWorkload d i kind site job attempts =
    set_sub i (\<lambda>r. r\<lparr>sub_kind := kind, sub_website := site, sub_job := job, sub_attempts := attempts\<rparr>) d"

definition SetSubscriptionJob :: "bdb \<Rightarrow> uid \<Rightarrow> uid \<Rightarrow> bdb \<times> (bill_err + unit)" where
  "SetSubscriptionJob d i job = set_sub i (\<lambda>r. r\<lparr>sub_job := Some job\<rparr>) d"

definition extend_row :: "(string \<Rightarrow> time \<Rightarrow> time) \<Rightarrow> subscription \<Rightarrow> subscription" where
  "extend_row pg r = r\<lparr>sub_start := sub_end r, sub_end := pg (sub_period r) (sub_end r), sub_grace := None\<rparr>"

definition ExtendPeriod :: "(string \<Rightarrow> time \<Rightarrow> time) \<Rightarrow> bdb \<Rightarrow> uid \<Rightarrow> bdb \<times> (bill_err + subscription)" where
  "ExtendPeriod pg d i =
    (case by_key sub_id i (b_subs d) of
       None \<Rightarrow> (d, Inl BillNotFound)
     | Some r \<Rightarrow>
         (d\<lparr>b_subs := update_where (\<lambda>r. sub_id r = i) (extend_row pg) (b_subs d)\<rparr>, Inr (extend_row pg r)))"

definition SetSubscriptionGrace :: "bdb \<Rightarrow> uid \<Rightarrow> time option \<Rightarrow> bdb \<times> (bill_err + unit)" where
  "SetSubscriptionGrace d i until = set_sub i (\<lambda>r. r\<lparr>sub_grace := until\<rparr>) d"

definition SetSubscriptionRenewalAnchor :: "bdb \<Rightarrow> uid \<Rightarrow> time \<Rightarrow> bdb \<times> (bill_err + unit)" where
  "SetSubscriptionRenewalAnchor d i t = set_sub i (\<lambda>r. r\<lparr>sub_anchor := Some t\<rparr>) d"

definition SetSubscriptionCancelFlag :: "bdb \<Rightarrow> uid \<Rightarrow> uid \<Rightarrow> bool \<Rightarrow> bdb \<times> (bill_err + unit)" where
  "SetSubscriptionCancelFlag d org i flag =
    (let P = (\<lambda>r. sub_id r = i \<and> sub_org r = org) in
     if rows_affected P (b_subs d) = 0 then (d, Inl BillNotFound)
     else (d\<lparr>b_subs := update_where P (\<lambda>r. r\<lparr>sub_cancel := flag\<rparr>) (b_subs d)\<rparr>, Inr ()))"

section \<open>The scans of the scheduler\<close>

definition scan_limit :: "int \<Rightarrow> nat" where
  "scan_limit n = nat (if n \<le> 0 then 100 else n)"

definition renewal_due :: "time \<Rightarrow> subscription \<Rightarrow> bool" where
  "renewal_due now r \<longleftrightarrow> sub_state r = StateActive \<and> \<not> sub_cancel r \<and> sub_end r \<le> now
    \<and> (case sub_anchor r of None \<Rightarrow> True | Some a \<Rightarrow> a < sub_end r)"

definition DueForRenewal :: "bdb \<Rightarrow> time \<Rightarrow> int \<Rightarrow> subscription list" where
  "DueForRenewal d now lim = take (scan_limit lim) (sort_key sub_end (filter (renewal_due now) (b_subs d)))"

definition cancel_due :: "time \<Rightarrow> subscription \<Rightarrow> bool" where
  "cancel_due now r \<longleftrightarrow> sub_state r = StateActive \<and> sub_cancel r \<and> sub_end r \<le> now"

definition CancelledDueForTerminate :: "bdb \<Rightarrow> time \<Rightarrow> int \<Rightarrow> subscription list" where
  "CancelledDueForTerminate d now lim =
    take (scan_limit lim) (sort_key sub_end (filter (cancel_due now) (b_subs d)))"

definition grace_due :: "time \<Rightarrow> subscription \<Rightarrow> bool" where
  "grace_due now r \<longleftrightarrow> sub_state r = StateActive
    \<and> (case sub_grace r of None \<Rightarrow> False | Some g \<Rightarrow> g \<le> now)"

definition InGraceExpired :: "bdb \<Rightarrow> time \<Rightarrow> int \<Rightarrow> subscription list" where
  "InGraceExpired d now lim =
    take (scan_limit lim) (sort_key (\<lambda>r. the (sub_grace r)) (filter (grace_due now) (b_subs d)))"

definition terminate_due :: "time \<Rightarrow> subscription \<Rightarrow> bool" where
  "terminate_due cutoff r \<longleftrightarrow> sub_state r = StateSuspended \<and> sub_changed r \<le> cutoff"

definition SuspendedDueForTerminate :: "bdb \<Rightarrow> time \<Rightarrow> duration \<Rightarrow> int \<Rightarrow> subscription list" where
  "SuspendedDueForTerminate d now after lim =
    take (scan_limit lim) (sort_key sub_changed (filter (terminate_due (now - after)) (b_subs d)))"

definition ListInState :: "bdb \<Rightarrow> state \<Rightarrow> int \<Rightarrow> subscription list" where
  "ListInState d st lim =
    take (scan_limit lim) (sort_key sub_changed (filter (\<lambda>r. sub_state r = st) (b_subs d)))"

section \<open>Products\<close>

record product_input =
  pin_name :: string
  pin_type :: string
  pin_desc :: string
  pin_plan :: "uid option"
  pin_price :: i64
  pin_currency :: string
  pin_active :: bool
  pin_config :: "string option"

definition GetProduct :: "bdb \<Rightarrow> uid \<Rightarrow> bill_err + product" where
  "GetProduct d i = (case by_key pr_id i (b_products d) of None \<Rightarrow> Inl BillNotFound | Some p \<Rightarrow> Inr p)"

definition orEmptyMap :: "string option \<Rightarrow> string" where
  "orEmptyMap m = (case m of None \<Rightarrow> ''{}'' | Some js \<Rightarrow> js)"

definition CreateProduct :: "bdb \<Rightarrow> product_input \<Rightarrow> bdb \<times> (bill_err + product)" where
  "CreateProduct d inp =
    (if \<not> ValidateCurrency (pin_currency inp) \<or> sint (pin_price inp) < 0
        \<or> pin_type inp \<notin> {''hosting'', ''minecraft'', ''discord'', ''service''}
        \<or> list_ex (\<lambda>p. pr_name p = pin_name inp \<and> pr_type p = pin_type inp) (b_products d)
     then (d, Inl BillConstraint)
     else let p = \<lparr>pr_id = b_next d, pr_name = pin_name inp, pr_type = pin_type inp, pr_desc = pin_desc inp,
                   pr_plan = pin_plan inp, pr_price = pin_price inp, pr_currency = pin_currency inp,
                   pr_active = pin_active inp, pr_config = orEmptyMap (pin_config inp)\<rparr>;
              d' = d\<lparr>b_products := b_products d @ [p], b_next := b_next d + 1\<rparr>
          in (d', GetProduct d' (pr_id p)))"

definition product_row :: "product_input \<Rightarrow> product \<Rightarrow> product" where
  "product_row inp p = p\<lparr>pr_desc := pin_desc inp, pr_plan := pin_plan inp, pr_price := pin_price inp,
     pr_currency := pin_currency inp, pr_active := pin_active inp, pr_config := orEmptyMap (pin_config inp)\<rparr>"

definition UpdateProduct :: "bdb \<Rightarrow> uid \<Rightarrow> product_input \<Rightarrow> bdb \<times> (bill_err + product)" where
  "UpdateProduct d i inp =
    (if by_key pr_id i (b_products d) \<noteq> None
        \<and> (\<not> ValidateCurrency (pin_currency inp) \<or> sint (pin_price inp) < 0)
     then (d, Inl BillConstraint)
     else let d' = d\<lparr>b_products := update_where (\<lambda>p. pr_id p = i) (product_row inp) (b_products d)\<rparr>
          in (d', GetProduct d' i))"

section \<open>Tables that only grow\<close>

text \<open>\<open>grows key R rows rows'\<close>: every row of the old table is still there under its key,
  changed at most as the history relation \<open>R\<close> allows.\<close>

definition grows :: "('r \<Rightarrow> uid) \<Rightarrow> ('r \<Rightarrow> 'r \<Rightarrow> bool) \<Rightarrow> 'r list \<Rightarrow> 'r list \<Rightarrow> bool" where
  "grows key R rows rows' \<longleftrightarrow>
    (\<forall>k r. by_key key k rows = Some r \<longrightarrow> (\<exists>r'. by_key key k rows' = Some r' \<and> R r r'))"

lemma growsD: "grows key R rows rows' \<Longrightarrow> by_key key k rows = Some r \<Longrightarrow> \<exists>r'. by_key key k rows' = Some r' \<and> R r r'"
  by (auto simp: grows_def)

lemma grows_refl: "reflp R \<Longrightarrow> grows key R rows rows"
  by (auto simp: grows_def reflp_def)

lemma grows_trans: "transp R \<Longrightarrow> grows key R a b \<Longrightarrow> grows key R b c \<Longrightarrow> grows key R a c"
  unfolding grows_def by (meson transpE)

lemma grows_append: "reflp R \<Longrightarrow> grows key R rows (rows @ new)"
  by (auto simp: grows_def by_key_append reflp_def)

lemma grows_update:
  assumes "\<And>r. key (f r) = key r" and "reflp R" and "\<And>r. P r \<Longrightarrow> R r (f r)"
  shows "grows key R rows (update_where P f rows)"
  using assms row_update.lookup_update [OF row_update.intro, of key f]
  by (auto simp: grows_def reflp_def)

definition fresh_keys :: "('r \<Rightarrow> uid) \<Rightarrow> 'r list \<Rightarrow> uid \<Rightarrow> bool" where
  "fresh_keys key rows n \<longleftrightarrow> distinct (map key rows) \<and> list_all (\<lambda>r. key r < n) rows"

lemma fresh_update: "fresh_keys key rows n \<Longrightarrow> (\<And>r. key (f r) = key r) \<Longrightarrow> fresh_keys key (update_where P f rows) n"
  by (auto simp: fresh_keys_def map_update_where_same intro: list_all_update_where)

lemma fresh_append: "fresh_keys key rows n \<Longrightarrow> key r = n \<Longrightarrow> fresh_keys key (rows @ [r]) (Suc n)"
  by (auto simp: fresh_keys_def list_all_iff less_Suc_eq)

lemma fresh_later: "fresh_keys key rows n \<Longrightarrow> fresh_keys key rows (Suc n)"
  by (auto simp: fresh_keys_def list_all_iff less_Suc_eq)

lemma fresh_lookup: "fresh_keys key rows n \<Longrightarrow> r \<in> set rows \<Longrightarrow> by_key key (key r) rows = Some r"
  by (simp add: fresh_keys_def by_key_distinct)

section \<open>Histories of rows\<close>

definition order_hist :: "order \<Rightarrow> order \<Rightarrow> bool" where
  "order_hist r r' \<longleftrightarrow> order_amount r' = order_amount r \<and> order_currency r' = order_currency r
    \<and> order_org r' = order_org r \<and> order_sub r' = order_sub r \<and> order_product r' = order_product r
    \<and> order_period r' = order_period r
    \<and> (order_status r' = order_status r \<or> order_status r = OrderPending)"

definition invoice_hist :: "invoice \<Rightarrow> invoice \<Rightarrow> bool" where
  "invoice_hist v v' \<longleftrightarrow> inv_currency v' = inv_currency v \<and> inv_subtotal v' = inv_subtotal v
    \<and> inv_tax v' = inv_tax v \<and> inv_total v' = inv_total v \<and> inv_lines v' = inv_lines v
    \<and> inv_customer v' = inv_customer v \<and> inv_org v' = inv_org v \<and> inv_number v' = inv_number v
    \<and> inv_kind v' = inv_kind v \<and> inv_sub v' = inv_sub v \<and> inv_issued v' = inv_issued v
    \<and> (inv_status v' = inv_status v \<or> inv_status v = InvoiceOpen)"

definition sub_hist :: "subscription \<Rightarrow> subscription \<Rightarrow> bool" where
  "sub_hist r r' \<longleftrightarrow> sub_customer r' = sub_customer r \<and> sub_org r' = sub_org r
    \<and> sub_product r' = sub_product r \<and> sub_period r' = sub_period r
    \<and> CanTransition\<^sup>*\<^sup>* (sub_state r) (sub_state r')"

lemma order_hist_refl: "reflp order_hist" and order_hist_trans: "transp order_hist"
  by (auto simp: order_hist_def reflp_def transp_def)

lemma invoice_hist_refl: "reflp invoice_hist" and invoice_hist_trans: "transp invoice_hist"
  by (auto simp: invoice_hist_def reflp_def transp_def)

lemma sub_hist_refl: "reflp sub_hist" and sub_hist_trans: "transp sub_hist"
  by (auto simp: sub_hist_def reflp_def transp_def)

lemma eq_refl_trans: "reflp (=)" "transp (=)"
  by (auto simp: reflp_def transp_def)

lemmas hist_rules = order_hist_refl order_hist_trans invoice_hist_refl invoice_hist_trans
  sub_hist_refl sub_hist_trans eq_refl_trans

section \<open>The row updates as instances of the interface\<close>

interpretation op: once_flip order_id "order_paid_row ref now" order_status "\<lambda>st. st = OrderPending" OrderPaid
  for ref now
  by unfold_locales (simp_all add: order_paid_row_def)

interpretation oc: once_flip order_id order_cancel_row order_status "\<lambda>st. st = OrderPending" OrderCancelled
  by unfold_locales (simp_all add: order_cancel_row_def)

interpretation ip: once_flip inv_id "invoice_paid_row now" inv_status "\<lambda>st. st = InvoiceOpen" InvoicePaid for now
  by unfold_locales (simp_all add: invoice_paid_row_def)

interpretation iv: once_flip inv_id invoice_void_row inv_status "\<lambda>st. st = InvoiceOpen" InvoiceVoid
  by unfold_locales (simp_all add: invoice_void_row_def)

interpretation st: status_flip sub_id "transition_row now to opts" sub_state "\<lambda>x. x = from" to for now to opts "from"
  by unfold_locales (simp_all add: transition_row_def)

interpretation sx: row_update sub_id "extend_row pg" for pg
  by unfold_locales (simp add: extend_row_def)

interpretation pu: row_update pr_id "product_row inp" for inp
  by unfold_locales (simp add: product_row_def)

end
