(* ===== verification/BillingInvariants.thy ===== *)
theory BillingInvariants
  imports BillingStore
begin

text \<open>
  The billing store as a transition system: one step is one mutating statement, a
  subscription's state is written only along an edge of the machine (the check
  \<open>Transition\<close> makes before it calls the store). Every run keeps the tables well formed
  and every row's history lawful; the service, whose functions are sequences of these
  steps, inherits both.
\<close>

section \<open>Steps\<close>

inductive bdb_step :: "(string \<Rightarrow> time \<Rightarrow> time) \<Rightarrow> bdb \<Rightarrow> bdb \<Rightarrow> bool" for pg where
  b_customer: "bdb_step pg d (fst (EnsureCustomer d org cur))"
| b_method: "bdb_step pg d (fst (SetPaymentMethod d org pm))"
| b_order: "bdb_step pg d (fst (CreateOrderWithSubscription d now inp))"
| b_paid: "bdb_step pg d (fst (MarkOrderPaid d now i ref))"
| b_cancel: "bdb_step pg d (fst (CancelOrder d org i))"
| b_payment: "bdb_step pg d (fst (RecordPayment d now p))"
| b_issue: "bdb_step pg d (fst (IssueInvoice d now ii))"
| b_settle: "bdb_step pg d (fst (MarkInvoicePaid d now i))"
| b_void: "bdb_step pg d (fst (VoidInvoice d i))"
| b_state: "CanTransition from to \<Longrightarrow> bdb_step pg d (fst (UpdateSubscriptionState d now i from to opts))"
| b_workload: "bdb_step pg d (fst (SetSubscriptionWorkload d i kind site job n))"
| b_job: "bdb_step pg d (fst (SetSubscriptionJob d i job))"
| b_extend: "bdb_step pg d (fst (ExtendPeriod pg d i))"
| b_grace: "bdb_step pg d (fst (SetSubscriptionGrace d i until))"
| b_anchor: "bdb_step pg d (fst (SetSubscriptionRenewalAnchor d i t))"
| b_flag: "bdb_step pg d (fst (SetSubscriptionCancelFlag d org i flag))"
| b_product: "bdb_step pg d (fst (CreateProduct d pin))"
| b_product_upd: "bdb_step pg d (fst (UpdateProduct d i pin))"

definition bdb_run :: "(string \<Rightarrow> time \<Rightarrow> time) \<Rightarrow> bdb \<Rightarrow> bdb \<Rightarrow> bool" where
  "bdb_run pg = (bdb_step pg)\<^sup>*\<^sup>*"

named_theorems run_intros "the store statements as runs"

lemma run_refl [run_intros]: "bdb_run pg d d"
  by (simp add: bdb_run_def)

lemma run_trans: "bdb_run pg a b \<Longrightarrow> bdb_run pg b c \<Longrightarrow> bdb_run pg a c"
  unfolding bdb_run_def by (rule rtranclp_trans)

lemma step_run: "bdb_step pg a b \<Longrightarrow> bdb_run pg a b"
  unfolding bdb_run_def by (rule r_into_rtranclp)

lemmas step_runs [run_intros] = bdb_step.intros [THEN step_run]

section \<open>Histories\<close>

definition bdb_hist :: "bdb \<Rightarrow> bdb \<Rightarrow> bool" where
  "bdb_hist d d' \<longleftrightarrow> grows order_id order_hist (b_orders d) (b_orders d')
    \<and> grows pay_id (=) (b_payments d) (b_payments d')
    \<and> grows inv_id invoice_hist (b_invoices d) (b_invoices d')
    \<and> grows sub_id sub_hist (b_subs d) (b_subs d')"

lemma bdb_hist_refl: "bdb_hist d d"
  by (simp add: bdb_hist_def grows_refl hist_rules)

lemma bdb_hist_trans: "bdb_hist a b \<Longrightarrow> bdb_hist b c \<Longrightarrow> bdb_hist a c"
  unfolding bdb_hist_def by (meson grows_trans hist_rules)

lemma hist_orders:
  "grows order_id order_hist (b_orders d) rows \<Longrightarrow> bdb_hist d (d\<lparr>b_orders := rows\<rparr>)"
  by (simp add: bdb_hist_def grows_refl hist_rules)

lemma hist_invoices:
  "grows inv_id invoice_hist (b_invoices d) rows \<Longrightarrow> bdb_hist d (d\<lparr>b_invoices := rows\<rparr>)"
  by (simp add: bdb_hist_def grows_refl hist_rules)

lemma hist_subs:
  "grows sub_id sub_hist (b_subs d) rows \<Longrightarrow> bdb_hist d (d\<lparr>b_subs := rows\<rparr>)"
  by (simp add: bdb_hist_def grows_refl hist_rules)

lemma hist_set_sub:
  "(\<And>r. sub_id (f r) = sub_id r) \<Longrightarrow> (\<And>r. sub_hist r (f r)) \<Longrightarrow> bdb_hist d (fst (set_sub i f d))"
  by (auto simp: set_sub_def bdb_hist_refl intro!: hist_subs grows_update hist_rules)

lemma hist_create:
  "bdb_hist d (fst (CreateOrderWithSubscription d now inp))"
  by (auto simp: CreateOrderWithSubscription_def createSubscription_def Let_def bdb_hist_def grows_refl
      grows_append hist_rules split: option.splits)

lemma hist_state:
  assumes "CanTransition from to"
  shows "bdb_hist d (fst (UpdateSubscriptionState d now i from to opts))"
proof -
  let ?P = "flip_guard sub_id sub_state (\<lambda>x. x = from) i"
  have "grows sub_id sub_hist (b_subs d) (update_where ?P (transition_row now to opts) (b_subs d))"
    using assms by (intro grows_update hist_rules)
      (auto simp: transition_row_def sub_hist_def flip_guard_def)
  then show ?thesis
    by (auto simp: UpdateSubscriptionState_def Let_def bdb_hist_refl split: sum.splits intro: hist_subs)
qed

lemma step_hist: "bdb_step pg d d' \<Longrightarrow> bdb_hist d d'"
proof (induction rule: bdb_step.induct)
  case (b_customer d org cur)
  show ?case
    by (auto simp: EnsureCustomer_def Let_def bdb_hist_def grows_refl hist_rules split: option.splits)
next
  case (b_method d org pm)
  show ?case by (simp add: SetPaymentMethod_def bdb_hist_def grows_refl hist_rules)
next
  case (b_order d now inp)
  show ?case by (rule hist_create)
next
  case (b_paid d now i ref)
  show ?case
    by (auto simp: MarkOrderPaid_def Let_def bdb_hist_refl intro!: hist_orders grows_update hist_rules)
      (auto simp: order_paid_row_def order_hist_def flip_guard_def)
next
  case (b_cancel d org i)
  show ?case
    by (auto simp: CancelOrder_def Let_def bdb_hist_refl intro!: hist_orders grows_update hist_rules)
      (auto simp: order_cancel_row_def order_hist_def flip_guard_def)
next
  case (b_payment d now p)
  show ?case
    by (auto simp: RecordPayment_def Let_def bdb_hist_def grows_refl grows_append hist_rules split: sum.splits)
next
  case (b_issue d now ii)
  show ?case
    by (auto simp: IssueInvoice_def nextInvoiceNumber_def Let_def bdb_hist_def grows_refl grows_append hist_rules)
next
  case (b_settle d now i)
  show ?case
    by (auto simp: MarkInvoicePaid_def bdb_hist_refl intro!: hist_invoices grows_update hist_rules)
      (auto simp: invoice_paid_row_def invoice_hist_def flip_guard_def)
next
  case (b_void d i)
  show ?case
    by (auto simp: VoidInvoice_def bdb_hist_refl intro!: hist_invoices grows_update hist_rules)
      (auto simp: invoice_void_row_def invoice_hist_def flip_guard_def)
next
  case (b_state "from" to d now i opts)
  then show ?case by (rule hist_state)
next
  case (b_extend d i)
  show ?case
    by (auto simp: ExtendPeriod_def bdb_hist_refl split: option.splits intro!: hist_subs grows_update hist_rules)
      (auto simp: extend_row_def sub_hist_def)
next
  case (b_flag d org i flag)
  show ?case
    by (auto simp: SetSubscriptionCancelFlag_def Let_def bdb_hist_refl intro!: hist_subs grows_update hist_rules)
      (auto simp: sub_hist_def)
next
  case (b_product d pin)
  show ?case by (auto simp: CreateProduct_def Let_def bdb_hist_def grows_refl hist_rules)
next
  case (b_product_upd d i pin)
  show ?case by (auto simp: UpdateProduct_def Let_def bdb_hist_def grows_refl hist_rules)
qed (auto simp: SetSubscriptionWorkload_def SetSubscriptionJob_def SetSubscriptionGrace_def
    SetSubscriptionRenewalAnchor_def sub_hist_def intro!: hist_set_sub)

lemma run_hist: "bdb_run pg d d' \<Longrightarrow> bdb_hist d d'"
  unfolding bdb_run_def
  by (induction rule: rtranclp_induct) (auto intro: bdb_hist_refl bdb_hist_trans step_hist)

section \<open>Well-formed tables\<close>

definition event_keys :: "payment list \<Rightarrow> (string \<times> string) list" where
  "event_keys ps = map (\<lambda>p. (pay_provider p, pay_event p)) (filter (\<lambda>p. pay_event p \<noteq> []) ps)"

definition invoice_ok :: "invoice \<Rightarrow> bool" where
  "invoice_ok v \<longleftrightarrow> inv_total v = inv_subtotal v + inv_tax v \<and> 0 \<le> sint (inv_subtotal v)
    \<and> 0 \<le> sint (inv_tax v) \<and> 0 \<le> sint (inv_total v) \<and> inv_issued v \<noteq> None
    \<and> (case inv_status v of InvoiceOpen \<Rightarrow> inv_paid v = None | InvoicePaid \<Rightarrow> inv_paid v \<noteq> None
        | InvoiceVoid \<Rightarrow> inv_paid v = None | _ \<Rightarrow> False)"

definition order_ok :: "order \<Rightarrow> bool" where
  "order_ok r \<longleftrightarrow> 0 \<le> sint (order_amount r) \<and> ValidateCurrency (order_currency r)
    \<and> (order_status r = OrderPaid \<longleftrightarrow> order_paid_at r \<noteq> None)"

definition sub_ok :: "subscription \<Rightarrow> bool" where
  "sub_ok r \<longleftrightarrow> sub_status r = LegacyStatus (sub_state r) \<and> ValidPeriod (sub_period r)"

definition bdb_ok :: "bdb \<Rightarrow> bool" where
  "bdb_ok d \<longleftrightarrow> fresh_keys order_id (b_orders d) (b_next d) \<and> fresh_keys pay_id (b_payments d) (b_next d)
    \<and> fresh_keys inv_id (b_invoices d) (b_next d) \<and> fresh_keys sub_id (b_subs d) (b_next d)
    \<and> distinct (map cust_org (b_customers d)) \<and> distinct (event_keys (b_payments d))
    \<and> list_all order_ok (b_orders d) \<and> list_all invoice_ok (b_invoices d) \<and> list_all sub_ok (b_subs d)"

lemma event_keys_append [simp]: "event_keys (xs @ ys) = event_keys xs @ event_keys ys"
  by (simp add: event_keys_def)

lemma event_keys_fresh:
  "\<not> list_ex (same_event pv ev) ps \<Longrightarrow> (pv, ev) \<notin> set (event_keys ps)"
  by (auto simp: event_keys_def list_ex_iff same_event_def)

lemma ok_orders:
  "bdb_ok d \<Longrightarrow> (\<And>r. order_id (f r) = order_id r) \<Longrightarrow> (\<And>r. order_ok r \<Longrightarrow> P r \<Longrightarrow> order_ok (f r)) \<Longrightarrow>
    bdb_ok (d\<lparr>b_orders := update_where P f (b_orders d)\<rparr>)"
  by (simp add: bdb_ok_def fresh_update list_all_update_where)

lemma ok_invoices:
  "bdb_ok d \<Longrightarrow> (\<And>r. inv_id (f r) = inv_id r) \<Longrightarrow> (\<And>r. invoice_ok r \<Longrightarrow> P r \<Longrightarrow> invoice_ok (f r)) \<Longrightarrow>
    bdb_ok (d\<lparr>b_invoices := update_where P f (b_invoices d)\<rparr>)"
  by (simp add: bdb_ok_def fresh_update list_all_update_where)

lemma ok_subs:
  "bdb_ok d \<Longrightarrow> (\<And>r. sub_id (f r) = sub_id r) \<Longrightarrow> (\<And>r. sub_ok r \<Longrightarrow> sub_ok (f r)) \<Longrightarrow>
    bdb_ok (d\<lparr>b_subs := update_where P f (b_subs d)\<rparr>)"
  by (simp add: bdb_ok_def fresh_update list_all_update_where)

lemma ok_set_sub:
  "bdb_ok d \<Longrightarrow> (\<And>r. sub_id (f r) = sub_id r) \<Longrightarrow> (\<And>r. sub_ok r \<Longrightarrow> sub_ok (f r)) \<Longrightarrow>
    bdb_ok (fst (set_sub i f d))"
  by (simp add: set_sub_def ok_subs)

lemma ok_next: "bdb_ok d \<Longrightarrow> bdb_ok (d\<lparr>b_next := b_next d + 1\<rparr>)"
  by (simp add: bdb_ok_def fresh_later)

lemma ok_create: "bdb_ok d \<Longrightarrow> bdb_ok (fst (CreateOrderWithSubscription d now inp))"
proof (cases "by_key cust_org (oi_org inp) (b_customers d)")
  case (Some c)
  assume ok: "bdb_ok d"
  let ?sub = "new_subscription (b_next d) now c inp"
  let ?d1 = "d\<lparr>b_subs := b_subs d @ [?sub], b_next := b_next d + 1\<rparr>"
  let ?o = "new_order (b_next d + 1) now (sub_id ?sub) inp"
  have "bdb_ok (?d1\<lparr>b_orders := b_orders ?d1 @ [?o], b_next := b_next ?d1 + 1\<rparr>)"
    if "ValidPeriod (oi_period inp)" "ValidateCurrency (oi_currency inp)" "ValidateMinorUnit (oi_amount inp)"
    using ok that
    by (simp add: fresh_later fresh_append bdb_ok_def new_subscription_def new_order_def sub_ok_def order_ok_def ValidateMinorUnit_def)
  then show ?thesis
    using ok Some by (simp add: CreateOrderWithSubscription_def createSubscription_def Let_def)
qed (simp add: CreateOrderWithSubscription_def createSubscription_def)

lemma ok_payment: "bdb_ok d \<Longrightarrow> bdb_ok (fst (RecordPayment d now p))"
proof -
  assume ok: "bdb_ok d"
  let ?p = "new_payment (b_next d) now p"
  have "bdb_ok (d\<lparr>b_payments := b_payments d @ [?p], b_next := b_next d + 1\<rparr>)"
    if "pi_event p = [] \<or> \<not> list_ex (same_event (pi_provider p) (pi_event p)) (b_payments d)"
  proof -
    have "event_keys [?p] = (if pi_event p = [] then [] else [(pi_provider p, pi_event p)])"
      by (simp add: event_keys_def new_payment_def)
    then show ?thesis
      using ok that event_keys_fresh
      by (auto simp: fresh_later fresh_append bdb_ok_def new_payment_def)
  qed
  then show ?thesis using ok by (auto simp: RecordPayment_def Let_def split: sum.splits)
qed

lemma ok_issue: "bdb_ok d \<Longrightarrow> bdb_ok (fst (IssueInvoice d now ii))"
proof -
  assume ok: "bdb_ok d"
  then have ok': "bdb_ok (d\<lparr>b_seq := n\<rparr>)" for n by (simp add: bdb_ok_def)
  have "bdb_ok (d\<lparr>b_seq := n, b_invoices := b_invoices d @ [new_invoice (b_next d) now org num ii], b_next := b_next d + 1\<rparr>)"
    if "ValidateMinorUnit (ii_subtotal ii)" "0 \<le> sint (ii_tax ii)" "0 \<le> sint (ii_subtotal ii + ii_tax ii)" for n org num
    using ok that
    by (simp add: fresh_later fresh_append bdb_ok_def new_invoice_def invoice_ok_def ValidateMinorUnit_def)
  then show ?thesis
    using ok ok' by (auto simp: IssueInvoice_def nextInvoiceNumber_def Let_def not_less new_invoice_def)
qed

lemma step_ok: "bdb_step pg d d' \<Longrightarrow> bdb_ok d \<Longrightarrow> bdb_ok d'"
proof (induction rule: bdb_step.induct)
  case (b_customer d org cur)
  then show ?case
    by (auto simp: fresh_later EnsureCustomer_def Let_def bdb_ok_def by_key_None_iff split: option.splits)
next
  case (b_method d org pm)
  then show ?case by (simp add: SetPaymentMethod_def bdb_ok_def map_update_where_same)
next
  case b_order then show ?case by (rule ok_create)
next
  case (b_paid d now i ref)
  then show ?case
    by (auto simp: MarkOrderPaid_def Let_def intro!: ok_orders) (auto simp: order_paid_row_def order_ok_def)
next
  case (b_cancel d org i)
  then show ?case
    by (auto simp: CancelOrder_def Let_def intro!: ok_orders)
      (auto simp: order_cancel_row_def order_ok_def flip_guard_def)
next
  case b_payment then show ?case by (rule ok_payment)
next
  case b_issue then show ?case by (rule ok_issue)
next
  case (b_settle d now i)
  then show ?case
    by (auto simp: MarkInvoicePaid_def intro!: ok_invoices)
      (auto simp: invoice_paid_row_def invoice_ok_def flip_guard_def)
next
  case (b_void d i)
  then show ?case
    by (auto simp: VoidInvoice_def intro!: ok_invoices)
      (auto simp: invoice_void_row_def invoice_ok_def flip_guard_def)
next
  case (b_state "from" to d now i opts)
  then show ?case
    by (auto simp: UpdateSubscriptionState_def Let_def split: sum.splits intro!: ok_subs)
      (auto simp: transition_row_def sub_ok_def)
next
  case (b_extend d i)
  then show ?case
    by (auto simp: ExtendPeriod_def split: option.splits intro!: ok_subs) (auto simp: extend_row_def sub_ok_def)
next
  case (b_flag d org i flag)
  then show ?case
    by (auto simp: SetSubscriptionCancelFlag_def Let_def intro!: ok_subs) (auto simp: sub_ok_def)
next
  case (b_product d pin)
  then show ?case
    using ok_next [of d] by (auto simp: CreateProduct_def Let_def bdb_ok_def)
next
  case (b_product_upd d i pin)
  then show ?case by (auto simp: UpdateProduct_def Let_def bdb_ok_def)
qed (auto simp: SetSubscriptionWorkload_def SetSubscriptionJob_def SetSubscriptionGrace_def
    SetSubscriptionRenewalAnchor_def sub_ok_def intro!: ok_set_sub)

lemma run_ok: "bdb_run pg d d' \<Longrightarrow> bdb_ok d \<Longrightarrow> bdb_ok d'"
  unfolding bdb_run_def by (induction rule: rtranclp_induct) (auto intro: step_ok)

section \<open>Properties of the store\<close>

definition empty_bdb :: bdb where
  "empty_bdb = \<lparr>b_products = [], b_orders = [], b_payments = [], b_invoices = [], b_subs = [],
     b_customers = [], b_next = 1, b_seq = 0\<rparr>"

lemma empty_bdb_ok: "bdb_ok empty_bdb"
  by (simp add: bdb_ok_def empty_bdb_def fresh_keys_def event_keys_def)

text \<open>C6: However the billing statements are interleaved, the tables stay well formed:
  identifiers are unique, there is at most one payment per gateway event, every order and
  every invoice carries a non-negative amount with total = subtotal + tax, exactly the paid
  rows have a payment date, and the legacy status column agrees with the state machine.\<close>

theorem billing_tables_ok:
  assumes "bdb_run pg empty_bdb d"
  shows "bdb_ok d"
  by (rule run_ok [OF assms empty_bdb_ok])

lemma billing_tables_ok_witness:
  "bdb_ok (fst (RecordPayment empty_bdb 0
     \<lparr>pi_org = 1, pi_order = None, pi_invoice = None, pi_sub = None, pi_provider = ''fake'', pi_ref = [],
      pi_event = ''e1'', pi_kind = InvoiceKindPurchase, pi_status = PaymentAuthorized,
      pi_amount = \<lparr>m_amount = 5, m_currency = ''USD''\<rparr>, pi_reason = []\<rparr>))"
  by (rule billing_tables_ok [of "\<lambda>p t. t"]) (rule run_intros)




definition sample_order :: order_input where
  "sample_order = \<lparr>oi_org = 4, oi_product = 9, oi_plan = None, oi_period = PeriodMonthly, oi_amount = 500,
     oi_currency = ''USD'', oi_provider = ''fake'', oi_meta = ''{}'', oi_state = StatePending,
     oi_kind = ''web'', oi_start = 0\<rparr>"


end
