(* ===== verification/BillingGateway.thy ===== *)
theory BillingGateway
  imports BillingStore
begin

text \<open>
  Payment gateways, \<open>internal/billing/provider.go\<close>: the pluggable interface as a record
  of operations, the registry, and the two gateways that ship with the panel. The hash of a
  seed (\<open>sha\<close>, hex SHA-256), the HMAC of a body (\<open>hmac\<close>, hex) and the JSON decoding of
  a webhook body (\<open>decode\<close>) are parameters. \<open>payment_gateway\<close> states the contract the
  billing flows rely on.
\<close>

section \<open>The interface\<close>

record charge =
  ch_amount :: money
  ch_desc :: string
  ch_method :: string
  ch_order :: string

record authorization =
  auth_ref :: string
  auth_declined :: bool
  auth_reason :: string

record capture =
  cap_ref :: string
  cap_status :: string

datatype webhook_type = WebhookPaymentCaptured | WebhookPaymentFailed

record webhook_event =
  ev_id :: string
  ev_type :: webhook_type
  ev_order :: string
  ev_amount :: money
  ev_reason :: string

datatype gw_err =
    GwBadCurrency | GwBadAmount | GwEmptyRef | GwMissingSignature | GwSignatureMismatch
  | GwBadBody | GwNoEventId | GwBadType | GwNoWebhooks | GwOther string

definition Validate :: "money \<Rightarrow> gw_err option" where
  "Validate m = (if \<not> ValidateCurrency (m_currency m) then Some GwBadCurrency
     else if \<not> ValidateMinorUnit (m_amount m) then Some GwBadAmount else None)"

record provider =
  pv_name :: string
  pv_authorize :: "charge \<Rightarrow> gw_err + authorization"
  pv_capture :: "string \<Rightarrow> gw_err + capture"
  pv_refund :: "string \<Rightarrow> money \<Rightarrow> string \<Rightarrow> gw_err option"
  pv_verify :: "string \<Rightarrow> (string \<Rightarrow> string) \<Rightarrow> string \<Rightarrow> gw_err + webhook_event"

type_synonym registry = "string \<rightharpoonup> provider"

definition RegisterProvider :: "registry \<Rightarrow> provider \<Rightarrow> registry" where
  "RegisterProvider reg p = reg(pv_name p \<mapsto> p)"

definition ProviderFor :: "registry \<Rightarrow> string \<Rightarrow> bill_err + provider" where
  "ProviderFor reg name = (case reg name of None \<Rightarrow> Inl (BillUnknownProvider name) | Some p \<Rightarrow> Inr p)"

section \<open>The fake gateway\<close>

definition fakeRef :: "(string \<Rightarrow> string) \<Rightarrow> string \<Rightarrow> string \<Rightarrow> string" where
  "fakeRef sha prefix seed = prefix @ take 24 (sha seed)"

definition fakeAuthorize :: "(string \<Rightarrow> string) \<Rightarrow> charge \<Rightarrow> gw_err + authorization" where
  "fakeAuthorize sha req =
    (case Validate (ch_amount req) of
       Some e \<Rightarrow> Inl e
     | None \<Rightarrow>
         if sint (m_amount (ch_amount req)) \<le> 0
         then Inr \<lparr>auth_ref = [], auth_declined = True, auth_reason = ''non-positive charge amount''\<rparr>
         else if has_prefix (to_lower (ch_method req)) ''fail''
         then Inr \<lparr>auth_ref = [], auth_declined = True,
                   auth_reason = ''card declined (fake gateway: method_ref starts with 'fail')''\<rparr>
         else Inr \<lparr>auth_ref = fakeRef sha ''fakeauth_'' (ch_method req @ ''|'' @ ch_order req @ ''|''
                      @ int_str (sint (m_amount (ch_amount req))) @ ''|'' @ m_currency (ch_amount req)),
                   auth_declined = False, auth_reason = []\<rparr>)"

definition fakeCapture :: "(string \<Rightarrow> string) \<Rightarrow> string \<Rightarrow> gw_err + capture" where
  "fakeCapture sha ref =
    (if ref = [] then Inl GwEmptyRef
     else Inr \<lparr>cap_ref = fakeRef sha ''fakecap_'' ref, cap_status = ''captured''\<rparr>)"

definition refund :: "string \<Rightarrow> money \<Rightarrow> string \<Rightarrow> gw_err option" where
  "refund ref amount reason = (if ref = [] then Some GwEmptyRef else Validate amount)"

record raw_event =
  raw_id :: string
  raw_type :: string
  raw_order :: string
  raw_amount :: i64
  raw_currency :: string
  raw_reason :: string

definition fakeVerify ::
    "(string \<Rightarrow> string \<Rightarrow> string) \<Rightarrow> (string \<Rightarrow> raw_event option) \<Rightarrow> string \<Rightarrow> (string \<Rightarrow> string) \<Rightarrow> string
      \<Rightarrow> gw_err + webhook_event" where
  "fakeVerify hmac decode secret header body =
    (let got = header ''X-Fake-Signature'' in
     if got = [] then Inl GwMissingSignature
     else if got \<noteq> hmac secret body then Inl GwSignatureMismatch
     else case decode body of
            None \<Rightarrow> Inl GwBadBody
          | Some raw \<Rightarrow>
              if raw_id raw = [] then Inl GwNoEventId
              else if raw_type raw = ''payment.captured'' \<or> raw_type raw = ''payment.failed''
              then Inr \<lparr>ev_id = raw_id raw,
                    ev_type = (if raw_type raw = ''payment.captured'' then WebhookPaymentCaptured
                               else WebhookPaymentFailed),
                    ev_order = raw_order raw,
                    ev_amount = \<lparr>m_amount = raw_amount raw, m_currency = raw_currency raw\<rparr>,
                    ev_reason = raw_reason raw\<rparr>
              else Inl GwBadType)"

definition FakeProvider ::
    "(string \<Rightarrow> string) \<Rightarrow> (string \<Rightarrow> string \<Rightarrow> string) \<Rightarrow> (string \<Rightarrow> raw_event option) \<Rightarrow> provider" where
  "FakeProvider sha hmac decode = \<lparr>pv_name = ''fake'', pv_authorize = fakeAuthorize sha,
     pv_capture = fakeCapture sha, pv_refund = refund, pv_verify = fakeVerify hmac decode\<rparr>"

section \<open>The manual gateway\<close>

definition manualAuthorize :: "(string \<Rightarrow> string) \<Rightarrow> charge \<Rightarrow> gw_err + authorization" where
  "manualAuthorize sha req =
    (case Validate (ch_amount req) of
       Some e \<Rightarrow> Inl e
     | None \<Rightarrow>
         let ref = (if ch_method req = [] then ''offline'' else ch_method req)
         in Inr \<lparr>auth_ref = ''manualauth_'' @ drop 1 (fakeRef sha [] (ref @ ch_order req)),
                 auth_declined = False, auth_reason = []\<rparr>)"

definition manualCapture :: "string \<Rightarrow> gw_err + capture" where
  "manualCapture ref =
    (if ref = [] then Inl GwEmptyRef
     else Inr \<lparr>cap_ref = ''manualcap_'' @ trim_prefix ref ''manualauth_'', cap_status = ''captured''\<rparr>)"

definition ManualProvider :: "(string \<Rightarrow> string) \<Rightarrow> provider" where
  "ManualProvider sha = \<lparr>pv_name = ''manual'', pv_authorize = manualAuthorize sha,
     pv_capture = manualCapture, pv_refund = refund,
     pv_verify = (\<lambda>secret header body. Inl GwNoWebhooks)\<rparr>"

definition default_registry ::
    "(string \<Rightarrow> string) \<Rightarrow> (string \<Rightarrow> string \<Rightarrow> string) \<Rightarrow> (string \<Rightarrow> raw_event option) \<Rightarrow> registry" where
  "default_registry sha hmac decode =
    RegisterProvider (RegisterProvider Map.empty (FakeProvider sha hmac decode)) (ManualProvider sha)"

section \<open>The contract of a gateway\<close>

definition approved :: "gw_err + authorization \<Rightarrow> bool" where
  "approved r \<longleftrightarrow> (case r of Inl _ \<Rightarrow> False | Inr a \<Rightarrow> \<not> auth_declined a)"

locale payment_gateway =
  fixes pv :: provider
  assumes valid_money: "approved (pv_authorize pv req) \<Longrightarrow> Validate (ch_amount req) = None"
    and approved_ref: "pv_authorize pv req = Inr a \<Longrightarrow> \<not> auth_declined a \<Longrightarrow> auth_ref a \<noteq> []"
    and empty_ref: "isl (pv_capture pv [])"
    and capturable: "ref \<noteq> [] \<Longrightarrow> \<exists>c. pv_capture pv ref = Inr c \<and> cap_ref c \<noteq> [] \<and> cap_status c = ''captured''"
begin

lemma approved_captures:
  assumes "pv_authorize pv req = Inr a" and "\<not> auth_declined a"
  shows "\<exists>c. pv_capture pv (auth_ref a) = Inr c \<and> cap_ref c \<noteq> []"
  using approved_ref [OF assms] capturable by blast

lemma never_charges_invalid:
  assumes "Validate (ch_amount (req :: charge)) \<noteq> None"
  shows "\<not> approved (pv_authorize pv req)"
  using assms valid_money [of req] by auto

end

lemma approved_Inl [simp]: "\<not> approved (Inl e)" and approved_Inr [simp]: "approved (Inr a) = (\<not> auth_declined a)"
  by (simp_all add: approved_def)

interpretation fake: payment_gateway "FakeProvider sha hmac decode" for sha hmac decode
  by unfold_locales
    (auto simp: FakeProvider_def fakeAuthorize_def fakeCapture_def fakeRef_def split: option.splits if_splits)

interpretation manual: payment_gateway "ManualProvider sha" for sha
  by unfold_locales
    (auto simp: ManualProvider_def manualAuthorize_def manualCapture_def Let_def split: option.splits)

text \<open>A webhook is believed only with the shared secret: the fake gateway returns an
  event only for a body whose HMAC under the secret is the signature header, and the
  manual gateway never does; and both shipped gateways approve only charges of a valid
  currency and a non-negative amount, and can capture every charge they approve.\<close>

theorem gateways_sound:
  assumes "pv = FakeProvider sha hmac decode \<or> pv = ManualProvider sha"
  shows "(pv_verify pv secret header body = Inr ev \<longrightarrow>
        pv = FakeProvider sha hmac decode \<and> header ''X-Fake-Signature'' = hmac secret body \<and> ev_id ev \<noteq> [])
    \<and> (pv_authorize pv req = Inr a \<and> \<not> auth_declined a \<longrightarrow>
        ValidateCurrency (m_currency (ch_amount req)) \<and> ValidateMinorUnit (m_amount (ch_amount req))
        \<and> (\<exists>c. pv_capture pv (auth_ref a) = Inr c \<and> cap_ref c \<noteq> []))"
proof -
  have verify: "pv_verify pv secret header body = Inr ev \<longrightarrow>
      pv = FakeProvider sha hmac decode \<and> header ''X-Fake-Signature'' = hmac secret body \<and> ev_id ev \<noteq> []"
    using assms
    by (auto simp: FakeProvider_def ManualProvider_def fakeVerify_def Let_def split: if_splits option.splits)
  have money: "ValidateCurrency (m_currency (ch_amount req)) \<and> ValidateMinorUnit (m_amount (ch_amount req))"
    if "approved (pv_authorize pv req)"
    using assms that fake.valid_money manual.valid_money
    by (metis Validate_def option.distinct(1))
  have capture: "\<exists>c. pv_capture pv (auth_ref a) = Inr c \<and> cap_ref c \<noteq> []"
    if "pv_authorize pv req = Inr a" "\<not> auth_declined a"
    using assms that fake.approved_captures manual.approved_captures by blast
  show ?thesis using verify money capture by auto
qed

lemma gateways_sound_witness:
  "let pv = FakeProvider (\<lambda>s. s) (\<lambda>k b. k @ b)
        (\<lambda>b. Some \<lparr>raw_id = ''e'', raw_type = ''payment.captured'', raw_order = [], raw_amount = 1, raw_currency = ''USD'', raw_reason = []\<rparr>)
   in \<not> (\<exists>ev. pv_verify pv ''s'' (\<lambda>h. ''forged'') ''b'' = Inr ev)"
  unfolding Let_def
proof
  let ?pv = "FakeProvider (\<lambda>s. s) (\<lambda>k b. k @ b)
        (\<lambda>b. Some \<lparr>raw_id = ''e'', raw_type = ''payment.captured'', raw_order = [], raw_amount = 1, raw_currency = ''USD'', raw_reason = []\<rparr>)"
  assume "\<exists>ev. pv_verify ?pv ''s'' (\<lambda>h. ''forged'') ''b'' = Inr ev"
  then have "''forged'' = ''s'' @ ''b''" using gateways_sound [of ?pv] by blast
  then show False by simp
qed

end
