(* ===== verification/BillingService.thy ===== *)
theory BillingService
  imports BillingInvariants BillingGateway
begin

text \<open>
  The billing flows, \<open>internal/billing/service.go\<close>: purchase, webhook, renewal, grace,
  suspension, termination and retry, as sequences of store statements, gateway calls and
  calls of the four workload engines. The state is the billing tables, a log of the audit
  entries and bus events (kind and resource only) and the world the engines work on; a
  function returns it with a value or an error. The environment holds the injected
  collaborators: clock, settings, gateways, engines, the sealed-token opener, UUID coding
  and error texts. Errors that the source only logs are dropped.
\<close>

section \<open>State and environment\<close>

datatype log_entry = Audit string uid bool | Event string uid

record 'w bstate =
  bs_db :: bdb
  bs_log :: "log_entry list"
  bs_world :: 'w

record 'w benv =
  e_now :: time
  e_registry :: registry
  e_settings :: "(string \<Rightarrow> string option) option"
  e_audit :: bool
  e_events :: bool
  e_pg :: "string \<Rightarrow> time \<Rightarrow> time"
  e_us :: "uid \<Rightarrow> string"
  e_parse :: "string \<Rightarrow> uid option"
  e_open :: "string \<Rightarrow> string option"
  e_text :: "bill_err \<Rightarrow> string"
  e_gw_text :: "gw_err \<Rightarrow> string"
  e_webhook_key :: string
  e_provision :: "('w bstate \<Rightarrow> subscription \<Rightarrow> product \<Rightarrow> 'w bstate \<times> (bill_err + unit)) option"
  e_suspend :: "('w bstate \<Rightarrow> subscription \<Rightarrow> 'w bstate \<times> (bill_err + unit)) option"
  e_resume :: "('w bstate \<Rightarrow> subscription \<Rightarrow> 'w bstate \<times> (bill_err + unit)) option"
  e_terminate :: "('w bstate \<Rightarrow> subscription \<Rightarrow> 'w bstate \<times> (bill_err + unit)) option"

definition db_do :: "'w bstate \<Rightarrow> (bdb \<Rightarrow> bdb \<times> 'r) \<Rightarrow> 'w bstate \<times> 'r" where
  "db_do s f = (let r = f (bs_db s) in (s\<lparr>bs_db := fst r\<rparr>, snd r))"

definition db_get :: "'w bstate \<Rightarrow> (bdb \<Rightarrow> 'r) \<Rightarrow> 'w bstate \<times> 'r" where
  "db_get s f = (s, f (bs_db s))"

definition audit :: "'w benv \<Rightarrow> 'w bstate \<Rightarrow> string \<Rightarrow> uid \<Rightarrow> bool \<Rightarrow> 'w bstate" where
  "audit e s action i ok = (if e_audit e then s\<lparr>bs_log := bs_log s @ [Audit action i ok]\<rparr> else s)"

definition publish :: "'w benv \<Rightarrow> 'w bstate \<Rightarrow> string \<Rightarrow> uid \<Rightarrow> 'w bstate" where
  "publish e s t i = (if e_events e then s\<lparr>bs_log := bs_log s @ [Event t i]\<rparr> else s)"

section \<open>Settings\<close>

definition SettingInt :: "'w benv \<Rightarrow> string \<Rightarrow> int \<Rightarrow> int" where
  "SettingInt e key dflt =
    (case e_settings e of
       None \<Rightarrow> dflt
     | Some get \<Rightarrow>
         (case get key of
            None \<Rightarrow> dflt
          | Some v \<Rightarrow> if v = [] then dflt
              else case sscanf_d v of None \<Rightarrow> dflt | Some n \<Rightarrow> if n < 0 then dflt else n))"

text \<open>\<open>time.Duration(n) * 24 * time.Hour\<close> wraps at 64 bits.\<close>

definition days_duration :: "int \<Rightarrow> duration" where
  "days_duration n = sint (word_of_int n * 24 * word_of_int hour :: i64)"

definition GracePeriod :: "'w benv \<Rightarrow> duration" where
  "GracePeriod e = days_duration (SettingInt e ''billing.grace_days'' 3)"

definition SuspendThenTerminate :: "'w benv \<Rightarrow> duration" where
  "SuspendThenTerminate e = days_duration (SettingInt e ''billing.suspend_terminate_days'' 7)"

definition InvoiceDue :: "'w benv \<Rightarrow> duration" where
  "InvoiceDue e = days_duration (SettingInt e ''billing.invoice_due_days'' 7)"

section \<open>The transition function\<close>

definition Transition ::
    "'w benv \<Rightarrow> 'w bstate \<Rightarrow> subscription \<Rightarrow> state \<Rightarrow> string \<Rightarrow> 'w bstate \<times> (bill_err + bool \<times> subscription)" where
  "Transition e s sub to reason =
    (let from = sub_state sub in
     if from = to then (s, Inr (False, sub))
     else if \<not> CanTransition from to
     then (audit e s (StateAuditAction to) (sub_id sub) False, Inl (BillTransition from to reason))
     else let opts = \<lparr>to_grace = None, to_clear = (to = StateActive \<or> to = StateTerminated),
                      to_error = (if reason \<noteq> [] then reason else sub_error sub)\<rparr>
          in andThen (db_do s (\<lambda>d. UpdateSubscriptionState d (e_now e) (sub_id sub) from to opts))
               (\<lambda>s upd. (publish e (audit e s (StateAuditAction to) (sub_id sub) True) (StateEvent to) (sub_id sub),
                         Inr (True, upd))))"

section \<open>Purchase\<close>

record checkout_input =
  ci_org :: uid
  ci_product :: uid
  ci_period :: string
  ci_provider :: string

definition order_price :: "product \<Rightarrow> string \<Rightarrow> i64" where
  "order_price p period = pr_price p * of_nat (PeriodMonths period)"

definition kind_name :: "workload_kind \<Rightarrow> string" where
  "kind_name k = (case k of KindWeb \<Rightarrow> ''web'' | KindService \<Rightarrow> ''service'')"

definition checkout_order :: "'w benv \<Rightarrow> checkout_input \<Rightarrow> string \<Rightarrow> product \<Rightarrow> order_input" where
  "checkout_order e inp prov p =
    \<lparr>oi_org = ci_org inp, oi_product = pr_id p, oi_plan = pr_plan p, oi_period = ci_period inp,
     oi_amount = order_price p (ci_period inp), oi_currency = pr_currency p, oi_provider = prov,
     oi_meta = ''{\"product_type\":\"'' @ pr_type p @ ''\"}'', oi_state = StatePending,
     oi_kind = kind_name (WorkloadKindForProductType (pr_type p)), oi_start = e_now e\<rparr>"

definition Checkout ::
    "'w benv \<Rightarrow> 'w bstate \<Rightarrow> checkout_input \<Rightarrow> 'w bstate \<times> (bill_err + order \<times> subscription)" where
  "Checkout e s inp =
    (if \<not> ValidPeriod (ci_period inp) then (s, Inl BillBadPeriod)
     else let prov = (if ci_provider inp = [] then ''manual'' else ci_provider inp) in
       andThen (s, ProviderFor (e_registry e) prov) (\<lambda>s _.
       andThen (db_get s (\<lambda>d. GetProduct d (ci_product inp))) (\<lambda>s p.
         if \<not> pr_active p then (s, Inl (BillNotPurchasable (pr_name p)))
         else if \<not> ValidateMinorUnit (order_price p (ci_period inp)) then (s, Inl BillBadAmount)
         else
           andThen (db_do s (\<lambda>d. EnsureCustomer d (ci_org inp) (pr_currency p))) (\<lambda>s _.
           andThen (db_do s (\<lambda>d. CreateOrderWithSubscription d (e_now e) (checkout_order e inp prov p)))
             (\<lambda>s r. case r of (ord, sub) \<Rightarrow>
               (publish e (audit e s ''billing.order_created'' (order_id ord) True)
                  ''billing.order.created'' (sub_id sub), Inr (ord, sub)))))))"

definition orderProductName :: "string \<Rightarrow> string" where
  "orderProductName name = (if name \<noteq> [] then name else ''subscription'')"

definition order_money :: "order \<Rightarrow> money" where
  "order_money ord = \<lparr>m_amount = order_amount ord, m_currency = order_currency ord\<rparr>"

definition order_payment ::
    "order \<Rightarrow> subscription \<Rightarrow> uid option \<Rightarrow> string \<Rightarrow> string \<Rightarrow> invoice_kind \<Rightarrow> payment_status \<Rightarrow> string \<Rightarrow> payment_input" where
  "order_payment ord sub bill ref event kind status reason =
    \<lparr>pi_org = order_org ord, pi_order = Some (order_id ord), pi_invoice = bill, pi_sub = Some (sub_id sub),
     pi_provider = order_provider ord, pi_ref = ref, pi_event = event, pi_kind = kind,
     pi_status = status, pi_amount = order_money ord, pi_reason = reason\<rparr>"

definition order_invoice :: "'w benv \<Rightarrow> order \<Rightarrow> subscription \<Rightarrow> customer \<Rightarrow> invoice_kind \<Rightarrow> invoice_input" where
  "order_invoice e ord sub cust kind =
    \<lparr>ii_customer = cust_id cust, ii_sub = Some (sub_id sub), ii_kind = kind,
     ii_currency = order_currency ord, ii_subtotal = order_amount ord, ii_tax = 0,
     ii_lines = [\<lparr>li_desc = orderProductName [] @ '' ('' @ order_period ord @ '', '' @ order_currency ord @ '')'',
                  li_quantity = 1, li_unit = order_amount ord, li_total = order_amount ord\<rparr>],
     ii_due = InvoiceDue e\<rparr>"

definition uuidOrNil :: "uid option \<Rightarrow> uid" where
  "uuidOrNil p = (case p of None \<Rightarrow> nil_uid | Some i \<Rightarrow> i)"

definition run_provision ::
    "'w benv \<Rightarrow> 'w bstate \<Rightarrow> subscription \<Rightarrow> product \<Rightarrow> 'w bstate \<times> (bill_err + unit)" where
  "run_provision e s sub p =
    (case e_provision e of None \<Rightarrow> (s, Inl BillNoEngine) | Some f \<Rightarrow> f s sub p)"

definition dispatchProvision ::
    "'w benv \<Rightarrow> 'w bstate \<Rightarrow> subscription \<Rightarrow> order \<Rightarrow> 'w bstate \<times> (bill_err + unit)" where
  "dispatchProvision e s sub ord =
    andThen (Transition e s sub StateProvisioning (''payment captured (order '' @ e_us e (order_id ord) @ '')'')) (\<lambda>s _.
    andThen (db_get s (\<lambda>d. GetSubscriptionAny d (sub_id sub))) (\<lambda>s fresh.
    andThen (db_get s (\<lambda>d. GetProduct d (uuidOrNil (sub_product fresh)))) (\<lambda>s p.
    andThen (run_provision e s fresh p) (\<lambda>s _.
      (publish e s ''billing.provision.dispatched'' (sub_id fresh), Inr ())))))"

text \<open>The failure branch of the dispatch: reload, move to FAILED (an illegal edge is only
  logged) and report the original error.\<close>

definition dispatch_failed ::
    "'w benv \<Rightarrow> 'w bstate \<Rightarrow> subscription \<Rightarrow> bill_err \<Rightarrow> 'w bstate" where
  "dispatch_failed e s sub err =
    (let cur = (case GetSubscriptionAny (bs_db s) (sub_id sub) of Inr fresh \<Rightarrow> fresh | Inl _ \<Rightarrow> sub)
     in fst (Transition e s cur StateFailed (''provision dispatch: '' @ e_text e err)))"

definition settle_order ::
    "'w benv \<Rightarrow> 'w bstate \<Rightarrow> order \<Rightarrow> subscription \<Rightarrow> string \<Rightarrow> invoice_kind \<Rightarrow> string \<Rightarrow> 'w bstate \<times> (bill_err + bool)" where
  "settle_order e s ord sub event kind ref =
    andThen (db_do s (\<lambda>d. EnsureCustomer d (order_org ord) (order_currency ord))) (\<lambda>s cust.
    andThen (db_do s (\<lambda>d. IssueInvoice d (e_now e) (order_invoice e ord sub cust kind))) (\<lambda>s bill.
      let s = fst (db_do s (\<lambda>d. MarkInvoicePaid d (e_now e) (inv_id bill)));
          s = fst (db_do s (\<lambda>d. RecordPayment d (e_now e)
                (order_payment ord sub (Some (inv_id bill)) ref (event @ '':captured'') kind PaymentCaptured [])))
      in andThen (db_do s (\<lambda>d. MarkOrderPaid d (e_now e) (order_id ord) ref)) (\<lambda>s _.
         case dispatchProvision e s sub ord of
           (s, Inl err) \<Rightarrow> (dispatch_failed e s sub err, Inl err)
         | (s, Inr _) \<Rightarrow> (s, Inr False))))"

definition order_charge :: "'w benv \<Rightarrow> order \<Rightarrow> string \<Rightarrow> charge" where
  "order_charge e ord method =
    \<lparr>ch_amount = order_money ord, ch_desc = ''EpicPanel '' @ order_period ord @ '' order'',
     ch_method = method, ch_order = e_us e (order_id ord)\<rparr>"

definition CaptureForOrder ::
    "'w benv \<Rightarrow> 'w bstate \<Rightarrow> order \<Rightarrow> subscription \<Rightarrow> string \<Rightarrow> string \<Rightarrow> invoice_kind \<Rightarrow> 'w bstate \<times> (bill_err + bool)" where
  "CaptureForOrder e s ord sub method event kind =
    andThen (s, ProviderFor (e_registry e) (order_provider ord)) (\<lambda>s pv.
    andThen (db_do s (\<lambda>d. RecordPayment d (e_now e)
        (order_payment ord sub None [] event kind PaymentAuthorized []))) (\<lambda>s r.
      if snd r then (s, Inr True)
      else case pv_authorize pv (order_charge e ord method) of
             Inl err \<Rightarrow>
               (fst (db_do s (\<lambda>d. RecordPayment d (e_now e)
                  (order_payment ord sub None [] (event @ '':autherr'') kind PaymentFailed (e_gw_text e err)))),
                Inl (BillGateway (e_gw_text e err)))
           | Inr authz \<Rightarrow>
               if auth_declined authz then
                 (fst (db_do s (\<lambda>d. RecordPayment d (e_now e)
                    (order_payment ord sub None [] (event @ '':declined'') kind PaymentFailed (auth_reason authz)))),
                  Inl (BillDeclined (auth_reason authz)))
               else case pv_capture pv (auth_ref authz) of
                      Inl err \<Rightarrow> (s, Inl (BillGateway (e_gw_text e err)))
                    | Inr cap \<Rightarrow> settle_order e s ord sub event kind (cap_ref cap)))"

text \<open>The source returns the order and subscription it has next to an error; here an
  error carries the state only.\<close>

definition PayAndActivate ::
    "'w benv \<Rightarrow> 'w bstate \<Rightarrow> checkout_input \<Rightarrow> string \<Rightarrow> string \<Rightarrow> 'w bstate \<times> (bill_err + order \<times> subscription \<times> bool)" where
  "PayAndActivate e s inp method event =
    andThen (Checkout e s inp) (\<lambda>s r. case r of (ord, sub) \<Rightarrow>
      (case CaptureForOrder e s ord sub method event InvoiceKindPurchase of
         (s, Inl err) \<Rightarrow> (fst (db_do s (\<lambda>d. CancelOrder d (ci_org inp) (order_id ord))), Inl err)
       | (s, Inr replayed) \<Rightarrow>
           andThen (db_get s (\<lambda>d. GetOrderAny d (order_id ord))) (\<lambda>s ord'.
           andThen (db_get s (\<lambda>d. GetSubscriptionAny d (sub_id sub))) (\<lambda>s sub'.
             (s, Inr (ord', sub', replayed))))))"

section \<open>Webhooks\<close>

definition webhook_event_name :: "webhook_type \<Rightarrow> string" where
  "webhook_event_name t = ''billing.webhook.'' @
     (case t of WebhookPaymentCaptured \<Rightarrow> ''payment.captured'' | WebhookPaymentFailed \<Rightarrow> ''payment.failed'')"

definition failed_payment :: "order \<Rightarrow> string \<Rightarrow> webhook_event \<Rightarrow> payment_input" where
  "failed_payment ord name ev =
    \<lparr>pi_org = order_org ord, pi_order = Some (order_id ord), pi_invoice = None, pi_sub = None,
     pi_provider = name, pi_ref = [], pi_event = ev_id ev, pi_kind = InvoiceKindPurchase,
     pi_status = PaymentFailed, pi_amount = ev_amount ev, pi_reason = ev_reason ev\<rparr>"

definition HandleWebhook ::
    "'w benv \<Rightarrow> 'w bstate \<Rightarrow> string \<Rightarrow> string \<Rightarrow> (string \<Rightarrow> string) \<Rightarrow> string \<Rightarrow> 'w bstate \<times> (bill_err + webhook_event \<times> bool)" where
  "HandleWebhook e s name secret header body =
    andThen (s, ProviderFor (e_registry e) name) (\<lambda>s pv.
      case pv_verify pv secret header body of
        Inl err \<Rightarrow> (s, Inl (BillWebhook (e_gw_text e err)))
      | Inr ev \<Rightarrow>
          let s = publish e s (webhook_event_name (ev_type ev)) nil_uid in
          (case e_parse e (ev_order ev) of
             None \<Rightarrow> (s, Inl (BillWebhook ''webhook order_ref is not an order id''))
           | Some oid \<Rightarrow>
               andThen (db_get s (\<lambda>d. GetOrderAny d oid)) (\<lambda>s ord.
                 if ev_type ev = WebhookPaymentFailed then
                   (let s = fst (db_do s (\<lambda>d. RecordPayment d (e_now e) (failed_payment ord name ev)));
                        s = fst (db_do s (\<lambda>d. CancelOrder d (order_org ord) (order_id ord)))
                    in (s, Inr (ev, False)))
                 else if order_status ord \<noteq> OrderPending then (s, Inr (ev, True))
                 else case order_sub ord of
                        None \<Rightarrow> (s, Inl (BillWebhook ''order has no subscription''))
                      | Some sid \<Rightarrow>
                          andThen (db_get s (\<lambda>d. GetSubscriptionAny d sid)) (\<lambda>s sub.
                          andThen (CaptureForOrder e s ord sub (''webhook:'' @ name) (ev_id ev) InvoiceKindPurchase)
                            (\<lambda>s replayed. (s, Inr (ev, replayed)))))))"

definition WebhookSecret :: "'w benv \<Rightarrow> string" where
  "WebhookSecret e =
    (let key = (if e_webhook_key e = [] then ''billing.webhook_secret'' else e_webhook_key e)
     in case e_settings e of None \<Rightarrow> [] | Some get \<Rightarrow> (case get key of None \<Rightarrow> [] | Some v \<Rightarrow> v))"

section \<open>Job outcomes\<close>

record job_outcome =
  jo_sub :: uid
  jo_success :: bool
  jo_error :: string

definition ApplyJobOutcome :: "'w benv \<Rightarrow> 'w bstate \<Rightarrow> job_outcome \<Rightarrow> 'w bstate" where
  "ApplyJobOutcome e s out =
    (case GetSubscriptionAny (bs_db s) (jo_sub out) of
       Inl _ \<Rightarrow> s
     | Inr sub \<Rightarrow>
         (case sub_state sub of
            StateProvisioning \<Rightarrow>
              fst (if jo_success out then Transition e s sub StateActive ''provision job succeeded''
                   else Transition e s sub StateFailed (''provision job failed: '' @ jo_error out))
          | StateSuspending \<Rightarrow>
              fst (if jo_success out then Transition e s sub StateSuspended ''suspend job succeeded''
                   else Transition e s sub StateFailed (''suspend job failed: '' @ jo_error out))
          | StateTerminating \<Rightarrow>
              fst (if jo_success out then Transition e s sub StateTerminated ''terminate job succeeded''
                   else Transition e s sub StateFailed (''terminate job failed: '' @ jo_error out))
          | _ \<Rightarrow> s))"

section \<open>Failure walk\<close>

definition StartGrace :: "'w benv \<Rightarrow> 'w bstate \<Rightarrow> subscription \<Rightarrow> 'w bstate \<times> (bill_err + unit)" where
  "StartGrace e s sub =
    andThen (db_do s (\<lambda>d. SetSubscriptionGrace d (sub_id sub) (Some (e_now e + GracePeriod e)))) (\<lambda>s _.
      (publish e (audit e s ''billing.grace_started'' (sub_id sub) True) ''billing.grace.started'' (sub_id sub), Inr ()))"

definition run_engine ::
    "('w bstate \<Rightarrow> subscription \<Rightarrow> 'w bstate \<times> (bill_err + unit)) option \<Rightarrow> 'w bstate \<Rightarrow> subscription
      \<Rightarrow> 'w bstate \<times> (bill_err + unit)" where
  "run_engine eng s sub = (case eng of None \<Rightarrow> (s, Inl BillNoEngine) | Some f \<Rightarrow> f s sub)"

definition BeginSuspend :: "'w benv \<Rightarrow> 'w bstate \<Rightarrow> subscription \<Rightarrow> string \<Rightarrow> 'w bstate \<times> (bill_err + unit)" where
  "BeginSuspend e s sub reason =
    andThen (Transition e s sub StateSuspending reason) (\<lambda>s _. run_engine (e_suspend e) s sub)"

definition ResumeBilling :: "'w benv \<Rightarrow> 'w bstate \<Rightarrow> subscription \<Rightarrow> string \<Rightarrow> 'w bstate \<times> (bill_err + unit)" where
  "ResumeBilling e s sub reason =
    (let from = sub_state sub in
     andThen (Transition e s sub StateActive reason) (\<lambda>s _.
       case (from = StateSuspended, e_resume e) of
         (True, Some f) \<Rightarrow> andThen (db_get s (\<lambda>d. GetSubscriptionAny d (sub_id sub))) (\<lambda>s fresh. f s fresh)
       | _ \<Rightarrow> (s, Inr ())))"

definition BeginTerminate :: "'w benv \<Rightarrow> 'w bstate \<Rightarrow> subscription \<Rightarrow> string \<Rightarrow> 'w bstate \<times> (bill_err + unit)" where
  "BeginTerminate e s sub reason =
    andThen (Transition e s sub StateTerminating reason) (\<lambda>s _. run_engine (e_terminate e) s sub)"

definition ManualRetry :: "'w benv \<Rightarrow> 'w bstate \<Rightarrow> subscription \<Rightarrow> 'w bstate \<times> (bill_err + unit)" where
  "ManualRetry e s sub =
    (if sub_state sub = StateFailed then
       (if sub_error sub \<noteq> [] \<and> containsString (sub_error sub) ''terminate job failed''
        then BeginTerminate e s sub ''manual retry of terminate''
        else if sub_error sub \<noteq> [] \<and> containsString (sub_error sub) ''suspend job failed''
        then BeginSuspend e s sub ''manual retry of suspend''
        else
          andThen (db_get s (\<lambda>d. GetProduct d (uuidOrNil (sub_product sub)))) (\<lambda>s p.
          andThen (Transition e s sub StateProvisioning ''manual retry'') (\<lambda>s _.
          andThen (db_get s (\<lambda>d. GetSubscriptionAny d (sub_id sub))) (\<lambda>s fresh. run_provision e s fresh p))))
     else (s, Inl (BillTransition (sub_state sub) StateProvisioning ''manual retry is only available for FAILED'')))"

section \<open>Renewal\<close>

definition storedMethodToken :: "'w benv \<Rightarrow> bdb \<Rightarrow> uid \<Rightarrow> string" where
  "storedMethodToken e d org =
    (case PaymentMethodRaw d org of
       Inl _ \<Rightarrow> []
     | Inr pm \<Rightarrow> if pm_token pm = [] then [] else case e_open e (pm_token pm) of None \<Rightarrow> [] | Some t \<Rightarrow> t)"

definition date_text :: "time \<Rightarrow> string" where
  "date_text t = (case civil_of_day (t div day_ns) of (y, m, d) \<Rightarrow>
     pad0 4 (int_str y) @ ''-'' @ pad0 2 (int_str m) @ ''-'' @ pad0 2 (int_str d))"

definition renewal_event :: "'w benv \<Rightarrow> subscription \<Rightarrow> string" where
  "renewal_event e sub = ''renewal:'' @ e_us e (sub_id sub) @ '':'' @ date_text (sub_end sub)"

definition invoice_payment ::
    "uid \<Rightarrow> invoice \<Rightarrow> string \<Rightarrow> string \<Rightarrow> string \<Rightarrow> payment_status \<Rightarrow> string \<Rightarrow> payment_input" where
  "invoice_payment org bill name ref event status reason =
    \<lparr>pi_org = org, pi_order = None, pi_invoice = Some (inv_id bill), pi_sub = inv_sub bill,
     pi_provider = name, pi_ref = ref, pi_event = event, pi_kind = inv_kind bill, pi_status = status,
     pi_amount = \<lparr>m_amount = inv_total bill, m_currency = inv_currency bill\<rparr>, pi_reason = reason\<rparr>"

definition renewal_invoice :: "'w benv \<Rightarrow> subscription \<Rightarrow> product \<Rightarrow> i64 \<Rightarrow> customer \<Rightarrow> invoice_input" where
  "renewal_invoice e sub p amount cust =
    \<lparr>ii_customer = cust_id cust, ii_sub = Some (sub_id sub), ii_kind = InvoiceKindRenewal,
     ii_currency = pr_currency p, ii_subtotal = amount, ii_tax = 0,
     ii_lines = [\<lparr>li_desc = pr_name p @ '' renewal ('' @ sub_period sub @ '')'', li_quantity = 1,
                  li_unit = amount, li_total = amount\<rparr>],
     ii_due = InvoiceDue e\<rparr>"

definition invoice_charge :: "'w benv \<Rightarrow> string \<Rightarrow> string \<Rightarrow> invoice \<Rightarrow> charge" where
  "invoice_charge e what method bill =
    \<lparr>ch_amount = \<lparr>m_amount = inv_total bill, m_currency = inv_currency bill\<rparr>,
     ch_desc = ''EpicPanel '' @ what @ '' '' @ inv_number bill, ch_method = method,
     ch_order = e_us e (inv_id bill)\<rparr>"

definition declined_reason :: "'w benv \<Rightarrow> gw_err + authorization \<Rightarrow> string" where
  "declined_reason e r = (case r of Inl err \<Rightarrow> e_gw_text e err | Inr a \<Rightarrow> auth_reason a)"

definition auth_token :: "gw_err + authorization \<Rightarrow> string" where
  "auth_token r = (case r of Inl _ \<Rightarrow> [] | Inr a \<Rightarrow> auth_ref a)"

text \<open>Payment landed while the workload was being suspended: bring it back, an error is
  only logged.\<close>

definition resume_if_suspended :: "'w benv \<Rightarrow> 'w bstate \<Rightarrow> subscription \<Rightarrow> string \<Rightarrow> 'w bstate" where
  "resume_if_suspended e s sub reason =
    (if sub_state sub = StateSuspended \<or> sub_state sub = StateSuspending
     then fst (ResumeBilling e s sub reason) else s)"

definition extend_paid ::
    "'w benv \<Rightarrow> 'w bstate \<Rightarrow> subscription \<Rightarrow> invoice \<Rightarrow> string \<Rightarrow> string \<Rightarrow> string \<Rightarrow> 'w bstate \<times> (bill_err + unit)" where
  "extend_paid e s sub bill name event ref =
    andThen (db_do s (\<lambda>d. MarkInvoicePaid d (e_now e) (inv_id bill))) (\<lambda>s _.
      let s = fst (db_do s (\<lambda>d. RecordPayment d (e_now e)
                (invoice_payment (sub_org sub) bill name ref (event @ '':captured'') PaymentCaptured [])))
      in andThen (db_do s (\<lambda>d. ExtendPeriod (e_pg e) d (sub_id sub))) (\<lambda>s upd.
           let s = resume_if_suspended e s upd ''renewal paid during suspension''
           in (publish e (audit e s ''billing.renewal_paid'' (sub_id sub) True) ''billing.renewal.paid'' (sub_id sub),
               Inr ())))"

definition charge_renewal ::
    "'w benv \<Rightarrow> 'w bstate \<Rightarrow> subscription \<Rightarrow> invoice \<Rightarrow> string \<Rightarrow> string \<Rightarrow> 'w bstate \<times> (bill_err + unit)" where
  "charge_renewal e s sub bill name method =
    andThen (s, ProviderFor (e_registry e) name) (\<lambda>s pv.
    let event = renewal_event e sub in
    andThen (db_do s (\<lambda>d. RecordPayment d (e_now e)
        (invoice_payment (sub_org sub) bill name [] event PaymentAuthorized []))) (\<lambda>s r.
      if snd r then (s, Inr ())
      else let authz = pv_authorize pv (invoice_charge e ''renewal'' method bill) in
        if \<not> approved authz then
          (let s = fst (db_do s (\<lambda>d. RecordPayment d (e_now e)
                 (invoice_payment (sub_org sub) bill name [] (event @ '':failed'') PaymentFailed (declined_reason e authz))))
           in StartGrace e s sub)
        else case pv_capture pv (auth_token authz) of
               Inl _ \<Rightarrow> StartGrace e s sub
             | Inr cap \<Rightarrow> extend_paid e s sub bill name event (cap_ref cap)))"

definition renewOne :: "'w benv \<Rightarrow> 'w bstate \<Rightarrow> subscription \<Rightarrow> 'w bstate \<times> (bill_err + unit)" where
  "renewOne e s sub =
    (if sub_product sub = None then (s, Inl BillNoProduct)
     else
       andThen (db_get s (\<lambda>d. GetProduct d (uuidOrNil (sub_product sub)))) (\<lambda>s p0.
       let p = (if \<not> pr_active p0 then p0\<lparr>pr_price := 0\<rparr> else p0);
           amount = order_price p (sub_period sub)
       in
       andThen (db_do s (\<lambda>d. EnsureCustomer d (sub_org sub) (pr_currency p))) (\<lambda>s cust.
       andThen (db_do s (\<lambda>d. IssueInvoice d (e_now e) (renewal_invoice e sub p amount cust))) (\<lambda>s bill.
       andThen (db_do s (\<lambda>d. SetSubscriptionRenewalAnchor d (sub_id sub) (sub_end sub))) (\<lambda>s _.
       let s = publish e s ''billing.renewal.invoiced'' (sub_id sub);
           pm = (case PaymentMethodRaw (bs_db s) (sub_org sub) of Inl _ \<Rightarrow> None | Inr m \<Rightarrow> Some m);
           has = (case pm of None \<Rightarrow> False | Some m \<Rightarrow> pm_token m \<noteq> []);
           method = (if has then storedMethodToken e (bs_db s) (sub_org sub) else []);
           name = (case pm of None \<Rightarrow> ''manual'' | Some m \<Rightarrow> if pm_provider m \<noteq> [] then pm_provider m else ''manual'')
       in if has \<and> method = [] then (s, Inl BillMethodUnreadable)
          else if method = [] then StartGrace e s sub
          else charge_renewal e s sub bill name method)))))"

definition sweep :: "('w bstate \<Rightarrow> subscription \<Rightarrow> 'w bstate \<times> 'r) \<Rightarrow> 'w bstate \<Rightarrow> subscription list \<Rightarrow> 'w bstate" where
  "sweep f s subs = foldl (\<lambda>s sub. fst (f s sub)) s subs"

definition RunRenewals :: "'w benv \<Rightarrow> 'w bstate \<Rightarrow> 'w bstate" where
  "RunRenewals e s =
    (let s = sweep (renewOne e) s (DueForRenewal (bs_db s) (e_now e) 100);
         s = sweep (\<lambda>s sub. BeginTerminate e s sub ''cancelled at period end'') s
               (CancelledDueForTerminate (bs_db s) (e_now e) 100);
         s = sweep (\<lambda>s sub. BeginSuspend e s sub ''grace period elapsed with unpaid renewal'') s
               (InGraceExpired (bs_db s) (e_now e) 100)
     in sweep (\<lambda>s sub. BeginTerminate e s sub ''suspended beyond the terminate window'') s
          (SuspendedDueForTerminate (bs_db s) (e_now e) (SuspendThenTerminate e) 100))"

section \<open>Paying an invoice\<close>

definition recover_renewal ::
    "'w benv \<Rightarrow> 'w bstate \<Rightarrow> invoice \<Rightarrow> 'w bstate \<times> (bill_err + invoice)" where
  "recover_renewal e s bill =
    (case (inv_kind bill = InvoiceKindRenewal, inv_sub bill) of
       (True, Some sid) \<Rightarrow>
         (case GetSubscriptionAny (bs_db s) sid of
            Inl _ \<Rightarrow> (s, Inr bill)
          | Inr sub \<Rightarrow>
              andThen (db_do s (\<lambda>d. ExtendPeriod (e_pg e) d (sub_id sub))) (\<lambda>s upd.
                (resume_if_suspended e s upd (''renewal invoice '' @ inv_number bill @ '' paid''), Inr bill)))
     | _ \<Rightarrow> (s, Inr bill))"

definition PayInvoice ::
    "'w benv \<Rightarrow> 'w bstate \<Rightarrow> uid \<Rightarrow> uid \<Rightarrow> string \<Rightarrow> string \<Rightarrow> 'w bstate \<times> (bill_err + invoice)" where
  "PayInvoice e s org i method name0 =
    andThen (db_get s (\<lambda>d. GetInvoice d org i)) (\<lambda>s bill.
      if inv_status bill \<noteq> InvoiceOpen then (s, Inl BillInvoiceState)
      else
      let name = (if name0 \<noteq> [] then name0
                  else case PaymentMethodRaw (bs_db s) org of
                         Inr pm \<Rightarrow> if pm_provider pm \<noteq> [] then pm_provider pm else ''manual''
                       | Inl _ \<Rightarrow> ''manual'')
      in
      andThen (s, ProviderFor (e_registry e) name) (\<lambda>s pv.
      let method' = (if method = [] then storedMethodToken e (bs_db s) org else method);
          event = ''invoice:'' @ e_us e (inv_id bill)
      in
      andThen (db_do s (\<lambda>d. RecordPayment d (e_now e) (invoice_payment org bill name [] event PaymentAuthorized []))) (\<lambda>s r.
        if snd r then (s, Inr bill)
        else let authz = pv_authorize pv (invoice_charge e ''invoice'' method' bill) in
          if \<not> approved authz then
            (fst (db_do s (\<lambda>d. RecordPayment d (e_now e)
               (invoice_payment org bill name [] (event @ '':failed'') PaymentFailed (declined_reason e authz)))),
             Inl (BillDeclined (declined_reason e authz)))
          else case pv_capture pv (auth_token authz) of
                 Inl err \<Rightarrow> (s, Inl (BillGateway (e_gw_text e err)))
               | Inr cap \<Rightarrow>
                   andThen (db_do s (\<lambda>d. MarkInvoicePaid d (e_now e) (inv_id bill))) (\<lambda>s _.
                     let s = fst (db_do s (\<lambda>d. RecordPayment d (e_now e)
                               (invoice_payment org bill name (cap_ref cap) (event @ '':captured'') PaymentCaptured [])));
                         bill' = (case GetInvoiceAny (bs_db s) (inv_id bill) of Inr v \<Rightarrow> v | Inl _ \<Rightarrow> bill);
                         s = publish e (audit e s ''billing.invoice_paid'' (inv_id bill') True)
                               ''billing.invoice.paid'' (uuidOrNil (inv_sub bill'))
                     in recover_renewal e s bill'))))"

definition SignWebhookBody :: "(string \<Rightarrow> string \<Rightarrow> string) \<Rightarrow> string \<Rightarrow> string \<Rightarrow> string" where
  "SignWebhookBody hmac secret body = hmac secret body"

end
