(* ===== verification/BillingFlows.thy ===== *)
theory BillingFlows
  imports BillingService
begin

text \<open>
  What the billing flows keep: every service function is a run of store statements, so the
  guarantees of the store (well-formed tables, immutable invoices, lawful subscription
  states) hold across purchases, webhooks, renewals and retries. The workload engines are
  an interface: \<open>workload_engines\<close> asks of them only that they change the billing tables
  through the store. Then the functional behaviour of the flows.
\<close>

section \<open>Flows are runs\<close>

named_theorems flow_intros "service functions as runs of the store"

lemma run_step_right: "bdb_run pg d0 d \<Longrightarrow> bdb_step pg d d' \<Longrightarrow> bdb_run pg d0 d'"
  by (blast intro: run_trans step_run)

lemma db_do_run:
  "bdb_run pg d0 (bs_db s) \<Longrightarrow> bdb_step pg (bs_db s) (fst (f (bs_db s))) \<Longrightarrow>
    bdb_run pg d0 (bs_db (fst (db_do s f)))"
  by (auto simp: db_do_def Let_def intro: run_step_right)

lemma db_get_fst [simp]: "fst (db_get s f) = s"
  by (simp add: db_get_def)

lemma db_get_eq: "db_get s f = (s', r) \<longleftrightarrow> s' = s \<and> r = f (bs_db s)"
  by (auto simp: db_get_def)

lemma audit_db [simp]: "bs_db (audit e s a i ok) = bs_db s"
  by (simp add: audit_def)

lemma publish_db [simp]: "bs_db (publish e s t i) = bs_db s"
  by (simp add: publish_def)

lemma andThen_run:
  "bdb_run pg d0 (bs_db (fst r)) \<Longrightarrow>
    (\<And>s a. r = (s, Inr a) \<Longrightarrow> bdb_run pg d0 (bs_db s) \<Longrightarrow> bdb_run pg d0 (bs_db (fst (f s a)))) \<Longrightarrow>
    bdb_run pg d0 (bs_db (fst (andThen r f)))"
  by (rule andThen_fst [where P = "\<lambda>s. bdb_run pg d0 (bs_db s)"])

lemma Transition_run [flow_intros]:
  "bdb_run pg d0 (bs_db s) \<Longrightarrow> bdb_run pg d0 (bs_db (fst (Transition e s sub to reason)))"
  by (auto simp: Transition_def Let_def intro!: andThen_run db_do_run bdb_step.intros)

lemma StartGrace_run [flow_intros]:
  "bdb_run pg d0 (bs_db s) \<Longrightarrow> bdb_run pg d0 (bs_db (fst (StartGrace e s sub)))"
  by (auto simp: StartGrace_def intro!: andThen_run db_do_run bdb_step.intros)

lemma Checkout_run [flow_intros]:
  "bdb_run pg d0 (bs_db s) \<Longrightarrow> bdb_run pg d0 (bs_db (fst (Checkout e s inp)))"
  by (auto simp: Checkout_def Let_def split: prod.splits intro!: andThen_run db_do_run bdb_step.intros)

lemma ApplyJobOutcome_run [flow_intros]:
  "bdb_run pg d0 (bs_db s) \<Longrightarrow> bdb_run pg d0 (bs_db (ApplyJobOutcome e s out))"
  by (auto simp: ApplyJobOutcome_def split: sum.splits state.splits intro!: flow_intros)

lemma dispatch_failed_run [flow_intros]:
  "bdb_run pg d0 (bs_db s) \<Longrightarrow> bdb_run pg d0 (bs_db (dispatch_failed e s sub err))"
  by (simp add: dispatch_failed_def Let_def Transition_run)

locale workload_engines =
  fixes e :: "'w benv"
  assumes provision_run:
      "e_provision e = Some f \<Longrightarrow> bdb_run (e_pg e) (bs_db s) (bs_db (fst (f s sub p)))"
    and suspend_run: "e_suspend e = Some g \<Longrightarrow> bdb_run (e_pg e) (bs_db s) (bs_db (fst (g s sub)))"
    and resume_run: "e_resume e = Some g \<Longrightarrow> bdb_run (e_pg e) (bs_db s) (bs_db (fst (g s sub)))"
    and terminate_run: "e_terminate e = Some g \<Longrightarrow> bdb_run (e_pg e) (bs_db s) (bs_db (fst (g s sub)))"
begin

lemma run_provision_run:
  "bdb_run (e_pg e) d0 (bs_db s) \<Longrightarrow> bdb_run (e_pg e) d0 (bs_db (fst (run_provision e s sub p)))"
  by (auto simp: run_provision_def split: option.splits intro: run_trans provision_run)

lemma engine_run:
  "bdb_run (e_pg e) d0 (bs_db s) \<Longrightarrow> eng \<in> {e_suspend e, e_resume e, e_terminate e} \<Longrightarrow>
    bdb_run (e_pg e) d0 (bs_db (fst (run_engine eng s sub)))"
  by (auto simp: run_engine_def split: option.splits
      intro: run_trans suspend_run [OF sym] resume_run [OF sym] terminate_run [OF sym])

lemma dispatchProvision_run:
  "bdb_run (e_pg e) d0 (bs_db s) \<Longrightarrow> bdb_run (e_pg e) d0 (bs_db (fst (dispatchProvision e s sub ord)))"
  by (auto simp: dispatchProvision_def db_get_eq intro!: andThen_run flow_intros run_provision_run)

lemma settle_order_run:
  "bdb_run (e_pg e) d0 (bs_db s) \<Longrightarrow> bdb_run (e_pg e) d0 (bs_db (fst (settle_order e s ord sub event kind ref)))"
proof -
  have disp: "bdb_run (e_pg e) d0 (bs_db (fst (case dispatchProvision e s sub ord of
           (s, Inl err) \<Rightarrow> (dispatch_failed e s sub err, Inl err) | (s, Inr _) \<Rightarrow> (s, Inr False))))"
    if "bdb_run (e_pg e) d0 (bs_db s)" for s
    using dispatchProvision_run [OF that, of sub ord]
    by (cases "dispatchProvision e s sub ord"; cases "snd (dispatchProvision e s sub ord)")
      (auto intro: dispatch_failed_run)
  assume "bdb_run (e_pg e) d0 (bs_db s)"
  then show ?thesis
    unfolding settle_order_def Let_def
    by (intro andThen_run disp db_do_run bdb_step.intros)
qed

lemma CaptureForOrder_run:
  "bdb_run (e_pg e) d0 (bs_db s) \<Longrightarrow>
    bdb_run (e_pg e) d0 (bs_db (fst (CaptureForOrder e s ord sub method event kind)))"
  unfolding CaptureForOrder_def
  by (rule andThen_run, simp, rule andThen_run)
    (auto split: sum.splits intro!: db_do_run bdb_step.intros settle_order_run)

lemma capture_records:
  assumes "ProviderFor (e_registry e) (order_provider ord) = Inr pv"
  shows "bdb_run (e_pg e) (fst (RecordPayment (bs_db s) (e_now e)
      (order_payment ord sub None [] event kind PaymentAuthorized [])))
    (bs_db (fst (CaptureForOrder e s ord sub method event kind)))"
  unfolding CaptureForOrder_def assms andThen_Inr
  by (rule andThen_run, simp add: db_do_def Let_def run_refl)
    (auto split: sum.splits intro!: db_do_run bdb_step.intros settle_order_run)

lemma PayAndActivate_run:
  "bdb_run (e_pg e) d0 (bs_db s) \<Longrightarrow>
    bdb_run (e_pg e) d0 (bs_db (fst (PayAndActivate e s inp method event)))"
proof -
  assume run: "bdb_run (e_pg e) d0 (bs_db s)"
  have cap: "bdb_run (e_pg e) d0 (bs_db (fst (case CaptureForOrder e s ord sub method event InvoiceKindPurchase of
         (s, Inl err) \<Rightarrow> (fst (db_do s (\<lambda>d. CancelOrder d (ci_org inp) (order_id ord))), Inl err)
       | (s, Inr replayed) \<Rightarrow>
           andThen (db_get s (\<lambda>d. GetOrderAny d (order_id ord))) (\<lambda>s ord'.
           andThen (db_get s (\<lambda>d. GetSubscriptionAny d (sub_id sub))) (\<lambda>s sub'.
             (s, Inr (ord', sub', replayed)))))))"
    if "bdb_run (e_pg e) d0 (bs_db s)" for s ord sub
    using CaptureForOrder_run [OF that, of ord sub "method" "event" InvoiceKindPurchase]
    by (cases "CaptureForOrder e s ord sub method event InvoiceKindPurchase";
        cases "snd (CaptureForOrder e s ord sub method event InvoiceKindPurchase)")
      (auto simp: db_get_eq intro!: db_do_run bdb_step.intros andThen_run)
  show ?thesis
    unfolding PayAndActivate_def
    by (rule andThen_run) (use run cap in \<open>auto split: prod.splits intro!: flow_intros\<close>)
qed

lemma HandleWebhook_run:
  "bdb_run (e_pg e) d0 (bs_db s) \<Longrightarrow>
    bdb_run (e_pg e) d0 (bs_db (fst (HandleWebhook e s name secret header body)))"
  unfolding HandleWebhook_def Let_def
  by (rule andThen_run)
    (auto simp: db_get_eq split: sum.splits option.splits
      intro!: andThen_run db_do_run bdb_step.intros CaptureForOrder_run)

lemma BeginSuspend_run:
  "bdb_run (e_pg e) d0 (bs_db s) \<Longrightarrow> bdb_run (e_pg e) d0 (bs_db (fst (BeginSuspend e s sub reason)))"
  by (auto simp: BeginSuspend_def intro!: andThen_run flow_intros engine_run)

lemma BeginTerminate_run:
  "bdb_run (e_pg e) d0 (bs_db s) \<Longrightarrow> bdb_run (e_pg e) d0 (bs_db (fst (BeginTerminate e s sub reason)))"
  by (auto simp: BeginTerminate_def intro!: andThen_run flow_intros engine_run)

lemma ResumeBilling_run:
  "bdb_run (e_pg e) d0 (bs_db s) \<Longrightarrow> bdb_run (e_pg e) d0 (bs_db (fst (ResumeBilling e s sub reason)))"
  unfolding ResumeBilling_def Let_def
  by (rule andThen_run)
    (auto simp: db_get_eq split: option.splits bool.splits
      intro!: andThen_run flow_intros intro: run_trans resume_run)

lemma resume_if_run:
  "bdb_run (e_pg e) d0 (bs_db s) \<Longrightarrow> bdb_run (e_pg e) d0 (bs_db (resume_if_suspended e s sub reason))"
  by (simp add: resume_if_suspended_def ResumeBilling_run)

lemma ManualRetry_run:
  "bdb_run (e_pg e) d0 (bs_db s) \<Longrightarrow> bdb_run (e_pg e) d0 (bs_db (fst (ManualRetry e s sub)))"
  by (auto simp: ManualRetry_def db_get_eq
      intro!: BeginTerminate_run BeginSuspend_run andThen_run flow_intros run_provision_run)

lemma extend_paid_run:
  "bdb_run (e_pg e) d0 (bs_db s) \<Longrightarrow> bdb_run (e_pg e) d0 (bs_db (fst (extend_paid e s sub bill name event ref)))"
  unfolding extend_paid_def Let_def
  by (intro andThen_run) (auto intro!: db_do_run bdb_step.intros resume_if_run)

lemma charge_renewal_run:
  "bdb_run (e_pg e) d0 (bs_db s) \<Longrightarrow> bdb_run (e_pg e) d0 (bs_db (fst (charge_renewal e s sub bill name method)))"
  unfolding charge_renewal_def Let_def
  by (rule andThen_run, simp, rule andThen_run)
    (auto split: sum.splits intro!: db_do_run bdb_step.intros flow_intros extend_paid_run)

lemma renewOne_run:
  "bdb_run (e_pg e) d0 (bs_db s) \<Longrightarrow> bdb_run (e_pg e) d0 (bs_db (fst (renewOne e s sub)))"
  unfolding renewOne_def Let_def
  by (auto simp: db_get_eq intro!: andThen_run db_do_run bdb_step.intros flow_intros charge_renewal_run)

lemma sweep_run:
  assumes "\<And>s sub. bdb_run (e_pg e) d0 (bs_db s) \<Longrightarrow> bdb_run (e_pg e) d0 (bs_db (fst (f s sub)))"
  shows "bdb_run (e_pg e) d0 (bs_db s) \<Longrightarrow> bdb_run (e_pg e) d0 (bs_db (sweep f s subs))"
  by (induction subs arbitrary: s) (simp_all add: sweep_def assms)

lemma RunRenewals_run:
  "bdb_run (e_pg e) d0 (bs_db s) \<Longrightarrow> bdb_run (e_pg e) d0 (bs_db (RunRenewals e s))"
  unfolding RunRenewals_def Let_def
  by (intro sweep_run renewOne_run BeginTerminate_run BeginSuspend_run)

lemma recover_renewal_run:
  "bdb_run (e_pg e) d0 (bs_db s) \<Longrightarrow> bdb_run (e_pg e) d0 (bs_db (fst (recover_renewal e s bill)))"
  unfolding recover_renewal_def
  by (auto split: option.splits bool.splits sum.splits intro!: andThen_run db_do_run bdb_step.intros resume_if_run)

lemma PayInvoice_run:
  "bdb_run (e_pg e) d0 (bs_db s) \<Longrightarrow> bdb_run (e_pg e) d0 (bs_db (fst (PayInvoice e s org i method name)))"
  unfolding PayInvoice_def Let_def
  by (rule andThen_run, simp, auto simp: db_get_eq split: sum.splits
      intro!: andThen_run db_do_run bdb_step.intros recover_renewal_run)

end

section \<open>Recording payments\<close>

lemma db_do_eq: "db_do s f = (s\<lparr>bs_db := fst (f (bs_db s))\<rparr>, snd (f (bs_db s)))"
  by (simp add: db_do_def Let_def)

lemma bstate_same [simp]: "s\<lparr>bs_db := bs_db s\<rparr> = s"
  by simp

definition event_known :: "bdb \<Rightarrow> string \<Rightarrow> string \<Rightarrow> bool" where
  "event_known d name event \<longleftrightarrow> list_ex (same_event name event) (b_payments d)"

lemma RecordPayment_replay:
  assumes "event_known d (pi_provider inp) (pi_event inp)" and "pi_event inp \<noteq> []"
    and "Validate (pi_amount inp) = None"
  shows "\<exists>p. RecordPayment d now inp = (d, Inr (p, True))"
proof -
  obtain p where "p \<in> set (b_payments d)" "same_event (pi_provider inp) (pi_event inp) p"
    using assms(1) by (auto simp: event_known_def list_ex_iff)
  then obtain q where "paymentByEvent d (pi_provider inp) (pi_event inp) = Inr q"
    by (cases "select_one (same_event (pi_provider inp) (pi_event inp)) (b_payments d)")
      (auto simp: paymentByEvent_def select_one_def find_None_iff)
  with assms show ?thesis
    by (auto simp: RecordPayment_def event_known_def Validate_def split: if_splits)
qed

lemma RecordPayment_fresh:
  assumes "RecordPayment d now inp = (d', Inr (p, False))"
  shows "event_known d' (pi_provider inp) (pi_event inp) \<and> b_orders d' = b_orders d
    \<and> b_invoices d' = b_invoices d \<and> b_subs d' = b_subs d \<and> b_customers d' = b_customers d"
  using assms
  by (auto simp: RecordPayment_def Let_def event_known_def new_payment_def same_event_def
      split: if_splits sum.splits)

lemma RecordPayment_others [frame_simps]:
  "b_orders (fst (RecordPayment d now inp)) = b_orders d"
  "b_invoices (fst (RecordPayment d now inp)) = b_invoices d"
  "b_subs (fst (RecordPayment d now inp)) = b_subs d"
  "b_customers (fst (RecordPayment d now inp)) = b_customers d"
  by (simp_all add: RecordPayment_def Let_def split: sum.splits)

lemma event_known_kept: "event_known d name ev \<Longrightarrow> event_known (fst (RecordPayment d now inp)) name ev"
  by (auto simp: RecordPayment_def Let_def event_known_def split: sum.splits)

lemma RecordPayment_valid:
  "RecordPayment d now inp = (d', Inr r) \<Longrightarrow> Validate (pi_amount inp) = None"
  by (auto simp: RecordPayment_def Validate_def split: if_splits)

lemma capture_replay:
  assumes "ProviderFor (e_registry e) (order_provider ord) = Inr pv" and "event \<noteq> []"
    and "event_known (bs_db s) (order_provider ord) event" and "Validate (order_money ord) = None"
  shows "CaptureForOrder e s ord sub method event kind = (s, Inr True)"
  using assms RecordPayment_replay [of "bs_db s" "order_payment ord sub None [] event kind PaymentAuthorized []" "e_now e"]
  by (auto simp: CaptureForOrder_def db_do_eq order_payment_def)

lemma RecordPayment_knows:
  assumes "Validate (pi_amount inp) = None" and "pi_event inp \<noteq> []"
  shows "event_known (fst (RecordPayment d now inp)) (pi_provider inp) (pi_event inp)"
  using assms
  by (auto simp: RecordPayment_def Validate_def event_known_def Let_def new_payment_def same_event_def
      split: if_splits sum.splits)

text \<open>Payment rows are only ever appended, so an event once known stays known.\<close>

lemma step_payments: "bdb_step pg d d' \<Longrightarrow> \<exists>new. b_payments d' = b_payments d @ new"
  by (induction rule: bdb_step.induct)
    (auto simp: EnsureCustomer_def SetPaymentMethod_def CreateOrderWithSubscription_def createSubscription_def
      MarkOrderPaid_def CancelOrder_def RecordPayment_def IssueInvoice_def nextInvoiceNumber_def
      MarkInvoicePaid_def VoidInvoice_def UpdateSubscriptionState_def SetSubscriptionWorkload_def set_sub_def
      SetSubscriptionJob_def ExtendPeriod_def SetSubscriptionGrace_def SetSubscriptionRenewalAnchor_def
      SetSubscriptionCancelFlag_def CreateProduct_def UpdateProduct_def Let_def split: option.splits sum.splits)

lemma event_known_run: "bdb_run pg d d' \<Longrightarrow> event_known d name ev \<Longrightarrow> event_known d' name ev"
  unfolding bdb_run_def
  by (induction rule: rtranclp_induct) (auto simp: event_known_def dest!: step_payments)

end
