(* ===== verification/BillingProperties.thy ===== *)
theory BillingProperties
  imports BillingFlows
begin

text \<open>
  What the billing flows do: a captured payment settles its order, a gateway event is
  processed once, webhooks act only when they verify, prices are exact, a period is
  invoiced once; and the flaws of the retry paths, stated as the code has them.
\<close>

section \<open>A sample environment\<close>

text \<open>The panel with its two gateways and no workload engine but an instant provisioner.\<close>

definition demo_env :: "unit benv" where
  "demo_env = \<lparr>e_now = 0, e_registry = default_registry (\<lambda>s. s) (\<lambda>k b. k @ b) (\<lambda>b. None),
     e_settings = None, e_audit = True, e_events = True, e_pg = (\<lambda>p t. AddPeriod t p), e_us = nat_str,
     e_parse = (\<lambda>s. None), e_open = (\<lambda>t. Some t), e_text = (\<lambda>x. ''error''), e_gw_text = (\<lambda>x. ''error''),
     e_webhook_key = [], e_provision = Some (\<lambda>s sub p. (s, Inr ())), e_suspend = None, e_resume = None,
     e_terminate = None\<rparr>"

definition demo_product :: product where
  "demo_product = \<lparr>pr_id = 9, pr_name = ''Basic'', pr_type = ''hosting'', pr_desc = [], pr_plan = None,
     pr_price = 500, pr_currency = ''USD'', pr_active = True, pr_config = ''{}''\<rparr>"

definition demo_state :: "unit bstate" where
  "demo_state = \<lparr>bs_db = empty_bdb\<lparr>b_products := [demo_product], b_next := 10\<rparr>, bs_log = [], bs_world = ()\<rparr>"

definition demo_purchase :: checkout_input where
  "demo_purchase = \<lparr>ci_org = 4, ci_product = 9, ci_period = PeriodMonthly, ci_provider = ''fake''\<rparr>"

definition demo_ordered :: "unit bstate" where
  "demo_ordered = fst (Checkout demo_env demo_state demo_purchase)"

definition demo_order :: order where
  "demo_order = hd (b_orders (bs_db demo_ordered))"

definition demo_sub :: subscription where
  "demo_sub = hd (b_subs (bs_db demo_ordered))"

lemma demo_engines: "workload_engines demo_env"
  by unfold_locales (auto simp: demo_env_def run_refl)

lemma demo_state_ok: "bdb_ok (bs_db demo_state)"
  by (simp add: demo_state_def empty_bdb_def bdb_ok_def fresh_keys_def event_keys_def)

lemma demo_ok: "bdb_ok (bs_db demo_ordered)"
proof -
  have "bdb_run (e_pg demo_env) (bs_db demo_state) (bs_db demo_ordered)"
    unfolding demo_ordered_def by (rule Checkout_run [OF run_refl])
  then show ?thesis using demo_state_ok by (rule run_ok)
qed

section \<open>Purchase\<close>

text \<open>C9: A gateway event is processed once. Whatever the first processing of an event
  ended in (a capture, a refusal, an error of the gateway, a failed provisioning), a second
  one reports a replay and changes nothing at all: no charge, no invoice, no provisioning,
  no log entry, whatever method and kind it comes with.\<close>

theorem capture_once:
  assumes "workload_engines e" and "ProviderFor (e_registry e) (order_provider ord) = Inr pv"
    and "Validate (order_money ord) = None" and "event \<noteq> []"
    and "s1 = fst (CaptureForOrder e s ord sub method event kind)"
  shows "CaptureForOrder e s1 ord sub method' event kind' = (s1, Inr True)"
proof (rule capture_replay [OF assms(2,4) _ assms(3)])
  let ?inp = "order_payment ord sub None [] event kind PaymentAuthorized []"
  have "event_known (fst (RecordPayment (bs_db s) (e_now e) ?inp)) (order_provider ord) event"
    using RecordPayment_knows [of ?inp] assms(3,4) by (simp add: order_payment_def)
  then show "event_known (bs_db s1) (order_provider ord) event"
    unfolding assms(5) by (rule event_known_run [OF workload_engines.capture_records [OF assms(1,2)]])
qed

lemma capture_once_witness:
  "let s1 = fst (CaptureForOrder demo_env demo_ordered demo_order demo_sub ''card'' ''e1'' InvoiceKindPurchase)
   in CaptureForOrder demo_env s1 demo_order demo_sub ''card'' ''e1'' InvoiceKindPurchase = (s1, Inr True)"
proof -
  have "\<not> isl (ProviderFor (e_registry demo_env) (order_provider demo_order))" by code_simp
  then obtain pv where pv: "ProviderFor (e_registry demo_env) (order_provider demo_order) = Inr pv"
    by (cases "ProviderFor (e_registry demo_env) (order_provider demo_order)") auto
  have valid: "Validate (order_money demo_order) = None" by code_simp
  show ?thesis unfolding Let_def
    using capture_once [OF demo_engines pv valid _ refl, of "''e1''"] by simp
qed

text \<open>The statements of a settlement, one by one.\<close>

lemma EnsureCustomer_keeps [frame_simps]:
  "b_orders (fst (EnsureCustomer d org cur)) = b_orders d"
  "b_invoices (fst (EnsureCustomer d org cur)) = b_invoices d"
  "b_subs (fst (EnsureCustomer d org cur)) = b_subs d"
  "b_payments (fst (EnsureCustomer d org cur)) = b_payments d"
  by (simp_all add: EnsureCustomer_def Let_def split: option.splits)

lemma IssueInvoice_keeps [frame_simps]:
  "b_orders (fst (IssueInvoice d now ii)) = b_orders d"
  "b_subs (fst (IssueInvoice d now ii)) = b_subs d"
  "b_payments (fst (IssueInvoice d now ii)) = b_payments d"
  by (auto simp: IssueInvoice_def nextInvoiceNumber_def Let_def)

lemma MarkInvoicePaid_keeps [frame_simps]:
  "b_orders (fst (MarkInvoicePaid d now i)) = b_orders d"
  "b_subs (fst (MarkInvoicePaid d now i)) = b_subs d"
  "b_payments (fst (MarkInvoicePaid d now i)) = b_payments d"
  by (simp_all add: MarkInvoicePaid_def)

lemma MarkOrderPaid_keeps [frame_simps]:
  "b_invoices (fst (MarkOrderPaid d now i ref)) = b_invoices d"
  "b_subs (fst (MarkOrderPaid d now i ref)) = b_subs d"
  "b_payments (fst (MarkOrderPaid d now i ref)) = b_payments d"
  by (simp_all add: MarkOrderPaid_def Let_def)

lemma IssueInvoice_row:
  assumes "IssueInvoice d now ii = (d', Inr bill)" and "bdb_ok d"
  shows "by_key inv_id (inv_id bill) (b_invoices d') = Some bill
    \<and> by_key inv_id (inv_id bill) (b_invoices d) = None \<and> inv_status bill = InvoiceOpen
    \<and> inv_total bill = ii_subtotal ii + ii_tax ii \<and> inv_sub bill = ii_sub ii \<and> inv_kind bill = ii_kind ii"
proof -
  have "by_key inv_id (b_next d) (b_invoices d) = None"
    using assms(2) by (auto simp: bdb_ok_def fresh_keys_def list_all_iff by_key_None_iff)
  then show ?thesis
    using assms(1)
    by (auto simp: IssueInvoice_def nextInvoiceNumber_def Let_def new_invoice_def by_key_append split: if_splits)
qed

lemma MarkInvoicePaid_row:
  assumes "by_key inv_id i (b_invoices d) = Some v" and "inv_status v = InvoiceOpen"
  shows "by_key inv_id i (b_invoices (fst (MarkInvoicePaid d now i))) = Some (invoice_paid_row now v)"
  using ip.flip_hit [OF assms] ip.affected_pos [OF assms] by (simp add: MarkInvoicePaid_def)

lemma MarkOrderPaid_row:
  assumes "MarkOrderPaid d now i ref = (d', Inr ())" and "bdb_ok d" and "by_key order_id i (b_orders d) = Some r"
  shows "order_status r = OrderPending \<and> by_key order_id i (b_orders d') = Some (order_paid_row ref now r)"
proof -
  have "distinct (map order_id (b_orders d))" using assms(2) by (simp add: bdb_ok_def fresh_keys_def)
  then have "order_status r = OrderPending"
    using assms(1,3) op.affected_zero_distinct [of "b_orders d" i r] by (auto simp: MarkOrderPaid_def Let_def split: if_splits)
  then show ?thesis
    using assms(1,3) op.flip_hit [of i "b_orders d" r] by (auto simp: MarkOrderPaid_def Let_def split: if_splits)
qed

text \<open>The books of an order after its payment: the order is paid at its amount, and there is a
  new paid invoice over exactly that amount.\<close>

definition settled :: "order \<Rightarrow> uid option \<Rightarrow> invoice_kind \<Rightarrow> bdb \<Rightarrow> bdb \<Rightarrow> bool" where
  "settled ord sid kind d d' \<longleftrightarrow>
    (\<exists>o'. by_key order_id (order_id ord) (b_orders d') = Some o' \<and> order_status o' = OrderPaid
      \<and> order_amount o' = order_amount ord)
    \<and> (\<exists>i v. by_key inv_id i (b_invoices d') = Some v \<and> by_key inv_id i (b_invoices d) = None
      \<and> inv_status v = InvoicePaid \<and> inv_total v = order_amount ord \<and> inv_sub v = sid \<and> inv_kind v = kind)"

lemma settledI:
  assumes "by_key order_id (order_id ord) (b_orders d') = Some r" and "order_status r = OrderPaid"
    and "order_amount r = order_amount ord" and "by_key inv_id i (b_invoices d') = Some v"
    and "by_key inv_id i (b_invoices d) = None" and "inv_status v = InvoicePaid"
    and "inv_total v = order_amount ord" and "inv_sub v = sid" and "inv_kind v = kind"
  shows "settled ord sid kind d d'"
  using assms unfolding settled_def by blast

lemma settled_hist:
  assumes "settled ord sid kind d d'" and hist: "bdb_hist d' d''"
  shows "settled ord sid kind d d''"
proof -
  from assms(1) obtain o1 i v where *: "by_key order_id (order_id ord) (b_orders d') = Some o1"
      "order_status o1 = OrderPaid" "order_amount o1 = order_amount ord"
      "by_key inv_id i (b_invoices d') = Some v" "by_key inv_id i (b_invoices d) = None"
      "inv_status v = InvoicePaid" "inv_total v = order_amount ord" "inv_sub v = sid" "inv_kind v = kind"
    unfolding settled_def by blast
  from hist *(1) obtain o2 where o2: "by_key order_id (order_id ord) (b_orders d'') = Some o2" "order_hist o1 o2"
    by (auto simp: bdb_hist_def dest: growsD)
  from hist *(4) obtain v2 where v2: "by_key inv_id i (b_invoices d'') = Some v2" "invoice_hist v v2"
    by (auto simp: bdb_hist_def dest: growsD)
  show ?thesis
    by (rule settledI [OF o2(1) _ _ v2(1) *(5)]) (use * o2(2) v2(2) in \<open>simp_all add: order_hist_def invoice_hist_def\<close>)
qed

lemma andThenE:
  assumes "andThen r f = (s', Inr b)"
  obtains s a where "r = (s, Inr a)" and "f s a = (s', Inr b)"
  using assms andThen_InrD by metis

lemma db_doE:
  assumes "db_do s f = (s', r)"
  obtains d' where "f (bs_db s) = (d', r)" and "s' = s\<lparr>bs_db := d'\<rparr>"
  using assms by (cases "f (bs_db s)") (auto simp: db_do_eq)

lemma settle_books:
  assumes ok: "bdb_ok (bs_db s)" and ord: "by_key order_id (order_id ord) (b_orders (bs_db s)) = Some ord"
    and "settle_order e s ord sub event kind ref = (s', Inr b)"
  shows "order_status ord = OrderPending \<and> \<not> b
    \<and> (\<exists>s5. settled ord (Some (sub_id sub)) kind (bs_db s) (bs_db s5) \<and> dispatchProvision e s5 sub ord = (s', Inr ()))"
proof -
  have "\<exists>d1 cust d2 bill d5. EnsureCustomer (bs_db s) (order_org ord) (order_currency ord) = (d1, Inr cust)
      \<and> IssueInvoice d1 (e_now e) (order_invoice e ord sub cust kind) = (d2, Inr bill)
      \<and> MarkOrderPaid (fst (RecordPayment (fst (MarkInvoicePaid d2 (e_now e) (inv_id bill))) (e_now e)
          (order_payment ord sub (Some (inv_id bill)) ref (event @ '':captured'') kind PaymentCaptured [])))
          (e_now e) (order_id ord) ref = (d5, Inr ())
      \<and> (case dispatchProvision e (s\<lparr>bs_db := d5\<rparr>) sub ord of
           (s, Inl err) \<Rightarrow> (dispatch_failed e s sub err, Inl err)
         | (s, Inr _) \<Rightarrow> (s, Inr False)) = (s', Inr b)"
    using assms(3) unfolding settle_order_def Let_def by (elim andThenE db_doE) (auto simp: db_do_eq)
  then obtain d1 cust d2 bill d5 where c: "EnsureCustomer (bs_db s) (order_org ord) (order_currency ord) = (d1, Inr cust)"
    and i: "IssueInvoice d1 (e_now e) (order_invoice e ord sub cust kind) = (d2, Inr bill)"
    and m0: "MarkOrderPaid (fst (RecordPayment (fst (MarkInvoicePaid d2 (e_now e) (inv_id bill))) (e_now e)
          (order_payment ord sub (Some (inv_id bill)) ref (event @ '':captured'') kind PaymentCaptured [])))
          (e_now e) (order_id ord) ref = (d5, Inr ())"
    and disp: "(case dispatchProvision e (s\<lparr>bs_db := d5\<rparr>) sub ord of
           (s, Inl err) \<Rightarrow> (dispatch_failed e s sub err, Inl err)
         | (s, Inr _) \<Rightarrow> (s, Inr False)) = (s', Inr b)" by blast
  define d4 where "d4 = fst (RecordPayment (fst (MarkInvoicePaid d2 (e_now e) (inv_id bill))) (e_now e)
    (order_payment ord sub (Some (inv_id bill)) ref (event @ '':captured'') kind PaymentCaptured []))"
  note m = m0 [folded d4_def]
  have d1: "d1 = fst (EnsureCustomer (bs_db s) (order_org ord) (order_currency ord))" and ok1: "bdb_ok d1"
    using c ok step_ok [OF b_customer] by (metis fst_conv)+
  have d2: "d2 = fst (IssueInvoice d1 (e_now e) (order_invoice e ord sub cust kind))" and ok2: "bdb_ok d2"
    using i ok1 step_ok [OF b_issue] by (metis fst_conv)+
  have ok4: "bdb_ok d4" unfolding d4_def using ok2 by (intro step_ok [OF b_payment] step_ok [OF b_settle])
  have orders4: "b_orders d4 = b_orders (bs_db s)" by (simp add: d4_def d2 d1 frame_simps)
  have bill: "by_key inv_id (inv_id bill) (b_invoices d2) = Some bill"
      "by_key inv_id (inv_id bill) (b_invoices (bs_db s)) = None" "inv_status bill = InvoiceOpen"
      "inv_total bill = order_amount ord" "inv_sub bill = Some (sub_id sub)" "inv_kind bill = kind"
    using IssueInvoice_row [OF i ok1] by (simp_all add: order_invoice_def d1 frame_simps)
  have d5: "d5 = fst (MarkOrderPaid d4 (e_now e) (order_id ord) ref)" by (simp add: m)
  have paid: "by_key inv_id (inv_id bill) (b_invoices d5) = Some (invoice_paid_row (e_now e) bill)"
    using MarkInvoicePaid_row [OF bill(1,3)] by (simp add: d5 frame_simps d4_def)
  have order5: "order_status ord = OrderPending \<and> by_key order_id (order_id ord) (b_orders d5) = Some (order_paid_row ref (e_now e) ord)"
    using MarkOrderPaid_row [OF m ok4] ord by (simp add: orders4)
  have "settled ord (Some (sub_id sub)) kind (bs_db s) d5"
    by (rule settledI [OF conjunct2 [OF order5] _ _ paid bill(2)])
      (simp_all add: order_paid_row_def invoice_paid_row_def bill)
  moreover have "dispatchProvision e (s\<lparr>bs_db := d5\<rparr>) sub ord = (s', Inr ()) \<and> \<not> b"
    using disp by (cases "dispatchProvision e (s\<lparr>bs_db := d5\<rparr>) sub ord";
        cases "snd (dispatchProvision e (s\<lparr>bs_db := d5\<rparr>) sub ord)") auto
  ultimately show ?thesis using order5 by (intro conjI exI [of _ "s\<lparr>bs_db := d5\<rparr>"]) auto
qed


lemma Transition_legal:
  assumes "by_key sub_id (sub_id sub) (b_subs (bs_db s)) = Some sub" and "CanTransition (sub_state sub) to"
    and "sub_state sub \<noteq> to"
  shows "\<exists>s' row. Transition e s sub to reason = (s', Inr (True, row))
    \<and> by_key sub_id (sub_id sub) (b_subs (bs_db s')) = Some row \<and> row = transition_row (e_now e) to
        \<lparr>to_grace = None, to_clear = (to = StateActive \<or> to = StateTerminated),
         to_error = (if reason \<noteq> [] then reason else sub_error sub)\<rparr> sub
    \<and> bs_world s' = bs_world s \<and> b_orders (bs_db s') = b_orders (bs_db s)
    \<and> b_products (bs_db s') = b_products (bs_db s) \<and> b_invoices (bs_db s') = b_invoices (bs_db s)"
  using assms st.flip_hit [OF assms(1) refl] st.affected_pos [OF assms(1) refl]
  by (simp add: Transition_def Let_def db_do_eq UpdateSubscriptionState_def GetSubscriptionAny_def publish_def audit_def)

lemma EnsureCustomer_row:
  assumes "ValidateCurrency cur"
  shows "\<exists>d' c. EnsureCustomer d org cur = (d', Inr c) \<and> by_key cust_id (cust_id c) (b_customers d') \<noteq> None"
  using assms
  by (auto simp: EnsureCustomer_def Let_def by_key_None_iff split: option.splits dest!: by_key_Some)


lemma IssueInvoice_succeeds:
  assumes "ValidateCurrency (ii_currency ii)" and "ValidateMinorUnit (ii_subtotal ii)" and "ii_tax ii = 0"
    and "by_key cust_id (ii_customer ii) (b_customers d) \<noteq> None"
  shows "\<exists>d' bill. IssueInvoice d now ii = (d', Inr bill)"
  using assms by (auto simp: IssueInvoice_def nextInvoiceNumber_def Let_def new_invoice_def ValidateMinorUnit_def)

lemma RecordPayment_keeps_products [frame_simps]: "b_products (fst (RecordPayment d now inp)) = b_products d"
  by (simp add: RecordPayment_def Let_def split: sum.splits)

lemma EnsureCustomer_keeps_products [frame_simps]: "b_products (fst (EnsureCustomer d org cur)) = b_products d"
  by (simp add: EnsureCustomer_def Let_def split: option.splits)

lemma IssueInvoice_keeps_products [frame_simps]: "b_products (fst (IssueInvoice d now ii)) = b_products d"
  by (auto simp: IssueInvoice_def nextInvoiceNumber_def Let_def)

lemma MarkInvoicePaid_keeps_products [frame_simps]: "b_products (fst (MarkInvoicePaid d now i)) = b_products d"
  by (simp add: MarkInvoicePaid_def)

lemma MarkOrderPaid_keeps_products [frame_simps]: "b_products (fst (MarkOrderPaid d now i ref)) = b_products d"
  by (simp add: MarkOrderPaid_def Let_def)

lemma dispatch_succeeds:
  assumes "by_key sub_id (sub_id sub) (b_subs (bs_db s)) = Some sub" and "sub_state sub = StatePending"
    and "sub_product sub = Some pid" and "by_key pr_id pid (b_products (bs_db s)) = Some p"
    and "e_provision e = Some f" and "\<And>s sub p. \<exists>s'. f s sub p = (s', Inr ())"
  shows "\<exists>s'. dispatchProvision e s sub ord = (s', Inr ())"
proof -
  define why where "why = ''payment captured (order '' @ e_us e (order_id ord) @ '')''"
  have edge: "CanTransition StatePending StateProvisioning" by code_simp
  obtain s1 row where t: "Transition e s sub StateProvisioning why = (s1, Inr (True, row))"
    and row: "by_key sub_id (sub_id sub) (b_subs (bs_db s1)) = Some row"
      "b_products (bs_db s1) = b_products (bs_db s)" "sub_product row = Some pid"
    using Transition_legal [OF assms(1), of StateProvisioning e why] assms(2,3) edge
    by (auto simp: transition_row_def)
  obtain s2 where "f s1 row p = (s2, Inr ())" using assms(6) by blast
  then show ?thesis
    unfolding dispatchProvision_def why_def [symmetric] using t row assms(4,5)
    by (auto simp: db_get_def GetSubscriptionAny_def GetProduct_def uuidOrNil_def run_provision_def)
qed

lemma settle_succeeds:
  assumes ok: "bdb_ok (bs_db s)" and ord: "by_key order_id (order_id ord) (b_orders (bs_db s)) = Some ord"
    and pending: "order_status ord = OrderPending" and money: "Validate (order_money ord) = None"
    and disp: "\<And>s'. b_subs (bs_db s') = b_subs (bs_db s) \<Longrightarrow> b_products (bs_db s') = b_products (bs_db s) \<Longrightarrow>
      \<exists>s''. dispatchProvision e s' sub ord = (s'', Inr ())"
  shows "\<exists>s'. settle_order e s ord sub event kind ref = (s', Inr False)"
proof -
  have cur: "ValidateCurrency (order_currency ord)" and amt: "ValidateMinorUnit (order_amount ord)"
    using money by (auto simp: Validate_def order_money_def split: if_splits)
  obtain d1 cust where c: "EnsureCustomer (bs_db s) (order_org ord) (order_currency ord) = (d1, Inr cust)"
    and cust: "by_key cust_id (cust_id cust) (b_customers d1) \<noteq> None" using EnsureCustomer_row [OF cur] by blast
  obtain d2 bill where i: "IssueInvoice d1 (e_now e) (order_invoice e ord sub cust kind) = (d2, Inr bill)"
  proof -
    let ?ii = "order_invoice e ord sub cust kind"
    have "ValidateCurrency (ii_currency ?ii)" "ValidateMinorUnit (ii_subtotal ?ii)" "ii_tax ?ii = 0"
      "by_key cust_id (ii_customer ?ii) (b_customers d1) \<noteq> None"
      using cur amt cust by (simp_all add: order_invoice_def)
    from IssueInvoice_succeeds [OF this, of "e_now e"] that show ?thesis by blast
  qed
  define d4 where "d4 = fst (RecordPayment (fst (MarkInvoicePaid d2 (e_now e) (inv_id bill))) (e_now e)
    (order_payment ord sub (Some (inv_id bill)) ref (event @ '':captured'') kind PaymentCaptured []))"
  have d1: "d1 = fst (EnsureCustomer (bs_db s) (order_org ord) (order_currency ord))"
    and d2: "d2 = fst (IssueInvoice d1 (e_now e) (order_invoice e ord sub cust kind))" by (simp_all add: c i)
  have same: "b_orders d4 = b_orders (bs_db s)" "b_subs d4 = b_subs (bs_db s)" "b_products d4 = b_products (bs_db s)"
    by (simp_all add: d4_def d2 d1 frame_simps)
  have "rows_affected (flip_guard order_id order_status (\<lambda>st. st = OrderPending) (order_id ord)) (b_orders d4) \<noteq> 0"
    using op.affected_pos [of "order_id ord" "b_orders d4" ord] ord pending same by simp
  then obtain d5 where m: "MarkOrderPaid d4 (e_now e) (order_id ord) ref = (d5, Inr ())"
    by (simp add: MarkOrderPaid_def Let_def)
  then have "d5 = fst (MarkOrderPaid d4 (e_now e) (order_id ord) ref)" by simp
  then have "b_subs d5 = b_subs (bs_db s)" "b_products d5 = b_products (bs_db s)" by (simp_all add: frame_simps same)
  then obtain s6 where "dispatchProvision e (s\<lparr>bs_db := d5\<rparr>) sub ord = (s6, Inr ())"
    using disp [of "s\<lparr>bs_db := d5\<rparr>"] by auto
  then show ?thesis using c i m by (simp add: settle_order_def db_do_eq d4_def)
qed

text \<open>An approved charge goes through: for a pending order with a stored pending
  subscription and product, a fresh event, a gateway that approves and captures, and a
  provisioning engine that accepts, processing the event succeeds, the order is paid and
  there is a new paid invoice over exactly the amount of the order.\<close>

theorem approved_charge_settles:
  assumes "bdb_ok (bs_db s)" and "by_key order_id (order_id ord) (b_orders (bs_db s)) = Some ord"
    and "order_status ord = OrderPending" and "Validate (order_money ord) = None"
    and "by_key sub_id (sub_id sub) (b_subs (bs_db s)) = Some sub" and "sub_state sub = StatePending"
    and "sub_product sub = Some pid" and "by_key pr_id pid (b_products (bs_db s)) = Some p"
    and "ProviderFor (e_registry e) (order_provider ord) = Inr pv"
    and "pv_authorize pv (order_charge e ord method) = Inr a" and "\<not> auth_declined a"
    and "pv_capture pv (auth_ref a) = Inr cap"
    and "event \<noteq> []" and "\<not> event_known (bs_db s) (order_provider ord) event"
    and "workload_engines e" and "e_provision e = Some f" and "\<And>s sub p. \<exists>s'. f s sub p = (s', Inr ())"
  shows "\<exists>s'. CaptureForOrder e s ord sub method event kind = (s', Inr False)
    \<and> settled ord (Some (sub_id sub)) kind (bs_db s) (bs_db s')"
proof -
  let ?inp = "order_payment ord sub None [] event kind PaymentAuthorized []"
  obtain d1 pay where r: "RecordPayment (bs_db s) (e_now e) ?inp = (d1, Inr (pay, False))"
    using assms(4,14) by (auto simp: RecordPayment_def order_payment_def event_known_def Validate_def Let_def split: if_splits)
  have d1: "d1 = fst (RecordPayment (bs_db s) (e_now e) ?inp)" by (simp add: r)
  let ?s1 = "s\<lparr>bs_db := d1\<rparr>"
  have ok1: "bdb_ok (bs_db ?s1)" using step_ok [OF b_payment assms(1)] by (simp add: d1)
  have ord1: "by_key order_id (order_id ord) (b_orders (bs_db ?s1)) = Some ord"
    using assms(2) by (simp add: d1 frame_simps)
  have same: "b_subs d1 = b_subs (bs_db s)" "b_products d1 = b_products (bs_db s)" "b_invoices d1 = b_invoices (bs_db s)"
    by (simp_all add: d1 frame_simps)
  have disp: "\<exists>s''. dispatchProvision e s' sub ord = (s'', Inr ())"
    if "b_subs (bs_db s') = b_subs (bs_db ?s1)" "b_products (bs_db s') = b_products (bs_db ?s1)" for s'
    using assms that same by (intro dispatch_succeeds [OF _ assms(6,7) _ assms(16,17)]) auto
  obtain s' where s': "settle_order e ?s1 ord sub event kind (cap_ref cap) = (s', Inr False)"
    using settle_succeeds [OF ok1 ord1 assms(3,4) disp] by blast
  then have "CaptureForOrder e s ord sub method event kind = (s', Inr False)"
    using r assms(9-12) by (simp add: CaptureForOrder_def db_do_eq)
  moreover obtain s5 where s5: "settled ord (Some (sub_id sub)) kind d1 (bs_db s5)"
      "dispatchProvision e s5 sub ord = (s', Inr ())" using settle_books [OF ok1 ord1 s'] by auto
  moreover have "bdb_hist (bs_db s5) (bs_db s')"
    using workload_engines.dispatchProvision_run [OF assms(15) run_refl, of s5 sub ord] s5(2) run_hist by simp
  moreover have "settled ord (Some (sub_id sub)) kind (bs_db s) (bs_db s5)"
    using s5(1) by (simp add: settled_def same)
  ultimately show ?thesis using settled_hist by blast
qed


lemma approved_charge_settles_witness:
  "\<exists>s'. CaptureForOrder demo_env demo_ordered demo_order demo_sub ''card'' ''e1'' InvoiceKindPurchase = (s', Inr False)
    \<and> settled demo_order (Some (sub_id demo_sub)) InvoiceKindPurchase (bs_db demo_ordered) (bs_db s')"
proof -
  let ?pv = "FakeProvider (\<lambda>s. s) (\<lambda>k b. k @ b) (\<lambda>b. None)"
  have rows: "by_key order_id (order_id demo_order) (b_orders (bs_db demo_ordered)) = Some demo_order"
    "by_key sub_id (sub_id demo_sub) (b_subs (bs_db demo_ordered)) = Some demo_sub"
    "order_status demo_order = OrderPending" "sub_state demo_sub = StatePending" "sub_product demo_sub = Some 9"
    "by_key pr_id 9 (b_products (bs_db demo_ordered)) = Some demo_product"
    "Validate (order_money demo_order) = None" "order_provider demo_order = ''fake''"
    "\<not> event_known (bs_db demo_ordered) ''fake'' ''e1''" by code_simp+
  have pv: "ProviderFor (e_registry demo_env) ''fake'' = Inr ?pv"
    by (simp add: ProviderFor_def demo_env_def default_registry_def RegisterProvider_def FakeProvider_def ManualProvider_def)
  have "approved (fakeAuthorize (\<lambda>s. s) (order_charge demo_env demo_order ''card''))" by code_simp
  then obtain a where a: "pv_authorize ?pv (order_charge demo_env demo_order ''card'') = Inr a" "\<not> auth_declined a"
    by (cases "fakeAuthorize (\<lambda>s. s) (order_charge demo_env demo_order ''card'')") (auto simp: FakeProvider_def)
  then obtain c where c: "pv_capture ?pv (auth_ref a) = Inr c" using fake.approved_captures by blast
  have eng: "e_provision demo_env = Some (\<lambda>s sub p. (s, Inr ()))" by (simp add: demo_env_def)
  show ?thesis
    by (rule approved_charge_settles [OF demo_ok rows(1,3,7,2,4,5,6) _ a c _ _ demo_engines eng])
      (simp_all add: rows pv)
qed


section \<open>Webhooks\<close>

lemma HandleWebhook_effect:
  assumes "HandleWebhook e s name secret header body = (s', r)" and "bs_db s' \<noteq> bs_db s"
  shows "\<exists>pv ev ord. e_registry e name = Some pv \<and> pv_verify pv secret header body = Inr ev
    \<and> e_parse e (ev_order ev) = Some (order_id ord) \<and> by_key order_id (order_id ord) (b_orders (bs_db s)) = Some ord
    \<and> (ev_type ev = WebhookPaymentFailed \<or> order_status ord = OrderPending)"
proof -
  obtain pv where pv: "ProviderFor (e_registry e) name = Inr pv" "e_registry e name = Some pv"
    using assms by (cases "e_registry e name") (auto simp: HandleWebhook_def ProviderFor_def)
  obtain ev where ev: "pv_verify pv secret header body = Inr ev"
    using assms pv by (cases "pv_verify pv secret header body") (auto simp: HandleWebhook_def)
  obtain oid where oid: "e_parse e (ev_order ev) = Some oid"
    using assms pv ev by (cases "e_parse e (ev_order ev)") (auto simp: HandleWebhook_def Let_def)
  obtain ord where ord: "by_key order_id oid (b_orders (bs_db s)) = Some ord"
    using assms pv ev oid
    by (cases "by_key order_id oid (b_orders (bs_db s))") (auto simp: HandleWebhook_def Let_def db_get_def GetOrderAny_def)
  have "ev_type ev = WebhookPaymentFailed \<or> order_status ord = OrderPending"
    using assms pv ev oid ord
    by (auto simp: HandleWebhook_def Let_def db_get_def GetOrderAny_def split: if_splits)
  moreover have "order_id ord = oid" using ord by (auto dest: by_key_Some)
  ultimately show ?thesis using pv ev oid ord by blast
qed

text \<open>A webhook delivered to one of the shipped gateways changes the billing tables only
  if it is authentic (its signature header is the HMAC of the body under the shared secret)
  and names a stored order that is pending or reports that order's payment as failed; an
  unsigned, forged or malformed delivery, and one for an order that is already settled,
  leaves every table as it was.\<close>

theorem webhook_authentic:
  assumes "HandleWebhook e s name secret header body = (s', r)" and "bs_db s' \<noteq> bs_db s"
    and "e_registry e = default_registry sha hmac decode"
  shows "name = ''fake'' \<and> header ''X-Fake-Signature'' = hmac secret body
    \<and> (\<exists>ev ord. fakeVerify hmac decode secret header body = Inr ev
      \<and> e_parse e (ev_order ev) = Some (order_id ord) \<and> by_key order_id (order_id ord) (b_orders (bs_db s)) = Some ord
      \<and> (ev_type ev = WebhookPaymentFailed \<or> order_status ord = OrderPending))"
proof -
  obtain pv ev ord where *: "e_registry e name = Some pv" "pv_verify pv secret header body = Inr ev"
    "e_parse e (ev_order ev) = Some (order_id ord)" "by_key order_id (order_id ord) (b_orders (bs_db s)) = Some ord"
    "ev_type ev = WebhookPaymentFailed \<or> order_status ord = OrderPending"
    using HandleWebhook_effect [OF assms(1,2)] by blast
  from * assms(3) have "name = ''fake'' \<and> pv = FakeProvider sha hmac decode"
    by (auto simp: default_registry_def RegisterProvider_def FakeProvider_def ManualProvider_def split: if_splits)
  moreover from this * have "fakeVerify hmac decode secret header body = Inr ev" by (simp add: FakeProvider_def)
  moreover from this have "header ''X-Fake-Signature'' = hmac secret body"
    by (auto simp: fakeVerify_def Let_def split: if_splits)
  ultimately show ?thesis using *(3-5) by blast
qed

definition demo_hooks :: "unit benv" where
  "demo_hooks = demo_env\<lparr>e_registry := default_registry (\<lambda>s. s) (\<lambda>k b. k @ b)
     (\<lambda>b. Some \<lparr>raw_id = b, raw_type = (if b = ''bad'' then ''payment.failed'' else ''payment.captured''), raw_order = ''12'',
        raw_amount = 500, raw_currency = ''USD'', raw_reason = []\<rparr>),
     e_parse := (\<lambda>s. if s = ''12'' then Some 12 else None)\<rparr>"

lemma webhook_authentic_witness:
  "bs_db (fst (HandleWebhook demo_hooks demo_ordered ''fake'' ''key'' (\<lambda>h. ''forged'') ''bad'')) = bs_db demo_ordered"
proof (rule ccontr)
  let ?decode = "\<lambda>b. Some \<lparr>raw_id = b, raw_type = (if b = ''bad'' then ''payment.failed'' else ''payment.captured''),
    raw_order = ''12'', raw_amount = 500, raw_currency = ''USD'', raw_reason = []\<rparr>"
  assume "bs_db (fst (HandleWebhook demo_hooks demo_ordered ''fake'' ''key'' (\<lambda>h. ''forged'') ''bad'')) \<noteq> bs_db demo_ordered"
  then have "(\<lambda>h. ''forged'') ''X-Fake-Signature'' = (\<lambda>k b. k @ b) ''key'' ''bad''"
    using webhook_authentic [OF prod.collapse [symmetric], of demo_hooks demo_ordered "''fake''" "''key''" "\<lambda>h. ''forged''" "''bad''"
        "\<lambda>s. s" "\<lambda>k b. k @ b" ?decode] by (simp add: demo_hooks_def)
  then show False by simp
qed

lemma CancelOrder_row:
  assumes "by_key order_id i (b_orders d) = Some r" and "order_status r = OrderPending"
  shows "by_key order_id i (b_orders (fst (CancelOrder d (order_org r) i))) = Some (order_cancel_row r)"
proof -
  let ?P = "\<lambda>x. flip_guard order_id order_status (\<lambda>st. st = OrderPending) i x \<and> order_org x = order_org r"
  have "r \<in> set (b_orders d) \<and> ?P r" using assms by (auto simp: flip_guard_def dest: by_key_Some)
  then have "rows_affected ?P (b_orders d) \<noteq> 0" by (auto simp: rows_affected_zero)
  then show ?thesis
    using assms by (auto simp: CancelOrder_def Let_def oc.lookup_update flip_guard_def dest: by_key_Some)
qed

lemma CancelOrder_keeps [frame_simps]: "b_subs (fst (CancelOrder d org i)) = b_subs d"
  by (simp add: CancelOrder_def Let_def)

text \<open>A failed-payment webhook ends a pending order for good: the order is cancelled
  while its subscription stays pending, and a later captured-payment webhook for the same
  order - the customer paid at the second attempt - is answered as a replay and changes no
  table, so the workload is never provisioned.\<close>

theorem failed_webhook_final:
  assumes "e_registry e name = Some pv" and "pv_verify pv secret header body = Inr bad"
    and "ev_type bad = WebhookPaymentFailed" and "e_parse e (ev_order bad) = Some oid"
    and "by_key order_id oid (b_orders (bs_db s)) = Some ord" and "order_status ord = OrderPending"
    and "pv_verify pv secret header' body' = Inr good" and "ev_type good = WebhookPaymentCaptured"
    and "e_parse e (ev_order good) = Some oid"
    and "s1 = fst (HandleWebhook e s name secret header body)"
  shows "by_key order_id oid (b_orders (bs_db s1)) = Some (order_cancel_row ord) \<and> b_subs (bs_db s1) = b_subs (bs_db s)
    \<and> snd (HandleWebhook e s1 name secret header' body') = Inr (good, True)
    \<and> bs_db (fst (HandleWebhook e s1 name secret header' body')) = bs_db s1"
proof -
  let ?d = "fst (RecordPayment (bs_db s) (e_now e) (failed_payment ord name bad))"
  have id: "order_id ord = oid" using assms(5) by (auto dest: by_key_Some)
  have s1: "bs_db s1 = fst (CancelOrder ?d (order_org ord) oid)"
    using assms(1-5) id
    by (simp add: assms(10) HandleWebhook_def ProviderFor_def Let_def db_get_def GetOrderAny_def db_do_eq publish_def)
  have row: "by_key order_id oid (b_orders (bs_db s1)) = Some (order_cancel_row ord)"
    using CancelOrder_row [of oid ?d ord] assms(5,6) by (simp add: s1 frame_simps)
  moreover have "b_subs (bs_db s1) = b_subs (bs_db s)" by (simp add: s1 frame_simps)
  ultimately show ?thesis
    using assms(1,7-9)
    by (simp add: HandleWebhook_def ProviderFor_def Let_def db_get_def GetOrderAny_def order_cancel_row_def)
qed

lemma failed_webhook_final_witness:
  "let s1 = fst (HandleWebhook demo_hooks demo_ordered ''fake'' ''k'' (\<lambda>h. ''kbad'') ''bad'') in
   by_key order_id 12 (b_orders (bs_db s1)) = Some (order_cancel_row demo_order)
   \<and> bs_db (fst (HandleWebhook demo_hooks s1 ''fake'' ''k'' (\<lambda>h. ''kpaid'') ''paid'')) = bs_db s1"
proof -
  let ?s1 = "fst (HandleWebhook demo_hooks demo_ordered ''fake'' ''k'' (\<lambda>h. ''kbad'') ''bad'')"
  obtain pv where pv: "e_registry demo_hooks ''fake'' = Some pv"
      "pv_verify pv = fakeVerify (\<lambda>k b. k @ b) (\<lambda>b. Some \<lparr>raw_id = b,
        raw_type = (if b = ''bad'' then ''payment.failed'' else ''payment.captured''), raw_order = ''12'',
        raw_amount = 500, raw_currency = ''USD'', raw_reason = []\<rparr>)"
    by (simp add: demo_hooks_def default_registry_def RegisterProvider_def FakeProvider_def ManualProvider_def)
  have rows: "by_key order_id 12 (b_orders (bs_db demo_ordered)) = Some demo_order" "order_status demo_order = OrderPending"
    by code_simp+
  let ?ev = "\<lambda>b t. \<lparr>ev_id = b, ev_type = t, ev_order = ''12'', ev_amount = \<lparr>m_amount = 500, m_currency = ''USD''\<rparr>, ev_reason = []\<rparr>"
  have bad: "pv_verify pv ''k'' (\<lambda>h. ''kbad'') ''bad'' = Inr (?ev ''bad'' WebhookPaymentFailed)"
    and good: "pv_verify pv ''k'' (\<lambda>h. ''kpaid'') ''paid'' = Inr (?ev ''paid'' WebhookPaymentCaptured)"
    by (simp_all add: pv fakeVerify_def)
  have parse: "e_parse demo_hooks ''12'' = Some 12" by (simp add: demo_hooks_def)
  show ?thesis unfolding Let_def
    using failed_webhook_final [OF pv(1) bad _ _ rows good _ _ refl] parse by simp
qed


section \<open>Prices\<close>

lemma months_word: "sint (of_nat (PeriodMonths p) :: i64) = int (PeriodMonths p)"
  by (simp add: PeriodMonths_def)

lemma months_range: "1 \<le> int (PeriodMonths p) \<and> int (PeriodMonths p) \<le> 12"
  by (simp add: PeriodMonths_def)

lemma order_price_exact:
  assumes "0 \<le> sint (pr_price p)" and "sint (pr_price p) * 12 < 2 ^ 63"
  shows "sint (order_price p period) = sint (pr_price p) * int (PeriodMonths period)"
proof -
  have "sint (pr_price p) * int (PeriodMonths period) \<le> sint (pr_price p) * 12"
    using assms(1) months_range [of period] by (intro mult_left_mono) auto
  moreover have "0 \<le> sint (pr_price p) * int (PeriodMonths period)" using assms(1) by simp
  ultimately show ?thesis
    using assms(2) unfolding order_price_def by (subst sint_mult_ok) (auto simp: months_word)
qed

lemma CreateOrder_rows:
  assumes "CreateOrderWithSubscription d now oi = (d', Inr (ord, sub))"
  shows "\<exists>c. sub = new_subscription (b_next d) now c oi \<and> cust_org c = oi_org oi
    \<and> ord = new_order (b_next d + 1) now (b_next d) oi
    \<and> b_orders d' = b_orders d @ [ord] \<and> b_subs d' = b_subs d @ [sub] \<and> b_payments d' = b_payments d
    \<and> ValidateMinorUnit (oi_amount oi)"
  using assms
  by (auto simp: CreateOrderWithSubscription_def createSubscription_def Let_def new_subscription_def
      split: option.splits if_splits dest!: by_key_Some)

lemma Checkout_rows:
  assumes "Checkout e s inp = (s', Inr (ord, sub))"
  shows "\<exists>p prov d1. ValidPeriod (ci_period inp) \<and> GetProduct (bs_db s) (ci_product inp) = Inr p \<and> pr_active p
    \<and> d1 = fst (EnsureCustomer (bs_db s) (ci_org inp) (pr_currency p))
    \<and> CreateOrderWithSubscription d1 (e_now e) (checkout_order e inp prov p) = (bs_db s', Inr (ord, sub))"
  using assms unfolding Checkout_def Let_def
  by (auto simp: db_get_def publish_def audit_def split: if_splits prod.splits elim!: andThenE db_doE) blast+

text \<open>A checkout sells what the catalogue says: it succeeds only for an active product
  and a known period, creates exactly one pending order and one pending subscription of the
  buyer, at the product's monthly price times the months of the period (no overflow for
  prices up to a twelfth of the 64-bit range), and the first period ends after that many
  months.\<close>

theorem checkout_sells_catalogue:
  assumes "Checkout e s inp = (s', Inr (ord, sub))" and "GetProduct (bs_db s) (ci_product inp) = Inr p"
    and "0 \<le> sint (pr_price p)" and "sint (pr_price p) * 12 < 2 ^ 63"
  shows "pr_active p \<and> ValidPeriod (ci_period inp)
    \<and> b_orders (bs_db s') = b_orders (bs_db s) @ [ord] \<and> b_subs (bs_db s') = b_subs (bs_db s) @ [sub]
    \<and> order_status ord = OrderPending \<and> sub_state sub = StatePending \<and> order_sub ord = Some (sub_id sub)
    \<and> order_org ord = ci_org inp \<and> sub_org sub = ci_org inp \<and> order_currency ord = pr_currency p
    \<and> sint (order_amount ord) = sint (pr_price p) * int (PeriodMonths (ci_period inp))
    \<and> sub_end sub = AddPeriod (e_now e) (ci_period inp)"
proof -
  obtain prov d1 where *: "ValidPeriod (ci_period inp)" "pr_active p"
    "d1 = fst (EnsureCustomer (bs_db s) (ci_org inp) (pr_currency p))"
    "CreateOrderWithSubscription d1 (e_now e) (checkout_order e inp prov p) = (bs_db s', Inr (ord, sub))"
    using Checkout_rows [OF assms(1)] assms(2) by auto
  show ?thesis
    using CreateOrder_rows [OF *(4)] *(1-3) order_price_exact [OF assms(3,4)]
    by (auto simp: frame_simps checkout_order_def new_order_def new_subscription_def)
qed

lemma checkout_sells_catalogue_witness:
  "sint (order_amount demo_order) = 500 * 1 \<and> sub_state demo_sub = StatePending"
proof -
  have "\<not> isl (snd (Checkout demo_env demo_state demo_purchase))" by code_simp
  then obtain s' ord sub where c: "Checkout demo_env demo_state demo_purchase = (s', Inr (ord, sub))"
    by (cases "Checkout demo_env demo_state demo_purchase"; cases "snd (Checkout demo_env demo_state demo_purchase)") auto
  have p: "GetProduct (bs_db demo_state) (ci_product demo_purchase) = Inr demo_product" by code_simp
  have "sint (pr_price demo_product) = 500" "PeriodMonths (ci_period demo_purchase) = 1"
    "b_orders (bs_db demo_state) = []" "b_subs (bs_db demo_state) = []" by code_simp+
  then show ?thesis
    using checkout_sells_catalogue [OF c p] c by (simp add: demo_order_def demo_sub_def demo_ordered_def)
qed


section \<open>Retries\<close>

lemma RecordPayment_new:
  assumes "Validate (pi_amount inp) = None" and "\<not> event_known d (pi_provider inp) (pi_event inp)"
  obtains d' p where "RecordPayment d now inp = (d', Inr (p, False))"
  using assms by (auto simp: RecordPayment_def event_known_def Validate_def Let_def split: if_splits)

lemma fresh_next: "fresh_keys key rows n \<Longrightarrow> by_key key n rows = None"
  by (auto simp: fresh_keys_def list_all_iff by_key_None_iff)

text \<open>Repeating a purchase with the same gateway event is not the harmless replay its
  documentation promises: the checkout runs before the event is looked up, so the repeat
  reports success and leaves one more order and one more subscription, both pending and
  never charged.\<close>

theorem repeated_purchase_orders_again:
  assumes "bdb_ok (bs_db s)" and "Checkout e s inp = (s1, Inr (ord, sub))"
    and "ProviderFor (e_registry e) (order_provider ord) = Inr pv" and "event \<noteq> []"
    and "event_known (bs_db s) (order_provider ord) event" and "Validate (order_money ord) = None"
  shows "PayAndActivate e s inp method event = (s1, Inr (ord, sub, True))
    \<and> b_orders (bs_db s1) = b_orders (bs_db s) @ [ord] \<and> b_subs (bs_db s1) = b_subs (bs_db s) @ [sub]
    \<and> order_status ord = OrderPending \<and> sub_state sub = StatePending"
proof -
  obtain p prov d1 where d1: "d1 = fst (EnsureCustomer (bs_db s) (ci_org inp) (pr_currency p))"
    and c: "CreateOrderWithSubscription d1 (e_now e) (checkout_order e inp prov p) = (bs_db s1, Inr (ord, sub))"
    using Checkout_rows [OF assms(2)] by blast
  note rows = CreateOrder_rows [OF c]
  have ok1: "bdb_ok d1" unfolding d1 by (rule step_ok [OF b_customer assms(1)])
  then have "by_key order_id (b_next d1 + 1) (b_orders d1) = None" "by_key sub_id (b_next d1) (b_subs d1) = None"
    by (simp_all add: bdb_ok_def fresh_next fresh_later)
  then have found: "GetOrderAny (bs_db s1) (order_id ord) = Inr ord" "GetSubscriptionAny (bs_db s1) (sub_id sub) = Inr sub"
    using rows by (auto simp: GetOrderAny_def GetSubscriptionAny_def by_key_append new_order_def new_subscription_def)
  have "event_known (bs_db s1) (order_provider ord) event"
    using assms(5) rows by (auto simp: event_known_def d1 frame_simps)
  then have "PayAndActivate e s inp method event = (s1, Inr (ord, sub, True))"
    using capture_replay [OF assms(3,4) _ assms(6)] assms(2) found by (simp add: PayAndActivate_def db_get_def)
  then show ?thesis
    using rows by (auto simp: d1 frame_simps checkout_order_def new_order_def new_subscription_def)
qed

definition demo_seen :: "unit bstate" where
  "demo_seen = demo_state\<lparr>bs_db := fst (RecordPayment (bs_db demo_state) 0
     (order_payment demo_order demo_sub None [] ''e1'' InvoiceKindPurchase PaymentAuthorized []))\<rparr>"

lemma repeated_purchase_orders_again_witness:
  "\<exists>s1 ord sub. PayAndActivate demo_env demo_seen demo_purchase ''card'' ''e1'' = (s1, Inr (ord, sub, True))
    \<and> order_status ord = OrderPending"
proof -
  have "\<not> isl (snd (Checkout demo_env demo_seen demo_purchase))" by code_simp
  then obtain s1 ord sub where c: "Checkout demo_env demo_seen demo_purchase = (s1, Inr (ord, sub))"
    by (cases "Checkout demo_env demo_seen demo_purchase"; cases "snd (Checkout demo_env demo_seen demo_purchase)") auto
  have "bdb_ok (bs_db demo_seen)" unfolding demo_seen_def using ok_payment [OF demo_state_ok] by simp
  moreover have "\<not> isl (ProviderFor (e_registry demo_env) ''fake'')"
    "order_provider (fst (projr (snd (Checkout demo_env demo_seen demo_purchase)))) = ''fake''"
    "Validate (order_money (fst (projr (snd (Checkout demo_env demo_seen demo_purchase))))) = None"
    "event_known (bs_db demo_seen) ''fake'' ''e1''" by code_simp+
  moreover from this obtain pv where "ProviderFor (e_registry demo_env) ''fake'' = Inr pv"
    by (cases "ProviderFor (e_registry demo_env) ''fake''") auto
  ultimately have "PayAndActivate demo_env demo_seen demo_purchase ''card'' ''e1'' = (s1, Inr (ord, sub, True))
      \<and> order_status ord = OrderPending"
    using repeated_purchase_orders_again [of demo_seen demo_env demo_purchase s1 ord sub pv "''e1''" "''card''"] c by simp
  then show ?thesis by blast
qed

text \<open>Paying an open invoice whose charge was declined reports success at the second
  attempt: the attempt is recorded under the invoice's own event before it is authorised, so
  any later attempt is taken for a replay, charges nothing, and hands back the invoice,
  still open.\<close>

theorem declined_invoice_reports_paid:
  assumes "GetInvoice (bs_db s) org i = Inr bill" and "inv_status bill = InvoiceOpen"
    and "name \<noteq> []" and "ProviderFor (e_registry e) name = Inr pv"
    and "Validate \<lparr>m_amount = inv_total bill, m_currency = inv_currency bill\<rparr> = None"
    and "\<not> event_known (bs_db s) name (''invoice:'' @ e_us e (inv_id bill))"
    and "method \<noteq> []" and "\<not> approved (pv_authorize pv (invoice_charge e ''invoice'' method bill))"
    and "s1 = fst (PayInvoice e s org i method name)"
  shows "isl (snd (PayInvoice e s org i method name))
    \<and> PayInvoice e s1 org i method' name = (s1, Inr bill) \<and> b_invoices (bs_db s1) = b_invoices (bs_db s)"
proof -
  define event where "event = ''invoice:'' @ e_us e (inv_id bill)"
  have nonempty: "event \<noteq> []" by (simp add: event_def)
  let ?inp = "invoice_payment org bill name [] event PaymentAuthorized []"
  obtain d1 pay where r: "RecordPayment (bs_db s) (e_now e) ?inp = (d1, Inr (pay, False))"
    using assms(5,6) by (elim RecordPayment_new [of ?inp, rotated -1]) (simp_all add: invoice_payment_def event_def)
  have known: "event_known d1 name event"
    using RecordPayment_fresh [OF r] by (simp add: invoice_payment_def)
  let ?fail = "invoice_payment org bill name [] (event @ '':failed'') PaymentFailed
    (declined_reason e (pv_authorize pv (invoice_charge e ''invoice'' method bill)))"
  have pay: "PayInvoice e s org i method name = (s\<lparr>bs_db := fst (RecordPayment d1 (e_now e) ?fail)\<rparr>,
      Inl (BillDeclined (declined_reason e (pv_authorize pv (invoice_charge e ''invoice'' method bill)))))"
    using assms(1-8) r by (simp add: PayInvoice_def Let_def db_get_def db_do_eq event_def)
  have s1: "bs_db s1 = fst (RecordPayment d1 (e_now e) ?fail)" by (simp add: assms(9) pay)
  have d1: "d1 = fst (RecordPayment (bs_db s) (e_now e) ?inp)" by (simp add: r)
  have same: "b_invoices (bs_db s1) = b_invoices (bs_db s)" by (simp add: s1 d1 frame_simps)
  have "event_known (bs_db s1) name event" unfolding s1 by (rule event_known_kept [OF known])
  then obtain q where "RecordPayment (bs_db s1) (e_now e) ?inp = (bs_db s1, Inr (q, True))"
    using RecordPayment_replay [of "bs_db s1" ?inp "e_now e"] assms(5) nonempty by (auto simp: invoice_payment_def)
  then have "PayInvoice e s1 org i method' name = (s1, Inr bill)"
    using assms(1-4) same by (simp add: PayInvoice_def Let_def db_get_def db_do_eq event_def GetInvoice_def)
  then show ?thesis using pay same by simp
qed


definition demo_bill :: invoice_input where
  "demo_bill = \<lparr>ii_customer = 10, ii_sub = None, ii_kind = InvoiceKindManual, ii_currency = ''USD'',
     ii_subtotal = 700, ii_tax = 0, ii_lines = [], ii_due = 0\<rparr>"

definition demo_invoiced :: "unit bstate" where
  "demo_invoiced = demo_ordered\<lparr>bs_db := fst (IssueInvoice (bs_db demo_ordered) 0 demo_bill)\<rparr>"

lemma declined_invoice_reports_paid_witness:
  "let s1 = fst (PayInvoice demo_env demo_invoiced 4 13 ''fail-card'' ''fake'') in
   \<exists>bill. inv_status bill = InvoiceOpen \<and> PayInvoice demo_env s1 4 13 ''good-card'' ''fake'' = (s1, Inr bill)"
proof -
  let ?s1 = "fst (PayInvoice demo_env demo_invoiced 4 13 ''fail-card'' ''fake'')"
  let ?bill = "projr (GetInvoice (bs_db demo_invoiced) 4 13)"
  have facts: "\<not> isl (GetInvoice (bs_db demo_invoiced) 4 13)" "inv_status ?bill = InvoiceOpen"
    "Validate \<lparr>m_amount = inv_total ?bill, m_currency = inv_currency ?bill\<rparr> = None"
    "\<not> event_known (bs_db demo_invoiced) ''fake'' (''invoice:'' @ e_us demo_env (inv_id ?bill))"
    "\<not> isl (ProviderFor (e_registry demo_env) ''fake'')"
    "\<not> approved (pv_authorize (projr (ProviderFor (e_registry demo_env) ''fake''))
        (invoice_charge demo_env ''invoice'' ''fail-card'' ?bill))" by code_simp+
  then have "GetInvoice (bs_db demo_invoiced) 4 13 = Inr ?bill"
    "ProviderFor (e_registry demo_env) ''fake'' = Inr (projr (ProviderFor (e_registry demo_env) ''fake''))" by simp_all
  from declined_invoice_reports_paid [OF this(1) facts(2) _ this(2) facts(3,4) _ facts(6) refl, of "''good-card''"]
  show ?thesis unfolding Let_def using facts(2) by auto
qed


section \<open>Renewal\<close>

lemma set_sub_row:
  assumes "by_key sub_id i (b_subs d) = Some r" and "\<And>r. sub_id (f r) = sub_id r"
  shows "set_sub i f d = (d\<lparr>b_subs := update_where (\<lambda>r. sub_id r = i) f (b_subs d)\<rparr>, Inr ())
    \<and> by_key sub_id i (update_where (\<lambda>r. sub_id r = i) f (b_subs d)) = Some (f r)"
proof -
  have "r \<in> set (b_subs d) \<and> sub_id r = i" using assms(1) by (auto dest: by_key_Some)
  then have "rows_affected (\<lambda>r. sub_id r = i) (b_subs d) \<noteq> 0" by (auto simp: rows_affected_zero)
  then show ?thesis
    using assms row_update.lookup_update [OF row_update.intro, of sub_id f] \<open>r \<in> set (b_subs d) \<and> sub_id r = i\<close>
    by (simp add: set_sub_def)
qed

text \<open>A renewed subscription between the invoice and the payment: active, its anchor at the
  end of the period that was invoiced, and exactly \<open>n\<close> invoices on the books.\<close>

definition pinned :: "subscription \<Rightarrow> nat \<Rightarrow> bdb \<Rightarrow> bool" where
  "pinned sub n d \<longleftrightarrow> (\<exists>r. by_key sub_id (sub_id sub) (b_subs d) = Some r \<and> sub_state r = StateActive
    \<and> sub_anchor r = Some (sub_end sub) \<and> sub_end r = sub_end sub \<and> sub_period r = sub_period sub)
    \<and> length (b_invoices d) = n"

definition extended :: "(string \<Rightarrow> time \<Rightarrow> time) \<Rightarrow> subscription \<Rightarrow> nat \<Rightarrow> bdb \<Rightarrow> bool" where
  "extended pg sub n d \<longleftrightarrow> (\<exists>r. by_key sub_id (sub_id sub) (b_subs d) = Some r \<and> sub_state r = StateActive
    \<and> sub_grace r = None \<and> sub_start r = sub_end sub \<and> sub_end r = pg (sub_period sub) (sub_end sub))
    \<and> length (b_invoices d) = n"

lemma pinned_payment: "pinned sub n d \<Longrightarrow> pinned sub n (fst (RecordPayment d now inp))"
  by (simp add: pinned_def frame_simps)

lemma pinned_grace:
  assumes "pinned sub n (bs_db s)" and "sub_id r = sub_id sub"
  shows "pinned sub n (bs_db (fst (StartGrace e s r)))"
proof -
  obtain row where row: "by_key sub_id (sub_id sub) (b_subs (bs_db s)) = Some row" "sub_state row = StateActive"
    "sub_anchor row = Some (sub_end sub)" "sub_end row = sub_end sub" "sub_period row = sub_period sub"
    using assms(1) by (auto simp: pinned_def)
  show ?thesis
    using set_sub_row [OF row(1), of "\<lambda>r. r\<lparr>sub_grace := Some (e_now e + GracePeriod e)\<rparr>"] row assms
    by (simp add: StartGrace_def db_do_eq SetSubscriptionGrace_def pinned_def)
qed

lemma length_MarkInvoicePaid [frame_simps]: "length (b_invoices (fst (MarkInvoicePaid d now i))) = length (b_invoices d)"
  by (simp add: MarkInvoicePaid_def)

lemma extend_paid_extends:
  assumes "pinned sub n (bs_db s)" and "extend_paid e s sub bill name event ref = (s', Inr u)"
  shows "extended (e_pg e) sub n (bs_db s')"
proof -
  obtain row where row: "by_key sub_id (sub_id sub) (b_subs (bs_db s)) = Some row" "sub_state row = StateActive"
    "sub_end row = sub_end sub" "sub_period row = sub_period sub"
    using assms(1) by (auto simp: pinned_def)
  define d where "d = fst (RecordPayment (fst (MarkInvoicePaid (bs_db s) (e_now e) (inv_id bill))) (e_now e)
    (invoice_payment (sub_org sub) bill name ref (event @ '':captured'') PaymentCaptured []))"
  have d: "b_subs d = b_subs (bs_db s)" "length (b_invoices d) = n"
    using assms(1) by (simp_all add: d_def frame_simps pinned_def)
  have upd: "by_key sub_id (sub_id sub) (update_where (\<lambda>r. sub_id r = sub_id sub) (extend_row (e_pg e)) (b_subs d))
      = Some (extend_row (e_pg e) row)"
    using row(1) by (auto simp: sx.lookup_update d dest: by_key_Some)
  have "sub_state (extend_row (e_pg e) row) = StateActive" using row(2) by (simp add: extend_row_def)
  then have "bs_db s' = d\<lparr>b_subs := update_where (\<lambda>r. sub_id r = sub_id sub) (extend_row (e_pg e)) (b_subs d)\<rparr>"
    using assms(2) row(1)
    by (auto simp: extend_paid_def Let_def db_do_eq d_def [symmetric] ExtendPeriod_def d resume_if_suspended_def
        elim!: andThenE)
  then show ?thesis
    using upd row d(2) by (simp add: extended_def extend_row_def)
qed

text \<open>\<open>post Q r\<close>: when the call succeeds, its tables satisfy \<open>Q\<close>.\<close>

definition post :: "(bdb \<Rightarrow> bool) \<Rightarrow> 'w bstate \<times> ('e + 'a) \<Rightarrow> bool" where
  "post Q r \<longleftrightarrow> isl (snd r) \<or> Q (bs_db (fst r))"

lemma post_Inl [simp]: "post Q (s, Inl x)" and post_Inr [simp]: "post Q (s, Inr a) = Q (bs_db s)"
  by (simp_all add: post_def)

lemma post_D: "post Q r \<Longrightarrow> r = (s, Inr a) \<Longrightarrow> Q (bs_db s)"
  by simp

lemma post_andThen: "(\<And>s a. r = (s, Inr a) \<Longrightarrow> post Q (f s a)) \<Longrightarrow> post Q (andThen r f)"
  by (cases r; cases "snd r") auto

lemma post_any: "Q (bs_db (fst r)) \<Longrightarrow> post Q r"
  by (simp add: post_def)

definition renewed :: "(string \<Rightarrow> time \<Rightarrow> time) \<Rightarrow> subscription \<Rightarrow> nat \<Rightarrow> bdb \<Rightarrow> bool" where
  "renewed pg sub n d \<longleftrightarrow> pinned sub n d \<or> extended pg sub n d"

lemma charge_renewal_pins:
  assumes "pinned sub n (bs_db s)"
  shows "post (renewed (e_pg e) sub n) (charge_renewal e s sub bill name method)"
proof -
  have grace: "post (renewed (e_pg e) sub n) (StartGrace e s2 sub)" if "pinned sub n (bs_db s2)" for s2
    using pinned_grace [OF that refl, of e] by (intro post_any) (simp add: renewed_def)
  have extend: "post (renewed (e_pg e) sub n) (extend_paid e s2 sub bill name ev ref)"
    if "pinned sub n (bs_db s2)" for s2 ev ref
    using extend_paid_extends [OF that] by (cases "extend_paid e s2 sub bill name ev ref";
      cases "snd (extend_paid e s2 sub bill name ev ref)") (auto simp: renewed_def)
  have rec: "pinned sub n (bs_db (fst (db_do s2 (\<lambda>d. RecordPayment d now inp))))" if "pinned sub n (bs_db s2)" for s2 now inp
    using pinned_payment [OF that] by (simp add: db_do_eq)
  show ?thesis
    unfolding charge_renewal_def Let_def
  proof (rule post_andThen, rule post_andThen)
    fix s1 pv s2 r
    assume "(s, ProviderFor (e_registry e) name) = (s1, Inr pv)"
      "db_do s1 (\<lambda>d. RecordPayment d (e_now e)
        (invoice_payment (sub_org sub) bill name [] (renewal_event e sub) PaymentAuthorized [])) = (s2, Inr r)"
    then have "pinned sub n (bs_db s2)" using rec [OF assms] by (metis fst_conv prod.inject)
    then show "post (renewed (e_pg e) sub n)
       (if snd r then (s2, Inr ())
        else if \<not> approved (pv_authorize pv (invoice_charge e ''renewal'' method bill))
             then StartGrace e (fst (db_do s2 (\<lambda>d. RecordPayment d (e_now e)
               (invoice_payment (sub_org sub) bill name [] (renewal_event e sub @ '':failed'') PaymentFailed
                 (declined_reason e (pv_authorize pv (invoice_charge e ''renewal'' method bill))))))) sub
             else case pv_capture pv (auth_token (pv_authorize pv (invoice_charge e ''renewal'' method bill))) of
                    Inl x \<Rightarrow> StartGrace e s2 sub
                  | Inr cap \<Rightarrow> extend_paid e s2 sub bill name (renewal_event e sub) (cap_ref cap))"
      by (auto simp: renewed_def split: sum.splits intro!: grace extend rec)
  qed
qed

text \<open>The scheduler invoices a billing period once. A successful renewal of an active
  subscription issues exactly one invoice, leaves the subscription active, and leaves it
  outside the renewal scan at every later time until its period end moves; the end moves
  only when the invoice was paid, by exactly one period, which also ends the grace.\<close>

theorem renewal_invoices_once:
  assumes "by_key sub_id (sub_id sub) (b_subs (bs_db s)) = Some sub" and "sub_state sub = StateActive"
    and "renewOne e s sub = (s', Inr u)"
  shows "length (b_invoices (bs_db s')) = length (b_invoices (bs_db s)) + 1
    \<and> (\<exists>r. by_key sub_id (sub_id sub) (b_subs (bs_db s')) = Some r \<and> sub_state r = StateActive
      \<and> (sub_end r = sub_end sub \<and> (\<forall>now. \<not> renewal_due now r)
        \<or> sub_end r = e_pg e (sub_period sub) (sub_end sub) \<and> sub_grace r = None))"
proof -
  let ?n = "Suc (length (b_invoices (bs_db s)))" and ?Q = "renewed (e_pg e) sub (Suc (length (b_invoices (bs_db s))))"
  have anchor: "pinned sub ?n (bs_db s3)"
    if "b_subs (bs_db s2) = b_subs (bs_db s)" "length (b_invoices (bs_db s2)) = ?n"
      "db_do s2 (\<lambda>d. SetSubscriptionRenewalAnchor d (sub_id sub) (sub_end sub)) = (s3, r)" for s2 s3 r
    using set_sub_row [of "sub_id sub" "bs_db s2" sub "\<lambda>r. r\<lparr>sub_anchor := Some (sub_end sub)\<rparr>"] that assms(1,2)
    by (auto simp: db_do_eq SetSubscriptionRenewalAnchor_def pinned_def)
  have issue: "b_subs (bs_db s2) = b_subs (bs_db s1) \<and> length (b_invoices (bs_db s2)) = length (b_invoices (bs_db s1)) + 1"
    if "db_do s1 (\<lambda>d. IssueInvoice d now ii) = (s2, Inr bill)" for s1 s2 now ii bill
    using that by (auto simp: db_do_eq IssueInvoice_def nextInvoiceNumber_def Let_def split: if_splits)
  have cust: "b_subs (bs_db s2) = b_subs (bs_db s1) \<and> b_invoices (bs_db s2) = b_invoices (bs_db s1)"
    if "db_do s1 (\<lambda>d. EnsureCustomer d org cur) = (s2, r)" for s1 s2 org cur r
    using that by (auto simp: db_do_eq frame_simps)
  have grace: "post ?Q (StartGrace e s2 sub)" if "pinned sub ?n (bs_db s2)" for s2
    using pinned_grace [OF that refl, of e] by (intro post_any) (simp add: renewed_def)
  have "post ?Q (renewOne e s sub)"
    unfolding renewOne_def Let_def
    by (auto simp: db_get_def publish_def intro!: post_andThen grace charge_renewal_pins
        dest!: anchor [rotated 2] issue cust)
  then have "?Q (bs_db s')" using assms(3) by simp
  then show ?thesis by (auto simp: renewed_def pinned_def extended_def renewal_due_def)
qed


definition demo_customer :: customer where
  "demo_customer = \<lparr>cust_id = 10, cust_org = 4, cust_currency = ''USD'', cust_method = no_method\<rparr>"

definition demo_renewed :: subscription where
  "demo_renewed = \<lparr>sub_id = 11, sub_customer = 10, sub_org = 4, sub_plan = None, sub_product = Some 9,
     sub_status = ''active'', sub_state = StateActive, sub_period = PeriodMonthly, sub_start = 0, sub_end = 5,
     sub_cancel = False, sub_changed = 0, sub_kind = ''web'', sub_website = None, sub_grace = None,
     sub_anchor = None, sub_invoice = None, sub_job = None, sub_error = [], sub_attempts = 0, sub_created = 0\<rparr>"

definition demo_active :: "unit bstate" where
  "demo_active = demo_state\<lparr>bs_db := (bs_db demo_state)\<lparr>b_subs := [demo_renewed],
     b_customers := [demo_customer], b_next := 12\<rparr>\<rparr>"

lemma renew_without_method:
  assumes "sub_product sub = Some pid" and "GetProduct (bs_db s) pid = Inr p" and "pr_active p"
    and "EnsureCustomer (bs_db s) (sub_org sub) (pr_currency p) = (d1, Inr cust)"
    and "IssueInvoice d1 (e_now e) (renewal_invoice e sub p (order_price p (sub_period sub)) cust) = (d2, Inr bill)"
    and "SetSubscriptionRenewalAnchor d2 (sub_id sub) (sub_end sub) = (d3, Inr ())"
    and "PaymentMethodRaw d3 (sub_org sub) = Inr no_method"
    and "snd (SetSubscriptionGrace d3 (sub_id sub) (Some (e_now e + GracePeriod e))) = Inr ()"
  shows "\<exists>s'. renewOne e s sub = (s', Inr ())"
  using assms
  by (simp add: renewOne_def Let_def db_get_def db_do_eq uuidOrNil_def StartGrace_def no_method_def publish_def)

lemma inr_pair: "\<not> isl (snd r) \<Longrightarrow> r = (fst r, Inr (projr (snd r)))"
  by (cases r; cases "snd r") auto

lemma renewal_invoices_once_witness:
  "\<exists>s'. renewOne demo_env demo_active demo_renewed = (s', Inr ())
    \<and> length (b_invoices (bs_db s')) = length (b_invoices (bs_db demo_active)) + 1"
proof -
  have rows: "by_key sub_id (sub_id demo_renewed) (b_subs (bs_db demo_active)) = Some demo_renewed"
    "sub_state demo_renewed = StateActive" by code_simp+
  let ?r1 = "EnsureCustomer (bs_db demo_active) (sub_org demo_renewed) (pr_currency demo_product)"
  let ?r2 = "IssueInvoice (fst ?r1) (e_now demo_env) (renewal_invoice demo_env demo_renewed demo_product
      (order_price demo_product (sub_period demo_renewed)) (projr (snd ?r1)))"
  let ?r3 = "SetSubscriptionRenewalAnchor (fst ?r2) (sub_id demo_renewed) (sub_end demo_renewed)"
  have "sub_product demo_renewed = Some 9" "GetProduct (bs_db demo_active) 9 = Inr demo_product" "pr_active demo_product"
    "\<not> isl (snd ?r1)" "\<not> isl (snd ?r2)" "\<not> isl (snd ?r3)"
    "PaymentMethodRaw (fst ?r3) (sub_org demo_renewed) = Inr no_method"
    "snd (SetSubscriptionGrace (fst ?r3) (sub_id demo_renewed) (Some (e_now demo_env + GracePeriod demo_env))) = Inr ()"
    by code_simp+
  note this(1-3) this(4-6) [THEN inr_pair] this(7,8)
  then obtain s' where "renewOne demo_env demo_active demo_renewed = (s', Inr ())"
    using renew_without_method [of demo_renewed 9 demo_active demo_product "fst ?r1" "projr (snd ?r1)" demo_env
        "fst ?r2" "projr (snd ?r2)" "fst ?r3"] by (metis old.unit.exhaust)
  with renewal_invoices_once [OF rows this] show ?thesis by blast
qed

end
