(* ===== verification/BillingEngine.thy ===== *)
theory BillingEngine
  imports BillingProperties WebsiteLifecycle
begin

text \<open>
  The workload engines behind the billing service (\<open>internal/api/phase10_billing.go\<close>) and
  the loops that drive it (\<open>internal/api/scheduler_billing.go\<close>): provisioning, suspending,
  resuming and terminating a web account are jobs on the agent queue, and the convergence
  loop turns finished jobs into subscription states. The world of the billing state is the
  control plane: job queue and websites, organisations with their plan, plans and servers.
  JSON coding, the placement query over server metrics, the limits engine's numbers and the
  bandwidth guard are fields of an environment.
\<close>

section \<open>State and environment\<close>

record fleet =
  f_panel :: panel
  f_orgs :: "(uid \<times> uid option) list"
  f_packages :: "uid list"
  f_servers :: "uid list"

datatype bill_wire =
    BillProvision website uid "int option" "int option"
  | BillSuspend uid string
  | BillResume uid
  | BillBackup uid string
  | BillDelete website

record engine_env =
  en_now :: time
  en_us :: "uid \<Rightarrow> string"
  en_parse :: "string \<Rightarrow> uid option"
  en_encode :: "bill_wire \<Rightarrow> string option"
  en_config :: "string \<Rightarrow> string \<Rightarrow> string option"
  en_pick :: "fleet \<Rightarrow> string \<Rightarrow> string \<Rightarrow> uid option"
  en_actor :: "fleet \<Rightarrow> uid \<Rightarrow> uid"
  en_fpm :: "fleet \<Rightarrow> uid \<Rightarrow> int option \<times> int option"
  en_enforce :: "fleet \<Rightarrow> uid \<Rightarrow> uid \<Rightarrow> string option"
  en_guard :: "website \<Rightarrow> bool"

type_synonym bworld = "fleet bstate"

definition with_panel :: "bworld \<Rightarrow> panel \<Rightarrow> bworld" where
  "with_panel s p = s\<lparr>bs_world := (bs_world s)\<lparr>f_panel := p\<rparr>\<rparr>"

definition panel_of :: "bworld \<Rightarrow> panel" where
  "panel_of s = f_panel (bs_world s)"

text \<open>\<open>EnqueueIdempotent\<close> on the billing state; its error becomes the engine's.\<close>

definition bill_enqueue ::
    "engine_env \<Rightarrow> bworld \<Rightarrow> uid \<Rightarrow> uid \<Rightarrow> job_type \<Rightarrow> bill_wire \<Rightarrow> string \<Rightarrow> bworld \<times> (bill_err + job)" where
  "bill_enqueue en s srv site t payload key =
    (let r = enqueue (panel_of s) (en_now en) srv (Some site) t (en_encode en payload) key
     in (with_panel s (fst r), case snd r of Inl _ \<Rightarrow> Inl (BillEngine ''enqueue'') | Inr j \<Rightarrow> Inr j))"

section \<open>Plans\<close>

definition plan_of :: "fleet \<Rightarrow> uid \<Rightarrow> uid option" where
  "plan_of f org = map_option (\<lambda>pk. case pk of None \<Rightarrow> nil_uid | Some k \<Rightarrow> k) (map_of (f_orgs f) org)"

definition live_site :: "uid \<Rightarrow> website \<Rightarrow> bool" where
  "live_site org w \<longleftrightarrow> site_org w = org \<and> site_status w \<noteq> SiteDeleted \<and> site_status w \<noteq> SiteDeleting"

definition Assign :: "fleet \<Rightarrow> uid \<Rightarrow> uid \<Rightarrow> fleet \<times> (bill_err + website list)" where
  "Assign f org plan =
    (if map_of (f_orgs f) org = None then (f, Inl BillNotFound)
     else if plan \<notin> set (f_packages f) then (f, Inl BillConstraint)
     else (f\<lparr>f_orgs := map (\<lambda>r. if fst r = org then (org, Some plan) else r) (f_orgs f)\<rparr>,
           Inr (filter (live_site org) (s_rows (p_sites (f_panel f))))))"

definition enforce_site :: "engine_env \<Rightarrow> uid \<Rightarrow> bworld \<Rightarrow> website \<Rightarrow> bworld" where
  "enforce_site en org s w =
    (case en_enforce en (bs_world s) org (site_id w) of
       None \<Rightarrow> s
     | Some js \<Rightarrow> with_panel s ((panel_of s)\<lparr>p_queue :=
         fst (EnqueueForWebsite (sync (panel_of s)) (en_now en) (site_id w) TypeEnforceLimits (Some js))\<rparr>))"

definition applyProductPlan :: "engine_env \<Rightarrow> bworld \<Rightarrow> uid \<Rightarrow> product \<Rightarrow> bworld \<times> (bill_err + unit)" where
  "applyProductPlan en s org p =
    (case pr_plan p of
       None \<Rightarrow> (s, Inr ())
     | Some plan \<Rightarrow>
         if plan_of (bs_world s) org = Some plan then (s, Inr ())
         else (case Assign (bs_world s) org plan of
                 (f, Inl e) \<Rightarrow> (s\<lparr>bs_world := f\<rparr>, Inl e)
               | (f, Inr ws) \<Rightarrow> (foldl (enforce_site en org) (s\<lparr>bs_world := f\<rparr>) ws, Inr ())))"

section \<open>Provisioning\<close>

definition cfgString :: "engine_env \<Rightarrow> product \<Rightarrow> string \<Rightarrow> string \<Rightarrow> string" where
  "cfgString en p key dflt =
    (case en_config en (pr_config p) key of None \<Rightarrow> dflt | Some v \<Rightarrow> if v \<noteq> [] then v else dflt)"

definition pickProvisionServer :: "engine_env \<Rightarrow> fleet \<Rightarrow> string \<Rightarrow> string \<Rightarrow> string \<Rightarrow> bill_err + uid" where
  "pickProvisionServer en f param runtime version =
    (if param \<noteq> [] then
       (case en_parse en param of
          None \<Rightarrow> Inl (BillEngine ''server_id is not a valid id'')
        | Some i \<Rightarrow> if i \<in> set (f_servers f) then Inr i else Inl (BillEngine ''server_id does not exist''))
     else case en_pick en f (if runtime = ''static'' then [] else runtime) version of
            None \<Rightarrow> Inl (BillEngine ''no suitable server'') | Some i \<Rightarrow> Inr i)"

text \<open>The CHECK on the runtime column.\<close>

definition runtime_named :: "string \<Rightarrow> site_runtime option" where
  "runtime_named r = map_of [(''static'', RuntimeStatic), (''php'', RuntimePHP), (''node'', RuntimeNode),
     (''python'', RuntimePython), (''go'', RuntimeGo)] r"

definition site_prefix :: "engine_env \<Rightarrow> subscription \<Rightarrow> product \<Rightarrow> string" where
  "site_prefix en sub p = (let n = cfgString en p ''site_prefix'' (''web-'' @ take 8 (en_us en (sub_id sub)))
     in if length n > 40 then take 40 n else n)"

definition create_account ::
    "engine_env \<Rightarrow> bworld \<Rightarrow> subscription \<Rightarrow> product \<Rightarrow> bworld \<times> (bill_err + website)" where
  "create_account en s sub p =
    (let runtime = cfgString en p ''runtime'' ''static''; version = cfgString en p ''runtime_version'' [] in
     case pickProvisionServer en (bs_world s) (cfgString en p ''server_id'' []) runtime version of
       Inl e \<Rightarrow> (s, Inl e)
     | Inr srv \<Rightarrow>
         (case runtime_named runtime of
            None \<Rightarrow> (s, Inl BillConstraint)
          | Some rt \<Rightarrow>
              (let r = Create (en_us en) (p_sites (panel_of s)) (en_now en) (sub_org sub) srv
                     (en_actor en (bs_world s) (sub_org sub)) (site_prefix en sub p)
                     (cfgString en p ''primary_domain'' []) rt version []
               in (with_panel s ((panel_of s)\<lparr>p_sites := fst r\<rparr>),
                   case snd r of Inl _ \<Rightarrow> Inl (BillEngine ''create website'') | Inr (w, user) \<Rightarrow> Inr w))))"

definition provisionWebAccount ::
    "engine_env \<Rightarrow> bworld \<Rightarrow> subscription \<Rightarrow> product \<Rightarrow> bworld \<times> (bill_err + unit)" where
  "provisionWebAccount en s sub p =
    andThen (create_account en s sub p) (\<lambda>s w.
    case en_fpm en (bs_world s) (sub_org sub) of (mem, workers) \<Rightarrow>
    andThen (bill_enqueue en s (site_server w) (site_id w) TypeProvisionWebsite
        (BillProvision w (sub_org sub) mem workers) (''billingprovision-'' @ en_us en (sub_id sub))) (\<lambda>s j.
      db_do s (\<lambda>d. SetSubscriptionWorkload d (sub_id sub) (sub_kind sub) (Some (site_id w)) (Some (job_id j))
        (sub_attempts sub + 1))))"

definition billingProvision ::
    "engine_env \<Rightarrow> bworld \<Rightarrow> subscription \<Rightarrow> product \<Rightarrow> bworld \<times> (bill_err + unit)" where
  "billingProvision en s sub p =
    andThen (applyProductPlan en s (sub_org sub) p) (\<lambda>s _.
      if sub_kind sub = kind_name KindWeb then provisionWebAccount en s sub p
      else if sub_kind sub = kind_name KindService then (s, Inl (BillEngine ''fulfilled manually''))
      else (s, Inl (BillEngine ''no provision engine'')))"

section \<open>Suspending, resuming, terminating\<close>

definition on_workload ::
    "bworld \<Rightarrow> subscription \<Rightarrow> (website \<Rightarrow> bworld \<times> (bill_err + unit)) \<Rightarrow> bworld \<times> (bill_err + unit)" where
  "on_workload s sub act =
    (case sub_website sub of
       None \<Rightarrow> (s, Inl (BillEngine ''subscription has no workload''))
     | Some i \<Rightarrow> (case GetByIDAny (p_sites (panel_of s)) i of
                    Inl _ \<Rightarrow> (s, Inl (BillEngine ''website not found'')) | Inr w \<Rightarrow> act w))"

definition billingSuspend :: "engine_env \<Rightarrow> bworld \<Rightarrow> subscription \<Rightarrow> bworld \<times> (bill_err + unit)" where
  "billingSuspend en s sub = on_workload s sub (\<lambda>w.
     if site_status w = SiteSuspended then (s, Inr ())
     else andThen (bill_enqueue en s (site_server w) (site_id w) TypeSuspendWebsite
            (BillSuspend (site_id w) ''payment'') (''suspend_'' @ en_us en (site_id w))) (\<lambda>s j. (s, Inr ())))"

definition billingResume :: "engine_env \<Rightarrow> bworld \<Rightarrow> subscription \<Rightarrow> bworld \<times> (bill_err + unit)" where
  "billingResume en s sub = on_workload s sub (\<lambda>w.
     if site_status w \<noteq> SiteSuspended then (s, Inr ())
     else if \<not> en_guard en w then (s, Inr ())
     else andThen (bill_enqueue en s (site_server w) (site_id w) TypeResumeWebsite
            (BillResume (site_id w)) (''resume_'' @ en_us en (site_id w))) (\<lambda>s j. (s, Inr ())))"

definition billingTerminate :: "engine_env \<Rightarrow> bworld \<Rightarrow> subscription \<Rightarrow> bworld \<times> (bill_err + unit)" where
  "billingTerminate en s sub = on_workload s sub (\<lambda>w.
     let s = (if site_status w = SiteReady
              then fst (bill_enqueue en s (site_server w) (site_id w) TypeCreateBackup
                     (BillBackup (site_id w) ''pre_terminate'') (''billingtermbackup-'' @ en_us en (sub_id sub)))
              else s)
     in andThen (bill_enqueue en s (site_server w) (site_id w) TypeDeleteWebsite (BillDelete w)
          (''billingdelete-'' @ en_us en (sub_id sub))) (\<lambda>s j. (s, Inr ())))"

text \<open>\<open>newBillingService\<close>: the service with its engines wired to the control plane.\<close>

definition newBillingService :: "engine_env \<Rightarrow> fleet benv \<Rightarrow> fleet benv" where
  "newBillingService en e = e\<lparr>e_provision := Some (billingProvision en), e_suspend := Some (billingSuspend en),
     e_resume := Some (billingResume en), e_terminate := Some (billingTerminate en)\<rparr>"

section \<open>Loops\<close>

definition converge_one :: "fleet benv \<Rightarrow> bworld \<Rightarrow> subscription \<Rightarrow> bworld" where
  "converge_one e s sub =
    (case sub_job sub of
       None \<Rightarrow> s
     | Some i \<Rightarrow>
         (case GetByID (p_queue (panel_of s)) i of
            Inl _ \<Rightarrow> s
          | Inr j \<Rightarrow>
              if job_status j \<noteq> StatusSuccess \<and> job_status j \<noteq> StatusFailed then s
              else ApplyJobOutcome e s
                \<lparr>jo_sub = sub_id sub, jo_success = (job_status j = StatusSuccess), jo_error = job_error j\<rparr>))"

definition billingConverge :: "fleet benv \<Rightarrow> bworld \<Rightarrow> bworld" where
  "billingConverge e s =
    foldl (\<lambda>s st. foldl (converge_one e) s (ListInState (bs_db s) st 200)) s
      [StateProvisioning, StateSuspending, StateTerminating]"

definition recover_one :: "engine_env \<Rightarrow> bworld \<Rightarrow> subscription \<Rightarrow> bworld" where
  "recover_one en s sub =
    (let known = (case sub_job sub of None \<Rightarrow> False
                  | Some i \<Rightarrow> (case GetByID (p_queue (panel_of s)) i of Inl _ \<Rightarrow> False | Inr _ \<Rightarrow> True))
     in if known then s
        else case sub_product sub of
               None \<Rightarrow> s
             | Some pid \<Rightarrow> (case GetProduct (bs_db s) pid of
                             Inl _ \<Rightarrow> s | Inr p \<Rightarrow> fst (billingProvision en s sub p)))"

definition billingStalledRecovery :: "engine_env \<Rightarrow> bworld \<Rightarrow> bworld" where
  "billingStalledRecovery en s = foldl (recover_one en) s (ListInState (bs_db s) StateProvisioning 100)"

definition truth_one :: "fleet benv \<Rightarrow> bworld \<Rightarrow> subscription \<Rightarrow> bworld" where
  "truth_one e s sub =
    (case sub_website sub of
       None \<Rightarrow> s
     | Some i \<Rightarrow>
         (case GetByIDAny (p_sites (panel_of s)) i of
            Inl _ \<Rightarrow> s
          | Inr w \<Rightarrow> if site_status w = SiteDeleted
                     then fst (BeginTerminate e s sub ''workload deleted out-of-band'') else s))"

definition billingReconcileWorkloadTruth :: "fleet benv \<Rightarrow> bworld \<Rightarrow> bworld" where
  "billingReconcileWorkloadTruth e s = foldl (truth_one e) s (ListInState (bs_db s) StateActive 200)"

section \<open>The engines keep to the store\<close>

lemma with_panel_db [simp]: "bs_db (with_panel s p) = bs_db s"
  by (simp add: with_panel_def)

lemma panel_with [simp]: "panel_of (with_panel s p) = p"
  by (simp add: with_panel_def panel_of_def)

lemma bill_enqueue_db [simp]: "bs_db (fst (bill_enqueue en s srv site t w key)) = bs_db s"
  by (simp add: bill_enqueue_def Let_def)

lemma bill_enqueue_db_eq: "bill_enqueue en s srv site t w key = (s', r) \<Longrightarrow> bs_db s' = bs_db s"
  using bill_enqueue_db by (metis fst_conv)

lemma enforce_db [simp]: "bs_db (foldl (enforce_site en org) s ws) = bs_db s"
  by (induction ws arbitrary: s) (simp_all add: enforce_site_def split: option.splits)

lemma plan_db [simp]: "bs_db (fst (applyProductPlan en s org p)) = bs_db s"
  by (simp add: applyProductPlan_def split: option.splits prod.splits sum.splits)

lemma create_account_db [simp]: "bs_db (fst (create_account en s sub p)) = bs_db s"
  by (simp add: create_account_def Let_def split: sum.splits option.splits)

lemma provision_account_run: "bdb_run pg d0 (bs_db s) \<Longrightarrow> bdb_run pg d0 (bs_db (fst (provisionWebAccount en s sub p)))"
  unfolding provisionWebAccount_def
  by (rule andThen_run)
    (auto split: prod.splits dest: bill_enqueue_db_eq intro!: andThen_run db_do_run bdb_step.intros)

lemma on_workload_db:
  "(\<And>w. bs_db (fst (act w)) = bs_db s) \<Longrightarrow> bs_db (fst (on_workload s sub act)) = bs_db s"
  by (simp add: on_workload_def split: option.splits sum.splits)

lemma andThen_db: "bs_db (fst r) = d \<Longrightarrow> (\<And>s a. bs_db s = d \<Longrightarrow> bs_db (fst (f s a)) = d) \<Longrightarrow> bs_db (fst (andThen r f)) = d"
  by (rule andThen_fst [where P = "\<lambda>s. bs_db s = d"])

lemma engine_dbs:
  "bs_db (fst (billingSuspend en s sub)) = bs_db s"
  "bs_db (fst (billingResume en s sub)) = bs_db s"
  "bs_db (fst (billingTerminate en s sub)) = bs_db s"
  unfolding billingSuspend_def billingResume_def billingTerminate_def Let_def
  by (auto intro!: on_workload_db andThen_db)

interpretation panel_engines: workload_engines "newBillingService en e" for en e
proof unfold_locales
  show "bdb_run (e_pg (newBillingService en e)) (bs_db s) (bs_db (fst (f s sub p)))"
    if "e_provision (newBillingService en e) = Some f" for f s sub p
  proof -
    have "bdb_run (e_pg e) (bs_db s) (bs_db (fst (billingProvision en s sub p)))"
      unfolding billingProvision_def
      by (rule andThen_run) (auto intro: run_refl provision_account_run)
    then show ?thesis using that by (auto simp: newBillingService_def)
  qed
qed (auto simp: newBillingService_def engine_dbs intro: run_refl)


section \<open>What the engines leave alone\<close>

lemma sync_jobs [simp]: "q_jobs (sync p) = q_jobs (p_queue p)"
  by (simp add: sync_def)

lemma enqueue_keeps_dead:
  assumes "queue_ok (p_queue p)" and "GetByID (p_queue p) i = Inr j" and "\<not> job_live j"
  shows "GetByID (p_queue (fst (enqueue p now srv site t payload key))) i = Inr j"
proof -
  have j: "by_key job_id i (q_jobs (p_queue p)) = Some j"
    using assms(2) by (auto simp: GetByID_def split: option.splits)
  have add: "by_key job_id i (q_jobs (p_queue p) @ [k]) = Some j" for k
    using j by (simp add: by_key_append)
  have upd: "by_key job_id i (update_where (\<lambda>r. job_id r = job_id k) (\<lambda>r. r\<lparr>job_payload := js\<rparr>) (q_jobs (p_queue p))) = Some j"
    if "select_one (key_conflict key) (q_jobs (p_queue p)) = Some k" for k js
  proof -
    have k: "k \<in> set (q_jobs (p_queue p))" "job_live k"
      using select_someD [OF that] by (auto simp: key_conflict_def)
    have "job_id k \<noteq> i"
      using same_id_same_row [OF assms(1), of j k] by_key_Some [OF j] k assms(3) by auto
    then show ?thesis
      using j by (subst row_update.lookup_update [OF row_update.intro]) (auto dest: by_key_Some)
  qed
  show ?thesis
    using j add upd
    by (auto simp: enqueue_def Let_def EnqueueIdempotent_def insert_job_def GetByID_def split: option.splits)
qed

lemma bill_enqueue_world:
  "p_sites (panel_of (fst (bill_enqueue en s srv site t w key))) = p_sites (panel_of s)"
  "queue_ok (p_queue (panel_of s)) \<Longrightarrow> queue_ok (p_queue (panel_of (fst (bill_enqueue en s srv site t w key))))"
  "queue_ok (p_queue (panel_of s)) \<Longrightarrow> GetByID (p_queue (panel_of s)) i = Inr j \<Longrightarrow> \<not> job_live j \<Longrightarrow>
    GetByID (p_queue (panel_of (fst (bill_enqueue en s srv site t w key)))) i = Inr j"
  by (simp_all add: bill_enqueue_def Let_def enqueue_queue_ok enqueue_keeps_dead)

text \<open>\<open>quiet s s'\<close>: from \<open>s\<close> to \<open>s'\<close> only jobs were enqueued.\<close>

definition quiet :: "bworld \<Rightarrow> bworld \<Rightarrow> bool" where
  "quiet s s' \<longleftrightarrow> queue_ok (p_queue (panel_of s)) \<longrightarrow> queue_ok (p_queue (panel_of s'))
    \<and> p_sites (panel_of s') = p_sites (panel_of s)
    \<and> (\<forall>i j. GetByID (p_queue (panel_of s)) i = Inr j \<and> \<not> job_live j \<longrightarrow> GetByID (p_queue (panel_of s')) i = Inr j)"

lemma quiet_refl: "quiet s s"
  by (simp add: quiet_def)

lemma quiet_trans: "quiet a b \<Longrightarrow> quiet b c \<Longrightarrow> quiet a c"
  by (auto simp: quiet_def)

lemma quiet_enqueue: "quiet s (fst (bill_enqueue en s srv site t w key))"
  by (simp add: quiet_def bill_enqueue_world)

lemma quiet_andThen:
  "quiet s0 (fst r) \<Longrightarrow> (\<And>s a. quiet s0 s \<Longrightarrow> quiet s0 (fst (f s a))) \<Longrightarrow> quiet s0 (fst (andThen r f))"
  by (rule andThen_fst [where P = "quiet s0"])

lemma engines_quiet:
  "quiet s (fst (billingSuspend en s sub))" "quiet s (fst (billingTerminate en s sub))"
proof -
  show "quiet s (fst (billingSuspend en s sub))"
    unfolding billingSuspend_def on_workload_def
    by (auto split: option.splits sum.splits intro!: quiet_andThen quiet_refl quiet_enqueue)
  have step: "quiet s (fst (andThen (bill_enqueue en s2 srv site t w key) (\<lambda>s j. (s, Inr ()))))"
    if "quiet s s2" for s2 srv site t w key
    by (intro quiet_andThen quiet_trans [OF that quiet_enqueue]) simp
  show "quiet s (fst (billingTerminate en s sub))"
    unfolding billingTerminate_def on_workload_def Let_def
    by (auto split: option.splits sum.splits intro!: step intro: quiet_refl quiet_enqueue)
qed

section \<open>Properties of the engines\<close>

text \<open>The shared core: a subscription on its way out whose tracked job is an old finished one.\<close>

lemma converge_on_old_job:
  assumes "by_key sub_id (sub_id sub) (b_subs (bs_db s)) = Some sub" and "sub_job sub = Some i"
    and "GetByID (p_queue (panel_of s)) i = Inr j" and "job_status j = StatusSuccess"
    and "sub_state sub = StateSuspending \<and> to = StateSuspended \<or> sub_state sub = StateTerminating \<and> to = StateTerminated"
  shows "\<exists>r. by_key sub_id (sub_id sub) (b_subs (bs_db (converge_one e s sub))) = Some r \<and> sub_state r = to
    \<and> panel_of (converge_one e s sub) = panel_of s"
proof -
  have legal: "CanTransition StateSuspending StateSuspended" "CanTransition StateTerminating StateTerminated"
    by code_simp+
  have found: "GetSubscriptionAny (bs_db s) (sub_id sub) = Inr sub" using assms(1) by (simp add: GetSubscriptionAny_def)
  define why where "why = (if to = StateSuspended then ''suspend job succeeded'' else ''terminate job succeeded'')"
  have "converge_one e s sub = fst (Transition e s sub to why)"
    using assms found by (auto simp: converge_one_def ApplyJobOutcome_def why_def)
  moreover obtain s' row where "Transition e s sub to why = (s', Inr (True, row))"
      "by_key sub_id (sub_id sub) (b_subs (bs_db s')) = Some row" "sub_state row = to" "bs_world s' = bs_world s"
    using Transition_legal [OF assms(1), of to e why] assms(5) legal by (auto simp: transition_row_def)
  ultimately show ?thesis by (auto simp: panel_of_def)
qed

lemma begin_keeps_job:
  assumes "by_key sub_id (sub_id sub) (b_subs (bs_db s)) = Some sub" and "sub_state sub = StateActive"
    and "queue_ok (p_queue (panel_of s))" and "GetByID (p_queue (panel_of s)) i = Inr j" and "\<not> job_live j"
    and "to = StateSuspending \<or> to = StateTerminating"
    and "andThen (Transition e s sub to reason) (\<lambda>s _. run_engine (Some eng) s sub) = (s1, Inr ())"
    and "\<And>s. bs_db (fst (eng s sub)) = bs_db s" and "\<And>s. quiet s (fst (eng s sub))"
  shows "\<exists>r. by_key sub_id (sub_id sub) (b_subs (bs_db s1)) = Some r \<and> sub_state r = to \<and> sub_job r = sub_job sub
    \<and> sub_id r = sub_id sub \<and> GetByID (p_queue (panel_of s1)) i = Inr j \<and> p_sites (panel_of s1) = p_sites (panel_of s)"
proof -
  have legal: "CanTransition StateActive StateSuspending" "CanTransition StateActive StateTerminating" by code_simp+
  obtain s' row where t: "Transition e s sub to reason = (s', Inr (True, row))"
    and row: "by_key sub_id (sub_id sub) (b_subs (bs_db s')) = Some row" "sub_state row = to"
      "sub_job row = sub_job sub" "sub_id row = sub_id sub" "bs_world s' = bs_world s"
    using Transition_legal [OF assms(1), of to e reason] assms(2,6) legal by (auto simp: transition_row_def)
  have s1: "s1 = fst (eng s' sub)" using assms(7) by (simp add: t run_engine_def)
  show ?thesis
    using row assms(3-5) assms(8) [of s'] assms(9) [of s'] unfolding s1
    by (auto simp: quiet_def panel_of_def)
qed

text \<open>The convergence loop believes the wrong job. Suspending or terminating an active
  subscription does not record the new job on it, so the job it tracks is still the finished
  provisioning job, and the next pass of the loop declares the subscription SUSPENDED or
  TERMINATED at once: before any agent has run the suspend or delete job, with every website
  exactly as it was.\<close>

theorem convergence_believes_old_job:
  assumes "by_key sub_id (sub_id sub) (b_subs (bs_db s)) = Some sub" and "sub_state sub = StateActive"
    and "sub_job sub = Some i" and "GetByID (p_queue (panel_of s)) i = Inr j" and "job_status j = StatusSuccess"
    and "queue_ok (p_queue (panel_of s))"
    and "BeginSuspend (newBillingService en e) s sub reason = (s1, Inr ()) \<and> to = StateSuspended
      \<or> BeginTerminate (newBillingService en e) s sub reason = (s1, Inr ()) \<and> to = StateTerminated"
    and "by_key sub_id (sub_id sub) (b_subs (bs_db s1)) = Some now"
    and "s2 = converge_one (newBillingService en e) s1 now"
  shows "\<exists>r. by_key sub_id (sub_id sub) (b_subs (bs_db s2)) = Some r \<and> sub_state r = to
    \<and> p_sites (panel_of s2) = p_sites (panel_of s)"
proof -
  have dead: "\<not> job_live j" using assms(5) by (simp add: job_live_def)
  have "\<exists>from. (from = StateSuspending \<and> to = StateSuspended \<or> from = StateTerminating \<and> to = StateTerminated)
      \<and> sub_state now = from \<and> sub_job now = Some i \<and> sub_id now = sub_id sub
      \<and> GetByID (p_queue (panel_of s1)) i = Inr j \<and> p_sites (panel_of s1) = p_sites (panel_of s)"
    using assms(7)
  proof (elim disjE conjE)
    assume "BeginSuspend (newBillingService en e) s sub reason = (s1, Inr ())" "to = StateSuspended"
    then show ?thesis
      using begin_keeps_job [OF assms(1,2,6,4) dead, of StateSuspending _ reason "billingSuspend en" s1]
        engine_dbs engines_quiet assms(3,8)
      by (fastforce simp: BeginSuspend_def newBillingService_def)
  next
    assume "BeginTerminate (newBillingService en e) s sub reason = (s1, Inr ())" "to = StateTerminated"
    then show ?thesis
      using begin_keeps_job [OF assms(1,2,6,4) dead, of StateTerminating _ reason "billingTerminate en" s1]
        engine_dbs engines_quiet assms(3,8)
      by (fastforce simp: BeginTerminate_def newBillingService_def)
  qed
  then show ?thesis
    using converge_on_old_job [of now s1 i j to "newBillingService en e"] assms(5,8,9) by auto
qed

text \<open>A sample fleet: one ready website whose provisioning job 5 succeeded, and the active
  subscription that tracks it.\<close>

definition shop_engines :: engine_env where
  "shop_engines = \<lparr>en_now = 9, en_us = nat_str, en_parse = (\<lambda>s. None), en_encode = (\<lambda>b. Some ''{}''),
     en_config = (\<lambda>c k. None), en_pick = (\<lambda>f r v. Some 7), en_actor = (\<lambda>f u. 9), en_fpm = (\<lambda>f u. (None, None)),
     en_enforce = (\<lambda>f a b. None), en_guard = (\<lambda>w. True)\<rparr>"

definition shop_env :: "fleet benv" where
  "shop_env = \<lparr>e_now = 9, e_registry = default_registry (\<lambda>s. s) (\<lambda>k b. k @ b) (\<lambda>b. None),
     e_settings = None, e_audit = True, e_events = True, e_pg = (\<lambda>p t. AddPeriod t p), e_us = nat_str,
     e_parse = (\<lambda>s. None), e_open = (\<lambda>t. Some t), e_text = (\<lambda>x. ''error''), e_gw_text = (\<lambda>x. ''error''),
     e_webhook_key = [], e_provision = None, e_suspend = None, e_resume = None, e_terminate = None\<rparr>"

definition shop_job :: job where
  "shop_job = \<lparr>job_id = 5, job_server = 7, job_website = Some 1, job_type_of = TypeProvisionWebsite,
     job_status = StatusSuccess, job_payload = ''{}'', job_result = ''{}'', job_error = [], job_progress = 100,
     job_step = [], job_attempts = 1, job_max = 3, job_key = Some ''billingprovision-2'', job_claimed_at = Some 1,
     job_lease = None, job_finished_at = Some 2, job_created_at = 0, job_visible_after = 0\<rparr>"

definition shop_panel :: panel where
  "shop_panel = (sample_panel SiteReady)\<lparr>p_queue := \<lparr>q_jobs = [shop_job], q_servers = [(7, False)],
     q_sites = [], q_next = 6\<rparr>\<rparr>"

definition shop_sub :: subscription where
  "shop_sub = \<lparr>sub_id = 2, sub_customer = 8, sub_org = 3, sub_plan = None, sub_product = Some 9,
     sub_status = ''active'', sub_state = StateActive, sub_period = PeriodMonthly, sub_start = 0, sub_end = 100,
     sub_cancel = False, sub_changed = 0, sub_kind = ''web_account'', sub_website = Some 1, sub_grace = None,
     sub_anchor = None, sub_invoice = None, sub_job = Some 5, sub_error = [], sub_attempts = 1, sub_created = 0\<rparr>"

definition shop :: bworld where
  "shop = \<lparr>bs_db = empty_bdb\<lparr>b_products := [demo_product], b_subs := [shop_sub], b_next := 10\<rparr>, bs_log = [],
     bs_world = \<lparr>f_panel = shop_panel, f_orgs = [(3, None)], f_packages = [], f_servers = [7]\<rparr>\<rparr>"

lemma shop_ok: "queue_ok (p_queue (panel_of shop))"
  by (simp add: shop_def panel_of_def shop_panel_def queue_ok_def shop_job_def job_ok_def live_keys_def job_live_def)

lemma convergence_believes_old_job_witness:
  "let s1 = fst (BeginSuspend (newBillingService shop_engines shop_env) shop shop_sub ''unpaid'');
       now = hd (b_subs (bs_db s1)); s2 = converge_one (newBillingService shop_engines shop_env) s1 now
   in \<exists>r. by_key sub_id 2 (b_subs (bs_db s2)) = Some r \<and> sub_state r = StateSuspended
        \<and> p_sites (panel_of s2) = p_sites (panel_of shop)"
proof -
  let ?r = "BeginSuspend (newBillingService shop_engines shop_env) shop shop_sub ''unpaid''"
  have "snd ?r = Inr ()" "by_key sub_id 2 (b_subs (bs_db (fst ?r))) = Some (hd (b_subs (bs_db (fst ?r))))"
    by code_simp+
  then have r: "?r = (fst ?r, Inr ())" by (cases ?r) simp
  have facts: "by_key sub_id (sub_id shop_sub) (b_subs (bs_db shop)) = Some shop_sub" "sub_state shop_sub = StateActive"
    "sub_job shop_sub = Some 5" "GetByID (p_queue (panel_of shop)) 5 = Inr shop_job"
    "job_status shop_job = StatusSuccess" "sub_id shop_sub = 2"
    by code_simp+
  show ?thesis unfolding Let_def
    using convergence_believes_old_job [OF facts(1-5) shop_ok _ _ refl, of shop_engines shop_env "''unpaid''" "fst ?r"
        StateSuspended "hd (b_subs (bs_db (fst ?r)))"]
      r facts(6) \<open>by_key sub_id 2 (b_subs (bs_db (fst ?r))) = Some (hd (b_subs (bs_db (fst ?r))))\<close> by auto
qed

end
