(* ===== verification/BillingApi.thy ===== *)
theory BillingApi
  imports BillingEngine
begin

text \<open>
  The billing endpoints, \<open>internal/api/phase10_billing.go\<close>: the mutating customer, admin
  and webhook handlers over the billing service wired to the control plane. A path
  identifier is \<open>None\<close> when \<open>uuid.Parse\<close> refuses it, a body is \<open>None\<close> when it is not the
  expected JSON; the role check of the router comes before and is not modelled here. The
  endpoints and the three loops together are the steps of the running billing system.
\<close>

section \<open>Customer endpoints\<close>

datatype api_err = ApiValidation | ApiNotFound | ApiConflict | ApiInternal | ApiForbidden | ApiUnauthorized

text \<open>An error of the service is answered with a status; the state stays as the service
  left it.\<close>

definition answer :: "'s \<times> (bill_err + 'a) \<Rightarrow> (bill_err \<Rightarrow> api_err) \<Rightarrow> ('s \<Rightarrow> 'a \<Rightarrow> 's \<times> (api_err + 'b)) \<Rightarrow> 's \<times> (api_err + 'b)" where
  "answer r err f = (case r of (s, Inl e) \<Rightarrow> (s, Inl (err e)) | (s, Inr a) \<Rightarrow> f s a)"

definition found_or :: "api_err \<Rightarrow> bill_err \<Rightarrow> api_err" where
  "found_or other e = (if e = BillNotFound then ApiNotFound else other)"

definition cancelSubscription ::
    "fleet benv \<Rightarrow> bworld \<Rightarrow> uid \<Rightarrow> uid option \<Rightarrow> bworld \<times> (api_err + unit)" where
  "cancelSubscription e s org idp =
    (case idp of
       None \<Rightarrow> (s, Inl ApiValidation)
     | Some i \<Rightarrow> answer (db_do s (\<lambda>d. SetSubscriptionCancelFlag d org i True)) (found_or ApiInternal)
                  (\<lambda>s _. (audit e s ''billing.subscription_cancel_requested'' i True, Inr ())))"

definition createOrder ::
    "fleet benv \<Rightarrow> bworld \<Rightarrow> uid \<Rightarrow> (uid option \<times> string \<times> string) option \<Rightarrow> bworld \<times> (api_err + order \<times> subscription)" where
  "createOrder e s org body =
    (case body of
       Some (Some product, period, prov) \<Rightarrow>
         answer (Checkout e s \<lparr>ci_org = org, ci_product = product, ci_period = period, ci_provider = prov\<rparr>)
           (found_or ApiValidation)
           (\<lambda>s r. (audit e s ''billing.order_created'' (order_id (fst r)) True, Inr r))
     | _ \<Rightarrow> (s, Inl ApiValidation))"

definition order_event :: "fleet benv \<Rightarrow> order \<Rightarrow> string" where
  "order_event e ord = ''order:'' @ e_us e (order_id ord)"

definition payOrder ::
    "fleet benv \<Rightarrow> bworld \<Rightarrow> uid \<Rightarrow> uid option \<Rightarrow> string option
      \<Rightarrow> bworld \<times> (api_err + order \<times> subscription \<times> bool)" where
  "payOrder e s org idp body =
    (case (idp, body) of
       (Some oid, Some ref) \<Rightarrow>
         answer (db_get s (\<lambda>d. GetOrder d org oid)) (found_or ApiInternal) (\<lambda>s ord.
           if order_status ord \<noteq> OrderPending then (s, Inl ApiConflict)
           else case order_sub ord of
                  None \<Rightarrow> (s, Inl ApiInternal)
                | Some sid \<Rightarrow>
                    answer (db_get s (\<lambda>d. GetSubscriptionAny d sid)) (\<lambda>_. ApiInternal) (\<lambda>s sub.
                      let method = (if ref = [] then storedMethodToken e (bs_db s) org else ref) in
                      if method = [] then (s, Inl ApiValidation)
                      else
                        answer (CaptureForOrder e s ord sub method (order_event e ord) InvoiceKindPurchase)
                          (\<lambda>_. ApiConflict) (\<lambda>s replayed.
                          answer (db_get s (\<lambda>d. GetSubscriptionAny d (sub_id sub))) (\<lambda>_. ApiInternal) (\<lambda>s updated.
                            let s = audit e s ''billing.order_paid'' (order_id ord) True in
                            answer (db_get s (\<lambda>d. GetOrder d org (order_id ord))) (\<lambda>_. ApiInternal)
                              (\<lambda>s paid. (s, Inr (paid, updated, replayed)))))))
     | _ \<Rightarrow> (s, Inl ApiValidation))"

text \<open>\<open>seal\<close> is \<open>secretbox.Encrypt\<close> and base64.\<close>

definition putPaymentMethod ::
    "fleet benv \<Rightarrow> (string \<Rightarrow> string option) \<Rightarrow> bworld \<Rightarrow> uid \<Rightarrow> payment_method option \<Rightarrow> bworld \<times> (api_err + unit)" where
  "putPaymentMethod e seal s org body =
    (case body of
       None \<Rightarrow> (s, Inl ApiValidation)
     | Some req \<Rightarrow>
         let prov = (if pm_provider req = [] then ''manual'' else pm_provider req) in
         if isl (ProviderFor (e_registry e) prov) then (s, Inl ApiValidation)
         else if length (pm_token req) > 512 then (s, Inl ApiValidation)
         else answer (db_do s (\<lambda>d. EnsureCustomer d org ''USD'')) (\<lambda>_. ApiInternal) (\<lambda>s _.
                case seal (pm_token req) of
                  None \<Rightarrow> (s, Inl ApiInternal)
                | Some enc \<Rightarrow>
                    answer (db_do s (\<lambda>d. SetPaymentMethod d org (req\<lparr>pm_provider := prov, pm_token := enc\<rparr>)))
                      (\<lambda>_. ApiInternal)
                      (\<lambda>s _. (audit e s ''billing.payment_method_updated'' nil_uid True, Inr ()))))"

definition payInvoice ::
    "fleet benv \<Rightarrow> bworld \<Rightarrow> uid \<Rightarrow> uid option \<Rightarrow> (string \<times> string) option \<Rightarrow> bworld \<times> (api_err + invoice)" where
  "payInvoice e s org idp body =
    (case (idp, body) of
       (Some i, Some (ref, prov)) \<Rightarrow>
         answer (PayInvoice e s org i ref prov)
           (\<lambda>err. if err = BillInvoiceState then ApiConflict else found_or ApiConflict err)
           (\<lambda>s bill. (audit e s ''billing.invoice_pay_requested'' (inv_id bill) True, Inr bill))
     | _ \<Rightarrow> (s, Inl ApiValidation))"

section \<open>Admin endpoints\<close>

record product_request =
  rq_name :: string
  rq_type :: string
  rq_desc :: string
  rq_plan :: string
  rq_price :: "i64 option"
  rq_currency :: string
  rq_active :: "bool option"
  rq_config :: "string option"

definition parseOptUUID :: "fleet benv \<Rightarrow> string \<Rightarrow> uid option" where
  "parseOptUUID e str = (if str = [] then None else e_parse e str)"

definition adminCreateProduct ::
    "fleet benv \<Rightarrow> bworld \<Rightarrow> product_request option \<Rightarrow> bworld \<times> (api_err + product)" where
  "adminCreateProduct e s body =
    (case body of
       None \<Rightarrow> (s, Inl ApiValidation)
     | Some r \<Rightarrow>
         let price = (case rq_price r of None \<Rightarrow> 0 | Some n \<Rightarrow> n) in
         if rq_type r \<noteq> ''hosting'' \<and> rq_type r \<noteq> ''service'' then (s, Inl ApiValidation)
         else if rq_name r = [] then (s, Inl ApiValidation)
         else if sint price < 0 then (s, Inl ApiValidation)
         else answer (db_do s (\<lambda>d. CreateProduct d
                \<lparr>pin_name = rq_name r, pin_type = rq_type r, pin_desc = rq_desc r,
                 pin_plan = parseOptUUID e (rq_plan r), pin_price = price,
                 pin_currency = (if rq_currency r = [] then ''USD'' else rq_currency r),
                 pin_active = (case rq_active r of None \<Rightarrow> True | Some b \<Rightarrow> b), pin_config = rq_config r\<rparr>))
                (\<lambda>_. ApiInternal) (\<lambda>s p. (audit e s ''billing.product_created'' (pr_id p) True, Inr p)))"

definition adminUpdateProduct ::
    "fleet benv \<Rightarrow> bworld \<Rightarrow> uid option \<Rightarrow> product_request option \<Rightarrow> bworld \<times> (api_err + product)" where
  "adminUpdateProduct e s idp body =
    (case idp of
       None \<Rightarrow> (s, Inl ApiValidation)
     | Some i \<Rightarrow>
         answer (db_get s (\<lambda>d. GetProduct d i)) (found_or ApiInternal) (\<lambda>s cur.
           case body of
             None \<Rightarrow> (s, Inl ApiValidation)
           | Some r \<Rightarrow>
               let price = (case rq_price r of None \<Rightarrow> pr_price cur | Some n \<Rightarrow> n) in
               if rq_price r \<noteq> None \<and> sint price < 0 then (s, Inl ApiValidation)
               else answer (db_do s (\<lambda>d. UpdateProduct d i
                      \<lparr>pin_name = pr_name cur, pin_type = pr_type cur,
                       pin_desc = (if rq_desc r \<noteq> [] then rq_desc r else pr_desc cur),
                       pin_plan = (if rq_plan r \<noteq> [] then parseOptUUID e (rq_plan r) else pr_plan cur),
                       pin_price = price,
                       pin_currency = (if rq_currency r \<noteq> [] then rq_currency r else pr_currency cur),
                       pin_active = (case rq_active r of None \<Rightarrow> pr_active cur | Some b \<Rightarrow> b),
                       pin_config = rq_config r\<rparr>))
                      (\<lambda>_. ApiInternal) (\<lambda>s p. (audit e s ''billing.product_updated'' i True, Inr p))))"

definition manual_invoice :: "uid \<Rightarrow> string \<Rightarrow> i64 \<Rightarrow> string \<Rightarrow> invoice_input" where
  "manual_invoice cust desc amount currency =
    \<lparr>ii_customer = cust, ii_sub = None, ii_kind = InvoiceKindManual, ii_currency = currency,
     ii_subtotal = amount, ii_tax = 0,
     ii_lines = [\<lparr>li_desc = desc, li_quantity = 1, li_unit = amount, li_total = amount\<rparr>], ii_due = 0\<rparr>"

definition adminIssueInvoice ::
    "fleet benv \<Rightarrow> bworld \<Rightarrow> (uid option \<times> string \<times> i64 \<times> string) option \<Rightarrow> bworld \<times> (api_err + invoice)" where
  "adminIssueInvoice e s body =
    (case body of
       Some (Some org, desc, amount, cur) \<Rightarrow>
         if \<not> ValidateMinorUnit amount then (s, Inl ApiValidation)
         else let currency = (if cur = [] then ''USD'' else cur) in
           answer (db_do s (\<lambda>d. EnsureCustomer d org currency)) (\<lambda>_. ApiInternal) (\<lambda>s cust.
           answer (db_do s (\<lambda>d. IssueInvoice d (e_now e) (manual_invoice (cust_id cust) desc amount currency)))
             (\<lambda>_. ApiInternal)
             (\<lambda>s bill. (audit e s ''billing.invoice_issued'' (inv_id bill) True, Inr bill)))
     | _ \<Rightarrow> (s, Inl ApiValidation))"

definition adminVoidInvoice :: "fleet benv \<Rightarrow> bworld \<Rightarrow> uid option \<Rightarrow> bworld \<times> (api_err + unit)" where
  "adminVoidInvoice e s idp =
    (case idp of
       None \<Rightarrow> (s, Inl ApiValidation)
     | Some i \<Rightarrow> answer (db_do s (\<lambda>d. VoidInvoice d i))
                  (\<lambda>err. if err = BillInvoiceState then ApiConflict else found_or ApiInternal err)
                  (\<lambda>s _. (audit e s ''billing.invoice_voided'' i True, Inr ())))"

definition transition_conflict :: "bill_err \<Rightarrow> api_err" where
  "transition_conflict err = (case err of BillTransition _ _ _ \<Rightarrow> ApiConflict | _ \<Rightarrow> ApiInternal)"

definition adminRetrySubscription ::
    "fleet benv \<Rightarrow> bworld \<Rightarrow> uid option \<Rightarrow> string option \<Rightarrow> bworld \<times> (api_err + unit)" where
  "adminRetrySubscription e s idp body =
    (case (idp, body) of
       (Some i, Some action) \<Rightarrow>
         answer (db_get s (\<lambda>d. GetSubscriptionAny d i)) (found_or ApiInternal) (\<lambda>s sub.
           if action \<notin> {[], ''provision'', ''suspend'', ''terminate''} then (s, Inl ApiValidation)
           else let done' = (\<lambda>s (_::unit). (audit e s ''billing.subscription_retry'' i True, Inr ())) in
             if action = ''suspend''
             then answer (BeginSuspend e s sub ''admin retry of suspend'') (\<lambda>_. ApiConflict) done'
             else if action = ''terminate''
             then answer (BeginTerminate e s sub ''admin retry of terminate'') (\<lambda>_. ApiConflict) done'
             else answer (ManualRetry e s sub) transition_conflict done')
     | _ \<Rightarrow> (s, Inl ApiValidation))"

definition adminTerminateSubscription ::
    "fleet benv \<Rightarrow> bworld \<Rightarrow> uid option \<Rightarrow> string option \<Rightarrow> bworld \<times> (api_err + unit)" where
  "adminTerminateSubscription e s idp body =
    (case (idp, body) of
       (Some i, Some reason) \<Rightarrow>
         answer (db_get s (\<lambda>d. GetSubscriptionAny d i)) (found_or ApiInternal) (\<lambda>s sub.
         answer (BeginTerminate e s sub (''admin terminate: '' @ reason)) transition_conflict
           (\<lambda>s _. (audit e s ''billing.subscription_terminate_requested'' i True, Inr ())))
     | _ \<Rightarrow> (s, Inl ApiValidation))"

section \<open>The webhook endpoint\<close>

text \<open>The body is read up to one mebibyte.\<close>

definition webhook ::
    "fleet benv \<Rightarrow> bworld \<Rightarrow> string \<Rightarrow> (string \<Rightarrow> string) \<Rightarrow> string option \<Rightarrow> bworld \<times> (api_err + webhook_event \<times> bool)" where
  "webhook e s name header stream =
    (let secret = WebhookSecret e in
     if secret = [] then (s, Inl ApiForbidden)
     else case stream of
            None \<Rightarrow> (s, Inl ApiValidation)
          | Some raw \<Rightarrow>
              (case HandleWebhook e s name secret header (take 1048576 raw) of
                 (s, Inl _) \<Rightarrow> (audit e s ''billing.webhook_rejected'' nil_uid True, Inl ApiUnauthorized)
               | (s, Inr r) \<Rightarrow> (s, Inr r)))"


section \<open>The running system\<close>

text \<open>One step is one request, one pass of a loop, or any change outside the billing tables
  (agents, lifecycle requests, the other engines). Clock, settings, gateways and placement
  may differ at every step; only the database's interval arithmetic \<open>pg\<close> stays.\<close>

inductive api_step :: "(string \<Rightarrow> time \<Rightarrow> time) \<Rightarrow> bworld \<Rightarrow> bworld \<Rightarrow> bool" for pg where
  a_other: "bs_db s' = bs_db s \<Longrightarrow> api_step pg s s'"
| a_cancel: "api_step pg s (fst (cancelSubscription e s org i))"
| a_order: "api_step pg s (fst (createOrder e s org body1))"
| a_pay: "e_pg e = pg \<Longrightarrow> api_step pg s (fst (payOrder (newBillingService en e) s org i body2))"
| a_method: "api_step pg s (fst (putPaymentMethod e seal s org body3))"
| a_payinv: "e_pg e = pg \<Longrightarrow> api_step pg s (fst (payInvoice (newBillingService en e) s org i body4))"
| a_product: "api_step pg s (fst (adminCreateProduct e s body5))"
| a_product_upd: "api_step pg s (fst (adminUpdateProduct e s i body5))"
| a_issue: "api_step pg s (fst (adminIssueInvoice e s body6))"
| a_void: "api_step pg s (fst (adminVoidInvoice e s i))"
| a_retry: "e_pg e = pg \<Longrightarrow> api_step pg s (fst (adminRetrySubscription (newBillingService en e) s i body2))"
| a_terminate: "e_pg e = pg \<Longrightarrow> api_step pg s (fst (adminTerminateSubscription (newBillingService en e) s i body2))"
| a_webhook: "e_pg e = pg \<Longrightarrow> api_step pg s (fst (webhook (newBillingService en e) s name header stream))"
| a_activate: "e_pg e = pg \<Longrightarrow> api_step pg s (fst (PayAndActivate (newBillingService en e) s inp method event))"
| a_renewals: "e_pg e = pg \<Longrightarrow> api_step pg s (RunRenewals (newBillingService en e) s)"
| a_converge: "api_step pg s (billingConverge e s)"
| a_recovery: "api_step pg s (billingStalledRecovery en s)"
| a_truth: "e_pg e = pg \<Longrightarrow> api_step pg s (billingReconcileWorkloadTruth (newBillingService en e) s)"

lemma answer_run:
  "bdb_run pg d0 (bs_db (fst r)) \<Longrightarrow>
    (\<And>s a. r = (s, Inr a) \<Longrightarrow> bdb_run pg d0 (bs_db s) \<Longrightarrow> bdb_run pg d0 (bs_db (fst (f s a)))) \<Longrightarrow>
    bdb_run pg d0 (bs_db (fst (answer r err f)))"
  by (cases r; cases "snd r") (auto simp: answer_def)

lemma answer_get_run:
  "(\<And>a. bdb_run pg d0 (bs_db (fst (f s a)))) \<Longrightarrow> bdb_run pg d0 (bs_db s) \<Longrightarrow>
    bdb_run pg d0 (bs_db (fst (answer (db_get s g) err f)))"
  by (rule answer_run) (auto simp: db_get_eq)

lemma foldl_run:
  "(\<And>s x. bdb_run pg d0 (bs_db s) \<Longrightarrow> bdb_run pg d0 (bs_db (f s x))) \<Longrightarrow> bdb_run pg d0 (bs_db s) \<Longrightarrow>
    bdb_run pg d0 (bs_db (foldl f s xs))"
  by (induction xs arbitrary: s) auto

lemmas service_runs = panel_engines.CaptureForOrder_run panel_engines.PayAndActivate_run
  panel_engines.HandleWebhook_run panel_engines.BeginSuspend_run panel_engines.BeginTerminate_run
  panel_engines.ManualRetry_run panel_engines.RunRenewals_run panel_engines.PayInvoice_run

lemma service_pg [simp]: "e_pg (newBillingService en e) = e_pg e"
  by (simp add: newBillingService_def)

lemmas service_steps = service_runs [unfolded service_pg]

lemma payOrder_run:
  assumes "bdb_run (e_pg e) d0 (bs_db s)"
  shows "bdb_run (e_pg e) d0 (bs_db (fst (payOrder (newBillingService en e) s org i body)))"
  unfolding payOrder_def Let_def
  using assms by (auto split: option.splits intro!: answer_get_run answer_run service_steps)

lemma webhook_run:
  assumes "bdb_run (e_pg e) d0 (bs_db s)"
  shows "bdb_run (e_pg e) d0 (bs_db (fst (webhook (newBillingService en e) s name header stream)))"
proof (cases "WebhookSecret (newBillingService en e) = [] \<or> stream = None")
  case True
  then show ?thesis using assms by (auto simp: webhook_def Let_def)
next
  case False
  then obtain raw where "stream = Some raw" by auto
  let ?r = "HandleWebhook (newBillingService en e) s name (WebhookSecret (newBillingService en e)) header (take 1048576 raw)"
  have "bs_db (fst (webhook (newBillingService en e) s name header stream)) = bs_db (fst ?r)"
    using False \<open>stream = Some raw\<close> by (cases ?r; cases "snd ?r") (auto simp: webhook_def Let_def)
  then show ?thesis using service_steps(3) [OF assms] by simp
qed

lemma provision_run: "bdb_run pg d0 (bs_db s) \<Longrightarrow> bdb_run pg d0 (bs_db (fst (billingProvision en s sub p)))"
  unfolding billingProvision_def by (rule andThen_run) (auto intro: provision_account_run)

lemma api_step_run: "api_step pg s s' \<Longrightarrow> bdb_run pg (bs_db s) (bs_db s')"
proof (induction rule: api_step.induct)
  case (a_other s' s)
  then show ?case by (simp add: run_refl)
next
  case (a_cancel s e org i)
  show ?case
    by (auto simp: cancelSubscription_def split: option.splits intro!: answer_run db_do_run bdb_step.intros run_refl)
next
  case (a_order s e org body)
  show ?case
    by (auto simp: createOrder_def split: option.splits intro!: answer_run Checkout_run run_refl)
next
  case (a_pay e s en org i body)
  then show ?case using payOrder_run run_refl by blast
next
  case (a_method s e seal org body)
  show ?case
    by (auto simp: putPaymentMethod_def Let_def split: option.splits
        intro!: answer_run db_do_run bdb_step.intros run_refl)
next
  case (a_payinv e s en org i body)
  then show ?case
    by (auto simp: payInvoice_def split: option.splits intro!: answer_run service_steps run_refl)
next
  case (a_product s e body)
  show ?case
    by (auto simp: adminCreateProduct_def Let_def split: option.splits
        intro!: answer_run db_do_run bdb_step.intros run_refl)
next
  case (a_product_upd s e i body)
  show ?case
    by (auto simp: adminUpdateProduct_def Let_def split: option.splits
        intro!: answer_get_run answer_run db_do_run bdb_step.intros run_refl)
next
  case (a_issue s e body)
  show ?case
    by (auto simp: adminIssueInvoice_def Let_def split: option.splits
        intro!: answer_run db_do_run bdb_step.intros run_refl)
next
  case (a_void s e i)
  show ?case
    by (auto simp: adminVoidInvoice_def split: option.splits intro!: answer_run db_do_run bdb_step.intros run_refl)
next
  case (a_retry e s en i body)
  then show ?case
    by (auto simp: adminRetrySubscription_def Let_def split: option.splits
        intro!: answer_get_run answer_run service_steps run_refl)
next
  case (a_terminate e s en i body)
  then show ?case
    by (auto simp: adminTerminateSubscription_def split: option.splits
        intro!: answer_get_run answer_run service_steps run_refl)
next
  case (a_webhook e s en name header stream)
  then show ?case using webhook_run run_refl by blast
next
  case (a_activate e s en inp meth ev)
  then show ?case by (auto intro: service_steps run_refl)
next
  case (a_renewals e s en)
  then show ?case by (auto intro: service_steps run_refl)
next
  case (a_converge s e)
  show ?case
    by (auto simp: billingConverge_def converge_one_def split: option.splits sum.splits
        intro!: foldl_run ApplyJobOutcome_run run_refl)
next
  case (a_recovery s en)
  show ?case
    by (auto simp: billingStalledRecovery_def recover_one_def Let_def split: option.splits sum.splits
        intro!: foldl_run provision_run run_refl)
next
  case (a_truth e s en)
  then show ?case
    by (auto simp: billingReconcileWorkloadTruth_def truth_one_def split: option.splits sum.splits
        intro!: foldl_run service_steps run_refl)
qed

text \<open>C10: The books are safe under every request and loop of the billing system, in any order
  and with any gateway, engine result and clock: from well-formed tables, no sequence of
  endpoint calls, webhooks, renewals and convergence passes leaves them ill-formed, alters
  an issued invoice's money, unpays an order, drops a payment, or moves a subscription off
  the edges of its state machine.\<close>

theorem billing_system_safe:
  assumes "(api_step pg)\<^sup>*\<^sup>* s s'" and "bdb_ok (bs_db s)"
  shows "bdb_ok (bs_db s') \<and> bdb_hist (bs_db s) (bs_db s')"
proof -
  have "bdb_run pg (bs_db s) (bs_db s')"
    using assms(1) by (induction rule: rtranclp_induct) (auto intro: run_refl run_trans api_step_run)
  then show ?thesis using run_ok run_hist assms(2) by blast
qed

lemma billing_system_safe_witness:
  "let s = fst (createOrder shop_env (shop\<lparr>bs_db := empty_bdb\<lparr>b_products := [demo_product], b_next := 10\<rparr>\<rparr>) 3
       (Some (Some 9, PeriodMonthly, ''fake'')))
   in bdb_ok (bs_db s) \<and> bdb_hist (empty_bdb\<lparr>b_products := [demo_product], b_next := 10\<rparr>) (bs_db s)"
proof -
  let ?d = "empty_bdb\<lparr>b_products := [demo_product], b_next := 10\<rparr>"
  have "api_step (e_pg shop_env) (shop\<lparr>bs_db := ?d\<rparr>)
      (fst (createOrder shop_env (shop\<lparr>bs_db := ?d\<rparr>) 3 (Some (Some 9, PeriodMonthly, ''fake''))))"
    by (rule a_order)
  moreover have "bdb_ok ?d" using demo_state_ok by (simp add: demo_state_def)
  ultimately show ?thesis unfolding Let_def
    using billing_system_safe [OF r_into_rtranclp, of "e_pg shop_env" "shop\<lparr>bs_db := ?d\<rparr>"] by simp
qed

end
