(* ===== verification/BandwidthLog.thy ===== *)
theory BandwidthLog
  imports GoStrings GoTime "HOL-Library.Monad_Syntax"
begin

text \<open>
  The records of the platform's accounting log and the recalculation from the raw log:
  \<open>parseBWRecord\<close> of \<open>internal/agent/bwtail.go\<close>, \<open>bwMonth\<close> of \<open>bw_state.go\<close> and the scan of
  \<open>recalc.go\<close>. \<open>time.Parse\<close> on the RFC 3339 layout is written out, with the leniency of Go's
  general parser (an hour of one digit, a comma before the fraction, offsets up to 24:60).
  The UUID parser of the third-party package is the parameter \<open>ok_uuid\<close>.
\<close>

section \<open>\<open>time.Parse(time.RFC3339, s)\<close>\<close>

definition literal :: "char \<Rightarrow> string \<Rightarrow> string option" where
  "literal c s = (case s of [] \<Rightarrow> None | x # t \<Rightarrow> if x = c then Some t else None)"

definition four_digits :: "string \<Rightarrow> (nat \<times> string) option" where
  "four_digits s = (if 4 \<le> length s \<and> list_all is_digit (take 4 s) then Some (digits_val 0 (take 4 s), drop 4 s) else None)"

definition two_digits :: "string \<Rightarrow> (nat \<times> string) option" where
  "two_digits s = (if 2 \<le> length s \<and> list_all is_digit (take 2 s) then Some (digits_val 0 (take 2 s), drop 2 s) else None)"

definition one_or_two :: "string \<Rightarrow> (nat \<times> string) option" where
  "one_or_two s =
    (case s of
       [] \<Rightarrow> None
     | c # t \<Rightarrow> if \<not> is_digit c then None
                else if t \<noteq> [] \<and> is_digit (hd t) then Some (digits_val 0 [c, hd t], tl t)
                else Some (digits_val 0 [c], t))"

definition fraction :: "string \<Rightarrow> nat \<times> string" where
  "fraction s =
    (if 2 \<le> length s \<and> (hd s = CHR ''.'' \<or> hd s = CHR '','') \<and> is_digit (s ! 1)
     then let ds = takeWhile is_digit (tl s); used = take 9 ds
          in (digits_val 0 used * 10 ^ (9 - length used), drop (length ds) (tl s))
     else (0, s))"

definition zone_offset :: "string \<Rightarrow> (int \<times> string) option" where
  "zone_offset s =
    (if has_prefix s ''Z'' then Some (0, tl s)
     else if length s < 6 \<or> s ! 3 \<noteq> CHR '':'' then None
     else do {
       (h, _) \<leftarrow> two_digits (take 2 (drop 1 s));
       (m, _) \<leftarrow> two_digits (take 2 (drop 4 s));
       (if 24 < h \<or> 60 < m then None
        else if hd s = CHR ''+'' then Some (int (h * 3600 + m * 60), drop 6 s)
        else if hd s = CHR ''-'' then Some (- int (h * 3600 + m * 60), drop 6 s) else None)
     })"

definition parse_rfc3339 :: "string \<Rightarrow> time option" where
  "parse_rfc3339 s = do {
     (y, s) \<leftarrow> four_digits s; s \<leftarrow> literal (CHR ''-'') s;
     (mo, s) \<leftarrow> two_digits s; s \<leftarrow> literal (CHR ''-'') s;
     (d, s) \<leftarrow> two_digits s; s \<leftarrow> literal (CHR ''T'') s;
     (h, s) \<leftarrow> one_or_two s; s \<leftarrow> literal (CHR '':'') s;
     (mi, s) \<leftarrow> two_digits s; s \<leftarrow> literal (CHR '':'') s;
     (sec, s) \<leftarrow> two_digits s;
     let (ns, s) = fraction s;
     (off, s) \<leftarrow> zone_offset s;
     (if s \<noteq> [] \<or> mo < 1 \<or> 12 < mo \<or> d < 1 \<or> month_len (int y) (int mo) < int d \<or> 24 \<le> h \<or> 60 \<le> mi \<or> 60 \<le> sec
      then None
      else Some ((days_from_civil (int y) (int mo) (int d) * 86400 + int (h * 3600 + mi * 60 + sec) - off) * second
                 + int ns))
   }"

section \<open>Months and records\<close>

type_synonym month = "int \<times> int"

definition bwMonth :: "time \<Rightarrow> month" where
  "bwMonth t = (case civil_of_day (t div day_ns) of (y, m, _) \<Rightarrow> (y, m))"

definition eol :: char where "eol = CHR 0x0A"

definition trim_eol :: "string \<Rightarrow> string" where
  "trim_eol s = rev (dropWhile (\<lambda>c. c = eol \<or> c = CHR 0x0D) (rev s))"

text \<open>What stands between the first and the last quote of a line that has two.\<close>

definition quoted :: "string \<Rightarrow> string option" where
  "quoted s =
    (case dropWhile (\<lambda>c. c \<noteq> CHR 0x22) s of
       [] \<Rightarrow> None
     | _ # r \<Rightarrow> if CHR 0x22 \<in> set r then Some (rev (tl (dropWhile (\<lambda>c. c \<noteq> CHR 0x22) (rev r)))) else None)"

definition self_traffic :: "string \<Rightarrow> bool" where
  "self_traffic s = (case quoted s of None \<Rightarrow> False | Some ua \<Rightarrow> has_prefix ua ''EpicPanel-'')"

definition byte_count :: "string \<Rightarrow> int option" where
  "byte_count s = (case parse_int s of None \<Rightarrow> None | Some n \<Rightarrow> if n < 0 then None else Some n)"

record bw_record =
  br_site :: string
  br_time :: time
  br_request :: int
  br_sent :: int

definition parseBWRecord :: "(string \<Rightarrow> bool) \<Rightarrow> string \<Rightarrow> bw_record option" where
  "parseBWRecord ok_uuid raw =
    (let line = trim_eol raw; fs = GoStrings.fields line in
     if length fs < 4 \<or> \<not> ok_uuid (fs ! 0) then None
     else do {
       ts \<leftarrow> parse_rfc3339 (fs ! 1);
       req \<leftarrow> byte_count (fs ! 2);
       sent \<leftarrow> byte_count (fs ! 3);
       (if self_traffic line then None
        else Some \<lparr>br_site = fs ! 0, br_time = ts, br_request = req, br_sent = sent\<rparr>)
     })"

definition record_bytes :: "bw_record \<Rightarrow> i64" where
  "record_bytes r = word_of_int (br_request r) + word_of_int (br_sent r)"

section \<open>Lines of a file\<close>

text \<open>The complete lines, each with its eol, and the rest.\<close>

fun lines_of :: "string \<Rightarrow> string list \<times> string" where
  "lines_of [] = ([], [])"
| "lines_of (c # s) =
    (case lines_of s of (ls, rest) \<Rightarrow>
       if c = eol then ([c] # ls, rest)
       else case ls of [] \<Rightarrow> ([], c # rest) | l # ls' \<Rightarrow> ((c # l) # ls', rest))"

definition full_line :: "string \<Rightarrow> bool" where
  "full_line l \<longleftrightarrow> (\<exists>t. l = t @ [eol] \<and> eol \<notin> set t)"

lemma lines_of_concat_eq: "concat (fst (lines_of s)) @ snd (lines_of s) = s"
  by (induction s) (auto split: prod.splits list.splits)

lemma lines_of_no_newline: "eol \<notin> set t \<Longrightarrow> lines_of t = ([], t)"
  by (induction t) auto

lemma lines_of_rest: "eol \<notin> set (snd (lines_of s))"
  by (induction s) (auto split: prod.splits list.splits)

lemma lines_of_full: "list_all full_line (fst (lines_of s))"
proof (induction s)
  case (Cons c s)
  have "full_line [eol]" by (simp add: full_line_def)
  moreover have "c \<noteq> eol \<Longrightarrow> full_line l \<Longrightarrow> full_line (c # l)" for l
    by (force simp: full_line_def intro: exI [where x = "c # _"])
  ultimately show ?case using Cons by (auto split: prod.splits list.splits)
qed simp

lemma lines_of_line: "eol \<notin> set t \<Longrightarrow> lines_of (t @ eol # s) = ((t @ [eol]) # fst (lines_of s), snd (lines_of s))"
  by (induction t) (auto split: prod.splits)

lemma lines_of_append: "full_line l \<Longrightarrow> lines_of (l @ s) = (l # fst (lines_of s), snd (lines_of s))"
  by (auto simp: full_line_def lines_of_line)

lemma lines_of_lines: "list_all full_line ls \<Longrightarrow> lines_of (concat ls @ s) = (ls @ fst (lines_of s), snd (lines_of s))"
  by (induction ls) (auto simp: lines_of_append)

section \<open>Recalculation\<close>

text \<open>\<open>bufio.Scanner\<close> with a buffer of one megabyte: a longer line ends the scan of its file.\<close>

definition scan_cap :: nat where "scan_cap = 1024 * 1024"

definition scan_lines :: "string \<Rightarrow> string list" where
  "scan_lines s =
    (case lines_of s of (ls, rest) \<Rightarrow>
       takeWhile (\<lambda>l. length l < scan_cap) (map butlast ls @ (if rest = [] then [] else [rest])))"

definition day_of :: "time \<Rightarrow> int" where
  "day_of t = t div day_ns"

record recalc_day =
  rd_day :: int
  rd_request :: i64
  rd_sent :: i64
  rd_total :: i64

definition add_record :: "recalc_day \<Rightarrow> bw_record \<Rightarrow> recalc_day" where
  "add_record d r = d\<lparr>rd_request := rd_request d + word_of_int (br_request r),
     rd_sent := rd_sent d + word_of_int (br_sent r), rd_total := rd_total d + record_bytes r\<rparr>"

text \<open>The days of the table, kept in chronological order (the code sorts them at the end).\<close>

fun count_day :: "bw_record \<Rightarrow> recalc_day list \<Rightarrow> recalc_day list" where
  "count_day r [] = [add_record \<lparr>rd_day = day_of (br_time r), rd_request = 0, rd_sent = 0, rd_total = 0\<rparr> r]"
| "count_day r (d # ds) =
    (if rd_day d = day_of (br_time r) then add_record d r # ds
     else if day_of (br_time r) < rd_day d
     then add_record \<lparr>rd_day = day_of (br_time r), rd_request = 0, rd_sent = 0, rd_total = 0\<rparr> r # d # ds
     else d # count_day r ds)"

definition in_range :: "string \<Rightarrow> int \<Rightarrow> int \<Rightarrow> bw_record \<Rightarrow> bool" where
  "in_range site from till r \<longleftrightarrow> br_site r = site \<and> from \<le> day_of (br_time r) \<and> day_of (br_time r) \<le> till"

record recalc_outcome =
  ro_days :: "recalc_day list"
  ro_total :: i64
  ro_files :: nat
  ro_matched :: nat

text \<open>\<open>files\<close> are the generations found, each with its (decompressed) content; None is one that
  cannot be read.\<close>

definition file_lines :: "string option list \<Rightarrow> string list" where
  "file_lines files = concat (map (\<lambda>f. case f of None \<Rightarrow> [] | Some s \<Rightarrow> scan_lines s) files)"

definition matches :: "(string \<Rightarrow> bool) \<Rightarrow> string \<Rightarrow> int \<Rightarrow> int \<Rightarrow> string list \<Rightarrow> bw_record list" where
  "matches ok_uuid site from till ls = filter (in_range site from till) (List.map_filter (parseBWRecord ok_uuid) ls)"

definition recalcScan :: "(string \<Rightarrow> bool) \<Rightarrow> string option list \<Rightarrow> string \<Rightarrow> int \<Rightarrow> int \<Rightarrow> recalc_outcome" where
  "recalcScan ok_uuid files site from till =
    (let rs = matches ok_uuid site from till (file_lines files); days = fold count_day rs []
     in \<lparr>ro_days = days, ro_total = sum_list (map rd_total days), ro_files = length files, ro_matched = length rs\<rparr>)"

datatype recalc_err = BadSite | BadFrom | BadTo | BadOrder | BadRange

definition recalcRangeCapDays :: int where "recalcRangeCapDays = 400"

text \<open>The days are the civil days of the two parameters, None when \<open>time.Parse\<close> refuses them.\<close>

definition RecalcBandwidth ::
    "(string \<Rightarrow> bool) \<Rightarrow> string option list \<Rightarrow> string \<Rightarrow> int option \<Rightarrow> int option \<Rightarrow> recalc_err + recalc_outcome" where
  "RecalcBandwidth ok_uuid files site from till =
    (if \<not> ok_uuid site then Inl BadSite
     else case from of
            None \<Rightarrow> Inl BadFrom
          | Some a \<Rightarrow>
              (case till of
                 None \<Rightarrow> Inl BadTo
               | Some b \<Rightarrow> if b < a then Inl BadOrder
                           else if recalcRangeCapDays < b - a then Inl BadRange
                           else Inr (recalcScan ok_uuid files site a b)))"

text \<open>Days add up: the total is the sum over the matching records.\<close>

lemma count_day_total:
  "sum_list (map rd_total (count_day r ds)) = record_bytes r + sum_list (map rd_total ds)"
  by (induction ds) (auto simp: add_record_def algebra_simps)

lemma fold_count_total:
  "sum_list (map rd_total (fold count_day rs ds)) = sum_list (map record_bytes rs) + sum_list (map rd_total ds)"
  by (induction rs arbitrary: ds) (auto simp: count_day_total algebra_simps)

lemma recalc_total:
  "ro_total (recalcScan ok_uuid files site from till)
    = sum_list (map record_bytes (matches ok_uuid site from till (file_lines files)))"
  by (simp add: recalcScan_def Let_def fold_count_total)

lemma count_day_days: "rd_day ` set (count_day r ds) = insert (day_of (br_time r)) (rd_day ` set ds)"
  by (induction ds) (auto simp: add_record_def)

lemma count_day_sorted:
  "sorted_wrt (<) (map rd_day ds) \<Longrightarrow> sorted_wrt (<) (map rd_day (count_day r ds))"
proof (induction ds)
  case (Cons d ds)
  have "\<forall>x \<in> set (count_day r ds). rd_day x = day_of (br_time r) \<or> rd_day x \<in> rd_day ` set ds"
    using count_day_days [of r ds] by blast
  with Cons show ?case by (fastforce simp: add_record_def)
qed (simp add: add_record_def)

lemma recalc_days_sorted: "sorted_wrt (<) (map rd_day (ro_days (recalcScan ok_uuid files site from till)))"
proof -
  have "sorted_wrt (<) (map rd_day ds) \<Longrightarrow> sorted_wrt (<) (map rd_day (fold count_day rs ds))" for rs ds
    by (induction rs arbitrary: ds) (auto simp: count_day_sorted)
  then show ?thesis by (simp add: recalcScan_def Let_def)
qed

end
