(* ===== verification/BandwidthTally.thy ===== *)
theory BandwidthTally
  imports BandwidthLog
begin

text \<open>
  The bandwidth accountant of the agent, \<open>internal/agent/bwtail.go\<close> with its durable state in
  \<open>bw_state.go\<close>: it reads the new records of the accounting log, adds them to the month's
  bytes of each site and writes the sums and the read position in one file. A tally sees one
  snapshot of the log and its two rotated generations.
\<close>

section \<open>The durable state\<close>

record bw_state =
  bs_month :: "month option"
  bs_chains :: "string \<Rightarrow> month option"
  bs_sites :: "string \<Rightarrow> i64 option"
  bs_log :: "(nat \<times> int) option"

definition no_state :: bw_state where
  "no_state = \<lparr>bs_month = None, bs_chains = (\<lambda>_. None), bs_sites = (\<lambda>_. None), bs_log = None\<rparr>"

text \<open>A file is missing, does not parse, or holds a state.\<close>

datatype stored = Missing | Garbage | Stored bw_state

record state_files =
  sf_current :: stored
  sf_bak :: stored

definition loadBwState :: "state_files \<Rightarrow> bw_state" where
  "loadBwState f =
    (case sf_current f of
       Stored s \<Rightarrow> s
     | _ \<Rightarrow> (case sf_bak f of Stored s \<Rightarrow> s | _ \<Rightarrow> no_state))"

text \<open>The ways a save can end: both renames done, the temporary file not written, or the second
  rename failed (which is also what a crash between the renames leaves).\<close>

datatype save_outcome = Saved | WriteFailed | RenameFailed

definition previous :: "state_files \<Rightarrow> stored" where
  "previous f = (if sf_current f = Missing then sf_bak f else sf_current f)"

definition save :: "save_outcome \<Rightarrow> state_files \<Rightarrow> bw_state \<Rightarrow> time \<Rightarrow> state_files" where
  "save outcome f s now =
    (case outcome of
       WriteFailed \<Rightarrow> f
     | RenameFailed \<Rightarrow> \<lparr>sf_current = Missing, sf_bak = previous f\<rparr>
     | Saved \<Rightarrow> \<lparr>sf_current = Stored (s\<lparr>bs_month := Some (bwMonth now)\<rparr>), sf_bak = previous f\<rparr>)"

definition bwNeedsRotate :: "month option \<Rightarrow> month \<Rightarrow> bool" where
  "bwNeedsRotate stamp cur \<longleftrightarrow> stamp \<noteq> Some cur"

section \<open>The accountant\<close>

record accountant =
  ba_http :: "string \<Rightarrow> i64 option"
  ba_month :: "month option"
  ba_cp :: "(nat \<times> int) option"
  ba_partial :: string

definition NewBWAccountant :: accountant where
  "NewBWAccountant = \<lparr>ba_http = (\<lambda>_. None), ba_month = None, ba_cp = None, ba_partial = []\<rparr>"

definition Restore :: "accountant \<Rightarrow> time \<Rightarrow> month option \<Rightarrow> (string \<Rightarrow> i64 option) \<Rightarrow> (nat \<times> int) option \<Rightarrow> accountant" where
  "Restore a now mo sites cp =
    (let a' = (if mo = Some (bwMonth now)
               then a\<lparr>ba_http := (\<lambda>s. case sites s of
                          Some b \<Rightarrow> if 0 < sint b then Some b else ba_http a s | None \<Rightarrow> ba_http a s),
                      ba_month := Some (bwMonth now)\<rparr>
               else a)
     in a'\<lparr>ba_cp := cp\<rparr>)"

text \<open>The start of the agent: \<open>LoadBwAccountantState\<close> and the wiring of \<open>cmd/agent\<close>.\<close>

definition boot :: "state_files \<Rightarrow> time \<Rightarrow> accountant" where
  "boot f now =
    (let s = loadBwState f in
     if bs_sites s \<noteq> (\<lambda>_. None) \<or> bs_log s \<noteq> None
     then Restore NewBWAccountant now (bs_month s) (bs_sites s) (bs_log s) else NewBWAccountant)"

definition MonthEgressBytes :: "accountant \<Rightarrow> string \<Rightarrow> i64 \<times> month option" where
  "MonthEgressBytes a site = (case ba_http a site of None \<Rightarrow> (0, None) | Some b \<Rightarrow> (b, ba_month a))"

definition bytes_at :: "(string \<Rightarrow> i64 option) \<Rightarrow> string \<Rightarrow> i64" where
  "bytes_at h site = (case h site of None \<Rightarrow> 0 | Some b \<Rightarrow> b)"

definition parseLine :: "(string \<Rightarrow> bool) \<Rightarrow> accountant \<Rightarrow> string \<Rightarrow> accountant" where
  "parseLine ok_uuid a line =
    (case parseBWRecord ok_uuid line of
       None \<Rightarrow> a
     | Some r \<Rightarrow> if Some (bwMonth (br_time r)) \<noteq> ba_month a then a
                 else a\<lparr>ba_http := (ba_http a)(br_site r \<mapsto> bytes_at (ba_http a) (br_site r) + record_bytes r)\<rparr>)"

text \<open>One complete line of the loop of \<open>readRange\<close>: a kept beginning is put in front of it.\<close>

definition take_line :: "(string \<Rightarrow> bool) \<Rightarrow> accountant \<Rightarrow> string \<Rightarrow> accountant" where
  "take_line ok_uuid a chunk = parseLine ok_uuid (a\<lparr>ba_partial := []\<rparr>) (ba_partial a @ chunk)"

definition readRange :: "(string \<Rightarrow> bool) \<Rightarrow> accountant \<Rightarrow> string \<Rightarrow> int \<Rightarrow> accountant \<times> int" where
  "readRange ok_uuid a content from =
    (if int (length content) < from \<or> from < 0 then (a, from)
     else
       let new = drop (nat from) content; a1 = foldl (take_line ok_uuid) a (fst (lines_of new));
           a2 = (if snd (lines_of new) = [] then a1 else a1\<lparr>ba_partial := ba_partial a1 @ snd (lines_of new)\<rparr>)
       in (a2, from + int (length new) - int (length (ba_partial a2))))"

text \<open>The log and the generations \<open>.1\<close> and \<open>.2\<close>, each with its inode.\<close>

record log_files =
  lf_log :: "(nat \<times> string) option"
  lf_one :: "(nat \<times> string) option"
  lf_two :: "(nat \<times> string) option"

definition persist :: "save_outcome \<Rightarrow> accountant \<Rightarrow> state_files \<Rightarrow> time \<Rightarrow> state_files" where
  "persist outcome a f now =
    (let s = loadBwState f; cur = bwMonth now;
         s1 = s\<lparr>bs_month := Some cur, bs_sites := (if ba_month a = Some cur then ba_http a else bs_sites s),
               bs_log := ba_cp a\<rparr>
     in save outcome f s1 now)"

definition roll_month :: "accountant \<Rightarrow> time \<Rightarrow> accountant" where
  "roll_month a now =
    (if ba_month a \<noteq> Some (bwMonth now) then a\<lparr>ba_month := Some (bwMonth now), ba_http := (\<lambda>_. None)\<rparr> else a)"

definition generation :: "log_files \<Rightarrow> nat \<Rightarrow> string option" where
  "generation fs ino =
    (case lf_one fs of
       Some (i, c) \<Rightarrow> if i = ino then Some c
                      else (case lf_two fs of Some (j, d) \<Rightarrow> if j = ino then Some d else None | None \<Rightarrow> None)
     | None \<Rightarrow> (case lf_two fs of Some (j, d) \<Rightarrow> if j = ino then Some d else None | None \<Rightarrow> None))"

definition read_log :: "(string \<Rightarrow> bool) \<Rightarrow> log_files \<Rightarrow> accountant \<Rightarrow> nat \<Rightarrow> string \<Rightarrow> accountant" where
  "read_log ok_uuid fs a inode content =
    (case ba_cp a of
       None \<Rightarrow> a\<lparr>ba_cp := Some (inode, int (length content))\<rparr>
     | Some (ino, off) \<Rightarrow>
         if inode = ino then
           let (a1, off1) = (if int (length content) < off then (a\<lparr>ba_partial := []\<rparr>, 0) else (a, off));
               (a2, off2) = readRange ok_uuid a1 content off1
           in a2\<lparr>ba_cp := Some (inode, off2)\<rparr>
         else
           let a1 = (case generation fs ino of None \<Rightarrow> a | Some c \<Rightarrow> fst (readRange ok_uuid a c off));
               (a2, off2) = readRange ok_uuid (a1\<lparr>ba_partial := []\<rparr>) content 0
           in a2\<lparr>ba_cp := Some (inode, off2)\<rparr>)"

definition Tally ::
    "(string \<Rightarrow> bool) \<Rightarrow> log_files \<Rightarrow> time \<Rightarrow> save_outcome \<Rightarrow> accountant \<Rightarrow> state_files \<Rightarrow> accountant \<times> state_files" where
  "Tally ok_uuid fs now outcome a f =
    (let a0 = roll_month a now in
     case lf_log fs of
       None \<Rightarrow> (a0, f)
     | Some (inode, content) \<Rightarrow>
         let a1 = read_log ok_uuid fs a0 inode content in (a1, persist outcome a1 f now))"

section \<open>Reading complete lines\<close>

definition month_records :: "(string \<Rightarrow> bool) \<Rightarrow> month \<Rightarrow> string \<Rightarrow> string list \<Rightarrow> bw_record list" where
  "month_records ok_uuid mo site ls =
    filter (\<lambda>r. br_site r = site \<and> bwMonth (br_time r) = mo) (List.map_filter (parseBWRecord ok_uuid) ls)"

definition record_int :: "bw_record \<Rightarrow> int" where
  "record_int r = br_request r + br_sent r"

definition traffic :: "(string \<Rightarrow> bool) \<Rightarrow> month \<Rightarrow> string \<Rightarrow> string list \<Rightarrow> int" where
  "traffic ok_uuid mo site ls = sum_list (map record_int (month_records ok_uuid mo site ls))"

lemma map_filter_append: "List.map_filter f (xs @ ys) = List.map_filter f xs @ List.map_filter f ys"
  by (simp add: List.map_filter_def)

lemma traffic_simps [simp]:
  "traffic ok_uuid mo site [] = 0"
  "traffic ok_uuid mo site (ls @ ms) = traffic ok_uuid mo site ls + traffic ok_uuid mo site ms"
  by (simp_all add: traffic_def month_records_def map_filter_append)

lemma parse_counts: "parseBWRecord ok_uuid l = Some r \<Longrightarrow> 0 \<le> br_request r \<and> 0 \<le> br_sent r"
  by (auto simp: parseBWRecord_def byte_count_def Let_def bind_eq_Some_conv split: if_splits option.splits)

lemma traffic_nonneg: "0 \<le> traffic ok_uuid mo site ls"
proof -
  have "\<forall>r \<in> set (month_records ok_uuid mo site ls). 0 \<le> record_int r"
    using parse_counts by (fastforce simp: month_records_def List.map_filter_def record_int_def)
  then show ?thesis unfolding traffic_def by (intro sum_list_nonneg) auto
qed

lemma record_bytes_int: "record_bytes r = word_of_int (record_int r)"
  by (simp add: record_bytes_def record_int_def)

lemma take_line_frame [simp]:
  "ba_month (take_line ok_uuid a l) = ba_month a" "ba_cp (take_line ok_uuid a l) = ba_cp a"
  "ba_partial (take_line ok_uuid a l) = []"
  by (auto simp: take_line_def parseLine_def split: option.splits)

lemma take_line_bytes:
  assumes "ba_partial a = []" and "ba_month a = Some mo"
  shows "bytes_at (ba_http (take_line ok_uuid a l)) site = bytes_at (ba_http a) site + word_of_int (traffic ok_uuid mo site [l])"
  using assms by (auto simp: take_line_def parseLine_def traffic_def month_records_def List.map_filter_def
      bytes_at_def record_bytes_int split: option.splits)

lemma take_lines:
  assumes "ba_partial a = []" and "ba_month a = Some mo"
  shows "bytes_at (ba_http (foldl (take_line ok_uuid) a ls)) site
      = bytes_at (ba_http a) site + word_of_int (traffic ok_uuid mo site ls)"
    and "ba_month (foldl (take_line ok_uuid) a ls) = Some mo" and "ba_partial (foldl (take_line ok_uuid) a ls) = []"
    and "ba_cp (foldl (take_line ok_uuid) a ls) = ba_cp a"
  using assms
proof (induction ls arbitrary: a)
  case (Cons l ls)
  {
    case 1
    have "traffic ok_uuid mo site (l # ls) = traffic ok_uuid mo site [l] + traffic ok_uuid mo site ls"
      using traffic_simps(2) [of ok_uuid mo site "[l]" ls] by simp
    then show ?case using Cons.IH(1) [of "take_line ok_uuid a l"] take_line_bytes [OF 1] 1 by simp
  next
    case 2
    then show ?case using Cons.IH(2) [of "take_line ok_uuid a l"] by simp
  next
    case 3
    then show ?case using Cons.IH(3) [of "take_line ok_uuid a l"] by simp
  next
    case 4
    then show ?case using Cons.IH(4) [of "take_line ok_uuid a l"] by simp
  }
qed simp_all

lemma readRange_lines:
  assumes "ba_partial a = []" and "ba_month a = Some mo" and "0 \<le> off" and "off \<le> int (length content)"
    and "drop (nat off) content = concat ls" and "list_all full_line ls"
  shows "readRange ok_uuid a content off = (foldl (take_line ok_uuid) a ls, int (length content))"
proof -
  have "lines_of (concat ls) = (ls, [])" using lines_of_lines [OF assms(6), of "[]"] by simp
  moreover have "int (length (concat ls)) = int (length content) - off"
    using assms(3,4) by (simp add: assms(5) [symmetric])
  ultimately show ?thesis using assms take_lines(3) [OF assms(1,2)] by (simp add: readRange_def Let_def)
qed

section \<open>Histories\<close>

text \<open>The world of one month: the accountant, its files, the log and, for the specification, the
  lines written since the accountant first looked at the log.\<close>

record bw_world =
  bw_acc :: accountant
  bw_disk :: state_files
  bw_fs :: log_files
  bw_lines :: "string list"

definition inodes :: "log_files \<Rightarrow> nat set" where
  "inodes fs = fst ` (set_option (lf_log fs) \<union> set_option (lf_one fs) \<union> set_option (lf_two fs))"

definition at_generation :: "(nat \<times> int) option \<Rightarrow> nat \<Rightarrow> bool" where
  "at_generation cp ino \<longleftrightarrow> map_option fst cp = Some ino"

text \<open>nginx writes whole lines; logrotate renames the generations and nginx opens a new file,
  after the last tally has read the current one; the accountant tallies, also with failing
  saves, and the agent restarts.\<close>

inductive bw_step :: "(string \<Rightarrow> bool) \<Rightarrow> month \<Rightarrow> bw_world \<Rightarrow> bw_world \<Rightarrow> bool" for ok_uuid mo where
  wrote: "\<lbrakk>lf_log (bw_fs w) = Some (ino, c); full_line l\<rbrakk> \<Longrightarrow>
    bw_step ok_uuid mo w (w\<lparr>bw_fs := (bw_fs w)\<lparr>lf_log := Some (ino, c @ l)\<rparr>, bw_lines := bw_lines w @ [l]\<rparr>)"
| rotated: "\<lbrakk>lf_log (bw_fs w) = Some (ino, c); at_generation (ba_cp (bw_acc w)) ino;
    at_generation (bs_log (loadBwState (bw_disk w))) ino; new \<notin> inodes (bw_fs w)\<rbrakk> \<Longrightarrow>
    bw_step ok_uuid mo w (w\<lparr>bw_fs := \<lparr>lf_log = Some (new, []), lf_one = Some (ino, c), lf_two = lf_one (bw_fs w)\<rparr>\<rparr>)"
| tallied: "\<lbrakk>bwMonth now = mo; Tally ok_uuid (bw_fs w) now outcome (bw_acc w) (bw_disk w) = (a, f)\<rbrakk> \<Longrightarrow>
    bw_step ok_uuid mo w (w\<lparr>bw_acc := a, bw_disk := f\<rparr>)"
| restarted: "bwMonth now = mo \<Longrightarrow> bw_step ok_uuid mo w (w\<lparr>bw_acc := boot (bw_disk w) now\<rparr>)"

definition whole :: "string \<Rightarrow> bool" where
  "whole c \<longleftrightarrow> c = [] \<or> last c = eol"

definition log_ok :: "log_files \<Rightarrow> bool" where
  "log_ok fs \<longleftrightarrow>
    (case lf_log fs of
       None \<Rightarrow> False
     | Some (i, c) \<Rightarrow> whole c \<and> (case lf_one fs of None \<Rightarrow> True | Some (j, d) \<Rightarrow> i \<noteq> j \<and> whole d))"

text \<open>The first start: an accountant without state finds a log of complete lines and skips them.\<close>

definition bw_start :: "(string \<Rightarrow> bool) \<Rightarrow> month \<Rightarrow> bw_world \<Rightarrow> bool" where
  "bw_start ok_uuid mo w \<longleftrightarrow>
    log_ok (bw_fs w) \<and> bw_lines w = [] \<and>
    (\<exists>now. bwMonth now = mo
      \<and> (bw_acc w, bw_disk w) = Tally ok_uuid (bw_fs w) now Saved NewBWAccountant \<lparr>sf_current = Missing, sf_bak = Missing\<rparr>)"

text \<open>What is still to be read from a position.\<close>

definition unread :: "log_files \<Rightarrow> nat \<times> int \<Rightarrow> string option" where
  "unread fs cp =
    (case cp of (ino, off) \<Rightarrow>
       case lf_log fs of
         None \<Rightarrow> None
       | Some (i, c) \<Rightarrow>
           if i = ino then (if 0 \<le> off \<and> off \<le> int (length c) then Some (drop (nat off) c) else None)
           else case lf_one fs of
                  None \<Rightarrow> None
                | Some (j, d) \<Rightarrow> if j = ino \<and> 0 \<le> off \<and> off \<le> int (length d) then Some (drop (nat off) d @ c) else None)"

definition position_ok ::
    "(string \<Rightarrow> bool) \<Rightarrow> month \<Rightarrow> bw_world \<Rightarrow> (string \<Rightarrow> i64 option) \<Rightarrow> (nat \<times> int) option \<Rightarrow> bool" where
  "position_ok ok_uuid mo w sites cp \<longleftrightarrow>
    (\<exists>done todo p. bw_lines w = done @ todo \<and> cp = Some p \<and> unread (bw_fs w) p = Some (concat todo)
      \<and> (\<forall>s. bytes_at sites s = word_of_int (traffic ok_uuid mo s done)))"

definition bw_inv :: "(string \<Rightarrow> bool) \<Rightarrow> month \<Rightarrow> bw_world \<Rightarrow> bool" where
  "bw_inv ok_uuid mo w \<longleftrightarrow>
    list_all full_line (bw_lines w) \<and> log_ok (bw_fs w)
    \<and> ba_month (bw_acc w) = Some mo \<and> ba_partial (bw_acc w) = []
    \<and> position_ok ok_uuid mo w (ba_http (bw_acc w)) (ba_cp (bw_acc w))
    \<and> sf_current (bw_disk w) \<noteq> Garbage \<and> bs_month (loadBwState (bw_disk w)) = Some mo
    \<and> position_ok ok_uuid mo w (bs_sites (loadBwState (bw_disk w))) (bs_log (loadBwState (bw_disk w)))"

lemma position_write:
  assumes "position_ok ok_uuid mo w sites cp" and "lf_log (bw_fs w) = Some (ino, c)"
  shows "position_ok ok_uuid mo (w\<lparr>bw_fs := (bw_fs w)\<lparr>lf_log := Some (ino, c @ l)\<rparr>, bw_lines := bw_lines w @ [l]\<rparr>) sites cp"
proof -
  obtain ds todo p where p: "bw_lines w = ds @ todo" "cp = Some p" "unread (bw_fs w) p = Some (concat todo)"
    "\<forall>s. bytes_at sites s = word_of_int (traffic ok_uuid mo s ds)"
    using assms(1) unfolding position_ok_def by blast
  obtain i off where p': "p = (i, off)" by fastforce
  have "unread ((bw_fs w)\<lparr>lf_log := Some (ino, c @ l)\<rparr>) p = Some (concat todo @ l)"
    using p(3) assms(2) p' by (auto simp: unread_def split: if_splits option.splits prod.splits)
  then have "unread ((bw_fs w)\<lparr>lf_log := Some (ino, c @ l)\<rparr>) p = Some (concat (todo @ [l]))" by simp
  then show ?thesis using p(1,2,4) unfolding position_ok_def by fastforce
qed

lemma position_rotate:
  assumes "position_ok ok_uuid mo w sites cp" and "lf_log (bw_fs w) = Some (ino, c)" and "at_generation cp ino"
    and "new \<noteq> ino"
  shows "position_ok ok_uuid mo (w\<lparr>bw_fs := \<lparr>lf_log = Some (new, []), lf_one = Some (ino, c), lf_two = two\<rparr>\<rparr>) sites cp"
proof -
  obtain ds todo p where p: "bw_lines w = ds @ todo" "cp = Some p" "unread (bw_fs w) p = Some (concat todo)"
    "\<forall>s. bytes_at sites s = word_of_int (traffic ok_uuid mo s ds)"
    using assms(1) unfolding position_ok_def by blast
  obtain off where p': "p = (ino, off)" using p(2) assms(3) by (cases p) (simp add: at_generation_def)
  have "unread \<lparr>lf_log = Some (new, []), lf_one = Some (ino, c), lf_two = two\<rparr> p = Some (concat todo)"
    using p(3) assms(2,4) p' by (auto simp: unread_def split: if_splits)
  then show ?thesis using p(1,2,4) unfolding position_ok_def by fastforce
qed


lemma load_save:
  assumes "sf_current f \<noteq> Garbage"
  shows "loadBwState (save outcome f s now) = (if outcome = Saved then s\<lparr>bs_month := Some (bwMonth now)\<rparr> else loadBwState f)"
    and "sf_current (save outcome f s now) \<noteq> Garbage"
  using assms by (auto simp: save_def loadBwState_def previous_def split: save_outcome.splits stored.splits)

lemma full_lines_unread:
  assumes "concat todo = drop n d @ c" and "list_all full_line todo" and "drop n d = concat ds" and "list_all full_line ds"
  shows "\<exists>cs. todo = ds @ cs \<and> c = concat cs \<and> list_all full_line cs"
proof -
  have "lines_of (concat todo) = (todo, [])" using lines_of_lines [OF assms(2), of "[]"] by simp
  moreover have "lines_of (concat ds @ c) = (ds @ fst (lines_of c), snd (lines_of c))" by (rule lines_of_lines [OF assms(4)])
  ultimately have "todo = ds @ fst (lines_of c)" "snd (lines_of c) = []" using assms(1,3) by auto
  then show ?thesis using lines_of_concat_eq [of c] lines_of_full [of c] by auto
qed

lemma full_lines_split:
  assumes "concat todo = x @ c" and "list_all full_line todo" and "whole x"
  shows "\<exists>xs cs. todo = xs @ cs \<and> x = concat xs \<and> c = concat cs"
proof -
  have "snd (lines_of x) = []"
  proof (rule ccontr)
    assume rest: "snd (lines_of x) \<noteq> []"
    then have "x \<noteq> []" by auto
    moreover have "last x = last (snd (lines_of x))" using rest lines_of_concat_eq [of x] by (metis last_appendR)
    ultimately show False using assms(3) rest lines_of_rest [of x] by (auto simp: whole_def) (metis last_in_set)
  qed
  then have x: "x = concat (fst (lines_of x))" using lines_of_concat_eq [of x] by simp
  then show ?thesis
    using full_lines_unread [of todo 0 x c "fst (lines_of x)"] assms(1,2) lines_of_full [of x] by auto
qed


lemma whole_drop: "whole c \<Longrightarrow> whole (drop n c)"
  by (cases "n < length c") (auto simp: whole_def last_drop)

lemma fold_lines_cp: "foldl (take_line ok_uuid) a ls\<lparr>ba_cp := cp\<rparr> = (foldl (take_line ok_uuid) a ls)\<lparr>ba_cp := cp\<rparr>"
  by simp

lemma read_log_lines:
  assumes "lf_log fs = Some (ino, c)" and "log_ok fs" and "unread fs p = Some (concat todo)" and "list_all full_line todo"
    and "ba_cp a = Some p" and "ba_month a = Some mo" and "ba_partial a = []"
  shows "read_log ok_uuid fs a ino c = (foldl (take_line ok_uuid) a todo)\<lparr>ba_cp := Some (ino, int (length c))\<rparr>"
proof -
  obtain i off where p: "p = (i, off)" by fastforce
  show ?thesis
  proof (cases "i = ino")
    case True
    then have off: "0 \<le> off" "off \<le> int (length c)" and todo: "drop (nat off) c = concat todo"
      using assms(1,3) p by (auto simp: unread_def split: if_splits)
    show ?thesis
      using readRange_lines [OF assms(7,6) off todo assms(4)] off assms(5) True p by (simp add: read_log_def Let_def)
  next
    case False
    then obtain d where one: "lf_one fs = Some (i, d)" and off: "0 \<le> off" "off \<le> int (length d)"
      and todo: "drop (nat off) d @ c = concat todo"
      using assms(1,3) p by (auto simp: unread_def split: if_splits option.splits prod.splits)
    have "whole (drop (nat off) d)" using assms(1,2) one by (auto simp: log_ok_def intro: whole_drop)
    then obtain xs cs where split: "todo = xs @ cs" "drop (nat off) d = concat xs" "c = concat cs"
      using full_lines_split [OF todo [symmetric] assms(4)] by blast
    then have full: "list_all full_line xs" "list_all full_line cs" using assms(4) by auto
    let ?a = "foldl (take_line ok_uuid) a xs"
    have old: "readRange ok_uuid a d off = (?a, int (length d))"
      by (rule readRange_lines [OF assms(7,6) off split(2) full(1)])
    have clean: "?a\<lparr>ba_partial := []\<rparr> = ?a" using take_lines(3) [OF assms(7,6)] by simp
    have new: "readRange ok_uuid ?a c 0 = (foldl (take_line ok_uuid) ?a cs, int (length c))"
      using split(3) by (intro readRange_lines [OF take_lines(3,2) [OF assms(7,6)] _ _ _ full(2)]) auto
    have "generation fs i = Some d" using one by (simp add: generation_def)
    then show ?thesis using False assms(5) p old clean new split(1) by (simp add: read_log_def Let_def)
  qed
qed

lemma tally_inv:
  assumes "bw_inv ok_uuid mo w" and "bwMonth now = mo" and "Tally ok_uuid (bw_fs w) now outcome (bw_acc w) (bw_disk w) = (a, f)"
  shows "bw_inv ok_uuid mo (w\<lparr>bw_acc := a, bw_disk := f\<rparr>)"
    and "bytes_at (ba_http a) s = word_of_int (traffic ok_uuid mo s (bw_lines w))" and "ba_month a = Some mo"
proof -
  obtain ds todo p where p: "bw_lines w = ds @ todo" "ba_cp (bw_acc w) = Some p" "unread (bw_fs w) p = Some (concat todo)"
    "\<forall>s. bytes_at (ba_http (bw_acc w)) s = word_of_int (traffic ok_uuid mo s ds)"
    using assms(1) unfolding bw_inv_def position_ok_def by blast
  have full: "list_all full_line todo" and log: "log_ok (bw_fs w)" and m: "ba_month (bw_acc w) = Some mo" "ba_partial (bw_acc w) = []"
    using assms(1) p(1) by (auto simp: bw_inv_def)
  obtain ino c where l: "lf_log (bw_fs w) = Some (ino, c)" using log by (auto simp: log_ok_def split: option.splits)
  let ?a = "(foldl (take_line ok_uuid) (bw_acc w) todo)\<lparr>ba_cp := Some (ino, int (length c))\<rparr>"
  have "roll_month (bw_acc w) now = bw_acc w" using m assms(2) by (simp add: roll_month_def)
  then have a: "a = ?a" and f: "f = persist outcome ?a (bw_disk w) now"
    using assms(3) l read_log_lines [OF l log p(3) full p(2) m] by (auto simp: Tally_def Let_def)
  have bytes: "bytes_at (ba_http a) s = word_of_int (traffic ok_uuid mo s (bw_lines w))" for s
    using p(1,4) take_lines(1) [OF m(2,1)] by (simp add: a)
  have month: "ba_month a = Some mo" and part: "ba_partial a = []" using take_lines(2,3) [OF m(2,1)] by (simp_all add: a)
  have here: "unread (bw_fs w) (ino, int (length c)) = Some []" using l by (simp add: unread_def)
  have position: "position_ok ok_uuid mo (w\<lparr>bw_acc := a, bw_disk := g\<rparr>) (ba_http a) (ba_cp a)" for g
    unfolding position_ok_def using here bytes by (intro exI [where x = "bw_lines w"] exI [where x = "[]"]) (simp add: a)
  have "sf_current (bw_disk w) \<noteq> Garbage" using assms(1) by (simp add: bw_inv_def)
  note saved = load_save [OF this]
  have disk: "position_ok ok_uuid mo (w\<lparr>bw_acc := a, bw_disk := f\<rparr>) (bs_sites (loadBwState f)) (bs_log (loadBwState f))
      \<and> bs_month (loadBwState f) = Some mo \<and> sf_current f \<noteq> Garbage"
  proof (cases "outcome = Saved")
    case True
    then show ?thesis
      using position [of f] saved month assms(2) by (simp add: f persist_def Let_def a)
  next
    case False
    then have "loadBwState f = loadBwState (bw_disk w)" "sf_current f \<noteq> Garbage"
      using saved by (simp_all add: f persist_def Let_def)
    then show ?thesis using assms(1) by (simp add: bw_inv_def position_ok_def)
  qed
  show "bw_inv ok_uuid mo (w\<lparr>bw_acc := a, bw_disk := f\<rparr>)"
    using assms(1) position [of f] disk month part by (simp add: bw_inv_def)
  show "bytes_at (ba_http a) s = word_of_int (traffic ok_uuid mo s (bw_lines w))" "ba_month a = Some mo" by (rule bytes, rule month)
qed


lemma restart_inv:
  assumes "bw_inv ok_uuid mo w" and "bwMonth now = mo" and "\<forall>s. traffic ok_uuid mo s (bw_lines w) < 2 ^ 63"
  shows "bw_inv ok_uuid mo (w\<lparr>bw_acc := boot (bw_disk w) now\<rparr>)"
proof -
  let ?s = "loadBwState (bw_disk w)"
  obtain ds todo p where p: "bw_lines w = ds @ todo" "bs_log ?s = Some p" "unread (bw_fs w) p = Some (concat todo)"
    "\<forall>s. bytes_at (bs_sites ?s) s = word_of_int (traffic ok_uuid mo s ds)"
    using assms(1) unfolding bw_inv_def position_ok_def by blast
  have month: "bs_month ?s = Some (bwMonth now)" using assms(1,2) by (simp add: bw_inv_def)
  let ?h = "\<lambda>s. case bs_sites ?s s of Some b \<Rightarrow> if 0 < sint b then Some b else None | None \<Rightarrow> None"
  have boot: "boot (bw_disk w) now = \<lparr>ba_http = ?h, ba_month = Some mo, ba_cp = Some p, ba_partial = []\<rparr>"
    using p(2) month assms(2) by (auto simp: boot_def Let_def Restore_def NewBWAccountant_def intro!: ext split: option.splits)
  have "bytes_at ?h s = word_of_int (traffic ok_uuid mo s ds)" for s
  proof -
    let ?t = "traffic ok_uuid mo s ds"
    have "?t < 2 ^ 63" using assms(3) [rule_format, of s] p(1) traffic_nonneg [of ok_uuid mo s todo] by simp
    then have t: "sint (word_of_int ?t :: i64) = ?t"
      using traffic_nonneg [of ok_uuid mo s ds] by (simp add: sint_sbintrunc' signed_take_bit_int_eq_self)
    have "bytes_at (bs_sites ?s) s = word_of_int ?t" using p(4) by simp
    then have some: "bs_sites ?s s = Some b \<Longrightarrow> b = word_of_int ?t" and none: "bs_sites ?s s = None \<Longrightarrow> (word_of_int ?t :: i64) = 0" for b
      by (auto simp: bytes_at_def)
    show ?thesis
    proof (cases "0 < ?t")
      case True
      then show ?thesis using some none t by (cases "bs_sites ?s s") (auto simp: bytes_at_def)
    next
      case False
      then have "?t = 0" using traffic_nonneg [of ok_uuid mo s ds] by simp
      then show ?thesis using some by (cases "bs_sites ?s s") (auto simp: bytes_at_def)
    qed
  qed
  then have "position_ok ok_uuid mo (w\<lparr>bw_acc := boot (bw_disk w) now\<rparr>) ?h (Some p)"
    unfolding position_ok_def using p(1,3) by auto
  then show ?thesis using assms(1) boot by (simp add: bw_inv_def position_ok_def)
qed

lemma step_lines: "bw_step ok_uuid mo w w' \<Longrightarrow> \<exists>ls. bw_lines w' = bw_lines w @ ls"
  by (induction rule: bw_step.induct) auto

lemma bw_step_inv:
  assumes "bw_step ok_uuid mo w w'" and "bw_inv ok_uuid mo w" and "\<forall>s. traffic ok_uuid mo s (bw_lines w) < 2 ^ 63"
  shows "bw_inv ok_uuid mo w'"
  using assms
proof (induction rule: bw_step.induct)
  case (wrote w ino c l)
  have "log_ok ((bw_fs w)\<lparr>lf_log := Some (ino, c @ l)\<rparr>)"
    using wrote by (auto simp: bw_inv_def log_ok_def whole_def full_line_def split: option.splits)
  then show ?case using wrote position_write [OF _ wrote(1)] by (simp add: bw_inv_def)
next
  case (rotated w ino c new)
  have new: "new \<noteq> ino" using rotated(1,4) by (force simp: inodes_def)
  then have "log_ok \<lparr>lf_log = Some (new, []), lf_one = Some (ino, c), lf_two = lf_one (bw_fs w)\<rparr>"
    using rotated by (auto simp: bw_inv_def log_ok_def whole_def split: option.splits)
  then show ?case
    using rotated position_rotate [OF _ rotated(1) _ new] by (simp add: bw_inv_def)
next
  case (tallied now w outcome a f)
  show ?case by (rule tally_inv(1) [OF tallied(3,1,2)])
next
  case (restarted now w)
  show ?case by (rule restart_inv [OF restarted(2,1,3)])
qed

lemma start_inv: "bw_start ok_uuid mo w \<Longrightarrow> bw_inv ok_uuid mo w"
proof -
  assume start: "bw_start ok_uuid mo w"
  then obtain now where now: "bwMonth now = mo"
    and t: "(bw_acc w, bw_disk w) = Tally ok_uuid (bw_fs w) now Saved NewBWAccountant \<lparr>sf_current = Missing, sf_bak = Missing\<rparr>"
    by (auto simp: bw_start_def)
  have log: "log_ok (bw_fs w)" and none: "bw_lines w = []" using start by (auto simp: bw_start_def)
  obtain ino c where l: "lf_log (bw_fs w) = Some (ino, c)" using log by (auto simp: log_ok_def split: option.splits)
  have zero: "bytes_at (\<lambda>_. None) s = word_of_int (traffic ok_uuid mo s [])" for s by (simp add: bytes_at_def)
  have "unread (bw_fs w) (ino, int (length c)) = Some (concat [])" using l by (simp add: unread_def)
  then have "position_ok ok_uuid mo w (\<lambda>_. None) (Some (ino, int (length c)))"
    unfolding position_ok_def using none zero by (intro exI [where x = "[]"] exI [where x = "(ino, int (length c))"]) simp
  then show ?thesis
    using t l now log none
    by (simp add: bw_inv_def Tally_def Let_def roll_month_def NewBWAccountant_def read_log_def persist_def save_def
        loadBwState_def no_state_def position_ok_def)
qed

lemma reachable_inv:
  assumes "(bw_step ok_uuid mo)\<^sup>*\<^sup>* w w'" and "bw_inv ok_uuid mo w" and "\<forall>s. traffic ok_uuid mo s (bw_lines w') < 2 ^ 63"
  shows "bw_inv ok_uuid mo w'"
  using assms
proof (induction rule: rtranclp_induct)
  case (step y z)
  have "\<forall>s. traffic ok_uuid mo s (bw_lines y) < 2 ^ 63"
  proof
    fix s
    obtain ls where "bw_lines z = bw_lines y @ ls" using step_lines [OF step(2)] by blast
    then show "traffic ok_uuid mo s (bw_lines y) < 2 ^ 63"
      using step(5) [rule_format, of s] traffic_nonneg [of ok_uuid mo s ls] by simp
  qed
  then show ?case using step bw_step_inv by blast
qed simp


text \<open>A sample: one record of 12 bytes in January 1970.\<close>

definition sample_line :: string where
  "sample_line = ''u 1970-01-01T00:00:00Z 5 7'' @ [eol]"

definition sample_uuid :: "string \<Rightarrow> bool" where
  "sample_uuid s \<longleftrightarrow> s = ''u''"

definition sample_log :: "string \<Rightarrow> log_files" where
  "sample_log c = \<lparr>lf_log = Some (1, c), lf_one = None, lf_two = None\<rparr>"

definition sample_start :: bw_world where
  "sample_start =
    (case Tally sample_uuid (sample_log []) 0 Saved NewBWAccountant \<lparr>sf_current = Missing, sf_bak = Missing\<rparr> of
       (a, f) \<Rightarrow> \<lparr>bw_acc = a, bw_disk = f, bw_fs = sample_log [], bw_lines = []\<rparr>)"

definition sample_record :: bw_record where
  "sample_record = \<lparr>br_site = ''u'', br_time = 0, br_request = 5, br_sent = 7\<rparr>"

lemma sample_parse_line: "parseBWRecord sample_uuid sample_line = Some sample_record"
  by code_simp

lemma sample_traffic: "traffic sample_uuid (1970, 1) s [sample_line] = (if s = ''u'' then 12 else 0)"
proof -
  have "bwMonth 0 = (1970, 1)" by code_simp
  then show ?thesis
    using sample_parse_line
    by (auto simp: traffic_def month_records_def List.map_filter_def sample_record_def record_int_def)
qed


end
