(* ===== verification/BandwidthFaults.thy ===== *)
theory BandwidthFaults
  imports BandwidthTally
begin

text \<open>
  What the accountant of \<open>internal/agent/bwtail.go\<close> does with lines that are not finished when
  it reads them and with generations of the log it has missed, and its agreement with the
  recalculation of \<open>recalc.go\<close> when neither happens.
\<close>

section \<open>Unfinished lines\<close>

type_synonym tally_call = "log_files \<times> time \<times> save_outcome"

definition tallies ::
    "(string \<Rightarrow> bool) \<Rightarrow> accountant \<Rightarrow> state_files \<Rightarrow> tally_call list \<Rightarrow> accountant \<times> state_files" where
  "tallies ok_uuid a f calls = foldl (\<lambda>(a, f) (fs, now, outcome). Tally ok_uuid fs now outcome a f) (a, f) calls"

definition call_ok :: "month \<Rightarrow> nat \<Rightarrow> tally_call \<Rightarrow> bool" where
  "call_ok mo ino call \<longleftrightarrow> (case call of (fs, now, _) \<Rightarrow> bwMonth now = mo \<and> map_option fst (lf_log fs) = Some ino)"

definition log_is :: "nat \<Rightarrow> string \<Rightarrow> tally_call \<Rightarrow> bool" where
  "log_is ino c call \<longleftrightarrow> lf_log (fst call) = Some (ino, c)"

lemma tallies_Cons:
  "tallies ok_uuid a f ((fs, now, outcome) # calls)
    = (case Tally ok_uuid fs now outcome a f of (a', f') \<Rightarrow> tallies ok_uuid a' f' calls)"
  by (simp add: tallies_def split: prod.splits)

lemma tallies_append:
  "tallies ok_uuid a f (xs @ ys) = (case tallies ok_uuid a f xs of (a', f') \<Rightarrow> tallies ok_uuid a' f' ys)"
  by (simp add: tallies_def split: prod.splits)

lemma tally_same_log:
  assumes "lf_log fs = Some (ino, c)" and "bwMonth now = mo" and "ba_month a = Some mo" and "ba_cp a = Some (ino, off)"
    and "off \<le> int (length c)"
  shows "fst (Tally ok_uuid fs now outcome a f)
    = fst (readRange ok_uuid a c off)\<lparr>ba_cp := Some (ino, snd (readRange ok_uuid a c off))\<rparr>"
  using assms by (simp add: Tally_def roll_month_def read_log_def Let_def split: prod.splits)

lemma stalled:
  assumes "ba_month a = Some mo" and "ba_cp a = Some (ino, off)" and "off < 0" and "list_all (call_ok mo ino) calls"
  shows "ba_http (fst (tallies ok_uuid a f calls)) = ba_http a"
  using assms
proof (induction calls arbitrary: a f)
  case (Cons call calls)
  obtain fs now outcome where call: "call = (fs, now, outcome)" by (cases call) auto
  obtain c where c: "lf_log fs = Some (ino, c)" "bwMonth now = mo" using Cons.prems(4) call by (auto simp: call_ok_def)
  obtain a' f' where t: "Tally ok_uuid fs now outcome a f = (a', f')" by fastforce
  have "readRange ok_uuid a c off = (a, off)" using Cons.prems(3) by (simp add: readRange_def)
  then have "a' = a\<lparr>ba_cp := Some (ino, off)\<rparr>"
    using tally_same_log [OF c Cons.prems(1,2), of ok_uuid outcome f] Cons.prems(3) t by simp
  then show ?case using Cons call t by (simp add: tallies_Cons)
qed (simp add: tallies_def)

lemma read_unfinished:
  assumes "eol \<notin> set p"
  shows "readRange ok_uuid a (c @ p) (int (length c))
    = (a\<lparr>ba_partial := ba_partial a @ p\<rparr>, int (length c) - int (length (ba_partial a)))"
  using assms by (simp add: readRange_def Let_def lines_of_no_newline)

lemma unfinished_twice:
  assumes "eol \<notin> set p" and "ba_month a = Some mo" and "ba_cp a = Some (ino, int (length c))" and "ba_partial a = []"
    and "call_ok mo ino c1" and "call_ok mo ino c2" and "log_is ino (c @ p) c1" and "log_is ino (c @ p) c2"
  shows "fst (tallies ok_uuid a f [c1, c2]) = a\<lparr>ba_partial := p @ p, ba_cp := Some (ino, int (length c) - int (length p))\<rparr>"
proof -
  obtain fs1 now1 o1 where c1: "c1 = (fs1, now1, o1)" by (cases c1) auto
  obtain fs2 now2 o2 where c2: "c2 = (fs2, now2, o2)" by (cases c2) auto
  have l1: "lf_log fs1 = Some (ino, c @ p)" "bwMonth now1 = mo" and l2: "lf_log fs2 = Some (ino, c @ p)" "bwMonth now2 = mo"
    using assms(5-8) c1 c2 by (auto simp: call_ok_def log_is_def)
  let ?a1 = "a\<lparr>ba_partial := p, ba_cp := Some (ino, int (length c))\<rparr>"
  obtain a1 f1 where t1: "Tally ok_uuid fs1 now1 o1 a f = (a1, f1)" by fastforce
  have a1: "a1 = ?a1"
    using tally_same_log [OF l1 assms(2,3), of ok_uuid o1 f] read_unfinished [OF assms(1)] t1 assms(4) by simp
  then have "fst (Tally ok_uuid fs2 now2 o2 a1 f1) = a\<lparr>ba_partial := p @ p, ba_cp := Some (ino, int (length c) - int (length p))\<rparr>"
    using tally_same_log [OF l2, of a1 "int (length c)" ok_uuid o2 f1] read_unfinished [OF assms(1)] assms(2) by simp
  then show ?thesis using t1 c1 c2 by (simp add: tallies_def)
qed

text \<open>An unfinished line stops the accounting: when a fresh generation of the log begins with a
  line that two tallies in a row find unfinished, the read position becomes negative, and from
  then on nothing written to this log is ever counted, whatever it holds.\<close>

theorem unfinished_line_stalls:
  assumes "p \<noteq> []" and "eol \<notin> set p" and "ba_month a = Some mo" and "ba_cp a = Some (ino, 0)" and "ba_partial a = []"
    and "list_all (call_ok mo ino) (c1 # c2 # calls)" and "log_is ino p c1" and "log_is ino p c2"
  shows "ba_http (fst (tallies ok_uuid a f (c1 # c2 # calls))) = ba_http a"
proof -
  obtain a' f' where two: "tallies ok_uuid a f [c1, c2] = (a', f')" by fastforce
  have "a' = a\<lparr>ba_partial := p @ p, ba_cp := Some (ino, 0 - int (length p))\<rparr>"
    using unfinished_twice [of p a mo ino "[]" c1 c2 ok_uuid f] assms two by simp
  then have "ba_http (fst (tallies ok_uuid a' f' calls)) = ba_http a"
    using stalled [of a' mo ino "- int (length p)" calls ok_uuid f'] assms by simp
  moreover have "tallies ok_uuid a f (c1 # c2 # calls) = tallies ok_uuid a' f' calls"
    using tallies_append [of ok_uuid a f "[c1, c2]" calls] two by simp
  ultimately show ?thesis by simp
qed

lemma unfinished_line_stalls_witness:
  "ba_http (fst (tallies sample_uuid (NewBWAccountant\<lparr>ba_month := Some (1970, 1), ba_cp := Some (1, 0)\<rparr>) \<lparr>sf_current = Missing, sf_bak = Missing\<rparr>
     [(sample_log ''u 1970'', 0, Saved), (sample_log ''u 1970'', 1, Saved), (sample_log sample_line, 2, Saved)])) ''u'' = None"
proof -
  have m: "bwMonth 0 = (1970, 1)" "bwMonth 1 = (1970, 1)" "bwMonth 2 = (1970, 1)" by code_simp+
  have "list_all (call_ok (1970, 1) 1) [(sample_log ''u 1970'', 0, Saved), (sample_log ''u 1970'', 1, Saved), (sample_log sample_line, 2, Saved)]"
    by (simp add: call_ok_def sample_log_def m)
  then show ?thesis
    using unfinished_line_stalls [of "''u 1970''" "NewBWAccountant\<lparr>ba_month := Some (1970, 1), ba_cp := Some (1, 0)\<rparr>" "(1970, 1)" 1
        "(sample_log ''u 1970'', 0, Saved)" "(sample_log ''u 1970'', 1, Saved)" "[(sample_log sample_line, 2, Saved)]"]
    by (simp add: NewBWAccountant_def eol_def log_is_def sample_log_def)
qed

text \<open>A record that one tally sees unfinished is lost: the kept beginning is put in front of the
  whole line, which then does not parse, and the position moves past it.\<close>

lemma split_record_lost:
  assumes "eol \<notin> set p" and "p \<noteq> []" and "eol \<notin> set q"
    and "ba_month a = Some mo" and "ba_cp a = Some (ino, int (length c))" and "ba_partial a = []"
    and "call_ok mo ino c1" and "call_ok mo ino c2" and "log_is ino (c @ p) c1" and "log_is ino (c @ p @ q @ [eol]) c2"
    and "parseBWRecord ok_uuid (p @ p @ q @ [eol]) = None"
  shows "fst (tallies ok_uuid a f [c1, c2]) = a\<lparr>ba_cp := Some (ino, int (length (c @ p @ q @ [eol])))\<rparr>"
proof -
  obtain fs1 now1 o1 where c1: "c1 = (fs1, now1, o1)" by (cases c1) auto
  obtain fs2 now2 o2 where c2: "c2 = (fs2, now2, o2)" by (cases c2) auto
  have l1: "lf_log fs1 = Some (ino, c @ p)" "bwMonth now1 = mo"
    and l2: "lf_log fs2 = Some (ino, c @ p @ q @ [eol])" "bwMonth now2 = mo"
    using assms(7-10) c1 c2 by (auto simp: call_ok_def log_is_def)
  obtain a1 f1 where t1: "Tally ok_uuid fs1 now1 o1 a f = (a1, f1)" by fastforce
  have a1: "a1 = a\<lparr>ba_partial := p, ba_cp := Some (ino, int (length c))\<rparr>"
    using tally_same_log [OF l1 assms(4,5), of ok_uuid o1 f] read_unfinished [OF assms(1)] t1 assms(6) by simp
  have "lines_of (p @ q @ [eol]) = ([p @ q @ [eol]], [])"
    using lines_of_line [of "p @ q" "[]"] assms(1,3) by simp
  then have "readRange ok_uuid a1 (c @ p @ q @ [eol]) (int (length c))
      = (a1\<lparr>ba_partial := []\<rparr>, int (length (c @ p @ q @ [eol])))"
    using assms(11) by (simp add: readRange_def Let_def take_line_def a1 parseLine_def)
  then have "fst (Tally ok_uuid fs2 now2 o2 a1 f1) = a\<lparr>ba_cp := Some (ino, int (length (c @ p @ q @ [eol])))\<rparr>"
    using tally_same_log [OF l2, of a1 "int (length c)" ok_uuid o2 f1] assms(4,6) a1 by simp
  then show ?thesis using t1 c1 c2 by (simp add: tallies_def)
qed

text \<open>Records are billed again: when three tallies in a row find the same unfinished line
  \<open>p\<close> at the end of the log, the third reads the last \<open>length p\<close> bytes before it a second time
  (here they hold the rest \<open>l\<close> of a line and the complete lines \<open>ls\<close>). The lines \<open>ls\<close> are counted
  twice, and the unfinished record itself, when its four fields are already there, is counted
  although its line has not ended.\<close>

theorem records_billed_again:
  assumes "eol \<notin> set p" and "length (concat (l # ls)) = length p" and "list_all full_line (l # ls)"
    and "ba_month a = Some mo" and "ba_cp a = Some (ino, int (length c))" and "ba_partial a = []"
    and "c = d @ concat (l # ls)"
    and "\<forall>call \<in> {c1, c2, c3}. call_ok mo ino call \<and> log_is ino (c @ p) call"
  shows "bytes_at (ba_http (fst (tallies ok_uuid a f [c1, c2, c3]))) site
    = bytes_at (ba_http a) site + word_of_int (traffic ok_uuid mo site ((p @ p @ l) # ls))"
proof -
  obtain fs3 now3 o3 where c3: "c3 = (fs3, now3, o3)" by (cases c3) auto
  have l3: "lf_log fs3 = Some (ino, c @ p)" "bwMonth now3 = mo" using assms(8) c3 by (auto simp: call_ok_def log_is_def)
  obtain a2 f2 where two: "tallies ok_uuid a f [c1, c2] = (a2, f2)" by fastforce
  have a2: "a2 = a\<lparr>ba_partial := p @ p, ba_cp := Some (ino, int (length d))\<rparr>"
    using unfinished_twice [OF assms(1,4,5,6), of c1 c2 ok_uuid f] assms(2,7,8) two by simp
  have rest: "lines_of (concat (l # ls) @ p) = (l # ls, p)"
    using lines_of_lines [OF assms(3), of p] lines_of_no_newline [OF assms(1)] by simp
  have "p \<noteq> []" using assms(2,3) by (auto simp: full_line_def)
  let ?b = "foldl (take_line ok_uuid) a2 (l # ls)"
  have "ba_http (fst (readRange ok_uuid a2 (c @ p) (int (length d)))) = ba_http ?b"
    using rest \<open>p \<noteq> []\<close> by (simp add: readRange_def Let_def assms(7))
  then have "ba_http (fst (tallies ok_uuid a f [c1, c2, c3])) = ba_http ?b"
    using tallies_append [of ok_uuid a f "[c1, c2]" "[c3]"] two c3
      tally_same_log [OF l3, of a2 "int (length d)" ok_uuid o3 f2] a2 assms(4,7)
    by (simp add: tallies_def split: prod.splits)
  moreover have "bytes_at (ba_http ?b) site
      = bytes_at (ba_http a) site + word_of_int (traffic ok_uuid mo site ((p @ p @ l) # ls))"
  proof -
    have first: "take_line ok_uuid a2 l = take_line ok_uuid (a2\<lparr>ba_partial := []\<rparr>) (p @ p @ l)"
      by (simp add: take_line_def a2)
    have "bytes_at (ba_http (foldl (take_line ok_uuid) (a2\<lparr>ba_partial := []\<rparr>) ((p @ p @ l) # ls))) site
        = bytes_at (ba_http a) site + word_of_int (traffic ok_uuid mo site ((p @ p @ l) # ls))"
      using take_lines(1) [of "a2\<lparr>ba_partial := []\<rparr>" mo ok_uuid "(p @ p @ l) # ls" site] assms(4) by (simp add: a2)
    then show ?thesis by (simp add: first)
  qed
  ultimately show ?thesis by simp
qed

text \<open>A generation of the log is lost when two rotations fall between two tallies: the generation
  the position belongs to is drained from \<open>.2\<close>, the one in \<open>.1\<close> is never read.\<close>

lemma double_rotation_loses:
  assumes "lf_log fs = Some (new, c)" and "lf_one fs = Some (mid, lost)" and "lf_two fs = Some (ino, old)"
    and "new \<noteq> ino" and "mid \<noteq> ino" and "whole old" and "whole c" and "off = int (length old)"
    and "ba_month a = Some (bwMonth now)" and "ba_cp a = Some (ino, off)" and "ba_partial a = []"
  shows "bytes_at (ba_http (fst (Tally ok_uuid fs now outcome a f))) site
    = bytes_at (ba_http a) site + word_of_int (traffic ok_uuid (bwMonth now) site (fst (lines_of c)))"
proof -
  have rest: "snd (lines_of c) = []"
  proof (rule ccontr)
    assume "snd (lines_of c) \<noteq> []"
    moreover from this have "last c = last (snd (lines_of c))" "c \<noteq> []" using lines_of_concat_eq [of c] by (metis last_appendR, auto)
    ultimately show False using assms(7) lines_of_rest [of c] by (auto simp: whole_def) (metis last_in_set)
  qed
  then have c: "drop (nat 0) c = concat (fst (lines_of c))" using lines_of_concat_eq [of c] by simp
  have "generation fs ino = Some old" using assms(2,3,5) by (simp add: generation_def)
  moreover have "readRange ok_uuid a old off = (a, off)"
    using readRange_lines [of a "bwMonth now" off old "[]" ok_uuid] assms(8,9,11) by simp
  moreover have "readRange ok_uuid a c 0 = (foldl (take_line ok_uuid) a (fst (lines_of c)), int (length c))"
    by (rule readRange_lines [OF assms(11,9) _ _ c lines_of_full]) simp_all
  moreover have "roll_month a now = a" using assms(9) by (simp add: roll_month_def)
  moreover have "a\<lparr>ba_partial := []\<rparr> = a" using assms(11) by simp
  ultimately show ?thesis
    using assms(1,4,10) take_lines(1) [OF assms(11,9), of ok_uuid "fst (lines_of c)" site]
    by (simp add: Tally_def read_log_def Let_def)
qed

section \<open>Agreement with the recalculation\<close>

text \<open>The first day of the month with a given running number.\<close>

definition first_of :: "int \<Rightarrow> int" where
  "first_of k = days_from_civil (k div 12) (k mod 12 + 1) 1"

lemma first_of_month: "1 \<le> m \<Longrightarrow> m \<le> 12 \<Longrightarrow> first_of (12 * y + (m - 1)) = days_from_civil y m 1"
  by (simp add: first_of_def div_pos_pos_trivial)

lemma index_step:
  fixes q r :: int
  assumes "0 \<le> r" and "r < 12"
  shows "(12 * q + r + 1) div 12 = (if r = 11 then q + 1 else q)" and "(12 * q + r + 1) mod 12 = (if r = 11 then 0 else r + 1)"
proof -
  have "r = 11 \<Longrightarrow> 12 * q + r + 1 = 12 * (q + 1) + 0" "r \<noteq> 11 \<Longrightarrow> 12 * q + r + 1 = 12 * q + (r + 1)" by simp_all
  with assms show "(12 * q + r + 1) div 12 = (if r = 11 then q + 1 else q)"
    using int_div_pos_eq [of "12 * q + r + 1" 12 "q + 1" 0] int_div_pos_eq [of "12 * q + r + 1" 12 q "r + 1"] by simp
  show "(12 * q + r + 1) mod 12 = (if r = 11 then 0 else r + 1)"
    using int_mod_pos_eq [of "12 * q + r + 1" 12 "q + 1" 0] int_mod_pos_eq [of "12 * q + r + 1" 12 q "r + 1"] assms by simp
qed

lemma first_of_step: "first_of (k + 1) = first_of k + month_len (k div 12) (k mod 12 + 1)"
proof -
  define q r where "q = k div 12" and "r = k mod 12"
  have k: "k = 12 * q + r" and r: "0 \<le> r" "r < 12" by (simp_all add: q_def r_def)
  have m: "1 \<le> r + 1" "r + 1 \<le> 12" using r by linarith+
  have "first_of (k + 1) = days_from_civil (if r = 11 then q + 1 else q) ((if r = 11 then 0 else r + 1) + 1) 1"
    using index_step [OF r, of q] by (simp only: first_of_def k)
  then show ?thesis using next_month_first [OF m, of q]
    by (cases "r = 11") (simp_all add: first_of_def next_month_def q_def [symmetric] r_def [symmetric])
qed

lemma first_of_mono: "j \<le> k \<Longrightarrow> first_of j \<le> first_of k"
proof (induction k rule: int_ge_induct)
  case (step k)
  then show ?case using first_of_step [of k] month_len_pos [of "k div 12" "k mod 12 + 1"] by simp
qed simp

lemma month_of_day:
  assumes "1 \<le> m" "m \<le> 12"
  shows "fst (civil_of_day n) = y \<and> fst (snd (civil_of_day n)) = m
    \<longleftrightarrow> days_from_civil y m 1 \<le> n \<and> n \<le> days_from_civil y m 1 + month_len y m - 1"
proof -
  obtain y' m' d where c: "civil_of_day n = (y', m', d)" by (cases "civil_of_day n") auto
  have s: "1 \<le> m'" "m' \<le> 12" "1 \<le> d" "d \<le> month_len y' m'" "days_from_civil y' m' d = n"
    using civil_of_day_spec [OF c] by auto
  have n: "n = days_from_civil y' m' 1 + (d - 1)" using s(5) by (simp add: days_from_civil_def)
  let ?k = "12 * y + (m - 1)" and ?k' = "12 * y' + (m' - 1)"
  have len: "first_of (?k + 1) = first_of ?k + month_len y m" "first_of (?k' + 1) = first_of ?k' + month_len y' m'"
    using first_of_step [of ?k] first_of_step [of ?k'] assms s(1,2) by (simp_all add: div_pos_pos_trivial)
  have mine: "first_of ?k' \<le> n" "n < first_of (?k' + 1)"
    using n s(3,4) len(2) first_of_month [OF s(1,2), of y'] by auto
  have "days_from_civil y m 1 \<le> n \<and> n \<le> days_from_civil y m 1 + month_len y m - 1 \<longleftrightarrow> ?k = ?k'"
  proof
    assume "days_from_civil y m 1 \<le> n \<and> n \<le> days_from_civil y m 1 + month_len y m - 1"
    then have "first_of ?k \<le> n" "n < first_of (?k + 1)" using len(1) first_of_month [OF assms, of y] by auto
    then have "first_of ?k < first_of (?k' + 1)" "first_of ?k' < first_of (?k + 1)" using mine by linarith+
    then have "\<not> ?k' + 1 \<le> ?k" "\<not> ?k + 1 \<le> ?k'" using first_of_mono leD by blast+
    then show "?k = ?k'" by linarith
  next
    assume k: "?k = ?k'"
    have "first_of ?k \<le> n" using mine(1) unfolding k .
    then have lo: "days_from_civil y m 1 \<le> n" unfolding first_of_month [OF assms] .
    have "n < first_of (?k + 1)" using mine(2) unfolding k .
    then have "n < days_from_civil y m 1 + month_len y m" unfolding len(1) first_of_month [OF assms] .
    then show "days_from_civil y m 1 \<le> n \<and> n \<le> days_from_civil y m 1 + month_len y m - 1"
      using lo by simp
  qed
  moreover have "y' = y \<and> m' = m" if "?k = ?k'"
  proof -
    have "\<not> y < y'" "\<not> y' < y" using that assms s(1,2) by linarith+
    then show ?thesis using that by simp
  qed
  ultimately show ?thesis using c by (metis fst_conv snd_conv)
qed

lemma bwMonth_days:
  assumes "1 \<le> m" "m \<le> 12"
  shows "bwMonth t = (y, m) \<longleftrightarrow>
    days_from_civil y m 1 \<le> day_of t \<and> day_of t \<le> days_from_civil y m 1 + month_len y m - 1"
  using month_of_day [OF assms, of "t div day_ns" y] by (auto simp: bwMonth_def day_of_def split: prod.splits)

lemma trim_eol_eol: "trim_eol (l @ [eol]) = trim_eol l"
  by (simp add: trim_eol_def)

lemma parse_butlast: "full_line l \<Longrightarrow> parseBWRecord ok_uuid (butlast l) = parseBWRecord ok_uuid l"
  by (auto simp: full_line_def parseBWRecord_def trim_eol_eol)

text \<open>The recalculation agrees with the live accounting: over generations of the log made of
  complete lines shorter than the scanner's buffer, the total of a recalculation of all days of
  a month for a site is exactly the traffic the accountant attributes to that site and month.\<close>

theorem recalculation_agrees:
  assumes "1 \<le> m" and "m \<le> 12" and "list_all full_line ls" and "list_all (\<lambda>l. length l \<le> scan_cap) ls"
    and "traffic ok_uuid (y, m) site ls < 2 ^ 63"
  shows "sint (ro_total (recalcScan ok_uuid [Some (concat ls)] site
      (days_from_civil y m 1) (days_from_civil y m 1 + month_len y m - 1))) = traffic ok_uuid (y, m) site ls"
proof -
  let ?f = "days_from_civil y m 1" and ?t = "days_from_civil y m 1 + month_len y m - 1"
  have lines: "lines_of (concat ls) = (ls, [])" using lines_of_lines [OF assms(3), of "[]"] by simp
  have "length (butlast l) < scan_cap" if "l \<in> set ls" for l
  proof -
    have "l \<noteq> []" "length l \<le> scan_cap" using assms(3,4) that by (auto simp: list_all_iff full_line_def)
    then show ?thesis by (cases l) auto
  qed
  then have "file_lines [Some (concat ls)] = map butlast ls"
    using lines by (simp add: file_lines_def scan_lines_def takeWhile_eq_all_conv)
  moreover have "List.map_filter (parseBWRecord ok_uuid) (map butlast ls) = List.map_filter (parseBWRecord ok_uuid) ls"
    using assms(3) by (induction ls) (auto simp: List.map_filter_def parse_butlast)
  moreover have "in_range site ?f ?t = (\<lambda>r. br_site r = site \<and> bwMonth (br_time r) = (y, m))"
    using bwMonth_days [OF assms(1,2)] by (auto simp: in_range_def)
  ultimately have "matches ok_uuid site ?f ?t (file_lines [Some (concat ls)]) = month_records ok_uuid (y, m) site ls"
    by (simp add: matches_def month_records_def)
  then have "ro_total (recalcScan ok_uuid [Some (concat ls)] site ?f ?t) = word_of_int (traffic ok_uuid (y, m) site ls)"
  proof -
    have "sum_list (map record_bytes rs) = word_of_int (sum_list (map record_int rs))" for rs
      by (induction rs) (simp_all add: record_bytes_int)
    then show ?thesis
      using \<open>matches ok_uuid site ?f ?t (file_lines [Some (concat ls)]) = month_records ok_uuid (y, m) site ls\<close>
      by (simp add: recalc_total traffic_def)
  qed
  then show ?thesis
    using assms(5) traffic_nonneg [of ok_uuid "(y, m)" site ls]
    by (simp add: sint_sbintrunc' signed_take_bit_int_eq_self)
qed

lemma recalculation_agrees_witness:
  "sint (ro_total (recalcScan sample_uuid [Some (concat [sample_line])] ''u'' (days_from_civil 1970 1 1)
     (days_from_civil 1970 1 1 + month_len 1970 1 - 1))) = 12"
proof -
  have "full_line sample_line"
    unfolding full_line_def sample_line_def by (intro exI [where x = "''u 1970-01-01T00:00:00Z 5 7''"]) (simp add: eol_def)
  moreover have "length sample_line \<le> scan_cap" by (simp add: sample_line_def scan_cap_def)
  ultimately show ?thesis
    using recalculation_agrees [of 1 "[sample_line]" sample_uuid 1970 "''u''"] by (simp add: sample_traffic)
qed

definition tail_line :: string where
  "tail_line = ''u 1970-01-01T00:00:00Z 5 7 '' @ [CHR 0x22]"

definition filler_line :: string where
  "filler_line = ''u 1970-01-01T00:00:00Z 5 7 '' @ [eol]"

lemma records_billed_again_witness:
  "bytes_at (ba_http (fst (tallies sample_uuid
      (NewBWAccountant\<lparr>ba_month := Some (1970, 1), ba_cp := Some (1, int (length filler_line))\<rparr>)
      \<lparr>sf_current = Missing, sf_bak = Missing\<rparr>
      [(sample_log (filler_line @ tail_line), 0, Saved), (sample_log (filler_line @ tail_line), 1, Saved),
       (sample_log (filler_line @ tail_line), 2, Saved)]))) ''u'' = 12"
proof -
  let ?c = "\<lambda>t. (sample_log (filler_line @ tail_line), t, Saved)"
  have m: "bwMonth 0 = (1970, 1)" "bwMonth 1 = (1970, 1)" "bwMonth 2 = (1970, 1)" by code_simp+
  have "full_line filler_line"
    unfolding full_line_def filler_line_def by (intro exI [where x = "''u 1970-01-01T00:00:00Z 5 7 ''"]) (simp add: eol_def)
  moreover have "eol \<notin> set tail_line" "length filler_line = length tail_line"
    by (simp_all add: tail_line_def filler_line_def eol_def)
  moreover have "parseBWRecord sample_uuid (tail_line @ tail_line @ filler_line) = Some sample_record" by code_simp
  then have "traffic sample_uuid (1970, 1) ''u'' [tail_line @ tail_line @ filler_line] = 12"
    using m(1) by (simp add: traffic_def month_records_def List.map_filter_def sample_record_def record_int_def)
  moreover have "\<forall>call \<in> {?c 0, ?c 1, ?c 2}. call_ok (1970, 1) 1 call \<and> log_is 1 (filler_line @ tail_line) call"
    by (simp add: call_ok_def log_is_def sample_log_def m)
  ultimately show ?thesis
    using records_billed_again [of tail_line filler_line "[]"
        "NewBWAccountant\<lparr>ba_month := Some (1970, 1), ba_cp := Some (1, int (length filler_line))\<rparr>" "(1970, 1)" 1
        filler_line "[]" "?c 0" "?c 1" "?c 2" sample_uuid "\<lparr>sf_current = Missing, sf_bak = Missing\<rparr>" "''u''"]
    by (simp add: NewBWAccountant_def bytes_at_def)
qed

end
