(* ===== verification/Spec2Isabelle.thy ===== *)
theory Spec2Isabelle
  imports DnsStore DomainProperties AgentLifecycleProperties AuthProperties TokenProperties ArtifactProperties JobQueue WebsiteLifecycle PortAlloc BillingApi NginxRender RequestGuards BandwidthFaults
begin

text \<open>
  A verification library for the control plane of EpicPanel, a hosting panel written in Go
  (\<open>src/backend\<close>). The control plane is an HTTP server over PostgreSQL; agents on the servers
  poll it for jobs and report their outcome. The Go code is translated definition by definition:
  a row is a record, a table is a list of rows, a statement with its WHERE guard is an operation
  on lists, a handler is a function from the state and the request to the new state and a result
  of a sum type, a regular expression is a function on strings (strings are byte lists). Times
  and durations are integers of nanoseconds. One SQL statement and one mutex section is one
  atomic step, and interleavings are runs of such steps.

  \<^bold>\<open>Parts and theories.\<close>

  \<^item> \<open>Prelude\<close>: updates and deletions on lists of rows, and the locales for guarded updates
    (\<open>row_update\<close>, \<open>status_flip\<close>, \<open>once_flip\<close>) that every store interprets.
  \<^item> \<open>GoStrings\<close>, \<open>GoTime\<close>, \<open>GoNet\<close>: what the program uses of Go's \<open>strings\<close>, \<open>strconv\<close>,
    \<open>time\<close> and \<open>net\<close>.
  \<^item> \<open>JobQueue\<close> (\<open>internal/jobs/store.go\<close>, the job console of \<open>api/phase6_adminview.go\<close>, the
    pruning of \<open>api/scheduler.go\<close>): the table of agent jobs, its leases and retries.
  \<^item> \<open>WebsiteStore\<close>, \<open>WebsiteLifecycle\<close>, \<open>PortAlloc\<close> (\<open>internal/websites\<close>, \<open>internal/ports\<close>):
    website rows and their status, the lifecycle handlers, the claim and result endpoints of the
    agent, the allocation of backend ports.
  \<^item> \<open>BillingCore\<close>, \<open>BillingStore\<close>, \<open>BillingInvariants\<close>, \<open>BillingGateway\<close>, \<open>BillingService\<close>,
    \<open>BillingFlows\<close>, \<open>BillingProperties\<close>, \<open>BillingEngine\<close>, \<open>BillingApi\<close> (\<open>internal/billing\<close>,
    \<open>api/phase10_billing.go\<close>, \<open>api/scheduler_billing.go\<close>): the subscription state machine,
    the billing tables, the payment gateways, checkout, webhooks and renewals, the engines that
    turn a state change into jobs, the loops and the endpoints.
  \<^item> \<open>NginxSnippet\<close>, \<open>NginxValidate\<close>, \<open>NginxSite\<close>, \<open>NginxRender\<close> (\<open>internal/nginxcfg\<close>,
    \<open>agent/nginx.go\<close>): the customer's web server configuration, parsed, validated against
    the directive registry and rendered into the server block.
  \<^item> \<open>Organizations\<close> (\<open>internal/organizations\<close>, \<open>auth/middleware.go\<close>): slugs, roles,
    memberships, the principal of a request and the role guard.
  \<^item> \<open>Totp\<close>, \<open>Authentication\<close>, \<open>AuthProperties\<close> (\<open>internal/auth\<close>, \<open>internal/users\<close>,
    \<open>internal/secretbox\<close>, \<open>cmd/api/reset_password.go\<close>): accounts, sessions, one-time codes,
    challenges and recovery codes.
  \<^item> \<open>ApiTokens\<close>, \<open>TokenProperties\<close> (\<open>internal/apitokens\<close>): tokens of organizations, service accounts
    and platform keys, with the guards in front of their routes.
  \<^item> \<open>GoUrl\<close>, \<open>Domains\<close>, \<open>DomainServing\<close>, \<open>DomainProperties\<close> (\<open>internal/domains\<close>,
    \<open>api/server.go\<close>, \<open>api/scheduler.go\<close>): domains, redirects and certificates of a website, the
    desired state of its serving, the reconcile and the renewal and retry scans.
  \<^item> \<open>DnsRecords\<close>, \<open>DnsStore\<close>, \<open>DnsZoneFile\<close> (\<open>internal/dns\<close>, \<open>agent/dns_zone_ops.go\<close>): zones
    and records, their publication and the zone file the agent renders.
  \<^item> \<open>GoPath\<close>, \<open>NginxVhost\<close>, \<open>VhostProperties\<close> (\<open>agent/nginx.go\<close>): the server blocks of a site,
    grouped by document root, its stubs, redirects and legacy rules.
  \<^item> \<open>BackendRender\<close>, \<open>BackendProperties\<close> (\<open>agent/webserver_ops.go\<close>): the sites of Apache and
    OpenLiteSpeed and the registration in the server file of OpenLiteSpeed.
  \<^item> \<open>AgentLifecycle\<close>, \<open>AgentLifecycleProperties\<close> (\<open>agent/lifecycle_ops.go\<close>, \<open>agent/atomic.go\<close>):
    suspending, terminating and resuming the site files, with the validated swap and the backups.
  \<^item> \<open>BandwidthLog\<close>, \<open>BandwidthTally\<close>, \<open>BandwidthFaults\<close> (\<open>agent/bwtail.go\<close>, \<open>agent/bw_state.go\<close>,
    \<open>agent/recalc.go\<close>): the records of the access log, the accountant that tails it across
    rotations and restarts, and the schedules where it miscounts.
  \<^item> \<open>RequestGuards\<close> (\<open>internal/httpapi\<close>, \<open>internal/permissions\<close>, \<open>internal/orgauth\<close>): scopes
    of API tokens, the administrator gate, cross-site requests, the client's address, replayed
    agent frames, the limit on WebSocket connections, permissions of roles and tokens.

  \<^bold>\<open>How the parts interact.\<close> A request passes the guards of \<open>RequestGuards\<close> and the role guard of
  \<open>Organizations\<close>; a lifecycle handler of \<open>WebsiteLifecycle\<close> changes a website row and enqueues
  a job of \<open>JobQueue\<close>; the agent claims the job, reports its result, and the result endpoint
  flips the website row again. The billing service drives the same chain through its engines:
  the state of the world in \<open>BillingEngine\<close> pairs the billing tables with the panel of
  \<open>WebsiteLifecycle\<close>. The validated configuration of \<open>NginxSite\<close> travels in a job's payload and is
  rendered by the agent with \<open>NginxRender\<close>, inside the server block of \<open>NginxVhost\<close>; the domains,
  certificates and redirects of \<open>Domains\<close> reach the same block through the desired state of
  \<open>DomainServing\<close>. \<open>AgentLifecycle\<close> acts on the files these renderers produce. \<open>Authentication\<close>
  makes the sessions whose principal \<open>Organizations\<close> checks.

  \<^bold>\<open>What the lemmas show.\<close> For each store: its rows keep an invariant under every operation and
  every run, guarded updates change at most one row and only from the states they name. For the
  queue: leases are exclusive, attempts are bounded, keys are idempotent. For billing: payments
  and invoices are recorded once, totals and states are lawful in every reachable state of all
  endpoints and loops together. For the configuration: an accepted snippet contains only
  registered directives of its context, parsing undoes rendering, and a valid document is
  rendered without loss. For organizations and guards: an organization keeps its owner, a token
  stays within its organization and scopes, a frame is not replayed, the limiter counts exactly.
  For authentication: one administrator, a challenge used once, no session of a protected account
  without its factor, exactly three accepted codes. For domains and zones: the rows satisfy the
  types the renderers need, a name is served once, a published zone is read back as it was stored.
  For the agent: every domain is in one server block, document roots stay inside the site, a resume
  restores the vhost of before the suspension, an enabled vhost stays valid, every logged byte is
  counted once when rotations and restarts follow the documented order.
  Several properties state behaviour that contradicts a comment of the code or its evident
  intent; each names the concrete consequence.

  \<^bold>\<open>Bounds and fuel.\<close> Loops are structural or have a measure (collapsing dashes, code points,
  groups of an IPv6 address, chunks of bits, the scan for variable references, steps through the months), so
  no definition needs fuel except the runs of steps, whose length is that of the event list. Money
  is \<open>int\<close> with the code's checks; where 64-bit arithmetic wraps (\<open>ParseSizeBytes\<close>, duration
  products) the wrap is written out.

  \<^bold>\<open>Parameters.\<close> Code outside the repository is an argument: the payload encoder, the HMAC and
  the JSON decoder of the fake gateway, SHA-256, HMAC-SHA1, bcrypt, AES-GCM and base64 in the
  authentication, the files and commands of a node (validation, reload, writes), the environment, the probe of a free port, the UUID parser
  and printer. Failures of the database connection itself are not modelled.

  \<^bold>\<open>Not modelled.\<close> The agent's executors that only run system commands (users, databases, PHP
  pools, deployments, installers), file managers and application installers, backups, alerts,
  metrics, traffic analysis, the floating-point planners of resources, read-only listings, audit
  inserts, e-mail and the event bus: their effects are outside the program, or they only join
  rows for display.
\<close>

end
